(* ===== verification/Prelude.thy ===== *)
theory Prelude
  imports Main "HOL-Library.Sublist" "HOL-Library.Char_ord" "HOL-Library.Option_ord"
begin

text \<open>
  Shared vocabulary of the development: byte strings with the \<open>std::string\<close> operations the
  sources use (\<open>find\<close>, \<open>replace\<close>, \<open>substr\<close>, trimming loops, \<open>std::getline\<close> splitting, case
  mapping), machine integers of width 32, decimal printing and \<open>std::stoi\<close>, and the two interface
  locales most components instantiate: a codec (a decoder that inverts an encoder) and a framed
  codec (a decoder that reads one frame off a byte stream).
\<close>

named_theorems str_simps \<open>evaluation and algebra of the std::string operations\<close>
named_theorems int_range \<open>facts about the 32-bit range\<close>

section \<open>Bytes and strings\<close>

text \<open>A \<open>std::string\<close> is a list of bytes, i.e. of \<open>char\<close>.\<close>

definition byte_of :: "char \<Rightarrow> nat" where
  "byte_of c = of_char c"

lemma byte_of_less: "byte_of c < 256"
  by (simp add: byte_of_def)

definition starts_with :: "string \<Rightarrow> string \<Rightarrow> bool" where
  "starts_with p s = (take (length p) s = p)"

lemma starts_with_iff: "starts_with p s \<longleftrightarrow> (\<exists>t. s = p @ t)"
  by (auto simp: starts_with_def) (metis append_take_drop_id)

lemma starts_with_append [simp]: "starts_with p (p @ t)"
  by (simp add: starts_with_def)

lemma starts_with_Nil [simp]: "starts_with [] s"
  by (simp add: starts_with_def)

lemma starts_with_code [code]:
  "starts_with [] s = True"
  "starts_with (a # p) [] = False"
  "starts_with (a # p) (b # s) = (a = b \<and> starts_with p s)"
  by (auto simp: starts_with_def)

lemmas starts_with_Cons [simp] = starts_with_code(2,3)

text \<open>\<open>s.find(p)\<close>: the least index at which \<open>p\<close> occurs, \<open>None\<close> for \<open>npos\<close>.\<close>

fun str_find :: "string \<Rightarrow> string \<Rightarrow> nat option" where
  "str_find p [] = (if p = [] then Some 0 else None)"
| "str_find p (c # cs) =
     (if starts_with p (c # cs) then Some 0 else map_option Suc (str_find p cs))"

definition str_contains :: "string \<Rightarrow> string \<Rightarrow> bool" where
  "str_contains p s = (str_find p s \<noteq> None)"

lemma str_find_SomeD: "str_find p s = Some i \<Longrightarrow> s = take i s @ p @ drop (i + length p) s"
proof (induction s arbitrary: i)
  case Nil
  then show ?case by (auto split: if_splits)
next
  case (Cons c cs)
  show ?case
  proof (cases "starts_with p (c # cs)")
    case True
    with Cons.prems show ?thesis
      by (auto simp: starts_with_def) (metis append_take_drop_id)
  next
    case False
    with Cons.prems obtain j where "str_find p cs = Some j" "i = Suc j" by auto
    with Cons.IH [of j] show ?thesis by simp
  qed
qed

lemma str_find_None_iff: "str_find p s = None \<longleftrightarrow> (\<forall>u v. s \<noteq> u @ p @ v)"
proof (induction s)
  case Nil
  then show ?case by auto
next
  case (Cons c cs)
  show ?case
  proof
    assume a: "str_find p (c # cs) = None"
    then have n: "\<not> starts_with p (c # cs)" and f: "str_find p cs = None"
      by (auto split: if_splits)
    show "\<forall>u v. c # cs \<noteq> u @ p @ v"
    proof (intro allI notI)
      fix u v
      assume e: "c # cs = u @ p @ v"
      show False
      proof (cases u)
        case Nil
        with e n show ?thesis by (auto simp: starts_with_iff)
      next
        case (Cons x u')
        with e f Cons.IH show ?thesis by auto
      qed
    qed
  next
    assume a: "\<forall>u v. c # cs \<noteq> u @ p @ v"
    then have "\<not> starts_with p (c # cs)"
      by (metis append_Nil starts_with_iff)
    moreover have "str_find p cs = None"
      using a by (metis Cons.IH append_Cons)
    ultimately show "str_find p (c # cs) = None" by simp
  qed
qed

lemma str_contains_iff: "str_contains p s \<longleftrightarrow> (\<exists>u v. s = u @ p @ v)"
  using str_find_None_iff [of p s] by (auto simp: str_contains_def)

lemma str_contains_refl [simp]: "str_contains s s"
  unfolding str_contains_iff by (metis append.left_neutral append.right_neutral)

lemma str_contains_Nil_iff [simp]: "str_contains p [] \<longleftrightarrow> p = []"
  by (simp add: str_contains_def)

text \<open>\<open>s.replace(i, n, t)\<close> for an index inside the string.\<close>

definition str_replace :: "nat \<Rightarrow> nat \<Rightarrow> string \<Rightarrow> string \<Rightarrow> string" where
  "str_replace i n t s = take i s @ t @ drop (i + n) s"

text \<open>The loops \<open>while (!s.empty() && P(s.back())) s.pop_back()\<close> and
  \<open>while (!s.empty() && P(s.front())) s.erase(s.begin())\<close>.\<close>

definition rtrim :: "(char \<Rightarrow> bool) \<Rightarrow> string \<Rightarrow> string" where
  "rtrim P s = rev (dropWhile P (rev s))"

definition ltrim :: "(char \<Rightarrow> bool) \<Rightarrow> string \<Rightarrow> string" where
  "ltrim P s = dropWhile P s"

abbreviation rtrim_spaces :: "string \<Rightarrow> string" where
  "rtrim_spaces s \<equiv> rtrim (\<lambda>c. c = CHR '' '') s"

lemma rtrim_last: "rtrim P s \<noteq> [] \<Longrightarrow> \<not> P (last (rtrim P s))"
  by (simp add: rtrim_def last_rev hd_dropWhile)

lemma rtrim_prefix: "\<exists>t. s = rtrim P s @ t \<and> list_all P t"
proof (intro exI conjI)
  show "s = rtrim P s @ rev (takeWhile P (rev s))"
    unfolding rtrim_def
    by (metis rev_append rev_rev_ident takeWhile_dropWhile_id)
  show "list_all P (rev (takeWhile P (rev s)))"
    by (auto simp: list_all_iff dest: set_takeWhileD)
qed

lemma rtrim_idem [simp]: "rtrim P (rtrim P s) = rtrim P s"
  by (simp add: rtrim_def)

lemma rtrim_Nil [simp]: "rtrim P [] = []"
  by (simp add: rtrim_def)

lemma set_rtrim: "set (rtrim P s) \<subseteq> set s"
  by (auto simp: rtrim_def dest: set_dropWhileD)

text \<open>The loop \<open>while (std::getline(stream, item, d))\<close> over a whole string.\<close>

fun getlines :: "char \<Rightarrow> string \<Rightarrow> string list" where
  "getlines d [] = []"
| "getlines d (c # cs) =
     (if c = d then [] # getlines d cs
      else (case getlines d cs of [] \<Rightarrow> [[c]]
            | l # ls \<Rightarrow> (c # l) # ls))"

lemma getlines_no_delim: "l \<in> set (getlines d s) \<Longrightarrow> d \<notin> set l"
  by (induction s arbitrary: l) (force split: list.splits if_splits)+

lemma getlines_concat: "concat (getlines d s) = filter (\<lambda>c. c \<noteq> d) s"
  by (induction s) (auto split: list.splits)

lemma set_getlines: "l \<in> set (getlines d s) \<Longrightarrow> set l \<subseteq> set s"
proof -
  assume "l \<in> set (getlines d s)"
  then have "set l \<subseteq> set (concat (getlines d s))" by auto
  then show ?thesis by (auto simp: getlines_concat)
qed

text \<open>The carriage return a line may end with is taken off.\<close>

definition strip_cr :: "string \<Rightarrow> string" where
  "strip_cr l = (if l \<noteq> [] \<and> last l = CHR 0x0D then butlast l else l)"

text \<open>\<open>::tolower\<close> and \<open>::toupper\<close> on bytes (the C locale).\<close>

definition to_lower :: "char \<Rightarrow> char" where
  "to_lower c = (if 65 \<le> byte_of c \<and> byte_of c \<le> 90 then char_of (byte_of c + 32) else c)"

definition to_upper :: "char \<Rightarrow> char" where
  "to_upper c = (if 97 \<le> byte_of c \<and> byte_of c \<le> 122 then char_of (byte_of c - 32) else c)"

lemma to_upper_idem [simp]: "to_upper (to_upper c) = to_upper c"
  by (auto simp: to_upper_def byte_of_def)

lemma to_lower_idem [simp]: "to_lower (to_lower c) = to_lower c"
  by (auto simp: to_lower_def byte_of_def)

definition is_digit :: "char \<Rightarrow> bool" where
  "is_digit c = (48 \<le> byte_of c \<and> byte_of c \<le> 57)"

definition is_space :: "char \<Rightarrow> bool" where
  "is_space c = (byte_of c = 32 \<or> (9 \<le> byte_of c \<and> byte_of c \<le> 13))"

section \<open>Integers of width 32\<close>

definition in_int :: "int \<Rightarrow> bool" where
  "in_int n = (- 2147483648 \<le> n \<and> n \<le> 2147483647)"

lemma in_int_numeral [int_range, simp]:
  "in_int 0" "in_int 1" "in_int (- 1)"
  "in_int (numeral w) \<longleftrightarrow> (numeral w :: int) \<le> 2147483647"
  "in_int (- numeral w) \<longleftrightarrow> (numeral w :: int) \<le> 2147483648"
  by (auto simp: in_int_def)

text \<open>
  Signed 32-bit addition as g++ compiles it: the result is reduced to the two's complement range.
\<close>

definition wrap32 :: "int \<Rightarrow> int" where
  "wrap32 n = (n + 2147483648) mod 4294967296 - 2147483648"

lemma in_int_wrap32 [int_range, simp]: "in_int (wrap32 n)"
  by (simp add: in_int_def wrap32_def)

lemma wrap32_id [int_range, simp]: "in_int n \<Longrightarrow> wrap32 n = n"
  by (simp add: in_int_def wrap32_def)

section \<open>Decimal text\<close>

fun nat_digits :: "nat \<Rightarrow> string" where
  "nat_digits n =
     (if n < 10 then [char_of (48 + n)] else nat_digits (n div 10) @ [char_of (48 + n mod 10)])"

declare nat_digits.simps [simp del]

text \<open>\<open>std::to_string\<close> of an integer.\<close>

definition to_string :: "int \<Rightarrow> string" where
  "to_string n = (if n < 0 then CHR ''-'' # nat_digits (nat (- n)) else nat_digits (nat n))"

definition digit_val :: "char \<Rightarrow> nat" where
  "digit_val c = byte_of c - 48"

definition digits_val :: "string \<Rightarrow> nat" where
  "digits_val s = foldl (\<lambda>a c. 10 * a + digit_val c) 0 s"

datatype conv_error = Invalid_argument | Out_of_range

text \<open>
  \<open>std::stoi\<close> / \<open>std::stoll\<close>: skip white space, an optional sign, then as many digits as there are;
  no digit is \<open>invalid_argument\<close>, a value outside the type is \<open>out_of_range\<close>, and what follows the
  digits is ignored.
\<close>

definition sto_parse :: "int \<Rightarrow> int \<Rightarrow> string \<Rightarrow> conv_error + int" where
  "sto_parse lo hi s =
     (let t = dropWhile is_space s;
          neg = (t \<noteq> [] \<and> hd t = CHR ''-'');
          u = (if t \<noteq> [] \<and> (hd t = CHR ''-'' \<or> hd t = CHR ''+'') then tl t else t);
          ds = takeWhile is_digit u;
          v = (if neg then - int (digits_val ds) else int (digits_val ds))
      in if ds = [] then Inl Invalid_argument
         else if v < lo \<or> hi < v then Inl Out_of_range
         else Inr v)"

definition stoi :: "string \<Rightarrow> conv_error + int" where
  "stoi s = sto_parse (- 2147483648) 2147483647 s"

definition stoll :: "string \<Rightarrow> conv_error + int" where
  "stoll s = sto_parse (- 9223372036854775808) 9223372036854775807 s"

lemma digits_val_append: "digits_val (s @ [c]) = 10 * digits_val s + digit_val c"
  by (simp add: digits_val_def)

lemma digit_val_char_of: "(k::nat) < 10 \<Longrightarrow> digit_val (char_of (48 + k)) = k"
  by (simp add: digit_val_def byte_of_def)

lemma is_digit_char_of: "(k::nat) < 10 \<Longrightarrow> is_digit (char_of (48 + k))"
  by (simp add: is_digit_def byte_of_def)

lemma nat_digits_is_digit: "list_all is_digit (nat_digits n)"
proof (induction n rule: nat_digits.induct)
  case (1 n)
  then show ?case
    by (subst nat_digits.simps) (auto simp: is_digit_char_of)
qed

lemma nat_digits_nonempty [simp]: "nat_digits n \<noteq> []"
  by (subst nat_digits.simps) simp

lemma digits_val_nat_digits [simp]: "digits_val (nat_digits n) = n"
proof (induction n rule: nat_digits.induct)
  case (1 n)
  show ?case
  proof (cases "n < 10")
    case True
    then show ?thesis
      by (subst nat_digits.simps) (simp add: digits_val_def digit_val_char_of)
  next
    case False
    with 1 have "digits_val (nat_digits (n div 10)) = n div 10" by simp
    with False show ?thesis
      by (subst nat_digits.simps) (simp add: digits_val_append digit_val_char_of)
  qed
qed

lemma takeWhile_digits: "takeWhile is_digit (nat_digits n) = nat_digits n"
  using nat_digits_is_digit by (simp add: list_all_iff)

lemma hd_nat_digits: "is_digit (hd (nat_digits n))"
  using nat_digits_is_digit [of n] by (cases "nat_digits n") auto

lemma not_digit_sign: "\<not> is_digit (CHR ''-'')" "\<not> is_digit (CHR ''+'')"
  by (simp_all add: is_digit_def byte_of_def)

lemma digit_not_space: "is_digit c \<Longrightarrow> \<not> is_space c"
  by (auto simp: is_digit_def is_space_def)

lemma sto_parse_digits:
  assumes "lo \<le> int n" "int n \<le> hi"
  shows "sto_parse lo hi (nat_digits n) = Inr (int n)"
proof -
  have d: "dropWhile is_space (nat_digits n) = nat_digits n"
    using digit_not_space [OF hd_nat_digits [of n]]
    by (cases "nat_digits n") auto
  have h: "hd (nat_digits n) \<noteq> CHR ''-''" "hd (nat_digits n) \<noteq> CHR ''+''"
    using hd_nat_digits [of n] not_digit_sign by auto
  show ?thesis
    using assms by (simp add: sto_parse_def d h takeWhile_digits)
qed

lemma sto_parse_neg_digits:
  assumes "lo \<le> - int n" "- int n \<le> hi"
  shows "sto_parse lo hi (CHR ''-'' # nat_digits n) = Inr (- int n)"
proof -
  have "\<not> is_space (CHR ''-'')" by (simp add: is_space_def byte_of_def)
  then show ?thesis
    using assms by (simp add: sto_parse_def takeWhile_digits)
qed

lemma sto_parse_to_string:
  "lo \<le> n \<Longrightarrow> n \<le> hi \<Longrightarrow> sto_parse lo hi (to_string n) = Inr n"
  using sto_parse_digits [of lo "nat n" hi] sto_parse_neg_digits [of lo "nat (- n)" hi]
  by (auto simp: to_string_def)

lemma stoi_to_string [simp]: "in_int n \<Longrightarrow> stoi (to_string n) = Inr n"
  by (simp add: stoi_def in_int_def sto_parse_to_string)

lemma stoi_in_int: "stoi s = Inr v \<Longrightarrow> in_int v"
  by (auto simp: stoi_def sto_parse_def in_int_def Let_def split: if_splits)

lemma sto_parse_out_of_range:
  assumes "n < lo \<or> hi < n"
  shows "sto_parse lo hi (to_string n) = Inl Out_of_range"
proof (cases "n < 0")
  case True
  have "\<not> is_space (CHR ''-'')" by (simp add: is_space_def byte_of_def)
  with True assms show ?thesis
    by (auto simp: to_string_def sto_parse_def takeWhile_digits)
next
  case False
  have d: "dropWhile is_space (nat_digits (nat n)) = nat_digits (nat n)"
    using digit_not_space [OF hd_nat_digits [of "nat n"]]
    by (cases "nat_digits (nat n)") auto
  have h: "hd (nat_digits (nat n)) \<noteq> CHR ''-''" "hd (nat_digits (nat n)) \<noteq> CHR ''+''"
    using hd_nat_digits [of "nat n"] not_digit_sign by auto
  from False assms show ?thesis
    by (auto simp: to_string_def sto_parse_def d h takeWhile_digits)
qed

lemma stoi_to_string_overflow: "\<not> in_int n \<Longrightarrow> stoi (to_string n) = Inl Out_of_range"
  unfolding stoi_def by (rule sto_parse_out_of_range) (auto simp: in_int_def)

lemma to_string_nonempty [simp]: "to_string n \<noteq> []"
  by (simp add: to_string_def)

lemma to_string_inject [simp]: "to_string m = to_string n \<longleftrightarrow> m = n"
proof
  assume e: "to_string m = to_string n"
  have "Inr m = sto_parse (min m n) (max m n) (to_string m)"
    by (rule sto_parse_to_string [symmetric]) auto
  also have "\<dots> = Inr n"
    unfolding e by (rule sto_parse_to_string) auto
  finally show "m = n" by simp
qed simp

section \<open>Interfaces\<close>

text \<open>A decoder that inverts an encoder on the valid values.\<close>

locale codec =
  fixes enc :: "'a \<Rightarrow> 'b"
    and dec :: "'b \<Rightarrow> 'a option"
    and valid :: "'a \<Rightarrow> bool"
  assumes dec_enc: "valid x \<Longrightarrow> dec (enc x) = Some x"
begin

lemma enc_inj: "valid x \<Longrightarrow> valid y \<Longrightarrow> enc x = enc y \<Longrightarrow> x = y"
  using dec_enc by (metis option.inject)

lemma enc_inj_on: "inj_on enc {x. valid x}"
  by (auto intro!: inj_onI enc_inj)

end

text \<open>
  A decoder that reads one frame off the front of a byte stream and returns the rest. Reading a
  concatenation of frames returns the encoded values in order, whatever follows.
\<close>

fun read_frames :: "('b list \<Rightarrow> ('a \<times> 'b list) option) \<Rightarrow> nat \<Rightarrow> 'b list \<Rightarrow> ('a list \<times> 'b list) option" where
  "read_frames rd 0 bs = Some ([], bs)"
| "read_frames rd (Suc n) bs =
     (case rd bs of None \<Rightarrow> None
      | Some (x, bs') \<Rightarrow>
          (case read_frames rd n bs' of None \<Rightarrow> None | Some (xs, r) \<Rightarrow> Some (x # xs, r)))"

locale frame_codec =
  fixes emit :: "'a \<Rightarrow> 'b list"
    and parse :: "'b list \<Rightarrow> ('a \<times> 'b list) option"
    and valid :: "'a \<Rightarrow> bool"
  assumes parse_emit: "valid x \<Longrightarrow> parse (emit x @ rest) = Some (x, rest)"
begin

lemma read_frames_emit:
  "list_all valid xs \<Longrightarrow>
    read_frames parse (length xs) (concat (map emit xs) @ rest) = Some (xs, rest)"
  by (induction xs) (auto simp: parse_emit)

lemma emit_inj: "valid x \<Longrightarrow> valid y \<Longrightarrow> emit x = emit y \<Longrightarrow> x = y"
  using parse_emit [of x "[]"] parse_emit [of y "[]"] by simp

end

sublocale frame_codec \<subseteq> codec emit "\<lambda>bs. map_option fst (parse bs)" valid
  by unfold_locales (use parse_emit [of _ "[]"] in auto)

text \<open>
  A step that keeps an invariant: what every event handler, plugin and background task promises
  of the state it works on. Any sequence of such steps keeps it.
\<close>

locale preserves =
  fixes step :: "'e \<Rightarrow> 's \<Rightarrow> 's"
    and inv :: "'s \<Rightarrow> bool"
  assumes step_inv: "inv s \<Longrightarrow> inv (step e s)"
begin

lemma fold_inv: "inv s \<Longrightarrow> inv (fold step es s)"
  by (induction es arbitrary: s) (auto intro: step_inv)

end

text \<open>Decimal printing and \<open>stoi\<close> are a codec on the 32-bit range.\<close>

interpretation decimal: codec to_string "\<lambda>s. case stoi s of Inl _ \<Rightarrow> None | Inr v \<Rightarrow> Some v" in_int
  by unfold_locales simp

end
