(* ===== verification/Core.thy ===== *)
theory Core
  imports Prelude
begin

text \<open>
  The pure part of src/core/core.cpp and src/core/shared_utils.h: the configuration store, URL
  decoding, HTML and RCON escaping, the guarded integer conversions, relay URLs and paging.
  Randomness and the SHA-256 digest are arguments; everything else is computed as the code does.
\<close>

section \<open>Configuration (Config)\<close>

type_synonym config = "string \<rightharpoonup> string"

text \<open>One line of the file: no \<open>=\<close>, or a leading \<open>#\<close>, is skipped; otherwise both sides are trimmed.\<close>

definition config_line :: "config \<Rightarrow> string \<Rightarrow> config" where
  "config_line cfg line =
     (case str_find ''='' line of
        None \<Rightarrow> cfg
      | Some eq \<Rightarrow>
          if hd line = CHR ''#'' then cfg
          else
            let key = rtrim (\<lambda>c. c = CHR '' '' \<or> c = CHR 0x0D) (take eq line);
                val = rtrim (\<lambda>c. c = CHR '' '' \<or> c = CHR 0x0D)
                        (ltrim (\<lambda>c. c = CHR '' '' \<or> c = CHR 0x09) (drop (Suc eq) line))
            in if key = [] then cfg else cfg(key \<mapsto> val))"

text \<open>\<open>None\<close> as file content is a file that cannot be opened.\<close>

definition loadFromFile :: "config \<Rightarrow> string option \<Rightarrow> config" where
  "loadFromFile cfg content =
     (case content of None \<Rightarrow> cfg
      | Some s \<Rightarrow> foldl config_line cfg (getlines (CHR 0x0A) s))"

definition env_keys :: "string list" where
  "env_keys =
    [''PORT'', ''HOST'', ''DATA_DIR'', ''JWT_SECRET'', ''LOG_LEVEL'', ''PLUGINS_DIR'',
     ''RCON_CONNECT_TIMEOUT'', ''RCON_EXECUTE_TIMEOUT'', ''RCON_PING_TIMEOUT'',
     ''RCON_HEALTHCHECK_TIMEOUT'', ''RCON_SEND_TIMEOUT'',
     ''RELAY_CONNECT_TIMEOUT'', ''RELAY_READ_TIMEOUT'',
     ''RELAY_DOWNLOAD_CONNECT_TIMEOUT'', ''RELAY_DOWNLOAD_READ_TIMEOUT'',
     ''HTTP_CONNECT_TIMEOUT'', ''HTTP_READ_TIMEOUT'',
     ''RATE_LIMIT_WINDOW_MS'', ''RATE_LIMIT_MAX_ATTEMPTS'',
     ''SQLITE_BUSY_TIMEOUT'',
     ''WOUND_DEDUP_WINDOW_MS'', ''WOUND_EXPIRY_MS'', ''SUICIDE_DEDUP_WINDOW_MS'',
     ''SCRAMBLE_PLAYTIME_WEIGHT'', ''SCRAMBLE_KD_WEIGHT'',
     ''LEADERBOARD_PAGE_SIZE'', ''WS_CLEANUP_INTERVAL_MS'',
     ''TEAM_SWITCH_DELAY_MS'', ''DEFAULT_RELAY_PORT'', ''TICK_RATE_MAX'']"

definition loadFromEnv :: "config \<Rightarrow> (string \<rightharpoonup> string) \<Rightarrow> config" where
  "loadFromEnv cfg getenv =
     foldl (\<lambda>c k. case getenv k of None \<Rightarrow> c | Some v \<Rightarrow> c(k \<mapsto> v)) cfg env_keys"

definition config_get :: "config \<Rightarrow> string \<Rightarrow> string \<Rightarrow> string" where
  "config_get cfg key fallback = (case cfg key of Some v \<Rightarrow> v | None \<Rightarrow> fallback)"

definition config_getInt :: "config \<Rightarrow> string \<Rightarrow> int \<Rightarrow> int" where
  "config_getInt cfg key fallback =
     (case cfg key of None \<Rightarrow> fallback
      | Some v \<Rightarrow> (case stoi v of Inr n \<Rightarrow> n | Inl _ \<Rightarrow> fallback))"

definition config_getBool :: "config \<Rightarrow> string \<Rightarrow> bool \<Rightarrow> bool" where
  "config_getBool cfg key fallback =
     (case cfg key of None \<Rightarrow> fallback
      | Some v \<Rightarrow> v = ''1'' \<or> v = ''true'' \<or> v = ''yes'')"

definition config_set :: "config \<Rightarrow> string \<Rightarrow> string \<Rightarrow> config" where
  "config_set cfg key val = cfg(key \<mapsto> val)"

lemma loadFromEnv_fold:
  "foldl (\<lambda>c k. case getenv k of None \<Rightarrow> c | Some v \<Rightarrow> c(k \<mapsto> v)) cfg ks key =
     (if key \<in> set ks \<and> getenv key \<noteq> None then getenv key else cfg key)"
  by (induction ks arbitrary: cfg) (auto split: option.splits)

text \<open>The environment overrides the file exactly for the listed keys.\<close>

lemma loadFromEnv_lookup:
  "loadFromEnv cfg getenv key =
     (if key \<in> set env_keys \<and> getenv key \<noteq> None then getenv key else cfg key)"
  by (simp add: loadFromEnv_def loadFromEnv_fold)

lemma config_getInt_in_int:
  "in_int fallback \<Longrightarrow> in_int (config_getInt cfg key fallback)"
  by (auto simp: config_getInt_def split: option.splits sum.splits dest: stoi_in_int)

section \<open>Identifiers and digests\<close>

definition hex_chars :: string where
  "hex_chars = ''0123456789abcdef''"

text \<open>\<open>draw i\<close> is the nibble the generator returns for position \<open>i\<close> of the identifier.\<close>

definition uuid4 :: "(nat \<Rightarrow> nat) \<Rightarrow> string" where
  "uuid4 draw =
     map (\<lambda>i. if i = 8 \<or> i = 13 \<or> i = 18 \<or> i = 23 then CHR ''-''
               else if i = 14 then CHR ''4''
               else let r = draw i
                    in hex_chars ! (if i = 19 then or (and r 3) 8 else r))
         [0..<36]"

definition byte_hex :: "nat \<Rightarrow> string" where
  "byte_hex b = [hex_chars ! (b div 16), hex_chars ! (b mod 16)]"

text \<open>The digest is OpenSSL's; \<open>sprintf("%02x")\<close> prints each of its bytes.\<close>

definition sha256 :: "(string \<Rightarrow> nat list) \<Rightarrow> string \<Rightarrow> string" where
  "sha256 digest input = concat (map byte_hex (digest input))"

definition token_chars :: string where
  "token_chars = ''0123456789abcdefghijklmnopqrstuvwxyz''"

definition randomToken :: "(nat \<Rightarrow> nat) \<Rightarrow> nat \<Rightarrow> string" where
  "randomToken draw len = map (\<lambda>i. token_chars ! draw i) [0..<len]"

lemma length_uuid4 [simp]: "length (uuid4 draw) = 36"
  by (simp add: uuid4_def)

lemma length_randomToken [simp]: "length (randomToken draw n) = n"
  by (simp add: randomToken_def)

lemma length_sha256: "length (sha256 digest s) = 2 * length (digest s)"
  by (simp add: sha256_def length_concat byte_hex_def o_def sum_list_triv)

section \<open>URL decoding\<close>

definition is_hex :: "char \<Rightarrow> bool" where
  "is_hex c = (is_digit c \<or> (65 \<le> byte_of c \<and> byte_of c \<le> 70) \<or> (97 \<le> byte_of c \<and> byte_of c \<le> 102))"

definition hex_val :: "char \<Rightarrow> nat" where
  "hex_val c =
     (if is_digit c then byte_of c - 48
      else if 97 \<le> byte_of c then byte_of c - 87 else byte_of c - 55)"

text \<open>
  \<open>sscanf(p, "%2x", &uval)\<close> followed by the conversion to \<open>char\<close>: leading white space is skipped
  and not counted, at most two characters are converted, the first may be a sign, and \<open>uval\<close> keeps
  its initial value 0 when nothing converts (also for \<open>0x\<close>, whose digit is the 0).
\<close>

definition scan_hex2 :: "string \<Rightarrow> char" where
  "scan_hex2 p =
     (let w = take 2 (dropWhile is_space p);
          neg = (w \<noteq> [] \<and> hd w = CHR ''-'');
          u = (if w \<noteq> [] \<and> (hd w = CHR ''-'' \<or> hd w = CHR ''+'') then tl w else w);
          v = foldl (\<lambda>a c. 16 * a + hex_val c) 0 (takeWhile is_hex u)
      in char_of (if neg then (256 - v mod 256) mod 256 else v :: nat))"

function urlDecode :: "string \<Rightarrow> string" where
  "urlDecode [] = []"
| "urlDecode (c # cs) =
     (if c = CHR ''%'' \<and> 2 < length (c # cs) then scan_hex2 cs # urlDecode (drop 2 cs)
      else if c = CHR ''+'' then CHR '' '' # urlDecode cs
      else c # urlDecode cs)"
  by pat_completeness auto
termination
  by (relation "measure length") auto

text \<open>
  The reference encoder the decoder has to invert: every byte but the unreserved ones is written
  as \<open>%\<close> and two hexadecimal digits (RFC 3986), a blank as \<open>+\<close> (the form encoding).
\<close>

definition url_unreserved :: "char \<Rightarrow> bool" where
  "url_unreserved c =
     (is_digit c \<or> (65 \<le> byte_of c \<and> byte_of c \<le> 90) \<or> (97 \<le> byte_of c \<and> byte_of c \<le> 122) \<or>
      c \<in> {CHR ''-'', CHR ''_'', CHR ''.'', CHR ''~''})"

definition url_encode_char :: "char \<Rightarrow> string" where
  "url_encode_char c =
     (if url_unreserved c then [c]
      else if c = CHR '' '' then ''+''
      else CHR ''%'' # byte_hex (byte_of c))"

definition url_encode :: "string \<Rightarrow> string" where
  "url_encode s = concat (map url_encode_char s)"

lemma scan_hex2_byte_hex:
  assumes "b < 256"
  shows "scan_hex2 (byte_hex b @ rest) = char_of b"
proof -
  have lt: "b div 16 < 16" "b mod 16 < 16" using assms by auto
  have h: "\<forall>k\<in>{..<16}. is_hex (hex_chars ! k) \<and> hex_val (hex_chars ! k) = k \<and>
             \<not> is_space (hex_chars ! k) \<and> hex_chars ! k \<noteq> CHR ''-'' \<and> hex_chars ! k \<noteq> CHR ''+''"
    by code_simp
  from h lt have
    "is_hex (hex_chars ! (b div 16))" "hex_val (hex_chars ! (b div 16)) = b div 16"
    "\<not> is_space (hex_chars ! (b div 16))" "hex_chars ! (b div 16) \<noteq> CHR ''-''"
    "hex_chars ! (b div 16) \<noteq> CHR ''+''"
    "is_hex (hex_chars ! (b mod 16))" "hex_val (hex_chars ! (b mod 16)) = b mod 16"
    by auto
  then show ?thesis
    by (simp add: scan_hex2_def byte_hex_def Let_def)
qed

lemma url_unreserved_plain: "url_unreserved c \<Longrightarrow> c \<noteq> CHR ''%'' \<and> c \<noteq> CHR ''+''"
  by (auto simp: url_unreserved_def is_digit_def byte_of_def)

lemma urlDecode_encode_char: "urlDecode (url_encode_char c @ rest) = c # urlDecode rest"
proof (cases "url_unreserved c \<or> c = CHR '' ''")
  case True
  then show ?thesis by (auto simp: url_encode_char_def dest: url_unreserved_plain)
next
  case False
  then have "url_encode_char c = CHR ''%'' # byte_hex (byte_of c)"
    by (simp add: url_encode_char_def)
  moreover have "drop 2 (byte_hex (byte_of c) @ rest) = rest"
    by (simp add: byte_hex_def)
  ultimately show ?thesis
    using scan_hex2_byte_hex [OF byte_of_less [of c], of rest]
    by (simp add: byte_hex_def byte_of_def)
qed

lemma urlDecode_url_encode: "urlDecode (url_encode s) = s"
  unfolding url_encode_def
  by (induction s) (simp_all add: urlDecode_encode_char del: urlDecode.simps(2))

interpretation url: codec url_encode "\<lambda>s. Some (urlDecode s)" "\<lambda>_. True"
  by unfold_locales (simp add: urlDecode_url_encode)

section \<open>HTML escaping\<close>

definition html_char :: "char \<Rightarrow> string" where
  "html_char c =
     (if c = CHR ''&'' then ''&amp;''
      else if c = CHR ''<'' then ''&lt;''
      else if c = CHR ''>'' then ''&gt;''
      else if c = CHR 0x22 then ''&quot;''
      else [c])"

definition htmlEscape :: "string \<Rightarrow> string" where
  "htmlEscape s = concat (map html_char s)"

text \<open>What a browser reads back for the four entities.\<close>

function html_unescape :: "string \<Rightarrow> string" where
  "html_unescape [] = []"
| "html_unescape (c # cs) =
     (if starts_with ''&amp;'' (c # cs) then CHR ''&'' # html_unescape (drop 4 cs)
      else if starts_with ''&lt;'' (c # cs) then CHR ''<'' # html_unescape (drop 3 cs)
      else if starts_with ''&gt;'' (c # cs) then CHR ''>'' # html_unescape (drop 3 cs)
      else if starts_with ''&quot;'' (c # cs) then CHR 0x22 # html_unescape (drop 5 cs)
      else c # html_unescape cs)"
  by pat_completeness auto
termination
  by (relation "measure length") auto

lemma html_unescape_char: "html_unescape (html_char c @ rest) = c # html_unescape rest"
  by (auto simp: html_char_def)

lemma html_unescape_escape: "html_unescape (htmlEscape s) = s"
  unfolding htmlEscape_def
  by (induction s) (simp_all add: html_unescape_char del: html_unescape.simps(2))

interpretation html: codec htmlEscape "\<lambda>s. Some (html_unescape s)" "\<lambda>_. True"
  by unfold_locales (simp add: html_unescape_escape)

lemma htmlEscape_no_markup:
  "set (htmlEscape s) \<inter> {CHR ''<'', CHR ''>'', CHR 0x22} = {}"
  unfolding htmlEscape_def by (auto simp: html_char_def split: if_splits)

section \<open>RCON escaping (rconSafe)\<close>

definition rcon_char :: "char \<Rightarrow> string" where
  "rcon_char c =
     (if c = CHR 0x22 then [CHR 0x5C, CHR 0x22]
      else if c = CHR 0x5C then [CHR 0x5C, CHR 0x5C]
      else [c])"

definition rconSafe :: "string \<Rightarrow> string" where
  "rconSafe s = concat (map rcon_char s)"

text \<open>
  How a console reads a quoted argument: a backslash makes the next byte literal, an unescaped
  quote ends the argument. \<open>None\<close> is an argument that is never closed.
\<close>

fun read_quoted :: "string \<Rightarrow> (string \<times> string) option" where
  "read_quoted [] = None"
| "read_quoted (c # cs) =
     (if c = CHR 0x22 then Some ([], cs)
      else if c = CHR 0x5C then
        (case cs of [] \<Rightarrow> None
         | d # ds \<Rightarrow> map_option (\<lambda>(a, r). (d # a, r)) (read_quoted ds))
      else map_option (\<lambda>(a, r). (c # a, r)) (read_quoted cs))"

lemma read_quoted_char:
  "read_quoted (rcon_char c @ rest) = map_option (\<lambda>(a, r). (c # a, r)) (read_quoted rest)"
  by (auto simp: rcon_char_def)

lemma read_quoted_rconSafe:
  "read_quoted (rconSafe s @ CHR 0x22 # rest) = Some (s, rest)"
  unfolding rconSafe_def
proof (induction s)
  case Nil
  then show ?case by simp
next
  case (Cons c s)
  then show ?case by (simp add: read_quoted_char del: read_quoted.simps)
qed

interpretation quoted: frame_codec "\<lambda>s. rconSafe s @ [CHR 0x22]" read_quoted "\<lambda>_. True"
  by unfold_locales (simp add: read_quoted_rconSafe)

section \<open>Guarded conversions (safeStoi, safeStoll)\<close>

definition safeStoi :: "string \<Rightarrow> int \<Rightarrow> int" where
  "safeStoi s fallback =
     (if s = [] then fallback else case stoi s of Inr n \<Rightarrow> n | Inl _ \<Rightarrow> fallback)"

definition safeStoll :: "string \<Rightarrow> int \<Rightarrow> int" where
  "safeStoll s fallback =
     (if s = [] then fallback else case stoll s of Inr n \<Rightarrow> n | Inl _ \<Rightarrow> fallback)"

lemma safeStoi_to_string [simp]: "in_int n \<Longrightarrow> safeStoi (to_string n) d = n"
  by (simp add: safeStoi_def)

lemma safeStoi_in_int: "in_int d \<Longrightarrow> in_int (safeStoi s d)"
  by (auto simp: safeStoi_def split: sum.splits dest: stoi_in_int)

lemma safeStoi_overflow: "\<not> in_int n \<Longrightarrow> safeStoi (to_string n) d = d"
  by (simp add: safeStoi_def stoi_to_string_overflow)

section \<open>Relay endpoints (parseRelayUrl)\<close>

record RelayEndpoint =
  ep_host :: string
  ep_port :: int

definition parseRelayUrl :: "string \<Rightarrow> int \<Rightarrow> RelayEndpoint" where
  "parseRelayUrl url defaultPort =
     (let rest = (case str_find ''://'' url of None \<Rightarrow> url | Some p \<Rightarrow> drop (p + 3) url)
      in case str_find '':'' rest of
           Some colon \<Rightarrow>
             (let slash = str_find ''/'' rest;
                  portStr = (case slash of
                       None \<Rightarrow> drop (colon + 1) rest
                     | Some sl \<Rightarrow>
                         \<comment> \<open>\<open>slash - colon - 1\<close> is unsigned: before the colon it wraps to a huge count\<close>
                         if colon < sl then take (sl - colon - 1) (drop (colon + 1) rest)
                         else drop (colon + 1) rest)
              in \<lparr>ep_host = take colon rest,
                  ep_port = (case stoi portStr of Inr p \<Rightarrow> p | Inl _ \<Rightarrow> defaultPort)\<rparr>)
         | None \<Rightarrow>
             \<lparr>ep_host = (case str_find ''/'' rest of None \<Rightarrow> rest | Some sl \<Rightarrow> take sl rest),
              ep_port = defaultPort\<rparr>)"

section \<open>Paging (parsePageParams)\<close>

record PageParams =
  pp_page :: int
  pp_pageSize :: int
  pp_offset :: int
  pp_total :: int
  pp_totalPages :: int

text \<open>\<open>q\<close> is \<open>ctx.query\<close>: the query parameter, or the fallback given.\<close>

definition parsePageParams :: "(string \<Rightarrow> string \<Rightarrow> string) \<Rightarrow> int \<Rightarrow> PageParams" where
  "parsePageParams q maxSize =
     (let page = max 1 (safeStoi (q ''page'' ''1'') 1);
          pageSize = min maxSize (max 1 (safeStoi (q ''page_size'' ''50'') 50))
      in \<lparr>pp_page = page, pp_pageSize = pageSize,
          pp_offset = wrap32 (wrap32 (page - 1) * pageSize), pp_total = 0, pp_totalPages = 0\<rparr>)"

lemma parsePageParams_bounds:
  assumes "1 \<le> maxSize"
  shows "1 \<le> pp_page (parsePageParams q maxSize)"
    and "1 \<le> pp_pageSize (parsePageParams q maxSize)"
    and "pp_pageSize (parsePageParams q maxSize) \<le> maxSize"
  using assms by (auto simp: parsePageParams_def Let_def)

section \<open>Properties\<close>

text \<open>A string escaped by \<open>rconSafe\<close> and closed by a quote is read back by the console as exactly
  that string, with everything after the quote left over: no player name or message can break out of
  its quoted RCON argument.\<close>
theorem rconSafe_no_injection:
  "read_quoted (rconSafe s @ CHR 0x22 # rest) = Some (s, rest)"
  using quoted.parse_emit [of s rest] by simp

text \<open>Percent-decoding inverts percent-encoding on every byte string.\<close>
theorem urlDecode_roundtrip: "urlDecode (url_encode s) = s"
  using url.dec_enc [of s] by simp

text \<open>Escaped HTML holds no markup character, and unescaping returns the original text.\<close>
theorem htmlEscape_safe:
  "html_unescape (htmlEscape s) = s \<and>
   set (htmlEscape s) \<inter> {CHR ''<'', CHR ''>'', CHR 0x22} = {}"
  using html.dec_enc [of s] htmlEscape_no_markup by simp

text \<open>The page parameters are always within bounds, and the offset is that of the page whenever
  it fits in an \<open>int\<close>; for larger page numbers the product has wrapped.\<close>
theorem page_params_bounds:
  assumes "1 \<le> maxSize" "maxSize \<le> 1000"
  shows "1 \<le> pp_page (parsePageParams q maxSize)
    \<and> 1 \<le> pp_pageSize (parsePageParams q maxSize)
    \<and> pp_pageSize (parsePageParams q maxSize) \<le> maxSize
    \<and> (pp_page (parsePageParams q maxSize) \<le> 2000000 \<longrightarrow>
      pp_offset (parsePageParams q maxSize) =
        (pp_page (parsePageParams q maxSize) - 1) * pp_pageSize (parsePageParams q maxSize)
      \<and> 0 \<le> pp_offset (parsePageParams q maxSize))"
proof (intro conjI impI)
  note b = parsePageParams_bounds [OF assms(1), of q]
  show "1 \<le> pp_page (parsePageParams q maxSize)" by (rule b)
  show "1 \<le> pp_pageSize (parsePageParams q maxSize)" by (rule b)
  show "pp_pageSize (parsePageParams q maxSize) \<le> maxSize" by (rule b)
next
  note b = parsePageParams_bounds [OF assms(1), of q]
  let ?p = "pp_page (parsePageParams q maxSize)" and ?s = "pp_pageSize (parsePageParams q maxSize)"
  assume hi: "?p \<le> 2000000"
  have i: "in_int (?p - 1)" using b(1) hi by (simp add: in_int_def)
  have "(?p - 1) * ?s \<le> 2000000 * 1000"
    using b hi assms by (intro mult_mono) auto
  moreover have "0 \<le> (?p - 1) * ?s" using b by (intro mult_nonneg_nonneg) auto
  ultimately have j: "in_int ((?p - 1) * ?s)" by (simp add: in_int_def)
  have "pp_offset (parsePageParams q maxSize) = wrap32 (wrap32 (?p - 1) * ?s)"
    by (simp add: parsePageParams_def Let_def)
  with i j \<open>0 \<le> (?p - 1) * ?s\<close>
  show "pp_offset (parsePageParams q maxSize) = (?p - 1) * ?s" "0 \<le> pp_offset (parsePageParams q maxSize)"
    by simp_all
qed

theorem page_params_bounds_witness:
  "pp_offset (parsePageParams (\<lambda>k f. if k = ''page'' then ''3'' else f) 100) = 100"
proof -
  let ?q = "\<lambda>k f. if k = ''page'' then ''3'' else f"
  have p: "pp_page (parsePageParams ?q 100) = 3" "pp_pageSize (parsePageParams ?q 100) = 50"
    by (simp_all add: parsePageParams_def safeStoi_def stoi_def sto_parse_def is_space_def
        is_digit_def byte_of_def digits_val_def digit_val_def)
  show ?thesis using page_params_bounds [of 100 ?q] by (simp add: p)
qed

end
