(* ===== verification/Encoding.thy ===== *)
theory Encoding
  imports Core "HOL-Library.Word"
begin

text \<open>
  The byte encodings of src/core/auth.cpp: \<open>hexEncode\<close> (salts, hashes, tokens), \<open>base64Encode\<close> and
  \<open>base64Decode\<close>. Bytes are 8-bit words and the accumulators are 32-bit words, so every shift and
  wrap-around is the machine's. The lemmas show that the decoder inverts the encoder on every byte
  string although its accumulator overflows, and that hexadecimal text determines the bytes.
\<close>

type_synonym byte = "8 word"

section \<open>Hexadecimal text (hexEncode)\<close>

definition hex_byte :: "byte \<Rightarrow> string" where
  "hex_byte d = [hex_chars ! unat (drop_bit 4 d), hex_chars ! unat (and d 0x0F)]"

definition hexEncode :: "byte list \<Rightarrow> string" where
  "hexEncode data = concat (map hex_byte data)"

lemma length_hexEncode [simp]: "length (hexEncode data) = 2 * length data"
  by (induction data) (simp_all add: hexEncode_def hex_byte_def)

definition unhex_char :: "char \<Rightarrow> nat option" where
  "unhex_char c = (if is_digit c then Some (byte_of c - 48)
                   else if 97 \<le> byte_of c \<and> byte_of c \<le> 102 then Some (byte_of c - 87) else None)"

fun unhex :: "string \<Rightarrow> (byte \<times> string) option" where
  "unhex (a # b # cs) =
     (case (unhex_char a, unhex_char b) of
        (Some x, Some y) \<Rightarrow> Some (word_of_nat (16 * x + y), cs)
      | _ \<Rightarrow> None)"
| "unhex _ = None"

lemma unhex_char_hex: "k < 16 \<Longrightarrow> unhex_char (hex_chars ! k) = Some k"
proof -
  assume k: "k < 16"
  then have "k \<in> set [0,1,2,3,4,5,6,7,8,9,10,11,12,13,14,15]"
    by (simp, arith)
  then show ?thesis
    by (auto simp: hex_chars_def unhex_char_def is_digit_def byte_of_def)
qed

lemma nibbles: "unat (drop_bit 4 (d :: byte)) < 16" "unat (and d 0x0F) < 16"
  "16 * unat (drop_bit 4 d) + unat (and d 0x0F) = unat d"
proof -
  have d: "unat (drop_bit 4 d) = unat d div 16"
    by (simp add: drop_bit_eq_div unat_div)
  have m: "and d 0x0F = take_bit 4 d"
    by (simp add: take_bit_eq_mask mask_eq_exp_minus_1)
  have m': "unat (and d 0x0F) = unat d mod 16"
    by (simp add: m take_bit_eq_mod unat_mod)
  have "unat d < 256" using unsigned_less [of d] by simp
  with d show "unat (drop_bit 4 d) < 16" by simp
  from m' show "unat (and d 0x0F) < 16" by simp
  from d m' show "16 * unat (drop_bit 4 d) + unat (and d 0x0F) = unat d" by simp
qed

lemma unhex_hex_byte: "unhex (hex_byte d @ rest) = Some (d, rest)"
  using nibbles [of d] by (simp add: hex_byte_def unhex_char_hex)

interpretation hex: frame_codec hex_byte unhex "\<lambda>_. True"
  by unfold_locales (rule unhex_hex_byte)

text \<open>Hexadecimal text determines the bytes: two hashes with equal text are equal.\<close>

lemma hexEncode_inject [simp]: "hexEncode xs = hexEncode ys \<longleftrightarrow> xs = ys"
proof
  assume e: "hexEncode xs = hexEncode ys"
  then have l: "length xs = length ys"
    using length_hexEncode [of xs] length_hexEncode [of ys] by simp
  have "read_frames unhex (length xs) (hexEncode xs) = Some (xs, [])"
    "read_frames unhex (length ys) (hexEncode ys) = Some (ys, [])"
    using hex.read_frames_emit [of xs "[]"] hex.read_frames_emit [of ys "[]"]
    by (simp_all add: hexEncode_def list_all_iff)
  with e l show "xs = ys" by (metis option.inject prod.inject)
qed simp

section \<open>Base 64 (base64Encode, base64Decode)\<close>

definition b64_chars :: string where
  "b64_chars = ''ABCDEFGHIJKLMNOPQRSTUVWXYZabcdefghijklmnopqrstuvwxyz0123456789+/''"

definition b64_char :: "32 word \<Rightarrow> char" where
  "b64_char n = b64_chars ! unat (and n 0x3F)"

text \<open>One turn of the loop: three bytes, or the one or two that are left.\<close>

fun base64Encode :: "byte list \<Rightarrow> string" where
  "base64Encode [] = []"
| "base64Encode [a] =
     (let n = push_bit 16 (ucast a)
      in [b64_char (drop_bit 18 n), b64_char (drop_bit 12 n), CHR ''='', CHR ''=''])"
| "base64Encode [a, b] =
     (let n = or (push_bit 16 (ucast a)) (push_bit 8 (ucast b))
      in [b64_char (drop_bit 18 n), b64_char (drop_bit 12 n), b64_char (drop_bit 6 n), CHR ''=''])"
| "base64Encode (a # b # c # ds) =
     (let n = or (or (push_bit 16 (ucast a)) (push_bit 8 (ucast b))) (ucast c)
      in [b64_char (drop_bit 18 n), b64_char (drop_bit 12 n), b64_char (drop_bit 6 n), b64_char n]
         @ base64Encode ds)"

text \<open>The table \<open>t\<close>; \<open>None\<close> is its entry \<open>-1\<close>.\<close>

definition b64_val :: "char \<Rightarrow> nat option" where
  "b64_val ch =
     (let c = byte_of ch
      in if 65 \<le> c \<and> c \<le> 90 then Some (c - 65)
         else if 97 \<le> c \<and> c \<le> 122 then Some (c - 97 + 26)
         else if 48 \<le> c \<and> c \<le> 57 then Some (c - 48 + 52)
         else if c = 43 then Some 62
         else if c = 47 then Some 63
         else None)"

text \<open>
  The decoding loop with its accumulator \<open>val\<close>, a signed 32-bit \<open>int\<close> that is never masked: it
  keeps the sextets of the whole input and drops the oldest bits at the left.
\<close>

definition b64_push :: "32 word \<Rightarrow> 32 word \<Rightarrow> 32 word" where
  "b64_push val t = or (push_bit 6 val) t"

definition b64_out :: "nat \<Rightarrow> 32 word \<Rightarrow> byte" where
  "b64_out bits val = ucast (and (signed_drop_bit bits val) 0xFF)"

fun base64Decode_loop :: "32 word \<Rightarrow> int \<Rightarrow> string \<Rightarrow> byte list" where
  "base64Decode_loop val bits [] = []"
| "base64Decode_loop val bits (c # cs) =
     (if c = CHR ''='' then []
      else case b64_val c of
        None \<Rightarrow> base64Decode_loop val bits cs
      | Some t \<Rightarrow>
          (let val' = b64_push val (word_of_nat t); bits' = bits + 6
           in if 0 \<le> bits' then b64_out (nat bits') val' # base64Decode_loop val' (bits' - 8) cs
              else base64Decode_loop val' bits' cs))"

definition base64Decode :: "string \<Rightarrow> byte list" where
  "base64Decode s = base64Decode_loop 0 (- 8) s"

lemma b64_val_table: "k < 64 \<Longrightarrow> b64_val (b64_chars ! k) = Some k \<and> b64_chars ! k \<noteq> CHR ''=''"
proof -
  assume k: "k < 64"
  have "list_all (\<lambda>k. b64_val (b64_chars ! k) = Some k \<and> b64_chars ! k \<noteq> CHR ''='') [0..<64]"
    by (simp add: upt_rec b64_chars_def b64_val_def byte_of_def Let_def)
  with k show ?thesis by (simp add: list_all_iff)
qed

text \<open>The four sextets of a group.\<close>

definition sextet :: "nat \<Rightarrow> 32 word \<Rightarrow> 32 word" where
  "sextet k n = take_bit 6 (drop_bit k n)"

lemma unat_sextet: "unat (sextet k n) < 64"
  by (simp add: sextet_def take_bit_eq_mod unat_mod)

lemma b64_char_take_bit: "b64_char n = b64_chars ! unat (take_bit 6 n)"
  by (simp add: b64_char_def take_bit_eq_mask mask_eq_exp_minus_1)

lemma low_byte_shift:
  assumes "k \<le> 24"
  shows "b64_out k v = ucast (drop_bit k v)"
  unfolding b64_out_def
proof (rule bit_word_eqI)
  fix n assume "n < LENGTH(8)"
  then have n: "n < 8" by simp
  have ff: "bit (0xFF :: 32 word) n"
    using n bit_mask_iff [of 8 n, where 'a = "32 word"] by (simp add: mask_eq_exp_minus_1)
  from n assms ff show "bit (ucast (and (signed_drop_bit k v) 0xFF) :: byte) n
      \<longleftrightarrow> bit (ucast (drop_bit k v) :: byte) n"
    by (auto simp: bit_simps)
qed

text \<open>What each of the three shifts of a group extracts, whatever the accumulator held before.\<close>

lemma group_byte1:
  "b64_out 4 (b64_push (b64_push v (sextet 18 n)) (sextet 12 n)) = ucast (drop_bit 16 n)"
  by (simp add: low_byte_shift, rule bit_word_eqI) (auto simp: bit_simps b64_push_def sextet_def)

lemma group_byte2:
  "b64_out 2 (b64_push (b64_push v (sextet 12 n)) (sextet 6 n)) = ucast (drop_bit 8 n)"
  by (simp add: low_byte_shift, rule bit_word_eqI) (auto simp: bit_simps b64_push_def sextet_def)

lemma group_byte3:
  "b64_out 0 (b64_push (b64_push v (sextet 6 n)) (sextet 0 n)) = ucast n"
  by (simp add: low_byte_shift, rule bit_word_eqI) (auto simp: bit_simps b64_push_def sextet_def)

lemma loop_sextet:
  "base64Decode_loop v b (b64_chars ! unat (sextet k n) # cs) =
     (let v' = b64_push v (sextet k n); b' = b + 6
      in if 0 \<le> b' then b64_out (nat b') v' # base64Decode_loop v' (b' - 8) cs
         else base64Decode_loop v' b' cs)"
  using b64_val_table [OF unat_sextet, of k n] by simp

lemma loop_pad: "base64Decode_loop v b (CHR ''='' # cs) = []"
  by simp

definition group_word :: "byte \<Rightarrow> byte \<Rightarrow> byte \<Rightarrow> 32 word" where
  "group_word a b c = or (or (push_bit 16 (ucast a)) (push_bit 8 (ucast b))) (ucast c)"

lemma bytes_of_group:
  "ucast (drop_bit 16 (group_word a b c)) = a"
  "ucast (drop_bit 8 (group_word a b c)) = b"
  "ucast (group_word a b c) = c"
    apply (rule bit_word_eqI, auto simp: group_word_def bit_simps dest: bit_imp_le_length)[1]
   apply (rule bit_word_eqI, auto simp: group_word_def bit_simps dest: bit_imp_le_length)[1]
  apply (rule bit_word_eqI, auto simp: group_word_def bit_simps dest: bit_imp_le_length)[1]
  done

lemma encode_group:
  "base64Encode [a] =
     map (\<lambda>k. b64_chars ! unat (sextet k (group_word a 0 0))) [18, 12] @ ''==''"
  "base64Encode [a, b] =
     map (\<lambda>k. b64_chars ! unat (sextet k (group_word a b 0))) [18, 12, 6] @ ''=''"
  "base64Encode (a # b # c # ds) =
     map (\<lambda>k. b64_chars ! unat (sextet k (group_word a b c))) [18, 12, 6, 0] @ base64Encode ds"
  by (simp_all add: Let_def b64_char_take_bit sextet_def group_word_def)

lemma decode_encode_loop: "base64Decode_loop v (- 8) (base64Encode xs) = xs"
proof (induction xs arbitrary: v rule: base64Encode.induct)
  case (2 a)
  show ?case
    unfolding encode_group list.map append.simps
    by (simp add: loop_sextet loop_pad Let_def del: base64Decode_loop.simps(2) add: group_byte1 bytes_of_group)
next
  case (3 a b)
  show ?case
    unfolding encode_group list.map append.simps
    by (simp add: loop_sextet loop_pad Let_def del: base64Decode_loop.simps(2) add: group_byte1 group_byte2 bytes_of_group)
next
  case (4 a b c ds)
  then show ?case
    unfolding encode_group list.map append.simps
    by (simp add: loop_sextet loop_pad Let_def del: base64Decode_loop.simps(2) add: group_byte1 group_byte2 group_byte3 bytes_of_group)
qed simp

interpretation base64: codec base64Encode "\<lambda>s. Some (base64Decode s)" "\<lambda>_. True"
  by unfold_locales (simp add: base64Decode_def decode_encode_loop)

lemma length_base64Encode: "length (base64Encode xs) = (length xs + 2) div 3 * 4"
proof (induction xs rule: base64Encode.induct)
  case (4 a b c ds)
  have "Suc (Suc (Suc (length ds))) + 2 = length ds + 2 + 3" by simp
  then have "(length (a # b # c # ds) + 2) div 3 = (length ds + 2) div 3 + 1" by simp
  with 4 show ?case by (simp add: Let_def)
qed (simp_all add: Let_def)

section \<open>Properties\<close>

text \<open>Decoding inverts encoding for every byte string, although the 32-bit accumulator of the
  decoder overflows after six characters; the encoded length is that of padded base 64.\<close>
theorem base64_roundtrip:
  "base64Decode (base64Encode xs) = xs \<and> length (base64Encode xs) = (length xs + 2) div 3 * 4"
  using base64.dec_enc [of xs] length_base64Encode by simp

end
