(* ===== verification/Json.thy ===== *)
theory Json
  imports Core
begin

text \<open>
  JSON values as nlohmann::json (vendor/json.hpp) holds them, and the readers of the sources:
  \<open>contains\<close>, \<open>value(key, default)\<close> with its type error as \<open>None\<close>, and the tolerant \<open>jsonStr\<close> and
  \<open>jsonInt\<close> of src/core/core.h. Serialisation of a nested value (\<open>dump\<close>) is an argument.
\<close>

text \<open>A number that is not integral is the double \<open>m * 2 ^ e\<close>.\<close>

datatype json =
    JNull
  | JBool bool
  | JInt int
  | JFloat int int
  | JStr string
  | JArr "json list"
  | JObj "(string \<times> json) list"

fun j_lookup :: "json \<Rightarrow> string \<Rightarrow> json option" where
  "j_lookup (JObj kvs) k = map_of kvs k"
| "j_lookup _ k = None"

definition j_contains :: "json \<Rightarrow> string \<Rightarrow> bool" where
  "j_contains j k = (j_lookup j k \<noteq> None)"

fun is_object :: "json \<Rightarrow> bool" where
  "is_object (JObj _) = True"
| "is_object _ = False"

text \<open>\<open>std::to_string(double)\<close>: six decimals, rounded to nearest, ties to even.\<close>

definition div_round_even :: "int \<Rightarrow> int \<Rightarrow> int" where
  "div_round_even a b =
     (let q = a div b; r = a mod b
      in if 2 * r < b \<or> (2 * r = b \<and> even q) then q else q + 1)"

definition double_to_string :: "int \<Rightarrow> int \<Rightarrow> string" where
  "double_to_string m e =
     (let a = \<bar>m\<bar>;
          micro = (if 0 \<le> e then a * 2 ^ nat e * 1000000
                   else div_round_even (a * 1000000) (2 ^ nat (- e)));
          frac = nat_digits (nat (micro mod 1000000))
      in (if m < 0 then ''-'' else []) @ to_string (micro div 1000000) @ ''.'' @
         replicate (6 - length frac) (CHR ''0'') @ frac)"

text \<open>\<open>(int) d\<close>: towards zero; out of range is what the x86 conversion returns.\<close>

definition double_to_int :: "int \<Rightarrow> int \<Rightarrow> int" where
  "double_to_int m e =
     (let a = (if 0 \<le> e then \<bar>m\<bar> * 2 ^ nat e else \<bar>m\<bar> div 2 ^ nat (- e));
          v = (if m < 0 then - a else a)
      in if in_int v then v else - 2147483648)"

definition jsonStr :: "(json \<Rightarrow> string) \<Rightarrow> json \<Rightarrow> string \<Rightarrow> string \<Rightarrow> string" where
  "jsonStr dump j key def =
     (case j_lookup j key of
        None \<Rightarrow> def
      | Some (JStr s) \<Rightarrow> s
      | Some (JInt n) \<Rightarrow> to_string n
      | Some (JFloat m e) \<Rightarrow> double_to_string m e
      | Some (JBool b) \<Rightarrow> (if b then ''1'' else ''0'')
      | Some JNull \<Rightarrow> def
      | Some v \<Rightarrow> dump v)"

definition jsonInt :: "json \<Rightarrow> string \<Rightarrow> int \<Rightarrow> int" where
  "jsonInt j key def =
     (case j_lookup j key of
        Some (JInt n) \<Rightarrow> wrap32 n
      | Some (JFloat m e) \<Rightarrow> double_to_int m e
      | Some (JStr s) \<Rightarrow> (case stoi s of Inr n \<Rightarrow> n | Inl _ \<Rightarrow> def)
      | _ \<Rightarrow> def)"

text \<open>\<open>j.value(key, default)\<close>; \<open>None\<close> is the type error thrown for another type.\<close>

definition value_str :: "json \<Rightarrow> string \<Rightarrow> string \<Rightarrow> string option" where
  "value_str j key def =
     (if \<not> is_object j then None
      else case j_lookup j key of None \<Rightarrow> Some def | Some (JStr s) \<Rightarrow> Some s | _ \<Rightarrow> None)"

definition value_int :: "json \<Rightarrow> string \<Rightarrow> int \<Rightarrow> int option" where
  "value_int j key def =
     (if \<not> is_object j then None
      else case j_lookup j key of
             None \<Rightarrow> Some def
           | Some (JInt n) \<Rightarrow> Some (wrap32 n)
           | Some (JFloat m e) \<Rightarrow> Some (double_to_int m e)
           | Some (JBool b) \<Rightarrow> Some (if b then 1 else 0)
           | _ \<Rightarrow> None)"

definition value_bool :: "json \<Rightarrow> string \<Rightarrow> bool \<Rightarrow> bool option" where
  "value_bool j key def =
     (if \<not> is_object j then None
      else case j_lookup j key of None \<Rightarrow> Some def | Some (JBool b) \<Rightarrow> Some b | _ \<Rightarrow> None)"

lemma jsonInt_in_int: "in_int def \<Longrightarrow> in_int (jsonInt j key def)"
  by (auto simp: jsonInt_def double_to_int_def Let_def in_int_def [of "- 2147483648"]
      split: option.splits json.splits sum.splits dest: stoi_in_int)

text \<open>An integer sent as a number or as text is read alike.\<close>

lemma jsonInt_number_or_text:
  "in_int n \<Longrightarrow> j_lookup j k = Some (JInt n) \<or> j_lookup j k = Some (JStr (to_string n))
     \<Longrightarrow> jsonInt j k d = n"
  by (auto simp: jsonInt_def)

lemma value_str_obj [simp]:
  "value_str (JObj kvs) k d =
     (case map_of kvs k of None \<Rightarrow> Some d | Some (JStr s) \<Rightarrow> Some s | _ \<Rightarrow> None)"
  by (simp add: value_str_def)

end
