(* ===== verification/Database.thy ===== *)
theory Database
  imports Core
begin

text \<open>
  The tables of src/core/database.cpp that the modelled components read and write, with the part of
  SQL the statements use: insertion with AUTOINCREMENT ids, unique indexes and foreign keys (a
  violating INSERT is logged by \<open>Database::exec\<close> and changes nothing), UPDATE and DELETE with a
  condition, \<open>ORDER BY ... DESC LIMIT 1\<close>, \<open>COALESCE\<close>. A NULL is \<open>None\<close>; \<open>Database::rowToMap\<close> reads it
  as the empty string. Text bound to an INTEGER column is converted by its affinity, so such columns
  are integers here and are read back as decimal text by \<open>std::stoi\<close> where the code does so.
  Timestamps (\<open>datetime('now')\<close>, fixed-width text whose order is that of time) are seconds.
\<close>

type_synonym time = int

section \<open>Tables\<close>

record 'r tbl =
  t_rows :: "'r list"
  t_seq :: int

definition t_empty :: "'r tbl" where
  "t_empty = \<lparr>t_rows = [], t_seq = 0\<rparr>"

definition t_insert :: "(int \<Rightarrow> 'r) \<Rightarrow> 'r tbl \<Rightarrow> 'r tbl" where
  "t_insert mk t = \<lparr>t_rows = t_rows t @ [mk (t_seq t + 1)], t_seq = t_seq t + 1\<rparr>"

definition t_update :: "('r \<Rightarrow> bool) \<Rightarrow> ('r \<Rightarrow> 'r) \<Rightarrow> 'r tbl \<Rightarrow> 'r tbl" where
  "t_update P f t = t\<lparr>t_rows := map (\<lambda>r. if P r then f r else r) (t_rows t)\<rparr>"

definition t_delete :: "('r \<Rightarrow> bool) \<Rightarrow> 'r tbl \<Rightarrow> 'r tbl" where
  "t_delete P t = t\<lparr>t_rows := filter (\<lambda>r. \<not> P r) (t_rows t)\<rparr>"

definition t_select :: "('r \<Rightarrow> bool) \<Rightarrow> 'r tbl \<Rightarrow> 'r list" where
  "t_select P t = filter P (t_rows t)"

text \<open>\<open>db.queryOne\<close> on a SELECT without ORDER BY: the first row in rowid order.\<close>

definition t_first :: "('r \<Rightarrow> bool) \<Rightarrow> 'r tbl \<Rightarrow> 'r option" where
  "t_first P t = find P (t_rows t)"

lemma t_rows_simps [simp]:
  "t_rows (t_insert mk t) = t_rows t @ [mk (t_seq t + 1)]"
  "t_rows (t_update P f t) = map (\<lambda>r. if P r then f r else r) (t_rows t)"
  "t_rows (t_delete P t) = filter (\<lambda>r. \<not> P r) (t_rows t)"
  "t_rows t_empty = []"
  by (simp_all add: t_insert_def t_update_def t_delete_def t_empty_def)

lemma t_seq_simps [simp]:
  "t_seq (t_insert mk t) = t_seq t + 1"
  "t_seq (t_update P f t) = t_seq t"
  "t_seq (t_delete P t) = t_seq t"
  by (simp_all add: t_insert_def t_update_def t_delete_def)

lemma find_SomeD: "find P xs = Some x \<Longrightarrow> x \<in> set xs \<and> P x"
  by (auto simp: find_Some_iff)

lemma t_first_Some: "t_first P t = Some r \<Longrightarrow> r \<in> set (t_rows t) \<and> P r"
  by (auto simp: t_first_def find_Some_iff)

lemma t_first_None: "t_first P t = None \<longleftrightarrow> (\<forall>r\<in>set (t_rows t). \<not> P r)"
  by (auto simp: t_first_def find_None_iff)

text \<open>Ids are distinct and no greater than the sequence: kept by every statement.\<close>

definition ids_ok :: "('r \<Rightarrow> int) \<Rightarrow> 'r tbl \<Rightarrow> bool" where
  "ids_ok idf t = (distinct (map idf (t_rows t)) \<and> (\<forall>r\<in>set (t_rows t). idf r \<le> t_seq t))"

lemma ids_ok_insert: "ids_ok idf t \<Longrightarrow> idf (mk (t_seq t + 1)) = t_seq t + 1 \<Longrightarrow> ids_ok idf (t_insert mk t)"
  by (force simp: ids_ok_def)

lemma ids_ok_update:
  assumes "ids_ok idf t" "\<And>r. idf (f r) = idf r"
  shows "ids_ok idf (t_update P f t)"
proof -
  have "map idf (t_rows (t_update P f t)) = map idf (t_rows t)"
    using assms(2) by simp
  moreover have "\<forall>r\<in>set (t_rows (t_update P f t)). idf r \<le> t_seq t"
    using assms by (auto simp: ids_ok_def)
  ultimately show ?thesis using assms(1) by (simp add: ids_ok_def del: t_rows_simps)
qed

lemma ids_ok_delete: "ids_ok idf t \<Longrightarrow> ids_ok idf (t_delete P t)"
  by (auto simp: ids_ok_def distinct_map_filter)

lemma ids_ok_unique:
  "ids_ok idf t \<Longrightarrow> r \<in> set (t_rows t) \<Longrightarrow> r' \<in> set (t_rows t) \<Longrightarrow> idf r = idf r' \<Longrightarrow> r = r'"
  by (auto simp: ids_ok_def distinct_map dest: inj_onD)

text \<open>A loop that updates the selected rows one by one updates exactly the selected rows.\<close>

lemma fold_update_rows:
  assumes "distinct (map idf rs)" "\<And>r. idf (f r) = idf r"
  shows "fold (\<lambda>r. t_update (\<lambda>x. idf x = idf r) f) rs t = t_update (\<lambda>x. idf x \<in> idf ` set rs) f t"
  using assms(1)
proof (induction rs arbitrary: t)
  case Nil
  then show ?case by (simp add: t_update_def)
next
  case (Cons r rs)
  then have "fold (\<lambda>r. t_update (\<lambda>x. idf x = idf r) f) (r # rs) t =
      t_update (\<lambda>x. idf x \<in> idf ` set rs) f (t_update (\<lambda>x. idf x = idf r) f t)"
    by simp
  also have "\<dots> = t_update (\<lambda>x. idf x \<in> idf ` set (r # rs)) f t"
    using Cons.prems by (auto simp: t_update_def assms(2))
  finally show ?case .
qed

lemma t_update_cong: "(\<And>x. x \<in> set (t_rows t) \<Longrightarrow> P x = Q x) \<Longrightarrow> t_update P f t = t_update Q f t"
  by (simp add: t_update_def)

lemma fold_update_selected:
  assumes ok: "ids_ok idf t" and id: "\<And>r. idf (f r) = idf r"
  shows "fold (\<lambda>r. t_update (\<lambda>x. idf x = idf r) f) (t_select P t) t = t_update P f t"
proof -
  have "distinct (map idf (t_select P t))"
    using ok by (simp add: ids_ok_def t_select_def distinct_map_filter)
  then have "fold (\<lambda>r. t_update (\<lambda>x. idf x = idf r) f) (t_select P t) t =
      t_update (\<lambda>x. idf x \<in> idf ` set (t_select P t)) f t"
    by (rule fold_update_rows) (rule id)
  also have "\<dots> = t_update P f t"
  proof (rule t_update_cong)
    fix x assume "x \<in> set (t_rows t)"
    then show "(idf x \<in> idf ` set (t_select P t)) = P x"
      using ids_ok_unique [OF ok] by (fastforce simp: t_select_def)
  qed
  finally show ?thesis .
qed

text \<open>\<open>ORDER BY key DESC LIMIT 1\<close>.\<close>

fun first_max :: "('a \<Rightarrow> 'k::linorder) \<Rightarrow> 'a list \<Rightarrow> 'a option" where
  "first_max k [] = None"
| "first_max k (x # xs) =
     (case first_max k xs of None \<Rightarrow> Some x | Some y \<Rightarrow> if k x < k y then Some y else Some x)"

lemma first_max_None [simp]: "first_max k xs = None \<longleftrightarrow> xs = []"
  by (cases xs) (auto split: option.splits)

lemma first_max_Some: "first_max k xs = Some y \<Longrightarrow> y \<in> set xs \<and> (\<forall>x\<in>set xs. k x \<le> k y)"
  by (induction xs arbitrary: y) (force split: option.splits if_splits)+

definition sql_coalesce :: "'a option \<Rightarrow> 'a option \<Rightarrow> 'a option" where
  "sql_coalesce a b = (case a of None \<Rightarrow> b | Some _ \<Rightarrow> a)"

section \<open>Rows\<close>

record user_row =
  u_id :: int
  u_username :: string
  u_passwordHash :: string
  u_role :: string
  u_status :: string
  u_createdAt :: time
  u_lastLogin :: "time option"
  u_steamId :: "string option"
  u_rejectReason :: "string option"

record session_row =
  s_token :: string
  s_userId :: int
  s_createdAt :: time
  s_expiresAt :: time
  s_lastActivity :: time

record perm_row =
  up_id :: int
  up_userId :: int
  up_permission :: string
  up_granted :: int

record server_row =
  sv_id :: int
  sv_userId :: int
  sv_name :: string
  sv_host :: string
  sv_rconPort :: int
  sv_rconPassword :: string
  sv_createdAt :: time
  sv_updatedAt :: time
  sv_serverApiKey :: "string option"
  sv_notes :: "string option"
  sv_relayApiKey :: "string option"
  sv_relayUrl :: "string option"
  sv_gamePort :: "int option"
  sv_gameExePath :: "string option"
  sv_launchParams :: "string option"
  sv_autoRestart :: int
  sv_gameServerPid :: "int option"
  sv_lastStartedAt :: "time option"
  sv_registerCode :: "string option"
  sv_connectionMode :: string
  sv_logPath :: "string option"
  sv_remoteApiUrl :: "string option"
  sv_remoteApiToken :: "string option"
  sv_apiType :: string
  sv_apiConfig :: string

record member_row =
  m_id :: int
  m_serverId :: int
  m_userId :: int
  m_role :: string
  m_joinedAt :: time

record player_row =
  pr_id :: int
  pr_serverId :: int
  pr_steamId :: string
  pr_name :: string
  pr_playtime :: int
  pr_firstSeen :: time
  pr_lastSeen :: time
  pr_lastIp :: "string option"

record kill_row =
  k_id :: int
  k_serverId :: int
  k_killer :: string
  k_victim :: string
  k_weapon :: string
  k_timestamp :: time

record ban_row =
  b_id :: int
  b_serverId :: int
  b_steamId :: string
  b_playerName :: string
  b_reason :: string
  b_bannedBy :: string
  b_duration :: int
  b_createdAt :: time

record points_row =
  p_id :: int
  p_serverId :: "int option"
  p_steamId :: string
  p_playerName :: "string option"
  p_balance :: int
  p_lifetimeEarned :: int
  p_lastUpdated :: time

record point_log =
  pl_id :: int
  pl_serverId :: int
  pl_steamId :: string
  pl_playerName :: string
  pl_amount :: int
  pl_reason :: string
  pl_operator :: string
  pl_createdAt :: time

record reserved_row =
  rs_id :: int
  rs_serverId :: int
  rs_steamId :: string
  rs_playerName :: string
  rs_addedBy :: string
  rs_createdAt :: time
  rs_expiresAt :: "time option"

record chat_row =
  c_id :: int
  c_serverId :: int
  c_playerName :: string
  c_steamId :: string
  c_message :: string
  c_type :: string
  c_timestamp :: time
  c_roundId :: "int option"
  c_channel :: "string option"

record event_row =
  e_id :: int
  e_serverId :: int
  e_steamId :: string
  e_playerName :: string
  e_eventType :: string
  e_timestamp :: time

record revive_row =
  r_id :: int
  r_serverId :: int
  r_reviverSteamId :: string
  r_reviverName :: string
  r_revivedSteamId :: string
  r_revivedName :: string
  r_timestamp :: time

record squad_event_row =
  q_id :: int
  q_serverId :: int
  q_squadName :: string
  q_creatorName :: string
  q_creatorSteamId :: string
  q_teamIndex :: int
  q_timestamp :: time

record round_row =
  g_id :: int
  g_serverId :: int
  g_map :: string
  g_timestamp :: time

record tk_row =
  tk_id :: int
  tk_serverId :: int
  tk_killerSteamId :: string
  tk_killerName :: string
  tk_victimSteamId :: string
  tk_victimName :: string
  tk_forgiven :: bool
  tk_kicked :: bool
  tk_createdAt :: time
  tk_expiresAt :: time

text \<open>INTEGER columns without a foreign key that receive the text of a request are the text they read back as.\<close>

record op_log =
  op_id :: int
  op_operator :: string
  op_action :: string
  op_target :: string
  op_details :: string
  op_serverId :: string
  op_createdAt :: time

record tick_row =
  ti_id :: int
  ti_serverId :: int
  ti_tickRate :: string
  ti_timestamp :: time

record claim_row =
  cm_id :: int
  cm_serverId :: string
  cm_teamId :: string
  cm_squadId :: string
  cm_squadName :: string
  cm_creatorSteamId :: string
  cm_creatorName :: string
  cm_createdAt :: time

record lock_row =
  sl_id :: int
  sl_serverId :: int
  sl_steamId :: string
  sl_lockedUntil :: "time option"
  sl_reason :: string
  sl_createdAt :: time

record cdk_row =
  ck_id :: int
  ck_code :: string
  ck_rewardType :: string
  ck_rewardValue :: int
  ck_serverId :: "int option"
  ck_maxUses :: int
  ck_usedCount :: int
  ck_expiresAt :: "time option"
  ck_createdAt :: time
  ck_createdBy :: string

record cdk_log =
  cl_id :: int
  cl_code :: string
  cl_serverId :: int
  cl_steamId :: string
  cl_playerName :: string
  cl_rewardType :: string
  cl_rewardValue :: int
  cl_usedAt :: time

record plugin_row =
  pg_id :: int
  pg_userId :: int
  pg_serverId :: "int option"
  pg_name :: string
  pg_version :: string
  pg_enabled :: int
  pg_config :: string
  pg_installedAt :: time

record preset_row =
  pp_id :: int
  pp_userId :: int
  pp_name :: string
  pp_config :: string
  pp_createdAt :: time

record source_row =
  psr_id :: int
  psr_userId :: int
  psr_filename :: string
  psr_source :: "string option"
  psr_compiledPath :: "string option"
  psr_status :: "string option"
  psr_createdAt :: time

text \<open>The columns an INSERT leaves out take the defaults of the schema.\<close>

definition server_defaults ::
  "time \<Rightarrow> int \<Rightarrow> string \<Rightarrow> string \<Rightarrow> int \<Rightarrow> string \<Rightarrow> string option \<Rightarrow> int \<Rightarrow> server_row" where
  "server_defaults now userId name host port pw key i =
     \<lparr>sv_id = i, sv_userId = userId, sv_name = name, sv_host = host, sv_rconPort = port,
      sv_rconPassword = pw, sv_createdAt = now, sv_updatedAt = now, sv_serverApiKey = key,
      sv_notes = None, sv_relayApiKey = None, sv_relayUrl = None, sv_gamePort = None,
      sv_gameExePath = None, sv_launchParams = None, sv_autoRestart = 0, sv_gameServerPid = None,
      sv_lastStartedAt = None, sv_registerCode = None, sv_connectionMode = ''relay'',
      sv_logPath = None, sv_remoteApiUrl = None, sv_remoteApiToken = None, sv_apiType = ''self'',
      sv_apiConfig = ''{}''\<rparr>"

lemma server_defaults_simps [simp]:
  "sv_id (server_defaults now userId name host port pw key i) = i"
  "sv_userId (server_defaults now userId name host port pw key i) = userId"
  "sv_serverApiKey (server_defaults now userId name host port pw key i) = key"
  "sv_relayApiKey (server_defaults now userId name host port pw key i) = None"
  by (simp_all add: server_defaults_def)

section \<open>The database\<close>

record database =
  db_users :: "user_row tbl"
  db_sessions :: "session_row list"
  db_perms :: "perm_row tbl"
  db_servers :: "server_row tbl"
  db_members :: "member_row tbl"
  db_players :: "player_row tbl"
  db_kills :: "kill_row tbl"
  db_bans :: "ban_row tbl"
  db_points :: "points_row tbl"
  db_point_logs :: "point_log tbl"
  db_settings :: "string \<rightharpoonup> string"
  db_reserved :: "reserved_row tbl"
  db_chat_logs :: "chat_row tbl"
  db_events :: "event_row tbl"
  db_revives :: "revive_row tbl"
  db_squad_events :: "squad_event_row tbl"
  db_rounds :: "round_row tbl"
  db_tk :: "tk_row tbl"
  db_op_logs :: "op_log tbl"
  db_ticks :: "tick_row tbl"
  db_claims :: "claim_row tbl"
  db_locks :: "lock_row tbl"
  db_cdk :: "cdk_row tbl"
  db_cdk_logs :: "cdk_log tbl"
  db_plugins :: "plugin_row tbl"
  db_presets :: "preset_row tbl"
  db_sources :: "source_row tbl"

definition empty_db :: database where
  "empty_db =
     \<lparr>db_users = t_empty, db_sessions = [], db_perms = t_empty, db_servers = t_empty,
      db_members = t_empty, db_players = t_empty, db_kills = t_empty, db_bans = t_empty, db_points = t_empty, db_point_logs = t_empty,
      db_settings = Map.empty, db_reserved = t_empty, db_chat_logs = t_empty, db_events = t_empty,
      db_revives = t_empty, db_squad_events = t_empty, db_rounds = t_empty, db_tk = t_empty, db_op_logs = t_empty, db_ticks = t_empty, db_claims = t_empty,
      db_locks = t_empty, db_cdk = t_empty, db_cdk_logs = t_empty,
      db_plugins = t_empty, db_presets = t_empty, db_sources = t_empty\<rparr>"

text \<open>The foreign key \<open>REFERENCES servers(id)\<close> (\<open>PRAGMA foreign_keys=ON\<close>).\<close>

definition server_exists :: "database \<Rightarrow> int \<Rightarrow> bool" where
  "server_exists d sid = (\<exists>s\<in>set (t_rows (db_servers d)). sv_id s = sid)"

section \<open>Settings (getSetting, getSettingInt, getSettingBool)\<close>

definition getSetting :: "database \<Rightarrow> string \<Rightarrow> string \<Rightarrow> string" where
  "getSetting d key fallback =
     (case db_settings d key of
        None \<Rightarrow> fallback
      | Some v \<Rightarrow>
          if 2 \<le> length v \<and> hd v = CHR 0x22 \<and> last v = CHR 0x22 then butlast (tl v) else v)"

definition getSettingInt :: "database \<Rightarrow> string \<Rightarrow> int \<Rightarrow> int" where
  "getSettingInt d key fallback =
     (case db_settings d key of
        None \<Rightarrow> fallback
      | Some v \<Rightarrow>
          (case stoi (if 2 \<le> length v \<and> hd v = CHR 0x22 then butlast (tl v) else v) of
             Inr n \<Rightarrow> n | Inl _ \<Rightarrow> fallback))"

definition getSettingBool :: "database \<Rightarrow> string \<Rightarrow> bool \<Rightarrow> bool" where
  "getSettingBool d key fallback = (getSettingInt d key (if fallback then 1 else 0) \<noteq> 0)"

lemma getSettingInt_in_int: "in_int f \<Longrightarrow> in_int (getSettingInt d k f)"
  by (auto simp: getSettingInt_def Let_def split: option.splits sum.splits dest: stoi_in_int)

lemma getSettingInt_stored:
  "in_int n \<Longrightarrow> db_settings d k = Some (to_string n) \<Longrightarrow> getSettingInt d k f = n"
proof -
  assume a: "in_int n" "db_settings d k = Some (to_string n)"
  have "hd (to_string n) \<noteq> CHR 0x22"
    using hd_nat_digits [of "nat n"] by (auto simp: to_string_def is_digit_def byte_of_def)
  with a show ?thesis by (simp add: getSettingInt_def)
qed

lemma getSetting_quoted:
  "db_settings d k = Some (CHR 0x22 # v @ [CHR 0x22]) \<Longrightarrow> getSetting d k f = v"
  by (simp add: getSetting_def)

text \<open>Settings readers see nothing but the settings table.\<close>

lemma settings_frame:
  "db_settings d = db_settings d' \<Longrightarrow> getSetting d = getSetting d'"
  "db_settings d = db_settings d' \<Longrightarrow> getSettingInt d = getSettingInt d'"
  "db_settings d = db_settings d' \<Longrightarrow> getSettingBool d = getSettingBool d'"
  by (auto simp: getSetting_def getSettingInt_def getSettingBool_def fun_eq_iff)

end
