(* ===== verification/Points.thy ===== *)
theory Points
  imports Database
begin

text \<open>
  The points ledger: \<open>PointsService\<close> (src/core/points_service.cpp) and the points helpers of
  src/core/shared_utils.h. A player's balance on a server is one row of \<open>points\<close>; every movement
  also appends a row to \<open>point_logs\<close>. The lemmas show that a movement changes the balance by exactly
  the amount it logs, and what each operation does on every branch.
\<close>

section \<open>Texts\<close>

definition txt_system :: string where
  "txt_system = [CHR 0xE7, CHR 0xB3, CHR 0xBB, CHR 0xE7, CHR 0xBB, CHR 0x9F]"

definition txt_tk_kill :: string where
  "txt_tk_kill = ''TK'' @ [CHR 0xE5, CHR 0x87, CHR 0xBB, CHR 0xE6, CHR 0x9D, CHR 0x80]"

definition txt_kill :: string where
  "txt_kill = [CHR 0xE5, CHR 0x87, CHR 0xBB, CHR 0xE6, CHR 0x9D, CHR 0x80]"

definition txt_suicide :: string where
  "txt_suicide = [CHR 0xE8, CHR 0x87, CHR 0xAA, CHR 0xE6, CHR 0x9D, CHR 0x80]"

definition txt_revive :: string where
  "txt_revive = [CHR 0xE6, CHR 0x95, CHR 0x91, CHR 0xE6, CHR 0x8F, CHR 0xB4]"

section \<open>Statements\<close>

text \<open>
  \<open>SELECT ... FROM points WHERE steamId=? AND (serverId=? OR serverId IS NULL)
  ORDER BY serverId DESC LIMIT 1\<close>; NULL sorts below every id.
\<close>

definition points_find :: "database \<Rightarrow> int \<Rightarrow> string \<Rightarrow> points_row option" where
  "points_find d sid steam =
     first_max p_serverId
       (t_select (\<lambda>r. p_steamId r = steam \<and> (p_serverId r = Some sid \<or> p_serverId r = None))
         (db_points d))"

text \<open>\<open>INSERT INTO points\<close>: rejected by the foreign key or by the unique index on (serverId, steamId).\<close>

definition points_insert :: "int \<Rightarrow> string \<Rightarrow> string \<Rightarrow> int \<Rightarrow> int \<Rightarrow> time \<Rightarrow> database \<Rightarrow> database" where
  "points_insert sid steam name bal earned now d =
     (if server_exists d sid \<and>
         \<not> (\<exists>r\<in>set (t_rows (db_points d)). p_serverId r = Some sid \<and> p_steamId r = steam)
      then d\<lparr>db_points := t_insert (\<lambda>i. \<lparr>p_id = i, p_serverId = Some sid, p_steamId = steam,
               p_playerName = Some name, p_balance = bal, p_lifetimeEarned = earned,
               p_lastUpdated = now\<rparr>) (db_points d)\<rparr>
      else d)"

definition points_update :: "int \<Rightarrow> (points_row \<Rightarrow> points_row) \<Rightarrow> database \<Rightarrow> database" where
  "points_update i f d = d\<lparr>db_points := t_update (\<lambda>r. p_id r = i) f (db_points d)\<rparr>"

definition log_points :: "int \<Rightarrow> string \<Rightarrow> string \<Rightarrow> int \<Rightarrow> string \<Rightarrow> string \<Rightarrow> time \<Rightarrow> database \<Rightarrow> database" where
  "log_points sid steam name amount reason oper now d =
     d\<lparr>db_point_logs := t_insert (\<lambda>i. \<lparr>pl_id = i, pl_serverId = sid, pl_steamId = steam,
         pl_playerName = name, pl_amount = amount, pl_reason = reason, pl_operator = oper,
         pl_createdAt = now\<rparr>) (db_point_logs d)\<rparr>"

section \<open>PointsService\<close>

text \<open>
  \<open>playerName.empty() ? "" : playerName\<close> is bound as text, never as NULL, so \<open>COALESCE\<close> always
  takes it.
\<close>

definition addPoints ::
  "time \<Rightarrow> int \<Rightarrow> string \<Rightarrow> string \<Rightarrow> int \<Rightarrow> string \<Rightarrow> string \<Rightarrow> database \<Rightarrow> bool \<times> database" where
  "addPoints now sid steam name amount reason oper d =
     (case points_find d sid steam of
        Some existing \<Rightarrow>
          (case stoi (to_string (p_balance existing)) of
             Inl _ \<Rightarrow> (False, d)
           | Inr bal \<Rightarrow>
               let newBal = wrap32 (bal + amount);
                   earned = (if amount > 0 then amount else 0);
                   d1 = points_update (p_id existing)
                     (\<lambda>r. r\<lparr>p_balance := newBal, p_lifetimeEarned := p_lifetimeEarned r + earned,
                            p_playerName := sql_coalesce (Some name) (p_playerName r),
                            p_lastUpdated := now\<rparr>) d
               in (True, log_points sid steam name amount reason oper now d1))
      | None \<Rightarrow>
          let earned = (if amount > 0 then amount else 0);
              d1 = points_insert sid steam name amount earned now d
          in (True, log_points sid steam name amount reason oper now d1))"

text \<open>\<open>SELECT balance FROM points WHERE steamId=? ORDER BY serverId DESC LIMIT 1\<close>.\<close>

definition getBalance :: "database \<Rightarrow> string \<Rightarrow> int" where
  "getBalance d steam =
     (case first_max p_serverId (t_select (\<lambda>r. p_steamId r = steam) (db_points d)) of
        None \<Rightarrow> 0
      | Some r \<Rightarrow> (case stoi (to_string (p_balance r)) of Inl _ \<Rightarrow> 0 | Inr b \<Rightarrow> b))"

definition deductPoints ::
  "time \<Rightarrow> int \<Rightarrow> string \<Rightarrow> string \<Rightarrow> int \<Rightarrow> string \<Rightarrow> string \<Rightarrow> database \<Rightarrow> bool \<times> database" where
  "deductPoints now sid steam name amount reason oper d =
     (case points_find d sid steam of
        None \<Rightarrow> (False, d)
      | Some existing \<Rightarrow>
          (case stoi (to_string (p_balance existing)) of
             Inl _ \<Rightarrow> (False, d)
           | Inr balance \<Rightarrow>
               if balance < amount then (False, d)
               else
                 let newBal = wrap32 (balance - amount);
                     d1 = points_update (p_id existing)
                       (\<lambda>r. r\<lparr>p_balance := newBal, p_lastUpdated := now\<rparr>) d
                 in (True, log_points sid steam name (wrap32 (- amount)) reason oper now d1)))"

definition scoreKill :: "time \<Rightarrow> int \<Rightarrow> string \<Rightarrow> string \<Rightarrow> bool \<Rightarrow> database \<Rightarrow> database" where
  "scoreKill now sid killer name isTeamKill d =
     (if killer = [] then d
      else if isTeamKill
      then snd (addPoints now sid killer name (getSettingInt d ''points_tk'' (- 5)) txt_tk_kill txt_system d)
      else snd (addPoints now sid killer name (getSettingInt d ''points_kill'' 2) txt_kill txt_system d))"

definition scoreSuicide :: "time \<Rightarrow> int \<Rightarrow> string \<Rightarrow> string \<Rightarrow> database \<Rightarrow> database" where
  "scoreSuicide now sid victim name d =
     (if victim = [] then d
      else snd (addPoints now sid victim name (getSettingInt d ''points_suicide'' (- 2)) txt_suicide txt_system d))"

definition scoreRevive :: "time \<Rightarrow> int \<Rightarrow> string \<Rightarrow> string \<Rightarrow> database \<Rightarrow> database" where
  "scoreRevive now sid reviver name d =
     (if reviver = [] then d
      else snd (addPoints now sid reviver name (getSettingInt d ''points_revive'' 1) txt_revive txt_system d))"

section \<open>Helpers of shared_utils.h\<close>

definition getPointsBalance :: "database \<Rightarrow> string \<Rightarrow> int \<Rightarrow> int" where
  "getPointsBalance d steam sid =
     (case points_find d sid steam of None \<Rightarrow> 0 | Some r \<Rightarrow> safeStoi (to_string (p_balance r)) 0)"

definition adjustPoints ::
  "time \<Rightarrow> int \<Rightarrow> string \<Rightarrow> string \<Rightarrow> int \<Rightarrow> string \<Rightarrow> string \<Rightarrow> database \<Rightarrow> bool \<times> database" where
  "adjustPoints now sid steam name amount reason oper d =
     (let earned = (if amount > 0 then amount else 0)
      in case points_find d sid steam of
           Some existing \<Rightarrow>
             (let newBal = wrap32 (safeStoi (to_string (p_balance existing)) 0 + amount)
              in if newBal < 0 then (False, d)
                 else (True, log_points sid steam name amount reason oper now
                        (points_update (p_id existing)
                          (\<lambda>r. r\<lparr>p_balance := newBal,
                                 p_lifetimeEarned := p_lifetimeEarned r + earned,
                                 p_playerName := sql_coalesce (Some name) (p_playerName r),
                                 p_lastUpdated := now\<rparr>) d)))
         | None \<Rightarrow>
             if amount < 0 then (False, d)
             else (True, log_points sid steam name amount reason oper now
                    (points_insert sid steam name amount earned now d)))"

section \<open>The state of the ledger\<close>

text \<open>
  Well-formed points tables: the sequence dominates distinct ids, the unique index holds, every row
  belongs to an existing server and every balance is a 32-bit integer.
\<close>

definition points_ok :: "database \<Rightarrow> bool" where
  "points_ok d =
     (ids_ok p_id (db_points d) \<and>
      distinct (map (\<lambda>r. (p_serverId r, p_steamId r)) (t_rows (db_points d))) \<and>
      (\<forall>r\<in>set (t_rows (db_points d)).
         (\<exists>s. p_serverId r = Some s \<and> server_exists d s) \<and> in_int (p_balance r)))"

definition balance_of :: "database \<Rightarrow> int \<Rightarrow> string \<Rightarrow> int" where
  "balance_of d sid steam =
     (case find (\<lambda>r. p_serverId r = Some sid \<and> p_steamId r = steam) (t_rows (db_points d)) of
        None \<Rightarrow> 0 | Some r \<Rightarrow> p_balance r)"

definition logged :: "database \<Rightarrow> int \<Rightarrow> string \<Rightarrow> int" where
  "logged d sid steam =
     sum_list (map pl_amount
       (filter (\<lambda>l. pl_serverId l = sid \<and> pl_steamId l = steam) (t_rows (db_point_logs d))))"

text \<open>The part of a balance the log does not explain.\<close>

definition ledger_gap :: "database \<Rightarrow> int \<Rightarrow> string \<Rightarrow> int" where
  "ledger_gap d sid steam = balance_of d sid steam - logged d sid steam"

lemma find_keyed:
  assumes "distinct (map k xs)" "x \<in> set xs" "k x = a"
  shows "find (\<lambda>y. k y = a) xs = Some x"
  using assms by (induction xs) (auto simp: image_iff)

lemma keyed_eq: "distinct (map k xs) \<Longrightarrow> x \<in> set xs \<Longrightarrow> y \<in> set xs \<Longrightarrow> k x = k y \<Longrightarrow> x = y"
  by (auto simp: distinct_map dest: inj_onD)

lemma points_find_ok:
  assumes "points_ok d"
  shows "points_find d sid steam =
    find (\<lambda>r. p_serverId r = Some sid \<and> p_steamId r = steam) (t_rows (db_points d))"
proof -
  let ?xs = "t_rows (db_points d)"
  let ?sel = "filter (\<lambda>r. p_steamId r = steam \<and> (p_serverId r = Some sid \<or> p_serverId r = None)) ?xs"
  have nn: "\<forall>r\<in>set ?xs. p_serverId r \<noteq> None"
    using assms by (auto simp: points_ok_def)
  have key: "(\<lambda>r. p_serverId r = Some sid \<and> p_steamId r = steam) =
      (\<lambda>r. (p_serverId r, p_steamId r) = (Some sid, steam))" by auto
  show ?thesis
  proof (cases "first_max p_serverId ?sel")
    case None
    then have "?sel = []" by simp
    then have "\<forall>r\<in>set ?xs. \<not> (p_serverId r = Some sid \<and> p_steamId r = steam)"
      by (auto simp: filter_empty_conv)
    then have "find (\<lambda>r. p_serverId r = Some sid \<and> p_steamId r = steam) ?xs = None"
      by (simp add: find_None_iff)
    with None show ?thesis by (simp add: points_find_def t_select_def)
  next
    case (Some r)
    then have "r \<in> set ?sel" by (auto dest: first_max_Some)
    with nn have "r \<in> set ?xs" "(p_serverId r, p_steamId r) = (Some sid, steam)" by auto
    then have "find (\<lambda>r. p_serverId r = Some sid \<and> p_steamId r = steam) ?xs = Some r"
      unfolding key using assms by (intro find_keyed) (auto simp: points_ok_def)
    with Some show ?thesis by (simp add: points_find_def t_select_def)
  qed
qed

lemma points_findD:
  assumes "points_ok d" "points_find d sid steam = Some r"
  shows "r \<in> set (t_rows (db_points d))" "p_serverId r = Some sid" "p_steamId r = steam"
    "in_int (p_balance r)" "balance_of d sid steam = p_balance r"
proof -
  have e: "find (\<lambda>r. p_serverId r = Some sid \<and> p_steamId r = steam) (t_rows (db_points d)) = Some r"
    using assms by (simp add: points_find_ok)
  show r: "r \<in> set (t_rows (db_points d))" "p_serverId r = Some sid" "p_steamId r = steam"
    using find_SomeD [OF e] by auto
  show "in_int (p_balance r)" using r(1) assms(1) by (simp add: points_ok_def)
  show "balance_of d sid steam = p_balance r" by (simp add: balance_of_def e)
qed

lemma points_find_NoneD:
  assumes "points_ok d" "points_find d sid steam = None"
  shows "balance_of d sid steam = 0"
    "\<not> (\<exists>r\<in>set (t_rows (db_points d)). p_serverId r = Some sid \<and> p_steamId r = steam)"
proof -
  have e: "find (\<lambda>r. p_serverId r = Some sid \<and> p_steamId r = steam) (t_rows (db_points d)) = None"
    using assms by (simp add: points_find_ok)
  show "balance_of d sid steam = 0" by (simp add: balance_of_def e)
  show "\<not> (\<exists>r\<in>set (t_rows (db_points d)). p_serverId r = Some sid \<and> p_steamId r = steam)"
    using e by (auto simp: find_None_iff)
qed

lemma getPointsBalance_ok: "points_ok d \<Longrightarrow> getPointsBalance d steam sid = balance_of d sid steam"
  by (auto simp: getPointsBalance_def points_find_NoneD points_findD split: option.splits)

subsection \<open>Frames\<close>

lemma server_exists_frame [simp]:
  "server_exists (d\<lparr>db_points := t\<rparr>) s = server_exists d s"
  "server_exists (d\<lparr>db_point_logs := l\<rparr>) s = server_exists d s"
  by (simp_all add: server_exists_def)

lemma points_ok_frame: "points_ok (d\<lparr>db_point_logs := l\<rparr>) = points_ok d"
  by (simp add: points_ok_def)

lemma log_points_frame [simp]:
  "db_points (log_points sid steam name amount reason oper now d) = db_points d"
  "db_servers (log_points sid steam name amount reason oper now d) = db_servers d"
  "db_settings (log_points sid steam name amount reason oper now d) = db_settings d"
  by (simp_all add: log_points_def)

lemma points_ok_cong:
  "db_points d = db_points d' \<Longrightarrow> db_servers d = db_servers d' \<Longrightarrow> points_ok d = points_ok d'"
  by (simp add: points_ok_def server_exists_def)

lemma points_ok_log [simp]: "points_ok (log_points sid steam name amount reason oper now d) = points_ok d"
  by (rule points_ok_cong) simp_all

lemma balance_of_cong: "db_points d = db_points d' \<Longrightarrow> balance_of d = balance_of d'"
  by (simp add: balance_of_def fun_eq_iff)

lemma logged_log_points:
  "logged (log_points sid steam name amount reason oper now d) s st =
     logged d s st + (if s = sid \<and> st = steam then amount else 0)"
  by (simp add: logged_def log_points_def)

lemma logged_frame [simp]:
  "logged (points_update i f d) = logged d"
  "logged (points_insert sid steam name bal earned now d) = logged d"
  by (simp_all add: logged_def points_update_def points_insert_def fun_eq_iff)

subsection \<open>What an update and an insertion do to the balances\<close>

lemma points_update_ok:
  assumes "points_ok d" "r \<in> set (t_rows (db_points d))" "in_int b"
    and f: "\<And>x. p_id (f x) = p_id x \<and> p_serverId (f x) = p_serverId x \<and> p_steamId (f x) = p_steamId x"
    and fb: "p_balance (f r) = b"
  shows "points_ok (points_update (p_id r) f d)"
proof -
  have ids: "ids_ok p_id (db_points d)" using assms(1) by (simp add: points_ok_def)
  have same: "x = r" if "x \<in> set (t_rows (db_points d))" "p_id x = p_id r" for x
    using ids_ok_unique [OF ids that(1) assms(2) that(2)] .
  have "map (\<lambda>r. (p_serverId r, p_steamId r)) (t_rows (db_points (points_update (p_id r) f d)))
      = map (\<lambda>r. (p_serverId r, p_steamId r)) (t_rows (db_points d))"
    using f by (simp add: points_update_def)
  moreover have "ids_ok p_id (db_points (points_update (p_id r) f d))"
    using f by (auto simp: points_update_def intro: ids_ok_update [OF ids])
  moreover have "\<forall>x\<in>set (t_rows (db_points (points_update (p_id r) f d))).
       (\<exists>s. p_serverId x = Some s \<and> server_exists d s) \<and> in_int (p_balance x)"
    using assms(1,3) f fb same by (auto simp: points_update_def points_ok_def)
  moreover have "server_exists (points_update (p_id r) f d) = server_exists d"
    by (simp add: points_update_def server_exists_def fun_eq_iff)
  ultimately show ?thesis
    using assms(1) by (simp add: points_ok_def)
qed

lemma balance_of_update:
  assumes ok: "points_ok d" and r: "r \<in> set (t_rows (db_points d))"
    and f: "\<And>x. p_id (f x) = p_id x \<and> p_serverId (f x) = p_serverId x \<and> p_steamId (f x) = p_steamId x"
    and sid: "p_serverId r = Some sid" "p_steamId r = steam"
  shows "balance_of (points_update (p_id r) f d) s st =
    (if s = sid \<and> st = steam then p_balance (f r) else balance_of d s st)"
proof -
  have ids: "ids_ok p_id (db_points d)"
    and dist: "distinct (map (\<lambda>r. (p_serverId r, p_steamId r)) (t_rows (db_points d)))"
    using ok by (auto simp: points_ok_def)
  have same: "x = r" if "x \<in> set (t_rows (db_points d))" "p_id x = p_id r" for x
    using ids_ok_unique [OF ids that(1) r that(2)] .
  have gen: "find (\<lambda>r. p_serverId r = Some s \<and> p_steamId r = st) (map (\<lambda>x. if p_id x = p_id r then f x else x) xs)
      = map_option (\<lambda>x. if p_id x = p_id r then f x else x)
          (find (\<lambda>r. p_serverId r = Some s \<and> p_steamId r = st) xs)" for xs
    using f by (induction xs) auto
  let ?P = "\<lambda>x. p_serverId x = Some s \<and> p_steamId x = st"
  have res: "balance_of (points_update (p_id r) f d) s st =
      (case find ?P (t_rows (db_points d)) of None \<Rightarrow> 0
       | Some x \<Rightarrow> p_balance (if p_id x = p_id r then f x else x))"
    by (simp add: balance_of_def points_update_def gen split: option.splits)
  show ?thesis
  proof (cases "s = sid \<and> st = steam")
    case True
    have "(\<lambda>x. p_serverId x = Some s \<and> p_steamId x = st) =
        (\<lambda>x. (p_serverId x, p_steamId x) = (Some s, st))" by auto
    then have "find ?P (t_rows (db_points d)) = Some r"
      using find_keyed [OF dist r] True sid by simp
    with True res show ?thesis by simp
  next
    case False
    have "p_id x \<noteq> p_id r" if "find ?P (t_rows (db_points d)) = Some x" for x
      using find_SomeD [OF that] same [of x] sid False by auto
    with False res show ?thesis
      by (cases "find ?P (t_rows (db_points d))") (auto simp: balance_of_def [of d])
  qed
qed

lemma points_insert_ok:
  assumes "points_ok d" "server_exists d sid" "in_int b"
  shows "points_ok (points_insert sid steam name b earned now d)"
  using assms by (auto simp: points_ok_def points_insert_def intro!: ids_ok_insert)

lemma balance_of_insert:
  assumes "server_exists d sid"
    "\<not> (\<exists>r\<in>set (t_rows (db_points d)). p_serverId r = Some sid \<and> p_steamId r = steam)"
  shows "balance_of (points_insert sid steam name b earned now d) s st =
    (if s = sid \<and> st = steam then b else balance_of d s st)"
proof -
  have app: "find P (xs @ [x]) = (case find P xs of None \<Rightarrow> if P x then Some x else None | Some y \<Rightarrow> Some y)"
    for P xs and x :: points_row
    by (induction xs) auto
  have none: "find (\<lambda>r. p_serverId r = Some sid \<and> p_steamId r = steam) (t_rows (db_points d)) = None"
    using assms(2) by (auto simp: find_None_iff)
  show ?thesis
    using assms none by (auto simp: balance_of_def points_insert_def app split: option.splits)
qed

section \<open>Movements\<close>

text \<open>\<open>d'\<close> is \<open>d\<close> after a movement of \<open>amt\<close> on one account, balance and log alike.\<close>

definition moved :: "database \<Rightarrow> int \<Rightarrow> string \<Rightarrow> int \<Rightarrow> database \<Rightarrow> bool" where
  "moved d sid steam amt d' =
     (points_ok d' \<and> db_servers d' = db_servers d \<and> db_settings d' = db_settings d \<and>
      (\<forall>s st. balance_of d' s st = balance_of d s st + (if s = sid \<and> st = steam then amt else 0)) \<and>
      (\<forall>s st. logged d' s st = logged d s st + (if s = sid \<and> st = steam then amt else 0)))"

lemma moved_gap: "moved d sid steam amt d' \<Longrightarrow> ledger_gap d' s st = ledger_gap d s st"
  by (simp add: moved_def ledger_gap_def)

lemma moved_ok: "moved d sid steam amt d' \<Longrightarrow> points_ok d'"
  by (simp add: moved_def)

lemma moved_refl: "points_ok d \<Longrightarrow> moved d sid steam 0 d"
  by (simp add: moved_def)

lemma moved_by_update:
  assumes ok: "points_ok d" and find: "points_find d sid steam = Some r"
    and int: "in_int (balance_of d sid steam + amt)"
    and f: "\<And>x. p_id (f x) = p_id x \<and> p_serverId (f x) = p_serverId x \<and> p_steamId (f x) = p_steamId x"
    and fb: "p_balance (f r) = p_balance r + amt"
  shows "moved d sid steam amt
    (log_points sid steam name amt reason oper now (points_update (p_id r) f d))"
proof -
  note r = points_findD [OF ok find]
  have "points_ok (points_update (p_id r) f d)"
    by (rule points_update_ok [OF ok r(1) _ f]) (use int fb r(5) in auto)
  moreover have "balance_of (points_update (p_id r) f d) s st =
      balance_of d s st + (if s = sid \<and> st = steam then amt else 0)" for s st
    using balance_of_update [OF ok r(1) f r(2,3), of s st] r(5) fb by auto
  moreover have "balance_of (log_points sid steam name amt reason oper now (points_update (p_id r) f d))
      = balance_of (points_update (p_id r) f d)"
    by (rule balance_of_cong) simp
  ultimately show ?thesis
    by (simp add: moved_def logged_log_points) (simp add: points_update_def)
qed

lemma moved_by_insert:
  assumes ok: "points_ok d" and find: "points_find d sid steam = None"
    and srv: "server_exists d sid" and int: "in_int amt"
  shows "moved d sid steam amt
    (log_points sid steam name amt reason oper now (points_insert sid steam name amt earned now d))"
proof -
  note n = points_find_NoneD [OF ok find]
  have "points_ok (points_insert sid steam name amt earned now d)"
    by (rule points_insert_ok [OF ok srv int])
  moreover have "balance_of (points_insert sid steam name amt earned now d) s st =
      balance_of d s st + (if s = sid \<and> st = steam then amt else 0)" for s st
    using balance_of_insert [OF srv n(2), of name amt earned now s st] n(1) by auto
  moreover have "balance_of (log_points sid steam name amt reason oper now
        (points_insert sid steam name amt earned now d))
      = balance_of (points_insert sid steam name amt earned now d)"
    by (rule balance_of_cong) simp
  ultimately show ?thesis
    by (simp add: moved_def logged_log_points) (simp add: points_insert_def)
qed

lemma addPoints_moved:
  assumes ok: "points_ok d" and srv: "server_exists d sid"
    and int: "in_int amt" "in_int (balance_of d sid steam + amt)"
  shows "fst (addPoints now sid steam name amt reason oper d)"
    and "moved d sid steam amt (snd (addPoints now sid steam name amt reason oper d))"
proof -
  show "fst (addPoints now sid steam name amt reason oper d)"
    using points_findD [OF ok] by (auto simp: addPoints_def Let_def split: option.splits sum.splits)
  show "moved d sid steam amt (snd (addPoints now sid steam name amt reason oper d))"
  proof (cases "points_find d sid steam")
    case None
    then show ?thesis
      using moved_by_insert [OF ok None srv int(1)] by (simp add: addPoints_def Let_def)
  next
    case (Some r)
    note r = points_findD [OF ok Some]
    show ?thesis
      using r(4,5) int(2)
      by (auto simp: addPoints_def Some Let_def intro!: moved_by_update [OF ok Some int(2)])
  qed
qed

text \<open>On a server the table does not know, the foreign key rejects the row but the log is written.\<close>

lemma addPoints_unknown_server:
  assumes ok: "points_ok d" and srv: "\<not> server_exists d sid"
  shows "addPoints now sid steam name amt reason oper d =
    (True, log_points sid steam name amt reason oper now d)"
proof -
  have "points_find d sid steam = None"
  proof (cases "points_find d sid steam")
    case (Some r)
    from points_findD [OF ok Some] have "r \<in> set (t_rows (db_points d))" "p_serverId r = Some sid" by auto
    with ok srv show ?thesis by (auto simp: points_ok_def)
  qed
  with srv show ?thesis by (simp add: addPoints_def points_insert_def)
qed

lemma deductPoints_cases:
  assumes ok: "points_ok d" and int: "in_int amt" "0 \<le> amt"
  shows "(\<exists>d'. deductPoints now sid steam name amt reason oper d = (True, d') \<and>
            amt \<le> balance_of d sid steam \<and> moved d sid steam (- amt) d')
       \<or> (deductPoints now sid steam name amt reason oper d = (False, d) \<and>
            (points_find d sid steam = None \<or> balance_of d sid steam < amt))"
proof (cases "points_find d sid steam")
  case None
  then show ?thesis by (simp add: deductPoints_def)
next
  case (Some r)
  note r = points_findD [OF ok Some]
  show ?thesis
  proof (cases "p_balance r < amt")
    case True
    with r show ?thesis by (simp add: deductPoints_def Some)
  next
    case False
    then have i: "in_int (- amt)" "in_int (p_balance r - amt)"
      using int r(4) by (auto simp: in_int_def)
    have "moved d sid steam (- amt) (snd (deductPoints now sid steam name amt reason oper d))"
      using r(4,5) False i
      by (auto simp: deductPoints_def Some Let_def intro!: moved_by_update [OF ok Some])
    with False r show ?thesis by (auto simp: deductPoints_def Some Let_def)
  qed
qed

lemma adjustPoints_cases:
  assumes ok: "points_ok d" and srv: "server_exists d sid"
    and int: "in_int amt" "in_int (balance_of d sid steam + amt)"
  shows "(\<exists>d'. adjustPoints now sid steam name amt reason oper d = (True, d') \<and>
            0 \<le> balance_of d sid steam + amt \<and> moved d sid steam amt d')
       \<or> (adjustPoints now sid steam name amt reason oper d = (False, d) \<and>
            balance_of d sid steam + amt < 0)"
proof (cases "points_find d sid steam")
  case None
  note n = points_find_NoneD [OF ok None]
  show ?thesis
    using n moved_by_insert [OF ok None srv int(1)]
    by (auto simp: adjustPoints_def None Let_def)
next
  case (Some r)
  note r = points_findD [OF ok Some]
  show ?thesis
    using r(4,5) int
    by (auto simp: adjustPoints_def Some Let_def intro!: moved_by_update [OF ok Some int(2)])
qed

section \<open>The ledger interface\<close>

text \<open>
  What every points operation promises: the tables stay well-formed and no account's balance moves
  without its log. Any sequence of operations, each run where its precondition holds, then leaves
  the unexplained part of every balance as it was.
\<close>

fun run_ops :: "('a \<Rightarrow> database \<Rightarrow> database) \<Rightarrow> 'a list \<Rightarrow> database \<Rightarrow> database" where
  "run_ops f [] d = d"
| "run_ops f (a # as) d = run_ops f as (f a d)"

fun pre_along :: "('a \<Rightarrow> database \<Rightarrow> database) \<Rightarrow> ('a \<Rightarrow> database \<Rightarrow> bool) \<Rightarrow> 'a list \<Rightarrow> database \<Rightarrow> bool" where
  "pre_along f pre [] d = True"
| "pre_along f pre (a # as) d = (pre a d \<and> pre_along f pre as (f a d))"

locale ledger_op =
  fixes act :: "'a \<Rightarrow> database \<Rightarrow> database"
    and pre :: "'a \<Rightarrow> database \<Rightarrow> bool"
  assumes act_ok: "points_ok d \<Longrightarrow> pre a d \<Longrightarrow> points_ok (act a d)"
    and act_gap: "points_ok d \<Longrightarrow> pre a d \<Longrightarrow> ledger_gap (act a d) s st = ledger_gap d s st"
begin

lemma run_ledger:
  "points_ok d \<Longrightarrow> pre_along act pre as d \<Longrightarrow>
     points_ok (run_ops act as d) \<and> ledger_gap (run_ops act as d) s st = ledger_gap d s st"
  by (induction as arbitrary: d) (auto simp: act_ok act_gap)

end

text \<open>A call of the service.\<close>

datatype points_call =
    Add int string string int string string
  | Deduct int string string int string string
  | Adjust int string string int string string

fun points_step :: "time \<Rightarrow> points_call \<Rightarrow> database \<Rightarrow> database" where
  "points_step now (Add sid steam name amt reason oper) d = snd (addPoints now sid steam name amt reason oper d)"
| "points_step now (Deduct sid steam name amt reason oper) d = snd (deductPoints now sid steam name amt reason oper d)"
| "points_step now (Adjust sid steam name amt reason oper) d = snd (adjustPoints now sid steam name amt reason oper d)"

text \<open>The server exists and neither the amount nor the new balance leaves the 32-bit range.\<close>

fun points_pre :: "points_call \<Rightarrow> database \<Rightarrow> bool" where
  "points_pre (Add sid steam name amt reason oper) d =
     (server_exists d sid \<and> in_int amt \<and> in_int (balance_of d sid steam + amt))"
| "points_pre (Deduct sid steam name amt reason oper) d = (in_int amt \<and> 0 \<le> amt)"
| "points_pre (Adjust sid steam name amt reason oper) d =
     (server_exists d sid \<and> in_int amt \<and> in_int (balance_of d sid steam + amt))"

lemma points_step_moved:
  assumes "points_ok d" "points_pre c d"
  shows "\<exists>sid steam amt. moved d sid steam amt (points_step now c d)"
proof (cases c)
  case (Add sid steam name amt reason oper)
  with assms addPoints_moved(2) [of d sid amt steam now name reason oper]
  show ?thesis by auto
next
  case (Deduct sid steam name amt reason oper)
  with assms deductPoints_cases [of d amt now sid steam name reason oper] moved_refl [OF assms(1)]
  show ?thesis by fastforce
next
  case (Adjust sid steam name amt reason oper)
  with assms adjustPoints_cases [of d sid amt steam now name reason oper] moved_refl [OF assms(1)]
  show ?thesis by fastforce
qed

interpretation points: ledger_op "points_step now" points_pre for now
  by unfold_locales (use points_step_moved moved_ok moved_gap in blast)+

lemma scoreKill_moved:
  assumes "points_ok d" "server_exists d sid"
    and "in_int (balance_of d sid killer + amt)"
    and "amt = (if tk then getSettingInt d ''points_tk'' (- 5) else getSettingInt d ''points_kill'' 2)"
    and "killer \<noteq> []"
  shows "moved d sid killer amt (scoreKill now sid killer name tk d)"
proof -
  have "in_int amt"
    using assms(4) by (auto intro: getSettingInt_in_int)
  then show ?thesis
    using addPoints_moved(2) [OF assms(1,2) _ assms(3)] assms(4,5)
    by (cases tk) (simp_all add: scoreKill_def)
qed

lemma scoreSuicide_moved:
  assumes "points_ok d" "server_exists d sid" "victim \<noteq> []"
    and "in_int (balance_of d sid victim + getSettingInt d ''points_suicide'' (- 2))"
  shows "moved d sid victim (getSettingInt d ''points_suicide'' (- 2)) (scoreSuicide now sid victim name d)"
  using addPoints_moved(2) [OF assms(1,2) _ assms(4)] assms(3)
  by (simp add: scoreSuicide_def getSettingInt_in_int)

lemma scoreRevive_moved:
  assumes "points_ok d" "server_exists d sid" "reviver \<noteq> []"
    and "in_int (balance_of d sid reviver + getSettingInt d ''points_revive'' 1)"
  shows "moved d sid reviver (getSettingInt d ''points_revive'' 1) (scoreRevive now sid reviver name d)"
  using addPoints_moved(2) [OF assms(1,2) _ assms(4)] assms(3)
  by (simp add: scoreRevive_def getSettingInt_in_int)

section \<open>Properties\<close>


definition demo_db :: database where
  "demo_db = empty_db\<lparr>db_servers :=
     t_insert (server_defaults 0 1 ''s'' ''h'' 27015 ''p'' (Some ''k'')) t_empty\<rparr>"

lemma demo_db_ok: "points_ok demo_db" "server_exists demo_db 1"
  by (simp_all add: demo_db_def empty_db_def points_ok_def ids_ok_def server_exists_def t_empty_def t_insert_def)




text \<open>A kill moves the killer's account by the configured amount, negative by default for a team
  kill, logs it under the system operator, and touches no other account.\<close>
theorem scoreKill_moves:
  assumes "points_ok d" "server_exists d sid" "killer \<noteq> []"
    and "in_int (balance_of d sid killer + (if tk then getSettingInt d ''points_tk'' (- 5)
           else getSettingInt d ''points_kill'' 2))"
  shows "balance_of (scoreKill now sid killer name tk d) s st = balance_of d s st +
      (if s = sid \<and> st = killer
       then (if tk then getSettingInt d ''points_tk'' (- 5) else getSettingInt d ''points_kill'' 2)
       else 0)
    \<and> ledger_gap (scoreKill now sid killer name tk d) s st = ledger_gap d s st"
proof -
  note m = scoreKill_moved [OF assms(1,2,4) refl assms(3), of now name]
  from m moved_gap [OF m, of s st] show ?thesis by (auto simp: moved_def)
qed

theorem scoreKill_moves_witness:
  "balance_of (scoreKill 0 1 ''p'' ''n'' True demo_db) 1 ''p'' = - 5"
  using scoreKill_moves [OF demo_db_ok, of "''p''" True 0 "''n''" 1 "''p''"]
  by (simp add: balance_of_def demo_db_def empty_db_def t_empty_def getSettingInt_def)

text \<open>For a server id the servers table does not hold, \<open>addPoints\<close> reports success and logs the
  amount although the foreign key rejected the balance row.\<close>
theorem addPoints_unknown_server_diverges:
  assumes "points_ok d" "\<not> server_exists d sid"
  shows "fst (addPoints now sid steam name amt reason oper d)
    \<and> balance_of (snd (addPoints now sid steam name amt reason oper d)) sid steam = balance_of d sid steam
    \<and> logged (snd (addPoints now sid steam name amt reason oper d)) sid steam = logged d sid steam + amt"
  using addPoints_unknown_server [OF assms, of now steam name amt reason oper]
  by (simp add: logged_log_points) (simp add: balance_of_def)

theorem addPoints_unknown_server_diverges_witness:
  "logged (snd (addPoints 0 7 ''p'' ''n'' 5 ''r'' ''o'' demo_db)) 7 ''p'' = 5"
proof -
  have "\<not> server_exists demo_db 7"
    by (simp add: demo_db_def empty_db_def server_exists_def t_empty_def t_insert_def)
  from addPoints_unknown_server_diverges [OF demo_db_ok(1) this, of 0 "''p''" "''n''" 5 "''r''" "''o''"]
  show ?thesis by (simp add: logged_def demo_db_def empty_db_def t_empty_def)
qed

end
