(* ===== verification/Auth.thy ===== *)
theory Auth
  imports Database Encoding
begin

text \<open>
  Authentication (src/core/auth.cpp): password hashes, session tokens and their expiry, the per-IP
  rate limiter, and permissions. OpenSSL's scrypt and random bytes are arguments. The lemmas give
  what a valid session guarantees, how many attempts the limiter can let through, and which
  permissions a role and its grants amount to.
\<close>

section \<open>Passwords and tokens\<close>

text \<open>\<open>rnd n\<close> is what \<open>RAND_bytes\<close> stores in a buffer of \<open>n\<close> bytes; the buffer holds 64 at most.\<close>

definition randomHex :: "(nat \<Rightarrow> byte list) \<Rightarrow> nat \<Rightarrow> string" where
  "randomHex rnd bytes = hexEncode (rnd (min bytes 64))"

definition generateToken :: "(nat \<Rightarrow> byte list) \<Rightarrow> string" where
  "generateToken rnd = randomHex rnd 32"

text \<open>\<open>scrypt pw salt\<close> is the 64-byte key, \<open>None\<close> when the derivation fails.\<close>

definition hashPassword :: "(string \<Rightarrow> string \<Rightarrow> byte list option) \<Rightarrow> (nat \<Rightarrow> byte list) \<Rightarrow> string \<Rightarrow> string" where
  "hashPassword scrypt rnd pw =
     (let salt = randomHex rnd 16
      in case scrypt pw salt of None \<Rightarrow> [] | Some h \<Rightarrow> salt @ '':'' @ hexEncode h)"

definition verifyPassword :: "(string \<Rightarrow> string \<Rightarrow> byte list option) \<Rightarrow> string \<Rightarrow> string \<Rightarrow> bool" where
  "verifyPassword scrypt pw stored =
     (case str_find '':'' stored of
        None \<Rightarrow> False
      | Some pos \<Rightarrow>
          let salt = take pos stored; expectedHex = drop (pos + 1) stored
          in (case scrypt pw salt of
               None \<Rightarrow> False
             | Some h \<Rightarrow>
                 let actualHex = hexEncode h
                 in if length actualHex \<noteq> length expectedHex then False
                    else actualHex = expectedHex))"

lemma hex_no_colon: "CHR '':'' \<notin> set (hexEncode xs)"
proof -
  have "CHR '':'' \<notin> set (hex_byte d)" for d
  proof -
    have ne: "CHR '':'' \<noteq> hex_chars ! k" if "k < 16" for k
    proof
      assume "CHR '':'' = hex_chars ! k"
      moreover have "hex_chars ! k \<in> set hex_chars"
        using that by (intro nth_mem) (simp add: hex_chars_def)
      ultimately have "CHR '':'' \<in> set hex_chars" by simp
      then show False by (simp add: hex_chars_def)
    qed
    show ?thesis using ne [OF nibbles(1)] ne [OF nibbles(2)] by (simp add: hex_byte_def)
  qed
  then show ?thesis by (auto simp: hexEncode_def)
qed

lemma str_find_char_append: "c \<notin> set u \<Longrightarrow> str_find [c] (u @ c # v) = Some (length u)"
  by (induction u) auto

lemma verifyPassword_split:
  assumes "CHR '':'' \<notin> set salt"
  shows "verifyPassword scrypt pw (salt @ '':'' @ hx) =
    (case scrypt pw salt of None \<Rightarrow> False | Some h \<Rightarrow> hexEncode h = hx)"
  using str_find_char_append [OF assms, of hx]
  by (auto simp: verifyPassword_def Let_def split: option.splits)

lemma verifyPassword_own:
  "hashPassword scrypt rnd pw \<noteq> [] \<Longrightarrow> verifyPassword scrypt pw (hashPassword scrypt rnd pw)"
  using verifyPassword_split [of "randomHex rnd 16" scrypt pw] hex_no_colon
  by (auto simp: hashPassword_def randomHex_def Let_def split: option.splits)

lemma verifyPassword_other:
  assumes "scrypt pw (randomHex rnd 16) = Some h"
  shows "verifyPassword scrypt pw' (hashPassword scrypt rnd pw) \<longleftrightarrow> scrypt pw' (randomHex rnd 16) = Some h"
  using verifyPassword_split [of "randomHex rnd 16" scrypt pw' "hexEncode h"] hex_no_colon assms
  by (auto simp: hashPassword_def randomHex_def Let_def split: option.splits)

section \<open>Sessions\<close>

record Session =
  ses_token :: string
  ses_userId :: string
  ses_username :: string
  ses_role :: string
  ses_status :: string
  ses_expiresAt :: "time option"
  ses_valid :: bool

definition no_session :: Session where
  "no_session = \<lparr>ses_token = [], ses_userId = [], ses_username = [], ses_role = [],
     ses_status = [], ses_expiresAt = None, ses_valid = False\<rparr>"

text \<open>\<open>FROM sessions s JOIN users u ON s.userId = u.id WHERE s.token = ?\<close>, first row.\<close>

definition session_join :: "database \<Rightarrow> string \<Rightarrow> (session_row \<times> user_row) option" where
  "session_join d token =
     find (\<lambda>(s, u). s_token s = token \<and> s_userId s = u_id u)
       (List.product (db_sessions d) (t_rows (db_users d)))"

definition getSession :: "time \<Rightarrow> string \<Rightarrow> database \<Rightarrow> Session \<times> database" where
  "getSession now token d =
     (if token = [] then (no_session, d)
      else
        let row = (case session_join d token of
                     None \<Rightarrow> session_join d token \<comment> \<open>the second query selects the same rows\<close>
                   | Some r \<Rightarrow> Some r)
        in (case row of
             None \<Rightarrow> (no_session, d)
           | Some (s, u) \<Rightarrow>
               if u_status u \<noteq> ''active'' then (no_session, d)
               else
                 let sess = \<lparr>ses_token = s_token s, ses_userId = to_string (u_id u),
                       ses_username = u_username u, ses_role = u_role u, ses_status = u_status u,
                       ses_expiresAt = Some (s_expiresAt s), ses_valid = False\<rparr>
                 in if now > s_expiresAt s then (sess, d)
                    else (sess\<lparr>ses_valid := True\<rparr>,
                          d\<lparr>db_sessions := map (\<lambda>r. if s_token r = token then r\<lparr>s_lastActivity := now\<rparr> else r)
                              (db_sessions d)\<rparr>)))"

lemma session_joinD:
  "session_join d token = Some (s, u) \<Longrightarrow>
     s \<in> set (db_sessions d) \<and> u \<in> set (t_rows (db_users d)) \<and> s_token s = token \<and> s_userId s = u_id u"
  unfolding session_join_def by (drule find_SomeD) auto

lemma getSession_valid_iff:
  "ses_valid (fst (getSession now token d)) \<longleftrightarrow>
     token \<noteq> [] \<and> (\<exists>s u. session_join d token = Some (s, u) \<and> u_status u = ''active'' \<and> now \<le> s_expiresAt s)"
  by (auto simp: getSession_def no_session_def Let_def split: option.splits)

lemma getSession_token: "ses_valid (fst (getSession now token d)) \<Longrightarrow> ses_token (fst (getSession now token d)) = token"
  by (auto simp: getSession_def no_session_def Let_def dest!: session_joinD split: option.splits if_splits)

lemma getSession_role:
  "session_join d token = Some (s, u) \<Longrightarrow> ses_valid (fst (getSession now token d)) \<Longrightarrow>
     ses_role (fst (getSession now token d)) = u_role u \<and>
     ses_userId (fst (getSession now token d)) = to_string (u_id u)"
  by (auto simp: getSession_def no_session_def Let_def split: option.splits if_splits)

text \<open>Only the activity time of the session itself is written.\<close>

lemma getSession_frame:
  "db_sessions (snd (getSession now token d)) =
     map (\<lambda>r. if s_token r = token \<and> ses_valid (fst (getSession now token d))
              then r\<lparr>s_lastActivity := now\<rparr> else r) (db_sessions d)"
  "db_users (snd (getSession now token d)) = db_users d"
  by (auto simp: getSession_def no_session_def Let_def split: option.splits intro!: map_idI [symmetric])

section \<open>Rate limiting (checkRateLimit)\<close>

type_synonym rate_limits = "string \<rightharpoonup> int \<times> int"

definition rl_window :: "config \<Rightarrow> int" where
  "rl_window cfg = config_getInt cfg ''RATE_LIMIT_WINDOW_MS'' 60000"

definition rl_max :: "config \<Rightarrow> int" where
  "rl_max cfg = config_getInt cfg ''RATE_LIMIT_MAX_ATTEMPTS'' 10"

definition checkRateLimit :: "config \<Rightarrow> string \<Rightarrow> int \<Rightarrow> rate_limits \<Rightarrow> bool \<times> rate_limits" where
  "checkRateLimit cfg ip now m =
     (case m ip of
        None \<Rightarrow> (True, m(ip \<mapsto> (1, now)))
      | Some (count, start) \<Rightarrow>
          if now - start > rl_window cfg then (True, m(ip \<mapsto> (1, now)))
          else if count \<ge> rl_max cfg then (False, m)
          else (True, m(ip \<mapsto> (count + 1, start))))"

text \<open>The answers to a sequence of attempts.\<close>

fun rl_run :: "config \<Rightarrow> rate_limits \<Rightarrow> (string \<times> int) list \<Rightarrow> (string \<times> bool) list" where
  "rl_run cfg m [] = []"
| "rl_run cfg m ((ip, now) # es) =
     (let (ok, m') = checkRateLimit cfg ip now m in (ip, ok) # rl_run cfg m' es)"

definition allowed :: "string \<Rightarrow> (string \<times> bool) list \<Rightarrow> nat" where
  "allowed ip rs = length (filter (\<lambda>(i, ok). i = ip \<and> ok) rs)"

definition rl_cap :: "config \<Rightarrow> nat" where
  "rl_cap cfg = nat (max 1 (rl_max cfg))"

lemma allowed_Nil [simp]: "allowed ip [] = 0"
  by (simp add: allowed_def)

lemma allowed_Cons [simp]: "allowed ip ((i, ok) # rs) = (if i = ip \<and> ok then 1 else 0) + allowed ip rs"
  by (simp add: allowed_def)

lemma checkRateLimit_other: "i \<noteq> ip \<Longrightarrow> snd (checkRateLimit cfg i now m) ip = m ip"
  by (auto simp: checkRateLimit_def split: option.splits)

text \<open>While the window of an address is open, it gets no more than what is left of its quota.\<close>

lemma rl_run_open_window:
  assumes "m ip = Some (c, s)" "1 \<le> c" "\<forall>(i, t)\<in>set es. t \<le> s + rl_window cfg"
  shows "allowed ip (rl_run cfg m es) \<le> nat (max 0 (rl_max cfg - c))"
  using assms
proof (induction es arbitrary: m c)
  case Nil
  then show ?case by simp
next
  case (Cons e es)
  obtain i t where e: "e = (i, t)" by fastforce
  have rest: "\<forall>(i, t)\<in>set es. t \<le> s + rl_window cfg" and t: "t - s \<le> rl_window cfg"
    using Cons.prems(3) e by auto
  show ?case
  proof (cases "i = ip")
    case False
    have "snd (checkRateLimit cfg i t m) ip = Some (c, s)"
      using checkRateLimit_other [OF False] Cons.prems(1) by simp
    with Cons.IH [of "snd (checkRateLimit cfg i t m)" c] Cons.prems(2) rest False
    show ?thesis by (simp add: e case_prod_beta)
  next
    case True
    show ?thesis
    proof (cases "c \<ge> rl_max cfg")
      case full: True
      then have "checkRateLimit cfg i t m = (False, m)"
        using Cons.prems(1) t True by (simp add: checkRateLimit_def)
      with Cons.IH [of m c] Cons.prems(1,2) rest True show ?thesis by (simp add: e)
    next
      case False
      then have st: "checkRateLimit cfg i t m = (True, m(ip \<mapsto> (c + 1, s)))"
        using Cons.prems(1) t True by (simp add: checkRateLimit_def)
      have "allowed ip (rl_run cfg (m(ip \<mapsto> (c + 1, s))) es) \<le> nat (max 0 (rl_max cfg - (c + 1)))"
        using Cons.IH [of "m(ip \<mapsto> (c + 1, s))" "c + 1"] Cons.prems(2) rest
        by (simp add: fun_upd_def)
      with st True False show ?thesis by (simp add: e)
    qed
  qed
qed

text \<open>A window opened at \<open>t\<close>: its first attempt and the rest of the quota.\<close>

lemma rl_run_new_window:
  assumes "\<forall>(i, u)\<in>set es. u \<le> t + rl_window cfg"
  shows "Suc (allowed ip (rl_run cfg (m(ip \<mapsto> (1, t))) es)) \<le> rl_cap cfg"
  using rl_run_open_window [of "m(ip \<mapsto> (1, t))" ip 1 t es cfg] assms
  by (simp add: rl_cap_def)

lemma rl_run_bound:
  assumes "\<forall>(i, t)\<in>set es. t0 \<le> t \<and> t \<le> t0 + rl_window cfg"
    and "\<forall>c s. m ip = Some (c, s) \<longrightarrow> 1 \<le> c"
  shows "allowed ip (rl_run cfg m es) \<le>
    (case m ip of None \<Rightarrow> 0 | Some (c, s) \<Rightarrow> nat (max 0 (rl_max cfg - c))) + rl_cap cfg"
  using assms
proof (induction es arbitrary: m)
  case Nil
  then show ?case by simp
next
  case (Cons e es)
  obtain i t where e: "e = (i, t)" by fastforce
  have rest: "\<forall>(i, t)\<in>set es. t0 \<le> t \<and> t \<le> t0 + rl_window cfg"
    and rest': "\<forall>(i, u)\<in>set es. u \<le> t + rl_window cfg"
    using Cons.prems(1) e by auto
  show ?case
  proof (cases "i = ip")
    case False
    have same: "snd (checkRateLimit cfg i t m) ip = m ip"
      by (rule checkRateLimit_other [OF False])
    with Cons.IH [of "snd (checkRateLimit cfg i t m)"] rest Cons.prems(2) False
    show ?thesis by (simp add: e case_prod_beta)
  next
    case True
    show ?thesis
    proof (cases "\<exists>c s. m ip = Some (c, s) \<and> t - s \<le> rl_window cfg")
      case False
      then have "checkRateLimit cfg i t m = (True, m(ip \<mapsto> (1, t)))"
        using True by (auto simp: checkRateLimit_def split: option.splits)
      with rl_run_new_window [OF rest', of ip m] True show ?thesis by (simp add: e)
    next
      case open_w: True
      then obtain c s where ms: "m ip = Some (c, s)" "t - s \<le> rl_window cfg" by blast
      with Cons.prems(2) have c: "1 \<le> c" by blast
      show ?thesis
      proof (cases "c \<ge> rl_max cfg")
        case full: True
        with ms True have "checkRateLimit cfg i t m = (False, m)"
          by (simp add: checkRateLimit_def)
        with Cons.IH [of m] rest Cons.prems(2) True show ?thesis by (simp add: e)
      next
        case False
        with ms True have st: "checkRateLimit cfg i t m = (True, m(ip \<mapsto> (c + 1, s)))"
          by (simp add: checkRateLimit_def)
        have "allowed ip (rl_run cfg (m(ip \<mapsto> (c + 1, s))) es)
            \<le> nat (max 0 (rl_max cfg - (c + 1))) + rl_cap cfg"
          using Cons.IH [of "m(ip \<mapsto> (c + 1, s))"] rest c by (simp add: fun_upd_def)
        with st True False ms show ?thesis by (simp add: e)
      qed
    qed
  qed
qed

text \<open>The counters are positive in every state the limiter reaches.\<close>

definition rl_ok :: "rate_limits \<Rightarrow> bool" where
  "rl_ok m = (\<forall>e\<in>ran m. 1 \<le> fst e)"

interpretation limiter: preserves "\<lambda>(ip, now) m. snd (checkRateLimit cfg ip now m)" rl_ok for cfg
  by unfold_locales
    (fastforce simp: rl_ok_def checkRateLimit_def ran_def split: option.splits if_splits)

section \<open>Permissions\<close>

definition ALL_PERMISSIONS :: "string list" where
  "ALL_PERMISSIONS =
     [''players'', ''kick'', ''ban'', ''reserved'', ''tk'',
      ''points'', ''quick_commands'', ''rcon'', ''settings'',
      ''user_admin'', ''plugins'']"

definition DEFAULT_OP_PERMISSIONS :: "string list" where
  "DEFAULT_OP_PERMISSIONS =
     [''players'', ''kick'', ''ban'', ''reserved'', ''tk'',
      ''points'', ''quick_commands'']"

type_synonym permissions = "string \<rightharpoonup> bool"

definition has :: "permissions \<Rightarrow> string \<Rightarrow> bool" where
  "has perms perm = (case perms perm of None \<Rightarrow> False | Some b \<Rightarrow> b)"

definition getUserPermissions :: "database \<Rightarrow> int \<Rightarrow> string \<Rightarrow> permissions" where
  "getUserPermissions d userId role =
     (if role = ''server_owner''
      then foldl (\<lambda>m p. m(p \<mapsto> True)) Map.empty ALL_PERMISSIONS
      else
        let m1 = foldl (\<lambda>m p. m(p \<mapsto> True)) Map.empty DEFAULT_OP_PERMISSIONS;
            m2 = foldl (\<lambda>m p. if m p = None then m(p \<mapsto> False) else m) m1 ALL_PERMISSIONS
        in foldl (\<lambda>m r. m(up_permission r \<mapsto> (up_granted r = 1))) m2
             (t_select (\<lambda>r. up_userId r = userId) (db_perms d)))"

text \<open>\<open>INSERT OR IGNORE\<close> under \<open>UNIQUE(userId, permission)\<close> and the foreign key on users.\<close>

definition perm_insert :: "int \<Rightarrow> string \<Rightarrow> database \<Rightarrow> database" where
  "perm_insert userId p d =
     (if (\<exists>u\<in>set (t_rows (db_users d)). u_id u = userId) \<and>
         \<not> (\<exists>r\<in>set (t_rows (db_perms d)). up_userId r = userId \<and> up_permission r = p)
      then d\<lparr>db_perms := t_insert (\<lambda>i. \<lparr>up_id = i, up_userId = userId, up_permission = p, up_granted = 1\<rparr>)
                (db_perms d)\<rparr>
      else d)"

definition insertDefaultPermissions :: "int \<Rightarrow> database \<Rightarrow> database" where
  "insertDefaultPermissions userId d = foldl (\<lambda>d p. perm_insert userId p d) d DEFAULT_OP_PERMISSIONS"

lemma foldl_grant: "foldl (\<lambda>m p. m(p \<mapsto> True)) m ps x = (if x \<in> set ps then Some True else m x)"
  by (induction ps arbitrary: m) auto

lemma foldl_default:
  "foldl (\<lambda>m p. if m p = None then m(p \<mapsto> False) else m) m ps x =
     (if m x = None \<and> x \<in> set ps then Some False else m x)"
  by (induction ps arbitrary: m) auto

lemma foldl_rows:
  "foldl (\<lambda>m r. m(up_permission r \<mapsto> (up_granted r = 1))) m rs x =
     (case find (\<lambda>r. up_permission r = x) (rev rs) of None \<Rightarrow> m x | Some r \<Rightarrow> Some (up_granted r = 1))"
proof (induction rs rule: rev_induct)
  case Nil
  then show ?case by simp
next
  case (snoc r rs)
  then show ?case by (auto split: option.splits)
qed

text \<open>A stored row decides; without one, the operators' defaults do.\<close>

lemma has_permission:
  assumes "role \<noteq> ''server_owner''"
  shows "has (getUserPermissions d userId role) p =
    (case find (\<lambda>r. up_permission r = p) (rev (t_select (\<lambda>r. up_userId r = userId) (db_perms d))) of
       None \<Rightarrow> p \<in> set DEFAULT_OP_PERMISSIONS
     | Some r \<Rightarrow> up_granted r = 1)"
  using assms
  by (auto simp: has_def getUserPermissions_def Let_def foldl_rows foldl_default foldl_grant
      split: option.splits)

lemma has_owner: "has (getUserPermissions d userId ''server_owner'') p \<longleftrightarrow> p \<in> set ALL_PERMISSIONS"
  by (simp add: has_def getUserPermissions_def foldl_grant)

section \<open>Properties\<close>

text \<open>C18: in any window of the configured length, however the attempts of all addresses interleave
  and whatever state the limiter is in, one address gets at most twice the configured maximum
  through.\<close>
theorem rate_limit_bound:
  assumes "rl_ok m" "\<forall>(i, t)\<in>set es. t0 \<le> t \<and> t \<le> t0 + rl_window cfg"
  shows "allowed ip (rl_run cfg m es) \<le> 2 * rl_cap cfg"
proof -
  have pos: "\<forall>c s. m ip = Some (c, s) \<longrightarrow> 1 \<le> c"
    using assms(1) by (fastforce simp: rl_ok_def ran_def)
  have "(case m ip of None \<Rightarrow> 0 | Some (c, s) \<Rightarrow> nat (max 0 (rl_max cfg - c))) \<le> rl_cap cfg"
    using pos by (auto simp: rl_cap_def split: option.splits)
  moreover have "allowed ip (rl_run cfg m es) \<le>
    (case m ip of None \<Rightarrow> 0 | Some (c, s) \<Rightarrow> nat (max 0 (rl_max cfg - c))) + rl_cap cfg"
    by (rule rl_run_bound) (use assms(2) pos in auto)
  ultimately show ?thesis by simp
qed

theorem rate_limit_bound_witness:
  "allowed ''a'' (rl_run Map.empty Map.empty (replicate 30 (''a'', 5))) \<le> 20"
proof -
  have "\<forall>(i, t)\<in>set (replicate 30 (''a'', 5)). 0 \<le> t \<and> t \<le> 0 + rl_window Map.empty"
    by (simp add: rl_window_def config_getInt_def)
  from rate_limit_bound [of Map.empty, OF _ this, of "''a''"]
  show ?thesis by (simp add: rl_ok_def rl_cap_def rl_max_def config_getInt_def)
qed

text \<open>A token yields a valid session exactly when a session row with that token belongs to an
  active user and has not expired; the session then carries that token and that user's id and role,
  and only the session's activity time is written.\<close>
theorem session_valid:
  "ses_valid (fst (getSession now token d)) \<longleftrightarrow>
     token \<noteq> [] \<and> (\<exists>s u. session_join d token = Some (s, u) \<and> s \<in> set (db_sessions d) \<and>
        u \<in> set (t_rows (db_users d)) \<and> s_token s = token \<and> s_userId s = u_id u \<and>
        u_status u = ''active'' \<and> now \<le> s_expiresAt s \<and>
        ses_token (fst (getSession now token d)) = token \<and>
        ses_userId (fst (getSession now token d)) = to_string (u_id u) \<and>
        ses_role (fst (getSession now token d)) = u_role u)"
  by (auto simp: getSession_valid_iff dest: session_joinD
      intro!: getSession_token getSession_role [THEN conjunct1] getSession_role [THEN conjunct2])

text \<open>A password verifies against its own stored hash, and another password does exactly when
  scrypt derives the same key from it under the stored salt.\<close>
theorem password_verification:
  assumes "scrypt pw (randomHex rnd 16) = Some h"
  shows "verifyPassword scrypt pw (hashPassword scrypt rnd pw)
    \<and> (verifyPassword scrypt pw' (hashPassword scrypt rnd pw) \<longleftrightarrow> scrypt pw' (randomHex rnd 16) = Some h)"
  using verifyPassword_other [of scrypt pw rnd h pw'] verifyPassword_other [of scrypt pw rnd h pw] assms
  by simp

theorem password_verification_witness:
  "\<not> verifyPassword (\<lambda>pw salt. Some (map (\<lambda>c. word_of_nat (byte_of c)) pw)) ''b''
      (hashPassword (\<lambda>pw salt. Some (map (\<lambda>c. word_of_nat (byte_of c)) pw)) (\<lambda>n. replicate n 0) ''a'')"
  using password_verification [of "\<lambda>pw salt. Some (map (\<lambda>c. word_of_nat (byte_of c)) pw)" "''a''"
      "\<lambda>n. replicate n 0" "[97]" "''b''"]
  by (simp add: byte_of_def)

text \<open>A server owner holds exactly the listed permissions; anyone else's stored grant or denial
  (the last row) decides, and without a row exactly the operators' defaults are held.\<close>
theorem permission_precedence:
  "has (getUserPermissions d userId role) p =
    (if role = ''server_owner'' then p \<in> set ALL_PERMISSIONS
     else case find (\<lambda>r. up_permission r = p) (rev (t_select (\<lambda>r. up_userId r = userId) (db_perms d))) of
            None \<Rightarrow> p \<in> set DEFAULT_OP_PERMISSIONS
          | Some r \<Rightarrow> up_granted r = 1)"
  using has_owner has_permission by simp

end
