(* ===== verification/Regex.thy ===== *)
theory Regex
  imports Prelude
begin

text \<open>
  The regular expressions of src/core/log_parser.cpp: the part of the ECMAScript syntax the patterns
  use, compiled from the pattern text, and \<open>std::regex_search\<close> with its priority order (the leftmost
  start, the left alternative first, greedy and lazy repetition) and captures. Every loop of these
  patterns repeats a single character class, so the matcher is structurally recursive. In pattern
  texts \<open>~\<close> stands for the backslash, which a string literal here cannot hold.
\<close>

section \<open>Expressions\<close>

datatype cset = Dot | Digit | WordC | Space | Range char char | Or cset cset | Not cset

fun in_cset :: "cset \<Rightarrow> char \<Rightarrow> bool" where
  "in_cset Dot c = (byte_of c \<noteq> 10 \<and> byte_of c \<noteq> 13)"
| "in_cset Digit c = is_digit c"
| "in_cset WordC c = (is_digit c \<or> 65 \<le> byte_of c \<and> byte_of c \<le> 90 \<or>
     97 \<le> byte_of c \<and> byte_of c \<le> 122 \<or> byte_of c = 95)"
| "in_cset Space c = is_space c"
| "in_cset (Range a b) c = (byte_of a \<le> byte_of c \<and> byte_of c \<le> byte_of b)"
| "in_cset (Or p q) c = (in_cset p c \<or> in_cset q c)"
| "in_cset (Not p) c = (\<not> in_cset p c)"

abbreviation One :: "char \<Rightarrow> cset" where
  "One c \<equiv> Range c c"

datatype rx =
    Eps
  | Cls cset
  | Many bool nat "nat option" cset
  | Cat rx rx
  | Alt rx rx
  | Opt rx
  | Cap nat rx

section \<open>Compiling a pattern\<close>

fun p_escape :: "char \<Rightarrow> cset" where
  "p_escape c = (if c = CHR ''d'' then Digit else if c = CHR ''w'' then WordC
     else if c = CHR ''s'' then Space else One c)"

definition cs_or :: "cset option \<Rightarrow> cset \<Rightarrow> cset" where
  "cs_or acc q = (case acc of None \<Rightarrow> q | Some p \<Rightarrow> Or p q)"

fun p_class :: "cset option \<Rightarrow> string \<Rightarrow> (cset \<times> string) option" where
  "p_class acc [] = None"
| "p_class acc (a # s) =
     (if a = CHR '']'' then map_option (\<lambda>p. (p, s)) acc
      else if a = CHR ''~'' then
        (case s of [] \<Rightarrow> None | c # s' \<Rightarrow> p_class (Some (cs_or acc (p_escape c))) s')
      else
        (case s of
           d # b # s' \<Rightarrow>
             if d = CHR ''-'' \<and> b \<noteq> CHR '']'' then p_class (Some (cs_or acc (Range a b))) s'
             else p_class (Some (cs_or acc (One a))) s
         | _ \<Rightarrow> p_class (Some (cs_or acc (One a))) s))"

text \<open>\<open>after c s\<close> is what follows the character \<open>c\<close>, if \<open>s\<close> starts with it.\<close>

definition after :: "char \<Rightarrow> string \<Rightarrow> string option" where
  "after c s = (case s of [] \<Rightarrow> None | d # s' \<Rightarrow> if d = c then Some s' else None)"

definition p_set :: "string \<Rightarrow> (cset \<times> string) option" where
  "p_set s = (case after CHR ''^'' s of
     Some s' \<Rightarrow> map_option (\<lambda>(p, r). (Not p, r)) (p_class None s')
   | None \<Rightarrow> p_class None s)"

definition p_lazy :: "string \<Rightarrow> bool \<times> string" where
  "p_lazy s = (case after CHR ''?'' s of Some s' \<Rightarrow> (True, s') | None \<Rightarrow> (False, s))"

definition p_count :: "string \<Rightarrow> (bool \<times> nat \<times> nat option \<times> string) option" where
  "p_count s =
     map_option (\<lambda>r. (False, digits_val (takeWhile is_digit s), Some (digits_val (takeWhile is_digit s)), r))
       (after CHR ''}'' (dropWhile is_digit s))"

definition p_quant :: "string \<Rightarrow> (bool \<times> nat \<times> nat option \<times> string) option" where
  "p_quant s = (case s of [] \<Rightarrow> None | c # s' \<Rightarrow>
     if c = CHR ''*'' then (case p_lazy s' of (l, r) \<Rightarrow> Some (l, 0, None, r))
     else if c = CHR ''+'' then (case p_lazy s' of (l, r) \<Rightarrow> Some (l, 1, None, r))
     else if c = CHR ''?'' then (case p_lazy s' of (l, r) \<Rightarrow> Some (l, 0, Some 1, r))
     else if c = CHR ''{'' then p_count s'
     else None)"

definition quantify :: "rx \<Rightarrow> string \<Rightarrow> (rx \<times> string) option" where
  "quantify a s = (case p_quant s of
     None \<Rightarrow> Some (a, s)
   | Some (l, mn, mx, s') \<Rightarrow>
       (case a of
          Cls p \<Rightarrow> Some (Many l mn mx p, s')
        | _ \<Rightarrow> if l = False \<and> mn = 0 \<and> mx = Some 1 then Some (Opt a, s') else None))"

definition closing :: "(rx \<Rightarrow> rx) \<Rightarrow> (rx \<times> nat \<times> string) option \<Rightarrow> (rx \<times> nat \<times> string) option" where
  "closing f x = (case x of None \<Rightarrow> None
     | Some (r, g, s) \<Rightarrow> map_option (\<lambda>s'. (f r, g, s')) (after CHR '')'' s))"

text \<open>A sequence (\<open>True\<close>) or alternatives (\<open>False\<close>), with the number of groups opened so far.\<close>

fun rx_parse :: "nat \<Rightarrow> bool \<Rightarrow> nat \<Rightarrow> string \<Rightarrow> (rx \<times> nat \<times> string) option" where
  "rx_parse 0 b g s = None"
| "rx_parse (Suc n) False g s =
     (case rx_parse n True g s of
        None \<Rightarrow> None
      | Some (r, g', s') \<Rightarrow>
          (case after CHR ''|'' s' of
             None \<Rightarrow> Some (r, g', s')
           | Some s'' \<Rightarrow>
               (case rx_parse n False g' s'' of
                  None \<Rightarrow> None
                | Some (r2, g2, s2) \<Rightarrow> Some (Alt r r2, g2, s2))))"
| "rx_parse (Suc n) True g s =
     (case s of [] \<Rightarrow> Some (Eps, g, s) | c # s1 \<Rightarrow>
      if c = CHR '')'' \<or> c = CHR ''|'' then Some (Eps, g, s)
      else
        (case (if c = CHR ''('' then
                 (if starts_with ''?:'' s1 then closing id (rx_parse n False g (drop 2 s1))
                  else closing (Cap (Suc g)) (rx_parse n False (Suc g) s1))
               else if c = CHR ''['' then map_option (\<lambda>(p, r). (Cls p, g, r)) (p_set s1)
               else if c = CHR ''.'' then Some (Cls Dot, g, s1)
               else if c = CHR ''~'' then
                 (case s1 of [] \<Rightarrow> None | d # s2 \<Rightarrow> Some (Cls (p_escape d), g, s2))
               else Some (Cls (One c), g, s1)) of
           None \<Rightarrow> None
         | Some (a, g', s') \<Rightarrow>
             (case quantify a s' of
                None \<Rightarrow> None
              | Some (a', s'') \<Rightarrow>
                  (case rx_parse n True g' s'' of
                     None \<Rightarrow> None
                   | Some (r, g2, s2) \<Rightarrow> Some (Cat a' r, g2, s2)))))"

definition rx_compile :: "string \<Rightarrow> rx option" where
  "rx_compile s =
     (case rx_parse (2 * length s + 2) False 0 s of Some (r, _, []) \<Rightarrow> Some r | _ \<Rightarrow> None)"

text \<open>\<open>std::regex::icase\<close>: a letter matches both its cases.\<close>

fun icase_cset :: "cset \<Rightarrow> cset" where
  "icase_cset (Range a b) =
     (if a = b then (if to_lower a = to_upper a then Range a b
                     else Or (One (to_lower a)) (One (to_upper a))) else Range a b)"
| "icase_cset (Or p q) = Or (icase_cset p) (icase_cset q)"
| "icase_cset (Not p) = Not (icase_cset p)"
| "icase_cset p = p"

fun icase :: "rx \<Rightarrow> rx" where
  "icase Eps = Eps"
| "icase (Cls p) = Cls (icase_cset p)"
| "icase (Many l mn mx p) = Many l mn mx (icase_cset p)"
| "icase (Cat a b) = Cat (icase a) (icase b)"
| "icase (Alt a b) = Alt (icase a) (icase b)"
| "icase (Opt a) = Opt (icase a)"
| "icase (Cap n a) = Cap n (icase a)"

section \<open>Matching\<close>

type_synonym caps = "nat \<rightharpoonup> string"

definition orelse :: "'a option \<Rightarrow> 'a option \<Rightarrow> 'a option" where
  "orelse a b = (case a of None \<Rightarrow> b | Some x \<Rightarrow> Some x)"

lemma orelse_simps [simp]:
  "orelse None b = b" "orelse (Some x) b = Some x" "orelse a None = a"
  by (simp_all add: orelse_def split: option.splits)

lemma orelse_None [simp]: "orelse a b = None \<longleftrightarrow> a = None \<and> b = None"
  by (simp add: orelse_def split: option.splits)

lemma orelse_SomeD: "orelse a b = Some x \<Longrightarrow> a = Some x \<or> b = Some x"
  by (simp add: orelse_def split: option.splits)

text \<open>A repeated class: lazy tries to stop first, greedy to go on first.\<close>

fun rep_run :: "bool \<Rightarrow> cset \<Rightarrow> nat \<Rightarrow> nat option \<Rightarrow> (string \<Rightarrow> 'a option) \<Rightarrow> string \<Rightarrow> 'a option" where
  "rep_run l p mn mx k [] = (if mn = 0 then k [] else None)"
| "rep_run l p mn mx k (c # s) =
     (let stop = (if mn = 0 then k (c # s) else None);
          more = (if mx \<noteq> Some 0 \<and> in_cset p c
                  then rep_run l p (mn - 1) (map_option (\<lambda>m. m - 1) mx) k s else None)
      in if l then orelse stop more else orelse more stop)"

fun rx_run :: "rx \<Rightarrow> string \<Rightarrow> caps \<Rightarrow> (string \<Rightarrow> caps \<Rightarrow> 'a option) \<Rightarrow> 'a option" where
  "rx_run Eps s m k = k s m"
| "rx_run (Cls p) s m k =
     (case s of [] \<Rightarrow> None | c # s' \<Rightarrow> if in_cset p c then k s' m else None)"
| "rx_run (Many l mn mx p) s m k = rep_run l p mn mx (\<lambda>s'. k s' m) s"
| "rx_run (Cat a b) s m k = rx_run a s m (\<lambda>s' m'. rx_run b s' m' k)"
| "rx_run (Alt a b) s m k =
     orelse (rx_run a s m k) (rx_run b s m k)"
| "rx_run (Opt a) s m k = orelse (rx_run a s m k) (k s m)"
| "rx_run (Cap n a) s m k =
     rx_run a s m (\<lambda>s' m'. k s' (m'(n \<mapsto> take (length s - length s') s)))"

fun rx_search :: "rx \<Rightarrow> string \<Rightarrow> caps option" where
  "rx_search r [] = rx_run r [] Map.empty (\<lambda>_ m. Some m)"
| "rx_search r (c # s) =
     orelse (rx_run r (c # s) Map.empty (\<lambda>_ m. Some m)) (rx_search r s)"

text \<open>\<open>m[i].str()\<close>, empty for an unmatched group.\<close>

definition grp :: "caps \<Rightarrow> nat \<Rightarrow> string" where
  "grp m i = (case m i of None \<Rightarrow> [] | Some w \<Rightarrow> w)"

section \<open>The matcher finds a match exactly when there is one\<close>

text \<open>Which words an expression describes, captures left aside.\<close>

fun rx_lang :: "rx \<Rightarrow> string \<Rightarrow> bool" where
  "rx_lang Eps w = (w = [])"
| "rx_lang (Cls p) w = (\<exists>c. w = [c] \<and> in_cset p c)"
| "rx_lang (Many l mn mx p) w =
     (mn \<le> length w \<and> (\<forall>m. mx = Some m \<longrightarrow> length w \<le> m) \<and> (\<forall>c\<in>set w. in_cset p c))"
| "rx_lang (Cat a b) w = (\<exists>u v. w = u @ v \<and> rx_lang a u \<and> rx_lang b v)"
| "rx_lang (Alt a b) w = (rx_lang a w \<or> rx_lang b w)"
| "rx_lang (Opt a) w = (w = [] \<or> rx_lang a w)"
| "rx_lang (Cap n a) w = rx_lang a w"

lemma rep_run_sound:
  "rep_run l p mn mx k s = Some x \<Longrightarrow>
     \<exists>u v. s = u @ v \<and> rx_lang (Many l mn mx p) u \<and> k v = Some x"
proof (induction s arbitrary: mn mx)
  case Nil
  then show ?case by (auto split: if_splits)
next
  case (Cons c s)
  let ?stop = "if mn = 0 then k (c # s) else None"
  let ?more = "if mx \<noteq> Some 0 \<and> in_cset p c
    then rep_run l p (mn - 1) (map_option (\<lambda>m. m - 1) mx) k s else None"
  have "?stop = Some x \<or> ?more = Some x"
    using Cons.prems unfolding rep_run.simps Let_def
    by (cases l) (simp_all only: if_True if_False, (blast dest: orelse_SomeD)+)
  then show ?case
  proof
    assume "?stop = Some x"
    then show ?thesis
      by (intro exI [of _ "[]"] exI [of _ "c # s"]) (simp split: if_splits)
  next
    assume "?more = Some x"
    then have a: "mx \<noteq> Some 0" "in_cset p c"
      "rep_run l p (mn - 1) (map_option (\<lambda>m. m - 1) mx) k s = Some x"
      by (simp_all split: if_splits)
    from Cons.IH [OF a(3)] obtain u v where
      "s = u @ v" "rx_lang (Many l (mn - 1) (map_option (\<lambda>m. m - 1) mx) p) u" "k v = Some x"
      by blast
    then show ?thesis using a(1,2)
      by (intro exI [of _ "c # u"] exI [of _ v]) (cases mx, auto)
  qed
qed

lemma rx_run_sound:
  "rx_run r s m k = Some x \<Longrightarrow> \<exists>u v m'. s = u @ v \<and> rx_lang r u \<and> k v m' = Some x"
proof (induction r arbitrary: s m k)
  case Eps
  then show ?case by simp blast
next
  case (Cls p)
  then obtain c s' where "s = c # s'" "in_cset p c" "k s' m = Some x"
    by (cases s) (simp_all split: if_splits)
  then show ?case by (intro exI [of _ "[c]"] exI [of _ s'] exI [of _ m]) simp
next
  case (Many l mn mx p)
  then have "rep_run l p mn mx (\<lambda>s'. k s' m) s = Some x" by simp
  from rep_run_sound [OF this] show ?case by blast
next
  case (Cat a b)
  then have "rx_run a s m (\<lambda>s' m'. rx_run b s' m' k) = Some x" by simp
  from Cat.IH(1) [OF this] obtain u v m' where 1: "s = u @ v" "rx_lang a u" "rx_run b v m' k = Some x"
    by blast
  from Cat.IH(2) [OF 1(3)] obtain u' v' m2 where "v = u' @ v'" "rx_lang b u'" "k v' m2 = Some x"
    by blast
  then show ?case using 1 by (intro exI [of _ "u @ u'"] exI [of _ v'] exI [of _ m2]) auto
next
  case (Alt a b)
  from Alt.prems have "rx_run a s m k = Some x \<or> rx_run b s m k = Some x"
    by (auto dest: orelse_SomeD)
  then show ?case using Alt.IH by simp metis
next
  case (Opt a)
  from Opt.prems have "rx_run a s m k = Some x \<or> k s m = Some x"
    by (auto dest: orelse_SomeD)
  then show ?case
  proof
    assume "k s m = Some x"
    then show ?thesis by (intro exI [of _ "[]"] exI [of _ s] exI [of _ m]) simp
  qed (use Opt.IH in simp, metis)
next
  case (Cap n a)
  then have "rx_run a s m (\<lambda>s' m'. k s' (m'(n \<mapsto> take (length s - length s') s))) = Some x" by simp
  from Cap.IH [OF this] show ?case by auto
qed

lemma rep_run_complete:
  "rx_lang (Many l mn mx p) u \<Longrightarrow> k v \<noteq> None \<Longrightarrow> rep_run l p mn mx k (u @ v) \<noteq> None"
proof (induction u arbitrary: mn mx)
  case Nil
  then show ?case by (cases v; cases l) (simp_all add: Let_def del: not_None_eq)
next
  case (Cons c u)
  have "rx_lang (Many l (mn - 1) (map_option (\<lambda>m. m - 1) mx) p) u"
    using Cons.prems(1) by (cases mx) (auto simp: le_diff_conv)
  from Cons.IH [OF this Cons.prems(2)]
  have "rep_run l p (mn - 1) (map_option (\<lambda>m. m - 1) mx) k (u @ v) \<noteq> None" .
  moreover have "mx \<noteq> Some 0" "in_cset p c" using Cons.prems(1) by auto
  ultimately show ?case by (cases l) (simp_all add: Let_def)
qed

lemma rx_run_complete:
  "rx_lang r u \<Longrightarrow> (\<And>m'. k v m' \<noteq> None) \<Longrightarrow> rx_run r (u @ v) m k \<noteq> None"
proof (induction r arbitrary: u v m k)
  case (Cls p)
  then show ?case by auto
next
  case (Many l mn mx p)
  then show ?case using rep_run_complete [of l mn mx p u "\<lambda>s'. k s' m" v] by simp
next
  case (Cat a b)
  then obtain u1 u2 where u: "u = u1 @ u2" "rx_lang a u1" "rx_lang b u2" by auto
  have "rx_run a (u1 @ (u2 @ v)) m (\<lambda>s' m'. rx_run b s' m' k) \<noteq> None"
    by (rule Cat.IH(1), rule u, rule Cat.IH(2), rule u, rule Cat.prems)
  then show ?case using u by simp
next
  case (Alt a b)
  from Alt.prems(1) consider "rx_lang a u" | "rx_lang b u" by auto
  then show ?case
  proof cases
    case 1
    from Alt.IH(1) [of u k v m, OF 1 Alt.prems(2)] show ?thesis by simp
  next
    case 2
    from Alt.IH(2) [of u k v m, OF 2 Alt.prems(2)] show ?thesis by simp
  qed
next
  case (Opt a)
  from Opt.prems(1) consider "u = []" | "rx_lang a u" by auto
  then show ?case
  proof cases
    case 1
    with Opt.prems(2) show ?thesis by simp
  next
    case 2
    from Opt.IH [of u k v m, OF 2 Opt.prems(2)] show ?thesis by simp
  qed
next
  case (Cap n a)
  have "rx_run a (u @ v) m (\<lambda>s' m'. k s' (m'(n \<mapsto> take (length (u @ v) - length s') (u @ v)))) \<noteq> None"
    by (rule Cap.IH) (use Cap.prems in auto)
  then show ?case by simp
qed simp

lemma rx_search_iff: "rx_search r s \<noteq> None \<longleftrightarrow> (\<exists>a u b. s = a @ u @ b \<and> rx_lang r u)"
proof (induction s)
  case Nil
  show ?case
    using rx_run_sound [of r "[]" Map.empty "\<lambda>_ m. Some m"]
      rx_run_complete [of r "[]" "\<lambda>_ m. Some m" "[]" Map.empty] by auto
next
  case (Cons c s)
  show ?case
  proof (cases "rx_run r (c # s) Map.empty (\<lambda>_ m. Some m)")
    case (Some m)
    from rx_run_sound [OF this] obtain u v where "c # s = [] @ u @ v" "rx_lang r u" by auto
    then have "\<exists>a u b. c # s = a @ u @ b \<and> rx_lang r u" by blast
    with Some show ?thesis by simp
  next
    case None
    have "\<not> (\<exists>u b. c # s = u @ b \<and> rx_lang r u)"
    proof clarify
      fix u b assume "c # s = u @ b" "rx_lang r u"
      then show False using rx_run_complete [of r u "\<lambda>_ m. Some m" b Map.empty] None by auto
    qed
    then have "(\<exists>a u b. c # s = a @ u @ b \<and> rx_lang r u) \<longleftrightarrow> (\<exists>a u b. s = a @ u @ b \<and> rx_lang r u)"
      by (metis append_eq_Cons_conv)
    then show ?thesis using None Cons.IH by simp
  qed
qed

section \<open>Running an expression on a text of known shape\<close>

lemma byte_of_inj [simp]: "byte_of a = byte_of b \<longleftrightarrow> a = b"
  by (simp add: byte_of_def)

lemma in_cset_One [simp]: "in_cset (Range a a) c \<longleftrightarrow> c = a"
  by (auto dest: antisym simp del: byte_of_inj simp flip: byte_of_inj)

declare in_cset.simps(5) [simp del]

lemmas in_cset_Range = in_cset.simps(5)

text \<open>A literal.\<close>

fun lits :: "string \<Rightarrow> rx \<Rightarrow> rx" where
  "lits [] r = r"
| "lits (c # w) r = Cat (Cls (One c)) (lits w r)"

lemma run_lits: "rx_run (lits w r) s m k = (if starts_with w s then rx_run r (drop (length w) s) m k else None)"
proof (induction w arbitrary: s)
  case Nil
  then show ?case by (simp add: starts_with_def)
next
  case (Cons c w)
  then show ?case by (cases s) (auto simp: starts_with_def)
qed

lemma run_lits_eq [simp]: "rx_run (lits w r) (w @ s) m k = rx_run r s m k"
  by (simp add: run_lits starts_with_def)

text \<open>A fixed number of characters of a class.\<close>

lemma rep_exact:
  "length w = n \<Longrightarrow> \<forall>c\<in>set w. in_cset p c \<Longrightarrow> rep_run l p n (Some n) k (w @ s) = k s"
proof (induction w arbitrary: n)
  case Nil
  then show ?case by (cases s) (auto simp: Let_def)
next
  case (Cons c w)
  then show ?case by (auto simp: Let_def)
qed

text \<open>A greedy repetition takes all that fits, when the rest then matches.\<close>

lemma rep_greedy:
  assumes "\<forall>c\<in>set w. in_cset p c" "mn \<le> length w" "s = [] \<or> \<not> in_cset p (hd s)" "k s = Some x"
  shows "rep_run False p mn None k (w @ s) = Some x"
  using assms
proof (induction w arbitrary: mn)
  case Nil
  then show ?case by (cases s) auto
next
  case (Cons c w)
  have "rep_run False p (mn - 1) None k (w @ s) = Some x"
    by (rule Cons.IH) (use Cons.prems in auto)
  then show ?case using Cons.prems(1) by (simp add: Let_def)
qed

text \<open>A lazy repetition stops at the first place from which the rest matches.\<close>

lemma rep_lazy:
  assumes "\<forall>c\<in>set w. in_cset p c" "mn \<le> length w"
    and "\<forall>i<length w. mn \<le> i \<longrightarrow> k (drop i w @ s) = None" and "k s = Some x"
  shows "rep_run True p mn None k (w @ s) = Some x"
  using assms
proof (induction w arbitrary: mn)
  case Nil
  then show ?case by (cases s) auto
next
  case (Cons c w)
  have "rep_run True p (mn - 1) None k (w @ s) = Some x"
  proof (rule Cons.IH)
    show "\<forall>i<length w. mn - 1 \<le> i \<longrightarrow> k (drop i w @ s) = None"
    proof (intro allI impI)
      fix i assume "i < length w" "mn - 1 \<le> i"
      with Cons.prems(3) [rule_format, of "Suc i"] show "k (drop i w @ s) = None" by simp
    qed
  qed (use Cons.prems in auto)
  moreover have "mn = 0 \<Longrightarrow> k (c # w @ s) = None"
    using Cons.prems(3) [rule_format, of 0] by simp
  ultimately show ?case using Cons.prems(1) by (simp add: Let_def)
qed

text \<open>\<open>stops_at L w\<close>: in \<open>w\<close> followed by \<open>L\<close>, the first occurrence of \<open>L\<close> is the one after \<open>w\<close>.\<close>

definition stops_at :: "string \<Rightarrow> string \<Rightarrow> bool" where
  "stops_at L w = (\<forall>i\<in>set [0..<length w]. \<not> starts_with L (drop i w @ L))"

lemma stops_at_drop: "stops_at L w \<Longrightarrow> i < length w \<Longrightarrow> \<not> starts_with L (drop i w @ L @ s)"
  by (simp add: stops_at_def starts_with_def)

definition over :: "cset \<Rightarrow> string \<Rightarrow> bool" where
  "over p w = (w \<noteq> [] \<and> list_all (in_cset p) w)"

lemma over_simps: "over p w \<Longrightarrow> w \<noteq> []" "over p w \<Longrightarrow> \<forall>c\<in>set w. in_cset p c" "over p w \<Longrightarrow> 1 \<le> length w"
  by (auto simp: over_def list_all_iff Suc_le_eq)

lemma run_lazy_lits:
  assumes "stops_at L w" "over p w" "rx_run r s (m(n \<mapsto> w)) k = Some x"
  shows "rx_run (Cat (Cap n (Cat (Many True 1 None p) Eps)) (lits L r)) (w @ L @ s) m k = Some x"
proof -
  have "rep_run True p 1 None (\<lambda>s'. rx_run (lits L r) s'
      (m(n \<mapsto> take (length (w @ L @ s) - length s') (w @ L @ s))) k) (w @ L @ s) = Some x"
  proof (rule rep_lazy)
    show "\<forall>i<length w. 1 \<le> i \<longrightarrow> rx_run (lits L r) (drop i w @ L @ s)
        (m(n \<mapsto> take (length (w @ L @ s) - length (drop i w @ L @ s)) (w @ L @ s))) k = None"
      using stops_at_drop [OF assms(1)] by (simp add: run_lits)
  qed (use assms over_simps [OF assms(2)] in auto)
  then show ?thesis by simp
qed

lemma run_greedy_cap:
  assumes "\<forall>c\<in>set w. in_cset p c" "mn \<le> length w" "s = [] \<or> \<not> in_cset p (hd s)"
    and "rx_run r s (m(n \<mapsto> w)) k = Some x"
  shows "rx_run (Cat (Cap n (Cat (Many False mn None p) Eps)) r) (w @ s) m k = Some x"
proof -
  have "rep_run False p mn None (\<lambda>s'. rx_run r s'
      (m(n \<mapsto> take (length (w @ s) - length s') (w @ s))) k) (w @ s) = Some x"
    by (rule rep_greedy) (use assms in auto)
  then show ?thesis by simp
qed

lemma run_cls_miss: "s = [] \<or> \<not> in_cset p (hd s) \<Longrightarrow> rx_run (Cat (Cls p) r) s m k = None"
  by (cases s) auto

text \<open>\<open>regex_search\<close> succeeds at the first start that matches.\<close>

lemma rx_search_here: "rx_run r s Map.empty (\<lambda>_ m. Some m) = Some m \<Longrightarrow> rx_search r s = Some m"
  by (cases s) simp_all

text \<open>The steps of a match, as introduction rules on the text still to read.\<close>

named_theorems rx_steps

lemma run_litsI [rx_steps]: "rx_run r s m k = Some x \<Longrightarrow> rx_run (lits w r) (w @ s) m k = Some x"
  by simp

lemma run_epsI [rx_steps]: "k s m = Some x \<Longrightarrow> rx_run Eps s m k = Some x"
  by simp

lemma run_last_cap [rx_steps]:
  assumes "\<forall>c\<in>set w. in_cset p c" "mn \<le> length w" "rx_run r [] (m(n \<mapsto> w)) k = Some x"
  shows "rx_run (Cat (Cap n (Cat (Many False mn None p) Eps)) r) w m k = Some x"
  using run_greedy_cap [of w p mn "[]" r m n k x] assms by simp

lemma run_skip_opt [rx_steps]:
  "\<not> starts_with w s \<Longrightarrow> rx_run r s m k = Some x \<Longrightarrow> rx_run (Cat (Opt (lits w Eps)) r) s m k = Some x"
  by (simp add: run_lits)

lemma run_maybe [rx_steps]:
  "rx_run r s m k = Some x \<Longrightarrow> rx_run (Cat (Many False 0 (Some 1) (One c)) r) ([c] @ s) m k = Some x"
  by (cases s) (auto simp: Let_def)

lemma run_greedy:
  "over p w \<Longrightarrow> s = [] \<or> \<not> in_cset p (hd s) \<Longrightarrow> rx_run r s (m(n \<mapsto> w)) k = Some x \<Longrightarrow>
     rx_run (Cat (Cap n (Cat (Many False 1 None p) Eps)) r) (w @ s) m k = Some x"
  by (rule run_greedy_cap) (use over_simps [of p w] in auto)

lemma run_last:
  "over p w \<Longrightarrow> rx_run r [] (m(n \<mapsto> w)) k = Some x \<Longrightarrow>
     rx_run (Cat (Cap n (Cat (Many False 1 None p) Eps)) r) w m k = Some x"
  by (rule run_last_cap) (use over_simps [of p w] in auto)

text \<open>A signed number of which the sign is absent.\<close>

lemma run_unsigned:
  assumes "over p w" "\<not> in_cset p (CHR ''-'')" "s = [] \<or> \<not> in_cset p (hd s)"
    and "rx_run r s (m(n \<mapsto> w)) k = Some x"
  shows "rx_run (Cat (Cap n (Cat (Many False 0 (Some 1) (One (CHR ''-''))) (Cat (Many False 1 None p) Eps))) r)
    (w @ s) m k = Some x"
proof -
  have "rep_run False p 1 None (\<lambda>s'. rx_run r s'
      (m(n \<mapsto> take (length (w @ s) - length s') (w @ s))) k) (w @ s) = Some x"
    by (rule rep_greedy) (use assms over_simps [OF assms(1)] in auto)
  moreover from assms(2) over_simps [OF assms(1)] obtain c w' where "w = c # w'" "c \<noteq> CHR ''-''" by (cases w) auto
  ultimately show ?thesis by (simp add: Let_def)
qed

text \<open>White space skipped by \<open>~s*\<close> or \<open>~s+\<close> before something else.\<close>

lemma run_spaces [rx_steps]:
  assumes "\<forall>c\<in>set w. is_space c" "mn \<le> length w" "s = [] \<or> \<not> is_space (hd s)"
    and "rx_run r s m k = Some x"
  shows "rx_run (Cat (Many False mn None Space) r) (w @ s) m k = Some x"
proof -
  have "rep_run False Space mn None (\<lambda>s'. rx_run r s' m k) (w @ s) = Some x"
    by (rule rep_greedy) (use assms in auto)
  then show ?thesis by simp
qed

lemma lang_lits: "rx_lang (lits w r) u \<longleftrightarrow> (\<exists>v. u = w @ v \<and> rx_lang r v)"
proof (induction w arbitrary: u)
  case (Cons c w)
  have "rx_lang (lits (c # w) r) u \<longleftrightarrow> (\<exists>u'. u = c # u' \<and> rx_lang (lits w r) u')"
    by auto
  then show ?case by (auto simp: Cons.IH)
qed simp

text \<open>Nothing matches a pattern that starts with a literal the text does not contain.\<close>

lemma rx_search_lits_None:
  assumes "\<not> str_contains w s" shows "rx_search (lits w r) s = None"
proof (rule ccontr)
  assume "rx_search (lits w r) s \<noteq> None"
  then obtain a u b where "s = a @ u @ b" "rx_lang (lits w r) u" unfolding rx_search_iff by blast
  then obtain v where "s = a @ w @ (v @ b)" by (auto simp: lang_lits)
  with assms show False unfolding str_contains_iff by blast
qed

end
