(* ===== verification/LogParser.thy ===== *)
theory LogParser
  imports Regex Core Json
begin

text \<open>
  src/core/log_parser.cpp: the patterns of the constructor, verbatim up to the backslash, the
  clean-up and extraction helpers, the store of recent wounds, \<open>LogParser::processLine\<close> branch by
  branch, and the player list of the console. An exception of \<open>std::stod\<close> or \<open>std::stoi\<close> is an
  \<open>Inl\<close>. The steady clock, in milliseconds, is an argument.
\<close>

section \<open>Data\<close>

record PlayerInfo =
  pi_rconId :: int
  pi_steamId :: string
  pi_eosId :: string
  pi_name :: string
  pi_teamId :: string
  pi_squadId :: string
  pi_isLeader :: bool
  pi_role :: string

record ChatEvent =
  ce_chatType :: string
  ce_playerName :: string
  ce_message :: string
  ce_steamId :: string
  ce_eosId :: string

text \<open>A damage is the double \<open>m * 2 ^ e\<close>.\<close>

record WoundEvent =
  we_victimName :: string
  we_attackerName :: string
  we_attackerSteamId :: string
  we_attackerEosId :: string
  we_weapon :: string
  we_damage :: "int \<times> int"

record WoundRecord =
  wr_victimName :: string
  wr_damage :: "int \<times> int"
  wr_attackerController :: string
  wr_attackerSteamId :: string
  wr_attackerEosId :: string
  wr_weapon :: string
  wr_time :: int

record ParsedLine =
  pl_type :: string
  pl_fields :: "string \<rightharpoonup> string"

text \<open>The wound store: at most one record per name, in the order of the hash table, which nothing
  depends on.\<close>

type_synonym wounds = "(string \<times> WoundRecord) list"

definition wound_put :: "string \<Rightarrow> WoundRecord \<Rightarrow> wounds \<Rightarrow> wounds" where
  "wound_put v r ws = (v, r) # filter (\<lambda>(k, _). k \<noteq> v) ws"

definition wound_erase :: "string \<Rightarrow> wounds \<Rightarrow> wounds" where
  "wound_erase v ws = filter (\<lambda>(k, _). k \<noteq> v) ws"

section \<open>Patterns (LogParser::LogParser)\<close>

definition reDie :: rx where
  "reDie =
     the (rx_compile ''~[(~d{4}~.~d{2}~.~d{2}-~d{2}~.~d{2}~.~d{2}:~d{3})~]~[(~d*)~]LogSquadTrace: ~[DedicatedServer~](?:ASQSoldier::)?Die~(~): Player:(.+?) KillingDamage=(-?[~d.]+) from (.+?) ~(Online IDs: EOS: (~w+) steam: (~d+) ~| Contoller? ID: (~w+)~) caused by (.+)'')"

definition reWound :: rx where
  "reWound =
     the (rx_compile ''~[(~d{4}~.~d{2}~.~d{2}-~d{2}~.~d{2}~.~d{2}:~d{3})~]~[(~d*)~]LogSquadTrace: ~[DedicatedServer~](?:ASQSoldier::)?Wound~(~): Player:(.+?) KillingDamage=(-?[~d.]+) from (.+?) ~(Online IDs: EOS: (~w+) steam: (~d+) ~| Controller? ID: (~w+)~) caused by (.+)'')"

definition reRevive :: rx where
  "reRevive =
     the (rx_compile ''~[(~d{4}~.~d{2}~.~d{2}-~d{2}~.~d{2}~.~d{2}:~d{3})~]~[(~d*)~]LogSquad:~s*(.+?) ~(Online IDs: EOS: (~w+) steam: (~d+)~) has revived (.+?) ~(Online IDs: EOS: (~w+) steam: (~d+)~)~.'')"

definition reChatLog :: rx where
  "reChatLog =
     icase (the (rx_compile ''~[ChatLog~]~s*(.+?)~s*~((~d{17})~):~s*(.+)''))"

definition reChatRelay :: rx where
  "reChatRelay =
     the (rx_compile ''~[(ChatAll|ChatTeam|ChatSquad|ChatAdmin)~]~s*~[Online IDs:?~s*EOS:~s*(~w+)~s+steam:~s*(~d+)~]~s*(?:~[(.+?)~]~s*(.*)|(.+?)~s*:~s*(.*))'')"

definition rePostLogin :: rx where
  "rePostLogin =
     the (rx_compile ''~[(~d{4}~.~d{2}~.~d{2}-~d{2}~.~d{2}~.~d{2}:~d{3})~]~[(~d*)~]LogSquad: PostLogin: NewPlayer:(.+?) ~(IP: ([~d.]+) ~| Online IDs: EOS: (~w+) steam: (~d+)~)'')"

definition reDisconnect :: rx where
  "reDisconnect =
     the (rx_compile ''~[(~d{4}~.~d{2}~.~d{2}-~d{2}~.~d{2}~.~d{2}:~d{3})~]~[(~d*)~]LogNet: UChannel::Close: Sending CloseBunch~. ChIndex == (~d+)~. Name: ~[UChannel~] ChIndex: (~d+), Closing: (~d+) ~[UNetConnection~] RemoteAddr: ([~d.]+):(~d+), Name: RedpointEOSIpNetConnection_(~w+), Driver: (~w+), IsServer: YES, PC: (~w+), Owner: (~w+), UniqueId: RedpointEOS:(~w+)'')"

definition reBeginInactive :: rx where
  "reBeginInactive =
     the (rx_compile ''~[(~d{4}~.~d{2}~.~d{2}-~d{2}~.~d{2}~.~d{2}:~d{3})~]~[(~d*)~]LogSquadTrace: ~[DedicatedServer~]BeginInactiveState~(~): PC=(.+?) ~(Online IDs: EOS: (~w+) steam: (~d+)~)'')"

definition reCreateSquad :: rx where
  "reCreateSquad =
     the (rx_compile ''~[(~d{4}~.~d{2}~.~d{2}-~d{2}~.~d{2}~.~d{2}:~d{3})~]~[(~d*)~]LogSquad:~s*(.+?) ~(Online IDs: EOS: (~w+) steam: (~d+)~) has created Squad (~d+) ~(Squad Name: (.*?)~) on (.+)'')"

definition reCreateSquadOld :: rx where
  "reCreateSquadOld =
     icase (the (rx_compile ''Player:(.+?)(?:~s*~(Online IDs[^~)]*~))?~s+Created Squad (.+?) with ID:~s*(~d+)''))"

definition reTickRate :: rx where
  "reTickRate =
     the (rx_compile ''~[(~d{4}~.~d{2}~.~d{2}-~d{2}~.~d{2}~.~d{2}:~d{3})~]~[(~d*)~]LogSquad: USQGameState: Server Tick Rate: ([~d.]+)'')"

definition reNewGame :: rx where
  "reNewGame =
     the (rx_compile ''~[(~d{4}~.~d{2}~.~d{2}-~d{2}~.~d{2}~.~d{2}:~d{3})~]~[(~d*)~]LogWorld: Bringing World /([A-z0-9]+)/(?:Maps/)?([A-z0-9-]+)/(?:.*/)?([A-z0-9-]+)(?:~.[A-z0-9-]+)'')"

definition reMatchEnd :: rx where
  "reMatchEnd =
     the (rx_compile ''~[(~d{4}~.~d{2}~.~d{2}-~d{2}~.~d{2}~.~d{2}:~d{3})~]~[(~d*)~]LogSquadGameEvents: Display: Team (~d+), (.+?) has (won|lost) the match with (~d+) Tickets? on layer (.+?) ~(level (.+)~)!'')"

definition reChangeLayer :: rx where
  "reChangeLayer =
     the (rx_compile ''~[(~d{4}~.~d{2}~.~d{2}-~d{2}~.~d{2}~.~d{2}:~d{3})~]~[(~d*)~]LogSquad: ADMIN COMMAND: Change layer to (.+?) from (.+)'')"

definition reSetNextLayer :: rx where
  "reSetNextLayer =
     the (rx_compile ''~[(~d{4}~.~d{2}~.~d{2}-~d{2}~.~d{2}~.~d{2}:~d{3})~]~[(~d*)~]LogSquad: ADMIN COMMAND: Set next layer to (.+?) from (.+)'')"

definition reRemovedPlayer :: rx where
  "reRemovedPlayer =
     the (rx_compile ''~[(~d{4}~.~d{2}~.~d{2}-~d{2}~.~d{2}~.~d{2}:~d{3})~]~[(~d*)~]LogEOSAntiCheat: Verbose: Dedicated server Anti-Cheat: (.+?): UnregisterPlayer~(Session: (~w+), UserId: (~w+)~): Removed player from player tracking~.'')"

definition reAttack :: rx where
  "reAttack =
     the (rx_compile ''~[(~d{4}~.~d{2}~.~d{2}-~d{2}~.~d{2}~.~d{2}:~d{3})~]~[(~d*)~]LogSquad: Player:(.+?) ActualDamage=([~d.]+) from (.+?) ~(Online IDs: EOS: (~w+) steam: (~d+) ~| Player Controller ID: (~w+)~)caused by (.+)'')"

definition reAdminBroadcast :: rx where
  "reAdminBroadcast =
     the (rx_compile ''~[(~d{4}~.~d{2}~.~d{2}-~d{2}~.~d{2}~.~d{2}:~d{3})~]~[(~d*)~]LogSquad: ADMIN COMMAND: Message broadcasted <(.+)> from (.+)'')"

definition reJoinSucceeded :: rx where
  "reJoinSucceeded =
     the (rx_compile ''~[(~d{4}~.~d{2}~.~d{2}-~d{2}~.~d{2}~.~d{2}:~d{3})~]~[(~d*)~]LogNet: Join succeeded: (.+)'')"

definition reOnlineIds :: rx where
  "reOnlineIds =
     the (rx_compile ''EOS:~s*(~w+)~s+steam:~s*(~d+)'')"

definition playerRe :: rx where
  "playerRe =
     the (rx_compile ''ID:~s*(~d+)~s*~|~s*Online IDs:~s*EOS:~s*(~w+)~s+steam:~s*(~d+)~s*~|~s*Name:~s*(.+?)~s*~|~s*Team ID:~s*(~d+)~s*~|~s*Squad ID:~s*(.+?)~s*~|~s*Is Leader:~s*(~w+)~s*~|~s*Role:~s*(.+)'')"

section \<open>Doubles (std::stod)\<close>

fun bit_length :: "nat \<Rightarrow> nat" where
  "bit_length n = (if n = 0 then 0 else Suc (bit_length (n div 2)))"

declare bit_length.simps [simp del]

text \<open>\<open>n / d\<close> rounded to 53 bits, ties to even, with the least exponent of a double; \<open>ERANGE\<close> is
  an overflow or an inexact subnormal.\<close>

definition scaled :: "nat \<Rightarrow> nat \<Rightarrow> int \<Rightarrow> int \<times> int" where
  "scaled n d e = (if e \<le> 0 then (int n * 2 ^ nat (- e), int d) else (int n, int d * 2 ^ nat e))"

definition to_double :: "nat \<Rightarrow> nat \<Rightarrow> conv_error + int \<times> int" where
  "to_double n d =
     (if n = 0 then Inr (0, 0)
      else
        let e0 = int (bit_length n) - int (bit_length d) - 53;
            e1 = (case scaled n d e0 of (a, b) \<Rightarrow> if 2 ^ 53 \<le> a div b then e0 + 1 else e0);
            e = max e1 (- 1074)
        in case scaled n d e of (a, b) \<Rightarrow>
             let m = div_round_even a b
             in if (e1 < - 1074 \<and> a mod b \<noteq> 0) \<or> 971 < e \<or> (e = 971 \<and> 2 ^ 53 \<le> m)
                then Inl Out_of_range else Inr (m, e))"

text \<open>\<open>std::stod\<close> on the texts the patterns let through: an optional sign, digits, a fraction.\<close>

definition stod :: "string \<Rightarrow> conv_error + int \<times> int" where
  "stod s =
     (let neg = (s \<noteq> [] \<and> hd s = CHR ''-'');
          u = (if neg then tl s else s);
          ip = takeWhile is_digit u;
          r = dropWhile is_digit u;
          fp = (if r \<noteq> [] \<and> hd r = CHR ''.'' then takeWhile is_digit (tl r) else [])
      in if ip = [] \<and> fp = [] then Inl Invalid_argument
         else case to_double (digits_val (ip @ fp)) (10 ^ length fp) of
                Inl e \<Rightarrow> Inl e
              | Inr (m, e) \<Rightarrow> Inr (if neg then - m else m, e))"

section \<open>Helpers\<close>

definition INVALID_ID :: string where
  "INVALID_ID = ''INVALID''"

definition PLACEHOLDER :: string where
  "PLACEHOLDER = ''EOS: 0000000000000000000000000000000 steam: 00000000000000000''"

text \<open>The loop of \<open>preprocessInvalidIds\<close>: replace the occurrence found from \<open>pos\<close> on, and search on
  53 characters behind it.\<close>

function invalid_loop :: "nat \<Rightarrow> string \<Rightarrow> string" where
  "invalid_loop pos s =
     (case str_find INVALID_ID (drop pos s) of
        None \<Rightarrow> s
      | Some i \<Rightarrow> invalid_loop (pos + i + 53) (str_replace (pos + i) 7 PLACEHOLDER s))"
  by auto

lemma drop_replaced:
  assumes "str_find INVALID_ID (drop pos s) = Some i"
  shows "drop (pos + i + 53) (str_replace (pos + i) 7 PLACEHOLDER s) =
           drop 53 PLACEHOLDER @ drop (pos + i + 7) s"
    and "drop pos s = take i (drop pos s) @ INVALID_ID @ drop (pos + i + 7) s"
    and "pos + i \<le> length s"
proof -
  note f = str_find_SomeD [OF assms]
  then show 2: "drop pos s = take i (drop pos s) @ INVALID_ID @ drop (pos + i + 7) s"
    by (simp add: INVALID_ID_def ac_simps numeral_eq_Suc)
  have "length (drop pos s) = length (take i (drop pos s)) + (7 + length (drop (pos + i + 7) s))"
    by (subst 2) (simp add: INVALID_ID_def)
  then show 3: "pos + i \<le> length s" by (cases "pos + i \<le> length s") auto
  show "drop (pos + i + 53) (str_replace (pos + i) 7 PLACEHOLDER s) =
      drop 53 PLACEHOLDER @ drop (pos + i + 7) s"
    using 3 by (simp add: str_replace_def PLACEHOLDER_def min_def)
qed

termination invalid_loop
proof (relation "measure (\<lambda>(pos, s). length (filter (\<lambda>c. c = CHR ''I'') (drop pos s)))")
  fix pos s i assume f: "str_find INVALID_ID (drop pos s) = Some i"
  have "filter (\<lambda>c. c = CHR ''I'') (drop 53 PLACEHOLDER) = []"
    by (simp add: PLACEHOLDER_def)
  moreover have "length (filter (\<lambda>c. c = CHR ''I'') (drop (pos + i + 7) s)) <
      length (filter (\<lambda>c. c = CHR ''I'') (drop pos s))"
    using arg_cong [OF drop_replaced(2) [OF f], of "\<lambda>t. length (filter (\<lambda>c. c = CHR ''I'') t)"]
    by (simp add: INVALID_ID_def)
  ultimately show "((pos + i + 53, str_replace (pos + i) 7 PLACEHOLDER s), pos, s)
      \<in> measure (\<lambda>(pos, s). length (filter (\<lambda>c. c = CHR ''I'') (drop pos s)))"
    by (simp add: drop_replaced(1) [OF f])
qed simp

declare invalid_loop.simps [simp del]

definition preprocessInvalidIds :: "string \<Rightarrow> string" where
  "preprocessInvalidIds line = (if str_contains INVALID_ID line then invalid_loop 0 line else line)"

definition parseOnlineIds :: "string \<Rightarrow> (string \<times> string) option" where
  "parseOnlineIds s =
     (if s = [] then None
      else case rx_search reOnlineIds s of
             None \<Rightarrow> None
           | Some m \<Rightarrow> Some (grp m 1, grp m 2))"

definition cleanPlayerName :: "string \<Rightarrow> string" where
  "cleanPlayerName name =
     (let cleaned = filter (\<lambda>c. 32 \<le> byte_of c \<and> byte_of c \<noteq> 127) name;
          latin1 = length (filter (\<lambda>c. 192 \<le> byte_of c) cleaned);
          cjk = length (filter (\<lambda>c. 228 \<le> byte_of c \<and> byte_of c \<le> 233) (take (length cleaned - 2) cleaned))
      in if length cleaned * 3 div 10 < latin1 \<and> cjk = 0 then [] else cleaned)"

definition extractWeapon :: "string \<Rightarrow> string" where
  "extractWeapon w =
     (if w = [] then ''Unknown''
      else
        let n1 = (if 2 < length w \<and> drop (length w - 2) w = ''_C'' then take (length w - 2) w else w);
            n2 = (if starts_with ''BP_'' n1 then drop 3 n1
                  else if starts_with ''SQ_'' n1 then drop 3 n1 else n1)
        in if n2 = [] then ''Unknown'' else n2)"

fun join_with :: "string \<Rightarrow> string list \<Rightarrow> string" where
  "join_with d [] = []"
| "join_with d [x] = x"
| "join_with d (x # y # xs) = x @ d @ join_with d (y # xs)"

definition extractWeaponMiddle :: "string \<Rightarrow> string" where
  "extractWeaponMiddle w =
     (if w = [] then ''Unknown''
      else
        let parts = filter (\<lambda>p. p \<noteq> []) (getlines CHR ''_'' w)
        in if length parts < 4 then extractWeapon w
           else let r = join_with ''_'' (drop 1 (take (length parts - 2) parts))
                in if r = [] then extractWeapon w else r)"

text \<open>\<open>parseChatRaw\<close>: the result and the \<open>out\<close> parameter, which keeps its value when nothing
  matches.\<close>

definition parseChatRaw :: "string \<Rightarrow> ChatEvent \<Rightarrow> bool \<times> ChatEvent" where
  "parseChatRaw raw out =
     (if raw = [] then (False, out)
      else case rx_search reChatRelay raw of
        None \<Rightarrow> (False, out)
      | Some m \<Rightarrow>
          let bracket = (m 4 \<noteq> None \<and> grp m 4 \<noteq> []);
              name = rtrim_spaces (if bracket then grp m 4 else grp m 6);
              msg = rtrim_spaces (if bracket then grp m 5 else grp m 7)
          in (grp m 3 \<noteq> [] \<and> msg \<noteq> [],
              \<lparr>ce_chatType = grp m 1, ce_playerName = name, ce_message = msg,
               ce_steamId = grp m 3, ce_eosId = grp m 2\<rparr>))"

section \<open>Wounds\<close>

definition wound_expiry :: "config \<Rightarrow> int" where
  "wound_expiry cfg = config_getInt cfg ''WOUND_EXPIRY_MS'' 30000"

definition storeWound :: "int \<Rightarrow> string \<Rightarrow> wounds \<Rightarrow> conv_error + wounds" where
  "storeWound now line ws =
     (case rx_search reWound (preprocessInvalidIds line) of
        None \<Rightarrow> Inr ws
      | Some m \<Rightarrow>
          (case stod (grp m 4) of
             Inl e \<Rightarrow> Inl e
           | Inr dmg \<Rightarrow>
               Inr (wound_put (rtrim_spaces (grp m 3))
                 \<lparr>wr_victimName = rtrim_spaces (grp m 3), wr_damage = dmg,
                  wr_attackerController = rtrim_spaces (grp m 5), wr_attackerSteamId = grp m 7,
                  wr_attackerEosId = grp m 6, wr_weapon = extractWeapon (grp m 9), wr_time = now\<rparr> ws)))"

definition getRecentWounds :: "config \<Rightarrow> int \<Rightarrow> wounds \<Rightarrow> WoundEvent list" where
  "getRecentWounds cfg now ws =
     map (\<lambda>(_, w). \<lparr>we_victimName = wr_victimName w, we_attackerName = wr_attackerController w,
            we_attackerSteamId = wr_attackerSteamId w, we_attackerEosId = wr_attackerEosId w,
            we_weapon = wr_weapon w, we_damage = wr_damage w\<rparr>)
       (filter (\<lambda>(_, w). now - wr_time w < config_getInt cfg ''WOUND_DEDUP_WINDOW_MS'' 3000) ws)"

definition cleanup :: "config \<Rightarrow> int \<Rightarrow> wounds \<Rightarrow> wounds" where
  "cleanup cfg now ws = filter (\<lambda>(_, w). \<not> wound_expiry cfg < now - wr_time w) ws"

section \<open>One line (LogParser::processLine)\<close>

definition event :: "string \<Rightarrow> (string \<times> string) list \<Rightarrow> ParsedLine list" where
  "event ty fs = [\<lparr>pl_type = ty, pl_fields = map_of fs\<rparr>]"

definition NULL_STEAM :: string where
  "NULL_STEAM = ''00000000000000000''"

definition shown_name :: "string \<Rightarrow> string" where
  "shown_name n = (if cleanPlayerName n = [] then n else cleanPlayerName n)"

definition die_branch :: "config \<Rightarrow> int \<Rightarrow> string \<Rightarrow> wounds \<Rightarrow> ParsedLine list \<times> wounds" where
  "die_branch cfg now processed ws =
     (case rx_search reDie processed of
        None \<Rightarrow> ([], ws)
      | Some m \<Rightarrow>
          let victim = rtrim_spaces (grp m 3);
              ctrl = rtrim_spaces (grp m 5);
              weapon = extractWeapon (grp m 9);
              isNullAttacker = (grp m 7 = NULL_STEAM \<or> ctrl = ''nullptr'' \<or> ctrl = ''None'' \<or> ctrl = []);
              (steam', eos', ctrl', weapon', ws') =
                (case map_of ws victim of
                   Some w \<Rightarrow>
                     if now - wr_time w \<le> wound_expiry cfg then
                       (if wr_attackerSteamId w \<noteq> [] \<and> wr_attackerSteamId w \<noteq> NULL_STEAM
                        then wr_attackerSteamId w else grp m 7,
                        if wr_attackerSteamId w \<noteq> [] \<and> wr_attackerSteamId w \<noteq> NULL_STEAM
                        then wr_attackerEosId w else grp m 6,
                        if str_contains ''PlayerController'' ctrl then wr_attackerController w else ctrl,
                        if wr_weapon w = [] then weapon else wr_weapon w,
                        wound_erase victim ws)
                     else (grp m 7, grp m 6, ctrl, weapon, ws)
                 | None \<Rightarrow> (grp m 7, grp m 6, ctrl, weapon, ws))
          in (if isNullAttacker then
                event ''suicide'' [(''victimName'', shown_name victim), (''victimSteamId'', steam'),
                  (''victimEosId'', eos'), (''weapon'', weapon'), (''damage'', grp m 4)]
              else
                event ''kill'' [(''killerName'', ctrl'), (''killerSteamId'', steam'),
                  (''killerEosId'', eos'), (''victimName'', shown_name victim), (''victimSteamId'', []),
                  (''weapon'', weapon'), (''damage'', grp m 4)],
              ws'))"

definition wound_branch ::
  "int \<Rightarrow> string \<Rightarrow> string \<Rightarrow> wounds \<Rightarrow> conv_error + ParsedLine list \<times> wounds" where
  "wound_branch now line processed ws =
     (case storeWound now line ws of
        Inl e \<Rightarrow> Inl e
      | Inr ws' \<Rightarrow>
          (case rx_search reWound processed of
             None \<Rightarrow> Inr ([], ws')
           | Some m \<Rightarrow>
               (case map_of ws' (rtrim_spaces (grp m 3)) of
                  None \<Rightarrow> Inr ([], ws')
                | Some w \<Rightarrow>
                    Inr (event ''wound'' [(''victimName'', wr_victimName w),
                       (''attackerName'', wr_attackerController w),
                       (''attackerSteamId'', wr_attackerSteamId w),
                       (''attackerEosId'', wr_attackerEosId w), (''weapon'', wr_weapon w),
                       (''damage'', case wr_damage w of (a, e) \<Rightarrow> double_to_string a e)], ws'))))"

text \<open>A branch that only maps groups to fields.\<close>

definition on_match :: "rx \<Rightarrow> string \<Rightarrow> (caps \<Rightarrow> ParsedLine list) \<Rightarrow> ParsedLine list" where
  "on_match r s f = (case rx_search r s of None \<Rightarrow> [] | Some m \<Rightarrow> f m)"

definition revive_branch :: "string \<Rightarrow> ParsedLine list" where
  "revive_branch s = on_match reRevive s (\<lambda>m. event ''revive''
     [(''reviverName'', grp m 3), (''reviverEosId'', grp m 4), (''reviverSteamId'', grp m 5),
      (''revivedName'', grp m 6), (''revivedEosId'', grp m 7), (''revivedSteamId'', grp m 8)])"

definition newgame_branch :: "string \<Rightarrow> ParsedLine list" where
  "newgame_branch s = on_match reNewGame s (\<lambda>m.
     if grp m 5 = ''TransitionMap'' then []
     else event ''newgame'' [(''map'', grp m 5), (''dlc'', grp m 3)])"

definition join_branch :: "string \<Rightarrow> ParsedLine list" where
  "join_branch s = on_match rePostLogin s (\<lambda>m. event ''join''
     [(''playerName'', rtrim_spaces (grp m 3)), (''ip'', grp m 4), (''eosId'', grp m 5),
      (''steamId'', grp m 6)])"

definition joinSucceeded_branch :: "string \<Rightarrow> ParsedLine list" where
  "joinSucceeded_branch s = on_match reJoinSucceeded s (\<lambda>m. event ''joinSucceeded''
     [(''playerSuffix'', grp m 3)])"

definition close_branch :: "string \<Rightarrow> ParsedLine list" where
  "close_branch s = on_match reDisconnect s (\<lambda>m. event ''disconnect''
     [(''ip'', grp m 6), (''eosId'', grp m 12), (''steamId'', []), (''controller'', grp m 10)])"

definition inactive_branch :: "string \<Rightarrow> ParsedLine list" where
  "inactive_branch s = on_match reBeginInactive s (\<lambda>m. event ''disconnect''
     [(''playerName'', rtrim_spaces (grp m 3)), (''eosId'', grp m 4), (''steamId'', grp m 5), (''ip'', [])])"

definition chat_branch :: "string \<Rightarrow> ParsedLine list" where
  "chat_branch s = on_match reChatLog s (\<lambda>m. event ''chat''
     [(''playerName'', grp m 1), (''steamId'', grp m 2), (''message'', grp m 3)])"

definition broadcast_branch :: "string \<Rightarrow> ParsedLine list" where
  "broadcast_branch s = on_match reAdminBroadcast s (\<lambda>m. event ''adminBroadcast''
     [(''message'', grp m 3), (''from'', grp m 4)])"

definition tick_branch :: "string \<Rightarrow> ParsedLine list" where
  "tick_branch s = on_match reTickRate s (\<lambda>m. event ''tickRate'' [(''tickRate'', grp m 3)])"

definition squad_branch :: "string \<Rightarrow> ParsedLine list" where
  "squad_branch s =
     (case rx_search reCreateSquad s of
        Some m \<Rightarrow> event ''createSquad''
          [(''creatorName'', rtrim_spaces (grp m 3)), (''creatorEosId'', grp m 4),
           (''creatorSteamId'', grp m 5), (''squadId'', grp m 6),
           (''squadName'', rtrim_spaces (grp m 7)), (''teamName'', rtrim_spaces (grp m 8))]
      | None \<Rightarrow> on_match reCreateSquadOld s (\<lambda>m. event ''createSquad''
          [(''creatorName'', grp m 1), (''squadName'', grp m 2), (''squadId'', grp m 3)]))"

definition match_branch :: "string \<Rightarrow> ParsedLine list" where
  "match_branch s = on_match reMatchEnd s (\<lambda>m. event ''matchEnd''
     [(''teamNumber'', grp m 3), (''teamInfo'', grp m 4), (''result'', grp m 5), (''tickets'', grp m 6),
      (''mapLayer'', grp m 7), (''mapLevel'', grp m 8)])"

definition layer_branch :: "string \<Rightarrow> ParsedLine list" where
  "layer_branch s = on_match reChangeLayer s (\<lambda>m. event ''changeLayer''
     [(''layer'', grp m 3), (''admin'', grp m 4)])"

definition nextLayer_branch :: "string \<Rightarrow> ParsedLine list" where
  "nextLayer_branch s = on_match reSetNextLayer s (\<lambda>m. event ''setNextLayer''
     [(''layer'', grp m 3), (''admin'', grp m 4)])"

definition removed_branch :: "string \<Rightarrow> ParsedLine list" where
  "removed_branch s = on_match reRemovedPlayer s (\<lambda>m. event ''removedPlayer''
     [(''anticheatId'', grp m 3), (''sessionId'', grp m 4), (''eosId'', grp m 5)])"

definition attack_branch :: "string \<Rightarrow> ParsedLine list" where
  "attack_branch s = on_match reAttack s (\<lambda>m. event ''attack''
     [(''victimName'', rtrim_spaces (grp m 3)), (''damage'', grp m 4),
      (''attackerName'', rtrim_spaces (grp m 5)), (''attackerEosId'', grp m 6),
      (''attackerSteamId'', grp m 7), (''weapon'', grp m 9)])"

text \<open>The lines that neither read nor write the wound store.\<close>

definition info_line :: "string \<Rightarrow> ParsedLine list" where
  "info_line s =
     (if str_contains ''has revived'' s \<and> str_contains ''LogSquad:'' s then revive_branch s
     else if str_contains ''LogWorld: Bringing World'' s then newgame_branch s
     else if str_contains ''PostLogin: NewPlayer:'' s then join_branch s
     else if str_contains ''Join succeeded'' s then joinSucceeded_branch s
     else if str_contains ''UChannel::Close:'' s then close_branch s
     else if str_contains ''BeginInactiveState()'' s then inactive_branch s
     else if str_contains ''[ChatLog]'' s then chat_branch s
     else if str_contains ''ADMIN COMMAND: Message broadcasted'' s then broadcast_branch s
     else if str_contains ''Server Tick Rate:'' s then tick_branch s
     else if str_contains ''has created Squad'' s then squad_branch s
     else if str_contains ''the match with'' s \<and> str_contains ''LogSquadGameEvents'' s then match_branch s
     else if str_contains ''ADMIN COMMAND: Change layer'' s then layer_branch s
     else if str_contains ''ADMIN COMMAND: Set next layer'' s then nextLayer_branch s
     else if str_contains ''Removed player from player tracking'' s then removed_branch s
     else if str_contains ''ActualDamage'' s then attack_branch s
     else [])"

definition processLine ::
  "config \<Rightarrow> int \<Rightarrow> string \<Rightarrow> wounds \<Rightarrow> conv_error + ParsedLine list \<times> wounds" where
  "processLine cfg now line ws =
     (let s = preprocessInvalidIds line in
      if str_contains ''Die()'' s \<and> str_contains ''LogSquadTrace'' s then Inr (die_branch cfg now s ws)
      else if str_contains ''Wound()'' s \<and> str_contains ''LogSquadTrace'' s then wound_branch now line s ws
      else Inr (info_line s, ws))"

section \<open>The player list (LogParser::parsePlayerList)\<close>

definition player_line :: "string \<Rightarrow> conv_error + PlayerInfo option" where
  "player_line line =
     (case rx_search playerRe line of
        None \<Rightarrow> Inr None
      | Some m \<Rightarrow>
          (case stoi (grp m 1) of
             Inl e \<Rightarrow> Inl e
           | Inr n \<Rightarrow>
               let squad = rtrim_spaces (grp m 6)
               in Inr (Some \<lparr>pi_rconId = n, pi_steamId = grp m 3, pi_eosId = grp m 2,
                    pi_name = rtrim_spaces (grp m 4), pi_teamId = grp m 5,
                    pi_squadId = (if squad \<noteq> ''N/A'' then squad else []),
                    pi_isLeader = (grp m 7 = ''True''), pi_role = rtrim_spaces (grp m 8)\<rparr>)))"

fun player_lines :: "string list \<Rightarrow> conv_error + PlayerInfo list" where
  "player_lines [] = Inr []"
| "player_lines (l # ls) =
     (case player_line l of
        Inl e \<Rightarrow> Inl e
      | Inr p \<Rightarrow>
          (case player_lines ls of
             Inl e \<Rightarrow> Inl e
           | Inr ps \<Rightarrow> Inr (case p of None \<Rightarrow> ps | Some q \<Rightarrow> q # ps)))"

definition parsePlayerList :: "string \<Rightarrow> conv_error + PlayerInfo list" where
  "parsePlayerList raw = (if raw = [] then Inr [] else player_lines (getlines (CHR 0x0A) raw))"

section \<open>Placeholders for invalid ids\<close>

lemma placeholder_nth: "i < 61 \<Longrightarrow> PLACEHOLDER ! i \<noteq> CHR ''I''" "length PLACEHOLDER = 61"
proof -
  have "list_all (\<lambda>c. c \<noteq> CHR ''I'') PLACEHOLDER" by (simp add: PLACEHOLDER_def)
  then show "i < 61 \<Longrightarrow> PLACEHOLDER ! i \<noteq> CHR ''I''"
    by (simp add: list_all_length) (simp add: PLACEHOLDER_def)
qed (simp add: PLACEHOLDER_def)

text \<open>Every occurrence left starts at or behind the search position.\<close>

definition invalid_from :: "nat \<Rightarrow> string \<Rightarrow> bool" where
  "invalid_from pos s = (\<forall>u v. s = u @ INVALID_ID @ v \<longrightarrow> pos \<le> length u)"

lemma str_find_least: "str_find p s = Some i \<Longrightarrow> s = u @ p @ v \<Longrightarrow> i \<le> length u"
proof (induction s arbitrary: i u)
  case Nil
  then show ?case by (auto split: if_splits)
next
  case (Cons c s)
  show ?case
  proof (cases u)
    case Nil
    with Cons.prems(2) have "starts_with p (c # s)" by (simp add: starts_with_def)
    with Cons.prems(1) show ?thesis by simp
  next
    case (Cons d u')
    with Cons.prems Cons.IH [of _ u'] show ?thesis by (auto split: if_splits)
  qed
qed

lemma length_INVALID [simp]: "length INVALID_ID = 7"
  by (simp add: INVALID_ID_def)

lemma invalid_nth:
  assumes "s = u @ INVALID_ID @ v"
  shows "j < 7 \<Longrightarrow> s ! (length u + j) = INVALID_ID ! j" "length u + 7 \<le> length s"
  using assms by (auto simp: nth_append)

lemma invalid_step:
  assumes inv: "invalid_from pos s" and f: "str_find INVALID_ID (drop pos s) = Some i"
  shows "invalid_from (pos + i + 53) (str_replace (pos + i) 7 PLACEHOLDER s)"
  unfolding invalid_from_def
proof (intro allI impI)
  fix u v assume e: "str_replace (pos + i) 7 PLACEHOLDER s = u @ INVALID_ID @ v"
  let ?r = "str_replace (pos + i) 7 PLACEHOLDER s" and ?p = "pos + i" and ?j = "length u"
  have le: "?p \<le> length s" by (rule drop_replaced(3) [OF f])
  note n = invalid_nth(1) [OF e]
  have mid: "?r ! q = PLACEHOLDER ! (q - ?p)" if "?p \<le> q" "q < ?p + 61" for q
  proof -
    have "q - ?p < 61" using that by linarith
    then show ?thesis using that le by (simp add: str_replace_def nth_append min_def placeholder_nth)
  qed
  show "?p + 53 \<le> ?j"
  proof (rule ccontr)
    assume "\<not> ?p + 53 \<le> ?j"
    then consider "?p \<le> ?j" "?j < ?p + 53" | "?j < ?p" "?p < ?j + 7" | "?j + 7 \<le> ?p" by linarith
    then show False
    proof cases
      case 1
      then have "?r ! ?j \<noteq> CHR ''I''" using mid [of ?j] placeholder_nth(1) [of "?j - ?p"] by simp
      moreover have "?r ! ?j = CHR ''I''" using n [of 0] by (simp add: INVALID_ID_def)
      ultimately show False by simp
    next
      case 2
      define d where "d = ?p - ?j"
      have d: "0 < d" "d < 7" "?j + d = ?p" using 2 by (auto simp: d_def)
      have "?r ! ?p = CHR ''E''" using mid [of ?p] by (simp add: PLACEHOLDER_def)
      moreover have "?r ! ?p = INVALID_ID ! d" using n [OF d(2)] d(3) by simp
      moreover have "d \<in> set [0, 1, 2, 3, 4, 5, 6]" using d(1,2) by simp presburger
      ultimately show False by (auto simp: INVALID_ID_def)
    next
      case 3
      have "take ?p ?r = take ?p s" using le by (simp add: str_replace_def)
      moreover have "take ?p ?r = u @ INVALID_ID @ take (?p - ?j - 7) v"
        unfolding e using 3 by simp
      ultimately have "take ?p s = u @ INVALID_ID @ take (?p - ?j - 7) v" by simp
      then have s: "s = u @ INVALID_ID @ (take (?p - ?j - 7) v @ drop ?p s)"
        by (metis append_take_drop_id append.assoc)
      note j = inv [unfolded invalid_from_def, rule_format, OF s]
      have "drop pos s = drop pos u @ INVALID_ID @ (take (?p - ?j - 7) v @ drop ?p s)"
        by (subst s) (simp add: j)
      from str_find_least [OF f this] have "i \<le> ?j - pos" by simp
      with 3 j show False by simp
    qed
  qed
qed

lemma invalid_loop_none: "invalid_from pos s \<Longrightarrow> \<not> str_contains INVALID_ID (invalid_loop pos s)"
proof (induction pos s rule: invalid_loop.induct)
  case (1 pos s)
  show ?case
  proof (cases "str_find INVALID_ID (drop pos s)")
    case None
    have "s \<noteq> u @ INVALID_ID @ v" for u v
    proof
      assume e: "s = u @ INVALID_ID @ v"
      with "1.prems" have "pos \<le> length u" by (simp add: invalid_from_def)
      then have "drop pos s = drop pos u @ INVALID_ID @ v" by (simp add: e)
      with None show False by (metis str_find_None_iff)
    qed
    then show ?thesis using None by (simp add: invalid_loop.simps [of pos s] str_contains_iff)
  next
    case (Some i)
    then show ?thesis
      using "1.IH" [OF Some invalid_step [OF "1.prems" Some]]
      by (simp add: invalid_loop.simps [of pos s])
  qed
qed

lemma preprocess_clean [simp]: "\<not> str_contains INVALID_ID (preprocessInvalidIds line)"
  by (simp add: preprocessInvalidIds_def invalid_loop_none invalid_from_def)

lemma preprocess_id: "\<not> str_contains INVALID_ID line \<Longrightarrow> preprocessInvalidIds line = line"
  by (simp add: preprocessInvalidIds_def)

section \<open>Shapes of the lines\<close>

text \<open>The time stamp and the thread in front of every line.\<close>

record stamp =
  st_year :: string
  st_month :: string
  st_day :: string
  st_hour :: string
  st_minute :: string
  st_second :: string
  st_ms :: string
  st_thread :: string

definition digits :: "string \<Rightarrow> bool" where
  "digits w = list_all is_digit w"

definition stamp_ok :: "stamp \<Rightarrow> bool" where
  "stamp_ok t = (digits (st_year t) \<and> length (st_year t) = 4 \<and> digits (st_month t) \<and> length (st_month t) = 2
     \<and> digits (st_day t) \<and> length (st_day t) = 2 \<and> digits (st_hour t) \<and> length (st_hour t) = 2
     \<and> digits (st_minute t) \<and> length (st_minute t) = 2 \<and> digits (st_second t) \<and> length (st_second t) = 2
     \<and> digits (st_ms t) \<and> length (st_ms t) = 3 \<and> digits (st_thread t))"

definition stamp_time :: "stamp \<Rightarrow> string" where
  "stamp_time t = st_year t @ ''.'' @ st_month t @ ''.'' @ st_day t @ ''-'' @ st_hour t @ ''.'' @
     st_minute t @ ''.'' @ st_second t @ '':'' @ st_ms t"

definition stamp_text :: "stamp \<Rightarrow> string" where
  "stamp_text t = ''['' @ stamp_time t @ '']['' @ st_thread t @ '']''"

abbreviation dn :: "nat \<Rightarrow> rx \<Rightarrow> rx" where
  "dn n r \<equiv> Cat (Many False n (Some n) Digit) r"

definition stamp_rx :: "rx \<Rightarrow> rx" where
  "stamp_rx r = lits ''['' (Cat (Cap 1 (dn 4 (lits ''.'' (dn 2 (lits ''.'' (dn 2 (lits ''-''
     (dn 2 (lits ''.'' (dn 2 (lits ''.'' (dn 2 (lits '':'' (dn 3 Eps))))))))))))))
     (lits '']['' (Cat (Cap 2 (Cat (Many False 0 None Digit) Eps)) (lits '']'' r))))"


lemma dn_step:
  "digits w \<Longrightarrow> length w = n \<Longrightarrow> rx_run r s m k = Some x \<Longrightarrow> rx_run (dn n r) (w @ s) m k = Some x"
  using rep_exact [of w n Digit False "\<lambda>s'. rx_run r s' m k" s] by (simp add: digits_def list_all_iff)

lemma run_stamp [rx_steps]:
  assumes "stamp_ok t" "rx_run r s (m(1 \<mapsto> stamp_time t, 2 \<mapsto> st_thread t)) k = Some x"
  shows "rx_run (stamp_rx r) (stamp_text t @ s) m k = Some x"
proof -
  note ok = assms(1) [unfolded stamp_ok_def]
  let ?tail = "lits ''][''  (Cat (Cap 2 (Cat (Many False 0 None Digit) Eps)) (lits '']'' r))"
  let ?s = "''][''  @ st_thread t @ '']'' @ s"
  have 1: "rx_run ?tail ?s (m(1 \<mapsto> stamp_time t)) k = Some x"
    by (intro run_litsI run_greedy_cap)
      (use ok assms(2) in \<open>auto simp: digits_def list_all_iff is_digit_def [of "CHR '']''"] byte_of_def\<close>)
  let ?K = "\<lambda>s' m'. rx_run ?tail s'
    (m'(1 \<mapsto> take (length (stamp_time t @ ?s) - length s') (stamp_time t @ ?s))) k"
  have "take (length (stamp_time t @ ?s) - length ?s) (stamp_time t @ ?s) = stamp_time t" by simp
  with 1 have K: "?K ?s m = Some x" by (simp only:)
  have E: "rx_run Eps ?s m ?K = Some x" by (rule run_epsI, rule K)
  have "rx_run (dn 4 (lits ''.'' (dn 2 (lits ''.'' (dn 2 (lits ''-'' (dn 2 (lits ''.'' (dn 2 (lits ''.''
      (dn 2 (lits '':'' (dn 3 Eps)))))))))))))
    (st_year t @ ''.'' @ st_month t @ ''.'' @ st_day t @ ''-'' @ st_hour t @ ''.'' @
     st_minute t @ ''.'' @ st_second t @ '':'' @ st_ms t @ ?s) m ?K = Some x"
    by (intro dn_step run_litsI E) (use ok in blast)+
  then show ?thesis
    unfolding stamp_rx_def stamp_text_def append_assoc
    by (intro run_litsI, subst rx_run.simps(4), subst rx_run.simps(7)) (simp only: stamp_time_def append_assoc)
qed

text \<open>A \<open>Die()\<close> or \<open>Wound()\<close> line, which differ in the name of the call and of the controller.\<close>

record hit =
  h_victim :: string
  h_damage :: string
  h_attacker :: string
  h_eos :: string
  h_steam :: string
  h_controller :: string
  h_weapon :: string

abbreviation NumC :: cset where
  "NumC \<equiv> Or Digit (One (CHR ''.''))"

definition hit_ok :: "hit \<Rightarrow> bool" where
  "hit_ok h = (over Dot (h_victim h) \<and> stops_at '' KillingDamage='' (h_victim h) \<and> over NumC (h_damage h)
     \<and> over Dot (h_attacker h) \<and> stops_at '' (Online IDs: EOS: '' (h_attacker h) \<and> over WordC (h_eos h)
     \<and> over Digit (h_steam h) \<and> over WordC (h_controller h) \<and> over Dot (h_weapon h))"

definition hit_line :: "string \<Rightarrow> string \<Rightarrow> stamp \<Rightarrow> hit \<Rightarrow> string" where
  "hit_line kind ctl t h =
     stamp_text t @ ''LogSquadTrace: [DedicatedServer]'' @ kind @ ''(): Player:'' @ h_victim h @
     '' KillingDamage='' @ h_damage h @ '' from '' @ h_attacker h @ '' (Online IDs: EOS: '' @ h_eos h @
     '' steam: '' @ h_steam h @ '' | '' @ ctl @ ''r'' @ '' ID: '' @ h_controller h @ '') caused by '' @ h_weapon h"

abbreviation lazy_cap :: "nat \<Rightarrow> cset \<Rightarrow> rx \<Rightarrow> rx" where
  "lazy_cap n p r \<equiv> Cat (Cap n (Cat (Many True 1 None p) Eps)) r"

abbreviation greedy_cap :: "nat \<Rightarrow> cset \<Rightarrow> rx \<Rightarrow> rx" where
  "greedy_cap n p r \<equiv> Cat (Cap n (Cat (Many False 1 None p) Eps)) r"

definition hit_rx :: "string \<Rightarrow> string \<Rightarrow> rx" where
  "hit_rx kind ctl =
     stamp_rx (lits ''LogSquadTrace: [DedicatedServer]'' (Cat (Opt (lits ''ASQSoldier::'' Eps)) (lits kind
       (lits ''(): Player:'' (lazy_cap 3 Dot (lits '' KillingDamage=''
       (Cat (Cap 4 (Cat (Many False 0 (Some 1) (One (CHR ''-''))) (Cat (Many False 1 None NumC) Eps)))
       (lits '' from '' (lazy_cap 5 Dot (lits '' (Online IDs: EOS: '' (greedy_cap 6 WordC (lits '' steam: ''
       (greedy_cap 7 Digit (lits '' | '' (lits ctl (Cat (Many False 0 (Some 1) (One (CHR ''r'')))
       (lits '' ID: '' (greedy_cap 8 WordC (lits '') caused by '' (greedy_cap 9 Dot Eps))))))))))))))))))))"

lemma reDie_eq: "reDie = hit_rx ''Die'' ''Contolle''"
  by code_simp

lemma reWound_eq: "reWound = hit_rx ''Wound'' ''Controlle''"
  by code_simp

definition hit_caps :: "stamp \<Rightarrow> hit \<Rightarrow> caps" where
  "hit_caps t h = Map.empty(1 \<mapsto> stamp_time t, 2 \<mapsto> st_thread t, 3 \<mapsto> h_victim h, 4 \<mapsto> h_damage h,
     5 \<mapsto> h_attacker h, 6 \<mapsto> h_eos h, 7 \<mapsto> h_steam h, 8 \<mapsto> h_controller h, 9 \<mapsto> h_weapon h)"

lemma hit_search:
  assumes "stamp_ok t" "hit_ok h" "\<And>y. \<not> starts_with ''ASQSoldier::'' (kind @ y)"
  shows "rx_search (hit_rx kind ctl) (hit_line kind ctl t h) = Some (hit_caps t h)"
proof (rule rx_search_here)
  note ok = assms(2) [unfolded hit_ok_def]
  show "rx_run (hit_rx kind ctl) (hit_line kind ctl t h) Map.empty (\<lambda>_. Some) = Some (hit_caps t h)"
    unfolding hit_rx_def hit_line_def
    by (intro run_stamp run_litsI run_skip_opt run_lazy_lits run_unsigned run_greedy
        run_maybe run_last run_epsI assms)
      (use ok in \<open>simp_all add: is_digit_def byte_of_def in_cset_Range hit_caps_def\<close>)
qed

lemma grp_hit [simp]:
  "grp (hit_caps t h) 3 = h_victim h" "grp (hit_caps t h) 4 = h_damage h"
  "grp (hit_caps t h) 5 = h_attacker h" "grp (hit_caps t h) 6 = h_eos h"
  "grp (hit_caps t h) 7 = h_steam h" "grp (hit_caps t h) 9 = h_weapon h"
  by (simp_all add: grp_def hit_caps_def)

lemma hit_contains:
  "str_contains (kind @ ''()'') (hit_line kind ctl t h)" "str_contains ''LogSquadTrace'' (hit_line kind ctl t h)"
proof -
  have "hit_line kind ctl t h = (stamp_text t @ ''LogSquadTrace: [DedicatedServer]'') @ (kind @ ''()'') @
      '': Player:'' @ h_victim h @ '' KillingDamage='' @ h_damage h @ '' from '' @ h_attacker h @
      '' (Online IDs: EOS: '' @ h_eos h @ '' steam: '' @ h_steam h @ '' | '' @ ctl @ ''r'' @ '' ID: '' @
      h_controller h @ '') caused by '' @ h_weapon h"
    by (simp add: hit_line_def)
  then show "str_contains (kind @ ''()'') (hit_line kind ctl t h)"
    unfolding str_contains_iff by blast
  have "\<exists>v. hit_line kind ctl t h = stamp_text t @ ''LogSquadTrace'' @ v"
    by (simp add: hit_line_def)
  then show "str_contains ''LogSquadTrace'' (hit_line kind ctl t h)"
    unfolding str_contains_iff by blast
qed

lemma die_search:
  "stamp_ok t \<Longrightarrow> hit_ok h \<Longrightarrow> rx_search reDie (hit_line ''Die'' ''Contolle'' t h) = Some (hit_caps t h)"
  unfolding reDie_eq by (rule hit_search) simp_all

lemma wound_search:
  "stamp_ok t \<Longrightarrow> hit_ok h \<Longrightarrow> rx_search reWound (hit_line ''Wound'' ''Controlle'' t h) = Some (hit_caps t h)"
  unfolding reWound_eq by (rule hit_search) simp_all

lemma extractWeapon_not_Nil [simp]: "extractWeapon w \<noteq> []"
  by (simp add: extractWeapon_def Let_def)

section \<open>The wound store\<close>

definition wounds_ok :: "wounds \<Rightarrow> bool" where
  "wounds_ok ws = (distinct (map fst ws) \<and> list_all (\<lambda>(k, w). wr_victimName w = k) ws)"

lemma map_of_wound_put [simp]: "map_of (wound_put v r ws) = (map_of ws)(v \<mapsto> r)"
  by (auto simp: wound_put_def fun_eq_iff) (induction ws; auto)+

lemma map_of_wound_erase [simp]: "map_of (wound_erase v ws) = (map_of ws)(v := None)"
  unfolding wound_erase_def by (induction ws) (auto simp: fun_eq_iff)

lemma wounds_ok_put: "wounds_ok ws \<Longrightarrow> wr_victimName r = v \<Longrightarrow> wounds_ok (wound_put v r ws)"
  by (force simp: wounds_ok_def wound_put_def list_all_iff distinct_map_filter)

lemma wounds_ok_filter: "wounds_ok ws \<Longrightarrow> wounds_ok (filter P ws)"
  by (auto simp: wounds_ok_def list_all_iff distinct_map_filter)

lemma storeWound_ok: "wounds_ok ws \<Longrightarrow> storeWound now line ws = Inr ws' \<Longrightarrow> wounds_ok ws'"
  by (auto simp: storeWound_def wounds_ok_put split: option.splits sum.splits)

lemma die_branch_ok: "wounds_ok ws \<Longrightarrow> wounds_ok (snd (die_branch cfg now s ws))"
  by (auto simp: die_branch_def wound_erase_def wounds_ok_filter Let_def split: option.splits)

lemma wound_branch_ok:
  "wounds_ok ws \<Longrightarrow> wound_branch now line s ws = Inr (es, ws') \<Longrightarrow> wounds_ok ws'"
  by (auto simp: wound_branch_def dest: storeWound_ok split: option.splits sum.splits)

lemma processLine_wounds_ok:
  "wounds_ok ws \<Longrightarrow> processLine cfg now line ws = Inr (es, ws') \<Longrightarrow> wounds_ok ws'"
  using die_branch_ok [of ws cfg now "preprocessInvalidIds line"] wound_branch_ok [of ws now line]
  by (fastforce simp: processLine_def Let_def split: if_splits)

lemma length_event [simp]: "length (event ty fs) = 1"
  by (simp add: event_def)

lemma on_match_le: "(\<And>m. length (f m) \<le> 1) \<Longrightarrow> length (on_match r s f) \<le> 1"
  by (simp add: on_match_def split: option.split)

lemmas branch_defs = revive_branch_def newgame_branch_def join_branch_def joinSucceeded_branch_def
  close_branch_def inactive_branch_def chat_branch_def broadcast_branch_def tick_branch_def
  match_branch_def layer_branch_def nextLayer_branch_def removed_branch_def attack_branch_def

lemma branch_le:
  "length (revive_branch s) \<le> 1" "length (newgame_branch s) \<le> 1" "length (join_branch s) \<le> 1"
  "length (joinSucceeded_branch s) \<le> 1" "length (close_branch s) \<le> 1" "length (inactive_branch s) \<le> 1"
  "length (chat_branch s) \<le> 1" "length (broadcast_branch s) \<le> 1" "length (tick_branch s) \<le> 1"
  "length (match_branch s) \<le> 1" "length (layer_branch s) \<le> 1" "length (nextLayer_branch s) \<le> 1"
  "length (removed_branch s) \<le> 1" "length (attack_branch s) \<le> 1"
  unfolding branch_defs by (rule on_match_le; simp)+

lemma squad_branch_le: "length (squad_branch s) \<le> 1"
  using on_match_le [of "\<lambda>m. event ''createSquad'' [(''creatorName'', grp m 1), (''squadName'', grp m 2),
    (''squadId'', grp m 3)]" reCreateSquadOld s]
  by (simp add: squad_branch_def split: option.split)

lemma die_branch_le: "length (fst (die_branch cfg now s ws)) \<le> 1"
  by (simp add: die_branch_def Let_def split: option.split)

lemma wound_branch_le: "wound_branch now line s ws = Inr (es, ws') \<Longrightarrow> length es \<le> 1"
  by (auto simp: wound_branch_def split: option.splits sum.splits)

lemma if_le: "length a \<le> 1 \<Longrightarrow> length b \<le> 1 \<Longrightarrow> length (if c then a else b) \<le> 1"
  by simp

lemma info_line_le: "length (info_line s) \<le> 1"
  unfolding info_line_def by (intro if_le branch_le squad_branch_le) simp

lemma processLine_le: "processLine cfg now line ws = Inr (es, ws') \<Longrightarrow> length es \<le> 1"
  using die_branch_le [of cfg now "preprocessInvalidIds line" ws] info_line_le wound_branch_le [of now line]
  by (fastforce simp: processLine_def Let_def split: if_splits)

end
