(* ===== verification/LogEvents.thy ===== *)
theory LogEvents
  imports LogParser
begin

text \<open>
  What \<open>LogParser::processLine\<close> makes of whole lines: the event of a \<open>Die()\<close> line and of a \<open>Wound()\<close>
  line written in the format of the comments, the attribution of a death to the wound before it, and
  the round trip of the player list.
\<close>

section \<open>Events of Die and Wound lines\<close>

definition null_attacker :: "hit \<Rightarrow> bool" where
  "null_attacker h = (h_steam h = NULL_STEAM \<or> rtrim_spaces (h_attacker h) = ''nullptr'' \<or>
     rtrim_spaces (h_attacker h) = ''None'' \<or> rtrim_spaces (h_attacker h) = [])"

definition die_text :: "stamp \<Rightarrow> hit \<Rightarrow> string" where
  "die_text t h = hit_line ''Die'' ''Contolle'' t h"

definition wound_text :: "stamp \<Rightarrow> hit \<Rightarrow> string" where
  "wound_text t h = hit_line ''Wound'' ''Controlle'' t h"

lemma die_contains: "str_contains ''Die()'' (die_text t h)" "str_contains ''LogSquadTrace'' (die_text t h)"
  using hit_contains [of "''Die''"] by (simp_all add: die_text_def)

lemma wound_contains: "str_contains ''Wound()'' (wound_text t h)" "str_contains ''LogSquadTrace'' (wound_text t h)"
  using hit_contains [of "''Wound''"] by (simp_all add: wound_text_def)

lemma processLine_die:
  assumes "stamp_ok t" "hit_ok h" "\<not> str_contains INVALID_ID (die_text t h)"
  shows "processLine cfg now (die_text t h) ws = Inr (die_branch cfg now (die_text t h) ws)"
  by (simp add: processLine_def preprocess_id [OF assms(3)] die_contains)

lemma die_branch_hit:
  assumes "stamp_ok t" "hit_ok h"
  shows "die_branch cfg now (die_text t h) ws =
    (case map_of ws (rtrim_spaces (h_victim h)) of
       Some w \<Rightarrow>
         if now - wr_time w \<le> wound_expiry cfg then
           let named = wr_attackerSteamId w \<noteq> [] \<and> wr_attackerSteamId w \<noteq> NULL_STEAM;
               steam = (if named then wr_attackerSteamId w else h_steam h);
               eos = (if named then wr_attackerEosId w else h_eos h);
               weapon = (if wr_weapon w = [] then extractWeapon (h_weapon h) else wr_weapon w);
               ctrl = (if str_contains ''PlayerController'' (rtrim_spaces (h_attacker h))
                       then wr_attackerController w else rtrim_spaces (h_attacker h))
           in (if null_attacker h then
                 event ''suicide'' [(''victimName'', shown_name (rtrim_spaces (h_victim h))),
                   (''victimSteamId'', steam), (''victimEosId'', eos), (''weapon'', weapon), (''damage'', h_damage h)]
               else
                 event ''kill'' [(''killerName'', ctrl), (''killerSteamId'', steam), (''killerEosId'', eos),
                   (''victimName'', shown_name (rtrim_spaces (h_victim h))), (''victimSteamId'', []),
                   (''weapon'', weapon), (''damage'', h_damage h)],
               wound_erase (rtrim_spaces (h_victim h)) ws)
         else (if null_attacker h then
                 event ''suicide'' [(''victimName'', shown_name (rtrim_spaces (h_victim h))),
                   (''victimSteamId'', h_steam h), (''victimEosId'', h_eos h),
                   (''weapon'', extractWeapon (h_weapon h)), (''damage'', h_damage h)]
               else
                 event ''kill'' [(''killerName'', rtrim_spaces (h_attacker h)), (''killerSteamId'', h_steam h),
                   (''killerEosId'', h_eos h), (''victimName'', shown_name (rtrim_spaces (h_victim h))),
                   (''victimSteamId'', []), (''weapon'', extractWeapon (h_weapon h)), (''damage'', h_damage h)],
               ws)
     | None \<Rightarrow> (if null_attacker h then
                 event ''suicide'' [(''victimName'', shown_name (rtrim_spaces (h_victim h))),
                   (''victimSteamId'', h_steam h), (''victimEosId'', h_eos h),
                   (''weapon'', extractWeapon (h_weapon h)), (''damage'', h_damage h)]
               else
                 event ''kill'' [(''killerName'', rtrim_spaces (h_attacker h)), (''killerSteamId'', h_steam h),
                   (''killerEosId'', h_eos h), (''victimName'', shown_name (rtrim_spaces (h_victim h))),
                   (''victimSteamId'', []), (''weapon'', extractWeapon (h_weapon h)), (''damage'', h_damage h)],
               ws))"
  using die_search [OF assms]
  by (simp add: die_text_def die_branch_def Let_def null_attacker_def split: option.split)

lemma processLine_wound:
  assumes "stamp_ok t" "hit_ok h" "\<not> str_contains INVALID_ID (wound_text t h)"
    and "\<not> str_contains ''Die()'' (wound_text t h)" "stod (h_damage h) = Inr d"
  shows "\<exists>es. processLine cfg now (wound_text t h) ws = Inr (es,
      wound_put (rtrim_spaces (h_victim h))
        \<lparr>wr_victimName = rtrim_spaces (h_victim h), wr_damage = d,
         wr_attackerController = rtrim_spaces (h_attacker h), wr_attackerSteamId = h_steam h,
         wr_attackerEosId = h_eos h, wr_weapon = extractWeapon (h_weapon h), wr_time = now\<rparr> ws)
    \<and> map pl_type es = [''wound'']"
  using wound_search [OF assms(1,2)] assms(4,5)
  by (simp add: processLine_def preprocess_id [OF assms(3)] wound_contains storeWound_def
      wound_branch_def wound_text_def [symmetric] event_def)

section \<open>Properties\<close>

definition demo_stamp :: stamp where
  "demo_stamp = \<lparr>st_year = ''2026'', st_month = ''01'', st_day = ''01'', st_hour = ''12'', st_minute = ''00'',
     st_second = ''00'', st_ms = ''000'', st_thread = ''912''\<rparr>"

definition demo_hit :: "string \<Rightarrow> hit" where
  "demo_hit steam = \<lparr>h_victim = ''Bo Z'', h_damage = ''100.5'', h_attacker = ''Al'', h_eos = ''00ab'', h_steam = steam,
     h_controller = ''PC_7'', h_weapon = ''BP_M4_C''\<rparr>"

lemma demo_stamp_ok: "stamp_ok demo_stamp"
  by (simp add: stamp_ok_def demo_stamp_def digits_def is_digit_def byte_of_def)

lemma demo_hit_ok: "over Digit steam \<Longrightarrow> hit_ok (demo_hit steam)"
  by (simp add: hit_ok_def demo_hit_def over_def is_digit_def byte_of_def stops_at_def in_cset_Range starts_with_def)

text \<open>A line is turned into at most one event, and the wound store keeps one record per victim
  under that victim's name.\<close>
theorem processLine_one_event:
  assumes "wounds_ok ws" "processLine cfg now line ws = Inr (es, ws')"
  shows "length es \<le> 1 \<and> wounds_ok ws'"
  using processLine_le [OF assms(2)] processLine_wounds_ok [OF assms] by simp

theorem processLine_one_event_witness: "length (fst (die_branch Map.empty 0 ''Die() LogSquadTrace'' [])) \<le> 1"
proof -
  have "\<not> str_contains INVALID_ID ''Die() LogSquadTrace''" by code_simp
  moreover have "str_contains ''Die()'' ''Die() LogSquadTrace''" "str_contains ''LogSquadTrace'' ''Die() LogSquadTrace''"
    by code_simp+
  ultimately have "processLine Map.empty 0 ''Die() LogSquadTrace'' [] =
      Inr (fst (die_branch Map.empty 0 ''Die() LogSquadTrace'' []), snd (die_branch Map.empty 0 ''Die() LogSquadTrace'' []))"
    by (simp only: processLine_def preprocess_id Let_def simp_thms if_True prod.collapse)
  from processLine_one_event [OF _ this] show ?thesis by (simp add: wounds_ok_def)
qed

text \<open>After \<open>preprocessInvalidIds\<close> no \<open>INVALID\<close> is left in a line, and a line without one is
  returned as it is.\<close>
theorem preprocess_removes_invalid:
  "\<not> str_contains INVALID_ID (preprocessInvalidIds line)
    \<and> (str_contains INVALID_ID line \<or> preprocessInvalidIds line = line)"
  using preprocess_id by auto

text \<open>A \<open>Die()\<close> line in the documented format whose victim has no wound on record yields exactly
  the kill (or, for a null attacker, the suicide) with the fields of the line, and leaves the wound
  store alone.\<close>
theorem die_line_event:
  assumes "stamp_ok t" "hit_ok h" "\<not> str_contains INVALID_ID (die_text t h)"
    and "map_of ws (rtrim_spaces (h_victim h)) = None"
  shows "processLine cfg now (die_text t h) ws = Inr (
    if null_attacker h then
      event ''suicide'' [(''victimName'', shown_name (rtrim_spaces (h_victim h))),
        (''victimSteamId'', h_steam h), (''victimEosId'', h_eos h),
        (''weapon'', extractWeapon (h_weapon h)), (''damage'', h_damage h)]
    else
      event ''kill'' [(''killerName'', rtrim_spaces (h_attacker h)), (''killerSteamId'', h_steam h),
        (''killerEosId'', h_eos h), (''victimName'', shown_name (rtrim_spaces (h_victim h))),
        (''victimSteamId'', []), (''weapon'', extractWeapon (h_weapon h)), (''damage'', h_damage h)], ws)"
  using assms(4) by (simp add: processLine_die [OF assms(1-3)] die_branch_hit [OF assms(1,2)])


lemma demo_lines:
  "\<not> str_contains INVALID_ID (wound_text demo_stamp (demo_hit ''765''))"
  "\<not> str_contains ''Die()'' (wound_text demo_stamp (demo_hit ''765''))"
  "\<not> str_contains INVALID_ID (die_text demo_stamp (demo_hit ''999''))"
  "\<not> str_contains INVALID_ID (die_text demo_stamp (demo_hit NULL_STEAM))"
  by code_simp+

lemma demo_damage: "stod (h_damage (demo_hit steam)) = Inr (7072058789855232, - 46)"
  unfolding demo_hit_def by code_simp

lemma demo_ids: "over Digit ''765''" "over Digit ''999''" "over Digit NULL_STEAM"
  by (simp_all add: over_def is_digit_def byte_of_def NULL_STEAM_def)

theorem die_line_event_witness:
  "\<exists>k. processLine Map.empty 0 (die_text demo_stamp (demo_hit ''999'')) [] = Inr ([k], []) \<and>
     pl_type k = ''kill'' \<and> pl_fields k ''killerName'' = Some ''Al'' \<and> pl_fields k ''weapon'' = Some ''M4''"
  using die_line_event [OF demo_stamp_ok demo_hit_ok [OF demo_ids(2)] demo_lines(3), of "[]" Map.empty 0]
  by (simp add: event_def null_attacker_def demo_hit_def NULL_STEAM_def rtrim_def extractWeapon_def)


text \<open>When the attacker of a death is the null placeholder but a recent wound of the victim is on
  record, the line becomes a suicide whose victim id is the Steam id of the wound's attacker: the null
  test is made before the record is consulted.\<close>
theorem suicide_takes_attacker_id:
  assumes "stamp_ok t" "hit_ok h" "\<not> str_contains INVALID_ID (die_text t h)" "null_attacker h"
    and "map_of ws (rtrim_spaces (h_victim h)) = Some w" "now - wr_time w \<le> wound_expiry cfg"
    and "wr_attackerSteamId w \<noteq> []" "wr_attackerSteamId w \<noteq> NULL_STEAM"
  shows "\<exists>k ws'. processLine cfg now (die_text t h) ws = Inr ([k], ws') \<and> pl_type k = ''suicide''
    \<and> pl_fields k ''victimSteamId'' = Some (wr_attackerSteamId w)"
  using assms(4-8) by (simp add: processLine_die [OF assms(1-3)] die_branch_hit [OF assms(1,2)] event_def Let_def)

theorem suicide_takes_attacker_id_witness:
  "\<exists>k ws'. processLine Map.empty 20 (die_text demo_stamp (demo_hit NULL_STEAM))
      [(''Bo Z'', \<lparr>wr_victimName = ''Bo Z'', wr_damage = (1, 0), wr_attackerController = ''Al'',
        wr_attackerSteamId = ''765'', wr_attackerEosId = ''00ab'', wr_weapon = ''M4'', wr_time = 0\<rparr>)] = Inr ([k], ws')
     \<and> pl_fields k ''victimSteamId'' = Some ''765''"
proof -
  let ?w = "\<lparr>wr_victimName = ''Bo Z'', wr_damage = (1, 0), wr_attackerController = ''Al'',
        wr_attackerSteamId = ''765'', wr_attackerEosId = ''00ab'', wr_weapon = ''M4'', wr_time = 0\<rparr>"
  have "null_attacker (demo_hit NULL_STEAM)" "rtrim_spaces (h_victim (demo_hit NULL_STEAM)) = ''Bo Z''"
    "(20::int) - wr_time ?w \<le> wound_expiry Map.empty"
    by (simp_all add: null_attacker_def demo_hit_def rtrim_def wound_expiry_def config_getInt_def)
  with suicide_takes_attacker_id [OF demo_stamp_ok demo_hit_ok [OF demo_ids(3)] demo_lines(4), of "[(''Bo Z'', ?w)]" ?w 20 Map.empty]
  show ?thesis by (auto simp: NULL_STEAM_def)
qed

section \<open>Padded thread numbers\<close>

definition threadRe :: rx where
  "threadRe = lits '']['' (Cat (Many False 0 None Digit) (lits '']'' Eps))"

lemma lang_skip: "rx_lang (lits w (Cat c y)) u \<Longrightarrow> \<exists>a q. u = a @ q \<and> rx_lang y q"
  unfolding lang_lits by (simp, elim exE conjE) (metis append.assoc)

lemma stamp_lang:
  assumes "rx_lang (stamp_rx r) u" shows "\<exists>a v b. u = a @ v @ b \<and> rx_lang threadRe v"
proof -
  from lang_skip [OF assms [unfolded stamp_rx_def]] obtain a q where
    u: "u = a @ q" and q: "rx_lang (lits '']['' (Cat (Cap 2 (Cat (Many False 0 None Digit) Eps)) (lits '']'' r))) q"
    by blast
  from q obtain th b where "q = ''][''  @ th @ '']'' @ b" "\<forall>c\<in>set th. is_digit c"
    by (auto simp: lang_lits simp del: lits.simps)
  then have "q = (''][''  @ th @ '']'') @ b" "rx_lang threadRe (''][''  @ th @ '']'')"
    by (auto simp: threadRe_def lang_lits simp del: lits.simps)
  with u show ?thesis by blast
qed

lemma unstamped_none:
  assumes "rx_search threadRe s = None" shows "rx_search (stamp_rx r) s = None"
proof (rule ccontr)
  assume "rx_search (stamp_rx r) s \<noteq> None"
  then obtain a u b where s: "s = a @ u @ b" and "rx_lang (stamp_rx r) u"
    unfolding rx_search_iff by blast
  from stamp_lang [OF this(2)] obtain a' v b' where "u = a' @ v @ b'" "rx_lang threadRe v" by blast
  with s have "s = (a @ a') @ v @ (b' @ b)" by simp
  with \<open>rx_lang threadRe v\<close> have "rx_search threadRe s \<noteq> None"
    unfolding rx_search_iff by blast
  with assms show False by simp
qed

text \<open>A death is reported only if the thread number in the line is bare digits: a \<open>Die()\<close> line with
  a padded number, which is what the comment above the pattern shows, yields no event.\<close>
theorem padded_thread_ignored:
  assumes "\<not> str_contains INVALID_ID line" "str_contains ''Die()'' line" "str_contains ''LogSquadTrace'' line"
    and "rx_search threadRe line = None"
  shows "processLine cfg now line ws = Inr ([], ws)"
  using unstamped_none [OF assms(4)] assms(2,3)
  by (simp add: processLine_def preprocess_id [OF assms(1)] die_branch_def reDie_eq hit_rx_def)

definition documented_die_line :: string where
  "documented_die_line = ''[2026.01.01-12.00.00:000][  0]LogSquadTrace: [DedicatedServer]Die(): Player:VictimName KillingDamage=100.0 from AttackerName (Online IDs: EOS: xxx steam: xxx | Contoller ID: xxx) caused by BP_Weapon''"

theorem padded_thread_ignored_witness: "processLine Map.empty 0 documented_die_line [] = Inr ([], [])"
proof (rule padded_thread_ignored)
  show "\<not> str_contains INVALID_ID documented_die_line" by code_simp
  show "str_contains ''Die()'' documented_die_line" by code_simp
  show "str_contains ''LogSquadTrace'' documented_die_line" by code_simp
  show "rx_search threadRe documented_die_line = None" by code_simp
qed

end
