(* ===== verification/PlayerList.thy ===== *)
theory PlayerList
  imports LogParser
begin

text \<open>
  The round trip of \<open>LogParser::parsePlayerList\<close>: the console's answer to \<open>ListPlayers\<close>, printed in the
  format of the comment, is read back as the players it was printed from.
\<close>

section \<open>The pattern\<close>

abbreviation sp :: "rx \<Rightarrow> rx" where
  "sp r \<equiv> Cat (Many False 0 None Space) r"

lemma playerRe_eq:
  "playerRe = lits ''ID:'' (sp (greedy_cap 1 Digit (sp (lits ''|'' (sp (lits ''Online IDs:'' (sp (lits ''EOS:'' (sp
     (greedy_cap 2 WordC (Cat (Many False 1 None Space) (lits ''steam:'' (sp (greedy_cap 3 Digit (sp (lits ''|''
     (sp (lits ''Name:'' (sp (lazy_cap 4 Dot (sp (lits ''|'' (sp (lits ''Team ID:'' (sp (greedy_cap 5 Digit (sp
     (lits ''|'' (sp (lits ''Squad ID:'' (sp (lazy_cap 6 Dot (sp (lits ''|'' (sp (lits ''Is Leader:'' (sp
     (greedy_cap 7 WordC (sp (lits ''|'' (sp (lits ''Role:'' (sp (greedy_cap 8 Dot Eps)
     )))))))))))))))))))))))))))))))))))))))))))"
  by code_simp

section \<open>Matching a field closed by a bar\<close>

lemma rep_none:
  assumes "\<And>u v. s = u @ v \<Longrightarrow> \<forall>c\<in>set u. in_cset p c \<Longrightarrow> k v = None"
  shows "rep_run l p mn mx k s = None"
proof (rule ccontr)
  assume "rep_run l p mn mx k s \<noteq> None"
  then obtain x where "rep_run l p mn mx k s = Some x" by blast
  from rep_run_sound [OF this] assms show False by fastforce
qed

text \<open>A text without bars that neither starts nor ends with white space.\<close>

definition field :: "string \<Rightarrow> bool" where
  "field w = (over Dot w \<and> CHR ''|'' \<notin> set w \<and> \<not> is_space (hd w) \<and> \<not> is_space (last w))"

lemma bar_early:
  assumes "field w" "i < length w"
  shows "rx_run (sp (lits ''|'' r)) (drop i w @ CHR '' '' # CHR ''|'' # s) m k = None"
proof -
  have "rep_run False Space 0 None (\<lambda>s'. rx_run (lits ''|'' r) s' m k)
      (drop i w @ CHR '' '' # CHR ''|'' # s) = None"
  proof (rule rep_none)
    fix u v assume e: "drop i w @ CHR '' '' # CHR ''|'' # s = u @ v" and u: "\<forall>c\<in>set u. in_cset Space c"
    show "rx_run (lits ''|'' r) v m k = None"
    proof (cases "length u < length (drop i w)")
      case True
      then have "v = drop (length u) (drop i w) @ CHR '' '' # CHR ''|'' # s"
        by (metis append_eq_append_conv_if e less_imp_le)
      moreover have "hd (drop (length u) (drop i w)) \<in> set w" "drop (length u) (drop i w) \<noteq> []"
        using True by (auto simp: hd_drop_conv_nth)
      ultimately show ?thesis using assms(1)
        by (cases "drop (length u) (drop i w)") (auto simp: field_def)
    next
      case False
      then have "drop i w = take (length (drop i w)) u"
        by (metis append_eq_append_conv_if e not_le_imp_less)
      moreover have "last (drop i w) = last w" "drop i w \<noteq> []" using assms(2) by auto
      ultimately have "last w \<in> set u"
        by (metis in_set_takeD last_in_set)
      with u assms(1) show ?thesis by (auto simp: field_def)
    qed
  qed
  then show ?thesis by simp
qed

lemma run_cap_many:
  "rx_run (Cat (Cap n (Cat (Many l mn mx p) Eps)) r) s m k =
     rep_run l p mn mx (\<lambda>s'. rx_run r s' (m(n \<mapsto> take (length s - length s') s)) k) s"
  by simp

lemma run_field:
  assumes "field w" "rx_run (sp (lits ''|'' r)) (CHR '' '' # CHR ''|'' # s) (m(n \<mapsto> w)) k = Some x"
  shows "rx_run (lazy_cap n Dot (sp (lits ''|'' r))) (w @ CHR '' '' # CHR ''|'' # s) m k = Some x"
proof -
  let ?s = "w @ CHR '' '' # CHR ''|'' # s"
  have o: "over Dot w" using assms(1) by (simp add: field_def)
  have "rep_run True Dot 1 None (\<lambda>s'. rx_run (sp (lits ''|'' r)) s'
      (m(n \<mapsto> take (length ?s - length s') ?s)) k) ?s = Some x"
  proof (rule rep_lazy)
    show "\<forall>i<length w. 1 \<le> i \<longrightarrow> rx_run (sp (lits ''|'' r)) (drop i w @ CHR '' '' # CHR ''|'' # s)
        (m(n \<mapsto> take (length ?s - length (drop i w @ CHR '' '' # CHR ''|'' # s)) ?s)) k = None"
      using bar_early [OF assms(1)] by blast
  qed (use assms(2) over_simps [OF o] in auto)
  then show ?thesis by (simp only: run_cap_many)
qed

lemma run_fieldI:
  "field w \<Longrightarrow> rx_run (sp (lits ''|'' r)) ('' '' @ ''|'' @ s) (m(n \<mapsto> w)) k = Some x \<Longrightarrow>
     rx_run (lazy_cap n Dot (sp (lits ''|'' r))) (w @ '' '' @ ''|'' @ s) m k = Some x"
  unfolding append.simps by (rule run_field)

section \<open>The round trip\<close>

definition player_text :: "PlayerInfo \<Rightarrow> string" where
  "player_text p =
     ''ID:'' @ '' '' @ to_string (pi_rconId p) @ '' '' @ ''|'' @ '' '' @ ''Online IDs:'' @ '' '' @ ''EOS:'' @ '' '' @
     pi_eosId p @ '' '' @ ''steam:'' @ '' '' @ pi_steamId p @ '' '' @ ''|'' @ '' '' @ ''Name:'' @ '' '' @
     pi_name p @ '' '' @ ''|'' @ '' '' @ ''Team ID:'' @ '' '' @ pi_teamId p @ '' '' @ ''|'' @ '' '' @
     ''Squad ID:'' @ '' '' @ (if pi_squadId p = [] then ''N/A'' else pi_squadId p) @ '' '' @ ''|'' @ '' '' @
     ''Is Leader:'' @ '' '' @ (if pi_isLeader p then ''True'' else ''False'') @ '' '' @ ''|'' @ '' '' @
     ''Role:'' @ '' '' @ pi_role p"

definition player_ok :: "PlayerInfo \<Rightarrow> bool" where
  "player_ok p = (0 \<le> pi_rconId p \<and> pi_rconId p \<le> 2147483647 \<and> over WordC (pi_eosId p) \<and>
     over Digit (pi_steamId p) \<and> field (pi_name p) \<and> over Digit (pi_teamId p) \<and>
     (pi_squadId p = [] \<or> field (pi_squadId p) \<and> pi_squadId p \<noteq> ''N/A'') \<and>
     over Dot (pi_role p) \<and> \<not> is_space (hd (pi_role p)) \<and> last (pi_role p) \<noteq> CHR '' '')"

lemma over_hd: "over p w \<Longrightarrow> in_cset p (hd (w @ s))"
  by (cases w) (auto simp: over_def)

lemma word_not_space: "in_cset WordC c \<Longrightarrow> \<not> is_space c"
  by (auto simp: is_digit_def is_space_def)

lemma over_word_hd: "over WordC w \<Longrightarrow> \<not> is_space (hd (w @ s))"
  using over_hd word_not_space by blast

lemma over_digit_hd: "over Digit w \<Longrightarrow> \<not> is_space (hd (w @ s))"
  using over_hd [of Digit w s] digit_not_space by simp

lemma field_hd: "field w \<Longrightarrow> \<not> is_space (hd (w @ s))"
  by (cases w) (auto simp: field_def over_def)

lemma to_string_over: "0 \<le> n \<Longrightarrow> over Digit (to_string n)"
  using nat_digits_is_digit [of "nat n"] hd_nat_digits [of "nat n"]
  by (cases "nat_digits (nat n)") (auto simp: over_def to_string_def list_all_iff)

definition player_caps :: "PlayerInfo \<Rightarrow> caps" where
  "player_caps p = Map.empty(1 \<mapsto> to_string (pi_rconId p), 2 \<mapsto> pi_eosId p, 3 \<mapsto> pi_steamId p,
     4 \<mapsto> pi_name p, 5 \<mapsto> pi_teamId p, 6 \<mapsto> (if pi_squadId p = [] then ''N/A'' else pi_squadId p),
     7 \<mapsto> (if pi_isLeader p then ''True'' else ''False''), 8 \<mapsto> pi_role p)"

lemma char_lits:
  "is_space (CHR '' '')" "\<not> is_space (CHR ''|'')" "\<not> is_space (CHR ''O'')" "\<not> is_space (CHR ''E'')"
  "\<not> is_space (CHR ''s'')" "\<not> is_space (CHR ''N'')" "\<not> is_space (CHR ''T'')" "\<not> is_space (CHR ''S'')"
  "\<not> is_space (CHR ''I'')" "\<not> is_space (CHR ''R'')" "\<not> is_digit (CHR '' '')" "\<not> in_cset WordC (CHR '' '')"
  "\<not> in_cset Digit (CHR '' '')" "in_cset Space (CHR '' '')"
  by (simp_all add: is_space_def is_digit_def byte_of_def)

lemma player_search:
  assumes "player_ok p"
  shows "rx_search playerRe (player_text p) = Some (player_caps p)"
proof (rule rx_search_here)
  note ok = assms [unfolded player_ok_def]
  let ?sq = "if pi_squadId p = [] then ''N/A'' else pi_squadId p"
  let ?ld = "if pi_isLeader p then ''True'' else ''False''"
  have "field ''N/A''" by (simp add: field_def over_def byte_of_def is_space_def)
  then have sq: "field ?sq" using ok by auto
  have ld: "over WordC ?ld"
    by (simp add: over_def byte_of_def)
  have id: "over Digit (to_string (pi_rconId p))"
    using ok to_string_over by blast
  note hds = over_word_hd [OF ld] over_digit_hd [OF id] field_hd [OF sq]
  have role: "\<not> is_space (hd (pi_role p))" "over Dot (pi_role p)" using ok by auto
  show "rx_run playerRe (player_text p) Map.empty (\<lambda>_. Some) = Some (player_caps p)"
    unfolding playerRe_eq player_text_def
    by (intro run_litsI run_spaces run_fieldI run_greedy run_last run_epsI sq ld id)
      (use ok hds role in \<open>simp_all add: char_lits over_word_hd over_digit_hd field_hd player_caps_def del: in_cset.simps(2,3,4)\<close>)
qed

lemma rtrim_keeps: "w = [] \<or> last w \<noteq> CHR '' '' \<Longrightarrow> rtrim_spaces w = w"
  by (cases w rule: rev_cases) (auto simp: rtrim_def)

lemma field_last: "field w \<Longrightarrow> last w \<noteq> CHR '' ''"
  by (auto simp: field_def char_lits)

lemma player_line_text:
  assumes "player_ok p" shows "player_line (player_text p) = Inr (Some p)"
proof -
  note ok = assms [unfolded player_ok_def]
  have "stoi (to_string (pi_rconId p)) = Inr (pi_rconId p)"
    using ok by (simp add: in_int_def)
  moreover have "rtrim_spaces (pi_name p) = pi_name p" "rtrim_spaces (pi_squadId p) = pi_squadId p"
    "rtrim_spaces (pi_role p) = pi_role p" "rtrim_spaces ''N/A'' = ''N/A''"
    using ok field_last by (auto intro: rtrim_keeps)
  ultimately show ?thesis
    using ok by (auto simp: player_line_def player_search [OF assms] grp_def player_caps_def Let_def)
qed

lemma player_lines_texts:
  "list_all player_ok ps \<Longrightarrow> player_lines ls = Inr qs \<Longrightarrow> player_lines (map player_text ps @ ls) = Inr (ps @ qs)"
  by (induction ps) (simp_all add: player_line_text)

lemma over_no_newline:
  assumes "over p w" "\<not> in_cset p (CHR 0x0A)" shows "CHR 0x0A \<notin> set w"
  using assms by (auto simp: over_def list_all_iff)

lemma newline_csets: "\<not> in_cset Dot (CHR 0x0A)" "\<not> in_cset WordC (CHR 0x0A)" "\<not> in_cset Digit (CHR 0x0A)"
  by (simp_all add: is_digit_def byte_of_def)

lemma player_text_no_newline:
  assumes "player_ok p" shows "CHR 0x0A \<notin> set (player_text p)"
proof -
  note ok = assms [unfolded player_ok_def]
  note nl = over_no_newline [OF _ newline_csets(1)] over_no_newline [OF _ newline_csets(2)]
    over_no_newline [OF _ newline_csets(3)]
  have "CHR 0x0A \<notin> set (to_string (pi_rconId p))" "CHR 0x0A \<notin> set (pi_eosId p)"
    "CHR 0x0A \<notin> set (pi_steamId p)" "CHR 0x0A \<notin> set (pi_teamId p)" "CHR 0x0A \<notin> set (pi_role p)"
    using nl ok to_string_over by blast+
  moreover have "CHR 0x0A \<notin> set (pi_name p)" "CHR 0x0A \<notin> set (pi_squadId p)"
    using nl(1) ok unfolding field_def by (blast, metis empty_iff list.set(1))
  ultimately show ?thesis by (simp add: player_text_def)
qed

definition unlines :: "string list \<Rightarrow> string" where
  "unlines ls = concat (map (\<lambda>l. l @ [CHR 0x0A]) ls)"

lemma getlines_cons: "d \<notin> set l \<Longrightarrow> getlines d (l @ d # s) = l # getlines d s"
  by (induction l) auto

lemma getlines_unlines: "\<forall>l\<in>set ls. CHR 0x0A \<notin> set l \<Longrightarrow> getlines (CHR 0x0A) (unlines ls) = ls"
  by (induction ls) (simp_all add: unlines_def getlines_cons)

definition list_header :: string where
  "list_header = ''----- Active Players -----''"

definition list_trailer :: string where
  "list_trailer = ''----- Recently Disconnected Players [Max of 15] -----''"

lemma header_line: "player_line list_header = Inr None" "player_line list_trailer = Inr None"
proof -
  have "\<not> str_contains ''ID:'' list_header" "\<not> str_contains ''ID:'' list_trailer" by code_simp+
  then show "player_line list_header = Inr None" "player_line list_trailer = Inr None"
    by (simp_all add: player_line_def playerRe_eq rx_search_lits_None del: lits.simps)
qed

definition player_list_text :: "PlayerInfo list \<Rightarrow> string" where
  "player_list_text ps = unlines (list_header # map player_text ps @ [list_trailer])"

lemma parse_printed_list:
  assumes "list_all player_ok ps"
  shows "parsePlayerList (player_list_text ps) = Inr ps"
proof -
  have "\<forall>l\<in>set (list_header # map player_text ps @ [list_trailer]). CHR 0x0A \<notin> set l"
    using assms player_text_no_newline by (auto simp: list_all_iff list_header_def list_trailer_def)
  note g = getlines_unlines [OF this]
  have "player_list_text ps \<noteq> []"
    by (simp add: player_list_text_def unlines_def)
  moreover have "player_lines [list_trailer] = Inr []"
    by (simp add: header_line)
  ultimately show ?thesis
    using player_lines_texts [OF assms, of "[list_trailer]" "[]"] g
    by (simp add: parsePlayerList_def player_list_text_def header_line)
qed



end
