(* ===== verification/World.thy ===== *)
theory World
  imports Points LogParser
begin

text \<open>
  What the plugins, tasks and handlers act on: the database, the commands handed to
  \<open>RconPool::send\<close> and the messages pushed to web clients, and the environment a run takes as given:
  the clocks, the configuration, the answers of the game servers, the random draws, the JSON library
  (\<open>nlohmann::json\<close>) and SQLite's \<open>julianday\<close>.
\<close>

record env =
  e_now :: time
  e_ms :: int
  e_cfg :: config
  e_dump :: "json \<Rightarrow> string"
  e_parse :: "string \<Rightarrow> json option"
  e_reply :: "(int \<times> string) list \<Rightarrow> int \<Rightarrow> string \<Rightarrow> string"
  e_draw :: "int \<Rightarrow> int \<Rightarrow> int"
  e_elapsed :: "time \<Rightarrow> time \<Rightarrow> int"
  e_local :: "time \<Rightarrow> time"
  e_http :: "(string \<times> int \<times> string \<times> json) list \<Rightarrow> string \<Rightarrow> int \<Rightarrow> string \<Rightarrow> json \<Rightarrow> int option"

record world =
  w_db :: database
  w_sent :: "(int \<times> string) list"
  w_out :: "json list"
  w_http :: "(string \<times> int \<times> string \<times> json) list"

text \<open>\<open>RconPool::send\<close>: the command is recorded, the answer may depend on all commands before it.\<close>

definition rcon_send :: "env \<Rightarrow> int \<Rightarrow> string \<Rightarrow> world \<Rightarrow> string \<times> world" where
  "rcon_send e sid cmd w = (e_reply e (w_sent w) sid cmd, w\<lparr>w_sent := w_sent w @ [(sid, cmd)]\<rparr>)"

definition rcon_do :: "int \<Rightarrow> string \<Rightarrow> world \<Rightarrow> world" where
  "rcon_do sid cmd w = w\<lparr>w_sent := w_sent w @ [(sid, cmd)]\<rparr>"

definition on_db :: "(database \<Rightarrow> database) \<Rightarrow> world \<Rightarrow> world" where
  "on_db f w = w\<lparr>w_db := f (w_db w)\<rparr>"

lemma rcon_send_simps [simp]:
  "snd (rcon_send e sid cmd w) = rcon_do sid cmd w"
  "fst (rcon_send e sid cmd w) = e_reply e (w_sent w) sid cmd"
  by (simp_all add: rcon_send_def rcon_do_def)

lemma world_simps [simp]:
  "w_db (rcon_do sid cmd w) = w_db w" "w_out (rcon_do sid cmd w) = w_out w"
  "w_sent (rcon_do sid cmd w) = w_sent w @ [(sid, cmd)]"
  "w_db (on_db f w) = f (w_db w)" "w_sent (on_db f w) = w_sent w" "w_out (on_db f w) = w_out w"
  by (simp_all add: rcon_do_def on_db_def)

text \<open>\<open>AdminWarn "steamId" text\<close>, the console message most code sends.\<close>

definition warn_cmd :: "string \<Rightarrow> string \<Rightarrow> string" where
  "warn_cmd steam msg = ''AdminWarn '' @ [CHR 0x22] @ steam @ [CHR 0x22] @ '' '' @ msg"

definition warn :: "int \<Rightarrow> string \<Rightarrow> string \<Rightarrow> world \<Rightarrow> world" where
  "warn sid steam msg = rcon_do sid (warn_cmd steam msg)"

definition adminWarn :: "int \<Rightarrow> string \<Rightarrow> string \<Rightarrow> world \<Rightarrow> world" where
  "adminWarn sid steam msg w =
     (if steam = [] then w else rcon_do sid (warn_cmd (rconSafe steam) (rconSafe msg)) w)"

lemma warn_simps [simp]:
  "w_db (warn sid steam msg w) = w_db w" "w_out (warn sid steam msg w) = w_out w"
  "w_sent (warn sid steam msg w) = w_sent w @ [(sid, warn_cmd steam msg)]"
  "w_db (adminWarn sid steam msg w) = w_db w" "w_out (adminWarn sid steam msg w) = w_out w"
  by (simp_all add: warn_def adminWarn_def)

text \<open>\<open>datetime('now', n || ' seconds')\<close>: NULL outside the years SQLite represents.\<close>

definition sql_datetime :: "int \<Rightarrow> time option" where
  "sql_datetime t = (if - 62167219200 \<le> t \<and> t \<le> 253402300799 then Some t else None)"

text \<open>The text of a time, \<open>%Y-%m-%d %H:%M:%S\<close>, as \<open>strftime\<close> and SQLite print it: civil date from the days
  since 1970-01-01, shifted to years that start in March. \<open>nowISO()\<close> of core/core.cpp prints local time.\<close>

definition civil :: "int \<Rightarrow> int \<times> int \<times> int" where
  "civil days =
     (let z = days + 719468; era = z div 146097; doe = z mod 146097;
          yoe = (doe - doe div 1460 + doe div 36524 - doe div 146096) div 365;
          doy = doe - (365 * yoe + yoe div 4 - yoe div 100);
          mp = (5 * doy + 2) div 153;
          day = doy - (153 * mp + 2) div 5 + 1;
          month = (if mp < 10 then mp + 3 else mp - 9)
      in (yoe + era * 400 + (if month \<le> 2 then 1 else 0), month, day))"

definition pad2 :: "int \<Rightarrow> string" where
  "pad2 n = (if n < 10 then ''0'' else []) @ to_string n"

definition datetime_text :: "time \<Rightarrow> string" where
  "datetime_text t =
     (let (y, mo, day) = civil (t div 86400); s = t mod 86400
      in to_string y @ ''-'' @ pad2 mo @ ''-'' @ pad2 day @ '' '' @
         pad2 (s div 3600) @ '':'' @ pad2 (s mod 3600 div 60) @ '':'' @ pad2 (s mod 60))"

definition nowISO :: "env \<Rightarrow> string" where
  "nowISO e = datetime_text (e_local e (e_now e))"

text \<open>What is pushed to the web clients of a server (\<open>WsHandler::broadcast\<close>, theory \<open>WsHandler\<close>).\<close>

definition push :: "int \<Rightarrow> string \<Rightarrow> json \<Rightarrow> world \<Rightarrow> world" where
  "push sid ty data w = w\<lparr>w_out := w_out w @ [JObj [(''server'', JInt sid), (''type'', JStr ty), (''data'', data)]]\<rparr>"

lemma push_simps [simp]:
  "w_db (push sid ty data w) = w_db w" "w_sent (push sid ty data w) = w_sent w"
  by (simp_all add: push_def)

text \<open>A request to a relay agent (host, port, path, body) and its status, \<open>None\<close> when there is no answer.\<close>

definition http_post :: "env \<Rightarrow> string \<Rightarrow> int \<Rightarrow> string \<Rightarrow> json \<Rightarrow> world \<Rightarrow> int option \<times> world" where
  "http_post e host port path body w =
     (e_http e (w_http w) host port path body, w\<lparr>w_http := w_http w @ [(host, port, path, body)]\<rparr>)"

lemma http_post_simps [simp]:
  "fst (http_post e host port path body w) = e_http e (w_http w) host port path body"
  "w_db (snd (http_post e host port path body w)) = w_db w"
  "w_sent (snd (http_post e host port path body w)) = w_sent w"
  by (simp_all add: http_post_def)

text \<open>A call that may return, throw, or never return.\<close>

datatype 'a run = Ret 'a | Throw | Loop

definition opt_run :: "'a option \<Rightarrow> ('a \<Rightarrow> 'b run) \<Rightarrow> 'b run" where
  "opt_run x f = (case x of None \<Rightarrow> Throw | Some a \<Rightarrow> f a)"

lemma opt_run_simps [simp]: "opt_run None f = Throw" "opt_run (Some a) f = f a"
  by (simp_all add: opt_run_def)

section \<open>Plugin events (src/plugins/plugin.h)\<close>

record PluginEvent =
  ev_type :: string
  ev_serverId :: int
  ev_data :: json

section \<open>Reserved slots\<close>

text \<open>\<open>INSERT INTO reserved_slots\<close>, rejected by the foreign key or the unique index.\<close>

definition has_slot :: "database \<Rightarrow> int \<Rightarrow> string \<Rightarrow> bool" where
  "has_slot d sid steam = (\<exists>r\<in>set (t_rows (db_reserved d)). rs_serverId r = sid \<and> rs_steamId r = steam)"

definition reserved_insert :: "time \<Rightarrow> int \<Rightarrow> string \<Rightarrow> string \<Rightarrow> string \<Rightarrow> time option \<Rightarrow> database \<Rightarrow> database" where
  "reserved_insert now sid steam name who until d =
     (if server_exists d sid \<and> \<not> has_slot d sid steam
      then d\<lparr>db_reserved := t_insert (\<lambda>i. \<lparr>rs_id = i, rs_serverId = sid, rs_steamId = steam,
               rs_playerName = name, rs_addedBy = who, rs_createdAt = now, rs_expiresAt = until\<rparr>) (db_reserved d)\<rparr>
      else d)"

section \<open>Sample states\<close>

definition demo_world :: "database \<Rightarrow> world" where
  "demo_world d = \<lparr>w_db = d, w_sent = [], w_out = [], w_http = []\<rparr>"

lemma demo_world_simps [simp]: "w_db (demo_world d) = d" "w_sent (demo_world d) = []"
  by (simp_all add: demo_world_def)

definition demo_env :: "time \<Rightarrow> env" where
  "demo_env now = \<lparr>e_now = now, e_ms = 0, e_cfg = Map.empty, e_dump = (\<lambda>_. []), e_parse = (\<lambda>_. None),
     e_reply = (\<lambda>_ _ _. []), e_draw = (\<lambda>lo hi. lo), e_elapsed = (\<lambda>n t. n - t), e_local = (\<lambda>t. t),
     e_http = (\<lambda>_ _ _ _ _. None)\<rparr>"

definition chat_event :: "string \<Rightarrow> string \<Rightarrow> PluginEvent" where
  "chat_event steam message = \<lparr>ev_type = ''chat'', ev_serverId = 1,
     ev_data = JObj [(''steamId'', JStr steam), (''message'', JStr message)]\<rparr>"

end
