(* ===== verification/TKForgive.thy ===== *)
theory TKForgive
  imports World
begin

text \<open>
  Team kills: the plugin src/plugins/tk_forgive_plugin.cpp, which opens a record for a team kill and
  closes it when the killer apologises in time, and the background task \<open>tkCheckerLoop\<close> of
  src/tasks/tasks.cpp, which kicks the killers whose time has run out. Both threads run statement by
  statement on the shared table; the last section interleaves them.
\<close>

section \<open>Statements on tk_forgive\<close>

definition tk_insert :: "time \<Rightarrow> int \<Rightarrow> string \<Rightarrow> string \<Rightarrow> string \<Rightarrow> string \<Rightarrow> int \<Rightarrow> database \<Rightarrow> database" where
  "tk_insert now sid killer kname victim vname secs d =
     (case sql_datetime (now + secs) of
        None \<Rightarrow> d
      | Some until \<Rightarrow>
          if server_exists d sid then
            d\<lparr>db_tk := t_insert (\<lambda>i. \<lparr>tk_id = i, tk_serverId = sid, tk_killerSteamId = killer,
                tk_killerName = kname, tk_victimSteamId = victim, tk_victimName = vname,
                tk_forgiven = False, tk_kicked = False, tk_createdAt = now, tk_expiresAt = until\<rparr>) (db_tk d)\<rparr>
          else d)"

definition tk_pending :: "tk_row \<Rightarrow> bool" where
  "tk_pending r = (\<not> tk_forgiven r \<and> \<not> tk_kicked r)"

definition tk_mark_forgiven :: "tk_row \<Rightarrow> database \<Rightarrow> database" where
  "tk_mark_forgiven tk d = d\<lparr>db_tk := t_update (\<lambda>r. tk_id r = tk_id tk) (\<lambda>r. r\<lparr>tk_forgiven := True\<rparr>) (db_tk d)\<rparr>"

definition tk_mark_kicked :: "tk_row \<Rightarrow> database \<Rightarrow> database" where
  "tk_mark_kicked tk d = d\<lparr>db_tk := t_update (\<lambda>r. tk_id r = tk_id tk) (\<lambda>r. r\<lparr>tk_kicked := True\<rparr>) (db_tk d)\<rparr>"

text \<open>The records \<open>handleChat\<close> and \<open>tkCheckerLoop\<close> select.\<close>

definition tk_forgivable :: "time \<Rightarrow> int \<Rightarrow> string \<Rightarrow> tk_row \<Rightarrow> bool" where
  "tk_forgivable now sid steam r =
     (tk_serverId r = sid \<and> tk_killerSteamId r = steam \<and> tk_pending r \<and> now < tk_expiresAt r)"

definition tk_expired :: "time \<Rightarrow> tk_row \<Rightarrow> bool" where
  "tk_expired now r = (tk_pending r \<and> tk_expiresAt r \<le> now)"

section \<open>The plugin\<close>

definition tk_handleKill :: "env \<Rightarrow> PluginEvent \<Rightarrow> world \<Rightarrow> world run" where
  "tk_handleKill e ev w =
     opt_run (value_str (ev_data ev) ''type'' []) (\<lambda>ty.
     if ty \<noteq> ''teamkill'' then Ret w else
     opt_run (value_str (ev_data ev) ''killerSteamId'' []) (\<lambda>killer.
     if killer = [] then Ret w else
     if \<not> getSettingBool (w_db w) ''tk_forgive_enabled'' True then Ret w else
     let sid = ev_serverId ev; secs = getSettingInt (w_db w) ''tk_forgive_seconds'' 180 in
     opt_run (value_str (ev_data ev) ''killerName'' []) (\<lambda>kname.
     opt_run (value_str (ev_data ev) ''victimName'' []) (\<lambda>vname.
     opt_run (value_str (ev_data ev) ''victimSteamId'' []) (\<lambda>victim.
     let w1 = on_db (tk_insert (e_now e) sid killer kname victim vname secs) w;
         kwRaw = getSetting (w_db w1) ''tk_forgive_keywords'' ''sor,sorry,soy'';
         penalty = getSettingInt (w_db w1) ''tk_penalty'' 5
     in Ret (warn sid killer (([CHR 0xE4, CHR 0xBD, CHR 0xA0] @ ''TK'' @ [CHR 0xE4, CHR 0xBA, CHR 0x86]) @ vname @ [CHR 0xEF, CHR 0xBC, CHR 0x8C] @ to_string secs @ ([CHR 0xE7, CHR 0xA7, CHR 0x92, CHR 0xE5, CHR 0x86, CHR 0x85, CHR 0xE8, CHR 0xBE, CHR 0x93, CHR 0xE5, CHR 0x85, CHR 0xA5] @ '' '') @ kwRaw @
          ('' '' @ [CHR 0xE9, CHR 0x81, CHR 0x93, CHR 0xE6, CHR 0xAD, CHR 0x89, CHR 0xEF, CHR 0xBC, CHR 0x8C, CHR 0xE5, CHR 0x90, CHR 0xA6, CHR 0xE5, CHR 0x88, CHR 0x99, CHR 0xE8, CHR 0x87, CHR 0xAA, CHR 0xE5, CHR 0x8A, CHR 0xA8, CHR 0xE8, CHR 0xB8, CHR 0xA2, CHR 0xE5, CHR 0x87, CHR 0xBA, CHR 0xE3, CHR 0x80, CHR 0x82, CHR 0xE7, CHR 0xA7, CHR 0xAF, CHR 0xE5, CHR 0x88, CHR 0x86] @ '' -'') @ to_string penalty) w1))))))"

definition tk_keywords :: "string \<Rightarrow> string list" where
  "tk_keywords raw =
     filter (\<lambda>k. k \<noteq> [])
       (map (\<lambda>k. map to_lower (rtrim_spaces (ltrim (\<lambda>c. c = CHR '' '') k))) (getlines (CHR '','') raw))"

definition tk_apology :: "database \<Rightarrow> string \<Rightarrow> bool" where
  "tk_apology d message =
     list_ex (\<lambda>k. str_contains k (map to_lower message))
       (tk_keywords (getSetting d ''tk_forgive_keywords'' ''sor,sorry,soy''))"

definition tk_forgive_row :: "int \<Rightarrow> string \<Rightarrow> tk_row \<Rightarrow> world \<Rightarrow> world" where
  "tk_forgive_row sid steam tk w =
     warn sid steam ([CHR 0xE4, CHR 0xBD, CHR 0xA0, CHR 0xE7, CHR 0x9A, CHR 0x84] @ ''TK'' @ [CHR 0xE5, CHR 0xB7, CHR 0xB2, CHR 0xE8, CHR 0xA2, CHR 0xAB, CHR 0xE5, CHR 0x8E, CHR 0x9F, CHR 0xE8, CHR 0xB0, CHR 0x85, CHR 0xEF, CHR 0xBC, CHR 0x8C, CHR 0xE6, CHR 0xB3, CHR 0xA8, CHR 0xE6, CHR 0x84, CHR 0x8F, CHR 0xE5, CHR 0x8F, CHR 0x8B, CHR 0xE5, CHR 0x86, CHR 0x9B, CHR 0xE4, CHR 0xBC, CHR 0xA4, CHR 0xE5, CHR 0xAE, CHR 0xB3, CHR 0xEF, CHR 0xBC, CHR 0x81]) (on_db (tk_mark_forgiven tk) w)"

definition tk_handleChat :: "env \<Rightarrow> PluginEvent \<Rightarrow> world \<Rightarrow> world run" where
  "tk_handleChat e ev w =
     (if \<not> getSettingBool (w_db w) ''tk_forgive_enabled'' True then Ret w else
      opt_run (value_str (ev_data ev) ''steamId'' []) (\<lambda>steam.
      opt_run (value_str (ev_data ev) ''message'' []) (\<lambda>message.
      if steam = [] \<or> message = [] then Ret w else
      if \<not> tk_apology (w_db w) message then Ret w else
      Ret (fold (tk_forgive_row (ev_serverId ev) steam)
        (t_select (tk_forgivable (e_now e) (ev_serverId ev) steam) (db_tk (w_db w))) w))))"

definition TKForgive_handle :: "env \<Rightarrow> PluginEvent \<Rightarrow> world \<Rightarrow> world run" where
  "TKForgive_handle e ev w =
     (if ev_type ev = ''kill'' then tk_handleKill e ev w
      else if ev_type ev = ''chat'' then tk_handleChat e ev w
      else Ret w)"

section \<open>The checker (TimedTasks::tkCheckerLoop)\<close>

definition tk_kick_cmd :: "database \<Rightarrow> tk_row \<Rightarrow> string" where
  "tk_kick_cmd d tk =
     ''AdminKick '' @ [CHR 0x22] @ rconSafe (tk_killerSteamId tk) @ [CHR 0x22] @ '' '' @
     rconSafe (getSetting d ''tk_forgive_kick_msg'' ([CHR 0xE4, CHR 0xBD, CHR 0xA0, CHR 0xE5, CHR 0x9B, CHR 0xA0] @ ''TK'' @ [CHR 0xE9, CHR 0x98, CHR 0x9F, CHR 0xE5, CHR 0x8F, CHR 0x8B, CHR 0xE4, CHR 0xB8, CHR 0x94, CHR 0xE6, CHR 0x9C, CHR 0xAA, CHR 0xE9, CHR 0x81, CHR 0x93, CHR 0xE6, CHR 0xAD, CHR 0x89, CHR 0xE8, CHR 0xA2, CHR 0xAB, CHR 0xE8, CHR 0x87, CHR 0xAA, CHR 0xE5, CHR 0x8A, CHR 0xA8, CHR 0xE8, CHR 0xB8, CHR 0xA2, CHR 0xE5, CHR 0x87, CHR 0xBA]))"

definition tk_kick_row :: "tk_row \<Rightarrow> world \<Rightarrow> world" where
  "tk_kick_row tk w = on_db (tk_mark_kicked tk) (rcon_do (tk_serverId tk) (tk_kick_cmd (w_db w) tk) w)"

text \<open>\<open>std::stoi\<close> of the server id throws out of the loop over the rows.\<close>

fun tk_kick_rows :: "tk_row list \<Rightarrow> world \<Rightarrow> world" where
  "tk_kick_rows [] w = w"
| "tk_kick_rows (tk # tks) w =
     (case stoi (to_string (tk_serverId tk)) of
        Inl _ \<Rightarrow> w
      | Inr _ \<Rightarrow> tk_kick_rows tks (tk_kick_row tk w))"

definition tkChecker_round :: "time \<Rightarrow> world \<Rightarrow> world" where
  "tkChecker_round now w = tk_kick_rows (t_select (tk_expired now) (db_tk (w_db w))) w"

section \<open>What a handler does to the table\<close>

definition tk_ok :: "database \<Rightarrow> bool" where
  "tk_ok d = (ids_ok tk_id (db_tk d) \<and>
     (\<forall>r\<in>set (t_rows (db_tk d)). \<not> (tk_forgiven r \<and> tk_kicked r) \<and> in_int (tk_serverId r)))"

lemma tk_marks [simp]:
  "db_tk (tk_mark_forgiven tk d) = t_update (\<lambda>r. tk_id r = tk_id tk) (\<lambda>r. r\<lparr>tk_forgiven := True\<rparr>) (db_tk d)"
  "db_tk (tk_mark_kicked tk d) = t_update (\<lambda>r. tk_id r = tk_id tk) (\<lambda>r. r\<lparr>tk_kicked := True\<rparr>) (db_tk d)"
  "db_settings (tk_mark_forgiven tk d) = db_settings d" "db_settings (tk_mark_kicked tk d) = db_settings d"
  by (simp_all add: tk_mark_forgiven_def tk_mark_kicked_def)

lemma forgive_rows:
  "db_tk (w_db (fold (tk_forgive_row sid steam) rs w)) =
     fold (\<lambda>r. t_update (\<lambda>x. tk_id x = tk_id r) (\<lambda>r. r\<lparr>tk_forgiven := True\<rparr>)) rs (db_tk (w_db w))"
  by (induction rs arbitrary: w) (simp_all add: tk_forgive_row_def)

lemma kick_rows:
  assumes "\<forall>r\<in>set rs. in_int (tk_serverId r)"
  shows "db_tk (w_db (tk_kick_rows rs w)) =
      fold (\<lambda>r. t_update (\<lambda>x. tk_id x = tk_id r) (\<lambda>r. r\<lparr>tk_kicked := True\<rparr>)) rs (db_tk (w_db w))"
    and "w_sent (tk_kick_rows rs w) = w_sent w @ map (\<lambda>r. (tk_serverId r, tk_kick_cmd (w_db w) r)) rs"
proof -
  have cmd: "tk_kick_cmd d = tk_kick_cmd d'" if "db_settings d = db_settings d'" for d d'
    using settings_frame(1) [OF that] by (simp add: tk_kick_cmd_def fun_eq_iff)
  show "db_tk (w_db (tk_kick_rows rs w)) =
      fold (\<lambda>r. t_update (\<lambda>x. tk_id x = tk_id r) (\<lambda>r. r\<lparr>tk_kicked := True\<rparr>)) rs (db_tk (w_db w))"
    using assms by (induction rs arbitrary: w) (simp_all add: tk_kick_row_def)
  show "w_sent (tk_kick_rows rs w) = w_sent w @ map (\<lambda>r. (tk_serverId r, tk_kick_cmd (w_db w) r)) rs"
    using assms
  proof (induction rs arbitrary: w)
    case (Cons r rs)
    have "tk_kick_cmd (w_db (tk_kick_row r w)) = tk_kick_cmd (w_db w)"
      by (rule cmd) (simp add: tk_kick_row_def)
    with Cons show ?case by (simp add: tk_kick_row_def)
  qed simp
qed

lemma forgive_table:
  "ids_ok tk_id (db_tk (w_db w)) \<Longrightarrow>
   db_tk (w_db (fold (tk_forgive_row sid steam) (t_select P (db_tk (w_db w))) w)) =
     t_update P (\<lambda>r. r\<lparr>tk_forgiven := True\<rparr>) (db_tk (w_db w))"
  by (simp add: forgive_rows fold_update_selected)

lemma checker_table:
  assumes "tk_ok (w_db w)"
  shows "db_tk (w_db (tkChecker_round now w)) =
      t_update (tk_expired now) (\<lambda>r. r\<lparr>tk_kicked := True\<rparr>) (db_tk (w_db w))"
    and "w_sent (tkChecker_round now w) = w_sent w @
      map (\<lambda>r. (tk_serverId r, tk_kick_cmd (w_db w) r)) (t_select (tk_expired now) (db_tk (w_db w)))"
proof -
  have rs: "\<forall>r\<in>set (t_select (tk_expired now) (db_tk (w_db w))). in_int (tk_serverId r)"
    and ids: "ids_ok tk_id (db_tk (w_db w))"
    using assms by (auto simp: tk_ok_def t_select_def)
  show "db_tk (w_db (tkChecker_round now w)) =
      t_update (tk_expired now) (\<lambda>r. r\<lparr>tk_kicked := True\<rparr>) (db_tk (w_db w))"
    by (simp add: tkChecker_round_def kick_rows(1) [OF rs] fold_update_selected [OF ids])
  show "w_sent (tkChecker_round now w) = w_sent w @
      map (\<lambda>r. (tk_serverId r, tk_kick_cmd (w_db w) r)) (t_select (tk_expired now) (db_tk (w_db w)))"
    by (simp add: tkChecker_round_def kick_rows(2) [OF rs])
qed

lemma tk_insert_ok: "tk_ok d \<Longrightarrow> in_int sid \<Longrightarrow> tk_ok (tk_insert now sid k kn v vn secs d)"
  by (cases "sql_datetime (now + secs)") (simp_all add: tk_insert_def tk_ok_def ids_ok_insert ball_Un)

lemma tk_update_ok:
  assumes "tk_ok d" "db_tk d' = t_update P f (db_tk d)"
    and "\<And>r. tk_id (f r) = tk_id r \<and> tk_serverId (f r) = tk_serverId r"
    and "\<And>r. P r \<Longrightarrow> \<not> (tk_forgiven (f r) \<and> tk_kicked (f r))"
  shows "tk_ok d'"
  using assms ids_ok_update [of tk_id "db_tk d" f P] by (auto simp: tk_ok_def)

lemma tk_handleKill_ok:
  "tk_ok (w_db w) \<Longrightarrow> in_int (ev_serverId ev) \<Longrightarrow> tk_handleKill e ev w = Ret w' \<Longrightarrow> tk_ok (w_db w')"
  by (auto simp: tk_handleKill_def opt_run_def Let_def tk_insert_ok split: option.splits if_splits)

lemma tk_handleChat_ok:
  assumes "tk_ok (w_db w)" "tk_handleChat e ev w = Ret w'"
  shows "tk_ok (w_db w')"
proof -
  have "w' = w \<or> (\<exists>steam. w' = fold (tk_forgive_row (ev_serverId ev) steam)
      (t_select (tk_forgivable (e_now e) (ev_serverId ev) steam) (db_tk (w_db w))) w)"
    using assms(2) by (auto simp: tk_handleChat_def opt_run_def split: option.splits if_splits)
  then show ?thesis
  proof
    assume "\<exists>steam. w' = fold (tk_forgive_row (ev_serverId ev) steam)
      (t_select (tk_forgivable (e_now e) (ev_serverId ev) steam) (db_tk (w_db w))) w"
    then obtain steam where
      "db_tk (w_db w') = t_update (tk_forgivable (e_now e) (ev_serverId ev) steam) (\<lambda>r. r\<lparr>tk_forgiven := True\<rparr>) (db_tk (w_db w))"
      using assms(1) by (auto simp: forgive_table tk_ok_def)
    then show ?thesis
      by (rule tk_update_ok [OF assms(1)]) (auto simp: tk_forgivable_def tk_pending_def)
  qed (use assms(1) in simp)
qed

lemma tkChecker_ok: "tk_ok (w_db w) \<Longrightarrow> tk_ok (w_db (tkChecker_round now w))"
  by (rule tk_update_ok [OF _ checker_table(1)]) (auto simp: tk_expired_def tk_pending_def)

text \<open>Whole handlers, one after the other.\<close>

datatype tk_event = Tk_Plugin env PluginEvent | Tk_Check time

definition tk_apply :: "tk_event \<Rightarrow> world \<Rightarrow> world" where
  "tk_apply a w = (case a of
     Tk_Plugin e ev \<Rightarrow> if in_int (ev_serverId ev) then (case TKForgive_handle e ev w of Ret w' \<Rightarrow> w' | _ \<Rightarrow> w) else w
   | Tk_Check now \<Rightarrow> tkChecker_round now w)"

lemma TKForgive_ok:
  "tk_ok (w_db w) \<Longrightarrow> in_int (ev_serverId ev) \<Longrightarrow> TKForgive_handle e ev w = Ret w' \<Longrightarrow> tk_ok (w_db w')"
  unfolding TKForgive_handle_def
  by (split if_split_asm, blast intro: tk_handleKill_ok) (split if_split_asm, blast intro: tk_handleChat_ok, simp)

interpretation tk_log: preserves tk_apply "\<lambda>w. tk_ok (w_db w)"
  by unfold_locales (auto simp: tk_apply_def tkChecker_ok dest: TKForgive_ok split: tk_event.splits run.splits)

section \<open>The two threads interleaved\<close>

text \<open>The chat handler and the checker each select rows and then update them one by one; between any
  two statements the other thread may run. The rows a thread has still to update are its local state.\<close>

record tk_threads =
  tt_db :: database
  tt_now :: time
  tt_chat :: "tk_row list"
  tt_check :: "tk_row list"

inductive tk_step :: "tk_threads \<Rightarrow> tk_threads \<Rightarrow> bool" where
  Tick: "now' \<ge> tt_now s \<Longrightarrow> tk_step s (s\<lparr>tt_now := now'\<rparr>)"
| ChatSelect: "tt_chat s = [] \<Longrightarrow>
    tk_step s (s\<lparr>tt_chat := t_select (tk_forgivable (tt_now s) sid steam) (db_tk (tt_db s))\<rparr>)"
| ChatUpdate: "tt_chat s = r # rs \<Longrightarrow>
    tk_step s (s\<lparr>tt_db := tk_mark_forgiven r (tt_db s), tt_chat := rs\<rparr>)"
| CheckSelect: "tt_check s = [] \<Longrightarrow>
    tk_step s (s\<lparr>tt_check := t_select (tk_expired (tt_now s)) (db_tk (tt_db s))\<rparr>)"
| CheckUpdate: "tt_check s = r # rs \<Longrightarrow>
    tk_step s (s\<lparr>tt_db := tk_mark_kicked r (tt_db s), tt_check := rs\<rparr>)"

inductive tk_reach :: "tk_threads \<Rightarrow> tk_threads \<Rightarrow> bool" for s0 where
  start: "tk_reach s0 s0"
| step: "tk_reach s0 s \<Longrightarrow> tk_step s s' \<Longrightarrow> tk_reach s0 s'"

inductive_cases tk_stepE: "tk_step s s'"

definition tk_fresh :: "tk_threads \<Rightarrow> bool" where
  "tk_fresh s = (tt_chat s = [] \<and> tt_check s = [] \<and> ids_ok tk_id (db_tk (tt_db s)) \<and>
     (\<forall>r\<in>set (t_rows (db_tk (tt_db s))). tk_pending r))"

text \<open>Kicked rows have expired, and so has every row the checker still holds.\<close>

definition tk_inv :: "tk_threads \<Rightarrow> bool" where
  "tk_inv s = (ids_ok tk_id (db_tk (tt_db s)) \<and>
     (\<forall>r\<in>set (t_rows (db_tk (tt_db s))). tk_kicked r \<longrightarrow> tk_expiresAt r \<le> tt_now s) \<and>
     (\<forall>c\<in>set (tt_check s). \<forall>r\<in>set (t_rows (db_tk (tt_db s))). tk_id r = tk_id c \<longrightarrow> tk_expiresAt r \<le> tt_now s))"

lemma tk_inv_step: "tk_step s s' \<Longrightarrow> tk_inv s \<Longrightarrow> tk_inv s'"
proof (induction rule: tk_step.induct)
  case (Tick now' s)
  then show ?case by (fastforce simp: tk_inv_def)
next
  case (ChatSelect s sid steam)
  then show ?case by (simp add: tk_inv_def)
next
  case (ChatUpdate s r rs)
  then show ?case by (auto simp: tk_inv_def ids_ok_update)
next
  case (CheckSelect s)
  then have "tk_expiresAt r \<le> tt_now s"
    if "c \<in> set (t_select (tk_expired (tt_now s)) (db_tk (tt_db s)))"
      "r \<in> set (t_rows (db_tk (tt_db s)))" "tk_id r = tk_id c" for c r
    using that ids_ok_unique [of tk_id "db_tk (tt_db s)" r c]
    by (auto simp: tk_inv_def t_select_def tk_expired_def)
  with CheckSelect show ?case by (simp add: tk_inv_def)
next
  case (CheckUpdate s r rs)
  then show ?case by (auto simp: tk_inv_def ids_ok_update)
qed

lemma tk_inv_reach: "tk_reach s0 s \<Longrightarrow> tk_inv s0 \<Longrightarrow> tk_inv s"
  by (induction rule: tk_reach.induct) (auto intro: tk_inv_step)

lemma tk_fresh_inv: "tk_fresh s \<Longrightarrow> tk_inv s"
  by (auto simp: tk_fresh_def tk_inv_def tk_pending_def)

section \<open>Properties\<close>

text \<open>C21: whatever plugin events and checker rounds run one after the other, no team-kill record is ever
  both forgiven and kicked.\<close>
theorem tk_forgiven_xor_kicked:
  assumes "tk_ok (w_db w)"
  shows "\<forall>r\<in>set (t_rows (db_tk (w_db (fold tk_apply es w)))). \<not> (tk_forgiven r \<and> tk_kicked r)"
  using tk_log.fold_inv [OF assms, of es] by (simp add: tk_ok_def)

definition demo_tk :: "time \<Rightarrow> int \<Rightarrow> tk_row" where
  "demo_tk until i = \<lparr>tk_id = i, tk_serverId = 1, tk_killerSteamId = ''k'', tk_killerName = ''K'',
     tk_victimSteamId = ''v'', tk_victimName = ''V'', tk_forgiven = False, tk_kicked = False,
     tk_createdAt = 0, tk_expiresAt = until\<rparr>"

definition demo_tk_db :: "time \<Rightarrow> database" where
  "demo_tk_db until = demo_db\<lparr>db_tk := t_insert (demo_tk until) t_empty\<rparr>"

lemma demo_tk_ok: "tk_ok (demo_tk_db until)"
  by (simp add: tk_ok_def demo_tk_db_def demo_tk_def ids_ok_def t_insert_def t_empty_def)

theorem tk_forgiven_xor_kicked_witness:
  "filter (\<lambda>r. tk_forgiven r \<and> tk_kicked r)
     (t_rows (db_tk (w_db (fold tk_apply [Tk_Check 10] (demo_world (demo_tk_db 5)))))) = []"
  unfolding filter_empty_conv by (rule tk_forgiven_xor_kicked) (simp add: demo_world_def demo_tk_ok)

text \<open>A round of the checker kicks exactly the players whose open records have expired, one command
  per record in table order, and marks exactly those records.\<close>
theorem tkChecker_exact:
  assumes "tk_ok (w_db w)"
  shows "db_tk (w_db (tkChecker_round now w)) = t_update (tk_expired now) (\<lambda>r. r\<lparr>tk_kicked := True\<rparr>) (db_tk (w_db w))
    \<and> w_sent (tkChecker_round now w) = w_sent w @
        map (\<lambda>r. (tk_serverId r, tk_kick_cmd (w_db w) r)) (filter (tk_expired now) (t_rows (db_tk (w_db w))))"
  using checker_table [OF assms, of now] by (simp add: t_select_def)

theorem tkChecker_exact_witness:
  "map tk_kicked (t_rows (db_tk (w_db (tkChecker_round 10 (demo_world (demo_tk_db 5)))))) = [True]
   \<and> length (w_sent (tkChecker_round 10 (demo_world (demo_tk_db 5)))) = 1"
  using tkChecker_exact [of "demo_world (demo_tk_db 5)" 10]
  by (simp add: demo_world_def demo_tk_ok) (simp add: demo_tk_db_def demo_tk_def tk_expired_def tk_pending_def t_empty_def)

text \<open>An apology in time by the killer forgives exactly that player's open, unexpired records on that
  server; any other message, player or time changes no record.\<close>
theorem tk_apology_forgives:
  assumes "tk_ok (w_db w)" "getSettingBool (w_db w) ''tk_forgive_enabled'' True"
    and "value_str (ev_data ev) ''steamId'' [] = Some steam" "value_str (ev_data ev) ''message'' [] = Some message"
    and "steam \<noteq> []" "message \<noteq> []"
  shows "\<exists>w'. tk_handleChat e ev w = Ret w' \<and> db_tk (w_db w') =
    t_update (\<lambda>r. tk_apology (w_db w) message \<and> tk_forgivable (e_now e) (ev_serverId ev) steam r)
      (\<lambda>r. r\<lparr>tk_forgiven := True\<rparr>) (db_tk (w_db w))"
proof (cases "tk_apology (w_db w) message")
  case True
  then show ?thesis
    using assms forgive_table [of w "ev_serverId ev" steam "tk_forgivable (e_now e) (ev_serverId ev) steam"]
    by (auto simp: tk_handleChat_def tk_ok_def)
next
  case False
  then show ?thesis using assms by (simp add: tk_handleChat_def t_update_def)
qed

theorem tk_apology_forgives_witness:
  "\<exists>w'. tk_handleChat (demo_env 3) (chat_event ''k'' ''Sorry mate'') (demo_world (demo_tk_db 5)) = Ret w' \<and>
     map tk_forgiven (t_rows (db_tk (w_db w'))) = [True]"
proof -
  let ?ev = "chat_event ''k'' ''Sorry mate''" and ?w = "demo_world (demo_tk_db 5)"
  have a: "tk_apology (w_db ?w) ''Sorry mate''" unfolding demo_world_simps by code_simp
  have b: "getSettingBool (w_db ?w) ''tk_forgive_enabled'' True" unfolding demo_world_simps by code_simp
  have c: "tk_ok (w_db ?w)" by (simp add: demo_tk_ok)
  have d: "value_str (ev_data ?ev) ''steamId'' [] = Some ''k''" "value_str (ev_data ?ev) ''message'' [] = Some ''Sorry mate''"
    "ev_serverId ?ev = 1" "e_now (demo_env 3) = 3"
    by (simp_all add: chat_event_def demo_env_def)
  have "''k'' \<noteq> []" "''Sorry mate'' \<noteq> []" by simp_all
  from tk_apology_forgives [OF c b d(1,2) this, of "demo_env 3"] obtain w' where
    w: "tk_handleChat (demo_env 3) ?ev ?w = Ret w'" and
    t: "db_tk (w_db w') = t_update (\<lambda>r. tk_apology (w_db ?w) ''Sorry mate'' \<and>
      tk_forgivable (e_now (demo_env 3)) (ev_serverId ?ev) ''k'' r) (\<lambda>r. r\<lparr>tk_forgiven := True\<rparr>) (db_tk (w_db ?w))"
    by (elim exE conjE)
  have "tk_forgivable 3 1 ''k'' (demo_tk 5 1)" "t_rows (db_tk (demo_tk_db 5)) = [demo_tk 5 1]"
    by (simp_all add: demo_tk_db_def demo_tk_def tk_pending_def t_empty_def tk_forgivable_def)
  then have "map tk_forgiven (t_rows (db_tk (w_db w'))) = [True]"
    unfolding t by (simp add: a [unfolded demo_world_simps] d(3,4))
  with w show ?thesis by (intro exI conjI)
qed


definition demo_threads :: tk_threads where
  "demo_threads = \<lparr>tt_db = demo_tk_db 5, tt_now = 4, tt_chat = [], tt_check = []\<rparr>"

lemma demo_threads_fresh: "tk_fresh demo_threads"
  by (simp add: tk_fresh_def demo_threads_def demo_tk_db_def demo_tk_def tk_pending_def ids_ok_def t_insert_def t_empty_def)

lemma demo_race:
  "tk_reach demo_threads (demo_threads\<lparr>tt_now := 5,
     tt_db := tk_mark_kicked (demo_tk 5 1) (tk_mark_forgiven (demo_tk 5 1) (demo_tk_db 5))\<rparr>)"
proof -
  let ?s = demo_threads
  have sel: "t_select (tk_forgivable 4 1 ''k'') (db_tk (demo_tk_db 5)) = [demo_tk 5 1]"
    "t_select (tk_expired 5) (db_tk (demo_tk_db 5)) = [demo_tk 5 1]"
    by (simp_all add: t_select_def demo_tk_db_def demo_tk_def tk_forgivable_def tk_expired_def tk_pending_def t_insert_def t_empty_def)
  have 1: "tk_step ?s (?s\<lparr>tt_chat := [demo_tk 5 1]\<rparr>)"
    using ChatSelect [of ?s 1 "''k''"] sel by (simp add: demo_threads_def)
  have 2: "tk_step (?s\<lparr>tt_chat := [demo_tk 5 1]\<rparr>) (?s\<lparr>tt_chat := [demo_tk 5 1], tt_now := 5\<rparr>)"
    using Tick [of "?s\<lparr>tt_chat := [demo_tk 5 1]\<rparr>" 5] by (simp add: demo_threads_def)
  have 3: "tk_step (?s\<lparr>tt_chat := [demo_tk 5 1], tt_now := 5\<rparr>)
      (?s\<lparr>tt_chat := [demo_tk 5 1], tt_now := 5, tt_check := [demo_tk 5 1]\<rparr>)"
    using CheckSelect [of "?s\<lparr>tt_chat := [demo_tk 5 1], tt_now := 5\<rparr>"] sel by (simp add: demo_threads_def)
  have 4: "tk_step (?s\<lparr>tt_chat := [demo_tk 5 1], tt_now := 5, tt_check := [demo_tk 5 1]\<rparr>)
      (?s\<lparr>tt_now := 5, tt_check := [demo_tk 5 1], tt_db := tk_mark_forgiven (demo_tk 5 1) (demo_tk_db 5)\<rparr>)"
    using ChatUpdate [of "?s\<lparr>tt_chat := [demo_tk 5 1], tt_now := 5, tt_check := [demo_tk 5 1]\<rparr>" "demo_tk 5 1" "[]"]
    by (simp add: demo_threads_def)
  have 5: "tk_step (?s\<lparr>tt_now := 5, tt_check := [demo_tk 5 1], tt_db := tk_mark_forgiven (demo_tk 5 1) (demo_tk_db 5)\<rparr>)
      (?s\<lparr>tt_now := 5, tt_db := tk_mark_kicked (demo_tk 5 1) (tk_mark_forgiven (demo_tk 5 1) (demo_tk_db 5))\<rparr>)"
    using CheckUpdate [of "?s\<lparr>tt_now := 5, tt_check := [demo_tk 5 1], tt_db := tk_mark_forgiven (demo_tk 5 1) (demo_tk_db 5)\<rparr>" "demo_tk 5 1" "[]"]
    by (simp add: demo_threads_def)
  show ?thesis
    by (rule tk_reach.step [OF tk_reach.step [OF tk_reach.step [OF tk_reach.step [OF tk_reach.step [OF tk_reach.start 1] 2] 3] 4] 5])
qed


text \<open>The two threads are not atomic: a record selected for forgiveness just before it expires and
  picked up by the checker before it is updated ends up both forgiven and kicked.\<close>
theorem tk_race:
  "\<exists>s. tk_reach demo_threads s \<and> (\<exists>r\<in>set (t_rows (db_tk (tt_db s))). tk_forgiven r \<and> tk_kicked r)"
  by (rule exI, rule conjI, rule demo_race) (simp add: demo_tk_db_def demo_tk_def t_empty_def)

end
