(* ===== verification/ChatCommands.thy ===== *)
theory ChatCommands
  imports World
begin

text \<open>
  The chat commands of src/plugins/chat_commands.cpp: sign-in, lottery, statistics, balance, reserved
  slot and team change, as configured in the settings or by default. The lemmas show what each command
  does to the player's account and that points move only with a log row.
\<close>

section \<open>The commands (ChatCommandsPlugin::ChatCmd, getCommands)\<close>

record ChatCmd =
  cc_name :: string
  cc_trigger :: string
  cc_action :: string
  cc_cost :: int
  cc_reward :: int
  cc_enabled :: bool

definition default_cmds :: "ChatCmd list" where
  "default_cmds = map (\<lambda>(n, t, a, c, r). \<lparr>cc_name = n, cc_trigger = t, cc_action = a, cc_cost = c,
       cc_reward = r, cc_enabled = True\<rparr>)
     [([CHR 0xE7, CHR 0xAD, CHR 0xBE, CHR 0xE5, CHR 0x88, CHR 0xB0], ''qd'', ''sign_in'', 0, 5), ([CHR 0xE6, CHR 0x8A, CHR 0xBD, CHR 0xE5, CHR 0xA5, CHR 0x96], ''cj'', ''lottery'', 0, 0),
      ([CHR 0xE6, CHR 0x9F, CHR 0xA5, CHR 0xE8, CHR 0xAF, CHR 0xA2, CHR 0xE6, CHR 0x88, CHR 0x98, CHR 0xE7, CHR 0xBB, CHR 0xA9], ''kd'', ''query_kd'', 0, 0), ([CHR 0xE6, CHR 0x9F, CHR 0xA5, CHR 0xE8, CHR 0xAF, CHR 0xA2, CHR 0xE7, CHR 0xA7, CHR 0xAF, CHR 0xE5, CHR 0x88, CHR 0x86], ''jf'', ''query_points'', 0, 0),
      ([CHR 0xE5, CHR 0x85, CHR 0x91, CHR 0xE6, CHR 0x8D, CHR 0xA2, CHR 0xE9, CHR 0xA2, CHR 0x84, CHR 0xE7, CHR 0x95, CHR 0x99, CHR 0xE4, CHR 0xBD, CHR 0x8D], ''duihuan'', ''redeem'', 50, 0), ([CHR 0xE8, CHR 0xB7, CHR 0xB3, CHR 0xE8, CHR 0xBE, CHR 0xB9], ''tb'', ''switch_team'', 20, 0)]"

definition parse_cmd :: "json \<Rightarrow> ChatCmd option" where
  "parse_cmd j =
     (case (value_str j ''name'' [], value_str j ''trigger'' [], value_str j ''action'' [],
            value_int j ''cost'' 0, value_int j ''reward'' 0, value_bool j ''enabled'' True) of
        (Some n, Some t, Some a, Some c, Some r, Some b) \<Rightarrow>
          Some \<lparr>cc_name = n, cc_trigger = t, cc_action = a, cc_cost = c, cc_reward = r, cc_enabled = b\<rparr>
      | _ \<Rightarrow> None)"

text \<open>A type error ends the loop; the commands read before it are kept.\<close>

fun parse_cmds :: "json list \<Rightarrow> ChatCmd list" where
  "parse_cmds [] = []"
| "parse_cmds (j # js) = (case parse_cmd j of None \<Rightarrow> [] | Some c \<Rightarrow> c # parse_cmds js)"

text \<open>The text starts with a bracket, so a successful parse is an array.\<close>

definition getCommands :: "env \<Rightarrow> database \<Rightarrow> ChatCmd list" where
  "getCommands e d =
     (let raw = getSetting d ''chat_commands'' [] in
      if raw = [] \<or> hd raw \<noteq> CHR ''['' then default_cmds
      else case e_parse e raw of Some (JArr js) \<Rightarrow> parse_cmds js | _ \<Rightarrow> [])"

section \<open>Balances\<close>

definition cc_getBalance :: "database \<Rightarrow> string \<Rightarrow> int \<Rightarrow> int" where
  "cc_getBalance d steam sid =
     (case points_find d sid steam of None \<Rightarrow> 0 | Some r \<Rightarrow> safeStoi (to_string (p_balance r)) 0)"

definition addBalance :: "time \<Rightarrow> int \<Rightarrow> string \<Rightarrow> string \<Rightarrow> int \<Rightarrow> string \<Rightarrow> database \<Rightarrow> database" where
  "addBalance now sid steam name amount reason d =
     log_points sid steam name amount reason ([CHR 0xE7, CHR 0xB3, CHR 0xBB, CHR 0xE7, CHR 0xBB, CHR 0x9F] @ ''-'' @ [CHR 0xE5, CHR 0x8F, CHR 0xA3, CHR 0xE4, CHR 0xBB, CHR 0xA4]) now
       (case points_find d sid steam of
          Some existing \<Rightarrow> points_update (p_id existing)
            (\<lambda>r. r\<lparr>p_balance := p_balance r + amount, p_lifetimeEarned := p_lifetimeEarned r + amount,
                   p_lastUpdated := now\<rparr>) d
        | None \<Rightarrow> points_insert sid steam name (max amount 0) (max amount 0) now d)"

text \<open>The newest \<open>point_logs\<close> row of the player with such a reason.\<close>

definition last_logged :: "database \<Rightarrow> int \<Rightarrow> string \<Rightarrow> (string \<Rightarrow> bool) \<Rightarrow> time option" where
  "last_logged d sid steam P =
     map_option pl_createdAt (first_max pl_createdAt
       (t_select (\<lambda>l. pl_steamId l = steam \<and> pl_serverId l = sid \<and> P (pl_reason l)) (db_point_logs d)))"

text \<open>\<open>safeStoi\<close> of the seconds since then, as SQLite computes them.\<close>

definition elapsed_since :: "env \<Rightarrow> time \<Rightarrow> int" where
  "elapsed_since e t = safeStoi (to_string (e_elapsed e (e_now e) t)) 0"

section \<open>The actions\<close>

definition txt_signin :: string where
  "txt_signin = [CHR 0xE6, CHR 0xAF, CHR 0x8F, CHR 0xE6, CHR 0x97, CHR 0xA5, CHR 0xE7, CHR 0xAD, CHR 0xBE, CHR 0xE5, CHR 0x88, CHR 0xB0]"

definition signin_wait :: "int \<Rightarrow> string" where
  "signin_wait remain =
     (let h = remain div 3600; m = (remain mod 3600) div 60; s = remain mod 60 in
      if h > 0 then to_string h @ [CHR 0xE5, CHR 0xB0, CHR 0x8F, CHR 0xE6, CHR 0x97, CHR 0xB6] @ to_string m @ [CHR 0xE5, CHR 0x88, CHR 0x86]
      else if m > 0 then to_string m @ [CHR 0xE5, CHR 0x88, CHR 0x86] @ to_string s @ [CHR 0xE7, CHR 0xA7, CHR 0x92]
      else to_string s @ [CHR 0xE7, CHR 0xA7, CHR 0x92])"

definition doSignIn :: "env \<Rightarrow> int \<Rightarrow> string \<Rightarrow> string \<Rightarrow> int \<Rightarrow> world \<Rightarrow> world" where
  "doSignIn e sid steam name reward w =
     (let cooldown = getSettingInt (w_db w) ''sign_in_cooldown'' 86400;
          cold = (case last_logged (w_db w) sid steam (\<lambda>r. r = txt_signin) of
                    None \<Rightarrow> None
                  | Some t \<Rightarrow> if elapsed_since e t < cooldown then Some (wrap32 (cooldown - elapsed_since e t)) else None)
      in case cold of
           Some remain \<Rightarrow> warn sid steam (([CHR 0xE4, CHR 0xBB, CHR 0x8A, CHR 0xE6, CHR 0x97, CHR 0xA5, CHR 0xE5, CHR 0xB7, CHR 0xB2, CHR 0xE7, CHR 0xAD, CHR 0xBE, CHR 0xE5, CHR 0x88, CHR 0xB0, CHR 0xEF, CHR 0xBC, CHR 0x8C, CHR 0xE4, CHR 0xB8, CHR 0x8B, CHR 0xE6, CHR 0xAC, CHR 0xA1, CHR 0xE7, CHR 0xAD, CHR 0xBE, CHR 0xE5, CHR 0x88, CHR 0xB0, CHR 0xE8, CHR 0xBF, CHR 0x98, CHR 0xE9, CHR 0x9C, CHR 0x80, CHR 0xE7, CHR 0xAD, CHR 0x89, CHR 0xE5, CHR 0xBE, CHR 0x85] @ '' '') @ signin_wait remain) w
         | None \<Rightarrow>
             warn sid steam (([CHR 0xE7, CHR 0xAD, CHR 0xBE, CHR 0xE5, CHR 0x88, CHR 0xB0, CHR 0xE6, CHR 0x88, CHR 0x90, CHR 0xE5, CHR 0x8A, CHR 0x9F, CHR 0xEF, CHR 0xBC, CHR 0x81, CHR 0xE7, CHR 0xA7, CHR 0xAF, CHR 0xE5, CHR 0x88, CHR 0x86] @ '' +'') @ to_string reward)
               (on_db (addBalance (e_now e) sid steam name reward txt_signin) w))"

definition txt_lottery :: string where
  "txt_lottery = [CHR 0xE6, CHR 0x8A, CHR 0xBD, CHR 0xE5, CHR 0xA5, CHR 0x96]"

definition doLottery :: "env \<Rightarrow> int \<Rightarrow> string \<Rightarrow> string \<Rightarrow> world \<Rightarrow> world" where
  "doLottery e sid steam name w =
     (let d = w_db w in
      if \<not> getSettingBool d ''lottery_enabled'' False then w
      else
        let cooldown = getSettingInt d ''lottery_cooldown'' 3600;
            minR = getSettingInt d ''lottery_min'' 5;
            maxR = getSettingInt d ''lottery_max'' 30;
            cost = getSettingInt d ''lottery_cost'' 0;
            cold = (case last_logged d sid steam (starts_with txt_lottery) of
                      None \<Rightarrow> None
                    | Some t \<Rightarrow> if elapsed_since e t < cooldown then Some (wrap32 (cooldown - elapsed_since e t)) else None)
        in case cold of
             Some remain \<Rightarrow>
               warn sid steam (([CHR 0xE6, CHR 0x8A, CHR 0xBD, CHR 0xE5, CHR 0xA5, CHR 0x96, CHR 0xE5, CHR 0x86, CHR 0xB7, CHR 0xE5, CHR 0x8D, CHR 0xB4, CHR 0xE4, CHR 0xB8, CHR 0xAD, CHR 0xEF, CHR 0xBC, CHR 0x8C, CHR 0xE8, CHR 0xBF, CHR 0x98, CHR 0xE9, CHR 0x9C, CHR 0x80, CHR 0xE7, CHR 0xAD, CHR 0x89, CHR 0xE5, CHR 0xBE, CHR 0x85] @ '' '') @ to_string (remain div 60) @ [CHR 0xE5, CHR 0x88, CHR 0x86] @
                 to_string (remain mod 60) @ [CHR 0xE7, CHR 0xA7, CHR 0x92]) w
           | None \<Rightarrow>
               let balance = cc_getBalance d steam sid in
               if cost > 0 \<and> balance < cost then
                 warn sid steam (([CHR 0xE7, CHR 0xA7, CHR 0xAF, CHR 0xE5, CHR 0x88, CHR 0x86, CHR 0xE4, CHR 0xB8, CHR 0x8D, CHR 0xE8, CHR 0xB6, CHR 0xB3, CHR 0xEF, CHR 0xBC, CHR 0x81, CHR 0xE6, CHR 0x8A, CHR 0xBD, CHR 0xE5, CHR 0xA5, CHR 0x96, CHR 0xE9, CHR 0x9C, CHR 0x80, CHR 0xE8, CHR 0xA6, CHR 0x81] @ '' '') @ to_string cost @ ([CHR 0xEF, CHR 0xBC, CHR 0x8C, CHR 0xE5, CHR 0xBD, CHR 0x93, CHR 0xE5, CHR 0x89, CHR 0x8D] @ '' '') @ to_string balance) w
               else
                 let w1 = (if cost > 0 then on_db (addBalance (e_now e) sid steam name (- cost) [CHR 0xE6, CHR 0x8A, CHR 0xBD, CHR 0xE5, CHR 0xA5, CHR 0x96, CHR 0xE8, CHR 0xB4, CHR 0xB9, CHR 0xE7, CHR 0x94, CHR 0xA8]) w else w);
                     maxR' = (if maxR < minR then minR else maxR);
                     reward = e_draw e minR maxR'
                 in warn sid steam (([CHR 0xE6, CHR 0x8A, CHR 0xBD, CHR 0xE5, CHR 0xA5, CHR 0x96, CHR 0xE8, CHR 0x8E, CHR 0xB7, CHR 0xE5, CHR 0xBE, CHR 0x97] @ '' '') @ to_string reward @ ('' '' @ [CHR 0xE7, CHR 0xA7, CHR 0xAF, CHR 0xE5, CHR 0x88, CHR 0x86, CHR 0xEF, CHR 0xBC, CHR 0x81]))
                      (on_db (addBalance (e_now e) sid steam name reward (([CHR 0xE6, CHR 0x8A, CHR 0xBD, CHR 0xE5, CHR 0xA5, CHR 0x96] @ '' +'') @ to_string reward)) w1))"

text \<open>\<open>snprintf("%.2f", (double) k / d)\<close>.\<close>

definition ratio_text :: "nat \<Rightarrow> nat \<Rightarrow> string" where
  "ratio_text k d =
     (case to_double k d of
        Inl _ \<Rightarrow> []
      | Inr (m, e) \<Rightarrow>
          let cents = (if 0 \<le> e then m * 2 ^ nat e * 100 else div_round_even (m * 100) (2 ^ nat (- e)));
              frac = nat_digits (nat (cents mod 100))
          in to_string (cents div 100) @ ''.'' @ replicate (2 - length frac) (CHR ''0'') @ frac)"

definition doQueryKd :: "int \<Rightarrow> string \<Rightarrow> world \<Rightarrow> world" where
  "doQueryKd sid steam w =
     (let k = length (t_select (\<lambda>r. k_serverId r = sid \<and> k_killer r = steam) (db_kills (w_db w)));
          d = length (t_select (\<lambda>r. k_serverId r = sid \<and> k_victim r = steam) (db_kills (w_db w)));
          ratio = (if d > 0 then ratio_text k d else if k > 0 then ''inf'' else ''0'')
      in warn sid steam (([CHR 0xE6, CHR 0x88, CHR 0x98, CHR 0xE7, CHR 0xBB, CHR 0xA9] @ '': K='') @ to_string (int k) @ '' D='' @ to_string (int d) @ '' K/D='' @ ratio) w)"

definition doQueryPoints :: "int \<Rightarrow> string \<Rightarrow> world \<Rightarrow> world" where
  "doQueryPoints sid steam w =
     warn sid steam (([CHR 0xE5, CHR 0xBD, CHR 0x93, CHR 0xE5, CHR 0x89, CHR 0x8D, CHR 0xE7, CHR 0xA7, CHR 0xAF, CHR 0xE5, CHR 0x88, CHR 0x86] @ '': '') @ to_string (cc_getBalance (w_db w) steam sid)) w"

definition doRedeem :: "env \<Rightarrow> int \<Rightarrow> string \<Rightarrow> string \<Rightarrow> int \<Rightarrow> world \<Rightarrow> world" where
  "doRedeem e sid steam name cost w =
     (let balance = cc_getBalance (w_db w) steam sid in
      if balance < cost then
        warn sid steam (([CHR 0xE7, CHR 0xA7, CHR 0xAF, CHR 0xE5, CHR 0x88, CHR 0x86, CHR 0xE4, CHR 0xB8, CHR 0x8D, CHR 0xE8, CHR 0xB6, CHR 0xB3, CHR 0xEF, CHR 0xBC, CHR 0x81, CHR 0xE5, CHR 0x85, CHR 0x91, CHR 0xE6, CHR 0x8D, CHR 0xA2, CHR 0xE9, CHR 0x9C, CHR 0x80, CHR 0xE8, CHR 0xA6, CHR 0x81] @ '' '') @ to_string cost @ ([CHR 0xEF, CHR 0xBC, CHR 0x8C, CHR 0xE5, CHR 0xBD, CHR 0x93, CHR 0xE5, CHR 0x89, CHR 0x8D] @ '' '') @ to_string balance) w
      else if has_slot (w_db w) sid steam then
        warn sid steam [CHR 0xE4, CHR 0xBD, CHR 0xA0, CHR 0xE5, CHR 0xB7, CHR 0xB2, CHR 0xE6, CHR 0x9C, CHR 0x89, CHR 0xE9, CHR 0xA2, CHR 0x84, CHR 0xE7, CHR 0x95, CHR 0x99, CHR 0xE4, CHR 0xBD, CHR 0x8D, CHR 0xEF, CHR 0xBC, CHR 0x8C, CHR 0xE6, CHR 0x97, CHR 0xA0, CHR 0xE9, CHR 0x9C, CHR 0x80, CHR 0xE9, CHR 0x87, CHR 0x8D, CHR 0xE5, CHR 0xA4, CHR 0x8D, CHR 0xE5, CHR 0x85, CHR 0x91, CHR 0xE6, CHR 0x8D, CHR 0xA2] w
      else
        let w1 = on_db (addBalance (e_now e) sid steam name (- cost) [CHR 0xE5, CHR 0x85, CHR 0x91, CHR 0xE6, CHR 0x8D, CHR 0xA2, CHR 0xE9, CHR 0xA2, CHR 0x84, CHR 0xE7, CHR 0x95, CHR 0x99, CHR 0xE4, CHR 0xBD, CHR 0x8D]) w;
            days = getSettingInt (w_db w1) ''redeem_days'' 0;
            until = (if days > 0 then sql_datetime (e_now e + days * 86400) else None)
        in warn sid steam (([CHR 0xE5, CHR 0x85, CHR 0x91, CHR 0xE6, CHR 0x8D, CHR 0xA2, CHR 0xE6, CHR 0x88, CHR 0x90, CHR 0xE5, CHR 0x8A, CHR 0x9F, CHR 0xEF, CHR 0xBC, CHR 0x81, CHR 0xE9, CHR 0xA2, CHR 0x84, CHR 0xE7, CHR 0x95, CHR 0x99, CHR 0xE4, CHR 0xBD, CHR 0x8D, CHR 0xE5, CHR 0xB7, CHR 0xB2, CHR 0xE6, CHR 0xB7, CHR 0xBB, CHR 0xE5, CHR 0x8A, CHR 0xA0, CHR 0xEF, CHR 0xBC, CHR 0x8C, CHR 0xE7, CHR 0xA7, CHR 0xAF, CHR 0xE5, CHR 0x88, CHR 0x86] @ '' -'') @ to_string cost)
             (on_db (reserved_insert (e_now e) sid steam name ([CHR 0xE7, CHR 0xB3, CHR 0xBB, CHR 0xE7, CHR 0xBB, CHR 0x9F] @ ''-'' @ [CHR 0xE5, CHR 0x8F, CHR 0xA3, CHR 0xE4, CHR 0xBB, CHR 0xA4]) until) w1))"

definition doSwitchTeam :: "env \<Rightarrow> int \<Rightarrow> string \<Rightarrow> string \<Rightarrow> int \<Rightarrow> world \<Rightarrow> world" where
  "doSwitchTeam e sid steam name cost w =
     (let balance = cc_getBalance (w_db w) steam sid in
      if balance < cost then
        warn sid steam (([CHR 0xE7, CHR 0xA7, CHR 0xAF, CHR 0xE5, CHR 0x88, CHR 0x86, CHR 0xE4, CHR 0xB8, CHR 0x8D, CHR 0xE8, CHR 0xB6, CHR 0xB3, CHR 0xEF, CHR 0xBC, CHR 0x81, CHR 0xE8, CHR 0xB7, CHR 0xB3, CHR 0xE8, CHR 0xBE, CHR 0xB9, CHR 0xE9, CHR 0x9C, CHR 0x80, CHR 0xE8, CHR 0xA6, CHR 0x81] @ '' '') @ to_string cost @ ([CHR 0xEF, CHR 0xBC, CHR 0x8C, CHR 0xE5, CHR 0xBD, CHR 0x93, CHR 0xE5, CHR 0x89, CHR 0x8D] @ '' '') @ to_string balance) w
      else
        let w1 = on_db (addBalance (e_now e) sid steam name (- cost) [CHR 0xE8, CHR 0xB7, CHR 0xB3, CHR 0xE8, CHR 0xBE, CHR 0xB9]) w;
            (result, w2) = rcon_send e sid (''AdminForceTeamChange '' @ [CHR 0x22] @ steam @ [CHR 0x22]) w1
        in if str_contains ''Not Found'' result \<or> str_contains ''Error'' result then
             warn sid steam (([CHR 0xE7, CHR 0xA7, CHR 0xAF, CHR 0xE5, CHR 0x88, CHR 0x86, CHR 0xE5, CHR 0xB7, CHR 0xB2, CHR 0xE6, CHR 0x89, CHR 0xA3] @ ''(-'') @ to_string cost @ ('')'' @ [CHR 0xEF, CHR 0xBC, CHR 0x8C, CHR 0xE8, CHR 0xB7, CHR 0xB3, CHR 0xE8, CHR 0xBE, CHR 0xB9, CHR 0xE6, CHR 0x89, CHR 0xA7, CHR 0xE8, CHR 0xA1, CHR 0x8C, CHR 0xE5, CHR 0xA4, CHR 0xB1, CHR 0xE8, CHR 0xB4, CHR 0xA5, CHR 0xEF, CHR 0xBC, CHR 0x8C, CHR 0xE8, CHR 0xAF, CHR 0xB7, CHR 0xE8, CHR 0x81, CHR 0x94, CHR 0xE7, CHR 0xB3, CHR 0xBB, CHR 0xE7, CHR 0xAE, CHR 0xA1, CHR 0xE7, CHR 0x90, CHR 0x86, CHR 0xE5, CHR 0x91, CHR 0x98])) w2
           else warn sid steam (([CHR 0xE8, CHR 0xB7, CHR 0xB3, CHR 0xE8, CHR 0xBE, CHR 0xB9, CHR 0xE6, CHR 0x88, CHR 0x90, CHR 0xE5, CHR 0x8A, CHR 0x9F, CHR 0xEF, CHR 0xBC, CHR 0x81, CHR 0xE7, CHR 0xA7, CHR 0xAF, CHR 0xE5, CHR 0x88, CHR 0x86] @ '' -'') @ to_string cost) w2)"

definition cc_execute :: "env \<Rightarrow> ChatCmd \<Rightarrow> int \<Rightarrow> string \<Rightarrow> string \<Rightarrow> world \<Rightarrow> world" where
  "cc_execute e cmd sid steam name w =
     (if cc_action cmd = ''sign_in'' then doSignIn e sid steam name (if cc_reward cmd > 0 then cc_reward cmd else 5) w
      else if cc_action cmd = ''lottery'' then doLottery e sid steam name w
      else if cc_action cmd = ''query_kd'' then doQueryKd sid steam w
      else if cc_action cmd = ''query_points'' then doQueryPoints sid steam w
      else if cc_action cmd = ''redeem'' then doRedeem e sid steam name (if cc_cost cmd > 0 then cc_cost cmd else 50) w
      else if cc_action cmd = ''switch_team'' then doSwitchTeam e sid steam name (if cc_cost cmd > 0 then cc_cost cmd else 20) w
      else w)"

section \<open>The handler (ChatCommandsPlugin::handle)\<close>

definition is_blank :: "char \<Rightarrow> bool" where
  "is_blank c = (c = CHR '' '' \<or> c = CHR 0x09 \<or> c = CHR 0x0D \<or> c = CHR 0x0A)"

definition cc_normalize :: "string \<Rightarrow> string" where
  "cc_normalize msg = ltrim (\<lambda>c. c = CHR '' '' \<or> c = CHR 0x09) (rtrim is_blank (map to_lower msg))"

definition ChatCommands_handle :: "env \<Rightarrow> PluginEvent \<Rightarrow> world \<Rightarrow> world run" where
  "ChatCommands_handle e ev w =
     (if ev_type ev \<noteq> ''chat'' then Ret w else
      opt_run (value_str (ev_data ev) ''message'' []) (\<lambda>msg.
      opt_run (value_str (ev_data ev) ''steamId'' []) (\<lambda>steam.
      opt_run (value_str (ev_data ev) ''playerName'' []) (\<lambda>name.
      if msg = [] \<or> steam = [] \<or> ev_serverId ev = 0 then Ret w else
      case find (\<lambda>c. cc_enabled c \<and> cc_normalize msg = cc_trigger c) (getCommands e (w_db w)) of
        None \<Rightarrow> Ret w
      | Some cmd \<Rightarrow> Ret (cc_execute e cmd (ev_serverId ev) steam name w)))))"

section \<open>What a command does to the accounts\<close>

lemma cc_getBalance_ok: "points_ok d \<Longrightarrow> cc_getBalance d steam sid = balance_of d sid steam"
  using points_findD points_find_NoneD(1) by (fastforce simp: cc_getBalance_def safeStoi_def split: option.splits)

lemma addBalance_moved:
  assumes ok: "points_ok d" and srv: "server_exists d sid" and int: "in_int amt" "in_int (balance_of d sid steam + amt)"
    and pos: "0 \<le> amt \<or> points_find d sid steam \<noteq> None"
  shows "moved d sid steam amt (addBalance now sid steam name amt reason d)"
proof (cases "points_find d sid steam")
  case None
  then show ?thesis
    using moved_by_insert [OF ok None srv int(1)] pos by (simp add: addBalance_def max_def)
next
  case (Some r)
  then show ?thesis
    by (auto simp: addBalance_def intro!: moved_by_update [OF ok Some int(2)])
qed

lemma moved_trans:
  "moved d sid steam a d1 \<Longrightarrow> moved d1 sid steam b d2 \<Longrightarrow> moved d sid steam (a + b) d2"
  by (auto simp: moved_def)

lemma moved_frame:
  assumes "moved d sid steam a d1" "db_points d2 = db_points d1" "db_point_logs d2 = db_point_logs d1"
    "db_servers d2 = db_servers d1" "db_settings d2 = db_settings d1"
  shows "moved d sid steam a d2"
  using assms by (auto simp: moved_def points_ok_def balance_of_def logged_def server_exists_def)

lemma reserved_insert_frame [simp]:
  "db_points (reserved_insert now sid steam name who until d) = db_points d"
  "db_point_logs (reserved_insert now sid steam name who until d) = db_point_logs d"
  "db_servers (reserved_insert now sid steam name who until d) = db_servers d"
  "db_settings (reserved_insert now sid steam name who until d) = db_settings d"
  by (simp_all add: reserved_insert_def)

text \<open>What a command may add or take: \<open>fair cap w w'\<close> says that only the account of the player moved,
  by an amount it could pay and at most \<open>cap\<close>.\<close>

definition fair :: "int \<Rightarrow> int \<Rightarrow> string \<Rightarrow> database \<Rightarrow> database \<Rightarrow> bool" where
  "fair cap sid steam d d' =
     (\<exists>amt. moved d sid steam amt d' \<and> amt \<le> cap \<and> (0 \<le> amt \<or> 0 \<le> balance_of d sid steam + amt))"

lemma fairI: "moved d sid steam amt d' \<Longrightarrow> amt \<le> cap \<Longrightarrow> 0 \<le> amt \<or> 0 \<le> balance_of d sid steam + amt \<Longrightarrow> fair cap sid steam d d'"
  by (auto simp: fair_def)

lemma fair_refl: "points_ok d \<Longrightarrow> 0 \<le> cap \<Longrightarrow> fair cap sid steam d d"
  by (rule fairI [OF moved_refl]) auto

text \<open>The settings and bounds under which the accounts stay within \<open>int\<close>.\<close>

definition chat_ok :: "env \<Rightarrow> int \<Rightarrow> int \<Rightarrow> string \<Rightarrow> database \<Rightarrow> bool" where
  "chat_ok e cap sid steam d =
     (points_ok d \<and> server_exists d sid \<and> 0 \<le> cap \<and> balance_of d sid steam + cap \<le> 2147483647 \<and>
      - 1000000000 \<le> balance_of d sid steam \<and> cap \<le> 1000000000 \<and>
      0 \<le> getSettingInt d ''lottery_min'' 5 \<and> getSettingInt d ''lottery_min'' 5 \<le> cap \<and>
      getSettingInt d ''lottery_max'' 30 \<le> cap \<and> (\<forall>lo hi. lo \<le> hi \<longrightarrow> lo \<le> e_draw e lo hi \<and> e_draw e lo hi \<le> hi))"

lemma pay_moved:
  assumes "points_ok d" "server_exists d sid" "0 < cost" "cost \<le> cc_getBalance d steam sid"
  shows "moved d sid steam (- cost) (addBalance now sid steam name (- cost) reason d)"
proof -
  have b: "cost \<le> balance_of d sid steam" using assms(1,4) by (simp add: cc_getBalance_ok)
  then obtain r where r: "points_find d sid steam = Some r"
    using points_find_NoneD(1) [OF assms(1)] assms(3) by fastforce
  then have "in_int (balance_of d sid steam)"
    using points_findD [OF assms(1) r] by (auto simp: points_ok_def)
  then have "in_int (- cost)" "in_int (balance_of d sid steam + - cost)"
    using b assms(3) by (auto simp: in_int_def)
  then show ?thesis by (rule addBalance_moved [OF assms(1,2)]) (simp add: r)
qed

lemma gain_moved:
  assumes "points_ok d" "server_exists d sid" "0 \<le> amt" "amt \<le> cap" "cap \<le> 1000000000"
    "- 1000000000 \<le> balance_of d sid steam" "balance_of d sid steam + cap \<le> 2147483647"
  shows "moved d sid steam amt (addBalance now sid steam name amt reason d)"
  by (rule addBalance_moved [OF assms(1,2)]) (use assms in \<open>auto simp: in_int_def\<close>)

lemma doSignIn_fair:
  assumes "chat_ok e cap sid steam (w_db w)" "0 < reward" "reward \<le> cap"
  shows "fair cap sid steam (w_db w) (w_db (doSignIn e sid steam name reward w))"
proof -
  note ok = assms(1) [unfolded chat_ok_def]
  have "fair cap sid steam (w_db w) (addBalance (e_now e) sid steam name reward txt_signin (w_db w))"
    by (rule fairI, rule gain_moved [where cap = cap]) (use ok assms in auto)
  then show ?thesis
    using ok by (simp add: doSignIn_def Let_def fair_refl split: option.split)
qed

lemma doRedeem_fair:
  assumes "chat_ok e cap sid steam (w_db w)" "0 < cost"
  shows "fair cap sid steam (w_db w) (w_db (doRedeem e sid steam name cost w))"
proof -
  note ok = assms(1) [unfolded chat_ok_def]
  show ?thesis
  proof (cases "cc_getBalance (w_db w) steam sid < cost \<or> has_slot (w_db w) sid steam")
    case True
    then show ?thesis using ok by (auto simp: doRedeem_def Let_def fair_refl)
  next
    case False
    then have "moved (w_db w) sid steam (- cost) (w_db (doRedeem e sid steam name cost w))"
      using ok assms(2)
      by (auto simp: doRedeem_def Let_def intro!: moved_frame [OF pay_moved])
    then show ?thesis
      by (rule fairI) (use False ok assms(2) in \<open>auto simp: cc_getBalance_ok\<close>)
  qed
qed

lemma doSwitchTeam_fair:
  assumes "chat_ok e cap sid steam (w_db w)" "0 < cost"
  shows "fair cap sid steam (w_db w) (w_db (doSwitchTeam e sid steam name cost w))"
proof -
  note ok = assms(1) [unfolded chat_ok_def]
  show ?thesis
  proof (cases "cc_getBalance (w_db w) steam sid < cost")
    case True
    then show ?thesis using ok by (auto simp: doSwitchTeam_def Let_def fair_refl)
  next
    case False
    then have "moved (w_db w) sid steam (- cost) (w_db (doSwitchTeam e sid steam name cost w))"
      using ok assms(2)
      by (auto simp: doSwitchTeam_def Let_def case_prod_beta intro!: pay_moved)
    then show ?thesis
      by (rule fairI) (use False ok assms(2) in \<open>auto simp: cc_getBalance_ok\<close>)
  qed
qed

lemma doLottery_fair:
  assumes "chat_ok e cap sid steam (w_db w)"
  shows "fair cap sid steam (w_db w) (w_db (doLottery e sid steam name w))"
proof -
  note ok = assms [unfolded chat_ok_def]
  let ?d = "w_db w"
  let ?lo = "getSettingInt ?d ''lottery_min'' 5" and ?cost = "getSettingInt ?d ''lottery_cost'' 0"
  let ?hi = "if getSettingInt ?d ''lottery_max'' 30 < ?lo then ?lo else getSettingInt ?d ''lottery_max'' 30"
  let ?r = "e_draw e ?lo ?hi"
  have r: "0 \<le> ?r" "?r \<le> cap"
    using ok by (smt (verit))+
  have free: "fair cap sid steam ?d (addBalance (e_now e) sid steam name ?r reason ?d)" for reason
    by (rule fairI, rule gain_moved [where cap = cap]) (use ok r in auto)
  have paid: "fair cap sid steam ?d (addBalance (e_now e) sid steam name ?r reason
      (addBalance (e_now e) sid steam name (- ?cost) reason' ?d))"
    if c: "0 < ?cost" "?cost \<le> cc_getBalance ?d steam sid" for reason reason'
  proof -
    let ?d1 = "addBalance (e_now e) sid steam name (- ?cost) reason' ?d"
    have m: "moved ?d sid steam (- ?cost) ?d1"
      by (rule pay_moved) (use ok c in auto)
    then have ok1: "points_ok ?d1" "server_exists ?d1 sid" "balance_of ?d1 sid steam = balance_of ?d sid steam - ?cost"
      using ok by (auto simp: moved_def server_exists_def)
    have b: "?cost \<le> balance_of ?d sid steam" using c(2) ok by (simp add: cc_getBalance_ok)
    have "moved ?d1 sid steam ?r (addBalance (e_now e) sid steam name ?r reason ?d1)"
      by (rule gain_moved [where cap = cap]) (use ok ok1 r b c(1) in auto)
    from moved_trans [OF m this] show ?thesis
      by (rule fairI) (use r b c(1) in auto)
  qed
  show ?thesis
    using ok free paid by (auto simp: doLottery_def Let_def fair_refl not_less split: option.split)
qed

lemma fair_if: "fair cap sid steam d (w_db a) \<Longrightarrow> fair cap sid steam d (w_db b) \<Longrightarrow> fair cap sid steam d (w_db (if c then a else b))"
  by simp

lemma cc_execute_fair:
  assumes "chat_ok e cap sid steam (w_db w)" "cc_reward cmd \<le> cap" "5 \<le> cap"
  shows "fair cap sid steam (w_db w) (w_db (cc_execute e cmd sid steam name w))"
proof -
  have ok: "points_ok (w_db w)" "0 \<le> cap" using assms(1) by (simp_all add: chat_ok_def)
  have q: "w_db (doQueryKd sid steam w) = w_db w" "w_db (doQueryPoints sid steam w) = w_db w"
    by (simp_all add: doQueryKd_def doQueryPoints_def Let_def)
  have 1: "fair cap sid steam (w_db w) (w_db (doSignIn e sid steam name (if cc_reward cmd > 0 then cc_reward cmd else 5) w))"
    by (rule doSignIn_fair [OF assms(1)]) (use assms(2,3) in auto)
  have 2: "fair cap sid steam (w_db w) (w_db (doRedeem e sid steam name (if cc_cost cmd > 0 then cc_cost cmd else 50) w))"
    by (rule doRedeem_fair [OF assms(1)]) simp
  have 3: "fair cap sid steam (w_db w) (w_db (doSwitchTeam e sid steam name (if cc_cost cmd > 0 then cc_cost cmd else 20) w))"
    by (rule doSwitchTeam_fair [OF assms(1)]) simp
  show ?thesis
    unfolding cc_execute_def
    by (intro fair_if 1 2 3 doLottery_fair [OF assms(1)]) (simp_all only: q fair_refl [OF ok])
qed

lemma last_logged_add:
  assumes "\<forall>l\<in>set (t_rows (db_point_logs d)). pl_createdAt l \<le> now" "P reason"
  shows "last_logged (addBalance now sid steam name amt reason d) sid steam P = Some now"
proof -
  let ?row = "\<lparr>pl_id = t_seq (db_point_logs d) + 1, pl_serverId = sid, pl_steamId = steam, pl_playerName = name,
    pl_amount = amt, pl_reason = reason, pl_operator = ([CHR 0xE7, CHR 0xB3, CHR 0xBB, CHR 0xE7, CHR 0xBB, CHR 0x9F] @ ''-'' @ [CHR 0xE5, CHR 0x8F, CHR 0xA3, CHR 0xE4, CHR 0xBB, CHR 0xA4]), pl_createdAt = now\<rparr>"
  let ?Q = "\<lambda>l. pl_steamId l = steam \<and> pl_serverId l = sid \<and> P (pl_reason l)"
  have rows: "t_rows (db_point_logs (addBalance now sid steam name amt reason d)) = t_rows (db_point_logs d) @ [?row]"
    by (simp add: addBalance_def log_points_def points_update_def points_insert_def split: option.split)
  have sel: "t_select ?Q (db_point_logs (addBalance now sid steam name amt reason d)) =
      filter ?Q (t_rows (db_point_logs d)) @ [?row]"
    unfolding t_select_def rows using assms(2) by simp
  obtain y where y: "first_max pl_createdAt (filter ?Q (t_rows (db_point_logs d)) @ [?row]) = Some y"
    by (cases "first_max pl_createdAt (filter ?Q (t_rows (db_point_logs d)) @ [?row])") auto
  from first_max_Some [OF this] have "pl_createdAt ?row \<le> pl_createdAt y" "y = ?row \<or> y \<in> set (t_rows (db_point_logs d))"
    by auto
  then have "pl_createdAt y = now" using assms(1) by (auto intro: antisym)
  then show ?thesis unfolding last_logged_def sel y by simp
qed

lemma addBalance_settings [simp]: "db_settings (addBalance now sid steam name amt reason d) = db_settings d"
  by (simp add: addBalance_def log_points_def points_update_def points_insert_def split: option.split)

section \<open>Properties\<close>


text \<open>After a paid sign-in the next one pays nothing until the cooldown has passed.\<close>
theorem signin_once_per_cooldown:
  assumes "\<forall>l\<in>set (t_rows (db_point_logs (w_db w))). pl_createdAt l \<le> e_now e1"
    and "w_db (doSignIn e1 sid steam name1 reward1 w) \<noteq> w_db w"
    and "in_int (e_elapsed e2 (e_now e2) (e_now e1))"
    and "e_elapsed e2 (e_now e2) (e_now e1) < getSettingInt (w_db w) ''sign_in_cooldown'' 86400"
  shows "w_db (doSignIn e2 sid steam name2 reward2 (doSignIn e1 sid steam name1 reward1 w)) =
    w_db (doSignIn e1 sid steam name1 reward1 w)"
proof -
  have d: "w_db (doSignIn e1 sid steam name1 reward1 w) = addBalance (e_now e1) sid steam name1 reward1 txt_signin (w_db w)"
    using assms(2) by (auto simp: doSignIn_def Let_def split: option.splits if_splits)
  have "last_logged (w_db (doSignIn e1 sid steam name1 reward1 w)) sid steam (\<lambda>r. r = txt_signin) = Some (e_now e1)"
    unfolding d by (rule last_logged_add [OF assms(1)]) simp
  moreover have "getSettingInt (w_db (doSignIn e1 sid steam name1 reward1 w)) = getSettingInt (w_db w)"
    by (rule settings_frame) (simp add: d)
  moreover have "elapsed_since e2 (e_now e1) = e_elapsed e2 (e_now e2) (e_now e1)"
    using assms(3) by (simp add: elapsed_since_def safeStoi_def)
  ultimately show ?thesis
    using assms(4) by (simp add: doSignIn_def [of e2] Let_def)
qed

text \<open>Redeeming a reserved slot succeeds exactly when the player can pay and has no slot yet; it then
  takes the price and adds the slot, and otherwise the database is unchanged.\<close>
theorem redeem_exact:
  assumes "points_ok (w_db w)" "server_exists (w_db w) sid" "0 < cost"
  shows "if cost \<le> balance_of (w_db w) sid steam \<and> \<not> has_slot (w_db w) sid steam
    then has_slot (w_db (doRedeem e sid steam name cost w)) sid steam
      \<and> balance_of (w_db (doRedeem e sid steam name cost w)) sid steam = balance_of (w_db w) sid steam - cost
    else w_db (doRedeem e sid steam name cost w) = w_db w"
proof (cases "cost \<le> balance_of (w_db w) sid steam \<and> \<not> has_slot (w_db w) sid steam")
  case True
  let ?d1 = "addBalance (e_now e) sid steam name (- cost) [CHR 0xE5, CHR 0x85, CHR 0x91, CHR 0xE6, CHR 0x8D, CHR 0xA2, CHR 0xE9, CHR 0xA2, CHR 0x84, CHR 0xE7, CHR 0x95, CHR 0x99, CHR 0xE4, CHR 0xBD, CHR 0x8D] (w_db w)"
  let ?days = "getSettingInt ?d1 ''redeem_days'' 0"
  let ?until = "if ?days > 0 then sql_datetime (e_now e + ?days * 86400) else None"
  have m: "moved (w_db w) sid steam (- cost) ?d1"
    by (rule pay_moved) (use assms True in \<open>auto simp: cc_getBalance_ok\<close>)
  have r: "db_reserved ?d1 = db_reserved (w_db w)"
    by (simp add: addBalance_def log_points_def points_update_def points_insert_def split: option.split)
  have d: "w_db (doRedeem e sid steam name cost w) =
      reserved_insert (e_now e) sid steam name ([CHR 0xE7, CHR 0xB3, CHR 0xBB, CHR 0xE7, CHR 0xBB, CHR 0x9F] @ ''-'' @ [CHR 0xE5, CHR 0x8F, CHR 0xA3, CHR 0xE4, CHR 0xBB, CHR 0xA4]) ?until ?d1"
    using True assms(1) by (simp add: doRedeem_def Let_def cc_getBalance_ok)
  have "server_exists ?d1 sid" "\<not> has_slot ?d1 sid steam"
    using m assms(2) True r by (simp_all add: moved_def server_exists_def has_slot_def)
  then have "has_slot (w_db (doRedeem e sid steam name cost w)) sid steam"
    by (simp add: d reserved_insert_def has_slot_def)
  moreover have "moved (w_db w) sid steam (- cost) (w_db (doRedeem e sid steam name cost w))"
    unfolding d by (rule moved_frame [OF m]) simp_all
  then have "balance_of (w_db (doRedeem e sid steam name cost w)) sid steam = balance_of (w_db w) sid steam - cost"
    by (simp add: moved_def)
  ultimately show ?thesis using True by simp
next
  case False
  then show ?thesis using assms(1) by (auto simp: doRedeem_def Let_def cc_getBalance_ok)
qed

definition rich_db :: database where
  "rich_db = snd (addPoints 0 1 ''p'' ''n'' 60 ''r'' ''o'' demo_db)"

lemma rich_db: "points_ok rich_db" "server_exists rich_db 1" "balance_of rich_db 1 ''p'' = 60" "db_reserved rich_db = t_empty"
proof -
  have b: "balance_of demo_db 1 ''p'' = 0"
    by (simp add: balance_of_def demo_db_def empty_db_def t_empty_def)
  have m: "moved demo_db 1 ''p'' 60 rich_db"
    unfolding rich_db_def by (rule addPoints_moved(2) [OF demo_db_ok]) (simp_all add: b)
  then show "points_ok rich_db" "server_exists rich_db 1" "balance_of rich_db 1 ''p'' = 60"
    using b demo_db_ok(2) by (auto simp: moved_def server_exists_def)
  have "points_find demo_db 1 ''p'' = None"
    by (simp add: points_find_def t_select_def demo_db_def empty_db_def t_empty_def)
  then show "db_reserved rich_db = t_empty"
    by (simp add: rich_db_def addPoints_def log_points_def points_insert_def demo_db_ok(2) Let_def)
      (simp add: demo_db_def empty_db_def)
qed

theorem redeem_exact_witness: "has_slot (w_db (doRedeem (demo_env 0) 1 ''p'' ''n'' 50 (demo_world rich_db))) 1 ''p''"
  using redeem_exact [of "demo_world rich_db" 1 50 "''p''" "demo_env 0" "''n''"] rich_db
  by (simp add: has_slot_def)

lemma demo_settings: "db_settings demo_db = Map.empty" "db_point_logs demo_db = t_empty"
  by (simp_all add: demo_db_def empty_db_def)


theorem signin_once_per_cooldown_witness:
  "w_db (doSignIn (demo_env 10) 1 ''p'' ''n'' 5 (doSignIn (demo_env 0) 1 ''p'' ''n'' 5 (demo_world demo_db))) =
   w_db (doSignIn (demo_env 0) 1 ''p'' ''n'' 5 (demo_world demo_db))"
proof (rule signin_once_per_cooldown)
  have "last_logged demo_db 1 ''p'' (\<lambda>r. r = txt_signin) = None"
    by (simp add: last_logged_def demo_settings t_select_def)
  then have "w_db (doSignIn (demo_env 0) 1 ''p'' ''n'' 5 (demo_world demo_db)) = addBalance 0 1 ''p'' ''n'' 5 txt_signin demo_db"
    by (simp add: doSignIn_def Let_def demo_env_def)
  moreover have "length (t_rows (db_point_logs (addBalance 0 1 ''p'' ''n'' 5 txt_signin demo_db))) = 1"
    by (simp add: addBalance_def log_points_def points_update_def points_insert_def demo_settings split: option.split)
  ultimately show "w_db (doSignIn (demo_env 0) 1 ''p'' ''n'' 5 (demo_world demo_db)) \<noteq> w_db (demo_world demo_db)"
    by (auto simp: demo_settings)
qed (simp_all add: demo_settings demo_env_def getSettingInt_def)

end
