(* ===== verification/CdkRedeem.thy ===== *)
theory CdkRedeem
  imports ChatCommands
begin

text \<open>
  Activation codes: the plugin src/plugins/cdk_redeem_plugin.cpp. A chat message with the prefix and a
  code grants the reward of the code once per player, up to the number of uses of the code.
\<close>

section \<open>The handler (CDKRedeemPlugin::handle)\<close>

definition txt_cdk_operator :: string where
  "txt_cdk_operator = ([CHR 0xE7, CHR 0xB3, CHR 0xBB, CHR 0xE7, CHR 0xBB, CHR 0x9F] @ ''-CDK'')"

text \<open>The code in a message, \<open>None\<close> if the message lacks the prefix followed by a blank.\<close>

definition cdk_code_of :: "string \<Rightarrow> string \<Rightarrow> string option" where
  "cdk_code_of pfx msg =
     (let low = map to_lower msg; plow = map to_lower pfx in
      if \<not> starts_with (plow @ '' '') low \<and> \<not> starts_with (plow @ [CHR 0x09]) low then None
      else Some (map to_upper (rtrim is_blank (ltrim (\<lambda>c. c = CHR '' '' \<or> c = CHR 0x09) (drop (length pfx) msg)))))"

definition cdk_find :: "database \<Rightarrow> string \<Rightarrow> cdk_row option" where
  "cdk_find d code = t_first (\<lambda>r. ck_code r = code) (db_cdk d)"

definition cdk_used :: "database \<Rightarrow> string \<Rightarrow> string \<Rightarrow> bool" where
  "cdk_used d code steam = (\<exists>l\<in>set (t_rows (db_cdk_logs d)). cl_code l = code \<and> cl_steamId l = steam)"

text \<open>The checks, in order; \<open>Some\<close> is the message of the first that fails.\<close>

definition cdk_refuse :: "time \<Rightarrow> int \<Rightarrow> string \<Rightarrow> cdk_row \<Rightarrow> database \<Rightarrow> string option" where
  "cdk_refuse now sid steam cdk d =
     (if (case ck_expiresAt cdk of None \<Rightarrow> False | Some t \<Rightarrow> t < now) then Some [CHR 0xE8, CHR 0xAF, CHR 0xA5, CHR 0xE6, CHR 0xBF, CHR 0x80, CHR 0xE6, CHR 0xB4, CHR 0xBB, CHR 0xE7, CHR 0xA0, CHR 0x81, CHR 0xE5, CHR 0xB7, CHR 0xB2, CHR 0xE8, CHR 0xBF, CHR 0x87, CHR 0xE6, CHR 0x9C, CHR 0x9F]
      else if safeStoi (to_string (ck_usedCount cdk)) 0 \<ge> safeStoi (to_string (ck_maxUses cdk)) 0
        then Some [CHR 0xE8, CHR 0xAF, CHR 0xA5, CHR 0xE6, CHR 0xBF, CHR 0x80, CHR 0xE6, CHR 0xB4, CHR 0xBB, CHR 0xE7, CHR 0xA0, CHR 0x81, CHR 0xE5, CHR 0xB7, CHR 0xB2, CHR 0xE8, CHR 0xA2, CHR 0xAB, CHR 0xE4, CHR 0xBD, CHR 0xBF, CHR 0xE7, CHR 0x94, CHR 0xA8, CHR 0xE5, CHR 0xAE, CHR 0x8C, CHR 0xE6, CHR 0xAF, CHR 0x95]
      else if (case ck_serverId cdk of None \<Rightarrow> False | Some s \<Rightarrow> s \<noteq> 0 \<and> s \<noteq> sid)
        then Some [CHR 0xE8, CHR 0xAF, CHR 0xA5, CHR 0xE6, CHR 0xBF, CHR 0x80, CHR 0xE6, CHR 0xB4, CHR 0xBB, CHR 0xE7, CHR 0xA0, CHR 0x81, CHR 0xE4, CHR 0xB8, CHR 0x8D, CHR 0xE9, CHR 0x80, CHR 0x82, CHR 0xE7, CHR 0x94, CHR 0xA8, CHR 0xE4, CHR 0xBA, CHR 0x8E, CHR 0xE5, CHR 0xBD, CHR 0x93, CHR 0xE5, CHR 0x89, CHR 0x8D, CHR 0xE6, CHR 0x9C, CHR 0x8D, CHR 0xE5, CHR 0x8A, CHR 0xA1, CHR 0xE5, CHR 0x99, CHR 0xA8]
      else if cdk_used d (ck_code cdk) steam then Some [CHR 0xE4, CHR 0xBD, CHR 0xA0, CHR 0xE5, CHR 0xB7, CHR 0xB2, CHR 0xE7, CHR 0xBB, CHR 0x8F, CHR 0xE4, CHR 0xBD, CHR 0xBF, CHR 0xE7, CHR 0x94, CHR 0xA8, CHR 0xE8, CHR 0xBF, CHR 0x87, CHR 0xE8, CHR 0xAF, CHR 0xA5, CHR 0xE6, CHR 0xBF, CHR 0x80, CHR 0xE6, CHR 0xB4, CHR 0xBB, CHR 0xE7, CHR 0xA0, CHR 0x81, CHR 0xE4, CHR 0xBA, CHR 0x86]
      else None)"

definition cdk_reward :: "time \<Rightarrow> int \<Rightarrow> string \<Rightarrow> string \<Rightarrow> string \<Rightarrow> int \<Rightarrow> string \<Rightarrow> database \<Rightarrow> database" where
  "cdk_reward now sid steam name ty val code d =
     (if ty = ''points'' then
        log_points sid steam name val ((''CDK'' @ [CHR 0xE5, CHR 0x85, CHR 0x91, CHR 0xE6, CHR 0x8D, CHR 0xA2] @ '':'') @ code) txt_cdk_operator now
          (case points_find d sid steam of
             Some existing \<Rightarrow> points_update (p_id existing)
               (\<lambda>r. r\<lparr>p_balance := p_balance r + val, p_lifetimeEarned := p_lifetimeEarned r + val,
                      p_lastUpdated := now\<rparr>) d
           | None \<Rightarrow> points_insert sid steam name val val now d)
      else if ty = ''reserved'' then
        (if has_slot d sid steam then d
         else reserved_insert now sid steam name txt_cdk_operator
                (if val > 0 then sql_datetime (now + val * 86400) else None) d)
      else d)"

definition cdk_record :: "time \<Rightarrow> int \<Rightarrow> string \<Rightarrow> string \<Rightarrow> cdk_row \<Rightarrow> int \<Rightarrow> database \<Rightarrow> database" where
  "cdk_record now sid steam name cdk val d =
     d\<lparr>db_cdk := t_update (\<lambda>r. ck_id r = ck_id cdk) (\<lambda>r. r\<lparr>ck_usedCount := ck_usedCount r + 1\<rparr>) (db_cdk d),
       db_cdk_logs := t_insert (\<lambda>i. \<lparr>cl_id = i, cl_code = ck_code cdk, cl_serverId = sid, cl_steamId = steam,
           cl_playerName = name, cl_rewardType = ck_rewardType cdk, cl_rewardValue = val, cl_usedAt = now\<rparr>)
         (db_cdk_logs d)\<rparr>"

definition cdk_redeem :: "time \<Rightarrow> int \<Rightarrow> string \<Rightarrow> string \<Rightarrow> string \<Rightarrow> world \<Rightarrow> world" where
  "cdk_redeem now sid steam name code w =
     (if code = [] then w else
      case cdk_find (w_db w) code of
        None \<Rightarrow> warn sid steam [CHR 0xE6, CHR 0xBF, CHR 0x80, CHR 0xE6, CHR 0xB4, CHR 0xBB, CHR 0xE7, CHR 0xA0, CHR 0x81, CHR 0xE4, CHR 0xB8, CHR 0x8D, CHR 0xE5, CHR 0xAD, CHR 0x98, CHR 0xE5, CHR 0x9C, CHR 0xA8, CHR 0xE6, CHR 0x88, CHR 0x96, CHR 0xE5, CHR 0xB7, CHR 0xB2, CHR 0xE5, CHR 0xA4, CHR 0xB1, CHR 0xE6, CHR 0x95, CHR 0x88] w
      | Some cdk \<Rightarrow>
          (case cdk_refuse now sid steam cdk (w_db w) of
             Some msg \<Rightarrow> warn sid steam msg w
           | None \<Rightarrow>
               let val = safeStoi (to_string (ck_rewardValue cdk)) 0;
                   w1 = on_db (cdk_reward now sid steam name (ck_rewardType cdk) val code) w;
                   w2 = on_db (cdk_record now sid steam name cdk val) w1;
                   txt = (if ck_rewardType cdk = ''points'' then to_string val @ [CHR 0xE7, CHR 0xA7, CHR 0xAF, CHR 0xE5, CHR 0x88, CHR 0x86]
                          else ([CHR 0xE9, CHR 0xA2, CHR 0x84, CHR 0xE7, CHR 0x95, CHR 0x99, CHR 0xE4, CHR 0xBD, CHR 0x8D] @ ''('') @ to_string val @ ([CHR 0xE5, CHR 0xA4, CHR 0xA9] @ '')''))
               in warn sid steam (([CHR 0xE6, CHR 0xBF, CHR 0x80, CHR 0xE6, CHR 0xB4, CHR 0xBB, CHR 0xE7, CHR 0xA0, CHR 0x81, CHR 0xE5, CHR 0x85, CHR 0x91, CHR 0xE6, CHR 0x8D, CHR 0xA2, CHR 0xE6, CHR 0x88, CHR 0x90, CHR 0xE5, CHR 0x8A, CHR 0x9F, CHR 0xEF, CHR 0xBC, CHR 0x81, CHR 0xE8, CHR 0x8E, CHR 0xB7, CHR 0xE5, CHR 0xBE, CHR 0x97] @ '' '') @ txt) w2))"

definition CDKRedeem_handle :: "env \<Rightarrow> PluginEvent \<Rightarrow> world \<Rightarrow> world run" where
  "CDKRedeem_handle e ev w =
     (if ev_type ev \<noteq> ''chat'' then Ret w else
      if \<not> getSettingBool (w_db w) ''cdk_enabled'' False then Ret w else
      let pfx = getSetting (w_db w) ''cdk_prefix'' ''cdk'' in
      opt_run (value_str (ev_data ev) ''message'' []) (\<lambda>msg.
      opt_run (value_str (ev_data ev) ''steamId'' []) (\<lambda>steam.
      opt_run (value_str (ev_data ev) ''playerName'' []) (\<lambda>name.
      if msg = [] \<or> steam = [] then Ret w else
      case cdk_code_of pfx msg of
        None \<Rightarrow> Ret w
      | Some code \<Rightarrow> Ret (cdk_redeem (e_now e) (ev_serverId ev) steam name code w)))))"

section \<open>The state of the codes\<close>

text \<open>Codes are unique, their counters are integers within their limits and count the log rows, and no
  player appears twice for a code.\<close>

definition uses_of :: "database \<Rightarrow> string \<Rightarrow> nat" where
  "uses_of d code = length (filter (\<lambda>l. cl_code l = code) (t_rows (db_cdk_logs d)))"

definition cdk_ok :: "database \<Rightarrow> bool" where
  "cdk_ok d = (ids_ok ck_id (db_cdk d) \<and> distinct (map ck_code (t_rows (db_cdk d))) \<and>
     distinct (map (\<lambda>l. (cl_code l, cl_steamId l)) (t_rows (db_cdk_logs d))) \<and>
     (\<forall>r\<in>set (t_rows (db_cdk d)). in_int (ck_maxUses r) \<and> 0 \<le> ck_maxUses r \<and>
        ck_usedCount r \<le> ck_maxUses r \<and> ck_usedCount r = int (uses_of d (ck_code r))))"

lemma cdk_reward_frame [simp]:
  "db_cdk (cdk_reward now sid steam name ty val code d) = db_cdk d"
  "db_cdk_logs (cdk_reward now sid steam name ty val code d) = db_cdk_logs d"
  by (simp_all add: cdk_reward_def log_points_def points_update_def points_insert_def reserved_insert_def
      split: option.split)

lemma cdk_record_simps [simp]:
  "db_cdk (cdk_record now sid steam name cdk val d) =
     t_update (\<lambda>r. ck_id r = ck_id cdk) (\<lambda>r. r\<lparr>ck_usedCount := ck_usedCount r + 1\<rparr>) (db_cdk d)"
  "t_rows (db_cdk_logs (cdk_record now sid steam name cdk val d)) = t_rows (db_cdk_logs d) @
     [\<lparr>cl_id = t_seq (db_cdk_logs d) + 1, cl_code = ck_code cdk, cl_serverId = sid, cl_steamId = steam,
       cl_playerName = name, cl_rewardType = ck_rewardType cdk, cl_rewardValue = val, cl_usedAt = now\<rparr>]"
  by (simp_all add: cdk_record_def)

lemma cdk_ok_frame:
  "db_cdk d' = db_cdk d \<Longrightarrow> db_cdk_logs d' = db_cdk_logs d \<Longrightarrow> cdk_ok d' = cdk_ok d"
  by (simp add: cdk_ok_def uses_of_def)

lemma cdk_record_ok:
  assumes ok: "cdk_ok d" and cdk: "cdk \<in> set (t_rows (db_cdk d))"
    and room: "ck_usedCount cdk < ck_maxUses cdk" and fresh: "\<not> cdk_used d (ck_code cdk) steam"
  shows "cdk_ok (cdk_record now sid steam name cdk val d)"
proof -
  note o = ok [unfolded cdk_ok_def]
  let ?d = "cdk_record now sid steam name cdk val d"
  have uses: "uses_of ?d c = uses_of d c + (if c = ck_code cdk then 1 else 0)" for c
    by (simp add: uses_of_def)
  have same: "ck_id r = ck_id cdk \<longleftrightarrow> r = cdk" "ck_code r = ck_code cdk \<longleftrightarrow> r = cdk"
    if "r \<in> set (t_rows (db_cdk d))" for r
    using that cdk o ids_ok_unique [of ck_id "db_cdk d"] by (auto dest: keyed_eq)
  have "ids_ok ck_id (db_cdk ?d)"
    using o by (simp add: ids_ok_update)
  moreover have "map ck_code (t_rows (db_cdk ?d)) = map ck_code (t_rows (db_cdk d))"
    by simp
  then have "distinct (map ck_code (t_rows (db_cdk ?d)))"
    using o by (simp only:)
  moreover have "distinct (map (\<lambda>l. (cl_code l, cl_steamId l)) (t_rows (db_cdk_logs ?d)))"
    using o fresh by (auto simp: cdk_used_def image_iff)
  moreover have "\<forall>r\<in>set (t_rows (db_cdk ?d)). in_int (ck_maxUses r) \<and> 0 \<le> ck_maxUses r \<and>
        ck_usedCount r \<le> ck_maxUses r \<and> ck_usedCount r = int (uses_of ?d (ck_code r))"
    using o room same by (auto simp: uses)
  ultimately show ?thesis unfolding cdk_ok_def by blast
qed

lemma cdk_find_D: "cdk_find d code = Some cdk \<Longrightarrow> cdk \<in> set (t_rows (db_cdk d)) \<and> ck_code cdk = code"
  by (auto simp: cdk_find_def dest: t_first_Some)

lemma cdk_accept:
  assumes "cdk_ok d" "cdk \<in> set (t_rows (db_cdk d))" "cdk_refuse now sid steam cdk d = None"
  shows "ck_usedCount cdk < ck_maxUses cdk" "\<not> cdk_used d (ck_code cdk) steam"
proof -
  have "in_int (ck_maxUses cdk)" "in_int (ck_usedCount cdk)"
    using assms(1,2) by (fastforce simp: cdk_ok_def in_int_def)+
  then show "ck_usedCount cdk < ck_maxUses cdk" "\<not> cdk_used d (ck_code cdk) steam"
    using assms(3) by (auto simp: cdk_refuse_def safeStoi_def split: if_splits)
qed

lemma cdk_redeem_ok:
  assumes "cdk_ok (w_db w)" shows "cdk_ok (w_db (cdk_redeem now sid steam name code w))"
proof (cases "code \<noteq> [] \<and> (\<exists>cdk. cdk_find (w_db w) code = Some cdk \<and> cdk_refuse now sid steam cdk (w_db w) = None)")
  case True
  then obtain cdk where c: "cdk_find (w_db w) code = Some cdk" "cdk_refuse now sid steam cdk (w_db w) = None" "code \<noteq> []"
    by auto
  let ?val = "safeStoi (to_string (ck_rewardValue cdk)) 0"
  let ?d1 = "cdk_reward now sid steam name (ck_rewardType cdk) ?val code (w_db w)"
  note m = cdk_find_D [OF c(1)]
  have "cdk_ok ?d1" using assms cdk_ok_frame [of ?d1 "w_db w"] by simp
  moreover have "\<not> cdk_used ?d1 (ck_code cdk) steam"
    using cdk_accept(2) [OF assms conjunct1 [OF m] c(2)] by (simp add: cdk_used_def)
  ultimately have "cdk_ok (cdk_record now sid steam name cdk ?val ?d1)"
    using cdk_accept(1) [OF assms conjunct1 [OF m] c(2)] m by (intro cdk_record_ok) simp_all
  then show ?thesis using c by (simp add: cdk_redeem_def Let_def)
next
  case False
  then have "w_db (cdk_redeem now sid steam name code w) = w_db w"
    by (auto simp: cdk_redeem_def split: option.split)
  with assms show ?thesis by simp
qed

section \<open>Properties\<close>


text \<open>An accepted points code adds its value to the player's balance, and counts and logs one use.\<close>
theorem cdk_points_reward:
  assumes "points_ok (w_db w)" "cdk_ok (w_db w)" "server_exists (w_db w) sid" "code \<noteq> []"
    and "cdk_find (w_db w) code = Some cdk" "cdk_refuse now sid steam cdk (w_db w) = None"
    and "ck_rewardType cdk = ''points''" "in_int (ck_rewardValue cdk)"
    and "in_int (balance_of (w_db w) sid steam + ck_rewardValue cdk)"
  shows "balance_of (w_db (cdk_redeem now sid steam name code w)) sid steam = balance_of (w_db w) sid steam + ck_rewardValue cdk
    \<and> uses_of (w_db (cdk_redeem now sid steam name code w)) code = Suc (uses_of (w_db w) code)
    \<and> cdk_used (w_db (cdk_redeem now sid steam name code w)) code steam"
proof -
  let ?d1 = "cdk_reward now sid steam name ''points'' (ck_rewardValue cdk) code (w_db w)"
  have c: "ck_code cdk = code" using cdk_find_D [OF assms(5)] by simp
  have v: "safeStoi (to_string (ck_rewardValue cdk)) 0 = ck_rewardValue cdk"
    using assms(8) by (simp add: safeStoi_def)
  have d: "w_db (cdk_redeem now sid steam name code w) = cdk_record now sid steam name cdk (ck_rewardValue cdk) ?d1"
    using assms(4-7) v by (simp add: cdk_redeem_def Let_def)
  have m: "moved (w_db w) sid steam (ck_rewardValue cdk) ?d1"
  proof (cases "points_find (w_db w) sid steam")
    case None
    then show ?thesis
      using moved_by_insert [OF assms(1) None assms(3,8)] by (simp add: cdk_reward_def)
  next
    case (Some r)
    then show ?thesis
      by (auto simp: cdk_reward_def intro!: moved_by_update [OF assms(1) Some assms(9)])
  qed
  have "balance_of (cdk_record now sid steam name cdk (ck_rewardValue cdk) ?d1) sid steam = balance_of ?d1 sid steam"
    by (simp add: balance_of_def cdk_record_def)
  then show ?thesis
    using m unfolding d by (simp add: moved_def uses_of_def c cdk_used_def)
qed

definition demo_cdk :: "string \<Rightarrow> string \<Rightarrow> database \<Rightarrow> database" where
  "demo_cdk code ty d = d\<lparr>db_cdk := t_insert (\<lambda>i. \<lparr>ck_id = i, ck_code = code, ck_rewardType = ty,
     ck_rewardValue = 10, ck_serverId = None, ck_maxUses = 2, ck_usedCount = 0, ck_expiresAt = None,
     ck_createdAt = 0, ck_createdBy = ''a''\<rparr>) t_empty\<rparr>"

lemma demo_cdk_ok: "cdk_ok (demo_cdk code ty demo_db)"
  by (simp add: cdk_ok_def demo_cdk_def ids_ok_def uses_of_def t_insert_def t_empty_def demo_db_def empty_db_def)


theorem cdk_points_reward_witness:
  "balance_of (w_db (cdk_redeem 0 1 ''p'' ''n'' ''A1'' (demo_world (demo_cdk ''A1'' ''points'' demo_db)))) 1 ''p'' = 10"
proof -
  let ?d = "demo_cdk ''A1'' ''points'' demo_db"
  let ?c = "\<lparr>ck_id = 1, ck_code = ''A1'', ck_rewardType = ''points'',
     ck_rewardValue = 10, ck_serverId = None, ck_maxUses = 2, ck_usedCount = 0, ck_expiresAt = None,
     ck_createdAt = 0, ck_createdBy = ''a''\<rparr>"
  have f: "cdk_find ?d ''A1'' = Some ?c"
    by (simp add: cdk_find_def t_first_def demo_cdk_def t_empty_def)
  have r: "cdk_refuse 0 1 ''p'' ?c ?d = None"
    by (simp add: cdk_refuse_def cdk_used_def demo_cdk_def safeStoi_def demo_db_def empty_db_def t_empty_def)
  have p: "points_ok ?d" "server_exists ?d 1" "balance_of ?d 1 ''p'' = 0"
    using demo_db_ok by (simp_all add: demo_cdk_def points_ok_def server_exists_def balance_of_def)
      (simp add: demo_db_def empty_db_def t_empty_def)
  show ?thesis
    using cdk_points_reward [of "demo_world ?d" 1 "''A1''" ?c 0 "''p''" "''n''"] f r p demo_cdk_ok by simp
qed

end
