(* ===== verification/Plugins.thy ===== *)
theory Plugins
  imports TKForgive CdkRedeem
begin

text \<open>
  The remaining plugins of src/plugins (team balance, welcome, switch lock) and the dispatcher of
  \<open>PluginManager\<close>: every plugin sees every event, an exception of one does not stop the others. The
  contract the dispatcher needs is the locale \<open>plugin_contract\<close>.
\<close>

section \<open>Team balance (TeamBalancePlugin)\<close>

record MoveCandidate =
  mc_steamId :: string
  mc_name :: string
  mc_squadId :: string

fun tb_counts :: "json list \<Rightarrow> (int \<times> int) option" where
  "tb_counts [] = Some (0, 0)"
| "tb_counts (p # ps) =
     (case value_int p ''teamIndex'' 0 of
        None \<Rightarrow> None
      | Some tid \<Rightarrow>
          (case tb_counts ps of
             None \<Rightarrow> None
           | Some (a, b) \<Rightarrow> Some (if tid = 1 then (a + 1, b) else if tid = 2 then (a, b + 1) else (a, b))))"

definition has_squad :: "MoveCandidate \<Rightarrow> bool" where
  "has_squad c = (mc_squadId c \<noteq> [] \<and> mc_squadId c \<noteq> ''-1'' \<and> mc_squadId c \<noteq> ''N/A'')"

text \<open>The players of the bigger team, in list order, without those that lack a Steam id.\<close>

fun tb_collect :: "bool \<Rightarrow> json list \<Rightarrow> MoveCandidate list option" where
  "tb_collect first [] = Some []"
| "tb_collect first (p # ps) =
     (case value_int p ''teamIndex'' 0 of
        None \<Rightarrow> None
      | Some tid \<Rightarrow>
          if (first \<and> tid \<noteq> 1) \<or> (\<not> first \<and> tid \<noteq> 2) then tb_collect first ps
          else (case (value_str p ''steamId'' [], value_str p ''name'' [], value_str p ''squadId'' []) of
             (Some s, Some n, Some q) \<Rightarrow>
               map_option (\<lambda>cs. if s = [] then cs else \<lparr>mc_steamId = s, mc_name = n, mc_squadId = q\<rparr> # cs)
                 (tb_collect first ps)
           | _ \<Rightarrow> None))"

definition force_change :: "string \<Rightarrow> string" where
  "force_change steam = ''AdminForceTeamChange '' @ [CHR 0x22] @ steam @ [CHR 0x22]"

text \<open>One of the two loops: move candidates until \<open>toMove\<close> are moved.\<close>

fun tb_move :: "int \<Rightarrow> int \<Rightarrow> MoveCandidate list \<Rightarrow> int \<Rightarrow> world \<Rightarrow> int \<times> world" where
  "tb_move sid toMove [] n w = (n, w)"
| "tb_move sid toMove (c # cs) n w =
     (if toMove \<le> n then (n, w)
      else tb_move sid toMove cs (n + 1) (rcon_do sid (force_change (mc_steamId c)) w))"

definition TeamBalance_handle :: "env \<Rightarrow> PluginEvent \<Rightarrow> world \<Rightarrow> world run" where
  "TeamBalance_handle e ev w =
     (if ev_type ev \<noteq> ''playerlist'' then Ret w else
      if \<not> getSettingBool (w_db w) ''team_balance_enabled'' False then Ret w else
      let threshold = getSettingInt (w_db w) ''team_balance_threshold'' 3; sid = ev_serverId ev in
      case j_lookup (ev_data ev) ''players'' of
        Some (JArr players) \<Rightarrow>
          if length players < 4 then Ret w else
          opt_run (tb_counts players) (\<lambda>(team1, team2).
            let diff = \<bar>team1 - team2\<bar> in
            if diff < threshold then Ret w else
            let toMove = diff div 2 in
            opt_run (tb_collect (team1 > team2) players) (\<lambda>cs.
              let (n, w1) = tb_move sid toMove (filter (\<lambda>c. \<not> has_squad c) cs) 0 w;
                  (_, w2) = tb_move sid toMove (filter has_squad cs) n w1
              in Ret w2))
      | _ \<Rightarrow> Ret w)"

lemma tb_move_take:
  "0 \<le> toMove - n \<Longrightarrow> tb_move sid toMove cs n w =
     (n + int (min (nat (toMove - n)) (length cs)),
      w\<lparr>w_sent := w_sent w @ map (\<lambda>c. (sid, force_change (mc_steamId c))) (take (nat (toMove - n)) cs)\<rparr>)"
proof (induction cs arbitrary: n w)
  case Nil
  then show ?case by simp
next
  case (Cons c cs)
  show ?case
  proof (cases "toMove \<le> n")
    case True
    with Cons.prems show ?thesis by simp
  next
    case False
    then have k: "nat (toMove - n) = Suc (nat (toMove - (n + 1)))" by simp
    from False Cons.IH [of "n + 1" "rcon_do sid (force_change (mc_steamId c)) w"] show ?thesis
      by (simp add: k rcon_do_def)
  qed
qed

lemma tb_moves:
  assumes "0 \<le> toMove"
  shows "snd (tb_move sid toMove b (fst (tb_move sid toMove a 0 w)) (snd (tb_move sid toMove a 0 w))) =
    w\<lparr>w_sent := w_sent w @ map (\<lambda>c. (sid, force_change (mc_steamId c))) (take (nat toMove) (a @ b))\<rparr>"
proof -
  have "0 \<le> toMove - int (min (nat toMove) (length a))" using assms by simp
  moreover have "nat (toMove - int (min (nat toMove) (length a))) = nat toMove - length a"
    using assms by (simp add: min_def nat_diff_distrib)
  ultimately show ?thesis using assms by (simp add: tb_move_take)
qed

lemma tb_counts_count:
  "tb_counts ps = Some (a, b) \<Longrightarrow>
     a = int (length (filter (\<lambda>p. value_int p ''teamIndex'' 0 = Some 1) ps)) \<and>
     b = int (length (filter (\<lambda>p. value_int p ''teamIndex'' 0 = Some 2) ps))"
  by (induction ps arbitrary: a b) (auto split: option.splits if_splits)

lemma tb_collect_le:
  "tb_collect first ps = Some cs \<Longrightarrow>
     length cs \<le> length (filter (\<lambda>p. value_int p ''teamIndex'' 0 = Some (if first then 1 else 2)) ps)"
  by (induction ps arbitrary: cs) (auto split: option.splits if_splits)

section \<open>Welcome (WelcomePlugin)\<close>

definition player_tag :: string where
  "player_tag = ''{player}''"

text \<open>The replacement loop, which need not end: \<open>None\<close>.\<close>

partial_function (option) welcome_loop :: "string \<Rightarrow> string \<Rightarrow> string option" where
  "welcome_loop name msg =
     (case str_find player_tag msg of
        None \<Rightarrow> Some msg
      | Some i \<Rightarrow> welcome_loop name (str_replace i 8 name msg))"

definition Welcome_handle :: "env \<Rightarrow> PluginEvent \<Rightarrow> world \<Rightarrow> world run" where
  "Welcome_handle e ev w =
     (if ev_type ev \<noteq> ''join'' then Ret w else
      if \<not> getSettingBool (w_db w) ''welcome_enabled'' False then Ret w else
      opt_run (value_str (ev_data ev) ''steamId'' []) (\<lambda>steam.
      opt_run (value_str (ev_data ev) ''playerName'' []) (\<lambda>name.
      if steam = [] then Ret w else
      case welcome_loop (if name = [] then [CHR 0xE7, CHR 0x8E, CHR 0xA9, CHR 0xE5, CHR 0xAE, CHR 0xB6] else name)
          (getSetting (w_db w) ''welcome_message'' ([CHR 0xE6, CHR 0xAC, CHR 0xA2, CHR 0xE8, CHR 0xBF, CHR 0x8E] @ '' {player} '' @ [CHR 0xE5, CHR 0x8A, CHR 0xA0, CHR 0xE5, CHR 0x85, CHR 0xA5, CHR 0xE6, CHR 0x9C, CHR 0x8D, CHR 0xE5, CHR 0x8A, CHR 0xA1, CHR 0xE5, CHR 0x99, CHR 0xA8, CHR 0xEF, CHR 0xBC, CHR 0x81])) of
        None \<Rightarrow> Loop
      | Some msg \<Rightarrow> Ret (warn (ev_serverId ev) steam msg w))))"

lemma welcome_none:
  "welcome_loop name msg = Some r \<Longrightarrow> str_contains player_tag name \<longrightarrow> \<not> str_contains player_tag msg"
proof (rule welcome_loop.raw_induct [where P = "\<lambda>name msg (r :: string). str_contains player_tag name \<longrightarrow> \<not> str_contains player_tag msg"])
  fix f :: "string \<Rightarrow> string \<Rightarrow> string option" and name msg r :: string
  assume IH: "\<And>name msg r. f name msg = Some r \<Longrightarrow> str_contains player_tag name \<longrightarrow> \<not> str_contains player_tag msg"
    and r: "(case str_find player_tag msg of None \<Rightarrow> Some msg | Some i \<Rightarrow> f name (str_replace i 8 name msg)) = Some r"
  show "str_contains player_tag name \<longrightarrow> \<not> str_contains player_tag msg"
  proof (cases "str_find player_tag msg")
    case None
    then show ?thesis by (simp add: str_contains_def)
  next
    case (Some i)
    show ?thesis
    proof
      assume n: "str_contains player_tag name"
      then obtain u v where "name = u @ player_tag @ v" by (auto simp: str_contains_iff)
      then have "str_replace i 8 name msg = (take i msg @ u) @ player_tag @ (v @ drop (i + 8) msg)"
        by (simp add: str_replace_def)
      then have "str_contains player_tag (str_replace i 8 name msg)"
        unfolding str_contains_iff by blast
      with IH [of name "str_replace i 8 name msg" r] r Some n show "\<not> str_contains player_tag msg" by simp
    qed
  qed
qed

lemma welcome_returns:
  assumes "CHR ''{'' \<notin> set name"
  shows "\<exists>r. welcome_loop name msg = Some r \<and> \<not> str_contains player_tag r"
proof (induction "length (filter (\<lambda>c. c = CHR ''{'') msg)" arbitrary: msg rule: less_induct)
  case less
  show ?case
  proof (cases "str_find player_tag msg")
    case None
    then show ?thesis by (simp add: welcome_loop.simps [of name msg] str_contains_def)
  next
    case (Some i)
    have t: "length player_tag = 8" "length (filter (\<lambda>c. c = CHR ''{'') player_tag) = 1"
      by (simp_all add: player_tag_def)
    have m: "msg = take i msg @ player_tag @ drop (i + 8) msg"
      using str_find_SomeD [OF Some] by (simp only: t(1))
    have "length (filter (\<lambda>c. c = CHR ''{'') (str_replace i 8 name msg)) =
        length (filter (\<lambda>c. c = CHR ''{'') (take i msg)) + length (filter (\<lambda>c. c = CHR ''{'') (drop (i + 8) msg))"
      using assms by (auto simp: str_replace_def filter_empty_conv)
    also have "\<dots> < length (filter (\<lambda>c. c = CHR ''{'') msg)"
      using arg_cong [OF m, of "\<lambda>s. length (filter (\<lambda>c. c = CHR ''{'') s)"] by (simp add: t(2))
    finally obtain r where "welcome_loop name (str_replace i 8 name msg) = Some r" "\<not> str_contains player_tag r"
      using less by blast
    then show ?thesis using Some by (simp add: welcome_loop.simps [of name msg])
  qed
qed

section \<open>Switch lock (SwitchLockPlugin)\<close>

definition SwitchLock_handle :: "env \<Rightarrow> PluginEvent \<Rightarrow> world \<Rightarrow> world run" where
  "SwitchLock_handle e ev w =
     (if ev_type ev \<noteq> ''scramble'' \<or> ev_serverId ev = 0 then Ret w else
      let sid = ev_serverId ev; duration = getSettingInt (w_db w) ''switch_lock_minutes'' 20 in
      Ret (on_db (\<lambda>d. d\<lparr>db_locks :=
        t_insert (\<lambda>i. \<lparr>sl_id = i, sl_serverId = sid, sl_steamId = ''ALL'',
            sl_lockedUntil = sql_datetime (e_now e + duration * 60),
            sl_reason = ''scramble_lock_'' @ to_string sid, sl_createdAt = e_now e\<rparr>)
          (t_delete (\<lambda>r. sl_serverId r = sid) (db_locks d))\<rparr>) w))"

section \<open>The dispatcher (PluginManager::dispatch)\<close>

datatype plugin = CDKRedeem | ChatCommands | SwitchLock | TeamBalance | TKForgive | Welcome

definition handle :: "plugin \<Rightarrow> env \<Rightarrow> PluginEvent \<Rightarrow> world \<Rightarrow> world run" where
  "handle p = (case p of CDKRedeem \<Rightarrow> CDKRedeem_handle | ChatCommands \<Rightarrow> ChatCommands_handle
     | SwitchLock \<Rightarrow> SwitchLock_handle | TeamBalance \<Rightarrow> TeamBalance_handle
     | TKForgive \<Rightarrow> TKForgive_handle | Welcome \<Rightarrow> Welcome_handle)"

text \<open>The order of the static registrations is that of the link. No handler writes before its last
  access that can throw, so a throwing handler leaves the state as it was. \<open>None\<close>: dispatch hangs.\<close>

definition plugins :: "plugin list" where
  "plugins = [CDKRedeem, ChatCommands, SwitchLock, TeamBalance, TKForgive, Welcome]"

fun dispatch_to :: "('p \<Rightarrow> env \<Rightarrow> PluginEvent \<Rightarrow> world \<Rightarrow> world run) \<Rightarrow> 'p list \<Rightarrow> env \<Rightarrow> PluginEvent \<Rightarrow> world \<Rightarrow> world option" where
  "dispatch_to h [] e ev w = Some w"
| "dispatch_to h (p # ps) e ev w =
     (case h p e ev w of
        Ret w' \<Rightarrow> dispatch_to h ps e ev w'
      | Throw \<Rightarrow> dispatch_to h ps e ev w
      | Loop \<Rightarrow> None)"

definition dispatch :: "env \<Rightarrow> PluginEvent \<Rightarrow> world \<Rightarrow> world option" where
  "dispatch = dispatch_to handle plugins"

locale plugin_contract =
  fixes h :: "'p \<Rightarrow> env \<Rightarrow> PluginEvent \<Rightarrow> world \<Rightarrow> world run"
    and inv :: "world \<Rightarrow> bool"
    and admissible :: "PluginEvent \<Rightarrow> bool"
  assumes keeps: "inv w \<Longrightarrow> admissible ev \<Longrightarrow> h p e ev w = Ret w' \<Longrightarrow> inv w'"
begin

lemma dispatch_inv: "inv w \<Longrightarrow> admissible ev \<Longrightarrow> dispatch_to h ps e ev w = Some w' \<Longrightarrow> inv w'"
  by (induction ps arbitrary: w) (auto split: run.splits dest: keeps)

end

section \<open>What the plugins leave alone\<close>

lemma addBalance_frame [simp]:
  "db_tk (addBalance now sid steam name amt reason d) = db_tk d"
  "db_cdk (addBalance now sid steam name amt reason d) = db_cdk d"
  "db_cdk_logs (addBalance now sid steam name amt reason d) = db_cdk_logs d"
  by (simp_all add: addBalance_def log_points_def points_update_def points_insert_def split: option.split)

lemma slot_frame [simp]:
  "db_tk (reserved_insert now sid steam name who until d) = db_tk d"
  "db_cdk (reserved_insert now sid steam name who until d) = db_cdk d"
  "db_cdk_logs (reserved_insert now sid steam name who until d) = db_cdk_logs d"
  by (simp_all add: reserved_insert_def)

lemma cdk_tk [simp]:
  "db_tk (cdk_record now sid steam name cdk val d) = db_tk d"
  "db_tk (cdk_reward now sid steam name ty val code d) = db_tk d"
  by (simp_all add: cdk_record_def cdk_reward_def log_points_def points_update_def points_insert_def
      reserved_insert_def split: option.split)

lemma tk_cdk [simp]:
  "db_cdk (tk_mark_forgiven r d) = db_cdk d" "db_cdk_logs (tk_mark_forgiven r d) = db_cdk_logs d"
  "db_cdk (tk_insert now sid k kn v vn secs d) = db_cdk d" "db_cdk_logs (tk_insert now sid k kn v vn secs d) = db_cdk_logs d"
  by (simp_all add: tk_mark_forgiven_def tk_insert_def split: option.split)

text \<open>The tables of the team kills and of the codes.\<close>

definition side_tables :: "world \<Rightarrow> tk_row tbl \<times> cdk_row tbl \<times> cdk_log tbl" where
  "side_tables w = (db_tk (w_db w), db_cdk (w_db w), db_cdk_logs (w_db w))"

lemma side_tables_simps [simp]:
  "side_tables (warn sid steam msg w) = side_tables w" "side_tables (rcon_do sid cmd w) = side_tables w"
  by (simp_all add: side_tables_def)

lemma side_if: "side_tables a = x \<Longrightarrow> side_tables b = x \<Longrightarrow> side_tables (if c then a else b) = x"
  by simp

lemma side_commands:
  "side_tables (doSignIn e sid steam name r w) = side_tables w"
  "side_tables (doLottery e sid steam name w) = side_tables w"
  "side_tables (doQueryKd sid steam w) = side_tables w"
  "side_tables (doQueryPoints sid steam w) = side_tables w"
  "side_tables (doRedeem e sid steam name c w) = side_tables w"
  "side_tables (doSwitchTeam e sid steam name c w) = side_tables w"
  by (simp_all add: doSignIn_def doLottery_def doQueryKd_def doQueryPoints_def doRedeem_def doSwitchTeam_def
      Let_def case_prod_beta side_tables_def split: option.split)

lemma side_execute: "side_tables (cc_execute e cmd sid steam name w) = side_tables w"
  unfolding cc_execute_def by (intro side_if side_commands refl)

lemma side_chat: "ChatCommands_handle e ev w = Ret w' \<Longrightarrow> side_tables w' = side_tables w"
  by (auto simp: ChatCommands_handle_def opt_run_def side_execute split: option.splits if_splits)

lemma side_lock: "SwitchLock_handle e ev w = Ret w' \<Longrightarrow> side_tables w' = side_tables w"
  by (auto simp: SwitchLock_handle_def Let_def side_tables_def split: if_splits)

lemma tb_move_db: "w_db (snd (tb_move sid k cs n w)) = w_db w"
  by (induction sid k cs n w rule: tb_move.induct) auto

lemma db_balance: "TeamBalance_handle e ev w = Ret w' \<Longrightarrow> w_db w' = w_db w"
  by (auto simp: TeamBalance_handle_def opt_run_def Let_def case_prod_beta tb_move_db split: option.splits json.splits if_splits)

lemma db_welcome: "Welcome_handle e ev w = Ret w' \<Longrightarrow> w_db w' = w_db w"
  by (auto simp: Welcome_handle_def opt_run_def split: option.splits if_splits)

lemma cdk_redeem_tk: "db_tk (w_db (cdk_redeem now sid steam name code w)) = db_tk (w_db w)"
  by (simp add: cdk_redeem_def Let_def split: option.split)

lemma cdk_handle_tk: "CDKRedeem_handle e ev w = Ret w' \<Longrightarrow> db_tk (w_db w') = db_tk (w_db w)"
  by (auto simp: CDKRedeem_handle_def opt_run_def Let_def cdk_redeem_tk split: option.splits if_splits)

lemma forgive_cdk:
  "db_cdk (w_db (fold (tk_forgive_row sid steam) rs w)) = db_cdk (w_db w)"
  "db_cdk_logs (w_db (fold (tk_forgive_row sid steam) rs w)) = db_cdk_logs (w_db w)"
  by (induction rs arbitrary: w) (simp_all add: tk_forgive_row_def)

lemma tk_handle_cdk:
  assumes "TKForgive_handle e ev w = Ret w'"
  shows "db_cdk (w_db w') = db_cdk (w_db w)" "db_cdk_logs (w_db w') = db_cdk_logs (w_db w)"
  using assms
  by (auto simp: TKForgive_handle_def tk_handleKill_def tk_handleChat_def opt_run_def Let_def forgive_cdk
      split: option.splits if_splits)

lemma handle_keeps:
  assumes "tk_ok (w_db w) \<and> cdk_ok (w_db w)" "in_int (ev_serverId ev)" "handle p e ev w = Ret w'"
  shows "tk_ok (w_db w') \<and> cdk_ok (w_db w')"
proof -
  have tk: "tk_ok (w_db w')" if "db_tk (w_db w') = db_tk (w_db w)"
    using assms(1) that by (simp add: tk_ok_def)
  have cdk: "cdk_ok (w_db w')" if "db_cdk (w_db w') = db_cdk (w_db w)" "db_cdk_logs (w_db w') = db_cdk_logs (w_db w)"
    using assms(1) that cdk_ok_frame by blast
  show ?thesis
  proof (cases p)
    case CDKRedeem
    then have h: "CDKRedeem_handle e ev w = Ret w'" using assms(3) by (simp add: handle_def)
    have "w' = w \<or> (\<exists>now sid steam name code. w' = cdk_redeem now sid steam name code w)"
      using h by (auto simp: CDKRedeem_handle_def opt_run_def Let_def split: option.splits if_splits) blast
    with cdk_redeem_ok assms(1) have "cdk_ok (w_db w')" by auto
    with tk [OF cdk_handle_tk [OF h]] show ?thesis by simp
  next
    case ChatCommands
    with assms(3) have "side_tables w' = side_tables w" by (simp add: handle_def side_chat)
    then show ?thesis using tk cdk by (simp add: side_tables_def)
  next
    case SwitchLock
    with assms(3) have "side_tables w' = side_tables w" by (simp add: handle_def side_lock)
    then show ?thesis using tk cdk by (simp add: side_tables_def)
  next
    case TeamBalance
    with assms(3) have "w_db w' = w_db w" by (simp add: handle_def db_balance)
    then show ?thesis using assms(1) by simp
  next
    case TKForgive
    then have h: "TKForgive_handle e ev w = Ret w'" using assms(3) by (simp add: handle_def)
    from TKForgive_ok [OF conjunct1 [OF assms(1)] assms(2) h] cdk [OF tk_handle_cdk [OF h]]
    show ?thesis by (rule conjI)
  next
    case Welcome
    with assms(3) have "w_db w' = w_db w" by (simp add: handle_def db_welcome)
    then show ?thesis using assms(1) by simp
  qed
qed

interpretation all_plugins: plugin_contract handle "\<lambda>w. tk_ok (w_db w) \<and> cdk_ok (w_db w)" "\<lambda>ev. in_int (ev_serverId ev)"
  by unfold_locales (rule handle_keeps)

section \<open>Properties\<close>

text \<open>Dispatching any event to all plugins keeps the team-kill records exclusive and the codes within
  their limits, whichever plugins throw.\<close>
theorem dispatch_keeps:
  assumes "tk_ok (w_db w)" "cdk_ok (w_db w)" "in_int (ev_serverId ev)" "dispatch e ev w = Some w'"
  shows "tk_ok (w_db w') \<and> cdk_ok (w_db w')"
  by (rule all_plugins.dispatch_inv [of w ev plugins e]) (use assms in \<open>simp_all add: dispatch_def\<close>)

lemma silent_plugins:
  assumes "ev_type ev = ''scramble''"
  shows "dispatch e ev w = (case SwitchLock_handle e ev w of Ret w' \<Rightarrow> Some w' | Throw \<Rightarrow> Some w | Loop \<Rightarrow> None)"
  using assms by (simp add: dispatch_def plugins_def handle_def CDKRedeem_handle_def ChatCommands_handle_def
      TeamBalance_handle_def TKForgive_handle_def Welcome_handle_def split: run.split)

definition scramble_event :: PluginEvent where
  "scramble_event = \<lparr>ev_type = ''scramble'', ev_serverId = 1, ev_data = JObj []\<rparr>"

lemma empty_side: "tk_ok demo_db" "cdk_ok demo_db"
  by (simp_all add: tk_ok_def cdk_ok_def ids_ok_def demo_db_def empty_db_def t_empty_def)

theorem dispatch_keeps_witness:
  "\<exists>w'. dispatch (demo_env 0) scramble_event (demo_world demo_db) = Some w' \<and> tk_ok (w_db w')"
proof -
  have "\<exists>w'. dispatch (demo_env 0) scramble_event (demo_world demo_db) = Some w'"
    by (subst silent_plugins) (simp_all add: scramble_event_def SwitchLock_handle_def Let_def)
  then obtain w' where w: "dispatch (demo_env 0) scramble_event (demo_world demo_db) = Some w'" by (elim exE)
  have "tk_ok (w_db w')"
    using dispatch_keeps [OF _ _ _ w] empty_side by (simp add: scramble_event_def)
  with w show ?thesis by (intro exI conjI)
qed

text \<open>After a scramble exactly one switch lock is left for the server, for all players and the
  configured time, and the locks of other servers stay.\<close>
theorem scramble_lock_unique:
  assumes "ev_type ev = ''scramble''" "ev_serverId ev = sid" "sid \<noteq> 0"
  shows "\<exists>w'. dispatch e ev w = Some w' \<and>
    (\<exists>r. filter (\<lambda>r. sl_serverId r = sid) (t_rows (db_locks (w_db w'))) = [r] \<and> sl_steamId r = ''ALL'' \<and>
       sl_lockedUntil r = sql_datetime (e_now e + getSettingInt (w_db w) ''switch_lock_minutes'' 20 * 60)) \<and>
    filter (\<lambda>r. sl_serverId r \<noteq> sid) (t_rows (db_locks (w_db w'))) = filter (\<lambda>r. sl_serverId r \<noteq> sid) (t_rows (db_locks (w_db w)))"
  using assms by (simp add: silent_plugins SwitchLock_handle_def Let_def)

theorem scramble_lock_unique_witness:
  "\<exists>w'. dispatch (demo_env 7) scramble_event (demo_world demo_db) = Some w'"
  using scramble_lock_unique [of scramble_event 1 "demo_env 7" "demo_world demo_db"]
  by (auto simp: scramble_event_def)

text \<open>A rebalance moves players of the bigger team only, never more than half the difference and so
  never past equality, and moves players outside squads first.\<close>
theorem team_balance_moves:
  assumes "TeamBalance_handle e ev w = Ret w'" "j_lookup (ev_data ev) ''players'' = Some (JArr players)"
    and "tb_counts players = Some (team1, team2)" "tb_collect (team1 > team2) players = Some cs"
  shows "\<exists>n. w' = w\<lparr>w_sent := w_sent w @ map (\<lambda>c. (ev_serverId ev, force_change (mc_steamId c)))
      (take n (filter (\<lambda>c. \<not> has_squad c) cs @ filter has_squad cs))\<rparr>
    \<and> 2 * int n \<le> \<bar>team1 - team2\<bar> \<and> length cs \<le> nat (max team1 team2)"
proof -
  have len: "length cs \<le> nat (max team1 team2)"
    using tb_collect_le [OF assms(4)] tb_counts_count [OF assms(3)] by (auto split: if_splits)
  show ?thesis
  proof (cases "w' = w")
    case True
    then show ?thesis using len by (intro exI [of _ 0]) simp
  next
    case False
    let ?k = "\<bar>team1 - team2\<bar> div 2"
    have "w' = snd (tb_move (ev_serverId ev) ?k (filter has_squad cs)
        (fst (tb_move (ev_serverId ev) ?k (filter (\<lambda>c. \<not> has_squad c) cs) 0 w))
        (snd (tb_move (ev_serverId ev) ?k (filter (\<lambda>c. \<not> has_squad c) cs) 0 w)))"
      using assms False by (auto simp: TeamBalance_handle_def Let_def case_prod_beta split: if_splits)
    then show ?thesis using len by (intro exI [of _ "nat ?k"]) (simp add: tb_moves)
  qed
qed

definition player_json :: "string \<Rightarrow> int \<Rightarrow> json" where
  "player_json steam team = JObj [(''steamId'', JStr steam), (''teamIndex'', JInt team)]"

definition balance_event :: PluginEvent where
  "balance_event = \<lparr>ev_type = ''playerlist'', ev_serverId = 1, ev_data = JObj [(''players'',
     JArr (map (\<lambda>s. player_json s 1) [''a'', ''b'', ''c'', ''d'']))]\<rparr>"

theorem team_balance_moves_witness:
  "\<exists>n. 2 * int n \<le> 4 \<and> TeamBalance_handle (demo_env 0) balance_event
     (demo_world (demo_db\<lparr>db_settings := [''team_balance_enabled'' \<mapsto> ''1'']\<rparr>)) =
   Ret ((demo_world (demo_db\<lparr>db_settings := [''team_balance_enabled'' \<mapsto> ''1'']\<rparr>))\<lparr>w_sent :=
     map (\<lambda>s. (1, force_change s)) (take n [''a'', ''b'', ''c'', ''d''])\<rparr>)"
proof -
  let ?w = "demo_world (demo_db\<lparr>db_settings := [''team_balance_enabled'' \<mapsto> ''1'']\<rparr>)"
  let ?ps = "map (\<lambda>s. player_json s 1) [''a'', ''b'', ''c'', ''d'']"
  let ?cs = "map (\<lambda>s. \<lparr>mc_steamId = s, mc_name = [], mc_squadId = []\<rparr>) [''a'', ''b'', ''c'', ''d'']"
  have c: "tb_counts ?ps = Some (4, 0)" "tb_collect True ?ps = Some ?cs"
    by (simp_all add: player_json_def value_int_def)
  have l: "j_lookup (ev_data balance_event) ''players'' = Some (JArr ?ps)" by (simp add: balance_event_def)
  have "\<exists>w'. TeamBalance_handle (demo_env 0) balance_event ?w = Ret w'"
    unfolding TeamBalance_handle_def l by (simp add: c [simplified] case_prod_beta Let_def)
  then obtain w' where w: "TeamBalance_handle (demo_env 0) balance_event ?w = Ret w'" by (elim exE)
  have "tb_collect ((4::int) > 0) ?ps = Some ?cs" using c(2) by simp
  from team_balance_moves [OF w l c(1) this] obtain n where
    n: "w' = ?w\<lparr>w_sent := w_sent ?w @ map (\<lambda>c. (ev_serverId balance_event, force_change (mc_steamId c)))
      (take n (filter (\<lambda>c. \<not> has_squad c) ?cs @ filter has_squad ?cs))\<rparr>" "2 * int n \<le> \<bar>4 - 0\<bar>"
    by (elim exE conjE)
  have f: "filter (\<lambda>c. \<not> has_squad c) ?cs @ filter has_squad ?cs = ?cs" by (simp add: has_squad_def)
  have "w' = ?w\<lparr>w_sent := map (\<lambda>s. (1, force_change s)) (take n [''a'', ''b'', ''c'', ''d''])\<rparr>"
    by (simp only: n(1) f take_map map_map) (simp add: comp_def balance_event_def)
  then show ?thesis using n(2) w by (intro exI [of _ n] conjI) simp_all
qed

text \<open>C25: the welcome message is finished, with every placeholder replaced, whenever the player's name
  holds no brace; a player whose name contains the placeholder hangs the server thread.\<close>
theorem welcome_ends_or_hangs:
  "(CHR ''{'' \<notin> set name \<longrightarrow> (\<exists>r. welcome_loop name msg = Some r \<and> \<not> str_contains player_tag r))
   \<and> (str_contains player_tag name \<and> str_contains player_tag msg \<longrightarrow> welcome_loop name msg = None)"
  by (cases "welcome_loop name msg") (use welcome_returns [of name msg] welcome_none [of name msg] in auto)

theorem welcome_ends_or_hangs_witness:
  "welcome_loop ''{player}'' ''Hi {player}'' = None"
  using welcome_ends_or_hangs [of "''{player}''" "''Hi {player}''"]
  by (simp add: str_contains_def player_tag_def)

end
