(* ===== verification/Rcon.thy ===== *)
theory Rcon
  imports World "HOL-Library.Word"
begin

text \<open>
  The RCON client and its pool (net/rcon.cpp). A socket delivers a list of arrivals: bytes, silences that
  outlast the timeout of the poll that meets them, and the end of the stream; a list that has run out is a
  peer that stays silent for ever. \<open>poll\<close> waits for the first byte only, \<open>recv\<close> with \<open>MSG_WAITALL\<close>
  waits for all of them, so a read may never return (\<open>Loop\<close>). What a peer sends is a function of the
  frames it was sent on this connection.
\<close>

section \<open>Packets and frames\<close>

record Packet =
  pk_id :: "32 word"
  pk_type :: "32 word"
  pk_body :: string

definition RCON_EXEC_COMMAND :: "32 word" where "RCON_EXEC_COMMAND = 2"
definition RCON_AUTH :: "32 word" where "RCON_AUTH = 3"

definition le32 :: "32 word \<Rightarrow> string" where
  "le32 w = (let n = unat w in [char_of n, char_of (n div 256), char_of (n div 65536), char_of (n div 16777216)])"

definition of_le32 :: "string \<Rightarrow> 32 word" where
  "of_le32 bs = of_nat (byte_of (bs ! 0) + 256 * byte_of (bs ! 1) + 65536 * byte_of (bs ! 2) + 16777216 * byte_of (bs ! 3))"

definition frame :: "Packet \<Rightarrow> string" where
  "frame pkt =
     (let bodyLen = of_nat (length (pk_body pkt)) :: 32 word; sz = 4 + 4 + bodyLen + 1 + 1
      in le32 sz @ le32 (pk_id pkt) @ le32 (pk_type pkt) @ pk_body pkt @ [CHR 0x00, CHR 0x00])"

section \<open>The socket\<close>

datatype arrival = Byte char | Gap | Eof

fun poll_in :: "arrival list \<Rightarrow> bool \<times> arrival list" where
  "poll_in [] = (False, [])"
| "poll_in (Gap # as) = (False, as)"
| "poll_in (a # as) = (True, a # as)"

text \<open>\<open>recv(\<dots>, n, MSG_WAITALL)\<close>: the bytes read before the stream ends, \<open>None\<close> when it blocks for ever.\<close>

fun recv_all :: "nat \<Rightarrow> arrival list \<Rightarrow> (string \<times> arrival list) option" where
  "recv_all 0 as = Some ([], as)"
| "recv_all (Suc n) [] = None"
| "recv_all (Suc n) (Byte c # as) = map_option (\<lambda>(s, r). (c # s, r)) (recv_all n as)"
| "recv_all (Suc n) (Gap # as) = recv_all (Suc n) as"
| "recv_all (Suc n) (Eof # as) = Some ([], Eof # as)"

definition decode_packet :: "nat \<Rightarrow> string \<Rightarrow> Packet" where
  "decode_packet sz buf = \<lparr>pk_id = of_le32 (take 4 buf), pk_type = of_le32 (take 4 (drop 4 buf)),
     pk_body = take (sz - 8 - 2) (drop 8 buf)\<rparr>"

definition recv_arrivals :: "arrival list \<Rightarrow> (Packet option \<times> arrival list) run" where
  "recv_arrivals as =
     (case poll_in as of
        (False, as1) \<Rightarrow> Ret (None, as1)
      | (True, as1) \<Rightarrow>
          (case recv_all 4 as1 of
             None \<Rightarrow> Loop
           | Some (hdr, as2) \<Rightarrow>
               let sz = unat (of_le32 hdr) in
               if length hdr \<noteq> 4 \<or> sz < 10 \<or> sz > 65536 then Ret (None, as2)
               else (case poll_in as2 of
                       (False, as3) \<Rightarrow> Ret (None, as3)
                     | (True, as3) \<Rightarrow>
                         (case recv_all sz as3 of
                            None \<Rightarrow> Loop
                          | Some (buf, as4) \<Rightarrow>
                              if length buf \<noteq> sz then Ret (None, as4)
                              else Ret (Some (decode_packet sz buf), as4)))))"

text \<open>How one connection of a peer behaves: which sends the kernel takes whole and what arrives after
  each, both given the frames so far. A connection attempt fails in one of five ways or opens.\<close>

record script =
  sc_sends :: "string list \<Rightarrow> bool"
  sc_reply :: "string list \<Rightarrow> arrival list"

datatype outcome = Unresolved | NoSocket | Refused | ConnectTimeout | SocketError | Open script

record RconClient =
  rc_host :: string
  rc_port :: int
  rc_password :: string
  rc_sock :: "(script \<times> string list \<times> arrival list) option"
  rc_connected :: bool
  rc_nextId :: "32 word"

definition new_client :: "string \<Rightarrow> int \<Rightarrow> string \<Rightarrow> RconClient" where
  "new_client host port pass = \<lparr>rc_host = host, rc_port = port, rc_password = pass, rc_sock = None,
     rc_connected = False, rc_nextId = 1\<rparr>"

definition disconnect :: "RconClient \<Rightarrow> RconClient" where
  "disconnect c = c\<lparr>rc_sock := None, rc_connected := False\<rparr>"

definition sendPacket :: "Packet \<Rightarrow> RconClient \<Rightarrow> bool \<times> RconClient" where
  "sendPacket pkt c =
     (case rc_sock c of
        None \<Rightarrow> (False, c\<lparr>rc_connected := False\<rparr>)
      | Some (s, out, inp) \<Rightarrow>
          if sc_sends s (out @ [frame pkt])
          then (True, c\<lparr>rc_sock := Some (s, out @ [frame pkt], inp @ sc_reply s (out @ [frame pkt]))\<rparr>)
          else (False, c\<lparr>rc_connected := False\<rparr>))"

definition recvPacket :: "RconClient \<Rightarrow> (Packet option \<times> RconClient) run" where
  "recvPacket c =
     (case rc_sock c of
        None \<Rightarrow> Ret (None, c)
      | Some (s, out, inp) \<Rightarrow>
          (case recv_arrivals inp of
             Ret (p, inp') \<Rightarrow> Ret (p, c\<lparr>rc_sock := Some (s, out, inp')\<rparr>)
           | Throw \<Rightarrow> Throw
           | Loop \<Rightarrow> Loop))"

section \<open>The client\<close>

text \<open>The network: the outcome of the \<open>n\<close>-th connection attempt of the process, to a host and port. A
  run carries the number of attempts so far.\<close>

type_synonym network = "nat \<Rightarrow> string \<Rightarrow> int \<Rightarrow> outcome"

definition run_bind :: "'a run \<Rightarrow> ('a \<Rightarrow> 'b run) \<Rightarrow> 'b run" where
  "run_bind m f = (case m of Ret a \<Rightarrow> f a | Throw \<Rightarrow> Throw | Loop \<Rightarrow> Loop)"

lemma run_bind_simps [simp]:
  "run_bind (Ret a) f = f a" "run_bind Throw f = Throw" "run_bind Loop f = Loop"
  by (simp_all add: run_bind_def)

lemma run_bind_Ret: "run_bind m f = Ret b \<longleftrightarrow> (\<exists>a. m = Ret a \<and> f a = Ret b)"
  by (cases m) simp_all

definition next_id :: "RconClient \<Rightarrow> 32 word \<times> RconClient" where
  "next_id c = (rc_nextId c, c\<lparr>rc_nextId := rc_nextId c + 1\<rparr>)"

definition closed :: "RconClient \<Rightarrow> RconClient" where
  "closed c = c\<lparr>rc_sock := None\<rparr>"

definition authenticate :: "RconClient \<Rightarrow> (bool \<times> RconClient) run" where
  "authenticate c0 =
     (let (i, c1) = next_id c0;
          (ok, c2) = sendPacket \<lparr>pk_id = i, pk_type = RCON_AUTH, pk_body = rc_password c1\<rparr> c1
      in if \<not> ok then Ret (False, closed c2)
         else run_bind (recvPacket c2) (\<lambda>(resp1, c3).
           if resp1 = None then Ret (False, closed c3)
           else run_bind (recvPacket c3) (\<lambda>(resp2, c4).
             case resp2 of
               None \<Rightarrow> Ret (False, closed c4)
             | Some p \<Rightarrow> if pk_id p = - 1 then Ret (False, closed c4)
                         else Ret (True, c4\<lparr>rc_connected := True\<rparr>))))"

definition connectInternal :: "network \<Rightarrow> RconClient \<times> nat \<Rightarrow> (bool \<times> RconClient \<times> nat) run" where
  "connectInternal net cn =
     (let (c, n) = cn; c0 = disconnect c
      in case net n (rc_host c) (rc_port c) of
           Open s \<Rightarrow> run_bind (authenticate (c0\<lparr>rc_sock := Some (s, [], sc_reply s [])\<rparr>))
                       (\<lambda>(ok, c'). Ret (ok, c', n + 1))
         | _ \<Rightarrow> Ret (False, c0, n + 1))"

definition rc_connect :: "network \<Rightarrow> RconClient \<times> nat \<Rightarrow> (bool \<times> RconClient \<times> nat) run" where
  "rc_connect net cn = (if rc_connected (fst cn) then Ret (True, cn) else connectInternal net cn)"

text \<open>The receive loop: at most \<open>k\<close> packets, until the terminator's id.\<close>

fun collect :: "nat \<Rightarrow> 32 word \<Rightarrow> 32 word \<Rightarrow> string \<Rightarrow> RconClient \<Rightarrow> (string \<times> RconClient) run" where
  "collect 0 cmdId termId response c = Ret (response, c)"
| "collect (Suc k) cmdId termId response c =
     run_bind (recvPacket c) (\<lambda>(pkt, c').
       case pkt of
         None \<Rightarrow> Ret (response, c'\<lparr>rc_connected := False\<rparr>)
       | Some p \<Rightarrow>
           if pk_id p = termId then Ret (response, c')
           else collect k cmdId termId (if pk_id p = cmdId then response @ pk_body p else response) c')"

definition exchange :: "string \<Rightarrow> RconClient \<Rightarrow> (string \<times> RconClient) run" where
  "exchange cmd c =
     (let (cmdId, c1) = next_id c; (termId, c2) = next_id c1;
          (ok1, c3) = sendPacket \<lparr>pk_id = cmdId, pk_type = RCON_EXEC_COMMAND, pk_body = cmd\<rparr> c2
      in if \<not> ok1 then Ret ([], c3\<lparr>rc_connected := False\<rparr>)
         else let (ok2, c4) = sendPacket \<lparr>pk_id = termId, pk_type = RCON_EXEC_COMMAND, pk_body = []\<rparr> c3
              in if \<not> ok2 then Ret ([], c4\<lparr>rc_connected := False\<rparr>)
                 else collect 64 cmdId termId [] c4)"

definition execute :: "network \<Rightarrow> string \<Rightarrow> RconClient \<times> nat \<Rightarrow> (string \<times> RconClient \<times> nat) run" where
  "execute net cmd cn =
     (let (c, n) = cn
      in run_bind (if \<not> rc_connected c \<or> rc_sock c = None then connectInternal net cn else Ret (True, c, n))
        (\<lambda>(ok, c1, n1).
           if \<not> ok then Ret ([], c1, n1)
           else run_bind (exchange cmd c1) (\<lambda>(r, c2). Ret (r, c2, n1))))"

fun ping_loop :: "nat \<Rightarrow> 32 word \<Rightarrow> RconClient \<Rightarrow> (bool \<times> RconClient) run" where
  "ping_loop 0 termId c = Ret (True, c)"
| "ping_loop (Suc k) termId c =
     run_bind (recvPacket c) (\<lambda>(pkt, c').
       case pkt of
         None \<Rightarrow> Ret (False, c'\<lparr>rc_connected := False\<rparr>)
       | Some p \<Rightarrow> if pk_id p = termId then Ret (True, c') else ping_loop k termId c')"

definition ping :: "RconClient \<Rightarrow> (bool \<times> RconClient) run" where
  "ping c =
     (if \<not> rc_connected c \<or> rc_sock c = None then Ret (False, c)
      else
        let (cmdId, c1) = next_id c; (termId, c2) = next_id c1;
            (ok1, c3) = sendPacket \<lparr>pk_id = cmdId, pk_type = RCON_EXEC_COMMAND, pk_body = []\<rparr> c2
        in if \<not> ok1 then Ret (False, c3\<lparr>rc_connected := False\<rparr>)
           else let (ok2, c4) = sendPacket \<lparr>pk_id = termId, pk_type = RCON_EXEC_COMMAND, pk_body = []\<rparr> c3
                in if \<not> ok2 then Ret (False, c4\<lparr>rc_connected := False\<rparr>)
                   else ping_loop 4 termId c4)"

section \<open>The pool\<close>

text \<open>The clients by server id, in the map's iteration order; the lock makes every operation atomic.\<close>

record RconPool =
  po_clients :: "(int \<times> RconClient) list"
  po_tries :: nat

definition po_erase :: "int \<Rightarrow> RconPool \<Rightarrow> RconPool" where
  "po_erase sid p = p\<lparr>po_clients := filter (\<lambda>(i, _). i \<noteq> sid) (po_clients p)\<rparr>"

definition po_put :: "int \<Rightarrow> RconClient \<Rightarrow> RconPool \<Rightarrow> RconPool" where
  "po_put sid c p = p\<lparr>po_clients := (sid, c) # filter (\<lambda>(i, _). i \<noteq> sid) (po_clients p)\<rparr>"

definition getOrCreate :: "network \<Rightarrow> database \<Rightarrow> int \<Rightarrow> nat \<Rightarrow> (RconClient option \<times> nat) run" where
  "getOrCreate net d sid n =
     (case t_first (\<lambda>r. sv_id r = sid) (db_servers d) of
        None \<Rightarrow> Ret (None, n)
      | Some row \<Rightarrow>
          if sv_host row = [] \<or> sv_rconPassword row = [] then Ret (None, n)
          else (case stoi (to_string (sv_rconPort row)) of
                  Inl _ \<Rightarrow> Throw
                | Inr port \<Rightarrow>
                    run_bind (rc_connect net (new_client (sv_host row) port (sv_rconPassword row), n))
                      (\<lambda>(ok, c, n'). Ret (if ok then Some c else None, n'))))"

definition send_new :: "network \<Rightarrow> database \<Rightarrow> int \<Rightarrow> string \<Rightarrow> RconPool \<Rightarrow> (string \<times> RconPool) run" where
  "send_new net d sid cmd p =
     run_bind (getOrCreate net d sid (po_tries p)) (\<lambda>(co, n).
       case co of
         None \<Rightarrow> Ret ([], p\<lparr>po_tries := n\<rparr>)
       | Some c \<Rightarrow> run_bind (execute net cmd (c, n)) (\<lambda>(r, c', n').
           Ret (r, (po_put sid c' p)\<lparr>po_tries := n'\<rparr>)))"

definition po_send :: "network \<Rightarrow> database \<Rightarrow> int \<Rightarrow> string \<Rightarrow> RconPool \<Rightarrow> (string \<times> RconPool) run" where
  "po_send net d sid cmd p =
     (case map_of (po_clients p) sid of
        Some c \<Rightarrow>
          if rc_connected c then
            run_bind (execute net cmd (c, po_tries p)) (\<lambda>(result, c', n).
              if result \<noteq> [] \<or> rc_connected c' then Ret (result, (po_put sid c' p)\<lparr>po_tries := n\<rparr>)
              else send_new net d sid cmd ((po_erase sid p)\<lparr>po_tries := n\<rparr>))
          else send_new net d sid cmd p
      | None \<Rightarrow> send_new net d sid cmd p)"

definition po_test :: "network \<Rightarrow> database \<Rightarrow> int \<Rightarrow> RconPool \<Rightarrow> (string \<times> RconPool) run" where
  "po_test net d sid p = send_new net d sid ''ListPlayers'' (po_erase sid p)"

definition po_remove :: "int \<Rightarrow> RconPool \<Rightarrow> RconPool" where
  "po_remove sid p = po_erase sid p"

definition po_clear :: "RconPool \<Rightarrow> RconPool" where
  "po_clear p = p\<lparr>po_clients := []\<rparr>"

fun ping_all :: "(int \<times> RconClient) list \<Rightarrow> ((int \<times> RconClient) list \<times> int list) run" where
  "ping_all [] = Ret ([], [])"
| "ping_all ((sid, c) # cs) =
     run_bind (ping c) (\<lambda>(ok, c').
       run_bind (ping_all cs) (\<lambda>(cs', dead).
         Ret ((sid, c') # cs', if ok then dead else sid # dead)))"

definition healthCheck :: "RconPool \<Rightarrow> RconPool run" where
  "healthCheck p =
     run_bind (ping_all (po_clients p)) (\<lambda>(cs, dead).
       Ret (fold po_erase dead (p\<lparr>po_clients := cs\<rparr>)))"


section \<open>Frames\<close>

lemma of_le32_le32 [simp]: "of_le32 (le32 w) = w"
proof -
  have "unat w < 2 ^ LENGTH(32)" by (rule unsigned_less)
  then have "unat w < 4294967296" by simp
  then have top: "unat w div 16777216 = unat w div 256 div 256 div 256"
    by (simp add: div_mult2_eq [symmetric] less_mult_imp_div_less)
  have digits: "unat w div 65536 = unat w div 256 div 256" by (simp add: div_mult2_eq [symmetric])
  have "unat w mod 256 + 256 * (unat w div 256 mod 256) + 65536 * (unat w div 65536 mod 256) +
      16777216 * (unat w div 16777216) = unat w"
    unfolding top digits
    using div_mult_mod_eq [of "unat w" 256] div_mult_mod_eq [of "unat w div 256" 256]
      div_mult_mod_eq [of "unat w div 256 div 256" 256] by linarith
  moreover have "unat w div 16777216 mod 256 = unat w div 16777216"
    using \<open>unat w < 4294967296\<close> by (simp add: less_mult_imp_div_less)
  ultimately show ?thesis by (simp add: of_le32_def le32_def Let_def byte_of_def flip: of_nat_mult of_nat_add)
qed

lemma length_le32 [simp]: "length (le32 w) = 4"
  by (simp add: le32_def Let_def)

lemma recv_all_bytes: "recv_all (length s) (map Byte s @ r) = Some (s, r)"
  by (induction s) simp_all

definition fits :: "Packet \<Rightarrow> bool" where
  "fits p = (length (pk_body p) \<le> 65526)"

definition stream :: "Packet list \<Rightarrow> arrival list" where
  "stream ps = map Byte (concat (map frame ps))"

lemma stream_simps [simp]: "stream [] = []" "stream (p # ps) = map Byte (frame p) @ stream ps"
  by (simp_all add: stream_def)

lemma poll_in_bytes: "s \<noteq> [] \<Longrightarrow> poll_in (map Byte s @ r) = (True, map Byte s @ r)"
  by (cases s) simp_all

lemma frame_parse:
  assumes "fits p"
  shows "recv_arrivals (map Byte (frame p) @ r) = Ret (Some p, r)"
proof -
  let ?n = "length (pk_body p) + 10"
  let ?sz = "of_nat ?n :: 32 word"
  let ?rest = "le32 (pk_id p) @ le32 (pk_type p) @ pk_body p @ [CHR 0x00, CHR 0x00]"
  have f: "frame p = le32 ?sz @ ?rest"
    by (simp add: frame_def Let_def algebra_simps)
  have n: "unat ?sz = ?n" "?n \<le> 65536"
    using assms by (simp_all only: fits_def unat_of_nat) simp_all
  have hdr: "recv_all 4 (map Byte (le32 ?sz) @ map Byte ?rest @ r) = Some (le32 ?sz, map Byte ?rest @ r)"
    using recv_all_bytes [of "le32 ?sz" "map Byte ?rest @ r"] by simp
  have body: "recv_all ?n (map Byte ?rest @ r) = Some (?rest, r)"
    using recv_all_bytes [of ?rest r] by (simp add: add.commute)
  have p1: "poll_in (map Byte (le32 ?sz) @ map Byte ?rest @ r) = (True, map Byte (le32 ?sz) @ map Byte ?rest @ r)"
    by (rule poll_in_bytes) (simp add: le32_def Let_def)
  have p2: "poll_in (map Byte ?rest @ r) = (True, map Byte ?rest @ r)"
    by (rule poll_in_bytes) (simp add: le32_def Let_def)
  have d: "decode_packet ?n ?rest = p" by (simp add: decode_packet_def)
  show ?thesis
    unfolding f map_append [of Byte "le32 ?sz"] append_assoc recv_arrivals_def p1 prod.case bool.case hdr option.case
      of_le32_le32 n(1) Let_def
    using n(2) by (simp only: p2 prod.case bool.case body option.case d) simp
qed

definition parse_frame :: "arrival list \<Rightarrow> (Packet \<times> arrival list) option" where
  "parse_frame as = (case recv_arrivals as of Ret (Some p, r) \<Rightarrow> Some (p, r) | _ \<Rightarrow> None)"

interpretation rcon_frames: frame_codec "\<lambda>p. map Byte (frame p)" parse_frame fits
  by unfold_locales (simp add: parse_frame_def frame_parse)

section \<open>Reading a connection\<close>

text \<open>A client whose socket holds these arrivals.\<close>

definition reading :: "RconClient \<Rightarrow> script \<Rightarrow> string list \<Rightarrow> arrival list \<Rightarrow> RconClient" where
  "reading c s out as = c\<lparr>rc_sock := Some (s, out, as)\<rparr>"

lemma recvPacket_stream:
  "fits p \<Longrightarrow> recvPacket (reading c s out (stream (p # ps) @ r)) = Ret (Some p, reading c s out (stream ps @ r))"
  by (simp add: recvPacket_def reading_def frame_parse)

lemma collect_stream:
  assumes "list_all fits (ps @ [t])" "list_all (\<lambda>p. pk_id p \<noteq> termId) ps" "pk_id t = termId" "length ps < k"
  shows "collect k cmdId termId resp (reading c s out (stream (ps @ [t]) @ r)) =
    Ret (resp @ concat (map pk_body (filter (\<lambda>p. pk_id p = cmdId) ps)), reading c s out r)"
  using assms
proof (induction ps arbitrary: k resp)
  case Nil
  then obtain k' where "k = Suc k'" by (cases k) auto
  then show ?case using Nil recvPacket_stream [of t c s out "[]" r] by simp
next
  case (Cons p ps)
  then obtain k' where "k = Suc k'" by (cases k) auto
  then show ?case using Cons recvPacket_stream [of p c s out "ps @ [t]" r] by (simp del: stream_simps)
qed

text \<open>Nothing but packets that carry the command's own id gets into a response.\<close>

fun received :: "nat \<Rightarrow> RconClient \<Rightarrow> Packet list" where
  "received 0 c = []"
| "received (Suc k) c = (case recvPacket c of Ret (Some p, c') \<Rightarrow> p # received k c' | _ \<Rightarrow> [])"

lemma collect_own:
  "collect k cmdId termId resp c = Ret (r, c') \<Longrightarrow>
     \<exists>n\<le>k. r = resp @ concat (map pk_body (filter (\<lambda>p. pk_id p = cmdId) (take n (received k c))))"
proof (induction k arbitrary: resp c)
  case 0
  then show ?case by simp
next
  case (Suc k)
  from Suc.prems obtain pkt c1 where p: "recvPacket c = Ret (pkt, c1)" by (auto simp: run_bind_Ret)
  show ?case
  proof (cases "pkt = None \<or> (\<exists>q. pkt = Some q \<and> pk_id q = termId)")
    case True
    then show ?thesis using Suc.prems p by (intro exI [of _ 0]) auto
  next
    case False
    then obtain q where q: "pkt = Some q" "pk_id q \<noteq> termId" by auto
    with Suc.prems p have "collect k cmdId termId (if pk_id q = cmdId then resp @ pk_body q else resp) c1 = Ret (r, c')" by simp
    from Suc.IH [OF this] obtain n where "n \<le> k" "r = (if pk_id q = cmdId then resp @ pk_body q else resp) @
        concat (map pk_body (filter (\<lambda>p. pk_id p = cmdId) (take n (received k c1))))" by auto
    then show ?thesis using p q by (intro exI [of _ "Suc n"]) auto
  qed
qed

section \<open>Authentication\<close>

text \<open>A connected client has a socket whose first frame was the password; a socket that is open is always
  one of a script.\<close>

definition auth_frame :: "RconClient \<Rightarrow> 32 word \<Rightarrow> string" where
  "auth_frame c i = frame \<lparr>pk_id = i, pk_type = RCON_AUTH, pk_body = rc_password c\<rparr>"

definition logged_in :: "RconClient \<Rightarrow> bool" where
  "logged_in c = (rc_connected c \<longrightarrow> (\<exists>s i out inp. rc_sock c = Some (s, auth_frame c i # out, inp)))"

text \<open>\<open>grew c c'\<close>: the same client, with at most more frames sent on its socket.\<close>

definition grew :: "RconClient \<Rightarrow> RconClient \<Rightarrow> bool" where
  "grew c c' = (rc_host c' = rc_host c \<and> rc_port c' = rc_port c \<and> rc_password c' = rc_password c \<and>
     (rc_connected c' \<longrightarrow> rc_connected c) \<and>
     (case rc_sock c of None \<Rightarrow> rc_sock c' = None
      | Some (s, out, _) \<Rightarrow> \<exists>more inp. rc_sock c' = Some (s, out @ more, inp)))"

lemma grew_refl: "grew c c" by (auto simp: grew_def split: option.split)

lemma grew_trans: "grew a b \<Longrightarrow> grew b c \<Longrightarrow> grew a c"
  by (force simp: grew_def split: option.splits)

lemma grew_logged_in: "grew c c' \<Longrightarrow> logged_in c \<Longrightarrow> logged_in c'"
  by (force simp: grew_def logged_in_def auth_frame_def split: option.splits)

lemma grew_next: "grew c (snd (next_id c))" "grew c (c\<lparr>rc_connected := False\<rparr>)"
  by (auto simp: grew_def next_id_def split: option.split)

lemma grew_send: "sendPacket p c = (ok, c') \<Longrightarrow> grew c c'"
  by (auto simp: sendPacket_def grew_def split: option.splits if_splits)

lemma grew_recv: "recvPacket c = Ret (p, c') \<Longrightarrow> grew c c'"
  by (auto simp: recvPacket_def grew_def split: option.splits run.splits)

lemma grew_collect: "collect k i t resp c = Ret (r, c') \<Longrightarrow> grew c c'"
  by (induction k arbitrary: resp c)
    (auto simp: run_bind_Ret grew_refl split: option.splits if_splits
      dest!: grew_recv intro: grew_trans grew_next(2) grew_refl)

lemma grew_ping_loop: "ping_loop k t c = Ret (r, c') \<Longrightarrow> grew c c'"
  by (induction k arbitrary: c)
    (auto simp: run_bind_Ret grew_refl split: option.splits if_splits
      dest!: grew_recv intro: grew_trans grew_next(2) grew_refl)

lemma exchange_steps:
  assumes "exchange cmd c = Ret (r, c')"
  shows "grew c c'"
proof -
  let ?c1 = "snd (next_id c)" and ?c2 = "snd (next_id (snd (next_id c)))"
  obtain ok1 c3 where s1: "sendPacket \<lparr>pk_id = fst (next_id c), pk_type = RCON_EXEC_COMMAND, pk_body = cmd\<rparr> ?c2 = (ok1, c3)"
    by (cases "sendPacket \<lparr>pk_id = fst (next_id c), pk_type = RCON_EXEC_COMMAND, pk_body = cmd\<rparr> ?c2")
  obtain ok2 c4 where s2: "sendPacket \<lparr>pk_id = fst (next_id ?c1), pk_type = RCON_EXEC_COMMAND, pk_body = []\<rparr> c3 = (ok2, c4)"
    by (cases "sendPacket \<lparr>pk_id = fst (next_id ?c1), pk_type = RCON_EXEC_COMMAND, pk_body = []\<rparr> c3")
  have g3: "grew c c3" using grew_next(1) grew_send [OF s1] grew_trans by blast
  have g4: "grew c c4" using g3 grew_send [OF s2] grew_trans by blast
  show ?thesis
    using assms s1 s2 g3 g4
    by (auto simp: exchange_def Let_def case_prod_beta split: if_splits
        intro: grew_trans grew_next(2) dest!: grew_collect)
qed

lemma ping_steps:
  assumes "ping c = Ret (ok, c')"
  shows "grew c c'"
proof -
  let ?c1 = "snd (next_id c)" and ?c2 = "snd (next_id (snd (next_id c)))"
  obtain ok1 c3 where s1: "sendPacket \<lparr>pk_id = fst (next_id c), pk_type = RCON_EXEC_COMMAND, pk_body = []\<rparr> ?c2 = (ok1, c3)"
    by (cases "sendPacket \<lparr>pk_id = fst (next_id c), pk_type = RCON_EXEC_COMMAND, pk_body = []\<rparr> ?c2")
  obtain ok2 c4 where s2: "sendPacket \<lparr>pk_id = fst (next_id ?c1), pk_type = RCON_EXEC_COMMAND, pk_body = []\<rparr> c3 = (ok2, c4)"
    by (cases "sendPacket \<lparr>pk_id = fst (next_id ?c1), pk_type = RCON_EXEC_COMMAND, pk_body = []\<rparr> c3")
  have g3: "grew c c3" using grew_next(1) grew_send [OF s1] grew_trans by blast
  have g4: "grew c c4" using g3 grew_send [OF s2] grew_trans by blast
  show ?thesis
    using assms s1 s2 g3 g4 grew_refl [of c]
    by (auto simp: ping_def Let_def case_prod_beta split: if_splits
        intro: grew_trans grew_next(2) dest!: grew_ping_loop)
qed

text \<open>What a successful authentication leaves: the first frame is the password.\<close>

lemma authenticate_logged_in:
  assumes "authenticate (c\<lparr>rc_sock := Some (s, [], inp)\<rparr>) = Ret (ok, c')" "\<not> rc_connected c"
  shows "logged_in c' \<and> (ok \<longleftrightarrow> rc_connected c') \<and> (ok \<longrightarrow> rc_sock c' \<noteq> None)
    \<and> rc_host c' = rc_host c \<and> rc_port c' = rc_port c \<and> rc_password c' = rc_password c"
proof -
  let ?c1 = "snd (next_id (c\<lparr>rc_sock := Some (s, [], inp)\<rparr>))"
  let ?pkt = "\<lparr>pk_id = rc_nextId c, pk_type = RCON_AUTH, pk_body = rc_password c\<rparr>"
  obtain ok1 c2 where s1: "sendPacket ?pkt ?c1 = (ok1, c2)" by (cases "sendPacket ?pkt ?c1")
  have g: "grew ?c1 c2" using s1 by (rule grew_send)
  have off: "\<not> rc_connected c2" using g assms(2) by (auto simp: grew_def next_id_def)
  show ?thesis
  proof (cases ok1)
    case False
    then show ?thesis
      using assms s1 g off by (auto simp: authenticate_def Let_def next_id_def closed_def logged_in_def grew_def)
  next
    case True
    have c2: "\<exists>inp. rc_sock c2 = Some (s, [frame ?pkt], inp)"
      using s1 True by (auto simp: sendPacket_def next_id_def split: if_splits)
    from assms(1) s1 True obtain r1 c3 where r1: "recvPacket c2 = Ret (r1, c3)"
      by (auto simp: authenticate_def Let_def next_id_def run_bind_Ret)
    note g3 = grew_recv [OF r1]
    show ?thesis
    proof (cases r1)
      case None
      then show ?thesis
        using assms s1 True r1 g g3 off
        by (auto simp: authenticate_def Let_def next_id_def closed_def logged_in_def grew_def)
    next
      case (Some q)
      from assms(1) s1 True r1 Some obtain r2 c4 where r2: "recvPacket c3 = Ret (r2, c4)"
        by (auto simp: authenticate_def Let_def next_id_def run_bind_Ret)
      have g4: "grew c2 c4" using g3 grew_recv [OF r2] by (rule grew_trans)
      from c2 g4 obtain more inp' where c4: "rc_sock c4 = Some (s, frame ?pkt # more, inp')"
        by (auto simp: grew_def)
      have pw: "rc_password c4 = rc_password c" "rc_host c4 = rc_host c" "rc_port c4 = rc_port c" "\<not> rc_connected c4"
        using g g4 off by (auto simp: grew_def next_id_def)
      then show ?thesis
        using assms(1) s1 True r1 Some r2 c4
        by (auto simp: authenticate_def Let_def next_id_def closed_def logged_in_def auth_frame_def
            split: option.splits if_splits)
    qed
  qed
qed

end
