(* ===== verification/RconProps.thy ===== *)
theory RconProps
  imports Rcon
begin

text \<open>
  What the RCON client and pool promise: frames are read back as they were written, a command's answer is
  made of the packets that carry its id, no client is connected without having sent its password first,
  the pool holds one client per server and the health check keeps those that answer. And what they do not
  promise: a peer that stalls inside a header blocks the pool for ever, and a connection that dies
  without an answer has the command sent a second time.
\<close>

section \<open>Connections are authenticated\<close>

lemma connect_logged_in:
  assumes "connectInternal net (c, n) = Ret (ok, c', n')"
  shows "logged_in c' \<and> (ok \<longleftrightarrow> rc_connected c') \<and> (ok \<longrightarrow> rc_sock c' \<noteq> None)"
proof (cases "net n (rc_host c) (rc_port c)")
  case (Open s)
  with assms obtain c0 where a: "authenticate ((disconnect c)\<lparr>rc_sock := Some (s, [], sc_reply s [])\<rparr>) = Ret (ok, c0)"
    and c: "c' = c0"
    by (auto simp: connectInternal_def Let_def run_bind_Ret)
  show ?thesis using authenticate_logged_in [OF a] unfolding c by (simp add: disconnect_def)
qed (use assms in \<open>auto simp: connectInternal_def Let_def disconnect_def logged_in_def\<close>)

lemma execute_logged_in:
  assumes "execute net cmd (c, n) = Ret (r, c', n')" "logged_in c"
  shows "logged_in c'"
proof -
  from assms(1) obtain ok c1 n1 where
    1: "(if \<not> rc_connected c \<or> rc_sock c = None then connectInternal net (c, n) else Ret (True, c, n)) = Ret (ok, c1, n1)"
    and 2: "(if \<not> ok then Ret ([], c1, n1) else run_bind (exchange cmd c1) (\<lambda>(r, c2). Ret (r, c2, n1))) = Ret (r, c', n')"
    by (auto simp: execute_def run_bind_Ret)
  have "logged_in c1" using 1 assms(2) connect_logged_in by (auto split: if_splits)
  then show ?thesis using 2 by (auto simp: run_bind_Ret split: if_splits dest!: exchange_steps intro: grew_logged_in)
qed

text \<open>One client per server, every one of them logged in.\<close>

definition pool_ok :: "RconPool \<Rightarrow> bool" where
  "pool_ok p = (distinct (map fst (po_clients p)) \<and> (\<forall>(i, c)\<in>set (po_clients p). logged_in c))"

lemma distinct_filtered: "distinct (map fst cs) \<Longrightarrow> distinct (map fst (filter P cs))"
  by (induction cs) (auto simp: image_iff)

lemma pool_ok_frame [simp]: "pool_ok (p\<lparr>po_tries := n\<rparr>) = pool_ok p"
  by (simp add: pool_ok_def)

lemma pool_ok_erase: "pool_ok p \<Longrightarrow> pool_ok (po_erase sid p)"
  by (auto simp: pool_ok_def po_erase_def distinct_filtered)

lemma pool_ok_put: "pool_ok p \<Longrightarrow> logged_in c \<Longrightarrow> pool_ok (po_put sid c p)"
  by (auto simp: pool_ok_def po_put_def distinct_filtered)

lemma getOrCreate_ok:
  assumes "getOrCreate net d sid n = Ret (Some c, n')"
  shows "logged_in c \<and> rc_connected c \<and> rc_sock c \<noteq> None"
  using assms connect_logged_in
  by (auto simp: getOrCreate_def rc_connect_def run_bind_Ret new_client_def split: option.splits if_splits sum.splits)

lemma send_new_ok:
  assumes "send_new net d sid cmd p = Ret (r, p')" "pool_ok p"
  shows "pool_ok p'"
proof -
  from assms(1) obtain co n where g: "getOrCreate net d sid (po_tries p) = Ret (co, n)"
    by (auto simp: send_new_def run_bind_Ret)
  show ?thesis
  proof (cases co)
    case None
    then show ?thesis using assms g by (auto simp: send_new_def)
  next
    case (Some c)
    with assms(1) g obtain c' n' where e: "execute net cmd (c, n) = Ret (r, c', n')"
      and p: "p' = (po_put sid c' p)\<lparr>po_tries := n'\<rparr>"
      by (auto simp: send_new_def run_bind_Ret)
    show ?thesis using execute_logged_in [OF e] getOrCreate_ok [OF g [unfolded Some]] assms(2) unfolding p
      by (simp add: pool_ok_put)
  qed
qed

lemma pool_ok_client: "pool_ok p \<Longrightarrow> map_of (po_clients p) sid = Some c \<Longrightarrow> logged_in c"
  by (auto simp: pool_ok_def dest!: map_of_SomeD)

lemma po_send_ok:
  assumes "po_send net d sid cmd p = Ret (r, p')" "pool_ok p"
  shows "pool_ok p'"
proof (cases "\<exists>c. map_of (po_clients p) sid = Some c \<and> rc_connected c")
  case True
  then obtain c where c: "map_of (po_clients p) sid = Some c" "rc_connected c" by blast
  from assms(1) c obtain res c' n where e: "execute net cmd (c, po_tries p) = Ret (res, c', n)"
    by (auto simp: po_send_def run_bind_Ret)
  have "logged_in c'" using execute_logged_in [OF e pool_ok_client [OF assms(2) c(1)]] .
  then show ?thesis
    using assms c e send_new_ok [of net d sid cmd "(po_erase sid p)\<lparr>po_tries := n\<rparr>"]
    by (auto simp: po_send_def run_bind_Ret pool_ok_put pool_ok_erase split: if_splits)
next
  case False
  then have "po_send net d sid cmd p = send_new net d sid cmd p" by (auto simp: po_send_def split: option.split)
  with assms(1) have "send_new net d sid cmd p = Ret (r, p')" by simp
  then show ?thesis using assms(2) by (rule send_new_ok)
qed

lemma ping_all_ok:
  "ping_all cs = Ret (cs', dead) \<Longrightarrow> map fst cs' = map fst cs \<and>
     ((\<forall>(i, c)\<in>set cs. logged_in c) \<longrightarrow> (\<forall>(i, c)\<in>set cs'. logged_in c))"
proof (induction cs arbitrary: cs' dead)
  case (Cons ic cs)
  obtain i c where ic: "ic = (i, c)" by (cases ic)
  from Cons.prems obtain ok c1 cs1 dead1 where
    "ping c = Ret (ok, c1)" "ping_all cs = Ret (cs1, dead1)" "cs' = (i, c1) # cs1"
    unfolding ic by (auto simp: run_bind_Ret)
  then show ?case using Cons.IH grew_logged_in [OF ping_steps, of c ok c1] by (auto simp: ic)
qed simp

lemma fold_erase_ok: "pool_ok p \<Longrightarrow> pool_ok (fold po_erase ids p)"
  by (induction ids arbitrary: p) (simp_all add: pool_ok_erase)

lemma healthCheck_ok: "healthCheck p = Ret p' \<Longrightarrow> pool_ok p \<Longrightarrow> pool_ok p'"
  by (auto simp: healthCheck_def run_bind_Ret pool_ok_def [of "p\<lparr>po_clients := _\<rparr>"] pool_ok_def [of p]
      dest!: ping_all_ok intro!: fold_erase_ok)

text \<open>The operations of the pool as steps; the database may change between them.\<close>

inductive pool_step :: "network \<Rightarrow> RconPool \<Rightarrow> RconPool \<Rightarrow> bool" for net where
  Send: "po_send net d sid cmd p = Ret (r, p') \<Longrightarrow> pool_step net p p'"
| Test: "po_test net d sid p = Ret (r, p') \<Longrightarrow> pool_step net p p'"
| Remove: "pool_step net p (po_remove sid p)"
| Clear: "pool_step net p (po_clear p)"
| Health: "healthCheck p = Ret p' \<Longrightarrow> pool_step net p p'"

inductive pool_reach :: "network \<Rightarrow> RconPool \<Rightarrow> bool" for net where
  init: "pool_reach net \<lparr>po_clients = [], po_tries = n\<rparr>"
| step: "pool_reach net p \<Longrightarrow> pool_step net p p' \<Longrightarrow> pool_reach net p'"

inductive_cases pool_stepE: "pool_step net p p'"

lemma pool_step_ok: "pool_step net p p' \<Longrightarrow> pool_ok p \<Longrightarrow> pool_ok p'"
  by (elim pool_stepE) (auto simp: po_test_def po_remove_def po_clear_def pool_ok_def [of "_\<lparr>po_clients := []\<rparr>"]
      intro: po_send_ok send_new_ok pool_ok_erase healthCheck_ok)

lemma pool_reach_ok: "pool_reach net p \<Longrightarrow> pool_ok p"
  by (induction rule: pool_reach.induct) (auto simp: pool_ok_def [of "\<lparr>po_clients = [], po_tries = _\<rparr>"] intro: pool_step_ok)

section \<open>Reading\<close>

lemma received_stream:
  "list_all fits ps \<Longrightarrow> received (length ps) (reading c s out (stream ps @ r)) = ps"
proof (induction ps)
  case (Cons p ps)
  then show ?case using recvPacket_stream [of p c s out ps r] by (simp del: stream_simps)
qed simp

lemma recv_all_stuck: "length s < n \<Longrightarrow> recv_all n (map Byte s) = None"
proof (induction s arbitrary: n)
  case Nil
  then show ?case by (cases n) simp_all
next
  case (Cons c s)
  then show ?case by (cases n) simp_all
qed

lemma recv_stuck:
  assumes "s \<noteq> []" "length s < 4"
  shows "recv_arrivals (map Byte s) = Loop"
  using poll_in_bytes [OF assms(1), of "[]"] recv_all_stuck [OF assms(2)] by (simp add: recv_arrivals_def)

section \<open>Commands\<close>

text \<open>The two frames of a command on a client whose next id is \<open>i\<close>.\<close>

definition cmd_frame :: "32 word \<Rightarrow> string \<Rightarrow> string" where
  "cmd_frame i cmd = frame \<lparr>pk_id = i, pk_type = RCON_EXEC_COMMAND, pk_body = cmd\<rparr>"

lemma exchange_sent:
  assumes "rc_sock c = Some (s, out, inp)" "rc_nextId c = i"
    and "sc_sends s (out @ [cmd_frame i cmd])" "sc_sends s (out @ [cmd_frame i cmd, cmd_frame (i + 1) []])"
  shows "exchange cmd c = collect 64 i (i + 1) [] (reading (c\<lparr>rc_nextId := i + 1 + 1\<rparr>) s
     (out @ [cmd_frame i cmd, cmd_frame (i + 1) []])
     (inp @ sc_reply s (out @ [cmd_frame i cmd]) @ sc_reply s (out @ [cmd_frame i cmd, cmd_frame (i + 1) []])))"
  using assms by (simp add: exchange_def next_id_def Let_def sendPacket_def cmd_frame_def reading_def)

lemma execute_connected:
  "rc_connected c \<Longrightarrow> rc_sock c \<noteq> None \<Longrightarrow>
     execute net cmd (c, n) = run_bind (exchange cmd c) (\<lambda>(r, c2). Ret (r, c2, n))"
  by (auto simp: execute_def)

lemma execute_answer:
  assumes "rc_connected c" "rc_sock c = Some (s, out, inp)" "rc_nextId c = i"
    and "sc_sends s (out @ [cmd_frame i cmd])" "sc_sends s (out @ [cmd_frame i cmd, cmd_frame (i + 1) []])"
    and "inp @ sc_reply s (out @ [cmd_frame i cmd]) @ sc_reply s (out @ [cmd_frame i cmd, cmd_frame (i + 1) []])
      = stream (ps @ [t]) @ r"
    and "list_all fits (ps @ [t])" "list_all (\<lambda>p. pk_id p \<noteq> i + 1) ps" "pk_id t = i + 1" "length ps < 64"
  shows "execute net cmd (c, n) = Ret (concat (map pk_body (filter (\<lambda>p. pk_id p = i) ps)),
     reading (c\<lparr>rc_nextId := i + 1 + 1\<rparr>) s (out @ [cmd_frame i cmd, cmd_frame (i + 1) []]) r, n)"
  using collect_stream [OF assms(7-10), of i "[]" "c\<lparr>rc_nextId := i + 1 + 1\<rparr>" s "out @ [cmd_frame i cmd, cmd_frame (i + 1) []]" r]
  by (simp add: execute_connected [of c] assms(1,2) exchange_sent [OF assms(2-5)] assms(6) del: stream_simps)

section \<open>A sample peer\<close>

text \<open>It accepts every password and answers a command with one packet and the terminator.\<close>

definition demo_script :: script where
  "demo_script = \<lparr>sc_sends = (\<lambda>_. True), sc_reply = (\<lambda>fs.
     if length fs = 1 then stream [\<lparr>pk_id = 1, pk_type = 0, pk_body = []\<rparr>, \<lparr>pk_id = 1, pk_type = 2, pk_body = []\<rparr>]
     else if length fs = 3 then stream [\<lparr>pk_id = 2, pk_type = 0, pk_body = ''ok''\<rparr>, \<lparr>pk_id = 3, pk_type = 0, pk_body = []\<rparr>]
     else [])\<rparr>"

definition demo_net :: network where
  "demo_net = (\<lambda>_ _ _. Open demo_script)"

definition demo_client :: RconClient where
  "demo_client = (new_client ''h'' 27015 ''p'')\<lparr>rc_connected := True, rc_nextId := 2,
     rc_sock := Some (demo_script, [auth_frame (new_client ''h'' 27015 ''p'') 1], [])\<rparr>"

lemma demo_connect: "rc_connect demo_net (new_client ''h'' 27015 ''p'', n) = Ret (True, demo_client, n + 1)"
proof -
  let ?p1 = "\<lparr>pk_id = 1, pk_type = 0, pk_body = []\<rparr>" and ?p2 = "\<lparr>pk_id = 1, pk_type = 2, pk_body = []\<rparr>"
  let ?c = "(new_client ''h'' 27015 ''p'')\<lparr>rc_nextId := 2\<rparr>" and ?f = "auth_frame (new_client ''h'' 27015 ''p'') 1"
  have r1: "recvPacket (reading ?c demo_script [?f] (stream [?p1, ?p2])) = Ret (Some ?p1, reading ?c demo_script [?f] (stream [?p2]))"
    using recvPacket_stream [of ?p1 ?c demo_script "[?f]" "[?p2]" "[]"] by (simp add: fits_def)
  have r2: "recvPacket (reading ?c demo_script [?f] (stream [?p2])) = Ret (Some ?p2, reading ?c demo_script [?f] [])"
    using recvPacket_stream [of ?p2 ?c demo_script "[?f]" "[]" "[]"] by (simp add: fits_def)
  have s: "sendPacket \<lparr>pk_id = 1, pk_type = RCON_AUTH, pk_body = ''p''\<rparr> (reading ?c demo_script [] []) =
      (True, reading ?c demo_script [?f] (stream [?p1, ?p2]))"
    by (simp add: sendPacket_def reading_def demo_script_def auth_frame_def new_client_def del: stream_simps)
  have n: "next_id ((disconnect (new_client ''h'' 27015 ''p''))\<lparr>rc_sock := Some (demo_script, [], sc_reply demo_script [])\<rparr>)
      = (1, reading ?c demo_script [] [])"
    by (simp add: next_id_def disconnect_def new_client_def reading_def demo_script_def)
  have pw: "rc_password (reading ?c demo_script [] []) = ''p''" by (simp add: reading_def new_client_def)
  have "authenticate ((disconnect (new_client ''h'' 27015 ''p''))\<lparr>rc_sock := Some (demo_script, [], sc_reply demo_script [])\<rparr>)
      = Ret (True, (reading ?c demo_script [?f] [])\<lparr>rc_connected := True\<rparr>)"
    by (simp add: authenticate_def n pw s r1 r2 del: stream_simps)
  moreover have "(reading ?c demo_script [?f] [])\<lparr>rc_connected := True\<rparr> = demo_client"
    by (simp add: demo_client_def reading_def new_client_def)
  ultimately show ?thesis
    by (simp add: rc_connect_def connectInternal_def demo_net_def new_client_def Let_def)
qed

lemma demo_execute:
  assumes "cmd \<noteq> []"
  shows "execute demo_net cmd (demo_client, n) = Ret (''ok'', reading (demo_client\<lparr>rc_nextId := 4\<rparr>) demo_script
     [auth_frame (new_client ''h'' 27015 ''p'') 1, cmd_frame 2 cmd, cmd_frame 3 []] [], n)"
proof -
  have "execute demo_net cmd (demo_client, n) = Ret (concat (map pk_body (filter (\<lambda>p. pk_id p = 2) [\<lparr>pk_id = 2, pk_type = 0, pk_body = ''ok''\<rparr>])),
     reading (demo_client\<lparr>rc_nextId := 2 + 1 + 1\<rparr>) demo_script
     ([auth_frame (new_client ''h'' 27015 ''p'') 1] @ [cmd_frame 2 cmd, cmd_frame (2 + 1) []]) [], n)"
    by (rule execute_answer [where t = "\<lparr>pk_id = 3, pk_type = 0, pk_body = []\<rparr>"])
      (simp_all add: demo_client_def demo_script_def fits_def)
  then show ?thesis by simp
qed

lemma demo_send:
  assumes "cmd \<noteq> []"
  shows "po_send demo_net demo_db 1 cmd \<lparr>po_clients = [], po_tries = 0\<rparr> = Ret (''ok'',
     \<lparr>po_clients = [(1, reading (demo_client\<lparr>rc_nextId := 4\<rparr>) demo_script
        [auth_frame (new_client ''h'' 27015 ''p'') 1, cmd_frame 2 cmd, cmd_frame 3 []] [])], po_tries = 1\<rparr>)"
proof -
  have "t_first (\<lambda>r. sv_id r = 1) (db_servers demo_db) = Some (server_defaults 0 1 ''s'' ''h'' 27015 ''p'' (Some ''k'') 1)"
    by (simp add: demo_db_def t_first_def t_empty_def)
  moreover have "stoi (to_string 27015) = Inr 27015" by (rule stoi_to_string) (simp add: in_int_def)
  ultimately have "getOrCreate demo_net demo_db 1 0 = Ret (Some demo_client, 1)"
    by (simp add: getOrCreate_def server_defaults_def demo_connect)
  then show ?thesis
    by (simp add: po_send_def send_new_def demo_execute [OF assms] po_put_def)
qed

section \<open>Properties\<close>

text \<open>C14: what is written as a sequence of frames is read back as the same packets, whatever follows
  them on the stream.\<close>
theorem frames_roundtrip:
  assumes "list_all fits ps"
  shows "received (length ps) (reading c s out (map Byte (concat (map frame ps)) @ r)) = ps"
  using received_stream [OF assms] by (simp add: stream_def)

theorem frames_roundtrip_witness:
  "received 2 (reading demo_client demo_script [] (map Byte (concat (map frame
     [\<lparr>pk_id = 7, pk_type = 0, pk_body = ''abc''\<rparr>, \<lparr>pk_id = - 1, pk_type = 2, pk_body = []\<rparr>])) @ [Gap])) =
   [\<lparr>pk_id = 7, pk_type = 0, pk_body = ''abc''\<rparr>, \<lparr>pk_id = - 1, pk_type = 2, pk_body = []\<rparr>]"
  using frames_roundtrip [of "[\<lparr>pk_id = 7, pk_type = 0, pk_body = ''abc''\<rparr>, \<lparr>pk_id = - 1, pk_type = 2, pk_body = []\<rparr>]"]
  by (simp add: fits_def numeral_2_eq_2)

text \<open>C15: a connected client sends the command and an empty terminator under fresh ids, and answers with
  the bodies of the packets that carry the command's id, in order, up to the terminator: packets left over
  from an earlier command are skipped, what follows the terminator stays on the stream, and it stays
  connected.\<close>
theorem execute_exact:
  assumes "rc_connected c" "rc_sock c = Some (s, out, inp)" "rc_nextId c = i"
    and "sc_sends s (out @ [cmd_frame i cmd])" "sc_sends s (out @ [cmd_frame i cmd, cmd_frame (i + 1) []])"
    and "inp @ sc_reply s (out @ [cmd_frame i cmd]) @ sc_reply s (out @ [cmd_frame i cmd, cmd_frame (i + 1) []])
      = map Byte (concat (map frame (ps @ [t]))) @ r"
    and "list_all fits (ps @ [t])" "list_all (\<lambda>p. pk_id p \<noteq> i + 1) ps" "pk_id t = i + 1" "length ps < 64"
  shows "\<exists>c'. execute net cmd (c, n) = Ret (concat (map pk_body (filter (\<lambda>p. pk_id p = i) ps)), c', n)
    \<and> rc_connected c' \<and> rc_nextId c' = i + 2
    \<and> rc_sock c' = Some (s, out @ [cmd_frame i cmd, cmd_frame (i + 1) []], r)"
  using execute_answer [OF assms(1-5) assms(6) [folded stream_def] assms(7-10), of net n] assms(1)
  by (simp add: reading_def)

theorem execute_exact_witness:
  "\<exists>c'. execute demo_net ''ListPlayers'' (demo_client, 5) = Ret (''ok'', c', 5) \<and> rc_connected c'"
proof -
  let ?p = "\<lparr>pk_id = 2, pk_type = 0, pk_body = ''ok''\<rparr>" and ?t = "\<lparr>pk_id = 3, pk_type = 0, pk_body = []\<rparr>"
  let ?out = "[auth_frame (new_client ''h'' 27015 ''p'') 1]"
  have "\<exists>c'. execute demo_net ''ListPlayers'' (demo_client, 5) =
      Ret (concat (map pk_body (filter (\<lambda>p. pk_id p = 2) [?p])), c', 5)
    \<and> rc_connected c' \<and> rc_nextId c' = 2 + 2
    \<and> rc_sock c' = Some (demo_script, ?out @ [cmd_frame 2 ''ListPlayers'', cmd_frame (2 + 1) []], [])"
    by (rule execute_exact [where t = ?t and inp = "[]"])
      (simp_all add: demo_client_def demo_script_def fits_def stream_def)
  then show ?thesis by auto
qed



lemma ping_all_dead:
  "ping_all xs = Ret (cs, dead) \<Longrightarrow> i \<in> set dead \<longleftrightarrow> (\<exists>c. (i, c) \<in> set xs \<and> (\<exists>c'. ping c = Ret (False, c')))"
proof (induction xs arbitrary: cs dead)
  case (Cons ic xs)
  obtain j c where ic: "ic = (j, c)" by (cases ic)
  from Cons.prems obtain ok c1 cs1 dead1 where p: "ping c = Ret (ok, c1)" "ping_all xs = Ret (cs1, dead1)"
    and d: "dead = (if ok then dead1 else j # dead1)"
    unfolding ic by (auto simp: run_bind_Ret)
  have "(\<exists>c'. ping c = Ret (False, c')) \<longleftrightarrow> \<not> ok" using p(1) by auto
  then show ?case unfolding d ic using Cons.IH [OF p(2)] by auto
qed simp

lemma ping_all_answers:
  "ping_all xs = Ret (cs, dead) \<Longrightarrow> (i, c) \<in> set xs \<Longrightarrow> \<exists>ok c'. ping c = Ret (ok, c')"
  by (induction xs arbitrary: cs dead) (auto simp: run_bind_Ret)

text \<open>After a health check exactly the clients whose ping was answered are left.\<close>
theorem health_check_exact:
  assumes "healthCheck p = Ret p'" "distinct (map fst (po_clients p))"
  shows "map fst (po_clients p') = filter (\<lambda>i. \<exists>c c'. (i, c) \<in> set (po_clients p) \<and> ping c = Ret (True, c'))
    (map fst (po_clients p))"
proof -
  from assms(1) obtain cs dead where a: "ping_all (po_clients p) = Ret (cs, dead)"
    and p': "p' = fold po_erase dead (p\<lparr>po_clients := cs\<rparr>)"
    by (auto simp: healthCheck_def run_bind_Ret)
  have e: "po_clients (fold po_erase ids q) = filter (\<lambda>(i, c). i \<notin> set ids) (po_clients q)" for ids q
    by (induction ids arbitrary: q) (auto simp: po_erase_def intro: filter_cong)
  have k: "map fst (filter (\<lambda>(i, c). P i) xs) = filter P (map fst xs)" for P and xs :: "(int \<times> RconClient) list"
    by (induction xs) auto
  have fs: "map fst cs = map fst (po_clients p)" using ping_all_ok [OF a] by simp
  show ?thesis
    unfolding p' e k
  proof (rule filter_cong)
    show "map fst (po_clients (p\<lparr>po_clients := cs\<rparr>)) = map fst (po_clients p)" using fs by simp
  next
    fix i assume "i \<in> set (map fst (po_clients p))"
    then obtain c where c: "(i, c) \<in> set (po_clients p)" by auto
    then obtain ok c' where o: "ping c = Ret (ok, c')" using ping_all_answers [OF a c] by blast
    have u: "c2 = c" if "(i, c2) \<in> set (po_clients p)" for c2
      using that c assms(2) by (meson eq_key_imp_eq_value)
    have only: "(\<exists>c. (i, c) \<in> set (po_clients p) \<and> (\<exists>c'. ping c = Ret (b, c'))) \<longleftrightarrow> b = ok" for b
    proof
      assume "\<exists>c. (i, c) \<in> set (po_clients p) \<and> (\<exists>c'. ping c = Ret (b, c'))"
      then obtain c2 c2' where "(i, c2) \<in> set (po_clients p)" "ping c2 = Ret (b, c2')" by (elim exE conjE)
      then show "b = ok" using o u [of c2] by simp
    next
      assume "b = ok"
      then show "\<exists>c. (i, c) \<in> set (po_clients p) \<and> (\<exists>c'. ping c = Ret (b, c'))" using c o by blast
    qed
    show "(i \<notin> set dead) = (\<exists>c c'. (i, c) \<in> set (po_clients p) \<and> ping c = Ret (True, c'))"
      unfolding ping_all_dead [OF a, of i] using only [of True] only [of False] by simp
  qed
qed

lemma demo_ping: "\<exists>c'. ping demo_client = Ret (True, c')"
proof -
  let ?p = "\<lparr>pk_id = 2, pk_type = 0, pk_body = ''ok''\<rparr>" and ?t = "\<lparr>pk_id = 3, pk_type = 0, pk_body = []\<rparr>"
  let ?c = "demo_client\<lparr>rc_nextId := 4\<rparr>"
  let ?out = "[auth_frame (new_client ''h'' 27015 ''p'') 1, cmd_frame 2 [], cmd_frame 3 []]"
  have r1: "recvPacket (reading ?c demo_script ?out (stream [?p, ?t])) = Ret (Some ?p, reading ?c demo_script ?out (stream [?t]))"
    using recvPacket_stream [of ?p ?c demo_script ?out "[?t]" "[]"] by (simp add: fits_def)
  have r2: "recvPacket (reading ?c demo_script ?out (stream [?t])) = Ret (Some ?t, reading ?c demo_script ?out [])"
    using recvPacket_stream [of ?t ?c demo_script ?out "[]" "[]"] by (simp add: fits_def)
  have "ping demo_client = ping_loop 4 3 (reading ?c demo_script ?out (stream [?p, ?t]))"
    by (simp add: ping_def demo_client_def new_client_def next_id_def Let_def sendPacket_def cmd_frame_def reading_def
        demo_script_def del: stream_simps)
  also have "\<dots> = Ret (True, reading ?c demo_script ?out [])"
    by (simp add: numeral_eq_Suc r1 r2 del: stream_simps)
  finally show ?thesis by (rule exI)
qed

theorem health_check_exact_witness:
  "\<exists>p'. healthCheck \<lparr>po_clients = [(1, demo_client), (2, disconnect demo_client)], po_tries = 0\<rparr> = Ret p'
     \<and> map fst (po_clients p') = [1]"
proof -
  let ?p = "\<lparr>po_clients = [(1, demo_client), (2, disconnect demo_client)], po_tries = 0\<rparr>"
  obtain c' where c': "ping demo_client = Ret (True, c')" using demo_ping by (elim exE)
  have off: "ping (disconnect demo_client) = Ret (False, disconnect demo_client)" by (simp add: ping_def disconnect_def)
  have "\<exists>p'. healthCheck ?p = Ret p'" by (simp add: healthCheck_def c' off)
  then obtain p' where p': "healthCheck ?p = Ret p'" by (elim exE)
  have "map fst (po_clients p') = filter (\<lambda>i. i = 1) [1, 2]"
    using health_check_exact [OF p'] by (simp add: c' off conj_disj_distribR ex_disj_distrib)
  with p' show ?thesis by (intro exI [of _ p']) simp
qed

lemma collect_stuck: "recvPacket c = Loop \<Longrightarrow> 0 < k \<Longrightarrow> collect k i t r c = Loop"
  by (cases k) simp_all

lemma collect_none: "recvPacket c = Ret (None, c') \<Longrightarrow> 0 < k \<Longrightarrow> collect k i t r c = Ret (r, c'\<lparr>rc_connected := False\<rparr>)"
  by (cases k) simp_all

lemma recv_eof: "recv_arrivals [Eof] = Ret (None, [Eof])"
proof -
  have "recv_all 4 [Eof] = Some ([], [Eof])" by (simp add: numeral_eq_Suc)
  then show ?thesis by (simp add: recv_arrivals_def)
qed

text \<open>A peer that answers a command with the given arrivals.\<close>

definition demo_with :: "arrival list \<Rightarrow> RconClient" where
  "demo_with answer = demo_client\<lparr>rc_sock := Some (\<lparr>sc_sends = (\<lambda>_. True), sc_reply = (\<lambda>fs. if length fs = 3 then answer else [])\<rparr>,
     [auth_frame (new_client ''h'' 27015 ''p'') 1], [])\<rparr>"

text \<open>C24: a poll only covers the first byte of a read: a peer that answers with one to three bytes of a
  header and then stays silent blocks the send, and with it the pool's lock, for ever.\<close>
theorem stalled_header_hangs:
  assumes "map_of (po_clients p) sid = Some c" "rc_connected c" "rc_sock c = Some (s, out, [])" "rc_nextId c = i"
    and "sc_sends s (out @ [cmd_frame i cmd])" "sc_sends s (out @ [cmd_frame i cmd, cmd_frame (i + 1) []])"
    and "sc_reply s (out @ [cmd_frame i cmd]) @ sc_reply s (out @ [cmd_frame i cmd, cmd_frame (i + 1) []]) = map Byte bytes"
    and "bytes \<noteq> []" "length bytes < 4"
  shows "po_send net d sid cmd p = Loop"
proof -
  have "exchange cmd c = Loop"
    unfolding exchange_sent [OF assms(3-6)]
    by (rule collect_stuck) (simp_all add: assms(7) recvPacket_def reading_def recv_stuck [OF assms(8,9)])
  then show ?thesis using assms(1-3) by (simp add: po_send_def execute_connected)
qed

theorem stalled_header_hangs_witness:
  "po_send demo_net demo_db 1 ''x'' \<lparr>po_clients = [(1, demo_with [Byte CHR 0x0A, Byte CHR 0x00])], po_tries = 0\<rparr> = Loop"
  by (rule stalled_header_hangs [where c = "demo_with [Byte CHR 0x0A, Byte CHR 0x00]" and i = 2 and
      bytes = "[CHR 0x0A, CHR 0x00]" and out = "[auth_frame (new_client ''h'' 27015 ''p'') 1]"])
    (auto simp: demo_with_def demo_client_def)

text \<open>When the connection ends without an answer after both frames were taken, the whole command is
  sent once more over a new connection, although the first copy may have been carried out.\<close>
theorem command_sent_again:
  assumes "map_of (po_clients p) sid = Some c" "rc_connected c" "rc_sock c = Some (s, out, [])" "rc_nextId c = i"
    and "sc_sends s (out @ [cmd_frame i cmd])" "sc_sends s (out @ [cmd_frame i cmd, cmd_frame (i + 1) []])"
    and "sc_reply s (out @ [cmd_frame i cmd]) @ sc_reply s (out @ [cmd_frame i cmd, cmd_frame (i + 1) []]) = [Eof]"
  shows "po_send net d sid cmd p = send_new net d sid cmd (po_erase sid p)"
proof -
  have "\<exists>c'. exchange cmd c = Ret ([], c') \<and> \<not> rc_connected c'"
    unfolding exchange_sent [OF assms(3-6)]
    by (subst collect_none) (simp_all add: assms(7) recvPacket_def reading_def recv_eof)
  then show ?thesis using assms(1-3) by (auto simp: po_send_def execute_connected po_erase_def)
qed

theorem command_sent_again_witness:
  "po_send demo_net demo_db 1 ''x'' \<lparr>po_clients = [(1, demo_with [Eof])], po_tries = 0\<rparr> =
   po_send demo_net demo_db 1 ''x'' \<lparr>po_clients = [], po_tries = 0\<rparr>"
proof -
  have "po_send demo_net demo_db 1 ''x'' \<lparr>po_clients = [(1, demo_with [Eof])], po_tries = 0\<rparr> =
      send_new demo_net demo_db 1 ''x'' (po_erase 1 \<lparr>po_clients = [(1, demo_with [Eof])], po_tries = 0\<rparr>)"
    by (rule command_sent_again [where c = "demo_with [Eof]" and i = 2 and
        out = "[auth_frame (new_client ''h'' 27015 ''p'') 1]"])
      (auto simp: demo_with_def demo_client_def)
  then show ?thesis by (simp add: po_erase_def po_send_def)
qed

end
