(* ===== verification/Tasks.thy ===== *)
theory Tasks
  imports Plugins PlayerList Auth
begin

text \<open>
  The background loops of tasks/tasks.cpp, one round each: the player refresh with the dispatch of its
  event and the tick-rate sampling, the timed broadcasts, and the clean-up of sessions and point logs (the
  team-kill checker is in \<open>TKForgive\<close>). A round is a function of the environment and the world; the state
  a loop keeps between rounds is an argument. The pool's health check before a refresh is in \<open>Rcon\<close>.
\<close>

section \<open>Doubles (std::stod on any text)\<close>

datatype double = Fin int int | Inf bool | NaN

text \<open>Digits, a fraction and what follows; then an exponent after one of the two letters \<open>x\<close>.\<close>

definition mantissa :: "(char \<Rightarrow> bool) \<Rightarrow> string \<Rightarrow> string \<times> string \<times> string" where
  "mantissa P u =
     (let ip = takeWhile P u; r = dropWhile P u
      in if r \<noteq> [] \<and> hd r = CHR ''.'' \<and> (ip \<noteq> [] \<or> takeWhile P (tl r) \<noteq> [])
         then (ip, takeWhile P (tl r), dropWhile P (tl r)) else (ip, [], r))"

definition exponent :: "char \<Rightarrow> string \<Rightarrow> int" where
  "exponent x r =
     (if r = [] \<or> to_lower (hd r) \<noteq> x then 0
      else
        let t = tl r;
            neg = (t \<noteq> [] \<and> hd t = CHR ''-'');
            u = (if t \<noteq> [] \<and> (hd t = CHR ''-'' \<or> hd t = CHR ''+'') then tl t else t);
            v = int (digits_val (takeWhile is_digit u))
        in if neg then - v else v)"

definition ratio_double :: "nat \<Rightarrow> nat \<Rightarrow> nat \<Rightarrow> int \<Rightarrow> conv_error + int \<times> int" where
  "ratio_double n d base ex =
     (if 0 \<le> ex then to_double (n * base ^ nat ex) d else to_double n (d * base ^ nat (- ex)))"

definition strtod :: "string \<Rightarrow> conv_error + double" where
  "strtod s =
     (let t = dropWhile is_space s;
          neg = (t \<noteq> [] \<and> hd t = CHR ''-'');
          u = (if t \<noteq> [] \<and> (hd t = CHR ''-'' \<or> hd t = CHR ''+'') then tl t else t);
          low = map to_lower u;
          sgn = (\<lambda>r. case r of Inl e \<Rightarrow> Inl e | Inr (m, e) \<Rightarrow> Inr (Fin (if neg then - m else m) e))
      in if starts_with ''inf'' low then Inr (Inf neg)
         else if starts_with ''nan'' low then Inr NaN
         else
           let (hip, hfp, hr) = mantissa is_hex (drop 2 u); (ip, fp, r) = mantissa is_digit u
           in if starts_with ''0x'' low \<and> hip @ hfp \<noteq> [] then
                sgn (ratio_double (foldl (\<lambda>a c. 16 * a + hex_val c) 0 (hip @ hfp)) (16 ^ length hfp) 2 (exponent CHR ''p'' hr))
              else if ip @ fp = [] then Inl Invalid_argument
              else sgn (ratio_double (digits_val (ip @ fp)) (10 ^ length fp) 10 (exponent CHR ''e'' r)))"

definition not_positive :: "double \<Rightarrow> bool" where
  "not_positive x = (case x of Fin m _ \<Rightarrow> m \<le> 0 | Inf neg \<Rightarrow> neg | NaN \<Rightarrow> False)"

text \<open>\<open>0 < x && x < n\<close> for an integer \<open>n\<close>.\<close>

definition in_range :: "double \<Rightarrow> int \<Rightarrow> bool" where
  "in_range x n =
     (case x of Fin m e \<Rightarrow> 0 < m \<and> (if 0 \<le> e then m * 2 ^ nat e < n else m < n * 2 ^ nat (- e)) | _ \<Rightarrow> False)"

section \<open>The refresh (autoRefreshLoop)\<close>

definition player_event :: "PlayerInfo \<Rightarrow> json option" where
  "player_event p =
     (case stoi (if pi_teamId p = [] then ''0'' else pi_teamId p) of
        Inl _ \<Rightarrow> None
      | Inr team \<Rightarrow> Some (JObj [(''steamId'', JStr (pi_steamId p)), (''name'', JStr (pi_name p)),
          (''teamId'', JStr (pi_teamId p)), (''squadId'', JStr (pi_squadId p)),
          (''rconId'', JInt (pi_rconId p)), (''isLeader'', JBool (pi_isLeader p)), (''teamIndex'', JInt team)]))"

text \<open>\<open>INSERT OR REPLACE INTO players\<close> under the unique index on server and Steam id.\<close>

definition same_player :: "int \<Rightarrow> string \<Rightarrow> player_row \<Rightarrow> bool" where
  "same_player sid steam r = (pr_serverId r = sid \<and> pr_steamId r = steam)"

definition upsert_player :: "time \<Rightarrow> int \<Rightarrow> string \<Rightarrow> string \<Rightarrow> database \<Rightarrow> database" where
  "upsert_player now sid steam name d =
     (if \<not> server_exists d sid then d
      else
        let old = t_first (same_player sid steam) (db_players d)
        in d\<lparr>db_players := t_insert (\<lambda>i. \<lparr>pr_id = i, pr_serverId = sid, pr_steamId = steam, pr_name = name,
               pr_playtime = (case old of None \<Rightarrow> 0 | Some r \<Rightarrow> pr_playtime r),
               pr_firstSeen = (case old of None \<Rightarrow> now | Some r \<Rightarrow> pr_firstSeen r),
               pr_lastSeen = now, pr_lastIp = None\<rparr>)
             (t_delete (same_player sid steam) (db_players d))\<rparr>)"

text \<open>The loop over the players: the events so far, or \<open>None\<close> once a team id does not fit an \<open>int\<close>; rows
  written before that stay.\<close>

fun refresh_players :: "time \<Rightarrow> int \<Rightarrow> PlayerInfo list \<Rightarrow> database \<Rightarrow> json list option \<times> database" where
  "refresh_players now sid [] d = (Some [], d)"
| "refresh_players now sid (p # ps) d =
     (if pi_steamId p = [] then refresh_players now sid ps d
      else case player_event p of
        None \<Rightarrow> (None, d)
      | Some j \<Rightarrow>
          let (js, d') = refresh_players now sid ps (upsert_player now sid (pi_steamId p) (pi_name p) d)
          in (map_option (\<lambda>js. j # js) js, d'))"

text \<open>The first number in a text: digits with at most one point after the first digit.\<close>

fun first_number :: "string \<Rightarrow> bool \<Rightarrow> string \<Rightarrow> string" where
  "first_number num dot [] = num"
| "first_number num dot (c # cs) =
     (if is_digit c then first_number (num @ [c]) dot cs
      else if c = CHR ''.'' \<and> \<not> dot \<and> num \<noteq> [] then first_number (num @ [c]) True cs
      else if num \<noteq> [] then num
      else first_number num dot cs)"

definition tick_rate :: "string \<Rightarrow> double" where
  "tick_rate stats =
     (let or_else = (\<lambda>r d. case r of Inr v \<Rightarrow> v | Inl _ \<Rightarrow> d);
          t1 = (case str_find ''ick'' stats of
                  None \<Rightarrow> Fin 0 0
                | Some i \<Rightarrow>
                    (case str_find '':'' (drop i stats) of
                       None \<Rightarrow> Fin 0 0
                     | Some j \<Rightarrow> or_else (strtod (drop (j + 1) (drop i stats))) (Fin 0 0)));
          num = first_number [] False stats
      in if not_positive t1 \<and> num \<noteq> [] then or_else (strtod num) t1 else t1)"

definition record_tick :: "env \<Rightarrow> int \<Rightarrow> string \<Rightarrow> database \<Rightarrow> database" where
  "record_tick e sid stats d =
     (if stats = [] \<or> str_contains ''Error'' stats then d
      else (case tick_rate stats of
        Fin m ex \<Rightarrow>
          if in_range (Fin m ex) (config_getInt (e_cfg e) ''TICK_RATE_MAX'' 200)
          then d\<lparr>db_ticks := t_insert (\<lambda>i. \<lparr>ti_id = i, ti_serverId = sid, ti_tickRate = double_to_string m ex,
                   ti_timestamp = e_now e\<rparr>) (db_ticks d)\<rparr>
          else d
      | _ \<Rightarrow> d))"

text \<open>One server; \<open>None\<close> when the dispatch hangs. The counter counts the completed refreshes.\<close>

definition refresh_server :: "env \<Rightarrow> int \<Rightarrow> world \<times> nat \<Rightarrow> (world \<times> nat) option" where
  "refresh_server e sid wt =
     (let (w, tick) = wt; (raw, w1) = rcon_send e sid ''ListPlayers'' w
      in if raw = [] \<or> str_contains ''Error'' raw \<or> str_contains ''not connected'' raw then Some (w1, tick)
         else (case parsePlayerList raw of
           Inl _ \<Rightarrow> Some (w1, tick)
         | Inr ps \<Rightarrow>
             let (js, d) = refresh_players (e_now e) sid ps (w_db w1); w2 = w1\<lparr>w_db := d\<rparr>
             in case js of
                  None \<Rightarrow> Some (w2, tick)
                | Some players \<Rightarrow>
                    (case dispatch e \<lparr>ev_type = ''playerlist'', ev_serverId = sid,
                         ev_data = JObj [(''players'', JArr players)]\<rparr> w2 of
                       None \<Rightarrow> None
                     | Some w3 \<Rightarrow>
                         if (tick + 1) mod 10 = 0
                         then let (stats, w4) = rcon_send e sid ''ShowServerStats'' w3
                              in Some (on_db (record_tick e sid stats) w4, tick + 1)
                         else Some (w3, tick + 1))))"

text \<open>\<open>std::stoi\<close> of an id outside \<open>int\<close> ends the round.\<close>

fun refresh_servers :: "env \<Rightarrow> int list \<Rightarrow> world \<times> nat \<Rightarrow> (world \<times> nat) option" where
  "refresh_servers e [] wt = Some wt"
| "refresh_servers e (sid # sids) wt =
     (case stoi (to_string sid) of
        Inl _ \<Rightarrow> Some wt
      | Inr n \<Rightarrow> (case refresh_server e n wt of None \<Rightarrow> None | Some wt' \<Rightarrow> refresh_servers e sids wt'))"

definition autoRefresh_round :: "env \<Rightarrow> world \<times> nat \<Rightarrow> (world \<times> nat) option" where
  "autoRefresh_round e wt = refresh_servers e (map sv_id (t_rows (db_servers (w_db (fst wt))))) wt"

section \<open>The timed broadcasts (broadcastLoop)\<close>

record broadcaster =
  bc_index :: nat
  bc_last :: int

definition broadcast_cmd :: "string \<Rightarrow> string" where
  "broadcast_cmd msg = ''AdminBroadcast '' @ [CHR 0x22] @ rconSafe msg @ [CHR 0x22]"

fun broadcast_to :: "string \<Rightarrow> int list \<Rightarrow> world \<Rightarrow> world" where
  "broadcast_to msg [] w = w"
| "broadcast_to msg (sid # sids) w =
     (case stoi (to_string sid) of Inl _ \<Rightarrow> w | Inr n \<Rightarrow> broadcast_to msg sids (rcon_do n (broadcast_cmd msg) w))"

definition broadcast_round :: "env \<Rightarrow> broadcaster \<times> world \<Rightarrow> broadcaster \<times> world" where
  "broadcast_round e bw =
     (let (b, w) = bw in
      if \<not> getSettingBool (w_db w) ''broadcast_enabled'' False then (b, w)
      else if e_ms e - bc_last b < getSettingInt (w_db w) ''broadcast_interval'' 300 * 1000 then (b, w)
      else
        let b1 = b\<lparr>bc_last := e_ms e\<rparr>
        in case e_parse e (getSetting (w_db w) ''broadcast_messages'' ''[]'') of
             Some (JArr (m # ms)) \<Rightarrow>
               (case (m # ms) ! (bc_index b mod length (m # ms)) of
                  JStr msg \<Rightarrow> (b1\<lparr>bc_index := bc_index b + 1\<rparr>,
                    broadcast_to msg (map sv_id (t_rows (db_servers (w_db w)))) w)
                | _ \<Rightarrow> (b1, w))
           | _ \<Rightarrow> (b1, w))"

section \<open>The clean-up (sessionCleanupLoop)\<close>

definition cleanup_round :: "time \<Rightarrow> database \<Rightarrow> database" where
  "cleanup_round now d =
     d\<lparr>db_sessions := filter (\<lambda>s. \<not> s_expiresAt s < now) (db_sessions d),
       db_point_logs := t_delete (\<lambda>l. pl_createdAt l < now - 90 * 86400) (db_point_logs d)\<rparr>"

section \<open>The players table\<close>

definition player_of :: "database \<Rightarrow> int \<Rightarrow> string \<Rightarrow> player_row option" where
  "player_of d sid steam = t_first (same_player sid steam) (db_players d)"

lemma find_append: "find P (xs @ ys) = (case find P xs of None \<Rightarrow> find P ys | Some x \<Rightarrow> Some x)"
  by (induction xs) simp_all

lemma find_filter_other: "(\<And>x. P x \<Longrightarrow> Q x) \<Longrightarrow> find P (filter Q xs) = find P xs"
  by (induction xs) auto

lemma find_filter_none: "(\<And>x. P x \<Longrightarrow> \<not> Q x) \<Longrightarrow> find P (filter Q xs) = None"
  by (induction xs) auto

text \<open>The upsert seen through the lookup: the stored play time and first sight survive.\<close>

lemma player_of_upsert:
  assumes "server_exists d sid"
  shows "player_of (upsert_player now sid steam name d) sid' steam' =
    (if sid' = sid \<and> steam' = steam
     then Some \<lparr>pr_id = t_seq (db_players d) + 1, pr_serverId = sid, pr_steamId = steam, pr_name = name,
       pr_playtime = (case player_of d sid steam of None \<Rightarrow> 0 | Some r \<Rightarrow> pr_playtime r),
       pr_firstSeen = (case player_of d sid steam of None \<Rightarrow> now | Some r \<Rightarrow> pr_firstSeen r),
       pr_lastSeen = now, pr_lastIp = None\<rparr>
     else player_of d sid' steam')"
proof (cases "sid' = sid \<and> steam' = steam")
  case True
  have "find (same_player sid steam) (filter (\<lambda>r. \<not> same_player sid steam r) (t_rows (db_players d))) = None"
    by (rule find_filter_none) simp
  then show ?thesis
    using assms True by (simp add: player_of_def upsert_player_def t_first_def find_append Let_def same_player_def)
next
  case False
  then have "find (same_player sid' steam') (filter (\<lambda>r. \<not> same_player sid steam r) (t_rows (db_players d))) =
      find (same_player sid' steam') (t_rows (db_players d))"
    by (intro find_filter_other) (auto simp: same_player_def)
  then show ?thesis
    using assms False
    by (simp add: player_of_def upsert_player_def t_first_def find_append Let_def split: option.split)
      (auto simp: same_player_def)
qed

lemma upsert_frame [simp]:
  "db_servers (upsert_player now sid steam name d) = db_servers d"
  "server_exists (upsert_player now sid steam name d) = server_exists d"
  by (simp_all add: upsert_player_def Let_def server_exists_def fun_eq_iff)

text \<open>What a refresh leaves for a listed player.\<close>

definition seen_as :: "time \<Rightarrow> int \<Rightarrow> PlayerInfo \<Rightarrow> database \<Rightarrow> database \<Rightarrow> bool" where
  "seen_as now sid p d d' = (\<exists>r. player_of d' sid (pi_steamId p) = Some r \<and> pr_name r = pi_name p \<and>
     pr_lastSeen r = now \<and>
     pr_playtime r = (case player_of d sid (pi_steamId p) of None \<Rightarrow> 0 | Some r \<Rightarrow> pr_playtime r) \<and>
     pr_firstSeen r = (case player_of d sid (pi_steamId p) of None \<Rightarrow> now | Some r \<Rightarrow> pr_firstSeen r))"

lemma refresh_players_rows:
  assumes "refresh_players now sid ps d = (Some js, d')" "server_exists d sid"
    and "distinct (map pi_steamId ps)" "list_all (\<lambda>p. pi_steamId p \<noteq> []) ps"
  shows "(\<forall>p\<in>set ps. seen_as now sid p d d') \<and>
    (\<forall>sid' steam. sid' \<noteq> sid \<or> steam \<notin> pi_steamId ` set ps \<longrightarrow> player_of d' sid' steam = player_of d sid' steam)"
  using assms
proof (induction ps arbitrary: d js)
  case (Cons p ps)
  let ?d1 = "upsert_player now sid (pi_steamId p) (pi_name p) d"
  from Cons.prems obtain js1 where r: "refresh_players now sid ps ?d1 = (Some js1, d')"
    by (auto simp: case_prod_beta Let_def prod_eq_iff split: option.splits)
  note ih = Cons.IH [OF r] and u = player_of_upsert [OF Cons.prems(2), of now "pi_steamId p" "pi_name p"]
  have 1: "\<forall>q\<in>set ps. seen_as now sid q ?d1 d'"
    and 2: "sid' \<noteq> sid \<or> steam \<notin> pi_steamId ` set ps \<Longrightarrow> player_of d' sid' steam = player_of ?d1 sid' steam" for sid' steam
    using ih Cons.prems by auto
  have "seen_as now sid p d d'" using 2 [of sid "pi_steamId p"] Cons.prems(3) by (simp add: seen_as_def u)
  moreover have "seen_as now sid q d d'" if "q \<in> set ps" for q
  proof -
    have "pi_steamId q \<noteq> pi_steamId p" using that Cons.prems(3) by (metis distinct.simps(2) image_eqI list.simps(9) set_map)
    then have "player_of ?d1 sid (pi_steamId q) = player_of d sid (pi_steamId q)" by (simp add: u)
    then show ?thesis using 1 [rule_format, OF that] by (simp only: seen_as_def)
  qed
  ultimately show ?case using 2 by (auto simp: u)
qed simp

lemma refresh_players_total:
  "list_all (\<lambda>p. player_event p \<noteq> None) ps \<Longrightarrow> \<exists>js d'. refresh_players now sid ps d = (Some js, d')"
proof (induction ps arbitrary: d)
  case (Cons p ps)
  then obtain j where j: "player_event p = Some j" by auto
  from Cons.IH [of d] Cons.IH [of "upsert_player now sid (pi_steamId p) (pi_name p) d"] Cons.prems
  show ?case by (auto simp: j)
qed simp

lemma stoi_digits:
  assumes "s \<noteq> []" "list_all is_digit s" "in_int (int (digits_val s))"
  shows "stoi s = Inr (int (digits_val s))"
proof -
  obtain c cs where s: "s = c # cs" using assms(1) by (cases s) auto
  have "is_digit c" using assms(2) s by simp
  then have d: "dropWhile is_space s = s" and h: "hd s \<noteq> CHR ''-''" "hd s \<noteq> CHR ''+''"
    using digit_not_space [of c] by (auto simp: s is_digit_def byte_of_def)
  have w: "takeWhile is_digit s = s" using assms(2) by (simp add: list_all_iff takeWhile_eq_all_conv)
  show ?thesis unfolding stoi_def sto_parse_def Let_def d using assms(1,3) h by (simp add: in_int_def w)
qed

section \<open>The plugins leave the players alone\<close>

lemma players_frame [simp]:
  "db_players (addBalance now sid steam name amt reason d) = db_players d"
  "db_players (reserved_insert now sid steam name who until d) = db_players d"
  "db_players (cdk_record now sid steam name cdk val d) = db_players d"
  "db_players (cdk_reward now sid steam name ty val code d) = db_players d"
  "db_players (tk_mark_forgiven r d) = db_players d"
  "db_players (tk_insert now sid k kn v vn secs d) = db_players d"
  by (simp_all add: addBalance_def log_points_def points_update_def points_insert_def reserved_insert_def
      cdk_record_def cdk_reward_def tk_mark_forgiven_def tk_insert_def split: option.split)

lemma playerlist_others:
  assumes "ev_type ev = ''playerlist''"
  shows "dispatch e ev w = (case TeamBalance_handle e ev w of Ret w' \<Rightarrow> Some w' | Throw \<Rightarrow> Some w | Loop \<Rightarrow> None)"
  using assms by (simp add: dispatch_def plugins_def handle_def CDKRedeem_handle_def ChatCommands_handle_def
      SwitchLock_handle_def TKForgive_handle_def Welcome_handle_def split: run.split)

lemma playerlist_db: "ev_type ev = ''playerlist'' \<Longrightarrow> dispatch e ev w = Some w' \<Longrightarrow> w_db w' = w_db w"
  using db_balance [of e ev w] by (auto simp: playerlist_others split: run.splits)

lemma tick_players [simp]: "db_players (record_tick e sid stats d) = db_players d"
  by (simp add: record_tick_def split: double.split)

section \<open>Sessions\<close>

text \<open>With unique tokens, the first match among the kept sessions is the first match, if it is kept.\<close>

lemma join_filter:
  assumes "distinct (map s_token ss)"
  shows "find (\<lambda>(s, u). s_token s = tok \<and> s_userId s = u_id u) (List.product (filter Q ss) us) =
    (case find (\<lambda>(s, u). s_token s = tok \<and> s_userId s = u_id u) (List.product ss us) of None \<Rightarrow> None
     | Some (s, u) \<Rightarrow> if Q s then Some (s, u) else None)"
  using assms
proof (induction ss)
  case (Cons s ss)
  let ?P = "\<lambda>(s, u). s_token s = tok \<and> s_userId s = u_id u"
  have other: "find ?P (List.product ss us) = None" if "s_token s = tok"
    using Cons.prems that by (auto simp: find_None_iff) (metis image_eqI)
  have other': "find ?P (List.product (filter Q ss) us) = None" if "s_token s = tok"
    using Cons.prems that by (auto simp: find_None_iff) (metis image_eqI)
  show ?case
  proof (cases "find ?P (map (Pair s) us)")
    case None
    then show ?thesis using Cons by (simp add: find_append)
  next
    case (Some su)
    then have "fst su = s" "s_token s = tok" by (auto dest!: find_SomeD)
    then show ?thesis using Some other other' by (cases su) (simp add: find_append)
  qed
qed simp

section \<open>Properties\<close>

text \<open>A refresh of a known server whose console prints a player list records exactly these players:
  each has one current row under its name, seen now, with the play time and first sight it had before, and
  every other player's row stays as it was.\<close>
theorem refresh_records_players:
  assumes "refresh_server e sid (w, k) = Some (w', k')" "e_reply e (w_sent w) sid ''ListPlayers'' = player_list_text ps"
    and "list_all player_ok ps" "distinct (map pi_steamId ps)" "list_all (\<lambda>p. in_int (int (digits_val (pi_teamId p)))) ps"
    and "\<not> str_contains ''Error'' (player_list_text ps)" "\<not> str_contains ''not connected'' (player_list_text ps)"
    and "server_exists (w_db w) sid"
  shows "k' = k + 1 \<and> (\<forall>p. p \<in> set ps \<longrightarrow> seen_as (e_now e) sid p (w_db w) (w_db w')) \<and>
    (\<forall>sid' steam. sid' \<noteq> sid \<or> steam \<notin> pi_steamId ` set ps \<longrightarrow>
       player_of (w_db w') sid' steam = player_of (w_db w) sid' steam)"
proof -
  have ids: "list_all (\<lambda>p. pi_steamId p \<noteq> []) ps"
    using assms(3) by (auto simp: list_all_iff player_ok_def over_def)
  have "player_event p \<noteq> None" if "p \<in> set ps" for p
  proof -
    have "pi_teamId p \<noteq> []" "list_all is_digit (pi_teamId p)" "in_int (int (digits_val (pi_teamId p)))"
      using that assms(3,5) by (auto simp: list_all_iff player_ok_def over_def)
    then show ?thesis using stoi_digits [of "pi_teamId p"] by (simp add: player_event_def)
  qed
  then have evs: "list_all (\<lambda>p. player_event p \<noteq> None) ps" by (simp add: list_all_iff)
  obtain js d where r: "refresh_players (e_now e) sid ps (w_db w) = (Some js, d)"
    using refresh_players_total [OF evs, of "e_now e" sid "w_db w"] by (elim exE)
  let ?ev = "\<lparr>ev_type = ''playerlist'', ev_serverId = sid, ev_data = JObj [(''players'', JArr js)]\<rparr>"
  let ?w2 = "(rcon_do sid ''ListPlayers'' w)\<lparr>w_db := d\<rparr>"
  have ne: "player_list_text ps \<noteq> []" by (simp add: player_list_text_def unlines_def)
  from assms(1) r obtain w3 where w3: "dispatch e ?ev ?w2 = Some w3"
    and w': "db_players (w_db w') = db_players (w_db w3)" "k' = k + 1"
    using ne assms(6,7) parse_printed_list [OF assms(3)]
    by (auto simp: refresh_server_def rcon_send_def [folded rcon_do_def] Let_def assms(2) rcon_do_def split: option.splits if_splits)
  have "db_players (w_db w3) = db_players d" using playerlist_db [OF _ w3] by simp
  with w'(1) have "player_of (w_db w') = player_of d" by (simp add: player_of_def fun_eq_iff)
  then show ?thesis using refresh_players_rows [OF r assms(8,4) ids] w'(2) by (simp add: seen_as_def)
qed

lemma refresh_server_ok:
  assumes "e_reply e (w_sent w) sid ''ListPlayers'' = raw" "raw \<noteq> []" "\<not> str_contains ''Error'' raw"
    and "\<not> str_contains ''not connected'' raw" "parsePlayerList raw = Inr ps"
    and "refresh_players (e_now e) sid ps (w_db w) = (Some js, d)" "\<not> getSettingBool d ''team_balance_enabled'' False"
    and "(k + 1) mod 10 \<noteq> 0"
  shows "refresh_server e sid (w, k) = Some ((rcon_do sid ''ListPlayers'' w)\<lparr>w_db := d\<rparr>, k + 1)"
  using assms by (simp add: refresh_server_def case_prod_beta playerlist_others TeamBalance_handle_def)

definition demo_player :: PlayerInfo where
  "demo_player = \<lparr>pi_rconId = 4, pi_steamId = ''765'', pi_eosId = ''0a'', pi_name = ''Bob'', pi_teamId = ''1'',
     pi_squadId = [], pi_isLeader = True, pi_role = ''R''\<rparr>"

lemma demo_player_ok: "player_ok demo_player" "player_event demo_player \<noteq> None"
  by (simp_all add: demo_player_def player_ok_def field_def over_def byte_of_def is_space_def is_digit_def player_event_def
      stoi_def sto_parse_def Let_def digits_val_def digit_val_def)

lemma demo_player_text:
  "\<not> str_contains ''Error'' (player_list_text [demo_player])" "\<not> str_contains ''not connected'' (player_list_text [demo_player])"
  "player_list_text [demo_player] \<noteq> []"
  by code_simp+

theorem refresh_records_players_witness:
  "\<exists>w'. refresh_server ((demo_env 50)\<lparr>e_reply := (\<lambda>_ _ _. player_list_text [demo_player])\<rparr>) 1 (demo_world demo_db, 3) = Some (w', 4)
     \<and> seen_as 50 1 demo_player demo_db (w_db w')"
proof -
  let ?e = "(demo_env 50)\<lparr>e_reply := (\<lambda>_ _ _. player_list_text [demo_player])\<rparr>"
  have p: "parsePlayerList (player_list_text [demo_player]) = Inr [demo_player]"
    by (rule parse_printed_list) (simp add: demo_player_ok)
  obtain js d where r: "refresh_players 50 1 [demo_player] demo_db = (Some js, d)"
    using refresh_players_total [of "[demo_player]" 50 1 demo_db] demo_player_ok by auto
  have s: "db_settings d = db_settings demo_db"
    using r by (auto simp: upsert_player_def Let_def case_prod_beta split: if_splits option.splits)
  have "\<exists>w'. refresh_server ?e 1 (demo_world demo_db, 3) = Some (w', 4)"
    using refresh_server_ok [of ?e "demo_world demo_db" 1 _ "[demo_player]" js d 3] demo_player_text p r s
    by (auto simp: demo_env_def getSettingBool_def getSettingInt_def demo_db_def empty_db_def)
  then obtain w' where w': "refresh_server ?e 1 (demo_world demo_db, 3) = Some (w', 4)" by (elim exE)
  have "seen_as (e_now ?e) 1 demo_player (w_db (demo_world demo_db)) (w_db w')"
    by (rule refresh_records_players [OF w', THEN conjunct2, THEN conjunct1, rule_format, where ps = "[demo_player]"])
      (simp_all add: demo_player_ok demo_player_text demo_db_ok, simp add: demo_player_def digits_val_def digit_val_def byte_of_def in_int_def)
  then show ?thesis using w' by (intro exI [of _ w']) (simp add: demo_env_def)
qed

text \<open>Due rounds send the configured messages in rotation, each to every server once in table order.\<close>
theorem broadcast_rotation:
  assumes "getSettingBool (w_db w) ''broadcast_enabled'' False"
    and "e_parse e (getSetting (w_db w) ''broadcast_messages'' ''[]'') = Some (JArr (map JStr msgs))" "msgs \<noteq> []"
    and "getSettingInt (w_db w) ''broadcast_interval'' 300 * 1000 \<le> e_ms e - bc_last b"
    and "list_all (\<lambda>r. in_int (sv_id r)) (t_rows (db_servers (w_db w)))"
  shows "broadcast_round e (b, w) = (\<lparr>bc_index = bc_index b + 1, bc_last = e_ms e\<rparr>,
    w\<lparr>w_sent := w_sent w @ map (\<lambda>r. (sv_id r, broadcast_cmd (msgs ! (bc_index b mod length msgs))))
      (t_rows (db_servers (w_db w)))\<rparr>)"
proof -
  have to: "list_all in_int ids \<Longrightarrow> broadcast_to msg ids v =
      v\<lparr>w_sent := w_sent v @ map (\<lambda>sid. (sid, broadcast_cmd msg)) ids\<rparr>" for msg ids v
    by (induction ids arbitrary: v) (simp_all add: rcon_do_def)
  obtain m ms where m: "msgs = m # ms" using assms(3) by (cases msgs) auto
  have nth: "(JStr m # map JStr ms) ! (bc_index b mod Suc (length ms)) = JStr (msgs ! (bc_index b mod length msgs))"
    using nth_map [of "bc_index b mod length msgs" msgs JStr] by (simp add: m)
  show ?thesis
    using assms(1,2,4,5) to [of "map sv_id (t_rows (db_servers (w_db w)))"]
    by (simp add: broadcast_round_def m nth [unfolded m] list_all_iff comp_def)
qed

definition demo_broadcasts :: "json list \<Rightarrow> env" where
  "demo_broadcasts js = (demo_env 0)\<lparr>e_ms := 400000, e_parse := (\<lambda>_. Some (JArr js))\<rparr>"

definition demo_broadcast_db :: database where
  "demo_broadcast_db = demo_db\<lparr>db_settings := [''broadcast_enabled'' \<mapsto> ''1'']\<rparr>"

theorem broadcast_rotation_witness:
  "w_sent (snd (broadcast_round (demo_broadcasts [JStr ''a'', JStr ''b'']) (\<lparr>bc_index = 3, bc_last = 100000\<rparr>, demo_world demo_broadcast_db)))
   = [(1, broadcast_cmd ''b'')]"
  by (subst broadcast_rotation [where msgs = "[''a'', ''b'']"])
    (simp_all add: demo_broadcasts_def demo_broadcast_db_def demo_db_def empty_db_def getSettingBool_def getSettingInt_def
      stoi_def sto_parse_def Let_def digits_val_def digit_val_def is_space_def is_digit_def byte_of_def t_empty_def,
      simp flip: numeral_2_eq_2)

text \<open>Once an entry that is not a string comes up, no later round sends anything: the index only
  moves past messages that were sent.\<close>
theorem bad_message_blocks:
  assumes "\<forall>e\<in>set es. e_parse e (getSetting (w_db w) ''broadcast_messages'' ''[]'') = Some (JArr js)"
    and "js \<noteq> []" "\<nexists>s. js ! (bc_index b mod length js) = JStr s"
  shows "bc_index (fst (fold broadcast_round es (b, w))) = bc_index b \<and> snd (fold broadcast_round es (b, w)) = w"
  using assms(1,3)
proof (induction es arbitrary: b)
  case (Cons e es)
  obtain j0 js0 where js: "js = j0 # js0" using assms(2) by (cases js) auto
  obtain last' where "broadcast_round e (b, w) = (b\<lparr>bc_last := last'\<rparr>, w)"
  proof -
    have "broadcast_round e (b, w) = (b, w) \<or> broadcast_round e (b, w) = (b\<lparr>bc_last := e_ms e\<rparr>, w)"
      using Cons.prems by (simp add: broadcast_round_def Let_def js split: json.split)
    moreover have "b = b\<lparr>bc_last := bc_last b\<rparr>" by simp
    ultimately show thesis using that by metis
  qed
  then show ?case using Cons.IH [of "b\<lparr>bc_last := last'\<rparr>"] Cons.prems by simp
qed simp

theorem bad_message_blocks_witness:
  "bc_index (fst (fold broadcast_round [demo_broadcasts [JInt 1, JStr ''b''], demo_broadcasts [JInt 1, JStr ''b'']]
     (\<lparr>bc_index = 0, bc_last = 0\<rparr>, demo_world demo_broadcast_db))) = 0"
  using bad_message_blocks [of "[demo_broadcasts [JInt 1, JStr ''b''], demo_broadcasts [JInt 1, JStr ''b'']]"
      "demo_world demo_broadcast_db" "[JInt 1, JStr ''b'']" "\<lparr>bc_index = 0, bc_last = 0\<rparr>"]
  by (simp add: demo_broadcasts_def)

text \<open>The clean-up deletes exactly the expired sessions, and no login is lost by it: a session is
  accepted after it exactly when it was before.\<close>
theorem cleanup_keeps_logins:
  assumes "distinct (map s_token (db_sessions d))"
  shows "ses_valid (fst (getSession now token (cleanup_round now d))) = ses_valid (fst (getSession now token d))
    \<and> db_sessions (cleanup_round now d) = filter (\<lambda>s. now \<le> s_expiresAt s) (db_sessions d)"
proof -
  have users: "db_users (cleanup_round now d) = db_users d" by (simp add: cleanup_round_def)
  have sess: "db_sessions (cleanup_round now d) = filter (\<lambda>s. now \<le> s_expiresAt s) (db_sessions d)"
    by (simp add: cleanup_round_def not_less)
  have "session_join (cleanup_round now d) token = (case session_join d token of None \<Rightarrow> None
       | Some (s, u) \<Rightarrow> if now \<le> s_expiresAt s then Some (s, u) else None)"
    using join_filter [OF assms, of token "\<lambda>s. now \<le> s_expiresAt s"] by (simp add: session_join_def users sess)
  then show ?thesis unfolding getSession_valid_iff sess by (auto split: option.splits if_splits)
qed

theorem cleanup_keeps_logins_witness:
  "ses_valid (fst (getSession 5 ''t'' (cleanup_round 5 demo_db))) = ses_valid (fst (getSession 5 ''t'' demo_db))"
  using cleanup_keeps_logins [of demo_db 5 "''t''"] by (simp add: demo_db_def empty_db_def)

end
