(* ===== verification/Http.thy ===== *)
theory Http
  imports World Auth
begin

text \<open>
  The HTTP layer (net/server.cpp, net/server.h): requests and responses, the context a handler gets, and
  the wrapper every route is registered with, which parses the body and checks the session. Routing and
  the transport are cpp-httplib's. A handler maps a context and the panel's state to the new state and the
  response; \<open>None\<close> is a handler that never returns. The library turns an exception into a 500.
\<close>

section \<open>The panel's state\<close>

text \<open>The world, and the module-level state of handlers/event_handler.cpp: the log parser's wounds, the team
  of every player, the live player lists and the time of the last suicide, by server.\<close>

record TeamMapEntry =
  te_name :: string
  te_teamId :: string

record LiveData =
  ld_players :: "PlayerInfo list"
  ld_updatedAt :: string

record panel =
  pn_world :: world
  pn_wounds :: wounds
  pn_teams :: "int \<rightharpoonup> (string \<rightharpoonup> TeamMapEntry)"
  pn_live :: "int \<rightharpoonup> LiveData"
  pn_suicide :: "int \<rightharpoonup> int"

abbreviation pn_db :: "panel \<Rightarrow> database" where
  "pn_db p \<equiv> w_db (pn_world p)"

definition on_world :: "(world \<Rightarrow> world) \<Rightarrow> panel \<Rightarrow> panel" where
  "on_world f p = p\<lparr>pn_world := f (pn_world p)\<rparr>"

definition pn_exec :: "(database \<Rightarrow> database) \<Rightarrow> panel \<Rightarrow> panel" where
  "pn_exec f = on_world (on_db f)"

lemma panel_simps [simp]:
  "pn_world (on_world f p) = f (pn_world p)" "pn_wounds (on_world f p) = pn_wounds p"
  "pn_teams (on_world f p) = pn_teams p" "pn_live (on_world f p) = pn_live p" "pn_suicide (on_world f p) = pn_suicide p"
  "pn_world (pn_exec g p) = on_db g (pn_world p)" "pn_wounds (pn_exec g p) = pn_wounds p"
  "pn_teams (pn_exec g p) = pn_teams p" "pn_live (pn_exec g p) = pn_live p" "pn_suicide (pn_exec g p) = pn_suicide p"
  by (simp_all add: on_world_def pn_exec_def)

section \<open>Requests, responses, contexts\<close>

record request =
  rq_method :: string
  rq_headers :: "(string \<times> string) list"
  rq_params :: "(string \<times> string) list"
  rq_matches :: "string list"
  rq_body :: string

record response =
  re_status :: int
  re_body :: json

text \<open>Header names are compared without case; the first of several headers counts.\<close>

definition header :: "request \<Rightarrow> string \<Rightarrow> string" where
  "header req key =
     (case find (\<lambda>(k, _). map to_lower k = map to_lower key) (rq_headers req) of None \<Rightarrow> [] | Some (_, v) \<Rightarrow> v)"

record Context =
  cx_req :: request
  cx_body :: json
  cx_userId :: string
  cx_username :: string
  cx_role :: string
  cx_authenticated :: bool

definition ctx_json :: "json \<Rightarrow> int \<Rightarrow> response" where
  "ctx_json data st = \<lparr>re_status = st, re_body = data\<rparr>"

definition ctx_error :: "string \<Rightarrow> int \<Rightarrow> response" where
  "ctx_error msg st = \<lparr>re_status = st, re_body = JObj [(''error'', JStr msg)]\<rparr>"

definition ctx_param :: "Context \<Rightarrow> nat \<Rightarrow> string" where
  "ctx_param ctx i = (if i < length (rq_matches (cx_req ctx)) then rq_matches (cx_req ctx) ! i else [])"

definition ctx_query :: "Context \<Rightarrow> string \<Rightarrow> string \<Rightarrow> string" where
  "ctx_query ctx key fallback = (case map_of (rq_params (cx_req ctx)) key of None \<Rightarrow> fallback | Some v \<Rightarrow> v)"

text \<open>\<open>jsonStr(ctx.body, key)\<close>.\<close>

abbreviation body_str :: "env \<Rightarrow> Context \<Rightarrow> string \<Rightarrow> string" where
  "body_str e ctx key \<equiv> jsonStr (e_dump e) (cx_body ctx) key []"

definition server_error :: response where
  "server_error = \<lparr>re_status = 500, re_body = JNull\<rparr>"

lemma response_simps [simp]:
  "re_status (ctx_json data st) = st" "re_status (ctx_error msg st) = st" "re_body (ctx_json data st) = data"
  "re_status server_error = 500"
  by (simp_all add: ctx_json_def ctx_error_def server_error_def)

type_synonym handler = "Context \<Rightarrow> panel \<Rightarrow> (panel \<times> response) option"

section \<open>The wrapper (Server::registerRoute)\<close>

definition bearer :: "string \<Rightarrow> string" where
  "bearer h = (if length h > 7 \<and> take 7 h = ''Bearer '' then drop 7 h else h)"

definition parse_body :: "env \<Rightarrow> request \<Rightarrow> json" where
  "parse_body e req = (if rq_body req = [] then JNull else case e_parse e (rq_body req) of None \<Rightarrow> JNull | Some j \<Rightarrow> j)"

definition wrap :: "env \<Rightarrow> bool \<Rightarrow> handler \<Rightarrow> request \<Rightarrow> panel \<Rightarrow> (panel \<times> response) option" where
  "wrap e authRequired h req p =
     (let ctx = \<lparr>cx_req = req, cx_body = parse_body e req, cx_userId = [], cx_username = [], cx_role = [],
                cx_authenticated = False\<rparr>
      in if \<not> authRequired then h ctx p
         else if header req ''Authorization'' = [] then Some (p, ctx_error ''Not authenticated'' 401)
         else
           let token = bearer (header req ''Authorization'');
               (session, d) = getSession (e_now e) token (pn_db p);
               p1 = pn_exec (\<lambda>_. d) p
           in if \<not> ses_valid session \<or> ses_token session = [] then Some (p1, ctx_error ''Invalid or expired token'' 401)
              else if length token \<noteq> length (ses_token session) \<or> token \<noteq> ses_token session
              then Some (p1, ctx_error ''Invalid or expired token'' 401)
              else h (ctx\<lparr>cx_userId := ses_userId session, cx_username := ses_username session,
                     cx_role := ses_role session, cx_authenticated := True\<rparr>) p1)"

text \<open>The pre-routing handler answers a CORS preflight itself.\<close>

definition serve :: "env \<Rightarrow> bool \<Rightarrow> handler \<Rightarrow> request \<Rightarrow> panel \<Rightarrow> (panel \<times> response) option" where
  "serve e authRequired h req p =
     (if rq_method req = ''OPTIONS'' then Some (p, \<lparr>re_status = 204, re_body = JNull\<rparr>)
      else wrap e authRequired h req p)"

text \<open>What is known when a protected handler has run.\<close>

lemma serve_session:
  assumes "serve e True h req p = Some (p', r)" "re_status r \<noteq> 401" "rq_method req \<noteq> ''OPTIONS''"
  shows "\<exists>s u ctx p1. session_join (pn_db p) (bearer (header req ''Authorization'')) = Some (s, u)
    \<and> s \<in> set (db_sessions (pn_db p)) \<and> s_token s = bearer (header req ''Authorization'') \<and> e_now e \<le> s_expiresAt s
    \<and> u \<in> set (t_rows (db_users (pn_db p))) \<and> s_userId s = u_id u \<and> u_status u = ''active''
    \<and> h ctx p1 = Some (p', r) \<and> cx_userId ctx = to_string (u_id u) \<and> cx_role ctx = u_role u \<and> cx_authenticated ctx"
proof -
  let ?t = "bearer (header req ''Authorization'')"
  let ?s = "fst (getSession (e_now e) ?t (pn_db p))"
  have v: "ses_valid ?s" and h: "\<exists>ctx p1. h ctx p1 = Some (p', r) \<and> cx_userId ctx = ses_userId ?s \<and> cx_role ctx = ses_role ?s \<and> cx_authenticated ctx"
    using assms by (auto simp: serve_def wrap_def Let_def case_prod_beta split: if_splits)
  then obtain s u where j: "session_join (pn_db p) ?t = Some (s, u)" "u_status u = ''active''" "e_now e \<le> s_expiresAt s"
    by (auto simp: getSession_valid_iff)
  note r = getSession_role [OF j(1) v]
  show ?thesis using h j session_joinD [OF j(1)] r by (intro exI [of _ s] exI [of _ u]) auto
qed

text \<open>C5: on a protected route the handler runs only for a stored, unexpired session of an active user whose
  token the request carries, and as that user with the user's own role; every other request gets a 401
  or the answer to a preflight.\<close>
theorem route_guard:
  assumes "serve e True h req p = Some (p', r)" "re_status r \<noteq> 401" "rq_method req \<noteq> ''OPTIONS''"
  shows "\<exists>s u ctx p1. session_join (pn_db p) (bearer (header req ''Authorization'')) = Some (s, u)
    \<and> s \<in> set (db_sessions (pn_db p)) \<and> s_token s = bearer (header req ''Authorization'') \<and> e_now e \<le> s_expiresAt s
    \<and> u \<in> set (t_rows (db_users (pn_db p))) \<and> s_userId s = u_id u \<and> u_status u = ''active''
    \<and> h ctx p1 = Some (p', r) \<and> cx_userId ctx = to_string (u_id u) \<and> cx_role ctx = u_role u \<and> cx_authenticated ctx"
  by (rule serve_session [OF assms])

definition route_db :: database where
  "route_db = empty_db\<lparr>
     db_users := t_insert (\<lambda>i. \<lparr>u_id = i, u_username = ''a'', u_passwordHash = [], u_role = ''admin'', u_status = ''active'',
       u_createdAt = 0, u_lastLogin = None, u_steamId = None, u_rejectReason = None\<rparr>) t_empty,
     db_sessions := [\<lparr>s_token = ''tok'', s_userId = 1, s_createdAt = 0, s_expiresAt = 200, s_lastActivity = 0\<rparr>]\<rparr>"

definition route_panel :: "database \<Rightarrow> panel" where
  "route_panel d = \<lparr>pn_world = demo_world d, pn_wounds = [], pn_teams = Map.empty, pn_live = Map.empty,
     pn_suicide = Map.empty\<rparr>"

definition route_request :: "string \<Rightarrow> request" where
  "route_request tok = \<lparr>rq_method = ''GET'', rq_headers = [(''authorization'', ''Bearer '' @ tok)], rq_params = [],
     rq_matches = [], rq_body = []\<rparr>"

lemma route_serves:
  "\<exists>p'. serve (demo_env 100) True (\<lambda>ctx p. Some (p, ctx_json (JStr (cx_role ctx)) 200)) (route_request ''tok'')
     (route_panel route_db) = Some (p', ctx_json (JStr ''admin'') 200)"
proof -
  have one: "to_string 1 = ''1''" by code_simp
  have k: "header (route_request ''tok'') ''Authorization'' = ''Bearer tok''" by code_simp
  have b: "bearer ''Bearer tok'' = ''tok''" by code_simp
  have j: "session_join route_db ''tok'' = Some (hd (db_sessions route_db), hd (t_rows (db_users route_db)))"
    by (simp add: session_join_def route_db_def t_insert_def t_empty_def empty_db_def)
  have g: "\<exists>d. getSession 100 ''tok'' route_db = (\<lparr>ses_token = ''tok'', ses_userId = ''1'', ses_username = ''a'',
      ses_role = ''admin'', ses_status = ''active'', ses_expiresAt = Some 200, ses_valid = True\<rparr>, d)"
    unfolding getSession_def j by (simp add: route_db_def t_insert_def t_empty_def one)
  show ?thesis using g
    by (auto simp: serve_def wrap_def Let_def k b route_panel_def demo_env_def) (simp add: route_request_def)
qed

theorem route_guard_witness:
  "\<exists>s u. session_join route_db ''tok'' = Some (s, u) \<and> s \<in> set (db_sessions route_db) \<and> 100 \<le> s_expiresAt s
     \<and> u_status u = ''active''"
proof -
  obtain p' where "serve (demo_env 100) True (\<lambda>ctx p. Some (p, ctx_json (JStr (cx_role ctx)) 200)) (route_request ''tok'')
     (route_panel route_db) = Some (p', ctx_json (JStr ''admin'') 200)" using route_serves by blast
  moreover have "rq_method (route_request ''tok'') \<noteq> ''OPTIONS''" by (simp add: route_request_def)
  moreover have "bearer (header (route_request ''tok'') ''Authorization'') = ''tok''" by code_simp
  moreover have "pn_db (route_panel route_db) = route_db" "e_now (demo_env 100) = 100"
    by (simp_all add: route_panel_def demo_env_def)
  ultimately show ?thesis using route_guard by fastforce
qed

end
