(* ===== verification/EventRoutes.thy ===== *)
theory EventRoutes
  imports Http Plugins
begin

text \<open>
  The routes the log relays post to (handlers/event_handler.cpp): API-key validation, the live player
  lists and team maps, and one handler per event, the last of which parses raw log lines and dispatches
  what they yield. The handlers run with the dependencies \<open>initEventModule\<close> and \<open>main\<close> set.
\<close>

section \<open>The relay's key\<close>

text \<open>\<open>None\<close>: the body's \<open>apiKey\<close> is not a string, which throws.\<close>

definition validateRelayApiKey :: "database \<Rightarrow> request \<Rightarrow> json \<Rightarrow> int option" where
  "validateRelayApiKey d req body =
     (let hdr = header req ''X-API-Key'';
          key = (if hdr \<noteq> [] \<or> \<not> j_contains body ''apiKey'' then Some hdr
                 else (case j_lookup body ''apiKey'' of Some (JStr s) \<Rightarrow> Some s | _ \<Rightarrow> None))
      in case key of
           None \<Rightarrow> None
         | Some k \<Rightarrow>
             if k = [] then Some (- 1)
             else (case t_first (\<lambda>r. sv_serverApiKey r = Some k) (db_servers d) of
                     None \<Rightarrow> Some (- 1)
                   | Some r \<Rightarrow> Some (safeStoi (to_string (sv_id r)) 0)))"

definition validateRelayServerAccess :: "database \<Rightarrow> request \<Rightarrow> json \<Rightarrow> int \<Rightarrow> bool option" where
  "validateRelayServerAccess d req body claimed =
     map_option (\<lambda>actual. 0 \<le> actual \<and> actual = claimed) (validateRelayApiKey d req body)"

text \<open>How every event handler starts.\<close>

definition with_server :: "env \<Rightarrow> Context \<Rightarrow> panel \<Rightarrow> (int \<Rightarrow> (panel \<times> response) option) \<Rightarrow> (panel \<times> response) option" where
  "with_server e ctx p k =
     (let s = jsonStr (e_dump e) (cx_body ctx) ''serverId'' []
      in if s = [] then Some (p, ctx_error ''serverId required'' 400)
         else (case validateRelayServerAccess (pn_db p) (cx_req ctx) (cx_body ctx) (safeStoi s 0) of
                 None \<Rightarrow> Some (p, server_error)
               | Some False \<Rightarrow> Some (p, ctx_error ''Unauthorized: apiKey does not match serverId'' 401)
               | Some True \<Rightarrow> k (safeStoi s 0)))"

section \<open>Players: teams, live lists, names\<close>

definition isTeamKill :: "panel \<Rightarrow> int \<Rightarrow> string \<Rightarrow> string \<Rightarrow> bool" where
  "isTeamKill p sid killer victim =
     (case pn_teams p sid of
        None \<Rightarrow> False
      | Some m \<Rightarrow>
          (case (m killer, m victim) of
             (Some k, Some v) \<Rightarrow> te_teamId k \<noteq> [] \<and> te_teamId k = te_teamId v
           | _ \<Rightarrow> False))"

definition team_map :: "PlayerInfo list \<Rightarrow> string \<rightharpoonup> TeamMapEntry" where
  "team_map ps = foldl (\<lambda>m q. m(pi_steamId q \<mapsto> \<lparr>te_name = pi_name q, te_teamId = pi_teamId q\<rparr>)) Map.empty ps"

definition updateTeamMap :: "int \<Rightarrow> PlayerInfo list \<Rightarrow> panel \<Rightarrow> panel" where
  "updateTeamMap sid ps p = p\<lparr>pn_teams := (pn_teams p)(sid \<mapsto> team_map ps)\<rparr>"

text \<open>The live cache is only written from \<open>playerToJson\<close>, so the list stands for its JSON.\<close>

definition playerToJson :: "PlayerInfo \<Rightarrow> json" where
  "playerToJson q = JObj [(''rconId'', JInt (pi_rconId q)), (''steamId'', JStr (pi_steamId q)),
     (''name'', JStr (pi_name q)), (''teamId'', JStr (pi_teamId q)), (''squadId'', JStr (pi_squadId q)),
     (''isLeader'', JBool (pi_isLeader q))]"

definition live_players :: "panel \<Rightarrow> int \<Rightarrow> PlayerInfo list" where
  "live_players p sid = (case pn_live p sid of None \<Rightarrow> [] | Some l \<Rightarrow> ld_players l)"

definition resolvePlayerName :: "panel \<Rightarrow> int \<Rightarrow> string \<Rightarrow> string \<Rightarrow> string" where
  "resolvePlayerName p sid steam ctrl =
     (if \<not> str_contains ''PlayerController'' ctrl then ctrl
      else case find (\<lambda>q. pi_steamId q = steam) (live_players p sid) of
        Some q \<Rightarrow> pi_name q
      | None \<Rightarrow>
          (case first_max pr_lastSeen (t_select (\<lambda>r. pr_steamId r = steam) (db_players (pn_db p))) of
             Some r \<Rightarrow> if pr_name r \<noteq> [] then pr_name r else ctrl
           | None \<Rightarrow> ctrl))"

text \<open>An exact match first, then either name within the other.\<close>

definition findSteamIdByName :: "panel \<Rightarrow> int \<Rightarrow> string \<Rightarrow> string" where
  "findSteamIdByName p sid name =
     (case find (\<lambda>q. pi_name q = name) (live_players p sid) of
        Some q \<Rightarrow> pi_steamId q
      | None \<Rightarrow>
          (case find (\<lambda>q. str_contains name (pi_name q) \<or> str_contains (pi_name q) name) (live_players p sid) of
             Some q \<Rightarrow> pi_steamId q
           | None \<Rightarrow> []))"

section \<open>Statements\<close>

text \<open>Event times are \<open>nowISO()\<close>, local time, in columns whose other times are UTC.\<close>

definition kill_insert :: "env \<Rightarrow> int \<Rightarrow> string \<Rightarrow> string \<Rightarrow> string \<Rightarrow> database \<Rightarrow> database" where
  "kill_insert e sid killer victim weapon d =
     (if \<not> server_exists d sid then d
      else d\<lparr>db_kills := t_insert (\<lambda>i. \<lparr>k_id = i, k_serverId = sid, k_killer = killer, k_victim = victim,
             k_weapon = weapon, k_timestamp = e_local e (e_now e)\<rparr>) (db_kills d)\<rparr>)"

definition revive_insert :: "env \<Rightarrow> int \<Rightarrow> string \<Rightarrow> string \<Rightarrow> string \<Rightarrow> string \<Rightarrow> database \<Rightarrow> database" where
  "revive_insert e sid rsteam rname vsteam vname d =
     (if \<not> server_exists d sid then d
      else d\<lparr>db_revives := t_insert (\<lambda>i. \<lparr>r_id = i, r_serverId = sid, r_reviverSteamId = rsteam,
             r_reviverName = rname, r_revivedSteamId = vsteam, r_revivedName = vname,
             r_timestamp = e_local e (e_now e)\<rparr>) (db_revives d)\<rparr>)"

text \<open>The same message of the player within five seconds before \<open>datetime('now')\<close>.\<close>

definition chat_dup :: "env \<Rightarrow> int \<Rightarrow> string \<Rightarrow> string \<Rightarrow> database \<Rightarrow> bool" where
  "chat_dup e sid steam msg d =
     (\<exists>c\<in>set (t_rows (db_chat_logs d)). c_serverId c = sid \<and> c_steamId c = steam \<and> c_message c = msg \<and>
        c_timestamp c > e_now e - 5)"

definition chat_log :: "env \<Rightarrow> int \<Rightarrow> string \<Rightarrow> string \<Rightarrow> string \<Rightarrow> string \<Rightarrow> database \<Rightarrow> database" where
  "chat_log e sid name steam msg ty d =
     (if chat_dup e sid steam msg d then d
      else d\<lparr>db_chat_logs := t_insert (\<lambda>i. \<lparr>c_id = i, c_serverId = sid, c_playerName = name, c_steamId = steam,
             c_message = msg, c_type = ty, c_timestamp = e_local e (e_now e), c_roundId = None,
             c_channel = None\<rparr>) (db_chat_logs d)\<rparr>)"

text \<open>\<open>INSERT INTO players ... ON CONFLICT(serverId, steamId) DO UPDATE\<close>.\<close>

definition player_seen :: "time \<Rightarrow> int \<Rightarrow> string \<Rightarrow> string \<Rightarrow> database \<Rightarrow> database" where
  "player_seen now sid steam name d =
     (let same = (\<lambda>r. pr_serverId r = sid \<and> pr_steamId r = steam)
      in if \<not> server_exists d sid then d
         else if (\<exists>r\<in>set (t_rows (db_players d)). same r)
         then d\<lparr>db_players := t_update same (\<lambda>r. r\<lparr>pr_name := name, pr_lastSeen := now\<rparr>) (db_players d)\<rparr>
         else d\<lparr>db_players := t_insert (\<lambda>i. \<lparr>pr_id = i, pr_serverId = sid, pr_steamId = steam, pr_name = name,
                pr_playtime = 0, pr_firstSeen = now, pr_lastSeen = now, pr_lastIp = None\<rparr>) (db_players d)\<rparr>)"

section \<open>The handlers\<close>

definition post_playerlist_raw :: "env \<Rightarrow> handler" where
  "post_playerlist_raw e ctx p = with_server e ctx p (\<lambda>sid.
     let raw = body_str e ctx ''raw'' in
     if raw = [] then Some (p, ctx_json (JObj [(''success'', JBool True)]) 200)
     else case parsePlayerList raw of
       Inl _ \<Rightarrow> Some (p, server_error)
     | Inr ps \<Rightarrow>
         let p1 = p\<lparr>pn_live := (pn_live p)(sid \<mapsto> \<lparr>ld_players = ps, ld_updatedAt = nowISO e\<rparr>)\<rparr>;
             p2 = updateTeamMap sid ps p1;
             p3 = on_world (push sid ''players_updated'' (JObj [(''type'', JStr ''players_updated''),
                    (''serverId'', JInt sid), (''players'', JArr (map playerToJson (live_players p2 sid))),
                    (''teamNames'', JObj [])])) p2;
             p4 = fold (\<lambda>q. pn_exec (player_seen (e_now e) sid (pi_steamId q) (pi_name q))) ps p3
         in Some (p4, ctx_json (JObj [(''success'', JBool True), (''playerCount'', JInt (int (length ps)))]) 200))"

definition chat_json :: "int \<Rightarrow> string \<Rightarrow> string \<Rightarrow> string \<Rightarrow> string \<Rightarrow> string \<Rightarrow> json" where
  "chat_json sid name steam msg ty stamp = JObj [(''type'', JStr ''chat''), (''serverId'', JInt sid),
     (''playerName'', JStr name), (''steamId'', JStr steam), (''message'', JStr msg), (''chatType'', JStr ty),
     (''timestamp'', JStr stamp)]"

definition ok_message :: response where
  "ok_message = ctx_json (JObj [(''message'', JStr ''ok'')]) 200"

definition post_chat :: "env \<Rightarrow> handler" where
  "post_chat e ctx p = with_server e ctx p (\<lambda>sid.
     let raw = body_str e ctx ''raw''; steam = body_str e ctx ''steamId'' in
     if raw \<noteq> [] \<and> steam = [] then
       (case parseChatRaw raw \<lparr>ce_chatType = [], ce_playerName = [], ce_message = [], ce_steamId = [], ce_eosId = []\<rparr> of
          (False, _) \<Rightarrow> Some (p, ctx_error ''Cannot parse chat message'' 400)
        | (True, c) \<Rightarrow>
            Some (on_world (push sid ''chat'' (chat_json sid (ce_playerName c) (ce_steamId c) (ce_message c) (ce_chatType c) (nowISO e)))
              (pn_exec (chat_log e sid (ce_playerName c) (ce_steamId c) (ce_message c) (ce_chatType c)) p), ok_message))
     else
       let msg = body_str e ctx ''message''; name = body_str e ctx ''playerName'';
           ty = jsonStr (e_dump e) (cx_body ctx) ''chatType'' ''chat''
       in if steam = [] \<or> msg = [] then Some (p, ctx_error ''steamId and message required'' 400)
          else Some (on_world (push sid ''chat'' (chat_json sid name steam msg ty (nowISO e)))
                 (pn_exec (chat_log e sid name steam msg ty) p), ok_message))"

definition post_kill :: "env \<Rightarrow> handler" where
  "post_kill e ctx p = with_server e ctx p (\<lambda>sid.
     let victim = body_str e ctx ''victimSteamId''; killer = body_str e ctx ''killerSteamId'';
         vname = body_str e ctx ''victimName''; kname = body_str e ctx ''killerName''; weapon = body_str e ctx ''weapon''
     in if victim = [] then Some (p, ctx_error ''victimSteamId required'' 400)
        else
          let tk = (killer \<noteq> [] \<and> killer \<noteq> victim \<and> isTeamKill p sid killer victim);
              ty = (if tk then ''teamkill'' else ''kill'');
              p1 = pn_exec (kill_insert e sid (if killer = [] then kname else killer) victim weapon) p;
              p2 = (if killer \<noteq> [] \<and> killer = victim then pn_exec (scoreSuicide (e_now e) sid victim vname) p1
                    else if killer \<noteq> [] then pn_exec (scoreKill (e_now e) sid killer kname tk) p1 else p1)
          in Some (on_world (push sid ty (JObj [(''type'', JStr ty), (''serverId'', JInt sid),
               (''killerSteamId'', JStr killer), (''killerName'', JStr kname), (''victimSteamId'', JStr victim),
               (''victimName'', JStr vname), (''weapon'', JStr weapon), (''timestamp'', JStr (nowISO e))])) p2, ok_message))"

text \<open>\<open>AdminWarn\<close> with both parts escaped.\<close>

definition safe_warn :: "int \<Rightarrow> string \<Rightarrow> string \<Rightarrow> panel \<Rightarrow> panel" where
  "safe_warn sid steam text = on_world (warn sid (rconSafe steam) text)"

definition points_text :: "panel \<Rightarrow> string \<Rightarrow> int \<Rightarrow> string" where
  "points_text p key fallback = ([CHR 0xEF, CHR 0xBC, CHR 0x8C, CHR 0xE7, CHR 0xA7, CHR 0xAF, CHR 0xE5, CHR 0x88, CHR 0x86] @ '' '') @ to_string (getSettingInt (pn_db p) key fallback)"

definition post_revive :: "env \<Rightarrow> handler" where
  "post_revive e ctx p = with_server e ctx p (\<lambda>sid.
     let revived = body_str e ctx ''revivedSteamId''; reviver = body_str e ctx ''reviverSteamId'';
         vname = body_str e ctx ''revivedName''; rname = body_str e ctx ''reviverName''
     in if revived = [] then Some (p, ctx_error ''revivedSteamId required'' 400)
        else
          let p1 = pn_exec (revive_insert e sid reviver rname revived vname) p;
              p2 = pn_exec (scoreRevive (e_now e) sid reviver rname) p1;
              p3 = on_world (push sid ''revive'' (JObj [(''type'', JStr ''revive''), (''serverId'', JInt sid),
                     (''revivedSteamId'', JStr revived), (''revivedName'', JStr vname),
                     (''reviverSteamId'', JStr reviver), (''reviverName'', JStr rname),
                     (''timestamp'', JStr (nowISO e))])) p2;
              p4 = (if rname \<noteq> [] then safe_warn sid revived (rconSafe rname @ ('' '' @ [CHR 0xE6, CHR 0x95, CHR 0x91, CHR 0xE4, CHR 0xBA, CHR 0x86, CHR 0xE4, CHR 0xBD, CHR 0xA0])) p3 else p3);
              p5 = (if reviver \<noteq> [] \<and> vname \<noteq> []
                    then safe_warn sid reviver (([CHR 0xE6, CHR 0x95, CHR 0x91, CHR 0xE4, CHR 0xBA, CHR 0x86] @ '' '') @ rconSafe vname @ points_text p4 ''points_revive'' 1) p4 else p4)
          in Some (p5, ok_message))"

definition post_wound :: "env \<Rightarrow> handler" where
  "post_wound e ctx p = with_server e ctx p (\<lambda>sid.
     Some (on_world (push sid ''wound'' (JObj [(''type'', JStr ''wound''), (''serverId'', JInt sid),
       (''victimName'', JStr (body_str e ctx ''victimName'')),
       (''attackerSteamId'', JStr (body_str e ctx ''attackerSteamId'')),
       (''weapon'', JStr (body_str e ctx ''weapon'')), (''timestamp'', JStr (nowISO e))])) p, ok_message))"

definition fly_log :: "env \<Rightarrow> int \<Rightarrow> string \<Rightarrow> string \<Rightarrow> database \<Rightarrow> database" where
  "fly_log e sid player direction d =
     d\<lparr>db_op_logs := t_insert (\<lambda>i. \<lparr>op_id = i, op_operator = ([CHR 0xE7, CHR 0xB3, CHR 0xBB, CHR 0xE7, CHR 0xBB, CHR 0x9F] @ ''('' @ [CHR 0xE8, CHR 0x87, CHR 0xAA, CHR 0xE5, CHR 0x8A, CHR 0xA8] @ '')''), op_action = ''fly'', op_target = player,
         op_details = ([CHR 0xE7, CHR 0xB3, CHR 0xBB, CHR 0xE7, CHR 0xBB, CHR 0x9F] @ ''('' @ [CHR 0xE8, CHR 0x87, CHR 0xAA, CHR 0xE5, CHR 0x8A, CHR 0xA8] @ '') '' @ [CHR 0xE5, CHR 0x9C, CHR 0xA8] @ '' '') @ nowISO e @ ('' '' @ [CHR 0xE6, CHR 0x89, CHR 0xA7, CHR 0xE8, CHR 0xA1, CHR 0x8C, CHR 0xE4, CHR 0xBA, CHR 0x86, CHR 0xE9, CHR 0xA3, CHR 0x9E, CHR 0xE5, CHR 0xA4, CHR 0xA9, CHR 0xEF, CHR 0xBC, CHR 0x88]) @ player @ [CHR 0xEF, CHR 0xBC, CHR 0x89] @ direction,
         op_serverId = to_string sid, op_createdAt = e_now e\<rparr>) (db_op_logs d)\<rparr>"

text \<open>Leaving closes the newest entry of the player that is still open.\<close>

definition post_admin_camera :: "env \<Rightarrow> handler" where
  "post_admin_camera e ctx p = with_server e ctx p (\<lambda>sid.
     let player = body_str e ctx ''playerName''; action = body_str e ctx ''action''
     in if player = [] \<or> action = [] then Some (p, ctx_error ''playerName and action required'' 400)
        else
          let p1 = (if action = ''possessed'' then pn_exec (fly_log e sid player [CHR 0xE8, CHR 0xBF, CHR 0x9B, CHR 0xE5, CHR 0x85, CHR 0xA5]) p
                    else case first_max op_id (t_select (\<lambda>r. op_action r = ''fly'' \<and> op_target r = player \<and> op_serverId r = to_string sid)
                                (db_op_logs (pn_db p))) of
                      Some open_entry \<Rightarrow>
                        (case str_find [CHR 0xE8, CHR 0xBF, CHR 0x9B, CHR 0xE5, CHR 0x85, CHR 0xA5] (op_details open_entry) of
                           Some pos \<Rightarrow> pn_exec (\<lambda>d. d\<lparr>db_op_logs := t_update (\<lambda>r. op_id r = op_id open_entry)
                             (\<lambda>r. r\<lparr>op_details := str_replace pos 6 (([CHR 0xE5, CHR 0x88, CHR 0xB0] @ '' '') @ nowISO e @ ('' '' @ [CHR 0xE7, CHR 0xA6, CHR 0xBB, CHR 0xE5, CHR 0xBC, CHR 0x80])) (op_details open_entry)\<rparr>) (db_op_logs d)\<rparr>) p
                         | None \<Rightarrow> pn_exec (fly_log e sid player [CHR 0xE7, CHR 0xA6, CHR 0xBB, CHR 0xE5, CHR 0xBC, CHR 0x80]) p)
                    | None \<Rightarrow> pn_exec (fly_log e sid player [CHR 0xE7, CHR 0xA6, CHR 0xBB, CHR 0xE5, CHR 0xBC, CHR 0x80]) p)
          in Some (p1, ctx_json (JObj [(''success'', JBool True)]) 200))"

section \<open>Raw log lines\<close>

definition pl_field :: "ParsedLine \<Rightarrow> string \<Rightarrow> string" where
  "pl_field ev k = (case pl_fields ev k of None \<Rightarrow> [] | Some v \<Rightarrow> v)"

record counts =
  n_kill :: nat
  n_wound :: nat
  n_revive :: nat
  n_chat :: nat

definition run_plugins :: "env \<Rightarrow> string \<Rightarrow> int \<Rightarrow> json \<Rightarrow> panel \<Rightarrow> panel option" where
  "run_plugins e ty sid data p =
     map_option (\<lambda>w. p\<lparr>pn_world := w\<rparr>) (dispatch e \<lparr>ev_type = ty, ev_serverId = sid, ev_data = data\<rparr> (pn_world p))"

definition or_unknown :: "string \<Rightarrow> string" where
  "or_unknown name = (if name = [] then [CHR 0xE6, CHR 0x9C, CHR 0xAA, CHR 0xE7, CHR 0x9F, CHR 0xA5] else name)"

text \<open>The warnings of a kill, to the killer, the victim and a team killer.\<close>

definition kill_warnings :: "int \<Rightarrow> string \<Rightarrow> string \<Rightarrow> string \<Rightarrow> string \<Rightarrow> string \<Rightarrow> bool \<Rightarrow> bool \<Rightarrow> panel \<Rightarrow> panel" where
  "kill_warnings sid killer kname victim vname weapon tk self p =
     (let p1 = (if \<not> self \<and> \<not> tk \<and> killer \<noteq> []
                then safe_warn sid killer (([CHR 0xE4, CHR 0xBD, CHR 0xA0, CHR 0xE4, CHR 0xBD, CHR 0xBF, CHR 0xE7, CHR 0x94, CHR 0xA8] @ '' '') @ rconSafe weapon @ ('' '' @ [CHR 0xE5, CHR 0x87, CHR 0xBB, CHR 0xE6, CHR 0x9D, CHR 0x80, CHR 0xE4, CHR 0xBA, CHR 0x86] @ '' '') @ rconSafe (or_unknown vname) @
                       points_text p ''points_kill'' 2) p else p);
          p2 = (if \<not> self \<and> victim \<noteq> []
                then safe_warn sid victim (([CHR 0xE4, CHR 0xBD, CHR 0xA0, CHR 0xE8, CHR 0xA2, CHR 0xAB] @ '' '') @ rconSafe (or_unknown kname) @ ('' '' @ [CHR 0xE4, CHR 0xBD, CHR 0xBF, CHR 0xE7, CHR 0x94, CHR 0xA8] @ '' '') @ rconSafe weapon @
                       ('' '' @ [CHR 0xE5, CHR 0x87, CHR 0xBB, CHR 0xE6, CHR 0x9D, CHR 0x80]) @ points_text p1 ''points_suicide'' (- 2)) p1 else p1)
      in if tk \<and> killer \<noteq> []
         then safe_warn sid killer (([CHR 0xE4, CHR 0xBD, CHR 0xA0] @ ''TK'' @ [CHR 0xE4, CHR 0xBA, CHR 0x86]) @ rconSafe (if vname = [] then [CHR 0xE9, CHR 0x98, CHR 0x9F, CHR 0xE5, CHR 0x8F, CHR 0x8B] else vname) @
                points_text p2 ''points_tk'' (- 5)) p2 else p2)"

definition raw_kill :: "env \<Rightarrow> int \<Rightarrow> ParsedLine \<Rightarrow> panel \<Rightarrow> panel option" where
  "raw_kill e sid ev p =
     (let kname0 = pl_field ev ''killerName''; killer = pl_field ev ''killerSteamId'';
          vname = pl_field ev ''victimName''; weapon = pl_field ev ''weapon'';
          victim = (if vname = [] then [] else findSteamIdByName p sid vname);
          kname = (if str_contains ''PlayerController'' kname0 \<and> killer \<noteq> [] then resolvePlayerName p sid killer kname0 else kname0);
          self = (killer \<noteq> [] \<and> killer = victim);
          tk = (\<not> self \<and> killer \<noteq> [] \<and> victim \<noteq> [] \<and> isTeamKill p sid killer victim);
          ty = (if tk then ''teamkill'' else if self then ''suicide'' else ''kill'');
          p1 = pn_exec (kill_insert e sid killer victim weapon) p;
          p2 = pn_exec (if self then scoreSuicide (e_now e) sid victim vname else scoreKill (e_now e) sid killer kname tk) p1;
          p3 = kill_warnings sid killer kname victim vname weapon tk self p2
      in map_option (on_world (push sid ty (JObj [(''type'', JStr ty), (''serverId'', JInt sid), (''killerName'', JStr kname),
              (''killerSteamId'', JStr killer), (''victimName'', JStr vname), (''victimSteamId'', JStr victim),
              (''weapon'', JStr weapon), (''timestamp'', JStr (nowISO e))])))
           (run_plugins e ''kill'' sid (JObj [(''type'', JStr ty), (''killerName'', JStr kname), (''killerSteamId'', JStr killer),
              (''victimName'', JStr vname), (''victimSteamId'', JStr victim), (''weapon'', JStr weapon)]) p3))"

text \<open>A suicide within the window after the server's last one is skipped; the flag tells whether it counts.\<close>

definition raw_suicide :: "env \<Rightarrow> int \<Rightarrow> ParsedLine \<Rightarrow> panel \<Rightarrow> bool \<times> panel" where
  "raw_suicide e sid ev p =
     (let vname = pl_field ev ''victimName''; prev = (case pn_suicide p sid of None \<Rightarrow> 0 | Some t \<Rightarrow> t)
      in if e_ms e - prev < config_getInt (e_cfg e) ''SUICIDE_DEDUP_WINDOW_MS'' 10000
         then (False, p\<lparr>pn_suicide := (pn_suicide p)(sid \<mapsto> prev)\<rparr>)
         else
           let p1 = p\<lparr>pn_suicide := (pn_suicide p)(sid \<mapsto> e_ms e)\<rparr>;
               victim = (if pl_field ev ''victimSteamId'' = [] \<and> vname \<noteq> [] then findSteamIdByName p1 sid vname
                         else pl_field ev ''victimSteamId'');
               p2 = (if victim \<noteq> [] then pn_exec (scoreSuicide (e_now e) sid victim vname) p1 else p1);
               p3 = (if victim \<noteq> [] then safe_warn sid victim ([CHR 0xE4, CHR 0xBD, CHR 0xA0, CHR 0xE8, CHR 0x87, CHR 0xAA, CHR 0xE6, CHR 0x9D, CHR 0x80, CHR 0xE4, CHR 0xBA, CHR 0x86] @ points_text p2 ''points_suicide'' (- 2)) p2 else p2)
           in (True, on_world (push sid ''suicide'' (JObj [(''type'', JStr ''suicide''), (''serverId'', JInt sid),
                (''victimName'', JStr vname), (''victimSteamId'', JStr victim), (''timestamp'', JStr (nowISO e))])) p3))"

definition raw_wound :: "env \<Rightarrow> int \<Rightarrow> ParsedLine \<Rightarrow> panel \<Rightarrow> panel" where
  "raw_wound e sid ev p =
     (let vname = pl_field ev ''victimName''; attacker = pl_field ev ''attackerSteamId''; weapon = pl_field ev ''weapon'';
          victim = findSteamIdByName p sid vname;
          p1 = (if attacker \<noteq> [] then safe_warn sid attacker (([CHR 0xE4, CHR 0xBD, CHR 0xA0, CHR 0xE4, CHR 0xBD, CHR 0xBF, CHR 0xE7, CHR 0x94, CHR 0xA8] @ '' '') @ rconSafe weapon @ ('' '' @ [CHR 0xE5, CHR 0x87, CHR 0xBB, CHR 0xE5, CHR 0x80, CHR 0x92, CHR 0xE4, CHR 0xBA, CHR 0x86] @ '' '') @ rconSafe vname) p else p);
          kname0 = pl_field ev ''attackerName'';
          kname = (if str_contains ''PlayerController'' kname0 \<and> attacker \<noteq> [] then resolvePlayerName p1 sid attacker kname0 else kname0);
          p2 = (if victim \<noteq> []
                then safe_warn sid victim (([CHR 0xE4, CHR 0xBD, CHR 0xA0, CHR 0xE8, CHR 0xA2, CHR 0xAB] @ '' '') @ rconSafe kname @ ('' '' @ [CHR 0xE4, CHR 0xBD, CHR 0xBF, CHR 0xE7, CHR 0x94, CHR 0xA8] @ '' '') @ rconSafe weapon @ ('' '' @ [CHR 0xE5, CHR 0x87, CHR 0xBB, CHR 0xE5, CHR 0x80, CHR 0x92])) p1 else p1)
      in on_world (push sid ''wound'' (JObj [(''type'', JStr ''wound''), (''serverId'', JInt sid), (''victimName'', JStr vname),
           (''victimSteamId'', JStr victim), (''attackerSteamId'', JStr attacker), (''weapon'', JStr weapon),
           (''timestamp'', JStr (nowISO e))])) p2)"

text \<open>The first bytes of the reviver's message are the mojibake of the source, kept as its bytes.\<close>

definition txt_revived_garbled :: string where
  "txt_revived_garbled = [CHR 0xC3, CHR 0xA4, CHR 0xC2, CHR 0xBD, CHR 0xC2, CHR 0xA0, CHR 0xC3, CHR 0xA6, CHR 0xC2, CHR 0x95, CHR 0xC2, CHR 0x91, CHR 0xC3, CHR 0xA4, CHR 0xC2, CHR 0xBA, CHR 0xC2, CHR 0x86] @ '' ''"

definition raw_revive :: "env \<Rightarrow> int \<Rightarrow> ParsedLine \<Rightarrow> panel \<Rightarrow> panel option" where
  "raw_revive e sid ev p =
     (let rname = pl_field ev ''reviverName''; reviver = pl_field ev ''reviverSteamId'';
          vname = pl_field ev ''revivedName''; revived = pl_field ev ''revivedSteamId'';
          p1 = pn_exec (revive_insert e sid reviver rname revived vname) p;
          p2 = pn_exec (scoreRevive (e_now e) sid reviver rname) p1;
          p3 = (if revived \<noteq> [] \<and> rname \<noteq> [] then safe_warn sid revived (([CHR 0xE4, CHR 0xBD, CHR 0xA0, CHR 0xE8, CHR 0xA2, CHR 0xAB] @ '' '') @ rconSafe rname @ ('' '' @ [CHR 0xE6, CHR 0x95, CHR 0x91, CHR 0xE6, CHR 0xB4, CHR 0xBB, CHR 0xE4, CHR 0xBA, CHR 0x86])) p2 else p2);
          p4 = (if reviver \<noteq> [] \<and> vname \<noteq> []
                then safe_warn sid reviver (txt_revived_garbled @ rconSafe vname @ points_text p3 ''points_revive'' 1) p3 else p3);
          p5 = on_world (push sid ''revive'' (JObj [(''type'', JStr ''revive''), (''serverId'', JInt sid),
                 (''reviverName'', JStr rname), (''reviverSteamId'', JStr reviver), (''revivedName'', JStr vname),
                 (''revivedSteamId'', JStr revived), (''timestamp'', JStr (nowISO e))])) p4
      in run_plugins e ''revive'' sid (JObj [(''reviverName'', JStr rname), (''reviverSteamId'', JStr reviver),
           (''revivedName'', JStr vname), (''revivedSteamId'', JStr revived)]) p5)"

definition raw_chat :: "env \<Rightarrow> int \<Rightarrow> ParsedLine \<Rightarrow> panel \<Rightarrow> panel option" where
  "raw_chat e sid ev p =
     (let name = pl_field ev ''playerName''; steam = pl_field ev ''steamId''; msg = pl_field ev ''message'';
          p1 = pn_exec (chat_log e sid name steam msg ''all'') p;
          p2 = on_world (push sid ''chat'' (JObj [(''type'', JStr ''chat''), (''serverId'', JInt sid), (''playerName'', JStr name),
                 (''steamId'', JStr steam), (''message'', JStr msg), (''timestamp'', JStr (nowISO e))])) p1
      in run_plugins e ''chat'' sid (JObj [(''playerName'', JStr name), (''steamId'', JStr steam), (''message'', JStr msg)]) p2)"

definition raw_event :: "env \<Rightarrow> int \<Rightarrow> ParsedLine \<Rightarrow> panel \<times> counts \<Rightarrow> (panel \<times> counts) option" where
  "raw_event e sid ev pc =
     (let (p, c) = pc in
      if pl_type ev = ''kill'' then map_option (\<lambda>p'. (p', c\<lparr>n_kill := n_kill c + 1\<rparr>)) (raw_kill e sid ev p)
      else if pl_type ev = ''suicide'' then
        (case raw_suicide e sid ev p of (counted, p') \<Rightarrow> Some (p', if counted then c\<lparr>n_kill := n_kill c + 1\<rparr> else c))
      else if pl_type ev = ''wound'' then Some (raw_wound e sid ev p, c\<lparr>n_wound := n_wound c + 1\<rparr>)
      else if pl_type ev = ''revive'' then map_option (\<lambda>p'. (p', c\<lparr>n_revive := n_revive c + 1\<rparr>)) (raw_revive e sid ev p)
      else if pl_type ev = ''chat'' then map_option (\<lambda>p'. (p', c\<lparr>n_chat := n_chat c + 1\<rparr>)) (raw_chat e sid ev p)
      else Some (p, c))"

fun raw_events :: "env \<Rightarrow> int \<Rightarrow> ParsedLine list \<Rightarrow> panel \<times> counts \<Rightarrow> (panel \<times> counts) option" where
  "raw_events e sid [] pc = Some pc"
| "raw_events e sid (ev # evs) pc = (case raw_event e sid ev pc of None \<Rightarrow> None | Some pc' \<Rightarrow> raw_events e sid evs pc')"

text \<open>The lines in order; the flag is false when a line threw, after which the rest is not read.\<close>

fun raw_lines :: "env \<Rightarrow> int \<Rightarrow> string list \<Rightarrow> panel \<times> counts \<Rightarrow> ((panel \<times> counts) \<times> bool) option" where
  "raw_lines e sid [] pc = Some (pc, True)"
| "raw_lines e sid (l # ls) pc =
     (if length l < 10 then raw_lines e sid ls pc
      else case processLine (e_cfg e) (e_ms e) l (pn_wounds (fst pc)) of
        Inl _ \<Rightarrow> Some (pc, False)
      | Inr (evs, ws) \<Rightarrow>
          (case raw_events e sid evs ((fst pc)\<lparr>pn_wounds := ws\<rparr>, snd pc) of
             None \<Rightarrow> None
           | Some pc' \<Rightarrow> raw_lines e sid ls pc'))"

fun all_strings :: "json list \<Rightarrow> string list option" where
  "all_strings [] = Some []"
| "all_strings (JStr s # js) = map_option (\<lambda>ss. s # ss) (all_strings js)"
| "all_strings (_ # js) = None"

definition body_lines :: "env \<Rightarrow> json \<Rightarrow> string list option" where
  "body_lines e body =
     (case j_lookup body ''lines'' of
        Some (JArr js) \<Rightarrow> all_strings js
      | _ \<Rightarrow> Some (if j_contains body ''line'' then [jsonStr (e_dump e) body ''line'' []] else []))"

definition post_raw :: "env \<Rightarrow> handler" where
  "post_raw e ctx p = with_server e ctx p (\<lambda>sid.
     case body_lines e (cx_body ctx) of
       None \<Rightarrow> Some (p, server_error)
     | Some lines \<Rightarrow>
         if lines = [] then Some (p, ctx_json (JObj [(''success'', JBool True), (''processed'', JInt 0)]) 200)
         else (case raw_lines e sid lines (p, \<lparr>n_kill = 0, n_wound = 0, n_revive = 0, n_chat = 0\<rparr>) of
                 None \<Rightarrow> None
               | Some ((p', c), ok) \<Rightarrow>
                   Some (p', if \<not> ok then server_error
                     else ctx_json (JObj [(''success'', JBool True), (''results'', JObj [
                       (''kill'', JInt (int (n_kill c))), (''wound'', JInt (int (n_wound c))),
                       (''revive'', JInt (int (n_revive c))), (''chat'', JInt (int (n_chat c)))])]) 200)))"

section \<open>The routes\<close>

datatype event_route = Playerlist_Raw | Chat | Kill | Revive | Wound | Admin_Camera | Raw

definition event_handler :: "event_route \<Rightarrow> env \<Rightarrow> handler" where
  "event_handler r = (case r of Playerlist_Raw \<Rightarrow> post_playerlist_raw | Chat \<Rightarrow> post_chat | Kill \<Rightarrow> post_kill
     | Revive \<Rightarrow> post_revive | Wound \<Rightarrow> post_wound | Admin_Camera \<Rightarrow> post_admin_camera | Raw \<Rightarrow> post_raw)"

end
