(* ===== verification/EventProps.thy ===== *)
theory EventProps
  imports EventRoutes PlayerList
begin

text \<open>
  What the event routes promise: nothing happens without the server's own API key, kills are scored by the
  team map the last player list left, team-kill records and redeem codes stay consistent, and how far
  apart two equal chat messages have to be to be stored twice.
\<close>

section \<open>The key\<close>

lemma with_server_key:
  assumes "with_server e ctx p k = Some (p', r)" "p' \<noteq> p \<or> re_status r = 200"
  shows "\<exists>sid. validateRelayServerAccess (pn_db p) (cx_req ctx) (cx_body ctx) sid = Some True \<and>
    sid = safeStoi (body_str e ctx ''serverId'') 0 \<and> k sid = Some (p', r)"
  using assms by (auto simp: with_server_def Let_def split: if_splits option.splits bool.splits)

lemma event_handler_key:
  assumes "event_handler r e ctx p = Some (p', resp)" "p' \<noteq> p \<or> re_status resp = 200"
  shows "validateRelayServerAccess (pn_db p) (cx_req ctx) (cx_body ctx) (safeStoi (body_str e ctx ''serverId'') 0) = Some True"
  using assms
  by (cases r) (simp_all only: event_handler_def event_route.case post_playerlist_raw_def post_chat_def post_kill_def
      post_revive_def post_wound_def post_admin_camera_def post_raw_def, (drule (1) with_server_key, elim exE conjE, simp)+)

text \<open>The key a request carries.\<close>

definition relay_key :: "request \<Rightarrow> json \<Rightarrow> string" where
  "relay_key req body =
     (if header req ''X-API-Key'' \<noteq> [] then header req ''X-API-Key''
      else case j_lookup body ''apiKey'' of Some (JStr s) \<Rightarrow> s | _ \<Rightarrow> [])"

lemma access_row:
  assumes "validateRelayServerAccess d req body sid = Some True"
  shows "relay_key req body \<noteq> [] \<and> (\<exists>s. s \<in> set (t_rows (db_servers d)) \<and> sv_serverApiKey s = Some (relay_key req body) \<and>
    safeStoi (to_string (sv_id s)) 0 = sid)"
  using assms
  by (auto simp: validateRelayServerAccess_def validateRelayApiKey_def relay_key_def Let_def j_contains_def
      split: if_splits option.splits json.splits dest!: t_first_Some)

section \<open>Team-kill records and codes\<close>

definition side_ok :: "panel \<Rightarrow> bool" where
  "side_ok p = (tk_ok (pn_db p) \<and> cdk_ok (pn_db p))"

lemma add_points_side [simp]:
  "db_tk (snd (addPoints now sid steam name amt reason oper d)) = db_tk d"
  "db_cdk (snd (addPoints now sid steam name amt reason oper d)) = db_cdk d"
  "db_cdk_logs (snd (addPoints now sid steam name amt reason oper d)) = db_cdk_logs d"
  by (simp_all add: addPoints_def Let_def log_points_def points_update_def points_insert_def split: option.split sum.split)

lemma score_side [simp]:
  "db_tk (scoreKill now sid k n tk d) = db_tk d" "db_cdk (scoreKill now sid k n tk d) = db_cdk d"
  "db_cdk_logs (scoreKill now sid k n tk d) = db_cdk_logs d"
  "db_tk (scoreSuicide now sid k n d) = db_tk d" "db_cdk (scoreSuicide now sid k n d) = db_cdk d"
  "db_cdk_logs (scoreSuicide now sid k n d) = db_cdk_logs d"
  "db_tk (scoreRevive now sid k n d) = db_tk d" "db_cdk (scoreRevive now sid k n d) = db_cdk d"
  "db_cdk_logs (scoreRevive now sid k n d) = db_cdk_logs d"
  by (simp_all add: scoreKill_def scoreSuicide_def scoreRevive_def)

lemma insert_side [simp]:
  "db_tk (kill_insert e sid k v wp d) = db_tk d" "db_cdk (kill_insert e sid k v wp d) = db_cdk d"
  "db_cdk_logs (kill_insert e sid k v wp d) = db_cdk_logs d"
  "db_tk (revive_insert e sid a b c f d) = db_tk d" "db_cdk (revive_insert e sid a b c f d) = db_cdk d"
  "db_cdk_logs (revive_insert e sid a b c f d) = db_cdk_logs d"
  "db_tk (chat_log e sid a b c f d) = db_tk d" "db_cdk (chat_log e sid a b c f d) = db_cdk d"
  "db_cdk_logs (chat_log e sid a b c f d) = db_cdk_logs d"
  "db_tk (player_seen now sid a b d) = db_tk d" "db_cdk (player_seen now sid a b d) = db_cdk d"
  "db_cdk_logs (player_seen now sid a b d) = db_cdk_logs d"
  "db_tk (fly_log e sid a b d) = db_tk d" "db_cdk (fly_log e sid a b d) = db_cdk d"
  "db_cdk_logs (fly_log e sid a b d) = db_cdk_logs d"
  by (simp_all add: kill_insert_def revive_insert_def chat_log_def player_seen_def fly_log_def Let_def)

lemma side_ok_cong:
  "db_tk (pn_db q) = db_tk (pn_db p) \<Longrightarrow> db_cdk (pn_db q) = db_cdk (pn_db p) \<Longrightarrow>
     db_cdk_logs (pn_db q) = db_cdk_logs (pn_db p) \<Longrightarrow> side_ok q = side_ok p"
  by (simp add: side_ok_def tk_ok_def cdk_ok_def uses_of_def)

lemma side_ok_frame [simp]:
  "side_ok (pn_exec (kill_insert e sid k v wp) p) = side_ok p" "side_ok (pn_exec (revive_insert e sid a b c f) p) = side_ok p"
  "side_ok (pn_exec (chat_log e sid a b c f) p) = side_ok p" "side_ok (pn_exec (player_seen now sid a b) p) = side_ok p"
  "side_ok (pn_exec (fly_log e sid a b) p) = side_ok p"
  "side_ok (pn_exec (scoreKill now sid k n tk) p) = side_ok p" "side_ok (pn_exec (scoreSuicide now sid k n) p) = side_ok p"
  "side_ok (pn_exec (scoreRevive now sid k n) p) = side_ok p"
  "side_ok (pn_exec (\<lambda>d. d\<lparr>db_op_logs := f1 d\<rparr>) p) = side_ok p"
  "side_ok (on_world (push sid ty data) p) = side_ok p" "side_ok (safe_warn sid steam text p) = side_ok p"
  "side_ok (p\<lparr>pn_live := l\<rparr>) = side_ok p" "side_ok (p\<lparr>pn_teams := tm\<rparr>) = side_ok p"
  "side_ok (p\<lparr>pn_wounds := ws\<rparr>) = side_ok p" "side_ok (p\<lparr>pn_suicide := su\<rparr>) = side_ok p"
  by (rule side_ok_cong; simp add: safe_warn_def)+

lemma kill_warnings_side [simp]: "side_ok (kill_warnings sid k kn v vn wp tk self p) = side_ok p"
  by (simp add: kill_warnings_def Let_def)

lemma fold_seen_side [simp]: "side_ok (fold (\<lambda>q. pn_exec (player_seen now sid (f q) (g q))) ps p) = side_ok p"
  by (induction ps arbitrary: p) simp_all

lemma run_plugins_side:
  assumes "run_plugins e ty sid data p = Some p'" "side_ok p" "in_int sid"
  shows "side_ok p'"
proof -
  from assms(1) obtain w where "dispatch e \<lparr>ev_type = ty, ev_serverId = sid, ev_data = data\<rparr> (pn_world p) = Some w"
    and p': "p' = p\<lparr>pn_world := w\<rparr>" by (auto simp: run_plugins_def)
  with all_plugins.dispatch_inv [of "pn_world p" "\<lparr>ev_type = ty, ev_serverId = sid, ev_data = data\<rparr>" plugins e w] assms(2,3)
  show ?thesis by (simp add: dispatch_def side_ok_def)
qed

lemma raw_event_side:
  assumes "raw_event e sid ev pc = Some pc'" "side_ok (fst pc)" "in_int sid"
  shows "side_ok (fst pc')"
  using assms run_plugins_side
  by (auto simp: raw_event_def Let_def case_prod_beta raw_kill_def raw_suicide_def raw_wound_def raw_revive_def raw_chat_def
      split: if_splits)

lemma raw_events_side:
  "raw_events e sid evs pc = Some pc' \<Longrightarrow> side_ok (fst pc) \<Longrightarrow> in_int sid \<Longrightarrow> side_ok (fst pc')"
proof (induction evs arbitrary: pc)
  case (Cons ev evs)
  then obtain pc1 where "raw_event e sid ev pc = Some pc1" "raw_events e sid evs pc1 = Some pc'" by (auto split: option.splits)
  then show ?case using Cons raw_event_side by metis
qed simp

lemma raw_lines_side:
  "raw_lines e sid ls pc = Some (pc', ok) \<Longrightarrow> side_ok (fst pc) \<Longrightarrow> in_int sid \<Longrightarrow> side_ok (fst pc')"
proof (induction ls arbitrary: pc)
  case (Cons l ls)
  show ?case
  proof (cases "length l < 10")
    case False
    show ?thesis
    proof (cases "processLine (e_cfg e) (e_ms e) l (pn_wounds (fst pc))")
      case (Inr ews)
      obtain evs ws where ews: "ews = (evs, ws)" by (cases ews)
      from Cons.prems(1) False Inr ews obtain pc1 where
        1: "raw_events e sid evs ((fst pc)\<lparr>pn_wounds := ws\<rparr>, snd pc) = Some pc1" "raw_lines e sid ls pc1 = Some (pc', ok)"
        by (auto split: option.splits)
      have "side_ok (fst pc1)" using raw_events_side [OF 1(1)] Cons.prems by simp
      then show ?thesis using Cons.IH [OF 1(2)] Cons.prems by simp
    qed (use Cons.prems False in auto)
  qed (use Cons in auto)
qed simp

lemma event_handler_side:
  assumes "event_handler r e ctx p = Some (p', resp)" "side_ok p"
  shows "side_ok p'"
proof -
  have i: "in_int (safeStoi s 0)" for s by (simp add: safeStoi_in_int)
  show ?thesis
  proof (cases r)
    case Raw
    then show ?thesis using assms i raw_lines_side
      by (auto simp: event_handler_def post_raw_def with_server_def Let_def split: if_splits option.splits bool.splits)
  qed (use assms in \<open>auto simp: event_handler_def post_playerlist_raw_def post_chat_def post_kill_def post_revive_def
      post_wound_def post_admin_camera_def with_server_def Let_def updateTeamMap_def
      split: if_splits option.splits bool.splits sum.splits prod.splits\<close>)
qed

section \<open>Scores\<close>

lemma moved_start:
  assumes "moved d1 sid steam amt d'" "db_points d1 = db_points d" "db_point_logs d1 = db_point_logs d"
    "db_servers d1 = db_servers d" "db_settings d1 = db_settings d"
  shows "moved d sid steam amt d'"
  using assms by (simp add: moved_def balance_of_def logged_def)

lemma kill_insert_frame [simp]:
  "db_points (kill_insert e sid k v wp d) = db_points d" "db_point_logs (kill_insert e sid k v wp d) = db_point_logs d"
  "db_servers (kill_insert e sid k v wp d) = db_servers d" "db_settings (kill_insert e sid k v wp d) = db_settings d"
  by (simp_all add: kill_insert_def)

lemma score_kills [simp]:
  "db_kills (scoreKill now sid k n tk d) = db_kills d" "db_kills (scoreSuicide now sid k n d) = db_kills d"
  by (simp_all add: scoreKill_def scoreSuicide_def addPoints_def Let_def log_points_def points_update_def points_insert_def
      split: option.split sum.split)

text \<open>The points a kill is worth to the killer.\<close>

definition kill_points :: "panel \<Rightarrow> int \<Rightarrow> string \<Rightarrow> string \<Rightarrow> int" where
  "kill_points p sid killer victim =
     (if killer = victim then getSettingInt (pn_db p) ''points_suicide'' (- 2)
      else if isTeamKill p sid killer victim then getSettingInt (pn_db p) ''points_tk'' (- 5)
      else getSettingInt (pn_db p) ''points_kill'' 2)"

lemma scored_moved:
  assumes "points_ok (pn_db p)" "server_exists (pn_db p) sid" "killer \<noteq> []"
    and "in_int (balance_of (pn_db p) sid killer + kill_points p sid killer victim)"
  shows "moved (pn_db p) sid killer (kill_points p sid killer victim)
    (if killer = victim then scoreSuicide now sid victim vname (kill_insert e sid killer victim wp (pn_db p))
     else scoreKill now sid killer kname (isTeamKill p sid killer victim) (kill_insert e sid killer victim wp (pn_db p)))"
proof -
  let ?d1 = "kill_insert e sid killer victim wp (pn_db p)"
  have ok: "points_ok ?d1" "server_exists ?d1 sid" "balance_of ?d1 = balance_of (pn_db p)"
    and set: "getSettingInt ?d1 = getSettingInt (pn_db p)"
    using assms(1,2) points_ok_cong [of ?d1 "pn_db p"] balance_of_cong [of ?d1 "pn_db p"] settings_frame(2) [of ?d1 "pn_db p"]
    by (simp_all add: server_exists_def)
  show ?thesis
  proof (cases "killer = victim")
    case True
    then have "moved ?d1 sid killer (kill_points p sid killer victim) (scoreSuicide now sid victim vname ?d1)"
      using scoreSuicide_moved [OF ok(1,2), of victim, unfolded ok(3) set] assms(3,4) by (simp add: kill_points_def)
    from moved_start [OF this, of "pn_db p"] True show ?thesis by simp
  next
    case False
    then have "moved ?d1 sid killer (kill_points p sid killer victim)
        (scoreKill now sid killer kname (isTeamKill p sid killer victim) ?d1)"
      using assms(3,4) by (intro scoreKill_moved [OF ok(1,2)]) (simp_all add: kill_points_def ok(3) set)
    from moved_start [OF this, of "pn_db p"] False show ?thesis by simp
  qed
qed

section \<open>Teams\<close>

lemma team_map_eq:
  "team_map ps = map_of (rev (map (\<lambda>q. (pi_steamId q, \<lparr>te_name = pi_name q, te_teamId = pi_teamId q\<rparr>)) ps))"
proof -
  have "foldl (\<lambda>m q. m(pi_steamId q \<mapsto> \<lparr>te_name = pi_name q, te_teamId = pi_teamId q\<rparr>)) m ps =
      m ++ map_of (rev (map (\<lambda>q. (pi_steamId q, \<lparr>te_name = pi_name q, te_teamId = pi_teamId q\<rparr>)) ps))" for m
    by (induction ps arbitrary: m) (simp_all add: map_add_def fun_eq_iff split: option.split)
  then show ?thesis by (simp add: team_map_def)
qed

lemma team_map_Some:
  assumes "distinct (map pi_steamId ps)"
  shows "team_map ps a = Some t \<longleftrightarrow> (\<exists>q\<in>set ps. pi_steamId q = a \<and> t = \<lparr>te_name = pi_name q, te_teamId = pi_teamId q\<rparr>)"
proof -
  let ?kvs = "rev (map (\<lambda>q. (pi_steamId q, \<lparr>te_name = pi_name q, te_teamId = pi_teamId q\<rparr>)) ps)"
  have "distinct (map fst ?kvs)" using assms by (simp add: rev_map [symmetric] comp_def)
  then show ?thesis unfolding team_map_eq by (auto simp: map_of_eq_Some_iff)
qed

lemma fold_exec_teams [simp]: "pn_teams (fold (\<lambda>q. pn_exec (f q)) ps p) = pn_teams p"
  by (induction ps arbitrary: p) simp_all

section \<open>Properties\<close>

text \<open>C6: an event changes something, or is answered with success, only if the request carries the API key
  stored for the very server its body names.\<close>
theorem relay_key_required:
  assumes "event_handler r e ctx p = Some (p', resp)" "p' \<noteq> p \<or> re_status resp = 200"
  shows "relay_key (cx_req ctx) (cx_body ctx) \<noteq> [] \<and> (\<exists>s. s \<in> set (t_rows (db_servers (pn_db p))) \<and>
    sv_serverApiKey s = Some (relay_key (cx_req ctx) (cx_body ctx)) \<and>
    safeStoi (to_string (sv_id s)) 0 = safeStoi (jsonStr (e_dump e) (cx_body ctx) ''serverId'' []) 0)"
  by (rule access_row [OF event_handler_key [OF assms]])

definition demo_panel :: panel where
  "demo_panel = \<lparr>pn_world = demo_world demo_db, pn_wounds = [], pn_teams = Map.empty, pn_live = Map.empty, pn_suicide = Map.empty\<rparr>"

definition demo_ctx :: "(string \<times> json) list \<Rightarrow> Context" where
  "demo_ctx kvs = \<lparr>cx_req = \<lparr>rq_method = ''POST'', rq_headers = [(''x-api-key'', ''k'')], rq_params = [], rq_matches = [], rq_body = []\<rparr>,
     cx_body = JObj ((''serverId'', JStr ''1'') # kvs), cx_userId = [], cx_username = [], cx_role = [], cx_authenticated = False\<rparr>"

lemma demo_header: "header (cx_req (demo_ctx fs)) ''X-API-Key'' = ''k''"
proof -
  have "map to_lower ''x-api-key'' = map to_lower ''X-API-Key''" by code_simp
  then show ?thesis by (simp only: header_def demo_ctx_def Context.select_convs request.select_convs find.simps prod.case simp_thms if_True option.case)
qed

lemma demo_one: "stoi ''1'' = Inr 1"
  by (simp add: stoi_def sto_parse_def is_space_def is_digit_def byte_of_def digits_val_def digit_val_def Let_def)

lemma demo_access: "with_server e (demo_ctx fs) demo_panel k = k 1"
proof -
  have s: "jsonStr (e_dump e) (cx_body (demo_ctx fs)) ''serverId'' [] = ''1''" by (simp add: jsonStr_def demo_ctx_def)
  have "t_first (\<lambda>r. sv_serverApiKey r = Some ''k'') (db_servers demo_db) = Some (server_defaults 0 1 ''s'' ''h'' 27015 ''p'' (Some ''k'') 1)"
    by (simp add: demo_db_def t_first_def t_empty_def)
  then have "validateRelayServerAccess (pn_db demo_panel) (cx_req (demo_ctx fs)) (cx_body (demo_ctx fs)) (safeStoi ''1'' 0) = Some True"
    by (simp add: validateRelayServerAccess_def validateRelayApiKey_def demo_header demo_panel_def safeStoi_def demo_one Let_def)
  then show ?thesis by (simp add: with_server_def s safeStoi_def demo_one Let_def)
qed

theorem relay_key_required_witness:
  "relay_key (cx_req (demo_ctx [])) (cx_body (demo_ctx [])) \<noteq> []"
proof -
  have "\<exists>p' r. event_handler Wound (demo_env 0) (demo_ctx []) demo_panel = Some (p', r) \<and> re_status r = 200"
    by (simp add: event_handler_def post_wound_def demo_access ok_message_def)
  then obtain p' r where "event_handler Wound (demo_env 0) (demo_ctx []) demo_panel = Some (p', r)" "re_status r = 200"
    by (elim exE conjE)
  from relay_key_required [OF this(1)] this(2) show ?thesis by simp
qed

text \<open>C10: no event a relay can post, raw log lines with everything the plugins do on them included, makes a
  team-kill record both forgiven and kicked or lets a code exceed its uses.\<close>
theorem event_routes_keep:
  assumes "event_handler r e ctx p = Some (p', resp)" "tk_ok (pn_db p)" "cdk_ok (pn_db p)"
  shows "tk_ok (pn_db p') \<and> cdk_ok (pn_db p')"
  using event_handler_side [OF assms(1)] assms(2,3) by (simp add: side_ok_def)

theorem event_routes_keep_witness:
  "\<exists>p' resp. event_handler Kill (demo_env 0) (demo_ctx [(''victimSteamId'', JStr ''v''), (''killerSteamId'', JStr ''k'')]) demo_panel
     = Some (p', resp) \<and> tk_ok (pn_db p')"
proof -
  let ?c = "demo_ctx [(''victimSteamId'', JStr ''v''), (''killerSteamId'', JStr ''k'')]"
  have "\<exists>p' r. event_handler Kill (demo_env 0) ?c demo_panel = Some (p', r)"
    unfolding event_handler_def event_route.case post_kill_def demo_access by (simp add: Let_def)
  then obtain p' r where k: "event_handler Kill (demo_env 0) ?c demo_panel = Some (p', r)" by (elim exE)
  from event_routes_keep [OF k] show ?thesis
    using k empty_side by (intro exI [of _ p'] exI [of _ r]) (simp add: demo_panel_def)
qed



text \<open>After a player list was posted, a kill between two players counts as a team kill exactly when the
  list has both, in the same team.\<close>
theorem team_kill_detection:
  assumes "post_playerlist_raw e ctx p = Some (p', r)" "re_status r = 200"
    and "body_str e ctx ''raw'' = player_list_text ps" "list_all player_ok ps" "distinct (map pi_steamId ps)"
  shows "isTeamKill p' (safeStoi (body_str e ctx ''serverId'') 0) a b \<longleftrightarrow>
    (\<exists>q1 q2. q1 \<in> set ps \<and> q2 \<in> set ps \<and> pi_steamId q1 = a \<and> pi_steamId q2 = b \<and> pi_teamId q1 = pi_teamId q2)"
proof -
  let ?sid = "safeStoi (body_str e ctx ''serverId'') 0"
  have ne: "player_list_text ps \<noteq> []" by (simp add: player_list_text_def unlines_def)
  from with_server_key [OF assms(1) [unfolded post_playerlist_raw_def]] assms(2)
  have t: "pn_teams p' ?sid = Some (team_map ps)"
    using ne parse_printed_list [OF assms(4)] by (auto simp: assms(3) updateTeamMap_def Let_def)
  have te: "pi_teamId q \<noteq> []" if "q \<in> set ps" for q
    using that assms(4) by (auto simp: list_all_iff player_ok_def over_def)
  note m = team_map_Some [OF assms(5)]
  have both: "isTeamKill p' ?sid a b \<longleftrightarrow> (\<exists>k v. team_map ps a = Some k \<and> team_map ps b = Some v \<and> te_teamId k \<noteq> [] \<and> te_teamId k = te_teamId v)"
    by (simp add: isTeamKill_def t split: option.split)
  show ?thesis unfolding both m using te by fastforce
qed

definition demo_team :: "string \<Rightarrow> string \<Rightarrow> PlayerInfo" where
  "demo_team steam team = \<lparr>pi_rconId = 4, pi_steamId = steam, pi_eosId = ''0a'', pi_name = ''Bob'', pi_teamId = team,
     pi_squadId = [], pi_isLeader = False, pi_role = ''R''\<rparr>"

lemma demo_team_ok: "list_all player_ok [demo_team ''1'' ''1'', demo_team ''2'' ''1'', demo_team ''3'' ''2'']"
  by (simp add: demo_team_def player_ok_def field_def over_def byte_of_def is_space_def is_digit_def)

theorem team_kill_detection_witness:
  "\<exists>p' r. post_playerlist_raw (demo_env 0) (demo_ctx [(''raw'', JStr (player_list_text
       [demo_team ''1'' ''1'', demo_team ''2'' ''1'', demo_team ''3'' ''2'']))]) demo_panel = Some (p', r)
     \<and> isTeamKill p' 1 ''1'' ''2'' \<and> \<not> isTeamKill p' 1 ''1'' ''3''"
proof -
  let ?ps = "[demo_team ''1'' ''1'', demo_team ''2'' ''1'', demo_team ''3'' ''2'']"
  let ?c = "demo_ctx [(''raw'', JStr (player_list_text ?ps))]"
  have b: "body_str (demo_env 0) ?c ''raw'' = player_list_text ?ps" "body_str (demo_env 0) ?c ''serverId'' = ''1''"
    by (simp_all add: demo_ctx_def jsonStr_def)
  have ne: "player_list_text ?ps \<noteq> []" by (simp add: player_list_text_def unlines_def)
  have "\<exists>p' r. post_playerlist_raw (demo_env 0) ?c demo_panel = Some (p', r) \<and> re_status r = 200"
    unfolding post_playerlist_raw_def demo_access b(1) Let_def using ne by (simp add: parse_printed_list [OF demo_team_ok])
  then obtain p' r where k: "post_playerlist_raw (demo_env 0) ?c demo_panel = Some (p', r)" "re_status r = 200"
    by (elim exE conjE)
  have s: "safeStoi (body_str (demo_env 0) ?c ''serverId'') 0 = 1" by (simp add: b(2) safeStoi_def demo_one)
  have d: "distinct (map pi_steamId ?ps)" by (simp add: demo_team_def)
  note t = team_kill_detection [OF k b(1) demo_team_ok d, unfolded s]
  have "isTeamKill p' 1 ''1'' ''2''" unfolding t
    by (rule exI [of _ "demo_team ''1'' ''1''"], rule exI [of _ "demo_team ''2'' ''1''"]) (simp add: demo_team_def)
  moreover have "\<not> isTeamKill p' 1 ''1'' ''3''" unfolding t by (auto simp: demo_team_def)
  ultimately show ?thesis using k by (intro exI [of _ p'] exI [of _ r] conjI)
qed

text \<open>Chat times are written in local time and compared with UTC: with a local clock ahead by some seconds,
  an equal message is dropped within that many seconds plus five, and with one behind by five or more
  never.\<close>
theorem chat_dedup_window:
  assumes "e_local e1 (e_now e1) = e_now e1 + ahead"
    and "\<forall>c\<in>set (t_rows (db_chat_logs d)). \<not> (c_serverId c = sid \<and> c_steamId c = steam \<and> c_message c = msg)"
  shows "length (t_rows (db_chat_logs (chat_log e2 sid n2 steam msg ty2 (chat_log e1 sid n1 steam msg ty1 d)))) =
    length (t_rows (db_chat_logs d)) + (if e_now e2 - e_now e1 < ahead + 5 then 1 else 2)"
proof -
  have none: "\<not> chat_dup e1 sid steam msg d" using assms(2) by (auto simp: chat_dup_def)
  let ?d1 = "chat_log e1 sid n1 steam msg ty1 d"
  have rows: "\<exists>row. t_rows (db_chat_logs ?d1) = t_rows (db_chat_logs d) @ [row] \<and> c_serverId row = sid \<and>
      c_steamId row = steam \<and> c_message row = msg \<and> c_timestamp row = e_now e1 + ahead"
    using none assms(1) by (simp add: chat_log_def)
  then have "chat_dup e2 sid steam msg ?d1 \<longleftrightarrow> e_now e1 + ahead > e_now e2 - 5"
    using assms(2) by (auto simp: chat_dup_def)
  then show ?thesis using rows by (auto simp: chat_log_def [of e2])
qed

theorem chat_dedup_window_witness:
  "length (t_rows (db_chat_logs (chat_log (demo_env 100) 1 ''n'' ''p'' ''hi'' ''all''
     (chat_log ((demo_env 0)\<lparr>e_local := (\<lambda>t. t + 28800)\<rparr>) 1 ''n'' ''p'' ''hi'' ''all'' demo_db)))) = 1"
  using chat_dedup_window [of "(demo_env 0)\<lparr>e_local := (\<lambda>t. t + 28800)\<rparr>" 28800 demo_db 1 "''p''" "''hi''" "demo_env 100" "''n''" "''all''" "''n''" "''all''"]
  by (simp add: demo_env_def demo_db_def empty_db_def)

text \<open>Within the window after a counted suicide of a server no other suicide of that server is counted,
  scored or announced.\<close>
theorem suicide_once:
  assumes "raw_suicide e1 sid ev1 p = (True, p1)"
    and "e_ms e2 - e_ms e1 < config_getInt (e_cfg e2) ''SUICIDE_DEDUP_WINDOW_MS'' 10000"
  shows "raw_suicide e2 sid ev2 p1 = (False, p1)"
proof -
  have s: "pn_suicide p1 sid = Some (e_ms e1)"
    using assms(1) by (auto simp: raw_suicide_def Let_def safe_warn_def split: if_splits)
  then have "(pn_suicide p1)(sid \<mapsto> e_ms e1) = pn_suicide p1" by (simp add: fun_upd_idem)
  then show ?thesis using assms(2) s by (simp add: raw_suicide_def Let_def)
qed

theorem suicide_once_witness:
  "\<exists>p1. snd (raw_suicide ((demo_env 0)\<lparr>e_ms := 50000\<rparr>) 1 \<lparr>pl_type = ''suicide'', pl_fields = [''victimSteamId'' \<mapsto> ''p'']\<rparr> demo_panel) = p1
     \<and> raw_suicide ((demo_env 0)\<lparr>e_ms := 55000\<rparr>) 1 \<lparr>pl_type = ''suicide'', pl_fields = [''victimSteamId'' \<mapsto> ''q'']\<rparr> p1 = (False, p1)"
proof -
  let ?e = "(demo_env 0)\<lparr>e_ms := 50000\<rparr>" and ?ev = "\<lparr>pl_type = ''suicide'', pl_fields = [''victimSteamId'' \<mapsto> ''p'']\<rparr>"
  have "fst (raw_suicide ?e 1 ?ev demo_panel)"
    by (simp add: raw_suicide_def Let_def demo_panel_def demo_env_def config_getInt_def config_get_def)
  then obtain p1 where r: "raw_suicide ?e 1 ?ev demo_panel = (True, p1)" by (cases "raw_suicide ?e 1 ?ev demo_panel") auto
  show ?thesis
    by (rule exI [of _ p1], rule conjI, simp add: r)
      (rule suicide_once [OF r], simp add: demo_env_def config_getInt_def config_get_def)
qed

end
