(* ===== verification/WsHandler.thy ===== *)
theory WsHandler
  imports World
begin

text \<open>
  The WebSocket fan-out (net/ws_handler.cpp): clients with their subscriptions, immediate and queued
  broadcasts, and the incremental player list. A client's callback is represented by its id: what it is
  handed is recorded, whether it throws does not matter since every call is guarded. The mutex is not
  recursive, so a call that locks it while holding it never returns.
\<close>

section \<open>Snapshots and differences\<close>

record PlayerSnapshot =
  ps_steamId :: string
  ps_name :: string
  ps_teamId :: int
  ps_squadId :: string
  ps_rconId :: string

definition same_snapshot :: "PlayerSnapshot \<Rightarrow> PlayerSnapshot \<Rightarrow> bool" where
  "same_snapshot a b = (ps_steamId a = ps_steamId b \<and> ps_name a = ps_name b \<and> ps_teamId a = ps_teamId b \<and>
     ps_squadId a = ps_squadId b)"

record PlayerDiff =
  df_joined :: "PlayerSnapshot list"
  df_left :: "PlayerSnapshot list"
  df_changed :: "PlayerSnapshot list"
  df_totalCount :: int

definition snapshot_json :: "PlayerSnapshot \<Rightarrow> json" where
  "snapshot_json p = JObj [(''steamId'', JStr (ps_steamId p)), (''name'', JStr (ps_name p)),
     (''teamId'', JInt (ps_teamId p)), (''squadId'', JStr (ps_squadId p))]"

definition diff_json :: "PlayerDiff \<Rightarrow> json" where
  "diff_json d = JObj [(''type'', JStr ''player_diff''), (''totalCount'', JInt (df_totalCount d)),
     (''joined'', JArr (map snapshot_json (df_joined d))), (''left'', JArr (map snapshot_json (df_left d))),
     (''changed'', JArr (map snapshot_json (df_changed d)))]"

text \<open>The lookup maps keep the last entry of a Steam id.\<close>

definition snapshot_map :: "PlayerSnapshot list \<Rightarrow> string \<rightharpoonup> PlayerSnapshot" where
  "snapshot_map ps = foldl (\<lambda>m p. m(ps_steamId p \<mapsto> p)) Map.empty ps"

definition calculateDiff :: "PlayerSnapshot list \<Rightarrow> PlayerSnapshot list \<Rightarrow> PlayerDiff" where
  "calculateDiff cached current =
     (let cm = snapshot_map cached; nm = snapshot_map current
      in if cached = [] \<and> current \<noteq> []
         then \<lparr>df_joined = current, df_left = [], df_changed = [], df_totalCount = wrap32 (int (length current))\<rparr>
         else \<lparr>df_joined = filter (\<lambda>p. cm (ps_steamId p) = None) current,
               df_left = filter (\<lambda>p. nm (ps_steamId p) = None) cached,
               df_changed = filter (\<lambda>p. case cm (ps_steamId p) of None \<Rightarrow> False | Some q \<Rightarrow> \<not> same_snapshot q p) current,
               df_totalCount = wrap32 (int (length current))\<rparr>)"

section \<open>The handler's state\<close>

record BroadcastConfig =
  bf_playerListIntervalMs :: int
  bf_chatIntervalMs :: int
  bf_killIntervalMs :: int
  bf_reviveIntervalMs :: int
  bf_maxPayloadBytes :: int

definition default_config :: BroadcastConfig where
  "default_config = \<lparr>bf_playerListIntervalMs = 3000, bf_chatIntervalMs = 0, bf_killIntervalMs = 0, bf_reviveIntervalMs = 0,
     bf_maxPayloadBytes = 65536\<rparr>"

record WsClient =
  wc_id :: string
  wc_subscribed :: "int list"
  wc_lastPing :: int

text \<open>The clients in the map's iteration order; what their callbacks were handed, in order.\<close>

record WsHandler =
  wh_config :: BroadcastConfig
  wh_clients :: "WsClient list"
  wh_cache :: "int \<rightharpoonup> PlayerSnapshot list"
  wh_lastPlayer :: "int \<rightharpoonup> int"
  wh_queue :: "(int \<times> string) list"
  wh_locked :: bool
  wh_sent :: "(string \<times> string) list"

definition ws_init :: WsHandler where
  "ws_init = \<lparr>wh_config = default_config, wh_clients = [], wh_cache = Map.empty, wh_lastPlayer = Map.empty,
     wh_queue = [], wh_locked = False, wh_sent = []\<rparr>"

text \<open>\<open>lock_guard\<close> on \<open>mtx_\<close>: a second lock by the same thread blocks for ever.\<close>

definition locked :: "(WsHandler \<Rightarrow> ('a \<times> WsHandler) run) \<Rightarrow> WsHandler \<Rightarrow> ('a \<times> WsHandler) run" where
  "locked f h =
     (if wh_locked h then Loop
      else (case f (h\<lparr>wh_locked := True\<rparr>) of
              Ret (a, h') \<Rightarrow> Ret (a, h'\<lparr>wh_locked := False\<rparr>) | Throw \<Rightarrow> Throw | Loop \<Rightarrow> Loop))"

section \<open>Clients\<close>

definition ws_put :: "WsClient \<Rightarrow> WsHandler \<Rightarrow> WsHandler" where
  "ws_put c h = h\<lparr>wh_clients := c # filter (\<lambda>x. wc_id x \<noteq> wc_id c) (wh_clients h)\<rparr>"

definition registerClient :: "int \<Rightarrow> string \<Rightarrow> int \<Rightarrow> WsHandler \<Rightarrow> (unit \<times> WsHandler) run" where
  "registerClient now cid sid = locked (\<lambda>h. Ret ((), ws_put \<lparr>wc_id = cid, wc_subscribed = [sid], wc_lastPing = now\<rparr> h))"

definition unregisterClient :: "string \<Rightarrow> WsHandler \<Rightarrow> (unit \<times> WsHandler) run" where
  "unregisterClient cid = locked (\<lambda>h. Ret ((), h\<lparr>wh_clients := filter (\<lambda>c. wc_id c \<noteq> cid) (wh_clients h)\<rparr>))"

definition ws_subscribe :: "int \<Rightarrow> string \<Rightarrow> WsHandler \<Rightarrow> (unit \<times> WsHandler) run" where
  "ws_subscribe sid cid = locked (\<lambda>h. Ret ((), h\<lparr>wh_clients :=
     map (\<lambda>c. if wc_id c = cid then c\<lparr>wc_subscribed := List.insert sid (wc_subscribed c)\<rparr> else c) (wh_clients h)\<rparr>))"

definition ws_unsubscribe :: "string \<Rightarrow> WsHandler \<Rightarrow> (unit \<times> WsHandler) run" where
  "ws_unsubscribe cid = locked (\<lambda>h. Ret ((), h\<lparr>wh_clients := filter (\<lambda>c. wc_id c \<noteq> cid) (wh_clients h)\<rparr>))"

definition connectionCount :: "WsHandler \<Rightarrow> (nat \<times> WsHandler) run" where
  "connectionCount = locked (\<lambda>h. Ret (length (wh_clients h), h))"

definition ws_cleanup :: "int \<Rightarrow> WsHandler \<Rightarrow> (unit \<times> WsHandler) run" where
  "ws_cleanup now = locked (\<lambda>h. Ret ((), h\<lparr>wh_clients := filter (\<lambda>c. \<not> now - wc_lastPing c > 120) (wh_clients h)\<rparr>))"

section \<open>Messages\<close>

definition envelope :: "string \<Rightarrow> string \<Rightarrow> string" where
  "envelope ty data = ''{'' @ [CHR 0x22] @ ''type'' @ [CHR 0x22] @ '':'' @ [CHR 0x22] @ ty @ [CHR 0x22] @ '','' @
     [CHR 0x22] @ ''data'' @ [CHR 0x22] @ '':'' @ data @ ''}''"

definition subscribed :: "int \<Rightarrow> WsClient \<Rightarrow> bool" where
  "subscribed sid c = (0 \<in> set (wc_subscribed c) \<or> sid \<in> set (wc_subscribed c))"

text \<open>The targets are copied under the lock and called without it.\<close>

definition sendToSubscribers :: "int \<Rightarrow> string \<Rightarrow> WsHandler \<Rightarrow> (unit \<times> WsHandler) run" where
  "sendToSubscribers sid msg h =
     (case locked (\<lambda>h. Ret (map wc_id (filter (subscribed sid) (wh_clients h)), h)) h of
        Ret (targets, h') \<Rightarrow> Ret ((), h'\<lparr>wh_sent := wh_sent h' @ map (\<lambda>t. (t, msg)) targets\<rparr>)
      | Throw \<Rightarrow> Throw | Loop \<Rightarrow> Loop)"

definition ws_broadcast :: "int \<Rightarrow> string \<Rightarrow> string \<Rightarrow> WsHandler \<Rightarrow> (unit \<times> WsHandler) run" where
  "ws_broadcast sid ty data h =
     (let interval = (if ty = ''chat'' then bf_chatIntervalMs (wh_config h)
                      else if ty = ''kill'' then bf_killIntervalMs (wh_config h)
                      else if ty = ''revive'' then bf_reviveIntervalMs (wh_config h) else 0)
      in if interval \<le> 0 then sendToSubscribers sid (envelope ty data) h
         else Ret ((), h\<lparr>wh_queue := wh_queue h @ [(sid, envelope ty data)]\<rparr>))"

definition broadcastAll :: "string \<Rightarrow> string \<Rightarrow> WsHandler \<Rightarrow> (unit \<times> WsHandler) run" where
  "broadcastAll ty data = locked (\<lambda>h. Ret ((), h\<lparr>wh_sent := wh_sent h @ map (\<lambda>c. (wc_id c, envelope ty data)) (wh_clients h)\<rparr>))"

fun flush_all :: "(int \<times> string) list \<Rightarrow> WsHandler \<Rightarrow> (unit \<times> WsHandler) run" where
  "flush_all [] h = Ret ((), h)"
| "flush_all ((sid, msg) # q) h =
     (case sendToSubscribers sid msg h of Ret (_, h') \<Rightarrow> flush_all q h' | Throw \<Rightarrow> Throw | Loop \<Rightarrow> Loop)"

definition flush_round :: "WsHandler \<Rightarrow> (unit \<times> WsHandler) run" where
  "flush_round h = flush_all (wh_queue h) (h\<lparr>wh_queue := []\<rparr>)"

section \<open>The player list\<close>

definition cached_players :: "WsHandler \<Rightarrow> int \<Rightarrow> PlayerSnapshot list" where
  "cached_players h sid = (case wh_cache h sid of None \<Rightarrow> [] | Some ps \<Rightarrow> ps)"

text \<open>\<open>sendToSubscribers\<close> is called with the lock held.\<close>

definition broadcastPlayerUpdate ::
  "(json \<Rightarrow> string) \<Rightarrow> int \<Rightarrow> int \<Rightarrow> PlayerSnapshot list \<Rightarrow> WsHandler \<Rightarrow> (unit \<times> WsHandler) run" where
  "broadcastPlayerUpdate dump now sid current = locked (\<lambda>h.
     if (case wh_lastPlayer h sid of None \<Rightarrow> False | Some t \<Rightarrow> now - t < bf_playerListIntervalMs (wh_config h))
     then Ret ((), h\<lparr>wh_cache := (wh_cache h)(sid \<mapsto> current)\<rparr>)
     else
       let diff = calculateDiff (cached_players h sid) current;
           h1 = h\<lparr>wh_lastPlayer := (wh_lastPlayer h)(sid \<mapsto> now), wh_cache := (wh_cache h)(sid \<mapsto> current)\<rparr>
       in sendToSubscribers sid (dump (diff_json diff)) h1)"

definition getPlayerSnapshot :: "int \<Rightarrow> WsHandler \<Rightarrow> (PlayerSnapshot list \<times> WsHandler) run" where
  "getPlayerSnapshot sid = locked (\<lambda>h. Ret (cached_players h sid, h))"

section \<open>Differences tell everything\<close>

text \<open>What a client does with a difference: drop the ones that left, take the new data of the others.\<close>

definition apply_diff :: "PlayerDiff \<Rightarrow> (string \<rightharpoonup> PlayerSnapshot) \<Rightarrow> (string \<rightharpoonup> PlayerSnapshot)" where
  "apply_diff d m = (m |` (- ps_steamId ` set (df_left d))) ++ snapshot_map (df_joined d @ df_changed d)"

definition view :: "PlayerSnapshot \<Rightarrow> string \<times> string \<times> int \<times> string" where
  "view p = (ps_steamId p, ps_name p, ps_teamId p, ps_squadId p)"

lemma same_view: "same_snapshot a b \<longleftrightarrow> view a = view b"
  by (simp add: same_snapshot_def view_def)

lemma snapshot_map_eq: "snapshot_map ps = map_of (rev (map (\<lambda>p. (ps_steamId p, p)) ps))"
proof -
  have "foldl (\<lambda>m p. m(ps_steamId p \<mapsto> p)) m ps = m ++ map_of (rev (map (\<lambda>p. (ps_steamId p, p)) ps))" for m
    by (induction ps arbitrary: m) (simp_all add: map_add_def fun_eq_iff split: option.split)
  then show ?thesis by (simp add: snapshot_map_def)
qed

lemma snapshot_map_Some:
  assumes "distinct (map ps_steamId ps)"
  shows "snapshot_map ps a = Some p \<longleftrightarrow> p \<in> set ps \<and> ps_steamId p = a"
proof -
  have "distinct (map fst (rev (map (\<lambda>p. (ps_steamId p, p)) ps)))" using assms by (simp add: rev_map [symmetric] comp_def)
  then show ?thesis unfolding snapshot_map_eq by (auto simp: map_of_eq_Some_iff)
qed

lemma snapshot_map_None: "snapshot_map ps a = None \<longleftrightarrow> a \<notin> ps_steamId ` set ps"
  unfolding snapshot_map_eq by (simp add: map_of_eq_None_iff image_image)

lemma diff_cases:
  "calculateDiff cached current = \<lparr>df_joined = filter (\<lambda>p. snapshot_map cached (ps_steamId p) = None) current,
     df_left = filter (\<lambda>p. snapshot_map current (ps_steamId p) = None) cached,
     df_changed = filter (\<lambda>p. case snapshot_map cached (ps_steamId p) of None \<Rightarrow> False | Some q \<Rightarrow> \<not> same_snapshot q p) current,
     df_totalCount = wrap32 (int (length current))\<rparr>"
  by (simp add: calculateDiff_def Let_def snapshot_map_def)

lemma distinct_steamIds_inj:
  assumes "distinct (map ps_steamId ps)" "p \<in> set ps" "q \<in> set ps" "ps_steamId p = ps_steamId q"
  shows "p = q"
  using assms by (metis distinct_map inj_onD)

text \<open>C19: the difference the server broadcasts is complete: a client that holds the previous player list and
  applies it (drops those that left, takes the data of those that joined or changed) holds the current
  list, up to the RCON slot number the difference does not tell, and the count sent is the list's length.\<close>
theorem diff_applies:
  assumes "distinct (map ps_steamId cached)" "distinct (map ps_steamId current)"
  shows "map_option view (apply_diff (calculateDiff cached current) (snapshot_map cached) a) = map_option view (snapshot_map current a)
    \<and> df_totalCount (calculateDiff cached current) = wrap32 (int (length current))"
proof -
  let ?d = "calculateDiff cached current"
  let ?ch = "df_joined ?d @ df_changed ?d"
  have sub: "p \<in> set ?ch \<longleftrightarrow> p \<in> set current \<and> (case snapshot_map cached (ps_steamId p) of None \<Rightarrow> True | Some q \<Rightarrow> view q \<noteq> view p)" for p
    by (auto simp: diff_cases same_view split: option.splits)
  have hd: "snapshot_map ?ch a = Some p \<Longrightarrow> p \<in> set ?ch \<and> ps_steamId p = a" for p
    unfolding snapshot_map_eq by (drule map_of_SomeD) auto
  have left: "a \<in> ps_steamId ` set (df_left ?d) \<longleftrightarrow> a \<in> ps_steamId ` set cached \<and> snapshot_map current a = None"
    by (auto simp: diff_cases)
  show ?thesis
  proof (intro conjI)
    show "df_totalCount ?d = wrap32 (int (length current))" by (simp add: diff_cases)
    show "map_option view (apply_diff ?d (snapshot_map cached) a) = map_option view (snapshot_map current a)"
    proof (cases "snapshot_map ?ch a")
      case (Some p)
      then have "snapshot_map current a = Some p"
        using hd [OF Some] sub assms by (simp add: snapshot_map_Some)
      then show ?thesis using Some by (simp add: apply_diff_def map_add_Some_iff)
    next
      case None
      then have n: "a \<notin> ps_steamId ` set ?ch" by (simp add: snapshot_map_None)
      have keep: "apply_diff ?d (snapshot_map cached) a = (snapshot_map cached |` (- ps_steamId ` set (df_left ?d))) a"
        using None by (simp add: apply_diff_def map_add_def)
      show ?thesis
      proof (cases "snapshot_map current a")
        case None
        then have "(snapshot_map cached |` (- ps_steamId ` set (df_left ?d))) a = None"
          using left snapshot_map_None [of cached a] by (simp add: restrict_map_def)
        then show ?thesis using None unfolding keep by simp
      next
        case (Some p)
        then have p: "p \<in> set current" "ps_steamId p = a" using assms by (simp_all add: snapshot_map_Some)
        then have "\<not> (case snapshot_map cached a of None \<Rightarrow> True | Some q \<Rightarrow> view q \<noteq> view p)"
          using n sub [of p] by blast
        then obtain q where "snapshot_map cached a = Some q" "view q = view p"
          by (auto split: option.splits)
        then show ?thesis using Some left unfolding keep by (simp add: restrict_map_def)
      qed
    qed
  qed
qed

definition example_player :: "string \<Rightarrow> int \<Rightarrow> PlayerSnapshot" where
  "example_player a k = \<lparr>ps_steamId = a, ps_name = a, ps_teamId = k, ps_squadId = ''1'', ps_rconId = ''7''\<rparr>"

theorem diff_applies_witness:
  "map_option view (apply_diff (calculateDiff [example_player ''a'' 1, example_player ''b'' 1]
     [example_player ''b'' 2, example_player ''c'' 1])
     (snapshot_map [example_player ''a'' 1, example_player ''b'' 1]) ''b'') = Some (''b'', ''b'', 2, ''1'')
   \<and> map_option view (apply_diff (calculateDiff [example_player ''a'' 1, example_player ''b'' 1]
     [example_player ''b'' 2, example_player ''c'' 1])
     (snapshot_map [example_player ''a'' 1, example_player ''b'' 1]) ''a'') = None"
  using diff_applies [of "[example_player ''a'' 1, example_player ''b'' 1]" "[example_player ''b'' 2, example_player ''c'' 1]" "''b''"]
    diff_applies [of "[example_player ''a'' 1, example_player ''b'' 1]" "[example_player ''b'' 2, example_player ''c'' 1]" "''a''"]
  by (simp add: example_player_def snapshot_map_def view_def)

section \<open>Delivery\<close>

lemma sendToSubscribers_exact:
  assumes "\<not> wh_locked h"
  shows "sendToSubscribers sid msg h =
    Ret ((), h\<lparr>wh_sent := wh_sent h @ map (\<lambda>c. (wc_id c, msg)) (filter (subscribed sid) (wh_clients h))\<rparr>)"
  using assms by (simp add: sendToSubscribers_def locked_def comp_def)

definition deliveries :: "WsClient list \<Rightarrow> (int \<times> string) list \<Rightarrow> (string \<times> string) list" where
  "deliveries cs q = concat (map (\<lambda>(sid, msg). map (\<lambda>c. (wc_id c, msg)) (filter (subscribed sid) cs)) q)"

lemma flush_all_exact:
  "\<not> wh_locked h \<Longrightarrow> flush_all q h = Ret ((), h\<lparr>wh_sent := wh_sent h @ deliveries (wh_clients h) q\<rparr>)"
proof (induction q arbitrary: h)
  case Nil
  then show ?case by (simp add: deliveries_def)
next
  case (Cons m q)
  obtain sid msg where m: "m = (sid, msg)" by (cases m)
  show ?case using Cons by (simp add: m sendToSubscribers_exact deliveries_def)
qed

text \<open>Events reach a handler one after the other, each broadcast at once or queued.\<close>

fun broadcast_list :: "(int \<times> string \<times> string) list \<Rightarrow> WsHandler \<Rightarrow> (unit \<times> WsHandler) run" where
  "broadcast_list [] h = Ret ((), h)"
| "broadcast_list ((sid, ty, data) # es) h =
     (case ws_broadcast sid ty data h of Ret (_, h') \<Rightarrow> broadcast_list es h' | Throw \<Rightarrow> Throw | Loop \<Rightarrow> Loop)"

definition throttled :: "WsHandler \<Rightarrow> string \<Rightarrow> bool" where
  "throttled h ty = (0 < (if ty = ''chat'' then bf_chatIntervalMs (wh_config h)
     else if ty = ''kill'' then bf_killIntervalMs (wh_config h)
     else if ty = ''revive'' then bf_reviveIntervalMs (wh_config h) else 0))"

definition event_msgs :: "(int \<times> string \<times> string) list \<Rightarrow> (int \<times> string) list" where
  "event_msgs es = map (\<lambda>(sid, ty, data). (sid, envelope ty data)) es"

lemma ws_broadcast_exact:
  assumes "\<not> wh_locked h"
  shows "ws_broadcast sid ty data h = Ret ((), if throttled h ty then h\<lparr>wh_queue := wh_queue h @ [(sid, envelope ty data)]\<rparr>
    else h\<lparr>wh_sent := wh_sent h @ deliveries (wh_clients h) [(sid, envelope ty data)]\<rparr>)"
  using assms by (simp add: ws_broadcast_def throttled_def sendToSubscribers_exact deliveries_def Let_def not_less)

lemma deliveries_append: "deliveries cs (a @ b) = deliveries cs a @ deliveries cs b"
  by (simp add: deliveries_def)

lemma broadcast_list_exact:
  "\<not> wh_locked h \<Longrightarrow> broadcast_list es h = Ret ((), h\<lparr>
     wh_sent := wh_sent h @ deliveries (wh_clients h) (event_msgs (filter (\<lambda>(_, ty, _). \<not> throttled h ty) es)),
     wh_queue := wh_queue h @ event_msgs (filter (\<lambda>(_, ty, _). throttled h ty) es)\<rparr>)"
proof (induction es arbitrary: h)
  case Nil
  then show ?case by (simp add: deliveries_def event_msgs_def)
next
  case (Cons m es)
  obtain sid ty data where m: "m = (sid, ty, data)" by (cases m)
  have cfg: "throttled (h\<lparr>wh_queue := q\<rparr>) = throttled h" "throttled (h\<lparr>wh_sent := s\<rparr>) = throttled h" for q s
    by (simp_all add: throttled_def fun_eq_iff)
  show ?case
    using Cons by (simp add: m ws_broadcast_exact cfg event_msgs_def deliveries_append [symmetric])
qed

text \<open>A run of broadcasts followed by one round of the flush loop delivers every event to exactly the
  clients subscribed to its server (or to server 0), first the events of types without an interval in
  the order they came, then the queued ones in theirs; nothing is lost, duplicated or left queued.\<close>
theorem broadcasts_delivered:
  assumes "\<not> wh_locked h" "wh_queue h = []"
  shows "\<exists>h1 h2. broadcast_list es h = Ret ((), h1) \<and> flush_round h1 = Ret ((), h2)
    \<and> wh_sent h2 = wh_sent h
      @ deliveries (wh_clients h) (event_msgs (filter (\<lambda>(_, ty, _). \<not> throttled h ty) es))
      @ deliveries (wh_clients h) (event_msgs (filter (\<lambda>(_, ty, _). throttled h ty) es))
    \<and> wh_queue h2 = [] \<and> wh_clients h2 = wh_clients h \<and> \<not> wh_locked h2"
  using assms by (simp add: broadcast_list_exact flush_round_def flush_all_exact)

definition example_handler :: WsHandler where
  "example_handler = ws_init\<lparr>wh_config := default_config\<lparr>bf_chatIntervalMs := 50\<rparr>,
     wh_clients := [\<lparr>wc_id = ''x'', wc_subscribed = [1], wc_lastPing = 0\<rparr>,
       \<lparr>wc_id = ''y'', wc_subscribed = [0], wc_lastPing = 0\<rparr>]\<rparr>"

theorem broadcasts_delivered_witness:
  "\<exists>h1 h2. broadcast_list [(2, ''chat'', ''1''), (1, ''kill'', ''2'')] example_handler = Ret ((), h1)
     \<and> flush_round h1 = Ret ((), h2)
     \<and> wh_sent h2 = [(''x'', envelope ''kill'' ''2''), (''y'', envelope ''kill'' ''2''), (''y'', envelope ''chat'' ''1'')]"
  using broadcasts_delivered [of example_handler "[(2, ''chat'', ''1''), (1, ''kill'', ''2'')]"]
  by (force simp: example_handler_def ws_init_def default_config_def throttled_def deliveries_def event_msgs_def subscribed_def)

text \<open>The first player-list broadcast of a server, and every one after the interval, never returns:
  it calls sendToSubscribers while holding the lock that one takes; only a call within the interval
  of an earlier one returns, and it replaces the cache without telling any client.\<close>
theorem player_update_deadlocks:
  assumes "\<not> wh_locked h"
  shows "broadcastPlayerUpdate dump now sid ps h =
    (case wh_lastPlayer h sid of None \<Rightarrow> Loop
     | Some t \<Rightarrow> if now - t < bf_playerListIntervalMs (wh_config h) then Ret ((), h\<lparr>wh_cache := (wh_cache h)(sid \<mapsto> ps)\<rparr>)
               else Loop)"
  using assms by (simp add: broadcastPlayerUpdate_def locked_def sendToSubscribers_def Let_def split: option.split)

theorem player_update_deadlocks_witness:
  "broadcastPlayerUpdate (\<lambda>_. []) 5000 3 [example_player ''a'' 1] ws_init = Loop"
  using player_update_deadlocks [of ws_init "\<lambda>_. []" 5000 3 "[example_player ''a'' 1]"] by (simp add: ws_init_def)

end
