(* ===== verification/Sql.thy ===== *)
theory Sql
  imports Http
begin

text \<open>
  What the routes use of SQL beyond the table operations: a text compared with or stored in an INTEGER
  column (numeric affinity), \<open>LIKE\<close>, ordering with \<open>LIMIT\<close> and \<open>OFFSET\<close>, and the foreign keys on users.
\<close>

section \<open>Numeric affinity\<close>

definition in_int64 :: "int \<Rightarrow> bool" where
  "in_int64 n = (- (2 ^ 63) \<le> n \<and> n < 2 ^ 63)"

text \<open>A text that reads as a number becomes that number: blanks around it, a sign, digits, a fraction and an
  exponent are allowed. \<open>None\<close>: it stays a text or becomes a real that is no integer, which equals no
  integer. The value is taken exactly.\<close>

definition sql_number :: "bool \<Rightarrow> string \<Rightarrow> string \<Rightarrow> int \<Rightarrow> int option" where
  "sql_number neg ds fr ex =
     (let m = int (digits_val (ds @ fr)); e = ex - int (length fr);
          v = (if 0 \<le> e then Some (m * 10 ^ nat e)
               else if m mod 10 ^ nat (- e) = 0 then Some (m div 10 ^ nat (- e)) else None)
      in case v of
           None \<Rightarrow> None
         | Some n \<Rightarrow> if in_int64 (if neg then - n else n) then Some (if neg then - n else n) else None)"

definition int_key :: "string \<Rightarrow> int option" where
  "int_key s =
     (let s1 = rtrim is_space (ltrim is_space s);
          signed = (\<lambda>u. u \<noteq> [] \<and> (hd u = CHR ''-'' \<or> hd u = CHR ''+''));
          s2 = (if signed s1 then tl s1 else s1);
          ds = takeWhile is_digit s2; r1 = dropWhile is_digit s2;
          point = (r1 \<noteq> [] \<and> hd r1 = CHR ''.'');
          fr = (if point then takeWhile is_digit (tl r1) else []);
          r2 = (if point then dropWhile is_digit (tl r1) else r1);
          expo = (r2 \<noteq> [] \<and> to_lower (hd r2) = CHR ''e'');
          r3 = (if expo \<and> signed (tl r2) then tl (tl r2) else if expo then tl r2 else []);
          ex = (if expo then (if signed (tl r2) \<and> hd (tl r2) = CHR ''-'' then - int (digits_val r3) else int (digits_val r3)) else 0)
      in if ds @ fr = [] \<or> (\<not> expo \<and> r2 \<noteq> []) \<or> (expo \<and> (r3 = [] \<or> \<not> list_all is_digit r3)) then None
         else sql_number (s1 \<noteq> [] \<and> hd s1 = CHR ''-'') ds fr ex)"

lemma trim_digits:
  assumes "list_all is_digit s"
  shows "rtrim is_space (ltrim is_space s) = s"
proof -
  have d: "\<not> is_space c" if "c \<in> set s" for c
    using assms that digit_not_space by (auto simp: list_all_iff)
  have "dropWhile is_space s = s"
    using d by (cases s) auto
  moreover have "dropWhile is_space (rev s) = rev s"
    using d by (cases "rev s") (auto simp: rev_eq_Cons_iff)
  ultimately show ?thesis by (simp add: rtrim_def ltrim_def)
qed

text \<open>The text of an id names that id, and so does one with leading zeros.\<close>

lemma int_key_digits:
  assumes "list_all is_digit s" "s \<noteq> []" "int (digits_val s) < 2 ^ 63"
  shows "int_key s = Some (int (digits_val s))"
proof -
  have "is_digit (hd s)" using assms(1,2) by (cases s) auto
  then have "hd s \<noteq> CHR ''-''" "hd s \<noteq> CHR ''+''" using not_digit_sign by metis+
  moreover have t: "takeWhile is_digit s = s" "dropWhile is_digit s = []"
    using assms(1) by (simp_all only: list_all_iff takeWhile_eq_all_conv dropWhile_eq_Nil_conv)
  ultimately show ?thesis using assms(2,3)
    by (simp add: int_key_def Let_def trim_digits [OF assms(1)] sql_number_def in_int64_def t
        del: takeWhile_eq_all_conv dropWhile_eq_Nil_conv)
qed

lemma int_key_to_string: "0 \<le> n \<Longrightarrow> n < 2 ^ 63 \<Longrightarrow> int_key (to_string n) = Some n"
  using int_key_digits [of "nat_digits (nat n)"] by (simp add: to_string_def nat_digits_is_digit)

lemma int_key_Nil [simp]: "int_key [] = None"
  by code_simp

section \<open>LIKE\<close>

text \<open>\<open>%\<close> stands for any text, \<open>_\<close> for one UTF-8 character; ASCII letters compare without case.\<close>

definition continuation :: "char \<Rightarrow> bool" where
  "continuation c = (128 \<le> byte_of c \<and> byte_of c < 192)"

function (sequential) sql_like :: "string \<Rightarrow> string \<Rightarrow> bool" where
  "sql_like [] s = (s = [])"
| "sql_like (q # qs) [] = (q = CHR ''%'' \<and> sql_like qs [])"
| "sql_like (q # qs) (c # s) =
     (if q = CHR ''%'' then sql_like qs (c # s) \<or> sql_like (q # qs) s
      else if q = CHR ''_'' then sql_like qs (dropWhile continuation s)
      else to_lower q = to_lower c \<and> sql_like qs s)"
  by pat_completeness auto
termination sql_like by lexicographic_order

definition like_any :: "string \<Rightarrow> string \<Rightarrow> bool" where
  "like_any kw s = sql_like (''%'' @ kw @ ''%'') s"

lemma sql_like_percent: "sql_like (CHR ''%'' # qs) s \<longleftrightarrow> (\<exists>u v. s = u @ v \<and> sql_like qs v)"
proof (induction s)
  case (Cons c s)
  have "sql_like (CHR ''%'' # qs) (c # s) \<longleftrightarrow> sql_like qs (c # s) \<or> (\<exists>u v. s = u @ v \<and> sql_like qs v)"
    using Cons by simp
  also have "\<dots> \<longleftrightarrow> (\<exists>u v. c # s = u @ v \<and> sql_like qs v)"
    by (auto simp: Cons_eq_append_conv)
  finally show ?case .
qed simp

text \<open>Without wildcards in the keyword, \<open>LIKE '%' || kw || '%'\<close> is a search for it without regard to case.\<close>

definition no_wildcard :: "string \<Rightarrow> bool" where
  "no_wildcard kw = list_all (\<lambda>c. c \<noteq> CHR ''%'' \<and> c \<noteq> CHR ''_'') kw"

lemma sql_like_literal:
  "no_wildcard kw \<Longrightarrow> sql_like (kw @ qs) s \<longleftrightarrow> (\<exists>u v. s = u @ v \<and> map to_lower u = map to_lower kw \<and> sql_like qs v)"
proof (induction kw arbitrary: s)
  case (Cons k kw)
  then have k: "k \<noteq> CHR ''%''" "k \<noteq> CHR ''_''" "no_wildcard kw" by (simp_all add: no_wildcard_def)
  show ?case
  proof (cases s)
    case (Cons c s')
    have "sql_like ((k # kw) @ qs) s \<longleftrightarrow> to_lower k = to_lower c \<and>
        (\<exists>u v. s' = u @ v \<and> map to_lower u = map to_lower kw \<and> sql_like qs v)"
      using k Cons.IH [OF k(3)] by (simp add: Cons)
    also have "\<dots> \<longleftrightarrow> (\<exists>u v. s = u @ v \<and> map to_lower u = map to_lower (k # kw) \<and> sql_like qs v)"
    proof (intro iffI; elim exE conjE)
      fix u v assume a: "to_lower k = to_lower c" "s' = u @ v" "map to_lower u = map to_lower kw" "sql_like qs v"
      then have "s = (c # u) @ v \<and> map to_lower (c # u) = map to_lower (k # kw) \<and> sql_like qs v" by (simp add: Cons)
      then show "\<exists>u v. s = u @ v \<and> map to_lower u = map to_lower (k # kw) \<and> sql_like qs v" by blast
    next
      fix u v assume a: "s = u @ v" "map to_lower u = map to_lower (k # kw)" "sql_like qs v"
      then obtain u' where "u = c # u'" by (cases u) (auto simp: Cons)
      with a show "to_lower k = to_lower c \<and> (\<exists>u v. s' = u @ v \<and> map to_lower u = map to_lower kw \<and> sql_like qs v)"
        by (auto simp: Cons)
    qed
    finally show ?thesis .
  qed (use k in simp)
qed (simp add: no_wildcard_def)

lemma like_any_literal:
  assumes "no_wildcard kw"
  shows "like_any kw s \<longleftrightarrow> str_contains (map to_lower kw) (map to_lower s)"
proof -
  have all: "sql_like [CHR ''%''] v" for v by (induction v) simp_all
  have "like_any kw s \<longleftrightarrow> (\<exists>u v w. s = u @ v @ w \<and> map to_lower v = map to_lower kw)"
    unfolding like_any_def by (auto simp: sql_like_percent sql_like_literal [OF assms] all)
  also have "\<dots> \<longleftrightarrow> (\<exists>u w. map to_lower s = u @ map to_lower kw @ w)"
  proof
    assume "\<exists>u w. map to_lower s = u @ map to_lower kw @ w"
    then obtain u w where "map to_lower s = u @ map to_lower kw @ w" by blast
    then show "\<exists>u v w. s = u @ v @ w \<and> map to_lower v = map to_lower kw"
      by (metis map_eq_append_conv)
  next
    assume "\<exists>u v w. s = u @ v @ w \<and> map to_lower v = map to_lower kw"
    then obtain u v w where "s = u @ v @ w" "map to_lower v = map to_lower kw" by blast
    then have "map to_lower s = map to_lower u @ map to_lower kw @ map to_lower w" by simp
    then show "\<exists>u w. map to_lower s = u @ map to_lower kw @ w" by blast
  qed
  finally show ?thesis by (simp add: str_contains_iff)
qed

section \<open>Order, limit and offset\<close>

text \<open>\<open>ORDER BY key DESC\<close>; SQLite leaves the order of equal keys open, here it is the row order. A negative \<open>LIMIT\<close> is none, a negative \<open>OFFSET\<close> is 0.\<close>

definition order_desc :: "('r \<Rightarrow> int) \<Rightarrow> 'r list \<Rightarrow> 'r list" where
  "order_desc k rs = sort_key (\<lambda>r. - k r) rs"

definition order_asc :: "('r \<Rightarrow> int) \<Rightarrow> 'r list \<Rightarrow> 'r list" where
  "order_asc k rs = sort_key k rs"

definition sql_limit :: "int \<Rightarrow> int \<Rightarrow> 'r list \<Rightarrow> 'r list" where
  "sql_limit n off rs = (let r = drop (nat off) rs in if n < 0 then r else take (nat n) r)"

lemma order_desc_simps [simp]: "set (order_desc k rs) = set rs" "length (order_desc k rs) = length rs"
  by (simp_all add: order_desc_def)

lemma order_desc_sorted: "sorted (rev (map k (order_desc k rs)))"
proof -
  have "sorted (map (\<lambda>r. - k r) (order_desc k rs))" by (simp add: order_desc_def)
  then have "sorted_wrt (\<lambda>a b. b \<le> a) (map k (order_desc k rs))" by (simp add: sorted_wrt_map sorted_map)
  then show ?thesis by (simp add: sorted_wrt_rev)
qed

lemma sql_limit_set: "set (sql_limit n off rs) \<subseteq> set rs"
  by (auto simp: sql_limit_def Let_def dest: in_set_takeD in_set_dropD)

text \<open>The pages of a list, one after the other, are the list.\<close>

lemma pages_concat:
  assumes "0 < n"
  shows "concat (map (\<lambda>i. sql_limit n (int i * n) rs) [0..<k]) = take (k * nat n) rs"
proof (induction k)
  case (Suc k)
  have "nat (int k * n) = k * nat n" using assms by (simp add: nat_mult_distrib)
  then have "sql_limit n (int k * n) rs = take (nat n) (drop (k * nat n) rs)"
    using assms by (simp add: sql_limit_def)
  then show ?case using Suc by (simp add: take_add [symmetric] add.commute)
qed simp

lemma pages_all:
  assumes "0 < n" "int (length rs) \<le> int k * n"
  shows "concat (map (\<lambda>i. sql_limit n (int i * n) rs) [0..<k]) = rs"
proof -
  have "int (k * nat n) = int k * n" using assms(1) by simp
  then have "length rs \<le> k * nat n" using assms(2) by linarith
  then show ?thesis using pages_concat [OF assms(1), of rs k] by simp
qed

section \<open>Users\<close>

definition user_exists :: "database \<Rightarrow> int \<Rightarrow> bool" where
  "user_exists d uid = (\<exists>u\<in>set (t_rows (db_users d)). u_id u = uid)"

text \<open>Rows that refer to a user by a foreign key without a cascade.\<close>

definition user_referenced :: "database \<Rightarrow> int \<Rightarrow> bool" where
  "user_referenced d uid = ((\<exists>s\<in>set (db_sessions d). s_userId s = uid) \<or>
     (\<exists>r\<in>set (t_rows (db_perms d)). up_userId r = uid) \<or>
     (\<exists>s\<in>set (t_rows (db_servers d)). sv_userId s = uid) \<or>
     (\<exists>g\<in>set (t_rows (db_plugins d)). pg_userId g = uid) \<or>
     (\<exists>s\<in>set (t_rows (db_sources d)). psr_userId s = uid))"

definition null_text :: "string option \<Rightarrow> string" where
  "null_text x = (case x of None \<Rightarrow> [] | Some s \<Rightarrow> s)"

abbreviation db_error :: "string \<Rightarrow> panel \<Rightarrow> (panel \<times> response) option" where
  "db_error msg p \<equiv> Some (p, ctx_error msg 400)"

end
