(* ===== verification/AuthRoutes.thy ===== *)
theory AuthRoutes
  imports Sql "HOL-Library.Char_ord" "HOL-Library.List_Lexorder"
begin

text \<open>
  Accounts: registration, login, logout (handlers/auth_handler.cpp) and the owner's administration of
  users (handlers/admin_handler.cpp), with the requests to the relays and the RCON commands that keep the
  game servers' admin lists in step. scrypt and the random bytes are arguments, one source per draw.
\<close>

type_synonym scrypt = "string \<Rightarrow> string \<Rightarrow> byte list option"
type_synonym draws = "nat \<Rightarrow> byte list"

abbreviation message :: "string \<Rightarrow> response" where
  "message s \<equiv> ctx_json (JObj [(''message'', JStr s)]) 200"

section \<open>Statements\<close>

definition user_named :: "database \<Rightarrow> string \<Rightarrow> user_row option" where
  "user_named d name = t_first (\<lambda>u. u_username u = name) (db_users d)"

definition user_with :: "database \<Rightarrow> string \<Rightarrow> user_row option" where
  "user_with d uid = t_first (\<lambda>u. Some (u_id u) = int_key uid) (db_users d)"

definition user_insert :: "time \<Rightarrow> string \<Rightarrow> string \<Rightarrow> string \<Rightarrow> string \<Rightarrow> string \<Rightarrow> database \<Rightarrow> database" where
  "user_insert now name hash role st steam d =
     (if user_named d name \<noteq> None then d
      else d\<lparr>db_users := t_insert (\<lambda>i. \<lparr>u_id = i, u_username = name, u_passwordHash = hash, u_role = role,
             u_status = st, u_createdAt = now, u_lastLogin = None, u_steamId = Some steam, u_rejectReason = None\<rparr>)
             (db_users d)\<rparr>)"

definition session_insert :: "time \<Rightarrow> string \<Rightarrow> int \<Rightarrow> database \<Rightarrow> database" where
  "session_insert now token uid d =
     (if user_exists d uid \<and> token \<notin> s_token ` set (db_sessions d)
      then d\<lparr>db_sessions := db_sessions d @ [\<lparr>s_token = token, s_userId = uid, s_createdAt = now,
             s_expiresAt = now + 604800, s_lastActivity = now\<rparr>]\<rparr>
      else d)"

definition users_update :: "(user_row \<Rightarrow> bool) \<Rightarrow> (user_row \<Rightarrow> user_row) \<Rightarrow> database \<Rightarrow> database" where
  "users_update P f d = d\<lparr>db_users := t_update P f (db_users d)\<rparr>"

section \<open>Registration, login, logout\<close>

definition steam_ok :: "string \<Rightarrow> bool" where
  "steam_ok s = (s = [] \<or> (length s = 17 \<and> take 8 s = ''76561198'' \<and> list_all is_digit s))"

definition user_json :: "int \<Rightarrow> string \<Rightarrow> string \<Rightarrow> json" where
  "user_json uid name role = JObj [(''id'', JInt uid), (''username'', JStr name), (''role'', JStr role)]"

definition post_register :: "env \<Rightarrow> scrypt \<Rightarrow> draws \<Rightarrow> draws \<Rightarrow> handler" where
  "post_register e scrypt salt rnd ctx p =
     (let username = body_str e ctx ''username''; password = body_str e ctx ''password''; steam = body_str e ctx ''steamId''
      in if username = [] \<or> password = [] then db_error ''username and password required'' p
         else if length username < 3 \<or> 32 < length username then db_error ''Username 3-32 chars'' p
         else if length password < 6 then db_error ''Password min 6 chars'' p
         else if user_named (pn_db p) username \<noteq> None then db_error ''Username taken'' p
         else if \<not> steam_ok steam then db_error ''SteamID format error'' p
         else
           let count = safeStoi (to_string (int (length (t_rows (db_users (pn_db p)))))) 0;
               role = (if count = 0 then ''server_owner'' else ''pending'');
               st = (if count = 0 then ''active'' else ''pending'');
               p1 = pn_exec (user_insert (e_now e) username (hashPassword scrypt salt password) role st steam) p;
               uid = t_seq (db_users (pn_db p1));
               token = generateToken rnd
           in if st = ''active''
              then Some (pn_exec (session_insert (e_now e) token uid) p1,
                ctx_json (JObj [(''message'', JStr ''Admin created''), (''token'', JStr token),
                  (''user'', user_json uid username role)]) 200)
              else Some (p1, ctx_json (JObj [(''message'', JStr ''Waiting for admin approval''), (''status'', JStr ''pending'')]) 200))"

text \<open>The rate limiter's counters live in \<open>Auth\<close>, beside the panel's state.\<close>

definition post_login ::
  "env \<Rightarrow> scrypt \<Rightarrow> draws \<Rightarrow> string \<Rightarrow> Context \<Rightarrow> rate_limits \<times> panel \<Rightarrow> ((rate_limits \<times> panel) \<times> response) option" where
  "post_login e scrypt rnd ip ctx mp =
     (let (ok, m) = checkRateLimit (e_cfg e) ip (e_ms e) (fst mp); p = snd mp;
          username = body_str e ctx ''username''; password = body_str e ctx ''password''
      in if \<not> ok then Some ((m, p), ctx_error ''Too many attempts'' 429)
         else if username = [] \<or> password = [] then Some ((m, p), ctx_error ''username and password required'' 400)
         else (case user_named (pn_db p) username of
           None \<Rightarrow> Some ((m, p), ctx_error ''Invalid credentials'' 401)
         | Some u \<Rightarrow>
             if \<not> verifyPassword scrypt password (u_passwordHash u) then Some ((m, p), ctx_error ''Invalid credentials'' 401)
             else if u_status u = ''pending'' then Some ((m, p), ctx_error ''Account pending approval'' 403)
             else if u_status u = ''rejected'' then Some ((m, p), ctx_error ''Account rejected'' 403)
             else
               let token = generateToken rnd;
                   p1 = pn_exec (session_insert (e_now e) token (u_id u)) p;
                   p2 = pn_exec (users_update (\<lambda>r. u_id r = u_id u) (\<lambda>r. r\<lparr>u_lastLogin := Some (e_now e)\<rparr>)) p1
               in Some ((m, p2), ctx_json (JObj [(''token'', JStr token),
                    (''user'', user_json (u_id u) (u_username u) (u_role u))]) 200)))"

definition post_logout :: handler where
  "post_logout ctx p =
     (let hdr = header (cx_req ctx) ''Authorization''
      in Some (if hdr = [] then p
               else pn_exec (\<lambda>d. d\<lparr>db_sessions := filter (\<lambda>s. s_token s \<noteq> bearer hdr) (db_sessions d)\<rparr>) p, message ''ok''))"

text \<open>A JSON object is sorted by its keys.\<close>

definition permission_names :: "database \<Rightarrow> int \<Rightarrow> string list" where
  "permission_names d uid = ALL_PERMISSIONS @
     filter (\<lambda>k. k \<notin> set ALL_PERMISSIONS) (remdups (map up_permission (t_select (\<lambda>r. up_userId r = uid) (db_perms d))))"

definition perms_json :: "database \<Rightarrow> int \<Rightarrow> string \<Rightarrow> json" where
  "perms_json d uid role =
     (let m = getUserPermissions d uid role
      in JObj (map (\<lambda>k. (k, JBool (has m k))) (sort (filter (\<lambda>k. m k \<noteq> None) (permission_names d uid)))))"

definition get_me :: handler where
  "get_me ctx p = Some (p, ctx_json (JObj [
     (''user'', user_json (case stoll (cx_userId ctx) of Inr n \<Rightarrow> n | Inl _ \<Rightarrow> 0) (cx_username ctx) (cx_role ctx)),
     (''permissions'', perms_json (pn_db p) (safeStoi (cx_userId ctx) 0) (cx_role ctx))]) 200)"

section \<open>The game servers' admin lists (relayAdminSync)\<close>

definition relay_servers :: "database \<Rightarrow> string \<Rightarrow> string list" where
  "relay_servers d sid = map (\<lambda>s. null_text (sv_relayUrl s))
     (t_select (\<lambda>s. null_text (sv_relayUrl s) \<noteq> [] \<and> (sid = [] \<or> Some (sv_id s) = int_key sid)) (db_servers d))"

definition relayAdminSync :: "env \<Rightarrow> string \<Rightarrow> string \<Rightarrow> string \<Rightarrow> string \<Rightarrow> world \<Rightarrow> world" where
  "relayAdminSync e steam action level sid w =
     (let body = JObj ([(''action'', JStr action), (''steamId'', JStr steam)] @ (if level = [] then [] else [(''level'', JStr level)]));
          call = (\<lambda>url w. let ep = parseRelayUrl url (config_getInt (e_cfg e) ''DEFAULT_RELAY_PORT'' 18977)
                          in snd (http_post e (ep_host ep) (ep_port ep) ''/api/admin-sync'' body w));
          w1 = fold call (relay_servers (w_db w) sid) w
      in if steam = [] then w1
         else if action = ''add''
         then rcon_do (safeStoi sid 0) (''AdminAdd '' @ [CHR 0x22] @ rconSafe steam @ [CHR 0x22] @ '' '' @
                rconSafe (if level = ''server_owner'' then ''Admin'' else ''Moderator'')) w1
         else if action = ''remove''
         then rcon_do (safeStoi sid 0) (''AdminRemove '' @ [CHR 0x22] @ rconSafe steam @ [CHR 0x22]) w1
         else w1)"

section \<open>Administration\<close>

definition isOwner :: "Context \<Rightarrow> bool" where
  "isOwner ctx = (cx_role ctx = ''server_owner'')"

definition owner_only :: "Context \<Rightarrow> panel \<Rightarrow> (panel \<times> response) option \<Rightarrow> (panel \<times> response) option" where
  "owner_only ctx p r = (if isOwner ctx then r else Some (p, ctx_error ''Admin only'' 403))"

definition time_text :: "time option \<Rightarrow> string" where
  "time_text t = (case t of None \<Rightarrow> [] | Some s \<Rightarrow> datetime_text s)"

definition user_row_json :: "user_row \<Rightarrow> json" where
  "user_row_json u = JObj [(''createdAt'', JStr (datetime_text (u_createdAt u))), (''id'', JStr (to_string (u_id u))),
     (''lastLogin'', JStr (time_text (u_lastLogin u))), (''rejectReason'', JStr (null_text (u_rejectReason u))),
     (''role'', JStr (u_role u)), (''status'', JStr (u_status u)), (''steamId'', JStr (null_text (u_steamId u))),
     (''username'', JStr (u_username u))]"

definition get_users :: handler where
  "get_users ctx p = owner_only ctx p
     (let st = ctx_query ctx ''status'' [];
          us = order_desc u_id (t_select (\<lambda>u. st = [] \<or> u_status u = st) (db_users (pn_db p)))
      in Some (p, ctx_json (JObj [(''users'', JArr (map user_row_json us))]) 200))"

definition post_user_add :: "env \<Rightarrow> scrypt \<Rightarrow> draws \<Rightarrow> handler" where
  "post_user_add e scrypt salt ctx p = owner_only ctx p
     (let username = body_str e ctx ''username''; password = body_str e ctx ''password'';
          role0 = jsonStr (e_dump e) (cx_body ctx) ''role'' ''op''; steam = body_str e ctx ''steamId'';
          role = (if role0 \<noteq> ''server_owner'' \<and> role0 \<noteq> ''op'' then ''op'' else role0)
      in if length username < 3 \<or> 32 < length username then db_error ''Username must be 3-32 chars'' p
         else if length password < 6 then db_error ''Password min 6 chars'' p
         else if steam = [] then db_error ''OP/owner accounts require Steam ID'' p
         else if user_named (pn_db p) username \<noteq> None then db_error ''Username taken'' p
         else
           let p1 = pn_exec (user_insert (e_now e) username (hashPassword scrypt salt password) role ''active'' steam) p;
               uid = t_seq (db_users (pn_db p1));
               p2 = (if role = ''op'' then pn_exec (insertDefaultPermissions uid) p1 else p1)
           in Some (p2, ctx_json (JObj [(''message'', JStr ''User created''), (''id'', JInt uid),
                (''username'', JStr username), (''role'', JStr role)]) 200))"

definition post_approve :: handler where
  "post_approve ctx p = owner_only ctx p (Some (
     pn_exec (users_update (\<lambda>u. Some (u_id u) = int_key (ctx_param ctx 1) \<and> u_status u = ''pending'')
       (\<lambda>u. u\<lparr>u_status := ''active''\<rparr>)) p, message ''Approved''))"

definition post_reject :: "env \<Rightarrow> handler" where
  "post_reject e ctx p = owner_only ctx p (Some (
     pn_exec (users_update (\<lambda>u. Some (u_id u) = int_key (ctx_param ctx 1))
       (\<lambda>u. u\<lparr>u_status := ''rejected'', u_rejectReason := Some (body_str e ctx ''reason'')\<rparr>)) p, message ''Rejected''))"

text \<open>The rows that refer to the user go first; the deletion fails when something still does.\<close>

definition user_cleared :: "int option \<Rightarrow> database \<Rightarrow> database" where
  "user_cleared uid d = d\<lparr>db_sessions := filter (\<lambda>s. Some (s_userId s) \<noteq> uid) (db_sessions d),
     db_perms := t_delete (\<lambda>r. Some (up_userId r) = uid) (db_perms d),
     db_members := t_delete (\<lambda>r. Some (m_userId r) = uid) (db_members d)\<rparr>"

definition user_delete :: "int option \<Rightarrow> database \<Rightarrow> database" where
  "user_delete uid d =
     (case uid of
        None \<Rightarrow> d
      | Some i \<Rightarrow>
          if user_referenced d i then d
          else d\<lparr>db_users := t_delete (\<lambda>u. u_id u = i) (db_users d),
                 db_members := t_delete (\<lambda>r. m_userId r = i) (db_members d),
                 db_presets := t_delete (\<lambda>r. pp_userId r = i) (db_presets d)\<rparr>)"

definition del_user :: "env \<Rightarrow> handler" where
  "del_user e ctx p = owner_only ctx p
     (let uid = ctx_param ctx 1
      in if uid = cx_userId ctx then db_error ''Cannot delete self'' p
         else
           let steam = (case user_with (pn_db p) uid of None \<Rightarrow> [] | Some u \<Rightarrow> null_text (u_steamId u));
               p1 = pn_exec (\<lambda>d. user_delete (int_key uid) (user_cleared (int_key uid) d)) p;
               p2 = (if steam = [] then p1 else on_world (relayAdminSync e steam ''remove'' [] []) p1)
           in Some (p2, message ''Deleted''))"

definition perms_clear :: "int option \<Rightarrow> database \<Rightarrow> database" where
  "perms_clear uid d = d\<lparr>db_perms := t_delete (\<lambda>r. Some (up_userId r) = uid) (db_perms d)\<rparr>"

definition default_perms :: "int option \<Rightarrow> database \<Rightarrow> database" where
  "default_perms uid d = (case uid of None \<Rightarrow> d | Some i \<Rightarrow> insertDefaultPermissions i d)"

definition put_role :: "env \<Rightarrow> handler" where
  "put_role e ctx p = owner_only ctx p
     (let uid = ctx_param ctx 1; role = body_str e ctx ''role''
      in if uid = cx_userId ctx then db_error ''Cannot change own role'' p
         else if role \<noteq> ''server_owner'' \<and> role \<noteq> ''op'' then db_error ''Invalid role'' p
         else
           let steam = (case user_with (pn_db p) uid of None \<Rightarrow> [] | Some u \<Rightarrow> null_text (u_steamId u));
               p1 = pn_exec (\<lambda>d. perms_clear (int_key uid)
                      (users_update (\<lambda>u. Some (u_id u) = int_key uid) (\<lambda>u. u\<lparr>u_role := role\<rparr>) d)) p;
               p2 = (if role = ''op'' then pn_exec (default_perms (int_key uid)) p1 else p1);
               p3 = (if steam = [] then p2 else on_world (relayAdminSync e steam ''add'' role []) p2)
           in Some (p3, message ''Role updated''))"

definition get_permissions :: handler where
  "get_permissions ctx p = owner_only ctx p
     (let uid = ctx_param ctx 1
      in case user_with (pn_db p) uid of
           None \<Rightarrow> Some (p, ctx_error ''User not found'' 404)
         | Some u \<Rightarrow> Some (p, ctx_json (JObj [(''permissions'', perms_json (pn_db p) (safeStoi uid 0) (u_role u))]) 200))"

text \<open>\<open>INSERT OR REPLACE\<close> under \<open>UNIQUE(userId, permission)\<close> gives the pair a new row.\<close>

definition perm_replace :: "int \<Rightarrow> string \<Rightarrow> int \<Rightarrow> database \<Rightarrow> database" where
  "perm_replace uid k granted d =
     (if user_exists d uid
      then d\<lparr>db_perms := t_insert (\<lambda>i. \<lparr>up_id = i, up_userId = uid, up_permission = k, up_granted = granted\<rparr>)
             (t_delete (\<lambda>r. up_userId r = uid \<and> up_permission r = k) (db_perms d))\<rparr>
      else d)"

definition set_perms :: "int option \<Rightarrow> (string \<times> json) list \<Rightarrow> database \<Rightarrow> database" where
  "set_perms uid kvs d = fold (\<lambda>(k, v) d.
     if k \<notin> set ALL_PERMISSIONS then d
     else (case uid of None \<Rightarrow> d | Some i \<Rightarrow> perm_replace i k (if v = JBool True then 1 else 0) d)) kvs d"

definition put_permissions :: handler where
  "put_permissions ctx p = owner_only ctx p
     (let uid = ctx_param ctx 1
      in if uid = cx_userId ctx then db_error ''Cannot modify own permissions'' p
         else (case user_with (pn_db p) uid of
           None \<Rightarrow> Some (p, ctx_error ''User not found'' 404)
         | Some u \<Rightarrow>
             if u_role u = ''server_owner'' then db_error ''server_owner always has full permissions'' p
             else (case j_lookup (cx_body ctx) ''permissions'' of
               Some (JObj kvs) \<Rightarrow> Some (pn_exec (set_perms (int_key uid) kvs) p, message ''Permissions updated'')
             | _ \<Rightarrow> db_error ''permissions object required'' p)))"

definition post_reset_password :: "env \<Rightarrow> scrypt \<Rightarrow> draws \<Rightarrow> handler" where
  "post_reset_password e scrypt salt ctx p = owner_only ctx p
     (let pw = body_str e ctx ''password''
      in if length pw < 6 then db_error ''Password min 6 chars'' p
         else Some (pn_exec (users_update (\<lambda>u. Some (u_id u) = int_key (ctx_param ctx 1))
                (\<lambda>u. u\<lparr>u_passwordHash := hashPassword scrypt salt pw\<rparr>)) p, message ''Password reset''))"

section \<open>The routes as one operation\<close>

datatype admin_route = Users_list | Users_add | Approve | Reject | Delete_user | Set_role | Show_permissions
  | Set_permissions | Reset_password

definition admin_route_handler :: "admin_route \<Rightarrow> env \<Rightarrow> scrypt \<Rightarrow> draws \<Rightarrow> handler" where
  "admin_route_handler r e scrypt salt =
     (case r of Users_list \<Rightarrow> get_users | Users_add \<Rightarrow> post_user_add e scrypt salt | Approve \<Rightarrow> post_approve
      | Reject \<Rightarrow> post_reject e | Delete_user \<Rightarrow> del_user e | Set_role \<Rightarrow> put_role e | Show_permissions \<Rightarrow> get_permissions
      | Set_permissions \<Rightarrow> put_permissions | Reset_password \<Rightarrow> post_reset_password e scrypt salt)"

end
