(* ===== verification/AuthProps.thy ===== *)
theory AuthProps
  imports AuthRoutes
begin

text \<open>
  Properties of the account routes: the tables stay well formed, who may change accounts, what a
  registration, a login and a logout amount to, and what the guards against changing oneself miss.
\<close>

section \<open>Well-formed accounts\<close>

definition roles :: "string set" where
  "roles = {''server_owner'', ''op'', ''pending''}"

definition statuses :: "string set" where
  "statuses = {''active'', ''pending'', ''rejected''}"

text \<open>Primary keys, the unique columns, the foreign keys on users, and the roles and statuses in use.\<close>

definition users_ok :: "database \<Rightarrow> bool" where
  "users_ok d = (ids_ok u_id (db_users d) \<and> distinct (map u_username (t_rows (db_users d)))
     \<and> list_all (\<lambda>u. u_role u \<in> roles \<and> u_status u \<in> statuses) (t_rows (db_users d))
     \<and> distinct (map s_token (db_sessions d)) \<and> list_all (\<lambda>s. user_exists d (s_userId s)) (db_sessions d)
     \<and> list_all (\<lambda>r. user_exists d (up_userId r)) (t_rows (db_perms d))
     \<and> distinct (map (\<lambda>r. (up_userId r, up_permission r)) (t_rows (db_perms d)))
     \<and> list_all (\<lambda>m. user_exists d (m_userId m)) (t_rows (db_members d)))"

lemma user_exists_cong [simp]:
  "user_exists (d\<lparr>db_sessions := x\<rparr>) = user_exists d" "user_exists (d\<lparr>db_perms := y\<rparr>) = user_exists d"
  "user_exists (d\<lparr>db_members := z\<rparr>) = user_exists d" "user_exists (d\<lparr>db_presets := w\<rparr>) = user_exists d"
  by (simp_all add: user_exists_def fun_eq_iff)

lemma user_exists_update [simp]:
  "(\<And>r. u_id (f r) = u_id r) \<Longrightarrow> user_exists (users_update P f d) = user_exists d"
  by (auto simp: user_exists_def users_update_def fun_eq_iff)

lemma user_exists_mono:
  "user_exists d i \<Longrightarrow> user_exists (d\<lparr>db_users := t_insert mk (db_users d)\<rparr>) i"
  by (auto simp: user_exists_def)

lemma user_named_None: "user_named d name = None \<longleftrightarrow> name \<notin> u_username ` set (t_rows (db_users d))"
  by (auto simp: user_named_def t_first_None)

lemma users_ok_user_insert:
  assumes "users_ok d" "role \<in> roles" "st \<in> statuses"
  shows "users_ok (user_insert now name hash role st steam d)"
proof (cases "user_named d name")
  case None
  let ?mk = "\<lambda>i. \<lparr>u_id = i, u_username = name, u_passwordHash = hash, u_role = role,
             u_status = st, u_createdAt = now, u_lastLogin = None, u_steamId = Some steam, u_rejectReason = None\<rparr>"
  have "ids_ok u_id (t_insert ?mk (db_users d))"
    using assms(1) by (intro ids_ok_insert) (simp_all add: users_ok_def)
  then show ?thesis using None assms
    by (auto simp: user_insert_def users_ok_def user_named_None list_all_iff intro!: user_exists_mono)
qed (use assms in \<open>simp add: user_insert_def\<close>)

lemma users_ok_session_insert: "users_ok d \<Longrightarrow> users_ok (session_insert now token uid d)"
  by (auto simp: session_insert_def users_ok_def)

lemma users_ok_update:
  assumes "users_ok d" "\<And>r. u_id (f r) = u_id r" "\<And>r. u_username (f r) = u_username r"
    and "\<And>r. u_role r \<in> roles \<Longrightarrow> u_role (f r) \<in> roles" "\<And>r. u_status r \<in> statuses \<Longrightarrow> u_status (f r) \<in> statuses"
  shows "users_ok (users_update P f d)"
proof -
  have "ids_ok u_id (t_update P f (db_users d))"
    using assms(1,2) by (intro ids_ok_update) (simp_all add: users_ok_def)
  moreover have "u_username \<circ> (\<lambda>r. if P r then f r else r) = u_username"
    using assms(3) by auto
  ultimately show ?thesis
    using assms user_exists_update [OF assms(2), of P d]
    by (auto simp: users_ok_def users_update_def list_all_iff simp del: user_exists_update)
qed

lemma users_ok_sessions: "users_ok d \<Longrightarrow> users_ok (d\<lparr>db_sessions := filter P (db_sessions d)\<rparr>)"
  by (auto simp: users_ok_def list_all_iff distinct_map_filter)

lemma users_ok_perm_insert: "users_ok d \<Longrightarrow> users_ok (perm_insert uid k d)"
  by (auto simp: perm_insert_def users_ok_def user_exists_def)

lemma users_ok_defaults: "users_ok d \<Longrightarrow> users_ok (insertDefaultPermissions uid d)"
proof -
  have "users_ok d \<Longrightarrow> users_ok (foldl (\<lambda>d p. perm_insert uid p d) d ps)" for ps
    by (induction ps arbitrary: d) (simp_all add: users_ok_perm_insert)
  then show "users_ok d \<Longrightarrow> users_ok (insertDefaultPermissions uid d)" by (simp add: insertDefaultPermissions_def)
qed

lemma users_ok_perm_replace: "users_ok d \<Longrightarrow> users_ok (perm_replace uid k g d)"
  by (auto simp: perm_replace_def users_ok_def list_all_iff distinct_map_filter)

lemma users_ok_perms_clear: "users_ok d \<Longrightarrow> users_ok (perms_clear uid d)"
  by (auto simp: perms_clear_def users_ok_def list_all_iff distinct_map_filter)

lemma users_ok_set_perms: "users_ok d \<Longrightarrow> users_ok (set_perms uid kvs d)"
  unfolding set_perms_def
  by (induction kvs arbitrary: d) (auto simp: users_ok_perm_replace split: option.split)

lemma users_ok_cleared: "users_ok d \<Longrightarrow> users_ok (user_cleared uid d)"
  by (auto simp: user_cleared_def users_ok_def list_all_iff distinct_map_filter)

lemma users_ok_delete:
  assumes "users_ok d"
  shows "users_ok (user_delete uid d)"
proof (cases uid)
  case (Some i)
  show ?thesis
  proof (cases "user_referenced d i")
    case False
    have ex: "user_exists (d\<lparr>db_users := t_delete (\<lambda>u. u_id u = i) (db_users d)\<rparr>) j \<longleftrightarrow> user_exists d j \<and> j \<noteq> i" for j
      by (auto simp: user_exists_def)
    have "ids_ok u_id (t_delete (\<lambda>u. u_id u = i) (db_users d))"
      using assms by (intro ids_ok_delete) (simp add: users_ok_def)
    then show ?thesis using False assms
      by (auto simp: user_delete_def Some users_ok_def ex list_all_iff distinct_map_filter user_referenced_def)
  qed (use assms in \<open>simp add: user_delete_def Some\<close>)
qed (use assms in \<open>simp add: user_delete_def\<close>)

lemmas users_ok_intros = users_ok_user_insert users_ok_session_insert users_ok_update users_ok_sessions
  users_ok_defaults users_ok_perms_clear users_ok_set_perms users_ok_cleared users_ok_delete

lemma relayAdminSync_db [simp]: "w_db (relayAdminSync e steam action level sid w) = w_db w"
proof -
  have "w_db (fold f us w) = w_db w" if "\<And>u w. w_db (f u w) = w_db w" for f :: "string \<Rightarrow> world \<Rightarrow> world" and us
    using that by (induction us arbitrary: w) simp_all
  then show ?thesis by (simp add: relayAdminSync_def Let_def)
qed

section \<open>The routes preserve them\<close>

lemma admin_route_ok:
  assumes "admin_route_handler r e scrypt salt ctx p = Some (p', resp)" "users_ok (pn_db p)"
  shows "users_ok (pn_db p')"
proof (cases "isOwner ctx")
  case True
  have roles: "''op'' \<in> roles" "''server_owner'' \<in> roles" "''active'' \<in> statuses" "''rejected'' \<in> statuses"
    by (simp_all add: roles_def statuses_def)
  have upd: "users_ok (users_update P (\<lambda>u. u\<lparr>u_status := ''active''\<rparr>) d)"
      "users_ok (users_update P (\<lambda>u. u\<lparr>u_status := ''rejected'', u_rejectReason := Some x\<rparr>) d)"
      "users_ok (users_update P (\<lambda>u. u\<lparr>u_passwordHash := y\<rparr>) d)"
      "role \<in> roles \<Longrightarrow> users_ok (users_update P (\<lambda>u. u\<lparr>u_role := role\<rparr>) d)" if "users_ok d" for P d x y role
    using that by (auto intro!: users_ok_update simp: roles)
  have def: "users_ok d \<Longrightarrow> users_ok (default_perms k d)" for k d
    by (auto simp: default_perms_def users_ok_defaults split: option.split)
  show ?thesis
    using assms True
    by (cases r)
      (auto simp: admin_route_handler_def owner_only_def Let_def get_users_def post_user_add_def post_approve_def post_reject_def
        del_user_def put_role_def get_permissions_def put_permissions_def post_reset_password_def roles def upd
        intro!: def users_ok_intros(1,5-9) split: if_splits option.splits json.splits)
next
  case False
  then have "admin_route_handler r e scrypt salt ctx p = Some (p, ctx_error ''Admin only'' 403)"
    by (cases r) (simp_all add: admin_route_handler_def owner_only_def get_users_def post_user_add_def post_approve_def
        post_reject_def del_user_def put_role_def get_permissions_def put_permissions_def post_reset_password_def)
  then show ?thesis using assms by simp
qed

section \<open>Sequences of requests\<close>

datatype account_call = Register Context | Login string Context | Logout Context | Admin admin_route Context

fun account_step :: "scrypt \<Rightarrow> env \<times> draws \<times> draws \<times> account_call \<Rightarrow> rate_limits \<times> panel \<Rightarrow> rate_limits \<times> panel" where
  "account_step scrypt (e, salt, rnd, Register ctx) (m, p) =
     (m, case post_register e scrypt salt rnd ctx p of None \<Rightarrow> p | Some (p', _) \<Rightarrow> p')"
| "account_step scrypt (e, salt, rnd, Login ip ctx) (m, p) =
     (case post_login e scrypt rnd ip ctx (m, p) of None \<Rightarrow> (m, p) | Some (mp, _) \<Rightarrow> mp)"
| "account_step scrypt (e, salt, rnd, Logout ctx) (m, p) =
     (m, case post_logout ctx p of None \<Rightarrow> p | Some (p', _) \<Rightarrow> p')"
| "account_step scrypt (e, salt, rnd, Admin r ctx) (m, p) =
     (m, case admin_route_handler r e scrypt salt ctx p of None \<Rightarrow> p | Some (p', _) \<Rightarrow> p')"

lemma register_ok:
  assumes "post_register e scrypt salt rnd ctx p = Some (p', r)" "users_ok (pn_db p)"
  shows "users_ok (pn_db p')"
proof -
  have r: "''pending'' \<in> roles" "''server_owner'' \<in> roles" "''active'' \<in> statuses" "''pending'' \<in> statuses"
    by (simp_all add: roles_def statuses_def)
  show ?thesis using assms
    by (auto simp: post_register_def Let_def r intro!: users_ok_user_insert users_ok_session_insert split: if_splits)
qed

lemma login_ok:
  assumes "post_login e scrypt rnd ip ctx (m, p) = Some ((m', p'), r)" "users_ok (pn_db p)"
  shows "users_ok (pn_db p')"
  using assms
  by (auto simp: post_login_def Let_def split_beta intro!: users_ok_update users_ok_session_insert split: if_splits option.splits)

lemma account_step_ok:
  assumes "users_ok (pn_db (snd mp))"
  shows "users_ok (pn_db (snd (account_step scrypt c mp)))"
proof -
  obtain m p e salt rnd k where c: "mp = (m, p)" "c = (e, salt, rnd, k)" by (cases mp, cases c) auto
  show ?thesis using assms
    by (cases k) (auto simp: c post_logout_def Let_def users_ok_sessions split: option.split dest: register_ok login_ok admin_route_ok)
qed

interpretation accounts: preserves "account_step scrypt" "\<lambda>mp. users_ok (pn_db (snd mp))" for scrypt
  by unfold_locales (rule account_step_ok)

section \<open>Sample states\<close>

definition owner_row :: "string \<Rightarrow> int \<Rightarrow> user_row" where
  "owner_row hash i = \<lparr>u_id = i, u_username = ''root'', u_passwordHash = hash, u_role = ''server_owner'', u_status = ''active'',
     u_createdAt = 0, u_lastLogin = None, u_steamId = Some [], u_rejectReason = None\<rparr>"

definition owner_db :: "string \<Rightarrow> database" where
  "owner_db hash = empty_db\<lparr>db_users := t_insert (owner_row hash) t_empty,
     db_sessions := [\<lparr>s_token = ''tok'', s_userId = 1, s_createdAt = 0, s_expiresAt = 200, s_lastActivity = 0\<rparr>]\<rparr>"

lemma owner_db_simps [simp]:
  "t_rows (db_users (owner_db hash)) = [owner_row hash 1]" "t_rows (db_perms (owner_db hash)) = []"
  "db_sessions (owner_db hash) = [\<lparr>s_token = ''tok'', s_userId = 1, s_createdAt = 0, s_expiresAt = 200, s_lastActivity = 0\<rparr>]"
  "t_rows (db_servers (owner_db hash)) = []" "t_rows (db_plugins (owner_db hash)) = []" "t_rows (db_sources (owner_db hash)) = []" "t_seq (db_users (owner_db hash)) = 1"
  "t_rows (db_members (owner_db hash)) = []"
  by (simp_all add: owner_db_def t_insert_def t_empty_def empty_db_def)

lemma owner_row_simps [simp]:
  "u_id (owner_row hash i) = i" "u_username (owner_row hash i) = ''root''" "u_passwordHash (owner_row hash i) = hash"
  "u_role (owner_row hash i) = ''server_owner''" "u_status (owner_row hash i) = ''active''"
  by (simp_all add: owner_row_def)

lemma owner_db_ok: "users_ok (owner_db hash)"
  by (simp add: users_ok_def ids_ok_def user_exists_def roles_def statuses_def)

lemma route_panel_db [simp]: "pn_db (route_panel d) = d"
  by (simp add: route_panel_def)

lemma route_request_header: "header (route_request tok) ''Authorization'' = ''Bearer '' @ tok" "rq_method (route_request tok) = ''GET''"
proof -
  have "map to_lower ''authorization'' = map to_lower ''Authorization''" by code_simp
  then show "header (route_request tok) ''Authorization'' = ''Bearer '' @ tok" unfolding header_def route_request_def by simp
qed (simp add: route_request_def)

lemma owner_join: "session_join (owner_db hash) ''tok'' = Some (hd (db_sessions (owner_db hash)), owner_row hash 1)"
  by (simp add: session_join_def)

lemma demo_env_now [simp]: "e_now (demo_env n) = n"
  by (simp add: demo_env_def)

definition as_owner :: "string list \<Rightarrow> (string \<times> json) list \<Rightarrow> Context" where
  "as_owner params kvs = \<lparr>cx_req = (route_request ''tok'')\<lparr>rq_matches := ''path'' # params\<rparr>, cx_body = JObj kvs, cx_userId = ''1'',
     cx_username = ''root'', cx_role = ''server_owner'', cx_authenticated = True\<rparr>"

lemma as_owner_simps [simp]:
  "isOwner (as_owner ps kvs)" "cx_userId (as_owner ps kvs) = ''1''" "ctx_param (as_owner (a # ps) kvs) (Suc 0) = a"
  "cx_body (as_owner ps kvs) = JObj kvs"
  by (simp_all add: as_owner_def isOwner_def ctx_param_def)

lemma text_one: "to_string 1 = ''1''" "to_string 2 = ''2''" "int_key ''1'' = Some 1" "int_key ''2'' = Some 2"
  by code_simp+

section \<open>Properties\<close>

text \<open>Whatever requests to register, log in, log out and administer users arrive in whatever order, ids,
  user names and session tokens stay unique, every session, permission and membership belongs to an account
  that exists, and every account has a known role and status.\<close>
theorem accounts_typed:
  assumes "users_ok (pn_db p)"
  shows "users_ok (pn_db (snd (fold (account_step scrypt) calls (m, p))))"
  using accounts.fold_inv [of "(m, p)" scrypt calls] assms by simp

theorem accounts_typed_witness:
  "users_ok (pn_db (snd (fold (account_step (\<lambda>_ _. None)) [(demo_env 5, \<lambda>_. [], \<lambda>_. [], Admin Approve (as_owner [''1''] [])),
     (demo_env 9, \<lambda>_. [], \<lambda>_. [], Logout (as_owner [] []))] (Map.empty, route_panel (owner_db ''h'')))))"
  by (rule accounts_typed) (simp add: owner_db_ok)

text \<open>A successful registration adds exactly one account under a name not in use; it is the active
  owner's when there was no account, and otherwise waits, without a session, for approval.\<close>
theorem registration:
  assumes "post_register e scrypt salt rnd ctx p = Some (p', r)" "re_status r = 200"
    and "length (t_rows (db_users (pn_db p))) < 2147483648"
  shows "\<exists>u. t_rows (db_users (pn_db p')) = t_rows (db_users (pn_db p)) @ [u] \<and> u_username u = body_str e ctx ''username''
    \<and> u_username u \<notin> u_username ` set (t_rows (db_users (pn_db p)))
    \<and> (if t_rows (db_users (pn_db p)) = [] then u_role u = ''server_owner'' \<and> u_status u = ''active''
       else u_role u = ''pending'' \<and> u_status u = ''pending'' \<and> db_sessions (pn_db p') = db_sessions (pn_db p))"
proof -
  have c: "safeStoi (to_string (int (length (t_rows (db_users (pn_db p)))))) 0 = int (length (t_rows (db_users (pn_db p))))"
    using assms(3) by (simp add: safeStoi_def in_int_def)
  show ?thesis using assms(1,2) unfolding post_register_def Let_def c
    by (auto simp: user_named_None user_insert_def session_insert_def split: if_splits)
qed

theorem registration_witness:
  "\<exists>p' r u. post_register (demo_env 0) (\<lambda>_ _. None) (\<lambda>_. []) (\<lambda>_. []) (as_owner [] [(''username'', JStr ''abc''), (''password'', JStr ''secret'')])
     (route_panel (owner_db ''h'')) = Some (p', r) \<and> t_rows (db_users (pn_db p')) = [owner_row ''h'' 1, u] \<and> u_status u = ''pending''"
proof -
  let ?c = "as_owner [] [(''username'', JStr ''abc''), (''password'', JStr ''secret'')]"
  have one: "safeStoi ''1'' 0 = 1" by code_simp
  have "\<exists>p' r. post_register (demo_env 0) (\<lambda>_ _. None) (\<lambda>_. []) (\<lambda>_. []) ?c (route_panel (owner_db ''h'')) = Some (p', r) \<and> re_status r = 200"
    by (simp add: post_register_def Let_def jsonStr_def user_named_def t_first_def steam_ok_def text_one one)
  then obtain p' r where k: "post_register (demo_env 0) (\<lambda>_ _. None) (\<lambda>_. []) (\<lambda>_. []) ?c (route_panel (owner_db ''h'')) = Some (p', r)"
    "re_status r = 200" by (elim exE conjE)
  show ?thesis using registration [OF k] k(1) by auto
qed

lemma session_join_fresh:
  assumes "token \<notin> s_token ` set ss" "s_token s = token" "t_rows us = xs @ u # ys" "u_id u = s_userId s"
    and "\<And>x. x \<in> set xs \<Longrightarrow> u_id x \<noteq> s_userId s"
  shows "session_join (d\<lparr>db_sessions := ss @ [s], db_users := us\<rparr>) token = Some (s, u)"
proof -
  have pa: "List.product (a @ b) c = List.product a c @ List.product b c" for a b :: "'x list" and c :: "'y list"
    by (induction a) simp_all
  have fa: "find P (a @ b) = (case find P a of None \<Rightarrow> find P b | Some x \<Rightarrow> Some x)" for P and a b :: "'x list"
    by (induction a) simp_all
  let ?P = "\<lambda>(s, u). s_token s = token \<and> s_userId s = u_id u"
  have n1: "find ?P (List.product ss (t_rows us)) = None" using assms(1) by (auto simp: find_None_iff)
  have n2: "find ?P (List.product [s] xs) = None" using assms(5) by (force simp: find_None_iff)
  have "find ?P (List.product [s] (xs @ u # ys)) = Some (s, u)"
    using n2 assms(2,4) by (simp add: fa)
  then show ?thesis using n1 by (simp add: session_join_def pa fa assms(3))
qed

lemma serve_valid:
  assumes "session_join (pn_db p) tok = Some (s, u)" "u_status u = ''active''" "e_now e \<le> s_expiresAt s" "tok \<noteq> []"
    and "header req ''Authorization'' \<noteq> []" "bearer (header req ''Authorization'') = tok" "rq_method req \<noteq> ''OPTIONS''"
  shows "\<exists>ctx p1. serve e True h req p = h ctx p1 \<and> cx_req ctx = req \<and> cx_userId ctx = to_string (u_id u) \<and>
    cx_role ctx = u_role u \<and> cx_authenticated ctx"
proof -
  have "s_token s = tok" using session_joinD [OF assms(1)] by simp
  then show ?thesis using assms
    by (auto simp: serve_def wrap_def getSession_def Let_def not_less)
qed

lemma serve_no_session:
  assumes "session_join (pn_db p) (bearer (header req ''Authorization'')) = None" "rq_method req \<noteq> ''OPTIONS''"
  shows "\<exists>r. serve e True h req p = Some (p, r) \<and> re_status r = 401"
proof -
  have id: "pn_exec (\<lambda>_. pn_db p) p = p" by (simp add: pn_exec_def on_world_def on_db_def)
  have "getSession (e_now e) (bearer (header req ''Authorization'')) (pn_db p) = (no_session, pn_db p)"
    using assms(1) by (simp add: getSession_def)
  then show ?thesis using assms(2) id by (simp add: serve_def wrap_def no_session_def)
qed

lemma bearer_token: "tok \<noteq> [] \<Longrightarrow> bearer (''Bearer '' @ tok) = tok"
  by (cases tok) (simp_all add: bearer_def)

lemma login_success:
  assumes "post_login e scrypt rnd ip ctx (m, p) = Some ((m', p'), r)" "re_status r = 200"
  shows "\<exists>u. user_named (pn_db p) (body_str e ctx ''username'') = Some u
    \<and> verifyPassword scrypt (body_str e ctx ''password'') (u_passwordHash u) \<and> u_status u \<noteq> ''pending'' \<and> u_status u \<noteq> ''rejected''
    \<and> pn_db p' = users_update (\<lambda>r. u_id r = u_id u) (\<lambda>r. r\<lparr>u_lastLogin := Some (e_now e)\<rparr>)
       (session_insert (e_now e) (generateToken rnd) (u_id u) (pn_db p))"
proof -
  obtain ok m1 where c: "checkRateLimit (e_cfg e) ip (e_ms e) m = (ok, m1)" by fastforce
  show ?thesis
  proof (cases "user_named (pn_db p) (body_str e ctx ''username'')")
    case None
    then show ?thesis using assms by (auto simp: post_login_def Let_def c split: if_split_asm)
  next
    case (Some u)
    have "p' = pn_exec (users_update (\<lambda>r. u_id r = u_id u) (\<lambda>r. r\<lparr>u_lastLogin := Some (e_now e)\<rparr>))
          (pn_exec (session_insert (e_now e) (generateToken rnd) (u_id u)) p)
        \<and> verifyPassword scrypt (body_str e ctx ''password'') (u_passwordHash u) \<and> u_status u \<noteq> ''pending'' \<and> u_status u \<noteq> ''rejected''"
      using assms by (auto simp: post_login_def Let_def c Some split: if_split_asm)
    then show ?thesis using Some by (intro exI [of _ u]) simp
  qed
qed



text \<open>A token handed in at a logout is worth nothing afterwards: every protected route refuses it.\<close>
theorem logout_revokes:
  assumes "post_logout ctx p = Some (p', r)" "header (cx_req ctx) ''Authorization'' \<noteq> []"
    and "bearer (header req ''Authorization'') = bearer (header (cx_req ctx) ''Authorization'')" "rq_method req \<noteq> ''OPTIONS''"
  shows "\<exists>r'. serve e True h req p' = Some (p', r') \<and> re_status r' = 401"
proof (rule serve_no_session [OF _ assms(4)])
  have s: "db_sessions (pn_db p') = filter (\<lambda>s. s_token s \<noteq> bearer (header (cx_req ctx) ''Authorization'')) (db_sessions (pn_db p))"
    using assms(1,2) by (auto simp: post_logout_def Let_def)
  show "session_join (pn_db p') (bearer (header req ''Authorization'')) = None"
    using session_joinD [of "pn_db p'" "bearer (header req ''Authorization'')"] assms(3)
    by (cases "session_join (pn_db p') (bearer (header req ''Authorization''))") (auto simp: s)
qed

theorem logout_revokes_witness:
  "\<exists>p' r'. post_logout (as_owner [] []) (route_panel (owner_db ''h'')) = Some (p', message ''ok'')
     \<and> serve (demo_env 100) True get_me (route_request ''tok'') p' = Some (p', r') \<and> re_status r' = 401"
proof -
  have h: "header (cx_req (as_owner [] [])) ''Authorization'' = ''Bearer tok''" by code_simp
  obtain p' where k: "post_logout (as_owner [] []) (route_panel (owner_db ''h'')) = Some (p', message ''ok'')"
    by (simp add: post_logout_def Let_def)
  from logout_revokes [OF k, of "route_request ''tok''" "demo_env 100" get_me] k show ?thesis
    by (auto simp: h route_request_header)
qed

lemma admin_route_owner:
  assumes "admin_route_handler r e scrypt salt ctx p = Some (p', resp)" "p' \<noteq> p \<or> re_status resp = 200"
  shows "isOwner ctx"
proof (rule ccontr)
  assume "\<not> isOwner ctx"
  then have "admin_route_handler r e scrypt salt ctx p = Some (p, ctx_error ''Admin only'' 403)"
    by (cases r) (simp_all add: admin_route_handler_def owner_only_def get_users_def post_user_add_def post_approve_def
        post_reject_def del_user_def put_role_def get_permissions_def put_permissions_def post_reset_password_def)
  then show False using assms by auto
qed

text \<open>A user administration request that changes anything or is answered with success carries the
  unexpired session of an active account with the role of the panel's owner.\<close>
theorem admin_owner_only:
  assumes "serve e True (admin_route_handler r e scrypt salt) req p = Some (p', resp)" "re_status resp = 200"
    and "rq_method req \<noteq> ''OPTIONS''"
  shows "\<exists>s u. session_join (pn_db p) (bearer (header req ''Authorization'')) = Some (s, u) \<and> e_now e \<le> s_expiresAt s
    \<and> u_status u = ''active'' \<and> u_role u = ''server_owner''"
proof -
  obtain s u ctx p1 where "session_join (pn_db p) (bearer (header req ''Authorization'')) = Some (s, u)" "e_now e \<le> s_expiresAt s"
    "u_status u = ''active''" "admin_route_handler r e scrypt salt ctx p1 = Some (p', resp)" "cx_role ctx = u_role u"
    using serve_session [OF assms(1) _ assms(3)] assms(2) by auto
  then show ?thesis using admin_route_owner [of r e scrypt salt ctx p1 p' resp] assms(2) by (auto simp: isOwner_def)
qed

theorem admin_owner_only_witness:
  "\<exists>s. session_join (owner_db ''h'') ''tok'' = Some (s, owner_row ''h'' 1) \<and> u_role (owner_row ''h'' 1) = ''server_owner''"
proof -
  let ?h = "admin_route_handler Users_list (demo_env 100) (\<lambda>_ _. None) (\<lambda>_. [])" and ?p = "route_panel (owner_db ''h'')"
  have b: "bearer ''Bearer tok'' = ''tok''" by code_simp
  obtain ctx p1 where "serve (demo_env 100) True ?h (route_request ''tok'') ?p = ?h ctx p1" "cx_role ctx = ''server_owner''"
    using serve_valid [of ?p "''tok''" _ _ "demo_env 100" "route_request ''tok''" ?h] owner_join [of "''h''"]
    by (auto simp: b route_request_header)
  then have "\<exists>p' r. serve (demo_env 100) True ?h (route_request ''tok'') ?p = Some (p', r) \<and> re_status r = 200"
    by (simp add: admin_route_handler_def get_users_def owner_only_def isOwner_def Let_def)
  then obtain p' r where "serve (demo_env 100) True ?h (route_request ''tok'') ?p = Some (p', r)" "re_status r = 200"
    by (elim exE conjE)
  from admin_owner_only [OF this] show ?thesis by (auto simp: b route_request_header owner_join)
qed

lemma key_of_param: "ctx_param ctx 1 = to_string k \<Longrightarrow> 0 \<le> k \<Longrightarrow> k < 2 ^ 63 \<Longrightarrow> int_key (ctx_param ctx 1) = Some k"
  by (simp add: int_key_to_string)

lemma db_users_keep [simp]:
  "db_users (perm_insert i k d) = db_users d" "db_users (perm_replace i k g d) = db_users d"
  "db_users (perms_clear x d) = db_users d" "db_users (user_cleared x d) = db_users d"
  by (simp_all add: perm_insert_def perm_replace_def perms_clear_def user_cleared_def)

lemma db_users_perms [simp]:
  "db_users (insertDefaultPermissions i d) = db_users d" "db_users (default_perms x d) = db_users d"
  "db_users (set_perms x kvs d) = db_users d"
proof -
  have f: "db_users (foldl (\<lambda>d p. perm_insert i p d) d ps) = db_users d" for i ps d
    by (induction ps arbitrary: d) simp_all
  then have i: "db_users (insertDefaultPermissions i d) = db_users d" for i d by (simp add: insertDefaultPermissions_def)
  then show "db_users (insertDefaultPermissions i d) = db_users d" "db_users (default_perms x d) = db_users d"
    by (auto simp: default_perms_def split: option.split)
  show "db_users (set_perms x kvs d) = db_users d"
    unfolding set_perms_def by (induction kvs arbitrary: d) (auto split: option.split)
qed

lemma user_stays:
  "u \<in> set (t_rows (db_users d)) \<Longrightarrow> u \<in> set (t_rows (db_users (user_insert now n h ro st sm d)))"
  "u \<in> set (t_rows (db_users d)) \<Longrightarrow> x \<noteq> Some (u_id u) \<Longrightarrow> u \<in> set (t_rows (db_users (user_delete x d)))"
  by (auto simp: user_insert_def user_delete_def split: option.split)

definition still :: "user_row \<Rightarrow> database \<Rightarrow> bool" where
  "still u d = (\<exists>u'\<in>set (t_rows (db_users d)). u_id u' = u_id u \<and> u_role u' = u_role u \<and>
     (u_status u = ''active'' \<longrightarrow> u_status u' = ''active''))"

lemma still_row: "u \<in> set (t_rows (db_users d)) \<Longrightarrow> still u d"
  by (auto simp: still_def)

lemma still_update:
  assumes "u \<in> set (t_rows (db_users d))" "u_id (f u) = u_id u" "P u \<Longrightarrow> u_role (f u) = u_role u"
    "P u \<Longrightarrow> u_status u = ''active'' \<Longrightarrow> u_status (f u) = ''active''"
  shows "still u (users_update P f d)"
proof -
  have "(if P u then f u else u) \<in> set (t_rows (db_users (users_update P f d)))"
    using assms(1) by (simp add: users_update_def)
  then show ?thesis unfolding still_def using assms(2-4) by (intro bexI) auto
qed

lemma still_cong: "db_users d = db_users d' \<Longrightarrow> still u d = still u d'"
  by (simp add: still_def)

text \<open>As long as ids are written the way they are shown, no administration request takes the account or the
  role of the owner who sends it, and none but a rejection of itself makes it inactive.\<close>
theorem owner_remains:
  assumes "admin_route_handler r e scrypt salt ctx p = Some (p', resp)" "u \<in> set (t_rows (db_users (pn_db p)))"
    and "cx_userId ctx = to_string (u_id u)" "ctx_param ctx 1 = to_string k" "0 \<le> k" "k < 2 ^ 63"
    and "r \<noteq> Reject \<or> k \<noteq> u_id u"
  shows "\<exists>u'\<in>set (t_rows (db_users (pn_db p'))). u_id u' = u_id u \<and> u_role u' = u_role u \<and>
     (u_status u = ''active'' \<longrightarrow> u_status u' = ''active'')"
proof (cases "isOwner ctx")
  case False
  then have "p' = p" using admin_route_owner [OF assms(1)] by auto
  then show ?thesis using assms(2) by auto
next
  case True
  note key = key_of_param [OF assms(4-6)]
  have self: "k = u_id u" if "ctx_param ctx (Suc 0) = cx_userId ctx" using that assms(3,4) by simp
  have other: "k \<noteq> u_id u" if "ctx_param ctx (Suc 0) \<noteq> cx_userId ctx" using that assms(3,4) by auto
  have "still u (pn_db p')"
  proof (cases r)
    case Users_add
    show ?thesis using assms(1,2) True
      by (auto simp: Users_add admin_route_handler_def owner_only_def post_user_add_def Let_def intro!: still_row user_stays split: if_splits)
  next
    case Delete_user
    show ?thesis using assms(1,2) True key
      by (auto simp: Delete_user admin_route_handler_def owner_only_def del_user_def Let_def intro!: still_row user_stays
          dest!: other split: if_splits)
  next
    case Set_role
    have "still u (users_update (\<lambda>u. Some (u_id u) = int_key (ctx_param ctx 1)) (\<lambda>u. u\<lparr>u_role := ro\<rparr>) (pn_db p))"
      if "ctx_param ctx (Suc 0) \<noteq> cx_userId ctx" for ro
      using assms(2) other [OF that] key by (intro still_update) auto
    then show ?thesis using assms(1) True still_row [OF assms(2)]
      by (auto simp: Set_role admin_route_handler_def owner_only_def put_role_def Let_def still_def split: if_splits)
  next
    case Reject
    then show ?thesis using assms(1,2,7) True key
      by (auto simp: admin_route_handler_def owner_only_def post_reject_def Let_def intro!: still_update)
  next
    case Approve
    then show ?thesis using assms(1,2) True
      by (auto simp: admin_route_handler_def owner_only_def post_approve_def intro!: still_update)
  next
    case Reset_password
    have "still u (users_update P (\<lambda>u. u\<lparr>u_passwordHash := y\<rparr>) (pn_db p))" for P y
      by (rule still_update [OF assms(2)]) simp_all
    then show ?thesis using assms(1) True still_row [OF assms(2)] Reset_password
      by (auto simp: admin_route_handler_def owner_only_def post_reset_password_def Let_def split: if_splits)
  next
    case Set_permissions
    then show ?thesis using assms(1,2) True
      by (auto simp: admin_route_handler_def owner_only_def put_permissions_def Let_def still_cong [of "set_perms x kvs d" d for x kvs d]
          intro!: still_row split: if_splits option.splits json.splits)
  qed (use assms(1,2) True in \<open>auto simp: admin_route_handler_def owner_only_def get_users_def get_permissions_def Let_def
      intro!: still_row split: if_splits option.splits\<close>)
  then show ?thesis by (simp add: still_def)
qed

theorem owner_remains_witness:
  "\<exists>p' r. admin_route_handler Delete_user (demo_env 0) (\<lambda>_ _. None) (\<lambda>_. []) (as_owner [''2''] []) (route_panel (owner_db ''h'')) = Some (p', r)
     \<and> (\<exists>u'\<in>set (t_rows (db_users (pn_db p'))). u_id u' = 1 \<and> u_role u' = ''server_owner'')"
proof -
  have "\<exists>p' r. admin_route_handler Delete_user (demo_env 0) (\<lambda>_ _. None) (\<lambda>_. []) (as_owner [''2''] []) (route_panel (owner_db ''h'')) = Some (p', r)"
    by (simp add: admin_route_handler_def del_user_def owner_only_def Let_def)
  then obtain p' r where k: "admin_route_handler Delete_user (demo_env 0) (\<lambda>_ _. None) (\<lambda>_. []) (as_owner [''2''] [])
      (route_panel (owner_db ''h'')) = Some (p', r)" by (elim exE)
  from owner_remains [OF k, of "owner_row ''h'' 1" 2] k show ?thesis by (auto simp: text_one)
qed

text \<open>The guard against deleting oneself compares texts, the statements compare numbers: with a zero in front
  of the id the owner deletes the own account.\<close>
theorem self_guard_bypassed:
  assumes "isOwner ctx" "cx_userId ctx = to_string i" "0 \<le> i" "i < 2 ^ 63" "ctx_param ctx 1 = CHR ''0'' # cx_userId ctx"
    and "\<nexists>s. s \<in> set (t_rows (db_servers (pn_db p))) \<and> sv_userId s = i"
    and "\<nexists>g. g \<in> set (t_rows (db_plugins (pn_db p))) \<and> pg_userId g = i"
    and "\<nexists>s. s \<in> set (t_rows (db_sources (pn_db p))) \<and> psr_userId s = i"
  shows "\<exists>p'. del_user e ctx p = Some (p', message ''Deleted'') \<and> \<not> user_exists (pn_db p') i"
proof -
  let ?s = "CHR ''0'' # nat_digits (nat i)"
  have "digits_val ?s = digits_val (nat_digits (nat i))" by (simp add: digits_val_def digit_val_def byte_of_def)
  then have v: "digits_val ?s = nat i" by simp
  have k: "int_key (ctx_param ctx 1) = Some i"
    using int_key_digits [of ?s] assms(2-5) nat_digits_is_digit [of "nat i"]
    by (simp add: v to_string_def is_digit_def byte_of_def)
  have "\<not> user_referenced (user_cleared (Some i) (pn_db p)) i"
    using assms(6-8) by (auto simp: user_referenced_def user_cleared_def)
  then have "\<not> user_exists (user_delete (Some i) (user_cleared (Some i) (pn_db p))) i"
    by (auto simp: user_delete_def user_exists_def)
  then show ?thesis using assms(1,5) k by (auto simp: del_user_def owner_only_def Let_def)
qed

theorem self_guard_bypassed_witness:
  "\<exists>p'. del_user (demo_env 0) (as_owner [''01''] []) (route_panel (owner_db ''h'')) = Some (p', message ''Deleted'') \<and> \<not> user_exists (pn_db p') 1"
  by (rule self_guard_bypassed) (simp_all add: text_one)

text \<open>A deletion answered with success ends the sessions and permissions of the account, and removes the account
  unless it created a server, installed a plugin or uploaded sources, in which case it stays as it was; no other account is touched.\<close>
theorem deletion_exact:
  assumes "del_user e ctx p = Some (p', resp)" "re_status resp = 200" "int_key (ctx_param ctx 1) = Some i"
  shows "db_sessions (pn_db p') = filter (\<lambda>s. s_userId s \<noteq> i) (db_sessions (pn_db p))
    \<and> t_rows (db_perms (pn_db p')) = filter (\<lambda>r. up_userId r \<noteq> i) (t_rows (db_perms (pn_db p)))
    \<and> t_rows (db_users (pn_db p')) = filter (\<lambda>u. u_id u \<noteq> i
        \<or> (\<exists>s\<in>set (t_rows (db_servers (pn_db p))). sv_userId s = i)
        \<or> (\<exists>g\<in>set (t_rows (db_plugins (pn_db p))). pg_userId g = i)
        \<or> (\<exists>s\<in>set (t_rows (db_sources (pn_db p))). psr_userId s = i)) (t_rows (db_users (pn_db p)))"
proof -
  have d: "pn_db p' = user_delete (Some i) (user_cleared (Some i) (pn_db p))"
    using assms by (auto simp: del_user_def owner_only_def Let_def split: if_splits)
  have "user_referenced (user_cleared (Some i) (pn_db p)) i \<longleftrightarrow>
      (\<exists>s\<in>set (t_rows (db_servers (pn_db p))). sv_userId s = i) \<or> (\<exists>g\<in>set (t_rows (db_plugins (pn_db p))). pg_userId g = i)
      \<or> (\<exists>s\<in>set (t_rows (db_sources (pn_db p))). psr_userId s = i)"
    by (auto simp: user_referenced_def user_cleared_def)
  then show ?thesis by (auto simp: d user_delete_def user_cleared_def)
qed

theorem deletion_exact_witness:
  "\<exists>p' r. del_user (demo_env 0) (as_owner [''2''] []) (route_panel (owner_db ''h'')) = Some (p', r)
     \<and> t_rows (db_users (pn_db p')) = [owner_row ''h'' 1]"
proof -
  have "\<exists>p'. del_user (demo_env 0) (as_owner [''2''] []) (route_panel (owner_db ''h'')) = Some (p', message ''Deleted'')"
    by (simp add: del_user_def owner_only_def Let_def)
  then obtain p' where k: "del_user (demo_env 0) (as_owner [''2''] []) (route_panel (owner_db ''h'')) = Some (p', message ''Deleted'')"
    by (elim exE)
  from deletion_exact [OF k, of 2] k show ?thesis by (simp add: text_one)
qed

end
