(* ===== verification/ServerRoutes.thy ===== *)
theory ServerRoutes
  imports AuthRoutes
begin

text \<open>
  Game servers and who may manage them (handlers/server_handler.cpp), and how a relay agent registers
  with its server's code and authenticates with its key (handlers/relay_routes.cpp and the relay routes of
  handlers/query_handler.cpp). \<open>RconPool::remove\<close> only drops a connection, which theory \<open>Rcon\<close> models.
\<close>

section \<open>Membership (core/shared_utils.h)\<close>

definition member_of :: "database \<Rightarrow> string \<Rightarrow> string \<Rightarrow> member_row option" where
  "member_of d uid sid = t_first (\<lambda>m. Some (m_serverId m) = int_key sid \<and> Some (m_userId m) = int_key uid) (db_members d)"

definition hasServerAccess :: "database \<Rightarrow> string \<Rightarrow> string \<Rightarrow> bool" where
  "hasServerAccess d uid sid = (member_of d uid sid \<noteq> None)"

definition getServerRole :: "database \<Rightarrow> string \<Rightarrow> string \<Rightarrow> string" where
  "getServerRole d uid sid = (case member_of d uid sid of None \<Rightarrow> [] | Some m \<Rightarrow> m_role m)"

text \<open>\<open>INSERT\<close> (\<open>OR IGNORE\<close>) under \<open>UNIQUE(serverId, userId)\<close> and the foreign keys.\<close>

definition member_insert :: "time \<Rightarrow> int option \<Rightarrow> int option \<Rightarrow> string \<Rightarrow> database \<Rightarrow> database" where
  "member_insert now sid uid role d =
     (case (sid, uid) of
        (Some s, Some u) \<Rightarrow>
          if server_exists d s \<and> user_exists d u \<and> \<not> (\<exists>m\<in>set (t_rows (db_members d)). m_serverId m = s \<and> m_userId m = u)
          then d\<lparr>db_members := t_insert (\<lambda>i. \<lparr>m_id = i, m_serverId = s, m_userId = u, m_role = role, m_joinedAt = now\<rparr>)
                 (db_members d)\<rparr>
          else d
      | _ \<Rightarrow> d)"

definition members_where :: "string \<Rightarrow> string \<Rightarrow> member_row \<Rightarrow> bool" where
  "members_where sid uid m = (Some (m_serverId m) = int_key sid \<and> Some (m_userId m) = int_key uid)"

section \<open>Servers\<close>

definition server_with :: "database \<Rightarrow> string \<Rightarrow> server_row option" where
  "server_with d sid = t_first (\<lambda>s. Some (sv_id s) = int_key sid) (db_servers d)"

definition servers_update :: "(server_row \<Rightarrow> bool) \<Rightarrow> (server_row \<Rightarrow> server_row) \<Rightarrow> database \<Rightarrow> database" where
  "servers_update P f d = d\<lparr>db_servers := t_update P f (db_servers d)\<rparr>"

definition server_json :: "server_row \<Rightarrow> string \<Rightarrow> json" where
  "server_json s role = JObj [(''id'', JInt (sv_id s)), (''userId'', JInt (sv_userId s)), (''name'', JStr (sv_name s)),
     (''host'', JStr (sv_host s)), (''rconPort'', JInt (safeStoi (to_string (sv_rconPort s)) 27015)),
     (''relayUrl'', JStr (null_text (sv_relayUrl s))), (''notes'', JStr (null_text (sv_notes s))),
     (''createdAt'', JStr (datetime_text (sv_createdAt s))), (''updatedAt'', JStr (datetime_text (sv_updatedAt s))),
     (''memberRole'', JStr role), (''connectionMode'', JStr (sv_connectionMode s)), (''logPath'', JStr (null_text (sv_logPath s))),
     (''remoteApiUrl'', JStr (null_text (sv_remoteApiUrl s))), (''apiType'', JStr (sv_apiType s)), (''apiConfig'', JStr (sv_apiConfig s))]"

definition get_servers :: handler where
  "get_servers ctx p =
     (let d = pn_db p;
          own = filter (\<lambda>(s, m). sv_id s = m_serverId m \<and> Some (m_userId m) = int_key (cx_userId ctx))
                  (List.product (t_rows (db_servers d)) (t_rows (db_members d)))
      in Some (p, ctx_json (JObj [(''servers'', JArr (map (\<lambda>(s, m). server_json s (m_role m))
           (order_desc (\<lambda>(s, m). sv_id s) own)))]) 200))"

text \<open>What the body says of a server; \<open>rconPort\<close> of a type that is no number throws.\<close>

record ServerForm =
  sf_name :: string
  sf_host :: string
  sf_rconPort :: int
  sf_password :: string
  sf_connectionMode :: string
  sf_logPath :: string
  sf_remoteApiUrl :: string
  sf_remoteApiToken :: string
  sf_apiType :: string
  sf_apiConfig :: string

definition server_form :: "env \<Rightarrow> Context \<Rightarrow> ServerForm option" where
  "server_form e ctx = map_option (\<lambda>port. \<lparr>sf_name = body_str e ctx ''name'', sf_host = body_str e ctx ''host'', sf_rconPort = port,
     sf_password = body_str e ctx ''rconPassword'',
     sf_connectionMode = jsonStr (e_dump e) (cx_body ctx) ''connectionMode'' ''relay'', sf_logPath = body_str e ctx ''logPath'',
     sf_remoteApiUrl = body_str e ctx ''remoteApiUrl'', sf_remoteApiToken = body_str e ctx ''remoteApiToken'',
     sf_apiType = jsonStr (e_dump e) (cx_body ctx) ''apiType'' ''self'',
     sf_apiConfig = jsonStr (e_dump e) (cx_body ctx) ''apiConfig'' ''{}''\<rparr>) (value_int (cx_body ctx) ''rconPort'' 27015)"

definition set_form :: "ServerForm \<Rightarrow> server_row \<Rightarrow> server_row" where
  "set_form f s = s\<lparr>sv_name := sf_name f, sv_host := sf_host f, sv_rconPort := sf_rconPort f, sv_rconPassword := sf_password f,
     sv_connectionMode := sf_connectionMode f, sv_logPath := Some (sf_logPath f), sv_remoteApiUrl := Some (sf_remoteApiUrl f),
     sv_remoteApiToken := Some (sf_remoteApiToken f), sv_apiType := sf_apiType f, sv_apiConfig := sf_apiConfig f\<rparr>"

definition server_insert :: "time \<Rightarrow> int \<Rightarrow> string \<Rightarrow> ServerForm \<Rightarrow> database \<Rightarrow> database" where
  "server_insert now uid key f d =
     (if user_exists d uid
      then d\<lparr>db_servers := t_insert (\<lambda>i. set_form f (server_defaults now uid [] [] 0 [] (Some key) i)) (db_servers d)\<rparr>
      else d)"

text \<open>The account exists while its own request runs, so the insertion succeeds and the id is the new row's.\<close>

definition post_servers :: "env \<Rightarrow> (nat \<Rightarrow> nat) \<Rightarrow> handler" where
  "post_servers e draw ctx p =
     (case server_form e ctx of
        None \<Rightarrow> Some (p, server_error)
      | Some f \<Rightarrow>
          if sf_name f = [] \<or> sf_host f = [] then db_error ''Name and host required'' p
          else if sf_connectionMode f \<noteq> ''remote_api'' \<and> sf_connectionMode f \<noteq> ''external_api'' \<and> sf_password f = []
          then db_error ''RCON password required for this connection mode'' p
          else
            let key = ''srv_'' @ randomToken draw 40;
                p1 = (case int_key (cx_userId ctx) of None \<Rightarrow> p | Some u \<Rightarrow> pn_exec (server_insert (e_now e) u key f) p);
                sid = t_seq (db_servers (pn_db p1))
            in Some (pn_exec (member_insert (e_now e) (Some sid) (int_key (cx_userId ctx)) ''owner'') p1,
                 ctx_json (JObj [(''id'', JInt sid), (''apiKey'', JStr key), (''message'', JStr ''Server added'')]) 200))"

definition put_server :: "env \<Rightarrow> handler" where
  "put_server e ctx p =
     (let sid = ctx_param ctx 1; role = getServerRole (pn_db p) (cx_userId ctx) sid
      in if role \<noteq> ''owner'' \<and> role \<noteq> ''admin'' then Some (p, ctx_error ''Access denied'' 403)
         else (case server_with (pn_db p) sid of
           None \<Rightarrow> db_error ''Server not found'' p
         | Some old \<Rightarrow>
             (case server_form e ctx of
                None \<Rightarrow> Some (p, server_error)
              | Some f \<Rightarrow>
                  let f1 = (if sf_password f = [] then f\<lparr>sf_password := sv_rconPassword old\<rparr> else f)
                  in Some (pn_exec (servers_update (\<lambda>s. Some (sv_id s) = int_key sid)
                         (\<lambda>s. (set_form f1 s)\<lparr>sv_updatedAt := e_now e\<rparr>)) p, message ''Server updated''))))"

definition put_notes :: "env \<Rightarrow> handler" where
  "put_notes e ctx p =
     (let sid = ctx_param ctx 1
      in if \<not> hasServerAccess (pn_db p) (cx_userId ctx) sid then Some (p, ctx_error ''Access denied'' 403)
         else Some (pn_exec (servers_update (\<lambda>s. Some (sv_id s) = int_key sid)
                (\<lambda>s. s\<lparr>sv_notes := Some (body_str e ctx ''notes''), sv_updatedAt := e_now e\<rparr>)) p, message ''Notes updated''))"

text \<open>The deletion of a server: the rows of its tables first, then its own, which the foreign key of
  \<open>squad_events\<close>, the one table left out, can keep.\<close>

definition server_cleared :: "int \<Rightarrow> database \<Rightarrow> database" where
  "server_cleared sid d = d\<lparr>
     db_players := t_delete (\<lambda>r. pr_serverId r = sid) (db_players d),
     db_kills := t_delete (\<lambda>r. k_serverId r = sid) (db_kills d),
     db_bans := t_delete (\<lambda>r. b_serverId r = sid) (db_bans d),
     db_chat_logs := t_delete (\<lambda>r. c_serverId r = sid) (db_chat_logs d),
     db_claims := t_delete (\<lambda>r. cm_serverId r = to_string sid) (db_claims d),
     db_points := t_delete (\<lambda>r. p_serverId r = Some sid) (db_points d),
     db_point_logs := t_delete (\<lambda>r. pl_serverId r = sid) (db_point_logs d),
     db_reserved := t_delete (\<lambda>r. rs_serverId r = sid) (db_reserved d),
     db_tk := t_delete (\<lambda>r. tk_serverId r = sid) (db_tk d),
     db_cdk := t_delete (\<lambda>r. ck_serverId r = Some sid) (db_cdk d),
     db_cdk_logs := t_delete (\<lambda>r. cl_serverId r = sid) (db_cdk_logs d),
     db_op_logs := t_delete (\<lambda>r. op_serverId r = to_string sid) (db_op_logs d),
     db_plugins := t_delete (\<lambda>r. pg_serverId r = Some sid) (db_plugins d),
     db_events := t_delete (\<lambda>r. e_serverId r = sid) (db_events d),
     db_revives := t_delete (\<lambda>r. r_serverId r = sid) (db_revives d),
     db_rounds := t_delete (\<lambda>r. g_serverId r = sid) (db_rounds d),
     db_locks := t_delete (\<lambda>r. sl_serverId r = sid) (db_locks d),
     db_members := t_delete (\<lambda>r. m_serverId r = sid) (db_members d)\<rparr>"

definition server_delete :: "int \<Rightarrow> database \<Rightarrow> database" where
  "server_delete sid d =
     (if \<exists>q\<in>set (t_rows (db_squad_events d)). q_serverId q = sid then d
      else d\<lparr>db_servers := t_delete (\<lambda>s. sv_id s = sid) (db_servers d)\<rparr>)"

definition del_server :: handler where
  "del_server ctx p =
     (let sid = ctx_param ctx 1
      in if getServerRole (pn_db p) (cx_userId ctx) sid \<noteq> ''owner''
         then Some (p, ctx_error ''Only server owner can delete'' 403)
         else Some (pn_exec (\<lambda>d. server_delete (safeStoi sid 0) (server_cleared (safeStoi sid 0) d)) p, message ''Server deleted''))"

text \<open>\<open>RconPool::test\<close> asks for the player list over a fresh connection.\<close>

definition post_test :: "env \<Rightarrow> handler" where
  "post_test e ctx p =
     (let sid = ctx_param ctx 1
      in if \<not> hasServerAccess (pn_db p) (cx_userId ctx) sid then Some (p, ctx_error ''Access denied'' 403)
         else
           let (answer, w) = rcon_send e (safeStoi sid 0) ''ListPlayers'' (pn_world p)
           in Some (p\<lparr>pn_world := w\<rparr>, if answer = [] then ctx_error ''RCON connection failed'' 400
                else ctx_json (JObj [(''message'', JStr ''Connection successful''), (''response'', JStr answer)]) 200))"

section \<open>Members\<close>

text \<open>The query names a column \<open>addedAt\<close> the table does not have, so it fails and the list is empty.\<close>

definition get_members :: handler where
  "get_members ctx p =
     (if \<not> hasServerAccess (pn_db p) (cx_userId ctx) (ctx_param ctx 1) then Some (p, ctx_error ''Access denied'' 403)
      else Some (p, ctx_json (JObj [(''members'', JArr [])]) 200))"

definition post_members :: "env \<Rightarrow> handler" where
  "post_members e ctx p =
     (let sid = ctx_param ctx 1; mine = getServerRole (pn_db p) (cx_userId ctx) sid;
          username = body_str e ctx ''username''; role = jsonStr (e_dump e) (cx_body ctx) ''role'' ''member''
      in if mine \<noteq> ''owner'' \<and> mine \<noteq> ''admin'' then Some (p, ctx_error ''Only owner/admin can add members'' 403)
         else if username = [] then db_error ''username required'' p
         else if role \<noteq> ''owner'' \<and> role \<noteq> ''admin'' \<and> role \<noteq> ''member'' then db_error ''role must be owner/admin/member'' p
         else if (role = ''owner'' \<or> role = ''admin'') \<and> mine \<noteq> ''owner''
         then Some (p, ctx_error ''Only server owner can assign admin/owner roles'' 403)
         else (case t_first (\<lambda>u. u_username u = username \<and> u_status u = ''active'') (db_users (pn_db p)) of
           None \<Rightarrow> Some (p, ctx_error ''User not found or not active'' 404)
         | Some u \<Rightarrow>
             if hasServerAccess (pn_db p) (to_string (u_id u)) sid then db_error ''User is already a member'' p
             else Some (pn_exec (member_insert (e_now e) (int_key sid) (Some (u_id u)) role) p,
               ctx_json (JObj [(''message'', JStr ''Member added''), (''userId'', JInt (u_id u))]) 200)))"

definition put_member :: "env \<Rightarrow> handler" where
  "put_member e ctx p =
     (let sid = ctx_param ctx 1; target = ctx_param ctx 2; role = body_str e ctx ''role''
      in if getServerRole (pn_db p) (cx_userId ctx) sid \<noteq> ''owner''
         then Some (p, ctx_error ''Only server owner can change roles'' 403)
         else if target = cx_userId ctx then db_error ''Cannot change own role'' p
         else if role \<noteq> ''owner'' \<and> role \<noteq> ''admin'' \<and> role \<noteq> ''member'' then db_error ''role must be owner/admin/member'' p
         else if \<not> hasServerAccess (pn_db p) target sid then Some (p, ctx_error ''Member not found'' 404)
         else Some (pn_exec (\<lambda>d. d\<lparr>db_members := t_update (members_where sid target) (\<lambda>m. m\<lparr>m_role := role\<rparr>) (db_members d)\<rparr>) p,
                message ''Role updated''))"

definition members_delete :: "string \<Rightarrow> string \<Rightarrow> database \<Rightarrow> database" where
  "members_delete sid uid d = d\<lparr>db_members := t_delete (members_where sid uid) (db_members d)\<rparr>"

definition del_member :: handler where
  "del_member ctx p =
     (let sid = ctx_param ctx 1; target = ctx_param ctx 2; mine = getServerRole (pn_db p) (cx_userId ctx) sid;
          theirs = getServerRole (pn_db p) target sid
      in if target = cx_userId ctx
         then (if mine = ''owner'' then db_error ''Owner cannot leave their own server'' p
               else Some (pn_exec (members_delete sid target) p, message ''Left server''))
         else if mine \<noteq> ''owner'' \<and> mine \<noteq> ''admin'' then Some (p, ctx_error ''Only owner/admin can remove members'' 403)
         else if (theirs = ''owner'' \<or> theirs = ''admin'') \<and> mine \<noteq> ''owner''
         then Some (p, ctx_error ''Only owner can remove admin members'' 403)
         else Some (pn_exec (members_delete sid target) p, message ''Member removed''))"

section \<open>Relay agents\<close>

definition hex_text :: "(nat \<Rightarrow> nat) \<Rightarrow> nat \<Rightarrow> string" where
  "hex_text draw n = map (\<lambda>i. hex_chars ! (draw i mod 16)) [0..<n]"

definition relay_url :: "env \<Rightarrow> Context \<Rightarrow> string option" where
  "relay_url e ctx =
     (let url = body_str e ctx ''relayUrl''; host = body_str e ctx ''host''
      in if url \<noteq> [] then Some url else if host \<noteq> [] then Some (''http://'' @ host @ '':18977'') else None)"

definition post_relay_register :: "env \<Rightarrow> (nat \<Rightarrow> nat) \<Rightarrow> handler" where
  "post_relay_register e draw ctx p =
     (case value_int (cx_body ctx) ''rconPort'' 27015 of
        None \<Rightarrow> Some (p, server_error)
      | Some port \<Rightarrow>
          let code = body_str e ctx ''registerCode''; host = body_str e ctx ''host''
          in if code = [] then db_error ''registerCode required'' p
             else (case t_first (\<lambda>s. sv_registerCode s = Some code) (db_servers (pn_db p)) of
               None \<Rightarrow> Some (p, ctx_error (''Invalid register code '' @ [CHR 0xC3, CHR 0xA2, CHR 0xC2, CHR 0x80, CHR 0xC2, CHR 0x94] @ '' no matching server'') 401)
             | Some s \<Rightarrow>
                 let it = (\<lambda>r. sv_id r = sv_id s); key = ''srv_'' @ hex_text draw 40;
                     p1 = (if host = [] then p else pn_exec (servers_update it (\<lambda>r. r\<lparr>sv_host := host, sv_rconPort := port,
                             sv_rconPassword := body_str e ctx ''rconPassword''\<rparr>)) p);
                     p2 = (case relay_url e ctx of None \<Rightarrow> p1 | Some u \<Rightarrow> pn_exec (servers_update it (\<lambda>r. r\<lparr>sv_relayUrl := Some u\<rparr>)) p1);
                     p3 = pn_exec (servers_update it (\<lambda>r. r\<lparr>sv_serverApiKey := Some key\<rparr>)) p2
                 in Some (p3, ctx_json (JObj [(''apiKey'', JStr key), (''serverId'', JInt (sv_id s)),
                      (''serverName'', JStr (sv_name s))]) 200)))"

definition get_register_code :: handler where
  "get_register_code ctx p =
     (let sid = ctx_param ctx 1
      in if \<not> hasServerAccess (pn_db p) (cx_userId ctx) sid then Some (p, ctx_error ''Access denied'' 403)
         else
           let code = (case server_with (pn_db p) sid of None \<Rightarrow> [] | Some s \<Rightarrow> null_text (sv_registerCode s))
           in Some (p, ctx_json (JObj [(''code'', if code = [] then JNull else JStr code)]) 200))"

definition post_generate_code :: "(nat \<Rightarrow> nat) \<Rightarrow> handler" where
  "post_generate_code draw ctx p =
     (let sid = ctx_param ctx 1; role = getServerRole (pn_db p) (cx_userId ctx) sid; code = hex_text draw 16
      in if \<not> hasServerAccess (pn_db p) (cx_userId ctx) sid then Some (p, ctx_error ''Access denied'' 403)
         else if role \<noteq> ''owner'' \<and> role \<noteq> ''admin'' then Some (p, ctx_error ''Only owner/admin can generate register codes'' 403)
         else Some (pn_exec (servers_update (\<lambda>s. Some (sv_id s) = int_key sid) (\<lambda>s. s\<lparr>sv_registerCode := Some code\<rparr>)) p,
                ctx_json (JObj [(''code'', JStr code)]) 200))"

definition get_rcon_status :: handler where
  "get_rcon_status ctx p = Some (p, ctx_json (JObj [(''connections'', JArr (map (\<lambda>s. JObj [(''serverId'', JInt (sv_id s)),
     (''name'', JStr (sv_name s)), (''host'', JStr (sv_host s)), (''port'', JInt (sv_rconPort s))])
     (t_rows (db_servers (pn_db p)))))]) 200)"

definition setting_put :: "string \<Rightarrow> string \<Rightarrow> database \<Rightarrow> database" where
  "setting_put k v d = d\<lparr>db_settings := (db_settings d)(k \<mapsto> v)\<rparr>"

text \<open>A stored token that is a JSON string is handed out without its quotes.\<close>

definition parsed_text :: "env \<Rightarrow> string \<Rightarrow> string" where
  "parsed_text e s = (case e_parse e s of Some (JStr t) \<Rightarrow> t | _ \<Rightarrow> s)"

definition post_relay_auth :: "env \<Rightarrow> handler" where
  "post_relay_auth e ctx p =
     (let key = body_str e ctx ''apiKey''; url = body_str e ctx ''relayUrl''; version = body_str e ctx ''version''
      in if key = [] then db_error ''apiKey required'' p
         else (case t_first (\<lambda>s. sv_serverApiKey s = Some key) (db_servers (pn_db p)) of
           None \<Rightarrow> Some (p, ctx_error (''Invalid apiKey '' @ [CHR 0xE2, CHR 0x80, CHR 0x94] @ '' server not found'') 401)
         | Some s \<Rightarrow>
             (case db_settings (pn_db p) ''relay_token'' of
                None \<Rightarrow> Some (p, ctx_error ''Relay token not initialized'' 500)
              | Some tok \<Rightarrow>
                  let p1 = (if starts_with ''http'' url
                            then pn_exec (servers_update (\<lambda>r. sv_id r = sv_id s) (\<lambda>r. r\<lparr>sv_relayUrl := Some url\<rparr>)) p else p);
                      p2 = (if version = [] then p1 else pn_exec (setting_put ''relay_version'' version) p1)
                  in Some (p2, ctx_json (JObj [(''token'', JStr (parsed_text e tok)), (''serverId'', JInt (sv_id s)),
                       (''serverName'', JStr (sv_name s)),
                       (''rcon'', JObj [(''host'', JStr (sv_host s)), (''port'', JInt (sv_rconPort s)),
                          (''password'', JStr (sv_rconPassword s))])]) 200))))"

definition get_relay_version :: handler where
  "get_relay_version ctx p = Some (p, ctx_json (JObj [(''version'', JStr
     (case db_settings (pn_db p) ''relay_version'' of None \<Rightarrow> ''1.0-cpp'' | Some v \<Rightarrow> v))]) 200)"

section \<open>The routes of a server\<close>

datatype server_route = Update_server | Update_notes | Delete_server | Test_server | List_members | Add_member
  | Change_member | Remove_member | Show_code | New_code

definition server_route_handler :: "server_route \<Rightarrow> env \<Rightarrow> (nat \<Rightarrow> nat) \<Rightarrow> handler" where
  "server_route_handler r e draw =
     (case r of Update_server \<Rightarrow> put_server e | Update_notes \<Rightarrow> put_notes e | Delete_server \<Rightarrow> del_server | Test_server \<Rightarrow> post_test e
      | List_members \<Rightarrow> get_members | Add_member \<Rightarrow> post_members e | Change_member \<Rightarrow> put_member e | Remove_member \<Rightarrow> del_member
      | Show_code \<Rightarrow> get_register_code | New_code \<Rightarrow> post_generate_code draw)"

end
