(* ===== verification/ServerProps.thy ===== *)
theory ServerProps
  imports ServerRoutes AuthProps EventRoutes
begin

text \<open>
  Properties of the server routes: who may change a server and its members, that a server keeps an owner,
  what a deletion leaves behind, and that a relay's registration replaces its key.
\<close>

section \<open>Membership\<close>

definition members_unique :: "database \<Rightarrow> bool" where
  "members_unique d = distinct (map (\<lambda>m. (m_serverId m, m_userId m)) (t_rows (db_members d)))"

lemma members_unique_eq:
  "members_unique d \<Longrightarrow> m \<in> set (t_rows (db_members d)) \<Longrightarrow> m' \<in> set (t_rows (db_members d)) \<Longrightarrow>
    m_serverId m = m_serverId m' \<Longrightarrow> m_userId m = m_userId m' \<Longrightarrow> m = m'"
  by (auto simp: members_unique_def distinct_map dest: inj_onD)

lemma member_of_Some: "member_of d uid sid = Some m \<Longrightarrow> m \<in> set (t_rows (db_members d)) \<and> members_where sid uid m"
  unfolding member_of_def members_where_def by (drule t_first_Some) auto

lemma role_member:
  assumes "getServerRole d uid sid = role" "role \<noteq> []"
  obtains m where "m \<in> set (t_rows (db_members d))" "members_where sid uid m" "m_role m = role"
  using assms by (auto simp: getServerRole_def split: option.splits dest: member_of_Some)

lemma role_of_member:
  assumes "members_unique d" "m \<in> set (t_rows (db_members d))" "members_where sid uid m"
  shows "getServerRole d uid sid = m_role m"
proof -
  have "member_of d uid sid \<noteq> None" using assms(2,3) by (auto simp: member_of_def members_where_def t_first_None)
  then obtain m' where m': "member_of d uid sid = Some m'" by auto
  from member_of_Some [OF this] have "m' \<in> set (t_rows (db_members d))" "members_where sid uid m'" by auto
  then have "m' = m" using assms members_unique_eq [OF assms(1)]
    by (metis members_where_def option.inject)
  then show ?thesis using m' by (simp add: getServerRole_def)
qed

lemma members_where_frame [simp]: "members_where sid uid (m\<lparr>m_role := r\<rparr>) = members_where sid uid m"
  by (simp add: members_where_def)

definition has_owner :: "database \<Rightarrow> int \<Rightarrow> bool" where
  "has_owner d s = (\<exists>m\<in>set (t_rows (db_members d)). m_serverId m = s \<and> m_role m = ''owner'')"

lemma has_ownerI: "m \<in> set (t_rows (db_members d)) \<Longrightarrow> m_serverId m = s \<Longrightarrow> m_role m = ''owner'' \<Longrightarrow> has_owner d s"
  by (auto simp: has_owner_def)

lemma servers_update_frame [simp]: "db_members (servers_update P f d) = db_members d"
  by (simp add: servers_update_def)

text \<open>What a server route that changes the database has found out about its sender.\<close>

lemma server_route_role:
  assumes "server_route_handler r e draw ctx p = Some (p', resp)" "pn_db p' \<noteq> pn_db p"
  shows "hasServerAccess (pn_db p) (cx_userId ctx) (ctx_param ctx 1) \<and>
    (case r of Update_notes \<Rightarrow> True | Remove_member \<Rightarrow> ctx_param ctx 2 = cx_userId ctx \<or>
         getServerRole (pn_db p) (cx_userId ctx) (ctx_param ctx 1) \<in> {''owner'', ''admin''}
     | Delete_server \<Rightarrow> getServerRole (pn_db p) (cx_userId ctx) (ctx_param ctx 1) = ''owner''
     | Change_member \<Rightarrow> getServerRole (pn_db p) (cx_userId ctx) (ctx_param ctx 1) = ''owner''
     | _ \<Rightarrow> getServerRole (pn_db p) (cx_userId ctx) (ctx_param ctx 1) \<in> {''owner'', ''admin''})"
proof -
  have acc: "hasServerAccess d uid sid" if "getServerRole d uid sid \<noteq> []" for d uid sid
    using that by (auto simp: getServerRole_def hasServerAccess_def split: option.splits)
  have leave: "hasServerAccess d uid sid" if "members_delete sid uid d \<noteq> d" for d uid sid
  proof (rule ccontr)
    assume "\<not> hasServerAccess d uid sid"
    then have "\<forall>m\<in>set (t_rows (db_members d)). \<not> members_where sid uid m"
      by (auto simp: hasServerAccess_def member_of_def members_where_def t_first_None)
    then have "members_delete sid uid d = d" by (simp add: members_delete_def t_delete_def)
    with that show False by simp
  qed
  show ?thesis
  proof (cases r)
    case Remove_member
    show ?thesis
    proof (cases "ctx_param ctx 2 = cx_userId ctx")
      case True
      then show ?thesis using assms leave
        by (auto simp: Remove_member server_route_handler_def del_member_def Let_def split: if_splits)
    next
      case False
      then show ?thesis using assms acc [of "pn_db p" "cx_userId ctx" "ctx_param ctx 1"]
        by (auto simp: Remove_member server_route_handler_def del_member_def Let_def split: if_splits)
    qed
  qed (use assms acc [of "pn_db p" "cx_userId ctx" "ctx_param ctx 1"] in
      \<open>auto simp: server_route_handler_def put_server_def put_notes_def del_server_def post_test_def get_members_def post_members_def
        put_member_def get_register_code_def post_generate_code_def rcon_send_def Let_def split: if_splits option.splits\<close>)
qed

lemma post_members_cases:
  assumes "post_members e ctx p = Some (p', resp)"
  shows "p' = p \<or> (\<exists>u role. p' = pn_exec (member_insert (e_now e) (int_key (ctx_param ctx 1)) u role) p \<and>
    (role = ''owner'' \<or> role = ''admin'' \<longrightarrow> getServerRole (pn_db p) (cx_userId ctx) (ctx_param ctx 1) = ''owner''))"
proof (rule disjCI)
  assume no: "\<not> (\<exists>u role. p' = pn_exec (member_insert (e_now e) (int_key (ctx_param ctx 1)) u role) p \<and>
    (role = ''owner'' \<or> role = ''admin'' \<longrightarrow> getServerRole (pn_db p) (cx_userId ctx) (ctx_param ctx 1) = ''owner''))"
  show "p' = p"
    using assms no by (auto simp: post_members_def Let_def split: if_split_asm option.split_asm)
qed

text \<open>How a route changes the members: not at all, by clearing a server, or by one statement.\<close>

lemma members_after:
  assumes "server_route_handler r e draw ctx p = Some (p', resp)"
  shows "db_members (pn_db p') = db_members (pn_db p) \<or>
    (r = Delete_server \<and> db_members (pn_db p') = t_delete (\<lambda>m. m_serverId m = safeStoi (ctx_param ctx 1) 0) (db_members (pn_db p))) \<or>
    (r = Add_member \<and> (\<exists>u role. pn_db p' = member_insert (e_now e) (int_key (ctx_param ctx 1)) u role (pn_db p) \<and>
       (role \<in> {''owner'', ''admin''} \<longrightarrow> getServerRole (pn_db p) (cx_userId ctx) (ctx_param ctx 1) = ''owner''))) \<or>
    (r = Change_member \<and> ctx_param ctx 2 \<noteq> cx_userId ctx \<and> (\<exists>role. db_members (pn_db p') =
       t_update (members_where (ctx_param ctx 1) (ctx_param ctx 2)) (\<lambda>m. m\<lparr>m_role := role\<rparr>) (db_members (pn_db p)))) \<or>
    (r = Remove_member \<and> db_members (pn_db p') = t_delete (members_where (ctx_param ctx 1) (ctx_param ctx 2)) (db_members (pn_db p)) \<and>
       (if ctx_param ctx 2 = cx_userId ctx then getServerRole (pn_db p) (ctx_param ctx 2) (ctx_param ctx 1) \<noteq> ''owner''
        else getServerRole (pn_db p) (cx_userId ctx) (ctx_param ctx 1) = ''owner'' \<or>
          getServerRole (pn_db p) (ctx_param ctx 2) (ctx_param ctx 1) \<noteq> ''owner''))"
proof (cases r)
  case Add_member
  then have "post_members e ctx p = Some (p', resp)" using assms by (simp add: server_route_handler_def)
  from post_members_cases [OF this] show ?thesis
  proof (elim disjE exE conjE)
    fix u role assume p': "p' = pn_exec (member_insert (e_now e) (int_key (ctx_param ctx 1)) u role) p"
      and "role = ''owner'' \<or> role = ''admin'' \<longrightarrow> getServerRole (pn_db p) (cx_userId ctx) (ctx_param ctx 1) = ''owner''"
    then have "\<exists>u role. pn_db p' = member_insert (e_now e) (int_key (ctx_param ctx 1)) u role (pn_db p) \<and>
       (role \<in> {''owner'', ''admin''} \<longrightarrow> getServerRole (pn_db p) (cx_userId ctx) (ctx_param ctx 1) = ''owner'')"
      by (intro exI [of _ u] exI [of _ role]) simp
    with Add_member show ?thesis by blast
  qed simp
next
  case Change_member
  show ?thesis using assms
    by (auto simp: Change_member server_route_handler_def put_member_def Let_def split: if_splits)
next
  case Remove_member
  show ?thesis using assms
    by (auto simp: Remove_member server_route_handler_def del_member_def members_delete_def Let_def split: if_splits)
next
  case Delete_server
  show ?thesis using assms
    by (auto simp: Delete_server server_route_handler_def del_server_def server_delete_def server_cleared_def Let_def split: if_splits)
qed (use assms in \<open>auto simp: server_route_handler_def put_server_def put_notes_def post_test_def get_members_def
      get_register_code_def post_generate_code_def rcon_send_def Let_def split: if_splits option.splits\<close>)

lemma member_insert_rows:
  "m \<in> set (t_rows (db_members (member_insert now s u role d))) \<Longrightarrow> m \<notin> set (t_rows (db_members d)) \<Longrightarrow>
    Some (m_serverId m) = s \<and> m_role m = role"
  by (auto simp: member_insert_def split: option.splits if_splits)

lemma member_insert_keeps: "m \<in> set (t_rows (db_members d)) \<Longrightarrow> m \<in> set (t_rows (db_members (member_insert now s u role d)))"
  by (auto simp: member_insert_def split: option.splits)

section \<open>A sample state\<close>

definition demo_server :: "int \<Rightarrow> server_row" where
  "demo_server i = (server_defaults 0 1 ''s'' ''h'' 27015 ''p'' (Some ''k'') i)\<lparr>sv_registerCode := Some ''code''\<rparr>"

definition team_db :: database where
  "team_db = (owner_db ''h'')\<lparr>
     db_users := t_insert (\<lambda>i. (owner_row ''h'' i)\<lparr>u_username := ''abc'', u_role := ''op''\<rparr>) (db_users (owner_db ''h'')),
     db_servers := t_insert demo_server t_empty,
     db_members := t_insert (\<lambda>i. \<lparr>m_id = i, m_serverId = 1, m_userId = 1, m_role = ''owner'', m_joinedAt = 0\<rparr>) t_empty\<rparr>"

lemma team_db_simps [simp]:
  "t_rows (db_users team_db) = [owner_row ''h'' 1, (owner_row ''h'' 2)\<lparr>u_username := ''abc'', u_role := ''op''\<rparr>]"
  "t_rows (db_servers team_db) = [demo_server 1]" "t_seq (db_servers team_db) = 1" "t_rows (db_squad_events team_db) = []"
  "t_rows (db_members team_db) = [\<lparr>m_id = 1, m_serverId = 1, m_userId = 1, m_role = ''owner'', m_joinedAt = 0\<rparr>]"
  by (simp_all add: team_db_def owner_db_def empty_db_def t_insert_def t_empty_def)

lemma demo_server_simps [simp]:
  "sv_id (demo_server i) = i" "sv_serverApiKey (demo_server i) = Some ''k''" "sv_registerCode (demo_server i) = Some ''code''"
  by (simp_all add: demo_server_def)

lemma as_owner_param2 [simp]: "ctx_param (as_owner (a # b # ps) kvs) 2 = b"
  by (simp add: as_owner_def ctx_param_def)

lemma team_role: "getServerRole team_db ''1'' ''1'' = ''owner''" "hasServerAccess team_db ''1'' ''1''" "\<not> hasServerAccess team_db ''2'' ''1''"
  by (simp_all add: getServerRole_def hasServerAccess_def member_of_def t_first_def text_one)

lemma team_unique: "members_unique team_db"
  by (simp add: members_unique_def)

text \<open>The owner makes the second account an admin of the server.\<close>

definition add_admin :: Context where
  "add_admin = as_owner [''1''] [(''username'', JStr ''abc''), (''role'', JStr ''admin'')]"

lemma add_admin_adds:
  "\<exists>p' r m. server_route_handler Add_member (demo_env 0) (\<lambda>_. 0) add_admin (route_panel team_db) = Some (p', r)
     \<and> m \<in> set (t_rows (db_members (pn_db p'))) \<and> m \<notin> set (t_rows (db_members team_db)) \<and> m_role m = ''admin'' \<and> m_serverId m = 1"
  by (simp add: server_route_handler_def add_admin_def post_members_def Let_def team_role jsonStr_def t_first_def text_one
      member_insert_def server_exists_def user_exists_def)
    (rule exI [of _ "\<lparr>m_id = t_seq (db_members team_db) + 1, m_serverId = 1, m_userId = 2, m_role = ''admin'', m_joinedAt = 0\<rparr>"], simp)

section \<open>Properties\<close>

text \<open>A request for a server that changes the database comes from a member of that server; only an owner
  deletes it or changes roles, only an owner or admin changes its settings, adds members or makes a code,
  and a removal is one's own or that of an owner or admin.\<close>
theorem server_change_authorized:
  assumes "server_route_handler r e draw ctx p = Some (p', resp)" "pn_db p' \<noteq> pn_db p"
  shows "\<exists>m. m \<in> set (t_rows (db_members (pn_db p))) \<and> members_where (ctx_param ctx 1) (cx_userId ctx) m
    \<and> (case r of Update_notes \<Rightarrow> True | Remove_member \<Rightarrow> ctx_param ctx 2 = cx_userId ctx \<or> m_role m \<in> {''owner'', ''admin''}
        | Delete_server \<Rightarrow> m_role m = ''owner'' | Change_member \<Rightarrow> m_role m = ''owner'' | _ \<Rightarrow> m_role m \<in> {''owner'', ''admin''})"
proof -
  from server_route_role [OF assms] obtain m where m: "member_of (pn_db p) (cx_userId ctx) (ctx_param ctx 1) = Some m"
    by (auto simp: hasServerAccess_def)
  then have "getServerRole (pn_db p) (cx_userId ctx) (ctx_param ctx 1) = m_role m" by (simp add: getServerRole_def)
  then show ?thesis using server_route_role [OF assms] member_of_Some [OF m] by (intro exI [of _ m]) (cases r; simp)
qed

theorem server_change_authorized_witness:
  "\<exists>m. m \<in> set (t_rows (db_members team_db)) \<and> members_where ''1'' ''1'' m \<and> m_role m \<in> {''owner'', ''admin''}"
proof -
  obtain p' r m where k: "server_route_handler Add_member (demo_env 0) (\<lambda>_. 0) add_admin (route_panel team_db) = Some (p', r)"
    "m \<in> set (t_rows (db_members (pn_db p')))" "m \<notin> set (t_rows (db_members team_db))" using add_admin_adds by blast
  then have "pn_db p' \<noteq> pn_db (route_panel team_db)" by auto
  from server_change_authorized [OF k(1) this] show ?thesis by (simp add: add_admin_def)
qed

text \<open>C8: nobody but an owner of the server creates an owner or admin of it: a member entry with such a role that
  was not there before belongs to the server named in the path, of which the sender is owner.\<close>
theorem no_escalation:
  assumes "server_route_handler r e draw ctx p = Some (p', resp)" "members_unique (pn_db p)"
    and "m' \<in> set (t_rows (db_members (pn_db p')))" "m' \<notin> set (t_rows (db_members (pn_db p)))" "m_role m' \<in> {''owner'', ''admin''}"
  shows "\<exists>m. m \<in> set (t_rows (db_members (pn_db p))) \<and> m_serverId m = m_serverId m' \<and> m_role m = ''owner''
    \<and> Some (m_userId m) = int_key (cx_userId ctx)"
proof -
  have ch: "pn_db p' \<noteq> pn_db p" using assms(3,4) by auto
  have "getServerRole (pn_db p) (cx_userId ctx) (ctx_param ctx 1) = ''owner'' \<and> Some (m_serverId m') = int_key (ctx_param ctx 1)"
    using members_after [OF assms(1)]
  proof (elim disjE conjE exE)
    assume "r = Change_member"
    then show ?thesis if "db_members (pn_db p') = t_update (members_where (ctx_param ctx 1) (ctx_param ctx 2)) (\<lambda>m. m\<lparr>m_role := role\<rparr>) (db_members (pn_db p))" for role
      using that server_route_role [OF assms(1) ch] assms(3,4) by (auto simp: members_where_def split: if_splits)
  next
    fix u role
    assume "r = Add_member" and d: "pn_db p' = member_insert (e_now e) (int_key (ctx_param ctx 1)) u role (pn_db p)"
      and o: "role \<in> {''owner'', ''admin''} \<longrightarrow> getServerRole (pn_db p) (cx_userId ctx) (ctx_param ctx 1) = ''owner''"
    from member_insert_rows [OF assms(3) [unfolded d] assms(4)] o assms(5) show ?thesis by auto
  qed (use assms(3,4) in auto)
  then obtain m where "m \<in> set (t_rows (db_members (pn_db p)))" "members_where (ctx_param ctx 1) (cx_userId ctx) m" "m_role m = ''owner''"
    "Some (m_serverId m') = int_key (ctx_param ctx 1)"
    by (elim conjE role_member) auto
  then show ?thesis by (metis members_where_def option.inject)
qed

theorem no_escalation_witness:
  "\<exists>m. m \<in> set (t_rows (db_members team_db)) \<and> m_serverId m = 1 \<and> m_role m = ''owner'' \<and> Some (m_userId m) = Some 1"
proof -
  obtain p' r m where k: "server_route_handler Add_member (demo_env 0) (\<lambda>_. 0) add_admin (route_panel team_db) = Some (p', r)"
    "m \<in> set (t_rows (db_members (pn_db p')))" "m \<notin> set (t_rows (db_members team_db))" "m_role m = ''admin''" "m_serverId m = 1"
    using add_admin_adds by blast
  from no_escalation [OF k(1) _ k(2)] k(3-5) show ?thesis by (simp add: team_unique add_admin_def text_one)
qed

text \<open>As long as ids are written the way they are shown, a server that has an owner keeps one through every
  request for a server, unless the request deletes the server.\<close>
theorem owner_kept:
  assumes "server_route_handler r e draw ctx p = Some (p', resp)" "members_unique (pn_db p)" "t_rows (db_squad_events (pn_db p)) = []"
    and "cx_userId ctx = to_string i" "0 \<le> i" "i < 2 ^ 63" "ctx_param ctx 2 = to_string k" "0 \<le> k" "k < 2 ^ 63"
    and "has_owner (pn_db p) s" "server_exists (pn_db p') s"
  shows "has_owner (pn_db p') s"
proof -
  note ki = int_key_to_string [OF assms(5,6)] and kk = int_key_to_string [OF assms(8,9)]
  obtain m where m: "m \<in> set (t_rows (db_members (pn_db p)))" "m_serverId m = s" "m_role m = ''owner''"
    using assms(10) by (auto simp: has_owner_def)
  have del: "has_owner (pn_db p') s"
    if d: "db_members (pn_db p') = t_delete (members_where sid uid) (db_members (pn_db p))" and ne: "getServerRole (pn_db p) uid sid \<noteq> ''owner''"
    for sid uid
  proof -
    have "\<not> members_where sid uid m" using role_of_member [OF assms(2) m(1)] ne m(3) by auto
    then show ?thesis using m by (intro has_ownerI [of m]) (simp_all add: d)
  qed
  show ?thesis
    using members_after [OF assms(1)]
  proof (elim disjE conjE exE)
    assume "r = Delete_server" and d: "db_members (pn_db p') = t_delete (\<lambda>m. m_serverId m = safeStoi (ctx_param ctx 1) 0) (db_members (pn_db p))"
    have "s \<noteq> safeStoi (ctx_param ctx 1) 0" if "pn_db p' \<noteq> pn_db p"
      using assms(1,3,11) that unfolding \<open>r = Delete_server\<close>
      by (auto simp: server_route_handler_def del_server_def server_delete_def server_cleared_def server_exists_def Let_def split: if_splits)
    then show ?thesis
      using m d assms(10) by (cases "pn_db p' = pn_db p") (auto intro!: has_ownerI [of m])
  next
    fix u role assume "pn_db p' = member_insert (e_now e) (int_key (ctx_param ctx 1)) u role (pn_db p)"
    then show ?thesis using m by (intro has_ownerI [of m]) (auto intro: member_insert_keeps)
  next
    fix role assume r: "r = Change_member" and ne: "ctx_param ctx 2 \<noteq> cx_userId ctx"
      and d: "db_members (pn_db p') = t_update (members_where (ctx_param ctx 1) (ctx_param ctx 2)) (\<lambda>m. m\<lparr>m_role := role\<rparr>) (db_members (pn_db p))"
    show ?thesis
    proof (cases "pn_db p' = pn_db p")
      case False
      from server_route_role [OF assms(1) False] obtain o1 where o1: "o1 \<in> set (t_rows (db_members (pn_db p)))"
        "members_where (ctx_param ctx 1) (cx_userId ctx) o1" "m_role o1 = ''owner''"
        by (auto simp: r elim: role_member)
      have keep: "\<not> members_where (ctx_param ctx 1) (ctx_param ctx 2) o1"
        using o1(2) ne ki kk assms(4,7) by (auto simp: members_where_def)
      show ?thesis
      proof (cases "members_where (ctx_param ctx 1) (ctx_param ctx 2) m")
        case True
        then have "m_serverId o1 = s" using o1(2) m(2) by (metis members_where_def option.inject)
        then show ?thesis using o1 keep by (intro has_ownerI [of o1]) (auto simp: d)
      next
        case False
        then show ?thesis using m by (intro has_ownerI [of m]) (auto simp: d)
      qed
    qed (use assms(10) in simp)
  next
    assume r: "r = Remove_member" and d: "db_members (pn_db p') = t_delete (members_where (ctx_param ctx 1) (ctx_param ctx 2)) (db_members (pn_db p))"
      and c: "if ctx_param ctx 2 = cx_userId ctx then getServerRole (pn_db p) (ctx_param ctx 2) (ctx_param ctx 1) \<noteq> ''owner''
        else getServerRole (pn_db p) (cx_userId ctx) (ctx_param ctx 1) = ''owner'' \<or>
          getServerRole (pn_db p) (ctx_param ctx 2) (ctx_param ctx 1) \<noteq> ''owner''"
    show ?thesis
    proof (cases "getServerRole (pn_db p) (ctx_param ctx 2) (ctx_param ctx 1) = ''owner''")
      case True
      then have ne: "ctx_param ctx 2 \<noteq> cx_userId ctx" and o: "getServerRole (pn_db p) (cx_userId ctx) (ctx_param ctx 1) = ''owner''"
        using c by (auto split: if_splits)
      from o obtain o1 where o1: "o1 \<in> set (t_rows (db_members (pn_db p)))"
        "members_where (ctx_param ctx 1) (cx_userId ctx) o1" "m_role o1 = ''owner''" by (auto elim: role_member)
      have keep: "\<not> members_where (ctx_param ctx 1) (ctx_param ctx 2) o1"
        using o1(2) ne ki kk assms(4,7) by (auto simp: members_where_def)
      show ?thesis
      proof (cases "members_where (ctx_param ctx 1) (ctx_param ctx 2) m")
        case True
        then have "m_serverId o1 = s" using o1(2) m(2) by (metis members_where_def option.inject)
        then show ?thesis using o1 keep by (intro has_ownerI [of o1]) (auto simp: d)
      next
        case False
        then show ?thesis using m by (intro has_ownerI [of m]) (auto simp: d)
      qed
    qed (rule del [OF d])
  qed (use assms(10) in \<open>simp add: has_owner_def\<close>)
qed

theorem owner_kept_witness:
  "\<exists>p' r. server_route_handler Change_member (demo_env 0) (\<lambda>_. 0) (as_owner [''1'', ''2''] [(''role'', JStr ''owner'')]) (route_panel team_db)
     = Some (p', r) \<and> has_owner (pn_db p') 1"
proof -
  let ?c = "as_owner [''1'', ''2''] [(''role'', JStr ''owner'')]"
  have "\<exists>r. server_route_handler Change_member (demo_env 0) (\<lambda>_. 0) ?c (route_panel team_db) = Some (route_panel team_db, r)"
    by (simp add: server_route_handler_def put_member_def Let_def team_role jsonStr_def)
  then obtain r where k: "server_route_handler Change_member (demo_env 0) (\<lambda>_. 0) ?c (route_panel team_db) = Some (route_panel team_db, r)"
    by (elim exE)
  have "has_owner (pn_db (route_panel team_db)) 1"
    by (rule owner_kept [OF k, of 1 2]) (simp_all add: team_unique text_one has_owner_def server_exists_def)
  with k show ?thesis by blast
qed

text \<open>The guard against changing one's own role compares texts as well: with a zero in front of the id the only
  owner of a server makes itself a plain member, and the server is left without an owner.\<close>
theorem owner_demotes_itself:
  assumes "getServerRole (pn_db p) (cx_userId ctx) (ctx_param ctx 1) = ''owner''" "cx_userId ctx = to_string i" "0 \<le> i" "i < 2 ^ 63"
    and "ctx_param ctx 2 = CHR ''0'' # cx_userId ctx" "body_str e ctx ''role'' = ''member''" "int_key (ctx_param ctx 1) = Some s"
    and "\<forall>m. m \<in> set (t_rows (db_members (pn_db p))) \<longrightarrow> m_serverId m = s \<longrightarrow> m_role m = ''owner'' \<longrightarrow> m_userId m = i"
  shows "\<exists>p'. put_member e ctx p = Some (p', message ''Role updated'') \<and> \<not> has_owner (pn_db p') s"
proof -
  let ?s = "CHR ''0'' # nat_digits (nat i)"
  have "digits_val ?s = digits_val (nat_digits (nat i))" by (simp add: digits_val_def digit_val_def byte_of_def)
  then have k: "int_key (ctx_param ctx 2) = Some i"
    using int_key_digits [of ?s] assms(2-5) nat_digits_is_digit [of "nat i"] by (simp add: to_string_def is_digit_def byte_of_def)
  have me: "int_key (cx_userId ctx) = Some i" using int_key_to_string [OF assms(3,4)] by (simp add: assms(2))
  have same: "member_of (pn_db p) (ctx_param ctx 2) (ctx_param ctx 1) = member_of (pn_db p) (cx_userId ctx) (ctx_param ctx 1)"
    by (simp add: member_of_def k me)
  have acc: "hasServerAccess (pn_db p) (ctx_param ctx 2) (ctx_param ctx 1)"
    using assms(1) unfolding hasServerAccess_def same by (auto simp: getServerRole_def split: option.splits)
  define p' where "p' = pn_exec (\<lambda>d. d\<lparr>db_members := t_update (members_where (ctx_param ctx 1) (ctx_param ctx 2))
     (\<lambda>m. m\<lparr>m_role := ''member''\<rparr>) (db_members d)\<rparr>) p"
  have "put_member e ctx p = Some (p', message ''Role updated'')"
    using assms(1,5,6) acc by (simp add: put_member_def p'_def)
  moreover have "\<not> has_owner (pn_db p') s"
  proof -
    have "m_role m \<noteq> ''owner''"
      if "m \<in> set (t_rows (db_members (pn_db p)))" "m_serverId m = s" "\<not> members_where (ctx_param ctx 1) (ctx_param ctx 2) m" for m
    proof -
      have "m_userId m \<noteq> i" using that(2,3) unfolding members_where_def assms(7) k by auto
      then show ?thesis using assms(8) that by auto
    qed
    then show ?thesis by (fastforce simp: has_owner_def p'_def)
  qed
  ultimately show ?thesis by blast
qed

theorem owner_demotes_itself_witness:
  "\<exists>p'. put_member (demo_env 0) (as_owner [''1'', ''01''] [(''role'', JStr ''member'')]) (route_panel team_db) = Some (p', message ''Role updated'')
     \<and> \<not> has_owner (pn_db p') 1"
  by (rule owner_demotes_itself [where i = 1]) (simp_all add: team_role text_one jsonStr_def)

text \<open>A deleted server is gone with its members, keys and points; every other server keeps its members, and
  every other ledger account its balance and log.\<close>
theorem server_deletion:
  assumes "del_server ctx p = Some (p', resp)" "re_status resp = 200" "t_rows (db_squad_events (pn_db p)) = []"
    and "sid = safeStoi (ctx_param ctx 1) 0"
  shows "(server_exists (pn_db p') s \<longleftrightarrow> server_exists (pn_db p) s \<and> s \<noteq> sid)
    \<and> (\<forall>m. m \<in> set (t_rows (db_members (pn_db p'))) \<longleftrightarrow> m \<in> set (t_rows (db_members (pn_db p))) \<and> m_serverId m \<noteq> sid)
    \<and> balance_of (pn_db p') s steam = (if s = sid then 0 else balance_of (pn_db p) s steam)
    \<and> ledger_gap (pn_db p') s steam = (if s = sid then 0 else ledger_gap (pn_db p) s steam)"
proof -
  have d: "pn_db p' = (server_cleared sid (pn_db p))\<lparr>db_servers := t_delete (\<lambda>s. sv_id s = sid) (db_servers (pn_db p))\<rparr>"
    using assms by (auto simp: del_server_def Let_def server_delete_def server_cleared_def split: if_splits)
  have find_filter: "find P (filter Q xs) = (if (\<forall>x. P x \<longrightarrow> Q x) then find P xs else find P (filter Q xs))" for P Q and xs :: "points_row list"
    by (induction xs) auto
  have b: "balance_of (pn_db p') s steam = (if s = sid then 0 else balance_of (pn_db p) s steam)"
  proof (cases "s = sid")
    case True
    have "find (\<lambda>r. p_serverId r = Some sid \<and> p_steamId r = steam) (filter (\<lambda>r. p_serverId r \<noteq> Some sid) (t_rows (db_points (pn_db p)))) = None"
      by (auto simp: find_None_iff)
    then show ?thesis by (simp add: True balance_of_def d server_cleared_def)
  next
    case False
    then show ?thesis by (subst (1) balance_of_def, subst (1) d) (simp add: server_cleared_def balance_of_def find_filter)
  qed
  have l: "logged (pn_db p') s steam = (if s = sid then 0 else logged (pn_db p) s steam)"
    by (auto simp: logged_def d server_cleared_def conj_commute intro!: arg_cong [of _ _ sum_list] arg_cong [of _ _ "map pl_amount"] filter_cong)
  show ?thesis
    by (auto simp: ledger_gap_def b l) (auto simp: d server_exists_def server_cleared_def)
qed

theorem server_deletion_witness:
  "\<exists>p' r. del_server (as_owner [''1''] []) (route_panel team_db) = Some (p', r) \<and> \<not> server_exists (pn_db p') 1"
proof -
  have one: "safeStoi ''1'' 0 = 1" by code_simp
  have "\<exists>p'. del_server (as_owner [''1''] []) (route_panel team_db) = Some (p', message ''Server deleted'')"
    by (simp add: del_server_def team_role Let_def)
  then obtain p' where k: "del_server (as_owner [''1''] []) (route_panel team_db) = Some (p', message ''Server deleted'')" by (elim exE)
  from server_deletion [OF k, of 1 1] k show ?thesis by (simp add: one)
qed

text \<open>A relay that registers with its server's code gets a new key for that very server; the key handed out
  before opens nothing any more.\<close>
theorem relay_key_replaced:
  assumes "post_relay_register e draw ctx p = Some (p', resp)" "re_status resp = 200" "ids_ok sv_id (db_servers (pn_db p))"
    and "header req ''X-API-Key'' = ''srv_'' @ hex_text draw 40" "header req' ''X-API-Key'' = old" "old \<noteq> []"
    and "old \<noteq> ''srv_'' @ hex_text draw 40"
    and "\<nexists>s. s \<in> set (t_rows (db_servers (pn_db p))) \<and> sv_serverApiKey s = Some (''srv_'' @ hex_text draw 40)"
    and "\<forall>s. s \<in> set (t_rows (db_servers (pn_db p))) \<longrightarrow> sv_serverApiKey s = Some old \<longrightarrow> sv_registerCode s = Some (body_str e ctx ''registerCode'')"
    and "\<forall>s s'. s \<in> set (t_rows (db_servers (pn_db p))) \<longrightarrow> s' \<in> set (t_rows (db_servers (pn_db p))) \<longrightarrow>
        sv_registerCode s = Some (body_str e ctx ''registerCode'') \<longrightarrow> sv_registerCode s' = Some (body_str e ctx ''registerCode'') \<longrightarrow> s = s'"
  shows "\<exists>s. s \<in> set (t_rows (db_servers (pn_db p))) \<and> sv_registerCode s = Some (body_str e ctx ''registerCode'')
    \<and> validateRelayApiKey (pn_db p') req body = Some (safeStoi (to_string (sv_id s)) 0)
    \<and> validateRelayApiKey (pn_db p') req' body = Some (- 1)"
proof -
  let ?code = "body_str e ctx ''registerCode''" and ?key = "''srv_'' @ hex_text draw 40" and ?d = "pn_db p"
  obtain port where port: "value_int (cx_body ctx) ''rconPort'' 27015 = Some port"
    using assms(1,2) by (auto simp: post_relay_register_def split: option.splits)
  have code: "?code \<noteq> []" using assms(1,2) by (auto simp: post_relay_register_def port)
  obtain s where s: "t_first (\<lambda>s. sv_registerCode s = Some ?code) (db_servers ?d) = Some s"
    using assms(1,2) code by (auto simp: post_relay_register_def port Let_def split: option.splits)
  have mem: "s \<in> set (t_rows (db_servers ?d))" "sv_registerCode s = Some ?code" using t_first_Some [OF s] by auto
  define g where "g = (\<lambda>r. (case relay_url e ctx of None \<Rightarrow> (\<lambda>r. r) | Some u \<Rightarrow> (\<lambda>r. r\<lparr>sv_relayUrl := Some u\<rparr>))
     ((if body_str e ctx ''host'' = [] then r else r\<lparr>sv_host := body_str e ctx ''host'', sv_rconPort := port,
         sv_rconPassword := body_str e ctx ''rconPassword''\<rparr>) :: server_row))"
  have g: "sv_id (g r) = sv_id r" "sv_serverApiKey (g r) = sv_serverApiKey r" for r by (simp_all add: g_def split: option.split)
  have rows: "t_rows (db_servers (pn_db p')) = map (\<lambda>r. if sv_id r = sv_id s then (g r)\<lparr>sv_serverApiKey := Some ?key\<rparr> else r) (t_rows (db_servers ?d))"
    using assms(1) by (auto simp: post_relay_register_def port code s Let_def servers_update_def g_def split: option.splits if_splits)
  have uniq: "r = s" if "r \<in> set (t_rows (db_servers ?d))" "sv_id r = sv_id s" for r
    using ids_ok_unique [OF assms(3)] that mem(1) by blast
  have new: "t_first (\<lambda>r. sv_serverApiKey r = Some ?key) (db_servers (pn_db p')) = Some ((g s)\<lparr>sv_serverApiKey := Some ?key\<rparr>)"
  proof -
    have "t_first (\<lambda>r. sv_serverApiKey r = Some ?key) (db_servers (pn_db p')) \<noteq> None"
    proof
      assume "t_first (\<lambda>r. sv_serverApiKey r = Some ?key) (db_servers (pn_db p')) = None"
      then have none: "sv_serverApiKey r \<noteq> Some ?key" if "r \<in> set (t_rows (db_servers (pn_db p')))" for r
        using that unfolding t_first_None by blast
      have "(g s)\<lparr>sv_serverApiKey := Some ?key\<rparr> \<in> set (t_rows (db_servers (pn_db p')))"
        unfolding rows using mem(1) by (force simp: image_iff)
      from none [OF this] show False by simp
    qed
    then obtain r where r: "t_first (\<lambda>r. sv_serverApiKey r = Some ?key) (db_servers (pn_db p')) = Some r" by auto
    from t_first_Some [OF r] have "r = (g s)\<lparr>sv_serverApiKey := Some ?key\<rparr>" using assms(8) uniq by (auto simp: rows split: if_splits)
    with r show ?thesis by simp
  qed
  have gone: "t_first (\<lambda>r. sv_serverApiKey r = Some old) (db_servers (pn_db p')) = None"
    using assms(7,9,10) mem by (auto simp: t_first_None rows)
  have k: "?key \<noteq> []" by simp
  have "validateRelayApiKey (pn_db p') req body = Some (safeStoi (to_string (sv_id s)) 0)"
    using new g(1) by (simp add: validateRelayApiKey_def assms(4) Let_def)
  moreover have "validateRelayApiKey (pn_db p') req' body = Some (- 1)"
    using gone assms(5,6) by (simp add: validateRelayApiKey_def Let_def)
  ultimately show ?thesis using mem by blast
qed

theorem relay_key_replaced_witness:
  "\<exists>p' r. post_relay_register (demo_env 0) (\<lambda>_. 7) (as_owner [] [(''registerCode'', JStr ''code'')]) (route_panel team_db) = Some (p', r)
     \<and> validateRelayApiKey (pn_db p') \<lparr>rq_method = ''POST'', rq_headers = [(''X-API-Key'', ''k'')], rq_params = [], rq_matches = [], rq_body = []\<rparr> JNull
       = Some (- 1)"
proof -
  let ?c = "as_owner [] [(''registerCode'', JStr ''code'')]"
  let ?req = "\<lambda>key. \<lparr>rq_method = ''POST'', rq_headers = [(''X-API-Key'', key)], rq_params = [], rq_matches = [], rq_body = []\<rparr>"
  have h: "header (?req key) ''X-API-Key'' = key" for key by (simp add: header_def)
  have "\<exists>p' r. post_relay_register (demo_env 0) (\<lambda>_. 7) ?c (route_panel team_db) = Some (p', r) \<and> re_status r = 200"
    by (simp add: post_relay_register_def jsonStr_def Let_def t_first_def relay_url_def value_int_def)
  then obtain p' r where k: "post_relay_register (demo_env 0) (\<lambda>_. 7) ?c (route_panel team_db) = Some (p', r)" "re_status r = 200"
    by (elim exE conjE)
  from relay_key_replaced [OF k _ h h, of "''k''" JNull] k(1) show ?thesis
    by (auto simp: ids_ok_def jsonStr_def)
qed

end
