(* ===== verification/ModerationRoutes.thy ===== *)
theory ModerationRoutes
  imports AuthRoutes TKForgive
begin

text \<open>
  What moderators do through the panel: bans (handlers/ban_handler.cpp), team-kill records
  (handlers/tk_handler.cpp), points (handlers/points_handler.cpp), players (handlers/player_handler.cpp),
  RCON commands (handlers/rcon_handler.cpp), reserved slots (handlers/missing_routes.cpp) and redeem codes
  (handlers/extras_routes.cpp). Where the text of a server id cannot name a server the foreign key rejects
  the row; the id answered then is the connection's last one, an argument of the handler.
\<close>

definition text_obj :: "(string \<times> string) list \<Rightarrow> json" where
  "text_obj kvs = JObj (map (\<lambda>(k, v). (k, JStr v)) kvs)"

definition int_col :: "string \<Rightarrow> string" where
  "int_col s = (case int_key s of None \<Rightarrow> s | Some n \<Rightarrow> to_string n)"

abbreviation answer :: "panel \<Rightarrow> (string \<times> json) list \<Rightarrow> (panel \<times> response) option" where
  "answer p kvs \<equiv> Some (p, ctx_json (JObj kvs) 200)"

text \<open>Rows of one server when the parameter names one, of all otherwise.\<close>

definition of_server :: "string \<Rightarrow> int \<Rightarrow> bool" where
  "of_server sid s = (sid = [] \<or> Some s = int_key sid)"

text \<open>A command to the server a text names: \<open>std::stoi\<close> may throw, which is \<open>None\<close>.\<close>

definition rcon_text :: "env \<Rightarrow> string \<Rightarrow> string \<Rightarrow> panel \<Rightarrow> (string \<times> panel) option" where
  "rcon_text e sid cmd p =
     (case stoi sid of
        Inl _ \<Rightarrow> None
      | Inr s \<Rightarrow> (let (reply, w) = rcon_send e s cmd (pn_world p) in Some (reply, p\<lparr>pn_world := w\<rparr>)))"

section \<open>Bans\<close>

definition ban_row_json :: "ban_row \<Rightarrow> json" where
  "ban_row_json b = text_obj [(''id'', to_string (b_id b)), (''serverId'', to_string (b_serverId b)), (''steamId'', b_steamId b),
     (''playerName'', b_playerName b), (''reason'', b_reason b), (''bannedBy'', b_bannedBy b),
     (''duration'', to_string (b_duration b)), (''createdAt'', datetime_text (b_createdAt b))]"

definition get_bans :: handler where
  "get_bans ctx p =
     (let sid = ctx_query ctx ''serverId'' [];
          rows = order_desc b_createdAt (t_select (\<lambda>b. of_server sid (b_serverId b)) (db_bans (pn_db p)))
      in answer p [(''bans'', JArr (map ban_row_json (if sid = [] then take 50 rows else rows)))])"

definition ban_insert :: "time \<Rightarrow> int option \<Rightarrow> string \<Rightarrow> string \<Rightarrow> string \<Rightarrow> string \<Rightarrow> int \<Rightarrow> database \<Rightarrow> database" where
  "ban_insert now sid steam name reason who dur d =
     (case sid of
        None \<Rightarrow> d
      | Some s \<Rightarrow>
          if \<not> server_exists d s then d
          else d\<lparr>db_bans := t_insert (\<lambda>i. \<lparr>b_id = i, b_serverId = s, b_steamId = steam, b_playerName = name, b_reason = reason,
                 b_bannedBy = who, b_duration = dur, b_createdAt = now\<rparr>) (db_bans d)\<rparr>)"

definition inserted_id :: "(database \<Rightarrow> 'r tbl) \<Rightarrow> int \<Rightarrow> database \<Rightarrow> database \<Rightarrow> int" where
  "inserted_id tbl lastId d d' = (if t_seq (tbl d') = t_seq (tbl d) then lastId else t_seq (tbl d'))"

definition ban_cmd :: "string \<Rightarrow> int \<Rightarrow> string \<Rightarrow> string" where
  "ban_cmd steam dur reason = ''AdminBan '' @ [CHR 0x22] @ rconSafe steam @ [CHR 0x22] @ '' '' @ to_string dur @ '' '' @
     rconSafe (if reason = [] then ''Banned by panel'' else reason)"

definition post_bans :: "env \<Rightarrow> int \<Rightarrow> handler" where
  "post_bans e lastId ctx p =
     (let sid = body_str e ctx ''serverId''; steam = body_str e ctx ''steamId''; reason = body_str e ctx ''reason'';
          dur = jsonInt (cx_body ctx) ''duration'' 0
      in if sid = [] \<or> steam = [] then db_error ''serverId and steamId required'' p
         else
           let p1 = pn_exec (ban_insert (e_now e) (int_key sid) steam (body_str e ctx ''playerName'') reason (cx_username ctx) dur) p;
               i = inserted_id db_bans lastId (pn_db p) (pn_db p1)
           in (case rcon_text e sid (ban_cmd steam dur reason) p1 of
                 None \<Rightarrow> answer p1 [(''id'', JInt i), (''rcon'', JStr []), (''rconError'', JStr ''stoi'')]
               | Some (reply, p2) \<Rightarrow> answer p2 [(''id'', JInt i), (''rcon'', JStr reply), (''rconError'', JStr [])]))"

text \<open>The relay is asked first; the ban is lifted whatever it answers.\<close>

definition del_ban :: "env \<Rightarrow> handler" where
  "del_ban e ctx p =
     (let key = int_key (ctx_param ctx 1)
      in case t_first (\<lambda>b. Some (b_id b) = key) (db_bans (pn_db p)) of
           None \<Rightarrow> db_error ''Ban not found'' p
         | Some b \<Rightarrow>
             let srv = t_first (\<lambda>s. sv_id s = b_serverId b) (db_servers (pn_db p));
                 url = (case srv of None \<Rightarrow> [] | Some s \<Rightarrow> null_text (sv_relayUrl s));
                 rkey = (case srv of None \<Rightarrow> [] | Some s \<Rightarrow> null_text (sv_relayApiKey s));
                 ep = parseRelayUrl url (config_getInt (e_cfg e) ''DEFAULT_RELAY_PORT'' 18977);
                 (st, w) = http_post e (ep_host ep) (ep_port ep) ''/api/unban'' (JObj [(''steamId'', JStr (b_steamId b))]) (pn_world p);
                 asked = (url \<noteq> [] \<and> rkey \<noteq> []);
                 err = (if \<not> asked then [] else case st of None \<Rightarrow> ''Relay unreachable''
                          | Some n \<Rightarrow> if n = 200 then [] else ''Relay returned '' @ to_string n);
                 p1 = (if asked then p\<lparr>pn_world := w\<rparr> else p);
                 p2 = pn_exec (\<lambda>d. d\<lparr>db_bans := t_delete (\<lambda>b. Some (b_id b) = key) (db_bans d)\<rparr>) p1
             in answer p2 ([(''message'', JStr ''Unbanned'')] @ (if err = [] then [] else [(''relayError'', JStr err)])))"

section \<open>Team-kill records\<close>

definition tk_row_json :: "tk_row \<Rightarrow> json" where
  "tk_row_json r = text_obj [(''id'', to_string (tk_id r)), (''serverId'', to_string (tk_serverId r)),
     (''killerSteamId'', tk_killerSteamId r), (''killerName'', tk_killerName r), (''victimSteamId'', tk_victimSteamId r),
     (''victimName'', tk_victimName r), (''forgiven'', if tk_forgiven r then ''1'' else ''0''),
     (''kicked'', if tk_kicked r then ''1'' else ''0''), (''createdAt'', datetime_text (tk_createdAt r)),
     (''expiresAt'', datetime_text (tk_expiresAt r))]"

definition get_tk :: handler where
  "get_tk ctx p =
     (let sid = ctx_query ctx ''serverId'' []; active = (ctx_query ctx ''status'' ''active'' = ''active'');
          rows = order_desc tk_createdAt (t_select (\<lambda>r. of_server sid (tk_serverId r) \<and> (active \<longrightarrow> tk_pending r)) (db_tk (pn_db p)))
      in answer p [(''events'', JArr (map tk_row_json (if active then rows else take 100 rows)))])"

text \<open>The expiry is written in local time, as the records' other times are not.\<close>

definition post_tk :: "env \<Rightarrow> int \<Rightarrow> handler" where
  "post_tk e lastId ctx p =
     (let sid = body_str e ctx ''serverId''; killer = body_str e ctx ''killerSteamId'';
          fallback = config_getInt (e_cfg e) ''TK_FORGIVE_SECONDS_DEFAULT'' 180;
          secs = (case db_settings (pn_db p) ''tk_forgive_seconds'' of None \<Rightarrow> fallback
                  | Some v \<Rightarrow> (case stoi v of Inr n \<Rightarrow> n | Inl _ \<Rightarrow> fallback));
          until = e_local e (e_now e + secs)
      in if sid = [] \<or> killer = [] then db_error ''serverId and killerSteamId required'' p
         else
           let row = (\<lambda>s i. \<lparr>tk_id = i, tk_serverId = s, tk_killerSteamId = killer, tk_killerName = body_str e ctx ''killerName'',
                 tk_victimSteamId = body_str e ctx ''victimSteamId'', tk_victimName = body_str e ctx ''victimName'',
                 tk_forgiven = False, tk_kicked = False, tk_createdAt = e_now e, tk_expiresAt = until\<rparr>);
               p1 = pn_exec (\<lambda>d. case int_key sid of None \<Rightarrow> d
                      | Some s \<Rightarrow> if server_exists d s then d\<lparr>db_tk := t_insert (row s) (db_tk d)\<rparr> else d) p
           in answer p1 [(''id'', JInt (inserted_id db_tk lastId (pn_db p) (pn_db p1))), (''expiresAt'', JStr (datetime_text until)),
                (''seconds'', JInt secs)])"

definition tk_with :: "database \<Rightarrow> string \<Rightarrow> tk_row option" where
  "tk_with d key = t_first (\<lambda>r. Some (tk_id r) = int_key key) (db_tk d)"

definition tk_change :: "string \<Rightarrow> (tk_row \<Rightarrow> tk_row) \<Rightarrow> database \<Rightarrow> database" where
  "tk_change key f d = d\<lparr>db_tk := t_update (\<lambda>r. Some (tk_id r) = int_key key) f (db_tk d)\<rparr>"

definition del_tk :: handler where
  "del_tk ctx p =
     (if tk_with (pn_db p) (ctx_param ctx 1) = None then db_error ''TK record not found'' p
      else answer (pn_exec (\<lambda>d. d\<lparr>db_tk := t_delete (\<lambda>r. Some (tk_id r) = int_key (ctx_param ctx 1)) (db_tk d)\<rparr>) p)
             [(''message'', JStr ''Deleted'')])"

definition post_tk_forgive :: handler where
  "post_tk_forgive ctx p =
     (if tk_with (pn_db p) (ctx_param ctx 1) = None then db_error ''TK record not found'' p
      else answer (pn_exec (tk_change (ctx_param ctx 1) (\<lambda>r. r\<lparr>tk_forgiven := True\<rparr>)) p) [(''message'', JStr ''Forgiven'')])"

definition panel_kick_cmd :: "string \<Rightarrow> string" where
  "panel_kick_cmd steam = ''AdminKick '' @ [CHR 0x22] @ rconSafe (filter is_digit steam) @ [CHR 0x22] @ '' TK kick by admin''"

definition post_tk_kick :: "env \<Rightarrow> handler" where
  "post_tk_kick e ctx p =
     (case tk_with (pn_db p) (ctx_param ctx 1) of
        None \<Rightarrow> db_error ''TK record not found'' p
      | Some r \<Rightarrow>
          let p1 = pn_exec (tk_change (ctx_param ctx 1) (\<lambda>r. r\<lparr>tk_kicked := True\<rparr>)) p
          in (case rcon_text e (to_string (tk_serverId r)) (panel_kick_cmd (tk_killerSteamId r)) p1 of
                None \<Rightarrow> answer p1 [(''message'', JStr ''Kicked''), (''rcon'', JStr []), (''rconError'', JStr ''stoi'')]
              | Some (reply, p2) \<Rightarrow> answer p2 [(''message'', JStr ''Kicked''), (''rcon'', JStr reply), (''rconError'', JStr [])]))"

section \<open>Points\<close>

text \<open>\<open>std::stoi\<close> of a stored number outside the 32-bit range throws.\<close>

definition points_row_json :: "points_row \<Rightarrow> json option" where
  "points_row_json r =
     (let sid = (case p_serverId r of None \<Rightarrow> 0 | Some s \<Rightarrow> s)
      in if \<not> in_int sid \<or> \<not> in_int (p_balance r) \<or> \<not> in_int (p_lifetimeEarned r) then None
         else Some (JObj [(''id'', JInt (p_id r)), (''serverId'', JInt sid), (''steamId'', JStr (p_steamId r)),
           (''playerName'', JStr (null_text (p_playerName r))), (''balance'', JInt (p_balance r)),
           (''lifetimeEarned'', JInt (p_lifetimeEarned r)), (''lastUpdated'', JStr (datetime_text (p_lastUpdated r)))]))"

definition get_points :: handler where
  "get_points ctx p =
     (let q = ctx_query ctx ''q'' [];
          rows = (if q = [] then take 200 (order_desc p_balance (t_rows (db_points (pn_db p))))
                  else order_desc p_balance (t_select (\<lambda>r. like_any q (p_steamId r) \<or>
                    (case p_playerName r of None \<Rightarrow> False | Some n \<Rightarrow> like_any q n)) (db_points (pn_db p))))
      in case those (map points_row_json rows) of
           None \<Rightarrow> Some (p, server_error)
         | Some js \<Rightarrow> answer p [(''points'', JArr js)])"

text \<open>\<open>std::atoi\<close>: \<open>strtol\<close>, which stays within 64 bits, cut to 32.\<close>

definition atoi :: "string \<Rightarrow> int" where
  "atoi s = (case stoll s of Inr n \<Rightarrow> wrap32 n | Inl Invalid_argument \<Rightarrow> 0
     | Inl Out_of_range \<Rightarrow> (if hd (dropWhile is_space s) = CHR ''-'' then 0 else - 1))"

definition leader_json :: "points_row \<Rightarrow> json" where
  "leader_json r = JObj [(''steamId'', JStr (p_steamId r)), (''playerName'', JStr (null_text (p_playerName r))),
     (''balance'', JInt (safeStoi (to_string (p_balance r)) 0)), (''lifetimeEarned'', JInt (safeStoi (to_string (p_lifetimeEarned r)) 0))]"

definition get_leaderboard :: handler where
  "get_leaderboard ctx p =
     (let page = max 1 (atoi (ctx_query ctx ''page'' ''1'')); size = min 100 (max 1 (atoi (ctx_query ctx ''page_size'' ''20'')));
          off = wrap32 ((page - 1) * size); all = order_desc p_balance (t_rows (db_points (pn_db p)));
          total = safeStoi (to_string (int (length all))) 0
      in answer p [(''data'', JArr (map leader_json (sql_limit size off all))), (''page'', JInt page), (''page_size'', JInt size),
           (''total'', JInt total), (''total_pages'', JInt (wrap32 (total + size - 1) div size))])"

text \<open>The row is looked up by the Steam id alone, the log names the server of the request.\<close>

definition adjust_row :: "database \<Rightarrow> string \<Rightarrow> points_row option" where
  "adjust_row d steam = t_first (\<lambda>r. p_steamId r = steam) (db_points d)"

definition post_adjust :: "env \<Rightarrow> handler" where
  "post_adjust e ctx p =
     (let steam = body_str e ctx ''steamId''; name = body_str e ctx ''playerName''; amount = jsonInt (cx_body ctx) ''amount'' 0;
          reason = jsonStr (e_dump e) (cx_body ctx) ''reason'' ''manual''; sid = safeStoi (body_str e ctx ''serverId'') 0;
          earned = max 0 amount; who = (if cx_authenticated ctx then cx_username ctx else txt_system);
          log = log_points sid steam name amount reason who (e_now e);
          ok = [(''message'', JStr [CHR 0xE6, CHR 0x93, CHR 0x8D, CHR 0xE4, CHR 0xBD, CHR 0x9C, CHR 0xE6, CHR 0x88, CHR 0x90, CHR 0xE5, CHR 0x8A, CHR 0x9F])]
      in if steam = [] then db_error ''steamId required'' p
         else if amount = 0 then db_error ''amount must be non-zero'' p
         else (case adjust_row (pn_db p) steam of
           Some r \<Rightarrow>
             let bal = wrap32 (safeStoi (to_string (p_balance r)) 0 + amount)
             in if bal < 0 then db_error [CHR 0xE7, CHR 0xA7, CHR 0xAF, CHR 0xE5, CHR 0x88, CHR 0x86, CHR 0xE4, CHR 0xB8, CHR 0x8D, CHR 0xE8, CHR 0xB6, CHR 0xB3] p
                else answer (pn_exec (\<lambda>d. log (points_update (p_id r) (\<lambda>r. r\<lparr>p_balance := bal,
                       p_lifetimeEarned := p_lifetimeEarned r + earned, p_playerName := Some name, p_lastUpdated := e_now e\<rparr>) d)) p) ok
         | None \<Rightarrow>
             if amount < 0 then db_error [CHR 0xE8, CHR 0xAF, CHR 0xA5, CHR 0xE7, CHR 0x8E, CHR 0xA9, CHR 0xE5, CHR 0xAE, CHR 0xB6, CHR 0xE6, CHR 0x97, CHR 0xA0, CHR 0xE7, CHR 0xA7, CHR 0xAF, CHR 0xE5, CHR 0x88, CHR 0x86, CHR 0xE8, CHR 0xAE, CHR 0xB0, CHR 0xE5, CHR 0xBD, CHR 0x95, CHR 0xEF, CHR 0xBC, CHR 0x8C, CHR 0xE6, CHR 0x97, CHR 0xA0, CHR 0xE6, CHR 0xB3, CHR 0x95, CHR 0xE6, CHR 0x89, CHR 0xA3, CHR 0xE5, CHR 0x87, CHR 0x8F] p
             else answer (pn_exec (\<lambda>d. log (points_insert sid steam name amount earned (e_now e) d)) p) ok))"

definition point_log_json :: "point_log \<Rightarrow> json" where
  "point_log_json l = JObj [(''id'', JInt (pl_id l)), (''serverId'', JInt (safeStoi (to_string (pl_serverId l)) 0)),
     (''steamId'', JStr (pl_steamId l)), (''playerName'', JStr (pl_playerName l)),
     (''amount'', JInt (safeStoi (to_string (pl_amount l)) 0)), (''reason'', JStr (pl_reason l)),
     (''operator'', JStr (pl_operator l)), (''createdAt'', JStr (datetime_text (pl_createdAt l)))]"

definition get_point_logs :: handler where
  "get_point_logs ctx p =
     (let sid = ctx_query ctx ''serverId'' []
      in answer p [(''logs'', JArr (map point_log_json (take 200 (order_desc pl_createdAt
           (t_select (\<lambda>l. of_server sid (pl_serverId l)) (db_point_logs (pn_db p)))))))])"

section \<open>Players\<close>

definition player_row_json :: "player_row \<Rightarrow> json" where
  "player_row_json r = JObj [(''id'', JInt (pr_id r)), (''serverId'', JInt (safeStoi (to_string (pr_serverId r)) 0)),
     (''steamId'', JStr (pr_steamId r)), (''name'', JStr (pr_name r)), (''playtime'', JInt (safeStoi (to_string (pr_playtime r)) 0)),
     (''firstSeen'', JStr (datetime_text (pr_firstSeen r))), (''lastSeen'', JStr (datetime_text (pr_lastSeen r)))]"

definition get_players :: handler where
  "get_players ctx p =
     (let sid = ctx_query ctx ''serverId'' []
      in answer p [(''players'', JArr (map player_row_json (take 100 (order_desc pr_lastSeen
           (t_select (\<lambda>r. of_server sid (pr_serverId r)) (db_players (pn_db p)))))))])"

definition op_log_insert :: "time \<Rightarrow> string \<Rightarrow> string \<Rightarrow> string \<Rightarrow> string \<Rightarrow> string \<Rightarrow> database \<Rightarrow> database" where
  "op_log_insert now who action target details sid d =
     d\<lparr>db_op_logs := t_insert (\<lambda>i. \<lparr>op_id = i, op_operator = who, op_action = action, op_target = target, op_details = details,
        op_serverId = int_col sid, op_createdAt = now\<rparr>) (db_op_logs d)\<rparr>"

text \<open>A command on a player, logged once the server has answered.\<close>

definition player_command :: "env \<Rightarrow> Context \<Rightarrow> string \<Rightarrow> string \<Rightarrow> panel \<Rightarrow> (panel \<times> response) option" where
  "player_command e ctx cmd details p =
     (let sid = body_str e ctx ''serverId''; steam = body_str e ctx ''steamId''; name = body_str e ctx ''playerName''
      in if sid = [] \<or> steam = [] then db_error ''serverId and steamId required'' p
         else (case rcon_text e sid cmd p of
           None \<Rightarrow> Some (p, server_error)
         | Some (reply, p1) \<Rightarrow>
             if reply = [] then Some (p1, ctx_error ''RCON command failed'' 500)
             else answer (pn_exec (op_log_insert (e_now e) (cx_username ctx) ''other'' (if name = [] then steam else name) details sid) p1)
                    [(''result'', JStr reply)]))"

definition post_kick :: "env \<Rightarrow> handler" where
  "post_kick e ctx p =
     (let steam = body_str e ctx ''steamId''; reason = jsonStr (e_dump e) (cx_body ctx) ''reason'' ''Kicked by admin''
      in player_command e ctx (''AdminKick '' @ [CHR 0x22] @ rconSafe steam @ [CHR 0x22] @ '' '' @ rconSafe reason)
           (cx_username ctx @ '' kicked '' @ body_str e ctx ''playerName'' @ '' SteamID: '' @ steam @ '' reason: '' @ reason) p)"

definition post_switch_team :: "env \<Rightarrow> handler" where
  "post_switch_team e ctx p =
     (let steam = body_str e ctx ''steamId''
      in player_command e ctx (''AdminForceTeamChange '' @ [CHR 0x22] @ rconSafe steam @ [CHR 0x22])
           (cx_username ctx @ '' switched team for '' @ body_str e ctx ''playerName'' @ '' SteamID: '' @ steam) p)"

definition rcon_error :: "panel \<Rightarrow> (panel \<times> response) option" where
  "rcon_error p = Some (p, ctx_error ''RCON error: stoi'' 500)"

definition post_refresh :: "env \<Rightarrow> handler" where
  "post_refresh e ctx p =
     (let sid = body_str e ctx ''serverId''
      in if sid = [] then db_error ''serverId required'' p
         else (case rcon_text e sid ''ListPlayers'' p of None \<Rightarrow> rcon_error p
               | Some (reply, p1) \<Rightarrow> answer p1 [(''message'', JStr ''Refreshed''), (''result'', JStr reply)]))"

text \<open>\<open>lastSeen < datetime('now', '-n seconds')\<close>; outside the years of SQLite, and for the malformed modifier a
  negative setting gives, the comparison is NULL.\<close>

definition afk_players :: "env \<Rightarrow> string \<Rightarrow> int \<Rightarrow> database \<Rightarrow> string list" where
  "afk_players e sid secs d =
     (case (if secs < 0 then None else sql_datetime (e_now e - secs)) of
        None \<Rightarrow> []
      | Some t \<Rightarrow> map pr_steamId (t_select (\<lambda>r. Some (pr_serverId r) = int_key sid \<and> pr_lastSeen r < t) (db_players d)))"

definition afk_cmd :: "string \<Rightarrow> string" where
  "afk_cmd steam = ''AdminKick '' @ [CHR 0x22] @ rconSafe steam @ [CHR 0x22] @ '' AFK too long''"

definition post_afk_kick :: "env \<Rightarrow> handler" where
  "post_afk_kick e ctx p =
     (let sid = body_str e ctx ''serverId''
      in if sid = [] then db_error ''serverId required'' p
         else (case stoi sid of
           Inl _ \<Rightarrow> rcon_error p
         | Inr s \<Rightarrow>
             let p1 = on_world (rcon_do s ''ListPlayers'') p; fallback = config_getInt (e_cfg e) ''AFK_KICK_SECONDS'' 300
             in if db_settings (pn_db p) ''afk_kick_enabled'' \<noteq> Some ''1''
                then answer p1 [(''message'', JStr ''AFK kick not enabled''), (''kicked'', JInt 0)]
                else
                  let secs = (case db_settings (pn_db p) ''afk_kick_seconds'' of None \<Rightarrow> fallback
                              | Some v \<Rightarrow> (case stoi v of Inr n \<Rightarrow> n | Inl _ \<Rightarrow> fallback));
                      away = afk_players e sid secs (pn_db p)
                  in answer (on_world (fold (\<lambda>steam. rcon_do s (afk_cmd steam)) away) p1)
                       [(''message'', JStr ''Done''), (''kicked'', JInt (int (length away)))]))"

section \<open>RCON commands\<close>

definition post_rcon_send :: "env \<Rightarrow> handler" where
  "post_rcon_send e ctx p =
     (let sid = body_str e ctx ''serverId''; cmd = body_str e ctx ''command''
      in if sid = [] \<or> cmd = [] then db_error ''serverId and command required'' p
         else
           let (reply, w) = rcon_send e (safeStoi sid 0) cmd (pn_world p); p1 = p\<lparr>pn_world := w\<rparr>
           in if reply = [] then Some (p1, ctx_error ''RCON: server unreachable or no response'' 502)
              else answer p1 [(''result'', JStr reply)])"

text \<open>Without a server id the test connects by itself; \<open>probe\<close> gives what the server answers, \<open>None\<close> when it
  cannot be reached or refuses the password.\<close>

definition post_rcon_test :: "env \<Rightarrow> (string \<Rightarrow> int \<Rightarrow> string \<Rightarrow> string option) \<Rightarrow> handler" where
  "post_rcon_test e probe ctx p =
     (let sid = body_str e ctx ''serverId''; host = body_str e ctx ''host''; port = jsonInt (cx_body ctx) ''port'' 0;
          pw = body_str e ctx ''password''
      in if sid \<noteq> [] then
           (let (reply, w) = rcon_send e (safeStoi sid 0) ''ListPlayers'' (pn_world p); p1 = p\<lparr>pn_world := w\<rparr>
            in if reply = [] then answer p1 [(''success'', JBool False), (''error'', JStr ''RCON no response'')]
               else answer p1 [(''success'', JBool True), (''result'', JStr reply)])
         else if host \<noteq> [] \<and> 0 < port \<and> pw \<noteq> [] then
           (case probe host port pw of
              None \<Rightarrow> answer p [(''success'', JBool False), (''error'', JStr ''Connection failed'')]
            | Some reply \<Rightarrow> answer p [(''success'', JBool True), (''result'', JStr reply)])
         else db_error ''Provide serverId or host+port+password'' p)"

section \<open>Reserved slots\<close>

definition syncReservedSlot :: "env \<Rightarrow> int \<Rightarrow> string \<Rightarrow> string \<Rightarrow> string \<Rightarrow> world \<Rightarrow> world" where
  "syncReservedSlot e sid steam action name w =
     (case t_first (\<lambda>s. sv_id s = sid) (db_servers (w_db w)) of
        None \<Rightarrow> w
      | Some s \<Rightarrow>
          if null_text (sv_relayUrl s) = [] then w
          else
            let ep = parseRelayUrl (null_text (sv_relayUrl s)) (config_getInt (e_cfg e) ''DEFAULT_RELAY_PORT'' 18977)
            in snd (http_post e (ep_host ep) (ep_port ep) ''/api/reserved-slots/sync''
                 (JObj ([(''action'', JStr action)] @ (if name = [] then [] else [(''playerName'', JStr name)]) @ [(''steamId'', JStr steam)])) w))"

definition slot_row_json :: "reserved_row \<Rightarrow> json" where
  "slot_row_json r = text_obj [(''id'', to_string (rs_id r)), (''serverId'', to_string (rs_serverId r)), (''steamId'', rs_steamId r),
     (''playerName'', rs_playerName r), (''addedBy'', rs_addedBy r), (''createdAt'', datetime_text (rs_createdAt r)),
     (''expiresAt'', time_text (rs_expiresAt r))]"

definition get_slots :: handler where
  "get_slots ctx p =
     (let sid = ctx_query ctx ''serverId'' []
      in answer p [(''slots'', JArr (map slot_row_json (order_desc rs_createdAt
           (t_select (\<lambda>r. of_server sid (rs_serverId r)) (db_reserved (pn_db p))))))])"

definition post_slots :: "env \<Rightarrow> int \<Rightarrow> handler" where
  "post_slots e lastId ctx p =
     (let sid = jsonInt (cx_body ctx) ''serverId'' 0; steam = body_str e ctx ''steamId''; name = body_str e ctx ''playerName'';
          who = jsonStr (e_dump e) (cx_body ctx) ''addedBy'' ''panel''
      in if sid = 0 \<or> steam = [] then db_error ''serverId and steamId required'' p
         else if has_slot (pn_db p) sid steam then db_error ''Slot already exists'' p
         else
           let p1 = pn_exec (reserved_insert (e_now e) sid steam name who None) p
           in answer (on_world (syncReservedSlot e sid steam ''add'' name) p1)
                [(''id'', JInt (inserted_id db_reserved lastId (pn_db p) (pn_db p1))), (''message'', JStr ''ok'')])"

definition del_slot :: "env \<Rightarrow> handler" where
  "del_slot e ctx p =
     (let key = int_key (ctx_param ctx 1);
          p1 = pn_exec (\<lambda>d. d\<lparr>db_reserved := t_delete (\<lambda>r. Some (rs_id r) = key) (db_reserved d)\<rparr>) p
      in answer (case t_first (\<lambda>r. Some (rs_id r) = key) (db_reserved (pn_db p)) of
           None \<Rightarrow> p1
         | Some r \<Rightarrow> on_world (syncReservedSlot e (safeStoi (to_string (rs_serverId r)) 0) (rs_steamId r) ''remove'' []) p1)
           [(''message'', JStr ''Deleted'')])"

section \<open>Redeem codes\<close>

definition cdk_row_json :: "cdk_row \<Rightarrow> json" where
  "cdk_row_json r = text_obj [(''id'', to_string (ck_id r)), (''code'', ck_code r), (''rewardType'', ck_rewardType r),
     (''rewardValue'', to_string (ck_rewardValue r)), (''serverId'', case ck_serverId r of None \<Rightarrow> [] | Some s \<Rightarrow> to_string s),
     (''maxUses'', to_string (ck_maxUses r)), (''usedCount'', to_string (ck_usedCount r)), (''expiresAt'', time_text (ck_expiresAt r)),
     (''createdAt'', datetime_text (ck_createdAt r)), (''createdBy'', ck_createdBy r)]"

definition get_cdk :: handler where
  "get_cdk ctx p = answer p [(''codes'', JArr (map cdk_row_json (take 100 (order_desc ck_id (t_rows (db_cdk (pn_db p)))))))]"

definition cdk_log_json :: "cdk_log \<Rightarrow> json" where
  "cdk_log_json l = text_obj [(''id'', to_string (cl_id l)), (''code'', cl_code l), (''serverId'', to_string (cl_serverId l)),
     (''steamId'', cl_steamId l), (''playerName'', cl_playerName l), (''rewardType'', cl_rewardType l),
     (''rewardValue'', to_string (cl_rewardValue l)), (''usedAt'', datetime_text (cl_usedAt l))]"

definition get_cdk_logs :: handler where
  "get_cdk_logs ctx p = answer p [(''logs'', JArr (map cdk_log_json (take 100 (order_desc cl_usedAt (t_rows (db_cdk_logs (pn_db p)))))))]"

definition code_chars :: string where
  "code_chars = ''0123456789ABCDEFGHIJKLMNOPQRSTUVWXYZ''"

text \<open>Eight draws a code; a code that is taken is rejected by the unique index but listed all the same.\<close>

definition cdk_code :: "(nat \<Rightarrow> nat) \<Rightarrow> string \<Rightarrow> nat \<Rightarrow> string" where
  "cdk_code draw pre i = pre @ ''-'' @ map (\<lambda>j. code_chars ! (draw (8 * i + j) mod 36)) [0..<8]"

definition cdk_insert :: "time \<Rightarrow> string \<Rightarrow> string \<Rightarrow> int \<Rightarrow> int \<Rightarrow> database \<Rightarrow> database" where
  "cdk_insert now code ty val uses d =
     (if code \<in> ck_code ` set (t_rows (db_cdk d)) then d
      else d\<lparr>db_cdk := t_insert (\<lambda>i. \<lparr>ck_id = i, ck_code = code, ck_rewardType = ty, ck_rewardValue = val, ck_serverId = None,
             ck_maxUses = uses, ck_usedCount = 0, ck_expiresAt = None, ck_createdAt = now, ck_createdBy = []\<rparr>) (db_cdk d)\<rparr>)"

fun cdk_batch :: "time \<Rightarrow> string \<Rightarrow> int \<Rightarrow> int \<Rightarrow> string list \<Rightarrow> int \<Rightarrow> database \<Rightarrow> json list \<times> database" where
  "cdk_batch now ty val uses [] lastId d = ([], d)"
| "cdk_batch now ty val uses (c # cs) lastId d =
     (let d1 = cdk_insert now c ty val uses d; i = inserted_id db_cdk lastId d d1;
          (js, d2) = cdk_batch now ty val uses cs i d1
      in (JObj [(''code'', JStr c), (''id'', JInt i)] # js, d2))"

definition post_cdk_batch :: "env \<Rightarrow> (nat \<Rightarrow> nat) \<Rightarrow> int \<Rightarrow> handler" where
  "post_cdk_batch e draw lastId ctx p =
     (if cx_role ctx \<noteq> ''server_owner'' then Some (p, ctx_error ''Admin only'' 403)
      else
        let count = min 100 (max 1 (jsonInt (cx_body ctx) ''count'' 1)); pre = jsonStr (e_dump e) (cx_body ctx) ''prefix'' ''cdk'';
            ty = jsonStr (e_dump e) (cx_body ctx) ''rewardType'' ''points''; val = jsonInt (cx_body ctx) ''rewardValue'' 50;
            uses = jsonInt (cx_body ctx) ''maxUses'' 1;
            (js, d) = cdk_batch (e_now e) ty val uses (map (cdk_code draw pre) [0..<nat count]) lastId (pn_db p)
        in answer (pn_exec (\<lambda>_. d) p) [(''generated'', JArr js)])"

definition del_cdk :: handler where
  "del_cdk ctx p = answer (pn_exec (\<lambda>d. d\<lparr>db_cdk := t_delete (\<lambda>r. Some (ck_id r) = int_key (ctx_param ctx 1)) (db_cdk d)\<rparr>) p)
     [(''message'', JStr ''Deleted'')]"

end
