(* ===== verification/ModerationProps.thy ===== *)
theory ModerationProps
  imports ModerationRoutes AuthProps
begin

text \<open>
  Properties of the moderation routes: what a manual correction of points does to the ledger, that the
  panel's kick does not look at forgiveness, that a lifted ban leaves no trace, and that the pages of the
  leaderboard are the leaderboard.
\<close>

section \<open>Points\<close>

lemma adjust_success:
  assumes "post_adjust e ctx p = Some (p', resp)" "re_status resp = 200" "points_ok (pn_db p)"
    and "r \<in> set (t_rows (db_points (pn_db p)))" "adjust_row (pn_db p) (body_str e ctx ''steamId'') = Some r" "p_serverId r = Some s"
    and "in_int (p_balance r + jsonInt (cx_body ctx) ''amount'' 0)"
  shows "balance_of (pn_db p') s' st = balance_of (pn_db p) s' st
      + (if s' = s \<and> st = body_str e ctx ''steamId'' then jsonInt (cx_body ctx) ''amount'' 0 else 0)
    \<and> logged (pn_db p') s' st = logged (pn_db p) s' st
      + (if s' = safeStoi (body_str e ctx ''serverId'') 0 \<and> st = body_str e ctx ''steamId'' then jsonInt (cx_body ctx) ''amount'' 0 else 0)"
proof -
  let ?d = "pn_db p" and ?st = "body_str e ctx ''steamId''" and ?a = "jsonInt (cx_body ctx) ''amount'' 0"
    and ?sid = "safeStoi (body_str e ctx ''serverId'') 0" and ?n = "body_str e ctx ''playerName''"
    and ?why = "jsonStr (e_dump e) (cx_body ctx) ''reason'' ''manual''" and ?who = "if cx_authenticated ctx then cx_username ctx else txt_system"
  define f where "f = (\<lambda>r. r\<lparr>p_balance := p_balance (r :: points_row), p_lifetimeEarned := p_lifetimeEarned r + max 0 ?a,
       p_playerName := Some ?n, p_lastUpdated := e_now e\<rparr>)"
  have steam: "p_steamId r = ?st" using t_first_Some [OF assms(5) [unfolded adjust_row_def]] by simp
  have bal: "in_int (p_balance r)" using assms(3,4) by (auto simp: points_ok_def)
  let ?g = "\<lambda>x. x\<lparr>p_balance := p_balance r + ?a, p_lifetimeEarned := p_lifetimeEarned x + max 0 ?a,
       p_playerName := Some ?n, p_lastUpdated := e_now e\<rparr>"
  have d': "pn_db p' = log_points ?sid ?st ?n ?a ?why ?who (e_now e) (points_update (p_id r) ?g ?d)"
    using assms(1,2,7) bal by (auto simp: post_adjust_def Let_def assms(5) safeStoi_def split: if_splits)
  have b: "balance_of (points_update (p_id r) ?g ?d) s' st = (if s' = s \<and> st = ?st then p_balance r + ?a else balance_of ?d s' st)"
    using balance_of_update [OF assms(3,4) _ assms(6) steam, of ?g s' st] by simp
  have own: "balance_of ?d s ?st = p_balance r"
  proof -
    have "distinct (map (\<lambda>r. (p_serverId r, p_steamId r)) (t_rows (db_points ?d)))" using assms(3) by (simp add: points_ok_def)
    from find_keyed [OF this assms(4)] show ?thesis by (simp add: balance_of_def assms(6) steam)
  qed
  have lb: "balance_of (log_points ?sid ?st ?n ?a ?why ?who (e_now e) d1) = balance_of d1" for d1
    by (rule balance_of_cong) (simp add: log_points_def)
  have lf: "logged (points_update (p_id r) ?g ?d) s' st = logged ?d s' st" by (simp add: logged_def points_update_def)
  show ?thesis unfolding d' lb b
    by (auto simp: own logged_log_points lf)
qed

text \<open>A manual correction of a known player's points moves the balance by the amount on the server of the first
  row stored for the player, and logs it for the server named in the request: the ledger stays explained by
  its log exactly when the two are the same server.\<close>
theorem adjust_exact:
  assumes "post_adjust e ctx p = Some (p', resp)" "re_status resp = 200" "points_ok (pn_db p)"
    and "adjust_row (pn_db p) (body_str e ctx ''steamId'') = Some r" "p_serverId r = Some s"
    and "in_int (p_balance r + jsonInt (cx_body ctx) ''amount'' 0)"
  shows "balance_of (pn_db p') s (body_str e ctx ''steamId'') = balance_of (pn_db p) s (body_str e ctx ''steamId'') + jsonInt (cx_body ctx) ''amount'' 0
    \<and> (ledger_gap (pn_db p') s (body_str e ctx ''steamId'') = ledger_gap (pn_db p) s (body_str e ctx ''steamId'')
        \<longleftrightarrow> safeStoi (body_str e ctx ''serverId'') 0 = s)"
proof -
  have r: "r \<in> set (t_rows (db_points (pn_db p)))" using t_first_Some [OF assms(4) [unfolded adjust_row_def]] by simp
  have "jsonInt (cx_body ctx) ''amount'' 0 \<noteq> 0" using assms(1,2) by (auto simp: post_adjust_def Let_def split: if_splits)
  with adjust_success [OF assms(1-3) r assms(4-6), of s "body_str e ctx ''steamId''"] show ?thesis
    by (auto simp: ledger_gap_def)
qed

lemma body_str_owner: "body_str e (as_owner ps kvs) k = jsonStr (e_dump e) (JObj kvs) k []"
  by simp

definition demo_points :: database where
  "demo_points = points_insert 1 ''p'' ''n'' 5 5 0 demo_db"

lemma demo_points_ok: "points_ok demo_points" "t_rows (db_points demo_points) = [\<lparr>p_id = 1, p_serverId = Some 1, p_steamId = ''p'',
    p_playerName = Some ''n'', p_balance = 5, p_lifetimeEarned = 5, p_lastUpdated = 0\<rparr>]"
  by (simp_all add: points_ok_def ids_ok_def demo_points_def points_insert_def demo_db_def empty_db_def server_exists_def t_insert_def t_empty_def in_int_def)

theorem adjust_exact_witness:
  "\<exists>p' r. post_adjust (demo_env 0) (as_owner [] [(''steamId'', JStr ''p''), (''amount'', JInt (- 3)), (''serverId'', JStr ''7'')])
       (route_panel demo_points) = Some (p', r)
     \<and> balance_of (pn_db p') 1 ''p'' = 2 \<and> ledger_gap (pn_db p') 1 ''p'' \<noteq> ledger_gap demo_points 1 ''p''"
proof -
  let ?c = "as_owner [] [(''steamId'', JStr ''p''), (''amount'', JInt (- 3)), (''serverId'', JStr ''7'')]"
  have f: "adjust_row demo_points ''p'' = Some (hd (t_rows (db_points demo_points)))"
    by (simp add: adjust_row_def t_first_def demo_points_ok)
  have n: "safeStoi ''7'' 0 = 7" "safeStoi (to_string 5) 0 = 5" by code_simp+
  have "\<exists>p' r. post_adjust (demo_env 0) ?c (route_panel demo_points) = Some (p', r) \<and> re_status r = 200"
    by (simp add: post_adjust_def Let_def jsonStr_def jsonInt_def f demo_points_ok n wrap32_def)
  then obtain p' r where k: "post_adjust (demo_env 0) ?c (route_panel demo_points) = Some (p', r)" "re_status r = 200"
    by (elim exE conjE)
  have b: "body_str (demo_env 0) ?c ''steamId'' = ''p''" "body_str (demo_env 0) ?c ''serverId'' = ''7''" "jsonInt (cx_body ?c) ''amount'' 0 = - 3"
    by (simp_all add: jsonStr_def jsonInt_def)
  have "balance_of demo_points 1 ''p'' = 5" by (simp add: balance_of_def demo_points_ok)
  then show ?thesis
    using adjust_exact [OF k, of "hd (t_rows (db_points demo_points))" 1] k(1)
    unfolding b by (simp add: demo_points_ok f n in_int_def)
qed

section \<open>Team kills\<close>

text \<open>The panel's buttons do not exclude each other: a record that was forgiven through the panel and is then
  kicked through it is marked both, and the forgiven player is kicked from the game.\<close>
theorem panel_kicks_forgiven:
  assumes "ids_ok tk_id (db_tk (pn_db p))" "tk_with (pn_db p) (ctx_param ctx 1) = Some r" "in_int (tk_serverId r)"
  shows "\<exists>p1 r1 p2 r2. post_tk_forgive ctx p = Some (p1, r1) \<and> post_tk_kick e ctx p1 = Some (p2, r2)
    \<and> w_sent (pn_world p2) = w_sent (pn_world p) @ [(tk_serverId r, panel_kick_cmd (tk_killerSteamId r))]
    \<and> (\<exists>r'. r' \<in> set (t_rows (db_tk (pn_db p2))) \<and> tk_id r' = tk_id r \<and> tk_forgiven r' \<and> tk_kicked r')"
proof -
  let ?k = "ctx_param ctx 1"
  have r: "r \<in> set (t_rows (db_tk (pn_db p)))" "int_key ?k = Some (tk_id r)"
    using t_first_Some [OF assms(2) [unfolded tk_with_def]] by auto
  define p1 where "p1 = pn_exec (tk_change ?k (\<lambda>r. r\<lparr>tk_forgiven := True\<rparr>)) p"
  have f: "post_tk_forgive ctx p = Some (p1, ctx_json (JObj [(''message'', JStr ''Forgiven'')]) 200)"
    using assms(2) by (simp add: post_tk_forgive_def p1_def)
  have rows1: "t_rows (db_tk (pn_db p1)) = map (\<lambda>x. if tk_id x = tk_id r then x\<lparr>tk_forgiven := True\<rparr> else x) (t_rows (db_tk (pn_db p)))"
    unfolding p1_def tk_change_def r(2) by simp
  have only: "x = r" if "x \<in> set (t_rows (db_tk (pn_db p)))" "tk_id x = tk_id r" for x
    using ids_ok_unique [OF assms(1) that(1) r(1) that(2)] .
  have "r\<lparr>tk_forgiven := True\<rparr> \<in> set (t_rows (db_tk (pn_db p1)))" using r(1) by (force simp: rows1 image_iff)
  then have "tk_with (pn_db p1) ?k \<noteq> None"
    unfolding tk_with_def t_first_None r(2) by (auto intro!: bexI [of _ "r\<lparr>tk_forgiven := True\<rparr>"])
  then obtain x where x: "tk_with (pn_db p1) ?k = Some x" by auto
  from t_first_Some [OF this [unfolded tk_with_def]] r(2) only have xr: "x = r\<lparr>tk_forgiven := True\<rparr>"
    by (auto simp: rows1 split: if_splits)
  define p2 where "p2 = snd (the (rcon_text e (to_string (tk_serverId r)) (panel_kick_cmd (tk_killerSteamId r))
     (pn_exec (tk_change ?k (\<lambda>r. r\<lparr>tk_kicked := True\<rparr>)) p1)))"
  have rt: "rcon_text e (to_string (tk_serverId r)) c q = Some (e_reply e (w_sent (pn_world q)) (tk_serverId r) c, q\<lparr>pn_world := rcon_do (tk_serverId r) c (pn_world q)\<rparr>)"
    for c q using assms(3) by (simp add: rcon_text_def rcon_send_def rcon_do_def)
  have k: "\<exists>resp. post_tk_kick e ctx p1 = Some (p2, resp)"
    using x by (simp add: post_tk_kick_def xr rt p2_def)
  have rows2: "t_rows (db_tk (pn_db p2)) = map (\<lambda>x. if tk_id x = tk_id r then x\<lparr>tk_kicked := True\<rparr> else x) (t_rows (db_tk (pn_db p1)))"
    unfolding p2_def rt tk_change_def r(2) by simp
  have "r\<lparr>tk_forgiven := True, tk_kicked := True\<rparr> \<in> set (t_rows (db_tk (pn_db p2)))"
    using r(1) by (force simp: rows2 rows1 image_iff)
  moreover have "w_sent (pn_world p2) = w_sent (pn_world p) @ [(tk_serverId r, panel_kick_cmd (tk_killerSteamId r))]"
    by (simp add: p2_def rt p1_def)
  ultimately show ?thesis using f k by fastforce
qed

theorem panel_kicks_forgiven_witness:
  "\<exists>p1 r1 p2 r2. post_tk_forgive (as_owner [''1''] []) (route_panel (demo_tk_db 5)) = Some (p1, r1)
     \<and> post_tk_kick (demo_env 0) (as_owner [''1''] []) p1 = Some (p2, r2)
     \<and> w_sent (pn_world p2) = w_sent (pn_world (route_panel (demo_tk_db 5))) @ [(1, panel_kick_cmd ''k'')]"
proof -
  have r: "t_rows (db_tk (demo_tk_db 5)) = [demo_tk 5 1]" by (simp add: demo_tk_db_def t_insert_def t_empty_def)
  have w: "tk_with (pn_db (route_panel (demo_tk_db 5))) (ctx_param (as_owner [''1''] []) 1) = Some (demo_tk 5 1)"
    by (simp add: tk_with_def t_first_def r text_one) (simp add: demo_tk_def)
  have ok: "ids_ok tk_id (db_tk (pn_db (route_panel (demo_tk_db 5))))"
    using demo_tk_ok [of 5] by (simp add: tk_ok_def)
  have v: "in_int (tk_serverId (demo_tk 5 1))" "tk_serverId (demo_tk 5 1) = 1" "tk_killerSteamId (demo_tk 5 1) = ''k''"
    by (simp_all add: demo_tk_def in_int_def)
  from panel_kicks_forgiven [OF ok w v(1), of "demo_env 0"] show ?thesis
    unfolding v by (elim exE conjE) (intro exI conjI)
qed

section \<open>Bans\<close>

text \<open>A ban given through the panel and lifted again by the id the panel answered leaves the table of bans as it
  was, whatever the game server and the relay say, and the game server was told of the ban.\<close>
theorem ban_unban_roundtrip:
  assumes "post_bans e lastId ctx p = Some (p1, r1)" "int_key (body_str e ctx ''serverId'') = Some s" "server_exists (pn_db p) s"
    and "body_str e ctx ''steamId'' \<noteq> []" "ids_ok b_id (db_bans (pn_db p))" "stoi (body_str e ctx ''serverId'') = Inr s"
    and "ctx_param ctx' 1 = to_string (t_seq (db_bans (pn_db p)) + 1)" "0 \<le> t_seq (db_bans (pn_db p))" "t_seq (db_bans (pn_db p)) + 1 < 2 ^ 63"
  shows "\<exists>p2 r2. del_ban e' ctx' p1 = Some (p2, r2) \<and> re_status r2 = 200
    \<and> t_rows (db_bans (pn_db p2)) = t_rows (db_bans (pn_db p))
    \<and> w_sent (pn_world p2) = w_sent (pn_world p) @ [(s, ban_cmd (body_str e ctx ''steamId'') (jsonInt (cx_body ctx) ''duration'' 0) (body_str e ctx ''reason''))]"
proof -
  let ?n = "t_seq (db_bans (pn_db p)) + 1"
  have sid: "body_str e ctx ''serverId'' \<noteq> []" using assms(2) by auto
  obtain row where rows: "t_rows (db_bans (pn_db p1)) = t_rows (db_bans (pn_db p)) @ [row]" "b_id row = ?n" "b_serverId row = s"
    and sent: "w_sent (pn_world p1) = w_sent (pn_world p) @ [(s, ban_cmd (body_str e ctx ''steamId'') (jsonInt (cx_body ctx) ''duration'' 0) (body_str e ctx ''reason''))]"
    using assms(1-4,6) sid by (auto simp: post_bans_def Let_def rcon_text_def rcon_send_def ban_insert_def)
  have old: "b_id b \<noteq> ?n" if "b \<in> set (t_rows (db_bans (pn_db p)))" for b
    using assms(5) that by (auto simp: ids_ok_def)
  have key: "int_key (ctx_param ctx' 1) = Some ?n" using int_key_to_string [of ?n] assms(7-9) by simp
  have "t_first (\<lambda>b. b_id b = ?n) (db_bans (pn_db p1)) = Some row"
  proof -
    have "find (\<lambda>b. b_id b = ?n) (xs @ [row]) = Some row" if "\<forall>b\<in>set xs. b_id b \<noteq> ?n" for xs
      using that rows(2) by (induction xs) auto
    then show ?thesis using old by (simp add: t_first_def rows(1))
  qed
  then have found: "t_first (\<lambda>b. Some (b_id b) = int_key (ctx_param ctx' 1)) (db_bans (pn_db p1)) = Some row" unfolding key by simp
  have del: "filter (\<lambda>b. b_id b \<noteq> ?n) (t_rows (db_bans (pn_db p1))) = t_rows (db_bans (pn_db p))"
    using old rows(2) by (simp add: rows(1))
  have "\<exists>p2 r2. del_ban e' ctx' p1 = Some (p2, r2) \<and> re_status r2 = 200
    \<and> t_rows (db_bans (pn_db p2)) = filter (\<lambda>b. b_id b \<noteq> ?n) (t_rows (db_bans (pn_db p1))) \<and> w_sent (pn_world p2) = w_sent (pn_world p1)"
    unfolding del_ban_def Let_def found by (simp add: key [simplified One_nat_def] split_beta)
  then show ?thesis unfolding del sent .
qed

theorem ban_unban_roundtrip_witness:
  "\<exists>p1 r1 p2 r2. post_bans (demo_env 0) 0 (as_owner [] [(''serverId'', JStr ''1''), (''steamId'', JStr ''p'')]) (route_panel demo_db) = Some (p1, r1)
     \<and> length (t_rows (db_bans (pn_db p1))) = 1
     \<and> del_ban (demo_env 1) (as_owner [''1''] []) p1 = Some (p2, r2) \<and> t_rows (db_bans (pn_db p2)) = []"
proof -
  let ?c = "as_owner [] [(''serverId'', JStr ''1''), (''steamId'', JStr ''p'')]"
  have one: "stoi ''1'' = Inr 1" by code_simp
  have z: "t_seq (db_bans demo_db) = 0" "t_rows (db_bans demo_db) = []" "server_exists demo_db 1"
    by (simp_all add: demo_db_def empty_db_def t_empty_def server_exists_def t_insert_def)
  have b: "body_str (demo_env 0) ?c ''serverId'' = ''1''" "body_str (demo_env 0) ?c ''steamId'' = ''p''" by (simp_all add: jsonStr_def)
  have "\<exists>p1 r1. post_bans (demo_env 0) 0 ?c (route_panel demo_db) = Some (p1, r1) \<and> length (t_rows (db_bans (pn_db p1))) = 1"
    using z one by (simp add: post_bans_def Let_def jsonStr_def text_one ban_insert_def rcon_text_def rcon_send_def split_beta)
  then obtain p1 r1 where k: "post_bans (demo_env 0) 0 ?c (route_panel demo_db) = Some (p1, r1)" "length (t_rows (db_bans (pn_db p1))) = 1"
    by (elim exE conjE)
  have "\<exists>p2 r2. del_ban (demo_env 1) (as_owner [''1''] []) p1 = Some (p2, r2) \<and> t_rows (db_bans (pn_db p2)) = []"
    using ban_unban_roundtrip [OF k(1), of 1 "as_owner [''1''] []" "demo_env 1"] z one
    by (simp add: jsonStr_def text_one ids_ok_def) blast
  with k show ?thesis by blast
qed

section \<open>The leaderboard\<close>

definition board :: "panel \<Rightarrow> points_row list" where
  "board p = order_desc p_balance (t_rows (db_points (pn_db p)))"

text \<open>The data of a response.\<close>

definition data_of :: "response \<Rightarrow> json list" where
  "data_of r = (case j_lookup (re_body r) ''data'' of Some (JArr js) \<Rightarrow> js | _ \<Rightarrow> [])"

definition pages_of :: "response \<Rightarrow> int" where
  "pages_of r = (case j_lookup (re_body r) ''total_pages'' of Some (JInt n) \<Rightarrow> n | _ \<Rightarrow> 0)"

definition board_page :: "string \<Rightarrow> int \<Rightarrow> panel \<Rightarrow> response" where
  "board_page sz k p = snd (the (get_leaderboard \<lparr>cx_req = \<lparr>rq_method = ''GET'', rq_headers = [],
     rq_params = [(''page'', to_string k), (''page_size'', sz)], rq_matches = [], rq_body = []\<rparr>, cx_body = JNull, cx_userId = [],
     cx_username = [], cx_role = [], cx_authenticated = False\<rparr> p))"

lemma atoi_to_string: "in_int k \<Longrightarrow> atoi (to_string k) = k"
proof -
  assume k: "in_int k"
  then have "stoll (to_string k) = Inr k"
    by (simp add: stoll_def sto_parse_to_string in_int_def)
  with k show ?thesis by (simp add: atoi_def)
qed

lemma board_page_data:
  assumes "1 \<le> k" "in_int k" "in_int ((k - 1) * n)" "atoi sz = n" "1 \<le> n" "n \<le> 100" "length (board p) < 2147483000"
  shows "data_of (board_page sz k p) = map leader_json (sql_limit n ((k - 1) * n) (board p))
    \<and> pages_of (board_page sz k p) = (int (length (board p)) + n - 1) div n"
proof -
  have len: "in_int (int (length (board p)))" "in_int (int (length (board p)) + n - 1)" using assms(5-7) by (simp_all add: in_int_def)
  have "max 1 (atoi (to_string k)) = k" "min 100 (max 1 (atoi sz)) = n"
    using assms(1,2,4-6) by (simp_all add: atoi_to_string)
  then show ?thesis
    using assms(3) len unfolding board_def
    by (simp add: board_page_def get_leaderboard_def ctx_query_def Let_def data_of_def pages_of_def safeStoi_def)
qed

text \<open>The pages of the public leaderboard, read one after the other, are the whole board in descending order of
  balance: nobody is left out and nobody is listed twice.\<close>
theorem leaderboard_pages:
  assumes "atoi sz = n" "1 \<le> n" "n \<le> 100" "length (t_rows (db_points (pn_db p))) < 2147483000"
  shows "concat (map (\<lambda>k. data_of (board_page sz (int k + 1) p)) [0..<nat (pages_of (board_page sz 1 p))])
      = map leader_json (order_desc p_balance (t_rows (db_points (pn_db p))))"
proof -
  let ?b = "board p" and ?k = "(int (length (board p)) + n - 1) div n"
  have len: "length ?b < 2147483000" using assms(4) by (simp add: board_def)
  have pages: "pages_of (board_page sz 1 p) = ?k"
    using board_page_data [OF _ _ _ assms(1-3) len, of 1] by (simp add: in_int_def)
  have kn: "?k * n \<le> int (length ?b) + n - 1" "int (length ?b) \<le> ?k * n" "0 \<le> ?k"
  proof -
    have a: "?k * n = int (length ?b) + n - 1 - (int (length ?b) + n - 1) mod n" by (simp add: minus_mod_eq_div_mult)
    moreover have "(int (length ?b) + n - 1) mod n < n" "0 \<le> (int (length ?b) + n - 1) mod n" using assms(2) by simp_all
    ultimately show "?k * n \<le> int (length ?b) + n - 1" "int (length ?b) \<le> ?k * n" by linarith+
    show "0 \<le> ?k" using assms(2) by (intro div_int_pos_iff [THEN iffD2]) auto
  qed
  have le: "?k \<le> ?k * n" using kn(3) assms(2) by (simp add: mult_le_cancel_left1)
  have page: "data_of (board_page sz (int k + 1) p) = map leader_json (sql_limit n (int k * n) ?b)" if "k < nat ?k" for k
  proof -
    have "int k < ?k" using that by simp
    then have "int k * n \<le> ?k * n" using assms(2) by (intro mult_right_mono) auto
    moreover have "0 \<le> int k * n" using assms(2) by simp
    ultimately show ?thesis
      using board_page_data [OF _ _ _ assms(1-3) len, of "int k + 1"] \<open>int k < ?k\<close> kn(1) le len assms(3) by (simp add: in_int_def)
  qed
  have "map (\<lambda>k. data_of (board_page sz (int k + 1) p)) [0..<nat ?k] = map (map leader_json) (map (\<lambda>k. sql_limit n (int k * n) ?b) [0..<nat ?k])"
    by (simp add: page)
  then have "concat (map (\<lambda>k. data_of (board_page sz (int k + 1) p)) [0..<nat ?k])
      = map leader_json (concat (map (\<lambda>k. sql_limit n (int k * n) ?b) [0..<nat ?k]))"
    by (simp only: map_concat)
  also have "concat (map (\<lambda>k. sql_limit n (int k * n) ?b) [0..<nat ?k]) = ?b"
    using assms(2) kn(2,3) by (intro pages_all) simp_all
  finally show ?thesis by (simp add: pages board_def)
qed

theorem leaderboard_pages_witness:
  "concat (map (\<lambda>k. data_of (board_page ''7'' (int k + 1) (route_panel demo_points))) [0..<nat (pages_of (board_page ''7'' 1 (route_panel demo_points)))])
     = map leader_json (t_rows (db_points demo_points))"
proof -
  have "atoi ''7'' = 7" by code_simp
  from leaderboard_pages [OF this, of "route_panel demo_points"] show ?thesis by (simp add: demo_points_ok order_desc_def)
qed

end
