(* ===== verification/ListRoutes.thy ===== *)
theory ListRoutes
  imports ModerationRoutes
begin

text \<open>
  The lists of the panel: chat (handlers/chat_handler.cpp), kills (kill_handler.cpp), revives, player events,
  rounds, squads and claims, switch locks, presets, the plugin checks and the player database
  (query_handler.cpp), and the online chart (analytics_routes.cpp). An empty answer of \<open>queryOne\<close> to a
  statement SQLite rejects makes \<open>std::stoi\<close> throw, which the library turns into a 500; a division by zero
  ends the process, the outcome \<open>None\<close>.
\<close>

section \<open>Integer division\<close>

text \<open>Towards zero, as C++ divides; by zero it traps.\<close>

definition cdiv :: "int \<Rightarrow> int \<Rightarrow> int option" where
  "cdiv a b = (if b = 0 then None else Some (sgn a * sgn b * (\<bar>a\<bar> div \<bar>b\<bar>)))"

lemma cdiv_pos [simp]: "0 \<le> a \<Longrightarrow> 0 < b \<Longrightarrow> cdiv a b = Some (a div b)"
  by (cases "a = 0") (simp_all add: cdiv_def)

abbreviation throws :: "panel \<Rightarrow> (panel \<times> response) option" where
  "throws p \<equiv> Some (p, server_error)"

text \<open>\<open>std::stoi(row["c"])\<close> of a COUNT.\<close>

definition count_of :: "'r list \<Rightarrow> int option" where
  "count_of rs = (if in_int (int (length rs)) then Some (int (length rs)) else None)"

section \<open>Chat\<close>

definition chat_row_json :: "chat_row \<Rightarrow> json" where
  "chat_row_json r = text_obj [(''id'', to_string (c_id r)), (''serverId'', to_string (c_serverId r)), (''playerName'', c_playerName r),
     (''steamId'', c_steamId r), (''message'', c_message r), (''type'', c_type r), (''timestamp'', datetime_text (c_timestamp r)),
     (''roundId'', case c_roundId r of None \<Rightarrow> [] | Some i \<Rightarrow> to_string i), (''channel'', null_text (c_channel r))]"

definition chat_match :: "string \<Rightarrow> string \<Rightarrow> string \<Rightarrow> chat_row \<Rightarrow> bool" where
  "chat_match sid ty kw r =
     ((sid \<noteq> [] \<and> sid \<noteq> ''all'' \<longrightarrow> Some (c_serverId r) = int_key sid) \<and>
      (ty \<noteq> [] \<and> ty \<noteq> ''all'' \<longrightarrow> c_type r = ty) \<and>
      (kw \<noteq> [] \<longrightarrow> like_any kw (c_playerName r) \<or> like_any kw (c_steamId r) \<or> like_any kw (c_message r)))"

definition get_chat :: handler where
  "get_chat ctx p =
     (let sid = ctx_query ctx ''serverId'' []; kw = ctx_query ctx ''keyword'' []; ty = ctx_query ctx ''type'' [];
          page = safeStoi (ctx_query ctx ''page'' ''1'') 1; sz = safeStoi (ctx_query ctx ''page_size'' ''50'') 50;
          off = wrap32 (wrap32 (page - 1) * sz);
          hits = t_select (chat_match sid ty kw) (db_chat_logs (pn_db p));
          cnt = safeStoi (to_string (int (length hits))) 0;
          data = map chat_row_json (sql_limit sz off (order_desc c_id hits))
      in case cdiv (wrap32 (wrap32 (cnt + sz) - 1)) sz of
           None \<Rightarrow> None
         | Some pages \<Rightarrow> answer p [(''data'', JArr data), (''total'', JInt cnt), (''total_pages'', JInt (wrap32 pages)), (''page'', JInt page)])"

section \<open>Kills\<close>

definition kill_row_json :: "kill_row \<Rightarrow> json" where
  "kill_row_json r = text_obj [(''id'', to_string (k_id r)), (''serverId'', to_string (k_serverId r)), (''killer'', k_killer r),
     (''victim'', k_victim r), (''weapon'', k_weapon r), (''timestamp'', datetime_text (k_timestamp r))]"

definition get_kills :: handler where
  "get_kills ctx p =
     (case stoi (ctx_query ctx ''limit'' ''100'') of
        Inl _ \<Rightarrow> throws p
      | Inr n \<Rightarrow> answer p [(''kills'', JArr (map kill_row_json (sql_limit n 0 (order_desc k_timestamp
           (t_select (\<lambda>r. of_server (ctx_query ctx ''serverId'' []) (k_serverId r)) (db_kills (pn_db p)))))))])"

definition get_kill_stats :: handler where
  "get_kill_stats ctx p =
     (let sid = ctx_query ctx ''serverId'' [];
          ks = t_select (\<lambda>r. Some (k_serverId r) = int_key sid) (db_kills (pn_db p));
          tks = t_select (\<lambda>l. Some (pl_serverId l) = int_key sid \<and> like_any ''TK'' (pl_reason l)) (db_point_logs (pn_db p))
      in if sid = [] then db_error ''serverId required'' p
         else (case (count_of tks, count_of ks, count_of (filter (\<lambda>r. k_killer r = k_victim r) ks)) of
           (Some t, Some n, Some s) \<Rightarrow> answer p [(''totalKills'', JInt n), (''teamKills'', JInt t), (''suicides'', JInt s)]
         | _ \<Rightarrow> throws p))"

section \<open>Pages of a table (paginatedQuery)\<close>

definition isValidTable :: "string \<Rightarrow> bool" where
  "isValidTable t = (t \<in> set [''revives'', ''player_events'', ''game_rounds'', ''squad_claims'', ''kills'', ''bans'', ''chat_logs'', ''points'',
     ''point_logs'', ''players'', ''tk_forgive'', ''server_ticks'', ''reserved_slots'', ''switch_locks'', ''server_presets'', ''op_logs'',
     ''cdk_logs'', ''plugins'', ''plugin_sources'', ''settings'', ''sessions'', ''servers'', ''server_members'', ''users'', ''user_permissions''])"

text \<open>What a table gives: its rows, the id, the comparison of \<open>serverId\<close> with a text, \<open>eventType\<close> where there is
  such a column, the columns a keyword is looked for in, and the JSON object of a row.\<close>

record 'r source =
  so_rows :: "'r list"
  so_id :: "'r \<Rightarrow> int"
  so_server :: "string \<Rightarrow> 'r \<Rightarrow> bool"
  so_type :: "('r \<Rightarrow> string) option"
  so_fields :: "('r \<Rightarrow> string) list"
  so_json :: "'r \<Rightarrow> json"

definition source_match :: "'r source \<Rightarrow> Context \<Rightarrow> 'r \<Rightarrow> bool" where
  "source_match s ctx r =
     (let sid = ctx_query ctx ''serverId'' []; kw = ctx_query ctx ''keyword'' []; ty = ctx_query ctx ''type'' []
      in (sid \<noteq> [] \<and> sid \<noteq> ''all'' \<longrightarrow> so_server s sid r) \<and>
         (ty = ''join'' \<or> ty = ''leave'' \<longrightarrow> (case so_type s of None \<Rightarrow> False | Some f \<Rightarrow> f r = ty)) \<and>
         (kw \<noteq> [] \<and> so_fields s \<noteq> [] \<longrightarrow> list_ex (\<lambda>f. like_any kw (f r)) (so_fields s)))"

definition paginatedQuery :: "string \<Rightarrow> 'r source \<Rightarrow> handler" where
  "paginatedQuery table s ctx p =
     (if \<not> isValidTable table then db_error ''Invalid table name'' p
      else (case (stoi (ctx_query ctx ''page'' ''1''), stoi (ctx_query ctx ''page_size'' ''50'')) of
        (Inr page0, Inr size0) \<Rightarrow>
          let page = (if page0 < 1 then 1 else page0); sz = (if min 100 size0 < 1 then 50 else min 100 size0);
              off = wrap32 ((page - 1) * sz); ty = ctx_query ctx ''type'' [];
              hits = filter (source_match s ctx) (so_rows s)
          in if (ty = ''join'' \<or> ty = ''leave'') \<and> so_type s = None then throws p
             else (case count_of hits of
               None \<Rightarrow> throws p
             | Some cnt \<Rightarrow> answer p [(''data'', JArr (map (so_json s) (sql_limit sz off (order_desc (so_id s) hits)))),
                 (''page'', JInt page), (''total'', JInt cnt), (''total_pages'', JInt (wrap32 (cnt + sz - 1) div sz))])
      | _ \<Rightarrow> throws p))"

definition key_is :: "('r \<Rightarrow> int) \<Rightarrow> string \<Rightarrow> 'r \<Rightarrow> bool" where
  "key_is f s r = (Some (f r) = int_key s)"

definition revive_row_json :: "revive_row \<Rightarrow> json" where
  "revive_row_json r = text_obj [(''id'', to_string (r_id r)), (''serverId'', to_string (r_serverId r)), (''reviverSteamId'', r_reviverSteamId r),
     (''reviverName'', r_reviverName r), (''revivedSteamId'', r_revivedSteamId r), (''revivedName'', r_revivedName r),
     (''timestamp'', datetime_text (r_timestamp r))]"

definition event_row_json :: "event_row \<Rightarrow> json" where
  "event_row_json r = text_obj [(''id'', to_string (e_id r)), (''serverId'', to_string (e_serverId r)), (''steamId'', e_steamId r),
     (''playerName'', e_playerName r), (''eventType'', e_eventType r), (''timestamp'', datetime_text (e_timestamp r))]"

definition round_row_json :: "round_row \<Rightarrow> json" where
  "round_row_json r = text_obj [(''id'', to_string (g_id r)), (''serverId'', to_string (g_serverId r)), (''map'', g_map r),
     (''timestamp'', datetime_text (g_timestamp r))]"

definition claim_row_json :: "claim_row \<Rightarrow> json" where
  "claim_row_json r = text_obj [(''id'', to_string (cm_id r)), (''serverId'', cm_serverId r), (''teamId'', cm_teamId r), (''squadId'', cm_squadId r),
     (''squadName'', cm_squadName r), (''creatorSteamId'', cm_creatorSteamId r), (''creatorName'', cm_creatorName r),
     (''createdAt'', datetime_text (cm_createdAt r))]"

definition revive_source :: "database \<Rightarrow> revive_row source" where
  "revive_source d = \<lparr>so_rows = t_rows (db_revives d), so_id = r_id, so_server = key_is r_serverId, so_type = None,
     so_fields = [r_reviverName, r_reviverSteamId, r_revivedName, r_revivedSteamId], so_json = revive_row_json\<rparr>"

definition event_source :: "database \<Rightarrow> event_row source" where
  "event_source d = \<lparr>so_rows = t_rows (db_events d), so_id = e_id, so_server = key_is e_serverId, so_type = Some e_eventType,
     so_fields = [e_playerName, e_steamId], so_json = event_row_json\<rparr>"

definition round_source :: "database \<Rightarrow> round_row source" where
  "round_source d = \<lparr>so_rows = t_rows (db_rounds d), so_id = g_id, so_server = key_is g_serverId, so_type = None,
     so_fields = [g_map], so_json = round_row_json\<rparr>"

definition claim_source :: "database \<Rightarrow> claim_row source" where
  "claim_source d = \<lparr>so_rows = t_rows (db_claims d), so_id = cm_id, so_server = (\<lambda>s r. cm_serverId r = int_col s), so_type = None,
     so_fields = [cm_creatorName, cm_creatorSteamId, cm_squadName], so_json = claim_row_json\<rparr>"

definition get_revives :: handler where
  "get_revives ctx p = paginatedQuery ''revives'' (revive_source (pn_db p)) ctx p"

definition get_player_events :: handler where
  "get_player_events ctx p = paginatedQuery ''player_events'' (event_source (pn_db p)) ctx p"

definition get_game_rounds :: handler where
  "get_game_rounds ctx p = paginatedQuery ''game_rounds'' (round_source (pn_db p)) ctx p"

definition get_squad_events :: handler where
  "get_squad_events ctx p = paginatedQuery ''squad_claims'' (claim_source (pn_db p)) ctx p"

section \<open>Squads and claims\<close>

definition post_event_squad :: "env \<Rightarrow> handler" where
  "post_event_squad e ctx p =
     (let squad = body_str e ctx ''squadName''; creator = body_str e ctx ''creatorName''; steam = body_str e ctx ''creatorSteamId'';
          team = body_str e ctx ''teamIndex''; sq = body_str e ctx ''squadId''; sid = body_str e ctx ''serverId'';
          p1 = pn_exec (\<lambda>d. d\<lparr>db_claims := t_insert (\<lambda>i. \<lparr>cm_id = i, cm_serverId = int_col sid, cm_teamId = int_col team,
                 cm_squadId = int_col sq, cm_squadName = squad, cm_creatorSteamId = steam, cm_creatorName = creator,
                 cm_createdAt = e_now e\<rparr>) (db_claims d)\<rparr>) p
      in if squad = [] \<or> creator = [] then db_error ''squadName and creatorName required'' p
         else answer p1 [(''success'', JBool True), (''id'', JInt (t_seq (db_claims (pn_db p1))))])"

definition success :: "panel \<Rightarrow> (panel \<times> response) option" where
  "success p = answer p [(''success'', JBool True)]"

definition del_squad_event :: handler where
  "del_squad_event ctx p = success (pn_exec (\<lambda>d. d\<lparr>db_claims := t_delete (\<lambda>r. Some (cm_id r) = int_key (ctx_param ctx 1)) (db_claims d)\<rparr>) p)"

definition team_of_claim :: "claim_row \<Rightarrow> string" where
  "team_of_claim r = (if cm_teamId r = [] then ''unknown'' else cm_teamId r)"

text \<open>The object of the teams: a claim is appended to the array of its team.\<close>

fun add_claim :: "string \<Rightarrow> json \<Rightarrow> (string \<times> json list) list \<Rightarrow> (string \<times> json list) list" where
  "add_claim t j [] = [(t, [j])]"
| "add_claim t j ((u, js) # rest) = (if t = u then (u, js @ [j]) # rest else (u, js) # add_claim t j rest)"

definition claims_by_team :: "claim_row list \<Rightarrow> (string \<times> json list) list" where
  "claims_by_team rows = fold (\<lambda>r. add_claim (team_of_claim r) (claim_row_json r)) rows []"

definition get_claims :: handler where
  "get_claims ctx p =
     (let sid = ctx_query ctx ''serverId'' [];
          rows = order_asc cm_createdAt (t_select (\<lambda>r. cm_serverId r = int_col sid) (db_claims (pn_db p)))
      in if sid = [] then db_error ''serverId required'' p
         else answer p [(''claims'', JArr (map claim_row_json rows)),
                (''byTeam'', if rows = [] then JNull else JObj (map (\<lambda>(t, js). (t, JArr js)) (claims_by_team rows)))])"

definition post_claims_clear :: "env \<Rightarrow> handler" where
  "post_claims_clear e ctx p =
     (let sid = body_str e ctx ''serverId''
      in if sid = [] then db_error ''serverId required'' p
         else success (pn_exec (\<lambda>d. d\<lparr>db_claims := t_delete (\<lambda>r. cm_serverId r = int_col sid) (db_claims d)\<rparr>) p))"

section \<open>Switch locks\<close>

definition lock_row_json :: "lock_row \<Rightarrow> json" where
  "lock_row_json r = text_obj [(''id'', to_string (sl_id r)), (''serverId'', to_string (sl_serverId r)), (''steamId'', sl_steamId r),
     (''lockedUntil'', time_text (sl_lockedUntil r)), (''reason'', sl_reason r), (''createdAt'', datetime_text (sl_createdAt r))]"

text \<open>NULL comes first in ascending order.\<close>

definition locks_asc :: "lock_row list \<Rightarrow> lock_row list" where
  "locks_asc rs = filter (\<lambda>r. sl_lockedUntil r = None) rs @ order_asc (\<lambda>r. the (sl_lockedUntil r)) (filter (\<lambda>r. sl_lockedUntil r \<noteq> None) rs)"

definition get_locks :: handler where
  "get_locks ctx p = answer p [(''locks'', JArr (map lock_row_json (locks_asc
     (t_select (\<lambda>r. Some (sl_serverId r) = int_key (ctx_param ctx 1)) (db_locks (pn_db p))))))]"

definition post_unlock :: "env \<Rightarrow> handler" where
  "post_unlock e ctx p =
     (let steam = body_str e ctx ''steamId''
      in success (pn_exec (\<lambda>d. d\<lparr>db_locks := t_delete (\<lambda>r. Some (sl_serverId r) = int_key (ctx_param ctx 1) \<and>
           (steam \<noteq> [] \<longrightarrow> sl_steamId r = steam)) (db_locks d)\<rparr>) p))"

section \<open>Presets\<close>

definition preset_json :: "env \<Rightarrow> preset_row \<Rightarrow> json" where
  "preset_json e r = JObj [(''id'', JStr (to_string (pp_id r))), (''name'', JStr (pp_name r)),
     (''config'', case e_parse e (pp_config r) of Some j \<Rightarrow> j | None \<Rightarrow> JStr (pp_config r)), (''createdAt'', JStr (datetime_text (pp_createdAt r)))]"

definition get_presets :: "env \<Rightarrow> handler" where
  "get_presets e ctx p = answer p [(''presets'', JArr (map (preset_json e) (order_desc pp_id
     (t_select (\<lambda>r. Some (pp_userId r) = int_key (cx_userId ctx)) (db_presets (pn_db p))))))]"

text \<open>\<open>ctx.body.contains("config") ? ctx.body["config"].dump() : "{}"\<close>.\<close>

definition config_text :: "env \<Rightarrow> Context \<Rightarrow> string" where
  "config_text e ctx = (case j_lookup (cx_body ctx) ''config'' of None \<Rightarrow> ''{}'' | Some j \<Rightarrow> e_dump e j)"

definition preset_insert :: "time \<Rightarrow> int option \<Rightarrow> string \<Rightarrow> string \<Rightarrow> database \<Rightarrow> database" where
  "preset_insert now uid name config d =
     (case uid of None \<Rightarrow> d | Some u \<Rightarrow>
        if \<not> user_exists d u then d
        else d\<lparr>db_presets := t_insert (\<lambda>i. \<lparr>pp_id = i, pp_userId = u, pp_name = name, pp_config = config, pp_createdAt = now\<rparr>) (db_presets d)\<rparr>)"

definition post_presets :: "env \<Rightarrow> int \<Rightarrow> handler" where
  "post_presets e lastId ctx p =
     (let name = body_str e ctx ''name'';
          p1 = pn_exec (preset_insert (e_now e) (int_key (cx_userId ctx)) name (config_text e ctx)) p
      in if name = [] then db_error ''name required'' p
         else answer p1 [(''id'', JInt (inserted_id db_presets lastId (pn_db p) (pn_db p1))), (''message'', JStr ''Preset created'')])"

definition own_preset :: "Context \<Rightarrow> database \<Rightarrow> preset_row option" where
  "own_preset ctx d = t_first (\<lambda>r. Some (pp_id r) = int_key (ctx_param ctx 1) \<and> Some (pp_userId r) = int_key (cx_userId ctx)) (db_presets d)"

definition put_preset :: "env \<Rightarrow> handler" where
  "put_preset e ctx p =
     (let name = body_str e ctx ''name''
      in if own_preset ctx (pn_db p) = None then Some (p, ctx_error ''Not found'' 404)
         else if name = [] then db_error ''name required'' p
         else Some (pn_exec (\<lambda>d. d\<lparr>db_presets := t_update (\<lambda>r. Some (pp_id r) = int_key (ctx_param ctx 1))
                (\<lambda>r. r\<lparr>pp_name := name, pp_config := config_text e ctx\<rparr>) (db_presets d)\<rparr>) p, message ''Preset updated''))"

definition del_preset :: handler where
  "del_preset ctx p =
     (if own_preset ctx (pn_db p) = None then Some (p, ctx_error ''Not found'' 404)
      else Some (pn_exec (\<lambda>d. d\<lparr>db_presets := t_delete (\<lambda>r. Some (pp_id r) = int_key (ctx_param ctx 1)) (db_presets d)\<rparr>) p,
             message ''Preset deleted''))"

section \<open>Checks\<close>

text \<open>The code is built from a null pointer when the setting is missing, which throws.\<close>

definition get_register_status :: handler where
  "get_register_status ctx p =
     (case db_settings (pn_db p) ''relay_register_code'' of
        None \<Rightarrow> throws p
      | Some v \<Rightarrow> answer p [(''code'', JStr v), (''used'', JBool False)])"

definition check_json :: "string \<Rightarrow> string \<Rightarrow> (string \<times> json) list \<Rightarrow> json" where
  "check_json plugin status details = JObj [(''plugin'', JStr plugin), (''status'', JStr status), (''details'', JObj details)]"

text \<open>A check whose count does not fit an \<open>int\<close> is left out.\<close>

definition plugin_checks :: "database \<Rightarrow> json list" where
  "plugin_checks d =
     (let logs = (\<lambda>kws. count_of (t_select (\<lambda>l. list_ex (\<lambda>kw. like_any kw (pl_reason l)) kws) (db_point_logs d)));
          opt = (\<lambda>x. case x of None \<Rightarrow> [] | Some j \<Rightarrow> [j]);
          kp = (case (count_of (t_rows (db_kills d)), logs [[CHR 0xE5, CHR 0x87, CHR 0xBB, CHR 0xE6, CHR 0x9D, CHR 0x80], [CHR 0xE9, CHR 0x98, CHR 0xB5, CHR 0xE4, CHR 0xBA, CHR 0xA1]]) of
                  (Some k, Some l) \<Rightarrow> Some (check_json ''kill-points'' (if 0 < k then if 0 < l then ''ok'' else ''data_partial'' else ''no_data'')
                     [(''killRecords'', JInt k), (''pointLogs'', JInt l)])
                | _ \<Rightarrow> None);
          sign = (db_settings d ''sign_in_cooldown'' \<noteq> None);
          cc = (case count_of (t_rows (db_chat_logs d)) of None \<Rightarrow> None
                | Some n \<Rightarrow> Some (check_json ''chat-commands'' (if sign then ''ok'' else ''config_missing'')
                     [(''chatRecords'', JInt n), (''signInConfigured'', JBool sign)]));
          rp = (case logs [[CHR 0xE6, CHR 0x95, CHR 0x91, CHR 0xE6, CHR 0x8F, CHR 0xB4]] of None \<Rightarrow> None
                | Some n \<Rightarrow> Some (check_json ''revive-points'' (if 0 < n then ''ok'' else ''no_data'') [(''revivePointLogs'', JInt n)]));
          en = (db_settings d ''tk_forgive_enabled'' \<noteq> None);
          tk = (case count_of (t_rows (db_tk d)) of None \<Rightarrow> None
                | Some n \<Rightarrow> Some (check_json ''tk-forgive'' (if en then ''ok'' else ''config_missing'')
                     [(''tkRecords'', JInt n), (''enabled'', JBool en)]));
          ps = (case count_of (t_rows (db_players d)) of None \<Rightarrow> None
                | Some n \<Rightarrow> Some (check_json ''player-sync'' (if 0 < n then ''ok'' else ''no_data'') [(''playerRecords'', JInt n)]))
      in concat (map opt [kp, cc, rp, tk, ps]))"

definition get_plugin_checks :: handler where
  "get_plugin_checks ctx p =
     (if cx_role ctx \<noteq> ''server_owner'' then Some (p, ctx_error ''Admin only'' 403)
      else answer p [(''checks'', JArr (plugin_checks (pn_db p)))])"

section \<open>Player database\<close>

text \<open>One entry for every Steam id: the name of its latest row, first and last time seen over all servers, the sum
  of the balances and the kills stored under the id.\<close>

record player_entry =
  pe_steamId :: string
  pe_name :: string
  pe_firstSeen :: time
  pe_lastSeen :: time
  pe_balance :: int
  pe_kills :: nat

definition player_entry :: "database \<Rightarrow> string \<Rightarrow> player_entry" where
  "player_entry d steam =
     (let rs = t_select (\<lambda>r. pr_steamId r = steam) (db_players d)
      in \<lparr>pe_steamId = steam, pe_name = pr_name (hd (order_desc pr_lastSeen rs)), pe_firstSeen = Min (pr_firstSeen ` set rs),
          pe_lastSeen = Max (pr_lastSeen ` set rs),
          pe_balance = sum_list (map p_balance (t_select (\<lambda>r. p_steamId r = steam) (db_points d))),
          pe_kills = length (t_select (\<lambda>r. k_killer r = steam) (db_kills d))\<rparr>)"

definition player_entries :: "database \<Rightarrow> player_entry list" where
  "player_entries d = order_desc pe_lastSeen (map (player_entry d) (sort (remdups (map pr_steamId (t_rows (db_players d))))))"

definition player_entry_json :: "player_entry \<Rightarrow> json" where
  "player_entry_json r = text_obj [(''steamId'', pe_steamId r), (''name'', pe_name r), (''firstSeen'', datetime_text (pe_firstSeen r)),
     (''lastSeen'', datetime_text (pe_lastSeen r)), (''totalBalance'', to_string (pe_balance r)), (''totalKills'', to_string (int (pe_kills r)))]"

text \<open>A keyword names a column the counting statement does not have.\<close>

definition get_player_database :: handler where
  "get_player_database ctx p =
     (case (stoi (ctx_query ctx ''page'' ''1''), stoi (ctx_query ctx ''page_size'' ''20'')) of
        (Inr page, Inr size0) \<Rightarrow>
          let sz = min 100 size0; off = wrap32 (wrap32 (page - 1) * sz); es = player_entries (pn_db p)
          in if ctx_query ctx ''keyword'' [] \<noteq> [] then throws p
             else (case count_of es of
               None \<Rightarrow> throws p
             | Some cnt \<Rightarrow>
                 (case cdiv (wrap32 (wrap32 (cnt + sz) - 1)) sz of
                    None \<Rightarrow> None
                  | Some pages \<Rightarrow> answer p [(''data'', JArr (map player_entry_json (sql_limit sz off es))), (''page'', JInt page),
                      (''total'', JInt cnt), (''total_pages'', JInt (wrap32 pages))]))
      | _ \<Rightarrow> throws p)"

section \<open>Online chart\<close>

text \<open>\<open>datetime('now', '-n months')\<close>: the month is moved, a day past its end runs over into the next.\<close>

definition days_of :: "int \<Rightarrow> int \<Rightarrow> int \<Rightarrow> int" where
  "days_of y m day =
     (let y' = (if m \<le> 2 then y - 1 else y); era = y' div 400; yoe = y' mod 400;
          doy = (153 * (if m > 2 then m - 3 else m + 9) + 2) div 5
      in era * 146097 + (yoe * 365 + yoe div 4 - yoe div 100 + doy) - 719468 + (day - 1))"

definition minus_months :: "int \<Rightarrow> time \<Rightarrow> time" where
  "minus_months n t =
     (let (y, m, day) = civil (t div 86400); k = y * 12 + (m - 1) - n
      in days_of (k div 12) (k mod 12 + 1) day * 86400 + t mod 86400)"

text \<open>Start of the range, and the characters of the time that name a bucket.\<close>

definition chart_range :: "string \<Rightarrow> time \<Rightarrow> time \<times> nat" where
  "chart_range rng now =
     (if rng = ''3d'' then (now - 3 * 86400, 13)
      else if rng = ''7d'' then (now - 7 * 86400, 10)
      else if rng = ''15d'' then (now - 15 * 86400, 10)
      else if rng = ''30d'' then (now - 30 * 86400, 10)
      else if rng = ''6m'' then (minus_months 6 now, 7)
      else if rng = ''1y'' then (minus_months 12 now, 7)
      else (now - 24 * 3600, 13))"

definition bucket_events :: "string list \<Rightarrow> time \<Rightarrow> nat \<Rightarrow> database \<Rightarrow> string list" where
  "bucket_events tys since k d =
     map (\<lambda>r. take k (datetime_text (e_timestamp r))) (t_select (\<lambda>r. e_eventType r \<in> set tys \<and> since \<le> e_timestamp r) (db_events d))"

definition get_online_chart :: "env \<Rightarrow> handler" where
  "get_online_chart e ctx p =
     (let rng = ctx_query ctx ''range'' ''1d''; (start, k) = chart_range rng (e_now e);
          joins = bucket_events [''join''] start k (pn_db p); discs = bucket_events [''disconnect'', ''leave''] start k (pn_db p);
          keys = sort (remdups (joins @ discs)); number = (\<lambda>bs b. int (count_list bs b))
      in if list_ex (\<lambda>b. \<not> in_int (number joins b) \<or> \<not> in_int (number discs b)) keys then throws p
         else answer p [(''labels'', JArr (map JStr keys)), (''joins'', JArr (map (\<lambda>b. JInt (number joins b)) keys)),
                (''disconnects'', JArr (map (\<lambda>b. JInt (number discs b)) keys)), (''range'', JStr rng)])"

end
