(* ===== verification/ListProps.thy ===== *)
theory ListProps
  imports ListRoutes ModerationProps
begin

text \<open>
  Properties of the lists: the pages of a table are its filtered rows, when a list answers at all, the grouping
  of claims by team, whose presets a user can touch, and what the bars of the online chart count.
\<close>

section \<open>Pages\<close>

definition list_ctx :: "string \<Rightarrow> int \<Rightarrow> (string \<times> string) list \<Rightarrow> Context" where
  "list_ctx sz k kvs = \<lparr>cx_req = \<lparr>rq_method = ''GET'', rq_headers = [],
     rq_params = [(''page'', to_string k), (''page_size'', sz)] @ kvs, rq_matches = [], rq_body = []\<rparr>, cx_body = JNull, cx_userId = [],
     cx_username = [], cx_role = [], cx_authenticated = False\<rparr>"

lemma list_ctx_query [simp]:
  "ctx_query (list_ctx sz k kvs) ''page'' d = to_string k" "ctx_query (list_ctx sz k kvs) ''page_size'' d = sz"
  "key \<noteq> ''page'' \<Longrightarrow> key \<noteq> ''page_size'' \<Longrightarrow> ctx_query (list_ctx sz k kvs) key d = (case map_of kvs key of None \<Rightarrow> d | Some v \<Rightarrow> v)"
  by (simp_all add: ctx_query_def list_ctx_def)

definition table_page :: "string \<Rightarrow> 'r source \<Rightarrow> string \<Rightarrow> (string \<times> string) list \<Rightarrow> int \<Rightarrow> panel \<Rightarrow> response" where
  "table_page table s sz kvs k p = snd (the (paginatedQuery table s (list_ctx sz k kvs) p))"

definition table_hits :: "'r source \<Rightarrow> (string \<times> string) list \<Rightarrow> 'r list" where
  "table_hits s kvs = order_desc (so_id s) (filter (source_match s (list_ctx [] 1 kvs)) (so_rows s))"

lemma source_match_list_ctx: "source_match s (list_ctx sz k kvs) = source_match s (list_ctx [] 1 kvs)"
  by (rule ext) (simp add: source_match_def)

text \<open>Reading the pages of a list one after the other gives the list, whatever the list.\<close>

lemma pages_read:
  assumes n: "1 \<le> n" and cnt: "int (length rs) < 2147483000" "n \<le> 100"
    and page: "\<And>k. 1 \<le> k \<Longrightarrow> in_int k \<Longrightarrow> in_int ((k - 1) * n) \<Longrightarrow>
      data_of (f k) = map js (sql_limit n ((k - 1) * n) rs) \<and> pages_of (f k) = (int (length rs) + n - 1) div n"
  shows "concat (map (\<lambda>k. data_of (f (int k + 1))) [0..<nat (pages_of (f 1))]) = map js rs"
proof -
  let ?k = "(int (length rs) + n - 1) div n"
  have pages: "pages_of (f 1) = ?k" using page [of 1] by (simp add: in_int_def)
  have "?k * n = int (length rs) + n - 1 - (int (length rs) + n - 1) mod n" by (simp add: minus_mod_eq_div_mult)
  moreover have "(int (length rs) + n - 1) mod n < n" "0 \<le> (int (length rs) + n - 1) mod n" using n by simp_all
  ultimately have kn: "?k * n \<le> int (length rs) + n - 1" "int (length rs) \<le> ?k * n" by linarith+
  have k0: "0 \<le> ?k" using n by (intro div_int_pos_iff [THEN iffD2]) auto
  then have le: "?k \<le> ?k * n" using n by (simp add: mult_le_cancel_left1)
  have data: "data_of (f (int k + 1)) = map js (sql_limit n (int k * n) rs)" if "k < nat ?k" for k
  proof -
    have "int k < ?k" using that by simp
    then have "int k * n \<le> ?k * n" using n by (intro mult_right_mono) auto
    moreover have "0 \<le> int k * n" using n by simp
    ultimately show ?thesis using page [of "int k + 1"] \<open>int k < ?k\<close> kn(1) le cnt by (simp add: in_int_def)
  qed
  have "concat (map (\<lambda>k. data_of (f (int k + 1))) [0..<nat ?k]) = concat (map (map js) (map (\<lambda>k. sql_limit n (int k * n) rs) [0..<nat ?k]))"
    unfolding map_map comp_def by (intro arg_cong [of _ _ concat] map_cong refl data) simp
  also have "\<dots> = map js (concat (map (\<lambda>k. sql_limit n (int k * n) rs) [0..<nat ?k]))"
    by (simp only: map_concat)
  also have "concat (map (\<lambda>k. sql_limit n (int k * n) rs) [0..<nat ?k]) = rs"
    using n kn(2) k0 by (intro pages_all) simp_all
  finally show ?thesis by (simp add: pages)
qed

lemma table_page_data:
  assumes "isValidTable table" "stoi sz = Inr n" "1 \<le> n" "n \<le> 100" "int (length (so_rows s)) < 2147483000"
    and "so_type s = None \<Longrightarrow> ctx_query (list_ctx [] 1 kvs) ''type'' [] \<notin> {''join'', ''leave''}"
    and "1 \<le> k" "in_int k" "in_int ((k - 1) * n)"
  shows "data_of (table_page table s sz kvs k p) = map (so_json s) (sql_limit n ((k - 1) * n) (table_hits s kvs))
    \<and> pages_of (table_page table s sz kvs k p) = (int (length (table_hits s kvs)) + n - 1) div n"
proof -
  let ?hits = "filter (source_match s (list_ctx [] 1 kvs)) (so_rows s)"
  have le: "int (length ?hits) < 2147483000"
    using assms(5) length_filter_le [of "source_match s (list_ctx [] 1 kvs)" "so_rows s"] by linarith
  have c: "count_of ?hits = Some (int (length ?hits))" using le unfolding count_of_def in_int_def by simp
  have w: "wrap32 (int (length ?hits) + n - 1) = int (length ?hits) + n - 1"
    using le assms(3,4) by (intro wrap32_id) (simp add: in_int_def)
  have st: "stoi (to_string k) = Inr k" "min 100 n = n" "\<not> k < 1" "\<not> n < 1" using assms by simp_all
  show ?thesis
    using assms(1,2,6,9)
    by (auto simp: table_page_def paginatedQuery_def Let_def source_match_list_ctx [of s sz k] c w st data_of_def pages_of_def
        table_hits_def ctx_json_def)
qed


definition revives_db :: database where
  "revives_db = empty_db\<lparr>db_revives := t_insert (\<lambda>i. \<lparr>r_id = i, r_serverId = 1, r_reviverSteamId = ''p'', r_reviverName = ''Bobby'',
     r_revivedSteamId = ''q'', r_revivedName = ''Q'', r_timestamp = 0\<rparr>) (t_insert (\<lambda>i. \<lparr>r_id = i, r_serverId = 1, r_reviverSteamId = ''p'',
     r_reviverName = ''Al'', r_revivedSteamId = ''q'', r_revivedName = ''Q'', r_timestamp = 0\<rparr>) t_empty)\<rparr>"


section \<open>When a list answers\<close>

text \<open>The chat list ends the process exactly when the page size is given as zero.\<close>
theorem chat_traps:
  "get_chat ctx p = None \<longleftrightarrow> safeStoi (ctx_query ctx ''page_size'' ''50'') 50 = 0"
  by (simp add: get_chat_def Let_def cdiv_def)

section \<open>Claims by team\<close>

lemma add_claim_lookup: "map_of (add_claim t j kvs) u = (if u = t then Some ((case map_of kvs t of None \<Rightarrow> [] | Some js \<Rightarrow> js) @ [j]) else map_of kvs u)"
  by (induction t j kvs rule: add_claim.induct) auto

lemma add_claim_keys: "map fst (add_claim t j kvs) = (if t \<in> fst ` set kvs then map fst kvs else map fst kvs @ [t])"
  by (induction t j kvs rule: add_claim.induct) auto

lemma claims_loop:
  "map_of (fold (\<lambda>r. add_claim (f r) (g r)) rows kvs) t =
     (if (\<exists>r\<in>set rows. f r = t) \<or> map_of kvs t \<noteq> None
      then Some ((case map_of kvs t of None \<Rightarrow> [] | Some js \<Rightarrow> js) @ map g (filter (\<lambda>r. f r = t) rows)) else None)"
  by (induction rows arbitrary: kvs) (auto simp: add_claim_lookup split: option.splits)

lemma claims_keys: "distinct (map fst kvs) \<Longrightarrow> distinct (map fst (fold (\<lambda>r. add_claim (f r) (g r)) rows kvs))"
  by (induction rows arbitrary: kvs) (auto simp: add_claim_keys)

text \<open>The object of the claims has every team that claimed a squad once, with exactly that team's claims in
  order of time.\<close>
theorem claims_grouped:
  "distinct (map fst (claims_by_team rows))
   \<and> map_of (claims_by_team rows) t =
       (if t \<in> team_of_claim ` set rows then Some (map claim_row_json (filter (\<lambda>r. team_of_claim r = t) rows)) else None)"
  unfolding claims_by_team_def by (auto simp: claims_loop claims_keys image_iff)

section \<open>Presets\<close>

lemma filter_update_other:
  assumes "\<And>x. x \<in> set xs \<Longrightarrow> Q x \<Longrightarrow> \<not> P x" "\<And>x. Q (f x) = Q x"
  shows "filter Q (map (\<lambda>x. if P x then f x else x) xs) = filter Q xs"
  using assms(1) by (induction xs) (auto simp: assms(2))

datatype preset_route = Create | Change | Remove

definition preset_route :: "preset_route \<Rightarrow> env \<Rightarrow> int \<Rightarrow> handler" where
  "preset_route r e lastId = (case r of Create \<Rightarrow> post_presets e lastId | Change \<Rightarrow> put_preset e | Remove \<Rightarrow> del_preset)"

definition presets_of :: "int \<Rightarrow> database \<Rightarrow> preset_row list" where
  "presets_of uid d = filter (\<lambda>r. pp_userId r = uid) (t_rows (db_presets d))"

text \<open>No preset route changes a preset of another user than the one logged in.\<close>
theorem presets_private:
  assumes "preset_route r e lastId ctx p = Some (p', resp)" "ids_ok pp_id (db_presets (pn_db p))"
    and "int_key (cx_userId ctx) \<noteq> Some uid"
  shows "presets_of uid (pn_db p') = presets_of uid (pn_db p)"
proof (cases r)
  case Create
  then show ?thesis using assms(1,3)
    by (auto simp: preset_route_def post_presets_def Let_def preset_insert_def presets_of_def split: if_splits option.splits)
next
  case other: Change
  show ?thesis
  proof (cases "own_preset ctx (pn_db p)")
    case (Some r0)
    have r0: "r0 \<in> set (t_rows (db_presets (pn_db p)))" "Some (pp_id r0) = int_key (ctx_param ctx 1)" "Some (pp_userId r0) = int_key (cx_userId ctx)"
      using t_first_Some [OF Some [unfolded own_preset_def]] by auto
    have "pp_id x \<noteq> pp_id r0" if "x \<in> set (t_rows (db_presets (pn_db p)))" "pp_userId x = uid" for x
      using ids_ok_unique [OF assms(2) that(1) r0(1)] that(2) r0(3) assms(3) by auto
    then show ?thesis using assms(1) other Some r0(2) [symmetric]
      by (auto simp: preset_route_def put_preset_def Let_def presets_of_def split: if_splits intro!: filter_update_other)
  qed (use assms(1) other in \<open>auto simp: preset_route_def put_preset_def Let_def\<close>)
next
  case other: Remove
  show ?thesis
  proof (cases "own_preset ctx (pn_db p)")
    case (Some r0)
    have r0: "r0 \<in> set (t_rows (db_presets (pn_db p)))" "Some (pp_id r0) = int_key (ctx_param ctx 1)" "Some (pp_userId r0) = int_key (cx_userId ctx)"
      using t_first_Some [OF Some [unfolded own_preset_def]] by auto
    have "pp_id x \<noteq> pp_id r0" if "x \<in> set (t_rows (db_presets (pn_db p)))" "pp_userId x = uid" for x
      using ids_ok_unique [OF assms(2) that(1) r0(1)] that(2) r0(3) assms(3) by auto
    then show ?thesis using assms(1) other Some r0(2) [symmetric]
      by (clarsimp simp: preset_route_def del_preset_def presets_of_def) (auto intro!: filter_cong)
  qed (use assms(1) other in \<open>auto simp: preset_route_def del_preset_def\<close>)
qed

definition presets_db :: database where
  "presets_db = (owner_db ''h'')\<lparr>db_presets := t_insert (\<lambda>i. \<lparr>pp_id = i, pp_userId = 2, pp_name = ''n'', pp_config = ''{}'', pp_createdAt = 0\<rparr>) t_empty\<rparr>"

theorem presets_private_witness:
  "\<exists>p' r. preset_route Create (demo_env 0) 0 (as_owner [] [(''name'', JStr ''mine'')]) (route_panel presets_db) = Some (p', r)
     \<and> presets_of 2 (pn_db p') = presets_of 2 presets_db \<and> length (t_rows (db_presets (pn_db p'))) = 2"
proof -
  let ?c = "as_owner [] [(''name'', JStr ''mine'')]"
  have u: "user_exists presets_db 1" by (simp add: user_exists_def presets_db_def)
  have "\<exists>p' r. preset_route Create (demo_env 0) 0 ?c (route_panel presets_db) = Some (p', r) \<and> length (t_rows (db_presets (pn_db p'))) = 2"
    using u by (simp add: preset_route_def post_presets_def Let_def jsonStr_def preset_insert_def text_one) (simp add: presets_db_def t_empty_def)
  then obtain p' r where k: "preset_route Create (demo_env 0) 0 ?c (route_panel presets_db) = Some (p', r)" "length (t_rows (db_presets (pn_db p'))) = 2"
    by (elim exE conjE)
  have "ids_ok pp_id (db_presets presets_db)" by (simp add: ids_ok_def presets_db_def t_insert_def t_empty_def)
  then show ?thesis using presets_private [OF k(1), of 2] k by (simp add: text_one)
qed

section \<open>The online chart\<close>

lemma sum_counts:
  assumes "set bs \<subseteq> set ks" "distinct ks"
  shows "sum_list (map (count_list bs) ks) = length bs"
proof -
  have "sum_list (map (count_list bs) ks) = (\<Sum>k\<in>set ks. count_list bs k)"
    using assms(2) by (simp add: sum_list_distinct_conv_sum_set)
  also have "\<dots> = (\<Sum>k\<in>set bs. count_list bs k)"
    using assms(1) by (intro sum.mono_neutral_right) (auto simp: count_notin)
  also have "\<dots> = length bs" by (rule sum_count_set) simp_all
  finally show ?thesis .
qed

definition bars :: "response \<Rightarrow> string \<Rightarrow> int list" where
  "bars r k = (case j_lookup (re_body r) k of Some (JArr js) \<Rightarrow> map (\<lambda>j. case j of JInt n \<Rightarrow> n | _ \<Rightarrow> 0) js | _ \<Rightarrow> [])"

text \<open>The bars of the online chart count every join, and every leave or disconnect, of the range exactly once.\<close>
theorem chart_counts:
  assumes "get_online_chart e ctx p = Some (p', r)" "re_status r = 200"
  shows "sum_list (bars r ''joins'') = int (length (t_select (\<lambda>v. e_eventType v = ''join''
      \<and> fst (chart_range (ctx_query ctx ''range'' ''1d'') (e_now e)) \<le> e_timestamp v) (db_events (pn_db p))))
    \<and> sum_list (bars r ''disconnects'') = int (length (t_select (\<lambda>v. e_eventType v \<in> {''disconnect'', ''leave''}
      \<and> fst (chart_range (ctx_query ctx ''range'' ''1d'') (e_now e)) \<le> e_timestamp v) (db_events (pn_db p))))"
proof -
  obtain start k where sk: "chart_range (ctx_query ctx ''range'' ''1d'') (e_now e) = (start, k)" by fastforce
  define js where "js = bucket_events [''join''] start k (pn_db p)"
  define ds where "ds = bucket_events [''disconnect'', ''leave''] start k (pn_db p)"
  let ?ks = "sort (remdups (js @ ds))"
  have b: "bars r ''joins'' = map (\<lambda>b. int (count_list js b)) ?ks" "bars r ''disconnects'' = map (\<lambda>b. int (count_list ds b)) ?ks"
    using assms by (auto simp: get_online_chart_def Let_def sk js_def ds_def bars_def comp_def split: if_splits)
  have int_sum: "sum_list (map (\<lambda>b. int (f b)) ks) = int (sum_list (map f ks))" for f :: "string \<Rightarrow> nat" and ks
    by (induction ks) simp_all
  have "sum_list (map (count_list js) ?ks) = length js" "sum_list (map (count_list ds) ?ks) = length ds"
    by (rule sum_counts; auto)+
  then show ?thesis by (simp add: b int_sum js_def ds_def bucket_events_def sk)
qed

definition joins_db :: database where
  "joins_db = empty_db\<lparr>db_events := t_insert (\<lambda>i. \<lparr>e_id = i, e_serverId = 1, e_steamId = ''p'', e_playerName = ''n'', e_eventType = ''join'',
     e_timestamp = 1000000\<rparr>) t_empty\<rparr>"

theorem chart_counts_witness:
  "\<exists>p' r. get_online_chart (demo_env 1000100) (list_ctx [] 1 []) (route_panel joins_db) = Some (p', r)
     \<and> sum_list (bars r ''joins'') = 1 \<and> sum_list (bars r ''disconnects'') = 0"
proof -
  have rows: "t_rows (db_events joins_db) = [\<lparr>e_id = 1, e_serverId = 1, e_steamId = ''p'', e_playerName = ''n'', e_eventType = ''join'', e_timestamp = 1000000\<rparr>]"
    by (simp add: joins_db_def t_empty_def)
  have "\<exists>p' r. get_online_chart (demo_env 1000100) (list_ctx [] 1 []) (route_panel joins_db) = Some (p', r) \<and> re_status r = 200"
    by (simp add: get_online_chart_def Let_def chart_range_def bucket_events_def t_select_def rows in_int_def)
  then obtain p' r where k: "get_online_chart (demo_env 1000100) (list_ctx [] 1 []) (route_panel joins_db) = Some (p', r)" "re_status r = 200"
    by (elim exE conjE)
  from chart_counts [OF k] k(1) show ?thesis by (simp add: chart_range_def t_select_def rows)
qed

end
