(* ===== verification/SettingsRoutes.thy ===== *)
theory SettingsRoutes
  imports ServerRoutes ModerationRoutes
begin

text \<open>
  Settings and plugins: handlers/config_handler.cpp, plugin_handler.cpp, the broadcasts and operator log of
  extras_routes.cpp, and missing_routes.cpp - operators, who is online, the event log, plugin settings and
  upload, chat commands, the check of a relay and the proxy to the external API. Files, directories, the
  compiler and remote servers are arguments.
\<close>

section \<open>Settings\<close>

text \<open>The rows of \<open>settings\<close>, one per key.\<close>

definition settings_list :: "database \<Rightarrow> (string \<times> string) list" where
  "settings_list d = map (\<lambda>k. (k, the (db_settings d k))) (sorted_list_of_set (dom (db_settings d)))"

definition parsed_json :: "env \<Rightarrow> string \<Rightarrow> json" where
  "parsed_json e v = (case e_parse e v of Some j \<Rightarrow> j | None \<Rightarrow> JStr v)"

text \<open>An object no member was assigned to is \<open>null\<close>.\<close>

definition get_config :: "env \<Rightarrow> handler" where
  "get_config e ctx p =
     (let kvs = settings_list (pn_db p)
      in answer p [(''config'', if kvs = [] then JNull else JObj (map (\<lambda>(k, v). (k, parsed_json e v)) kvs))])"

text \<open>\<open>items()\<close>: an array is walked by its indices, a primitive value has the empty key.\<close>

fun json_items :: "json \<Rightarrow> (string \<times> json) list" where
  "json_items (JObj kvs) = kvs"
| "json_items (JArr js) = map (\<lambda>i. (to_string (int i), js ! i)) [0..<length js]"
| "json_items JNull = []"
| "json_items j = [([], j)]"

definition post_config :: "env \<Rightarrow> handler" where
  "post_config e ctx p =
     Some (pn_exec (fold (\<lambda>(k, v). setting_put k (e_dump e v)) (json_items (cx_body ctx))) p, message ''Saved'')"

text \<open>The key of a game server, in the header or the query.\<close>

definition request_key :: "Context \<Rightarrow> string" where
  "request_key ctx =
     (let h = header (cx_req ctx) ''X-API-Key'' in if h = [] then ctx_query ctx ''apiKey'' [] else h)"

definition key_required :: "Context \<Rightarrow> panel \<Rightarrow> (panel \<times> response) option \<Rightarrow> (panel \<times> response) option" where
  "key_required ctx p k =
     (if request_key ctx = [] then Some (p, ctx_error ''API key required'' 401)
      else if t_first (\<lambda>s. sv_serverApiKey s = Some (request_key ctx)) (db_servers (pn_db p)) = None
      then Some (p, ctx_error ''Invalid API key'' 401)
      else k)"

definition setting_text :: "env \<Rightarrow> database \<Rightarrow> string \<Rightarrow> string \<Rightarrow> string" where
  "setting_text e d key fallback = (case db_settings d key of None \<Rightarrow> fallback | Some v \<Rightarrow> parsed_text e v)"

definition get_tb_code :: "env \<Rightarrow> handler" where
  "get_tb_code e ctx p = key_required ctx p
     (answer p [(''tb_code'', JStr (parsed_text e (case db_settings (pn_db p) ''tb_code'' of None \<Rightarrow> ''tb'' | Some v \<Rightarrow> v)))])"

definition get_plugin_keys :: "env \<Rightarrow> handler" where
  "get_plugin_keys e ctx p = key_required ctx p
     (answer p [(''redeem_code'', JStr (setting_text e (pn_db p) ''redeem_code'' ''duihuan'')),
        (''tb_code'', JStr (setting_text e (pn_db p) ''tb_code'' ''tb''))])"

definition get_health :: handler where
  "get_health ctx p = answer p [(''status'', JStr ''ok''), (''version'', JStr ''1.0.0-cpp'')]"

section \<open>The panel's log file\<close>

text \<open>\<open>while (pos < sv.size())\<close>: the text up to each line feed, the rest when it is not empty.\<close>

definition max_read :: nat where
  "max_read = 100 * 1024"

definition tail_text :: "string \<Rightarrow> string" where
  "tail_text f =
     (if length f \<le> max_read then f
      else
        let b = drop (length f - max_read) f
        in case str_find [CHR 0x0A] b of None \<Rightarrow> b | Some i \<Rightarrow> drop (i + 1) b)"

definition log_tail :: "string \<Rightarrow> string list" where
  "log_tail f =
     (let ls = filter (\<lambda>l. l \<noteq> []) (map strip_cr (getlines (CHR 0x0A) (tail_text f)))
      in drop (length ls - 200) ls)"

definition get_logs :: "string option \<Rightarrow> handler" where
  "get_logs file ctx p = answer p [(''logs'', JArr (case file of None \<Rightarrow> [] | Some f \<Rightarrow> map JStr (log_tail f)))]"

section \<open>Plugins of a user\<close>

definition plugin_row_json :: "plugin_row \<Rightarrow> json" where
  "plugin_row_json r = text_obj [(''id'', to_string (pg_id r)), (''userId'', to_string (pg_userId r)),
     (''serverId'', case pg_serverId r of None \<Rightarrow> [] | Some s \<Rightarrow> to_string s), (''name'', pg_name r), (''version'', pg_version r),
     (''enabled'', to_string (pg_enabled r)), (''config'', pg_config r), (''installedAt'', datetime_text (pg_installedAt r))]"

definition get_plugins :: handler where
  "get_plugins ctx p = answer p [(''plugins'', JArr (map plugin_row_json (take 100 (order_desc pg_id
     (t_select (\<lambda>r. Some (pg_userId r) = int_key (cx_userId ctx)) (db_plugins (pn_db p)))))))]"

text \<open>Both foreign keys must hold; the text of a missing server id is the empty text, not NULL.\<close>

definition plugin_insert :: "time \<Rightarrow> int option \<Rightarrow> int option \<Rightarrow> string \<Rightarrow> string \<Rightarrow> string \<Rightarrow> database \<Rightarrow> database" where
  "plugin_insert now uid sid name version config d =
     (case (uid, sid) of
        (Some u, Some s) \<Rightarrow>
          if user_exists d u \<and> server_exists d s
          then d\<lparr>db_plugins := t_insert (\<lambda>i. \<lparr>pg_id = i, pg_userId = u, pg_serverId = Some s, pg_name = name, pg_version = version,
                 pg_enabled = 1, pg_config = config, pg_installedAt = now\<rparr>) (db_plugins d)\<rparr>
          else d
      | _ \<Rightarrow> d)"

definition post_plugins :: "env \<Rightarrow> int \<Rightarrow> handler" where
  "post_plugins e lastId ctx p =
     (let name = body_str e ctx ''name'';
          p1 = pn_exec (plugin_insert (e_now e) (int_key (cx_userId ctx)) (int_key (body_str e ctx ''serverId'')) name
                 (jsonStr (e_dump e) (cx_body ctx) ''version'' ''1.0'') (jsonStr (e_dump e) (cx_body ctx) ''config'' ''{}'')) p
      in if name = [] then db_error ''name required'' p
         else answer p1 [(''id'', JInt (inserted_id db_plugins lastId (pn_db p) (pn_db p1)))])"

definition own_plugin :: "Context \<Rightarrow> plugin_row \<Rightarrow> bool" where
  "own_plugin ctx r = (Some (pg_id r) = int_key (ctx_param ctx 1) \<and> Some (pg_userId r) = int_key (cx_userId ctx))"

definition plugins_update :: "(plugin_row \<Rightarrow> bool) \<Rightarrow> (plugin_row \<Rightarrow> plugin_row) \<Rightarrow> database \<Rightarrow> database" where
  "plugins_update P f d = d\<lparr>db_plugins := t_update P f (db_plugins d)\<rparr>"

text \<open>\<open>enabled\<close> that is not a boolean throws before anything is stored.\<close>

definition put_plugin :: "env \<Rightarrow> handler" where
  "put_plugin e ctx p =
     (if t_first (own_plugin ctx) (db_plugins (pn_db p)) = None then Some (p, ctx_error ''Not found'' 404)
      else
        let configured = (case j_lookup (cx_body ctx) ''config'' of None \<Rightarrow> id
              | Some j \<Rightarrow> pn_exec (plugins_update (own_plugin ctx) (\<lambda>r. r\<lparr>pg_config := e_dump e j\<rparr>)))
        in (case j_lookup (cx_body ctx) ''enabled'' of
              None \<Rightarrow> Some (configured p, message ''Updated'')
            | Some (JBool b) \<Rightarrow> Some (configured (pn_exec (plugins_update (\<lambda>r. Some (pg_id r) = int_key (ctx_param ctx 1))
                  (\<lambda>r. r\<lparr>pg_enabled := if b then 1 else 0\<rparr>)) p), message ''Updated'')
            | Some _ \<Rightarrow> Some (p, server_error)))"

definition del_plugin :: handler where
  "del_plugin ctx p = Some (pn_exec (\<lambda>d. d\<lparr>db_plugins := t_delete (own_plugin ctx) (db_plugins d)\<rparr>) p, message ''Deleted'')"

text \<open>The directories with an \<open>index.js\<close>; \<open>entries\<close> is the listing (name, is a directory, has the file), \<open>None\<close> when
  public/js/modules is missing.\<close>

definition get_modules :: "(string \<times> bool \<times> bool) list option \<Rightarrow> handler" where
  "get_modules entries ctx p = answer p [(''modules'', JArr (case entries of None \<Rightarrow> []
     | Some es \<Rightarrow> map (\<lambda>(n, _). JStr n) (filter (\<lambda>(n, dir, idx). dir \<and> \<not> starts_with ''.'' n \<and> idx) es)))]"

section \<open>Broadcasts, operator log, plugin settings, chat commands\<close>

definition array_setting :: "env \<Rightarrow> database \<Rightarrow> string \<Rightarrow> json" where
  "array_setting e d key =
     (case db_settings d key of None \<Rightarrow> JArr [] | Some v \<Rightarrow> (case e_parse e v of Some j \<Rightarrow> j | None \<Rightarrow> JArr []))"

definition get_broadcasts :: "env \<Rightarrow> handler" where
  "get_broadcasts e ctx p = answer p [(''messages'', array_setting e (pn_db p) ''broadcast_messages''),
     (''interval'', JInt (case db_settings (pn_db p) ''broadcast_interval'' of None \<Rightarrow> 300
        | Some v \<Rightarrow> (case stoi v of Inr n \<Rightarrow> n | Inl _ \<Rightarrow> 300)))]"

definition post_broadcasts :: "env \<Rightarrow> handler" where
  "post_broadcasts e ctx p =
     (case j_lookup (cx_body ctx) ''messages'' of
        None \<Rightarrow> db_error ''messages required'' p
      | Some j \<Rightarrow>
          let p1 = pn_exec (setting_put ''broadcast_messages'' (e_dump e j)) p
          in Some (if j_contains (cx_body ctx) ''interval''
                   then pn_exec (setting_put ''broadcast_interval'' (to_string (jsonInt (cx_body ctx) ''interval'' 30))) p1 else p1,
                message ''Broadcast messages saved''))"

definition post_op_logs :: "env \<Rightarrow> handler" where
  "post_op_logs e ctx p =
     (let p1 = pn_exec (op_log_insert (e_now e) (cx_username ctx) (jsonStr (e_dump e) (cx_body ctx) ''action'' ''other'')
                 (body_str e ctx ''target'') (body_str e ctx ''details'') (body_str e ctx ''serverId'')) p
      in answer p1 [(''id'', JInt (t_seq (db_op_logs (pn_db p1)))), (''message'', JStr ''Logged'')])"

definition post_plugins_reload :: handler where
  "post_plugins_reload ctx p = Some (p, message ''Plugins reloaded'')"

definition strip_quotes :: "string \<Rightarrow> string" where
  "strip_quotes v = (if 2 \<le> length v \<and> hd v = CHR 0x22 \<and> last v = CHR 0x22 then butlast (tl v) else v)"

definition post_plugin_setting :: "env \<Rightarrow> handler" where
  "post_plugin_setting e ctx p =
     (let key = body_str e ctx ''key'';
          v = strip_quotes (case j_lookup (cx_body ctx) ''value'' of None \<Rightarrow> [] | Some j \<Rightarrow> e_dump e j)
      in if key = [] then db_error ''key required'' p
         else answer (pn_exec (setting_put key v) p) [(''message'', JStr ''Setting saved''), (''key'', JStr key), (''value'', JStr v)])"

definition get_chat_commands :: "env \<Rightarrow> handler" where
  "get_chat_commands e ctx p = answer p [(''commands'', array_setting e (pn_db p) ''chat_commands'')]"

definition post_chat_commands :: "env \<Rightarrow> handler" where
  "post_chat_commands e ctx p =
     (case j_lookup (cx_body ctx) ''commands'' of
        None \<Rightarrow> db_error ''commands required'' p
      | Some j \<Rightarrow> Some (pn_exec (setting_put ''chat_commands'' (e_dump e j)) p, message ''Commands saved''))"

section \<open>Operators, who is online, events\<close>

definition seen_lately :: "time \<Rightarrow> database \<Rightarrow> string \<Rightarrow> bool" where
  "seen_lately now d steam = (\<exists>r\<in>set (t_rows (db_players d)). pr_steamId r = steam \<and> now - 300 < pr_lastSeen r)"

definition op_json :: "time \<Rightarrow> database \<Rightarrow> user_row \<Rightarrow> json" where
  "op_json now d u = JObj [(''id'', JStr (to_string (u_id u))), (''username'', JStr (u_username u)), (''role'', JStr (u_role u)),
     (''status'', JStr (u_status u)), (''createdAt'', JStr (datetime_text (u_createdAt u))), (''steamId'', JStr (null_text (u_steamId u))),
     (''online'', JBool (null_text (u_steamId u) \<noteq> [] \<and> seen_lately now d (null_text (u_steamId u))))]"

definition get_op_list :: "env \<Rightarrow> handler" where
  "get_op_list e ctx p = answer p [(''data'', JArr (map (op_json (e_now e) (pn_db p)) (order_desc u_createdAt
     (t_select (\<lambda>u. u_role u = ''op'') (db_users (pn_db p))))))]"

definition get_op_stats :: handler where
  "get_op_stats ctx p =
     (let n = (\<lambda>P. JInt (safeStoi (to_string (int (length (t_select P (db_users (pn_db p)))))) 0))
      in answer p [(''totalUsers'', n (\<lambda>_. True)), (''totalOp'', n (\<lambda>u. u_role u = ''op'')),
           (''totalServerOwner'', n (\<lambda>u. u_role u = ''server_owner''))])"

definition op_log_json :: "op_log \<Rightarrow> json" where
  "op_log_json r = text_obj [(''id'', to_string (op_id r)), (''operator'', op_operator r), (''action'', op_action r),
     (''target'', op_target r), (''details'', op_details r), (''serverId'', op_serverId r), (''createdAt'', datetime_text (op_createdAt r))]"

definition get_op_logs :: handler where
  "get_op_logs ctx p =
     (let action = ctx_query ctx ''action'' []; limit = safeStoi (ctx_query ctx ''limit'' ''100'') 0
      in answer p [(''data'', JArr (map op_log_json (sql_limit limit 0 (order_desc op_createdAt
           (t_select (\<lambda>r. action \<noteq> [] \<and> action \<noteq> ''all'' \<longrightarrow> op_action r = action) (db_op_logs (pn_db p)))))))])"

text \<open>Active accounts with a session used in the last ten minutes, by its last use, and active accounts whose player
  was seen in the last five.\<close>

definition panel_online :: "time \<Rightarrow> database \<Rightarrow> (user_row \<times> time) list" where
  "panel_online now d =
     order_desc snd (concat (map (\<lambda>u.
       let ts = map s_lastActivity (filter (\<lambda>s. s_userId s = u_id u \<and> now - 600 < s_lastActivity s) (db_sessions d))
       in if u_status u = ''active'' \<and> ts \<noteq> [] then [(u, Max (set ts))] else []) (t_rows (db_users d))))"

definition game_online :: "time \<Rightarrow> database \<Rightarrow> (user_row \<times> player_row) list" where
  "game_online now d =
     order_desc (\<lambda>(_, r). pr_lastSeen r) (concat (map (\<lambda>r. map (\<lambda>u. (u, r)) (filter (\<lambda>u. u_steamId u = Some (pr_steamId r) \<and> u_status u = ''active'')
       (t_rows (db_users d)))) (filter (\<lambda>r. now - 300 < pr_lastSeen r) (t_rows (db_players d)))))"

definition get_admin_online :: "env \<Rightarrow> handler" where
  "get_admin_online e ctx p = answer p
     [(''panelOnline'', JArr (map (\<lambda>(u, t). text_obj [(''username'', u_username u), (''role'', u_role u), (''lastActivity'', datetime_text t)])
        (panel_online (e_now e) (pn_db p)))),
      (''gameOnline'', JArr (map (\<lambda>(u, r). text_obj [(''username'', u_username u), (''role'', u_role u), (''playerName'', pr_name r),
        (''steamId'', pr_steamId r), (''serverId'', to_string (pr_serverId r)), (''lastSeen'', datetime_text (pr_lastSeen r))])
        (game_online (e_now e) (pn_db p))))]"

definition event_log_json :: "event_row \<Rightarrow> json" where
  "event_log_json r = text_obj [(''id'', to_string (e_id r)), (''serverId'', to_string (e_serverId r)), (''steamId'', e_steamId r),
     (''playerName'', e_playerName r), (''eventType'', e_eventType r), (''timestamp'', datetime_text (e_timestamp r))]"

definition get_events_log :: handler where
  "get_events_log ctx p =
     (let n0 = safeStoi (ctx_query ctx ''limit'' ''50'') 0; n1 = (if n0 < 1 then 1 else n0); n = (if n1 > 500 then 500 else n1)
      in Some (p, ctx_json (JArr (map event_log_json (sql_limit n 0 (order_desc e_timestamp
           (t_select (\<lambda>r. of_server (ctx_query ctx ''serverId'' []) (e_serverId r)) (db_events (pn_db p))))))) 200))"

section \<open>Relay check, upload, external API\<close>

text \<open>The address of a relay as this route reads it: port 18976 unless the URL names one.\<close>

definition start_endpoint :: "string \<Rightarrow> string \<times> int" where
  "start_endpoint url =
     (let rest = (case str_find ''://'' url of None \<Rightarrow> url | Some i \<Rightarrow> drop (i + 3) url)
      in case str_find '':'' rest of
           Some colon \<Rightarrow>
             let portStr = (case str_find ''/'' rest of None \<Rightarrow> drop (colon + 1) rest
                   | Some sl \<Rightarrow> if colon < sl then take (sl - colon - 1) (drop (colon + 1) rest) else drop (colon + 1) rest)
             in (take colon rest, safeStoi portStr 0)
         | None \<Rightarrow> ((case str_find ''/'' rest of None \<Rightarrow> rest | Some sl \<Rightarrow> take sl rest), 18976))"

text \<open>\<open>status\<close>: what \<open>GET /api/status\<close> answers at a host and port.\<close>

definition post_relay_start :: "(string \<Rightarrow> int \<Rightarrow> (int \<times> string) option) \<Rightarrow> handler" where
  "post_relay_start status ctx p =
     (let sid = ctx_param ctx 1; n = JInt (safeStoi sid 0)
      in case t_first (\<lambda>s. Some (sv_id s) = int_key sid) (db_servers (pn_db p)) of
           None \<Rightarrow> Some (p, ctx_error ''Server not found'' 404)
         | Some s \<Rightarrow>
             let url = null_text (sv_relayUrl s); (host, port) = start_endpoint url
             in if url = [] then answer p [(''message'', JStr (''Relay not configured '' @ [CHR 0xC3, CHR 0xA2, CHR 0xC2, CHR 0x80, CHR 0xC2, CHR 0x94] @ '' download relay from panel and run on game server'')), (''serverId'', n)]
                else (case status host port of
                  Some (code, body) \<Rightarrow>
                    if code = 200 then answer p [(''message'', JStr ''Relay is running''), (''status'', JStr body), (''serverId'', n)]
                    else answer p [(''message'', JStr (''Relay is not reachable '' @ [CHR 0xC3, CHR 0xA2, CHR 0xC2, CHR 0x80, CHR 0xC2, CHR 0x94] @ '' please start squad-relay.exe on the game server'')), (''serverId'', n)]
                | None \<Rightarrow> answer p [(''message'', JStr (''Relay is not reachable '' @ [CHR 0xC3, CHR 0xA2, CHR 0xC2, CHR 0x80, CHR 0xC2, CHR 0x94] @ '' please start squad-relay.exe on the game server'')), (''serverId'', n)]))"

text \<open>The upload writes the file, runs make and restarts the service; the third result is the file written. \<open>opens\<close>
  tells whether the file can be opened, \<open>build\<close> the exit code of the build.\<close>

definition upload_name_ok :: "string \<Rightarrow> bool" where
  "upload_name_ok f = (5 \<le> length f \<and> drop (length f - 4) f = ''.cpp'')"

definition post_upload ::
  "(string \<Rightarrow> bool) \<Rightarrow> (string \<Rightarrow> string \<Rightarrow> int) \<Rightarrow> Context \<Rightarrow> panel \<Rightarrow> panel \<times> response \<times> (string \<times> string) option" where
  "post_upload opens build ctx p =
     (let file = ctx_query ctx ''file'' []; content = rq_body (cx_req ctx); path = ''src/plugins/'' @ file; code = build path content
      in if cx_role ctx \<noteq> ''server_owner'' then (p, ctx_error ''Admin only'' 403, None)
         else if file = [] then (p, ctx_error ''file query param required'' 400, None)
         else if \<not> upload_name_ok file then (p, ctx_error ''Only .cpp files allowed'' 400, None)
         else if CHR ''/'' \<in> set file \<or> CHR 0x5C \<in> set file then (p, ctx_error ''Invalid filename'' 400, None)
         else if content = [] then (p, ctx_error ''Empty file content'' 400, None)
         else if \<not> opens path then (p, ctx_error ''Failed to write file'' 500, None)
         else if code \<noteq> 0 then (p, ctx_error (''Compile failed (exit code '' @ to_string code @ '')'') 500, Some (path, content))
         else (p, ctx_json (JObj [(''message'', JStr ''Plugin uploaded, compiled, and service restarted''), (''file'', JStr file),
                (''size'', JInt (wrap32 (int (length content))))]) 200, Some (path, content)))"

text \<open>The proxy passes all parameters on, encoded by the HTTP library, and the answer back as it is. \<open>fetch\<close> takes the
  path with the query and the key.\<close>

definition join_params :: "(string \<Rightarrow> string) \<Rightarrow> (string \<times> string) list \<Rightarrow> string" where
  "join_params enc kvs = fold (\<lambda>(k, v) acc. (if acc = [] then [] else acc @ ''&'') @ enc k @ ''='' @ enc v) kvs []"

datatype proxied = Reply response | Raw_body string

definition get_rcon_ext ::
  "env \<Rightarrow> (string \<Rightarrow> string) \<Rightarrow> (string \<Rightarrow> string \<Rightarrow> (int \<times> string) option) \<Rightarrow> Context \<Rightarrow> proxied" where
  "get_rcon_ext e enc fetch ctx =
     (let url = ''https://plugin.squad.cyou/api.php?'' @ join_params enc (rq_params (cx_req ctx));
          key = config_get (e_cfg e) ''RCON_EXT_API_KEY'' []
      in if ctx_query ctx ''action'' [] = [] then Reply (ctx_error ''action parameter required'' 400)
         else if key = [] then Reply (ctx_error ''External API not configured'' 500)
         else (case fetch url key of
           None \<Rightarrow> Reply (ctx_error ''External API unreachable'' 502)
         | Some (st, body) \<Rightarrow>
             if st \<noteq> 200 then Reply (ctx_error (''External API returned '' @ to_string st) 502) else Raw_body body))"

end
