(* ===== verification/Scramble.thy ===== *)
theory Scramble
  imports Complex_Main "HOL-Library.Multiset" ModerationRoutes PlayerList
begin

text \<open>
  The team scramble of handlers/misc_handler.cpp: the players are read off the console's answer, rated by
  playtime and kills per death, sorted by the rating and drafted in snake order; who sits in the wrong team is
  moved. \<open>double\<close> arithmetic is exact arithmetic followed by the rounding \<open>fl\<close>, an argument, and so is
  \<open>std::sort\<close>, whose order of equal ratings is not specified. An exception of the handler is a 500.
\<close>

section \<open>Reading the players\<close>

record ScoredPlayer =
  sp_steamId :: string
  sp_name :: string
  sp_currentTeam :: int
  sp_playtime :: rat
  sp_kills :: rat
  sp_deaths :: rat
  sp_kd :: rat
  sp_score :: rat

definition find_from :: "string \<Rightarrow> nat \<Rightarrow> string \<Rightarrow> nat option" where
  "find_from pat pos s = (if pos \<le> length s then map_option (\<lambda>i. pos + i) (str_find pat (drop pos s)) else None)"

definition blank :: "char \<Rightarrow> bool" where
  "blank c = (c = CHR '' '')"

text \<open>The text behind a label of length \<open>n\<close> at \<open>i\<close> up to the next hyphen; \<open>substr\<close> behind the end throws.\<close>

definition after_label :: "nat \<Rightarrow> nat \<Rightarrow> string \<Rightarrow> string option" where
  "after_label i n line =
     (if length line < i + n + 1 then None
      else
        let stop = (case find_from ''-'' (i + n + 1) line of Some k \<Rightarrow> k | None \<Rightarrow> length line)
        in Some (ltrim blank (rtrim blank (take (stop - (i + n + 1)) (drop (i + n + 1) line)))))"

definition team_after :: "nat \<Rightarrow> string \<Rightarrow> int option" where
  "team_after i line =
     (if length line < i + 6 then None
      else (case stoi (ltrim blank (drop (i + 6) line)) of Inr n \<Rightarrow> Some n | Inl _ \<Rightarrow> None))"

text \<open>\<open>None\<close>: an exception; \<open>Some None\<close>: the line is skipped.\<close>

definition scramble_line :: "string \<Rightarrow> ScoredPlayer option option" where
  "scramble_line line =
     (case str_find ''SteamID:'' line of
        None \<Rightarrow> Some None
      | Some i \<Rightarrow>
          (case after_label i 8 line of
             None \<Rightarrow> None
           | Some steam \<Rightarrow>
               (case (case str_find ''Name:'' line of None \<Rightarrow> Some [] | Some j \<Rightarrow> after_label j 5 line) of
                  None \<Rightarrow> None
                | Some name \<Rightarrow>
                    (case (case str_find ''Team:'' line of None \<Rightarrow> Some 0 | Some j \<Rightarrow> team_after j line) of
                       None \<Rightarrow> None
                     | Some team \<Rightarrow>
                         Some (if steam = [] then None
                               else Some \<lparr>sp_steamId = steam, sp_name = name, sp_currentTeam = team, sp_playtime = 0, sp_kills = 0,
                                 sp_deaths = 0, sp_kd = 0, sp_score = 0\<rparr>)))))"

fun scramble_lines :: "string list \<Rightarrow> ScoredPlayer list option" where
  "scramble_lines [] = Some []"
| "scramble_lines (l # ls) =
     (case scramble_line l of
        None \<Rightarrow> None
      | Some None \<Rightarrow> scramble_lines ls
      | Some (Some p) \<Rightarrow> map_option (\<lambda>ps. p # ps) (scramble_lines ls))"

section \<open>Rating\<close>

definition playtime_of :: "database \<Rightarrow> string \<Rightarrow> string \<Rightarrow> int" where
  "playtime_of d sid steam =
     (case t_select (\<lambda>r. Some (pr_serverId r) = int_key sid \<and> pr_steamId r = steam) (db_players d) of
        [] \<Rightarrow> 0
      | r # rs \<Rightarrow> pr_playtime (last (r # rs)))"

text \<open>Kills and deaths are looked up by the player's name.\<close>

definition kills_of :: "database \<Rightarrow> string \<Rightarrow> string \<Rightarrow> nat" where
  "kills_of d sid name = length (t_select (\<lambda>r. Some (k_serverId r) = int_key sid \<and> k_killer r = name) (db_kills d))"

definition deaths_of :: "database \<Rightarrow> string \<Rightarrow> string \<Rightarrow> nat" where
  "deaths_of d sid name = length (t_select (\<lambda>r. Some (k_serverId r) = int_key sid \<and> k_victim r = name) (db_kills d))"

definition stats :: "(rat \<Rightarrow> rat) \<Rightarrow> database \<Rightarrow> string \<Rightarrow> ScoredPlayer \<Rightarrow> ScoredPlayer" where
  "stats fl d sid p =
     (let k = fl (of_nat (kills_of d sid (sp_name p))); v = fl (of_nat (deaths_of d sid (sp_name p)))
      in p\<lparr>sp_playtime := fl (of_int (playtime_of d sid (sp_steamId p))), sp_kills := k, sp_deaths := v,
           sp_kd := if 0 < v then fl (k / v) else if 0 < k then k else 0\<rparr>)"

definition top :: "rat list \<Rightarrow> rat" where
  "top xs = (let m = fold (\<lambda>x m. if m < x then x else m) xs 0 in if m = 0 then 1 else m)"

definition rate :: "(rat \<Rightarrow> rat) \<Rightarrow> database \<Rightarrow> string \<Rightarrow> ScoredPlayer list \<Rightarrow> ScoredPlayer list" where
  "rate fl d sid online =
     (let ps = map (stats fl d sid) online; maxPlaytime = top (map sp_playtime ps); maxKD = top (map sp_kd ps)
      in map (\<lambda>p. p\<lparr>sp_score := fl (fl (fl (sp_playtime p / maxPlaytime) * (1 / 2)) + fl (fl (sp_kd p / maxKD) * (1 / 2)))\<rparr>) ps)"

section \<open>The draft\<close>

fun snakeAssign :: "nat \<Rightarrow> 'p list \<Rightarrow> 'p list \<times> 'p list \<Rightarrow> 'p list \<times> 'p list" where
  "snakeAssign i [] ts = ts"
| "snakeAssign i (p # ps) (t1, t2) =
     (let group = i div 2; toTeam1 = (if group mod 2 = 0 then i mod 2 = 0 else i mod 2 = 1)
      in snakeAssign (i + 1) ps (if toTeam1 then (t1 @ [p], t2) else (t1, t2 @ [p])))"

definition need_switch :: "ScoredPlayer list \<Rightarrow> ScoredPlayer list \<Rightarrow> ScoredPlayer list" where
  "need_switch t1 t2 = filter (\<lambda>p. sp_currentTeam p = 2) t1 @ filter (\<lambda>p. sp_currentTeam p = 1) t2"

definition switch_cmd :: "ScoredPlayer \<Rightarrow> string" where
  "switch_cmd p = ''AdminForceTeamChange '' @ [CHR 0x22] @ sp_steamId p @ [CHR 0x22]"

definition post_scramble :: "env \<Rightarrow> (rat \<Rightarrow> rat) \<Rightarrow> (ScoredPlayer list \<Rightarrow> ScoredPlayer list) \<Rightarrow> handler" where
  "post_scramble e fl srt ctx p =
     (let sid = body_str e ctx ''serverId''
      in if sid = [] then db_error ''serverId required'' p
         else (case stoi sid of
           Inl _ \<Rightarrow> Some (p, ctx_error ''RCON ListPlayers failed: stoi'' 500)
         | Inr s \<Rightarrow>
             let (reply, w) = rcon_send e s ''ListPlayers'' (pn_world p); p1 = p\<lparr>pn_world := w\<rparr>
             in (case scramble_lines (getlines (CHR 0x0A) reply) of
                   None \<Rightarrow> Some (p1, server_error)
                 | Some online \<Rightarrow>
                     if length online < 4 then db_error ''Need at least 4 players to scramble'' p1
                     else
                       let (t1, t2) = snakeAssign 0 (srt (rate fl (pn_db p1) sid online)) ([], []);
                           moved = need_switch t1 t2
                       in answer (on_world (fold (\<lambda>q. rcon_do s (switch_cmd q)) moved) p1)
                            [(''success'', JBool True), (''switched'', JInt (int (length moved))), (''total'', JInt (int (length online))),
                             (''team1'', JArr (map (JStr \<circ> sp_name) t1)), (''team2'', JArr (map (JStr \<circ> sp_name) t2))])))"

text \<open>The check of the compiler hands the text of the request to the shell; \<open>sh\<close> gives the exit code of a command.\<close>

definition build_check_cmd :: "string \<Rightarrow> string" where
  "build_check_cmd compiler = compiler @ '' --version 2>&1''"

definition post_build_check :: "(string \<Rightarrow> int) \<Rightarrow> env \<Rightarrow> handler" where
  "post_build_check sh e ctx p =
     (let compiler = jsonStr (e_dump e) (cx_body ctx) ''compiler'' ''g++''
      in answer p [(''available'', JBool (sh (build_check_cmd compiler) = 0)), (''compiler'', JStr compiler)])"

section \<open>Properties of the draft\<close>

lemma snake_mset: "snakeAssign i ps (a, b) = (t1, t2) \<Longrightarrow> mset t1 + mset t2 = mset a + mset b + mset ps"
proof (induction ps arbitrary: i a b)
  case (Cons p ps)
  then obtain a' b' where "snakeAssign (i + 1) ps (a', b') = (t1, t2)" "mset a' + mset b' = mset a + mset b + {#p#}"
    by (auto simp: Let_def split: if_splits)
  with Cons.IH [of "i + 1" a' b'] show ?case by simp
qed simp

text \<open>What a round of the draft adds to the difference of the teams, by the place in the round of four.\<close>

fun draft_diff :: "nat \<Rightarrow> rat list \<Rightarrow> rat" where
  "draft_diff i [] = 0"
| "draft_diff i (x # xs) = (if i mod 4 = 0 \<or> i mod 4 = 3 then x else - x) + draft_diff (i + 1) xs"

lemma snake_to_team1: "(if i div 2 mod 2 = 0 then i mod 2 = 0 else i mod 2 = 1) \<longleftrightarrow> i mod 4 = 0 \<or> i mod 4 = (3::nat)"
  by presburger

lemma snake_diff:
  "snakeAssign i ps (a, b) = (t1, t2) \<Longrightarrow>
     sum_list (map f t1) - sum_list (map f t2) = sum_list (map f a) - sum_list (map f b) + draft_diff i (map f ps)"
proof (induction ps arbitrary: i a b)
  case (Cons p ps)
  show ?case
  proof (cases "i mod 4 = 0 \<or> i mod 4 = 3")
    case True
    then have "snakeAssign (i + 1) ps (a @ [p], b) = (t1, t2)" using Cons.prems by (simp add: snake_to_team1)
    from Cons.IH [OF this] True show ?thesis by auto
  next
    case False
    then have "snakeAssign (i + 1) ps (a, b @ [p]) = (t1, t2)" using Cons.prems by (simp add: snake_to_team1)
    from Cons.IH [OF this] False show ?thesis by auto
  qed
qed simp

lemma draft_diff_swap: "draft_diff (i + 2) xs = - draft_diff i xs"
proof (induction xs arbitrary: i)
  case (Cons x xs)
  have s: "(i + 2) mod 4 = 0 \<or> (i + 2) mod 4 = 3 \<longleftrightarrow> \<not> (i mod 4 = 0 \<or> i mod 4 = (3::nat))" by presburger
  have "draft_diff (i + 2 + 1) xs = - draft_diff (i + 1) xs" using Cons [of "i + 1"] by (simp add: add.commute add.left_commute)
  then show ?case unfolding draft_diff.simps s by simp
qed simp

lemma draft_diff_bound:
  "sorted_wrt (\<ge>) xs \<Longrightarrow> (\<And>x. x \<in> set xs \<Longrightarrow> 0 \<le> x) \<Longrightarrow> xs \<noteq> [] \<Longrightarrow> \<bar>draft_diff 0 xs\<bar> \<le> hd xs"
proof (induction xs rule: induct_list012)
  case (3 x y zs)
  have d: "draft_diff 0 (x # y # zs) = x - y - draft_diff 0 zs"
    using draft_diff_swap [of 0 zs] by (simp add: numeral_2_eq_2)
  show ?case
  proof (cases "zs = []")
    case False
    then have "\<bar>draft_diff 0 zs\<bar> \<le> hd zs" using 3 by (intro 3(1)) auto
    moreover have "hd zs \<le> y" "y \<le> x" using 3(3) False by (cases zs; simp)+
    ultimately show ?thesis unfolding d by simp
  qed (use 3 d in auto)
qed auto

lemma draft_ones: "\<bar>draft_diff 0 (replicate n 1)\<bar> \<le> 1"
proof (cases n)
  case (Suc k)
  have s: "sorted_wrt (\<ge>) (replicate n (1 :: rat))" by (simp add: sorted_wrt_iff_nth_less)
  have "\<bar>draft_diff 0 (replicate n 1)\<bar> \<le> hd (replicate n 1)" by (rule draft_diff_bound [OF s]) (use Suc in auto)
  with Suc show ?thesis by simp
qed simp

lemma snake_lengths:
  assumes "snakeAssign 0 ps ([], []) = (t1, t2)"
  shows "length t1 \<le> length t2 + 1 \<and> length t2 \<le> length t1 + 1"
proof -
  have "\<bar>rat_of_nat (length t1) - rat_of_nat (length t2)\<bar> \<le> 1"
    using snake_diff [OF assms, of "\<lambda>_. 1"] draft_ones [of "length ps"] by (simp add: sum_list_replicate map_replicate_const)
  then show ?thesis by linarith
qed

section \<open>The scramble\<close>

text \<open>What \<open>std::sort\<close> promises for the comparison by descending score.\<close>

definition sorts :: "(ScoredPlayer list \<Rightarrow> ScoredPlayer list) \<Rightarrow> bool" where
  "sorts srt = (\<forall>ps. mset (srt ps) = mset ps \<and> sorted_wrt (\<lambda>a b. sp_score b \<le> sp_score a) (srt ps))"

lemma scramble_run:
  assumes "post_scramble e fl srt ctx p = Some (p', r)" "re_status r = 200" "stoi (body_str e ctx ''serverId'') = Inr s"
  obtains online t1 t2 where
    "scramble_lines (getlines (CHR 0x0A) (e_reply e (w_sent (pn_world p)) s ''ListPlayers'')) = Some online" "4 \<le> length online"
    "snakeAssign 0 (srt (rate fl (pn_db p) (body_str e ctx ''serverId'') online)) ([], []) = (t1, t2)"
    "p' = on_world (fold (\<lambda>q. rcon_do s (switch_cmd q)) (need_switch t1 t2)) (on_world (rcon_do s ''ListPlayers'') p)"
proof -
  let ?o = "scramble_lines (getlines (CHR 0x0A) (e_reply e (w_sent (pn_world p)) s ''ListPlayers''))"
  have sid: "body_str e ctx ''serverId'' \<noteq> []" using assms(1,2) by (auto simp: post_scramble_def)
  have w: "p\<lparr>pn_world := rcon_do s ''ListPlayers'' (pn_world p)\<rparr> = on_world (rcon_do s ''ListPlayers'') p" by (simp add: on_world_def)
  obtain online where o: "?o = Some online" "4 \<le> length online"
    using assms sid by (auto simp: post_scramble_def Let_def rcon_send_def split: option.splits if_splits)
  obtain t1 t2 where t: "snakeAssign 0 (srt (rate fl (pn_db p) (body_str e ctx ''serverId'') online)) ([], []) = (t1, t2)" by fastforce
  have d: "w_db (rcon_do s ''ListPlayers'' (pn_world p)) = pn_db p" by simp
  have "p' = on_world (fold (\<lambda>q. rcon_do s (switch_cmd q)) (need_switch t1 t2)) (on_world (rcon_do s ''ListPlayers'') p)"
    using assms sid o t by (simp add: post_scramble_def Let_def rcon_send_def rcon_do_def on_world_def)
  with o t show thesis by (rule that)
qed

lemma top_pos: "0 < top xs"
proof -
  have "m \<le> fold (\<lambda>x m. if m < x then x else m) xs m" for m :: rat
    by (induction xs arbitrary: m) (auto intro: order_trans [OF less_imp_le])
  from this [of 0] show ?thesis by (auto simp: top_def Let_def)
qed

lemma rate_nonneg:
  assumes "\<And>x. 0 \<le> x \<Longrightarrow> 0 \<le> fl x" "\<And>r. r \<in> set (t_rows (db_players d)) \<Longrightarrow> 0 \<le> pr_playtime r" "q \<in> set (rate fl d sid online)"
  shows "0 \<le> sp_score q"
proof -
  have pt: "0 \<le> playtime_of d sid steam" for steam
  proof (cases "t_select (\<lambda>r. Some (pr_serverId r) = int_key sid \<and> pr_steamId r = steam) (db_players d)")
    case (Cons r rs)
    then have "set (r # rs) = set (t_select (\<lambda>r. Some (pr_serverId r) = int_key sid \<and> pr_steamId r = steam) (db_players d))" by simp
    then have "set (r # rs) \<subseteq> set (t_rows (db_players d))" by (auto simp: t_select_def)
    then have "last (r # rs) \<in> set (t_rows (db_players d))" using last_in_set [of "r # rs"] by blast
    with Cons assms(2) show ?thesis by (simp add: playtime_of_def)
  qed (simp add: playtime_of_def)
  have kd: "0 \<le> sp_playtime (stats fl d sid x)" "0 \<le> sp_kd (stats fl d sid x)" for x
    using pt by (auto simp: stats_def Let_def intro!: assms(1) divide_nonneg_pos)
  have d: "0 \<le> fl (v / top xs)" if "0 \<le> v" for v xs
    using that top_pos [of xs] by (intro assms(1)) (simp add: divide_nonneg_pos)
  show ?thesis
    using assms(3) by (auto simp: rate_def Let_def intro!: assms(1) add_nonneg_nonneg mult_nonneg_nonneg d kd)
qed

text \<open>C29: a scramble that succeeds drafts every player the console named into one of two teams whose sizes differ by at
  most one and whose total ratings differ by no more than the rating of the best player; it sends exactly one
  command for each player who sits in the other team than drafted, and none for the rest.\<close>
theorem scramble_balanced:
  assumes "post_scramble e fl srt ctx p = Some (p', r)" "re_status r = 200" "stoi (body_str e ctx ''serverId'') = Inr s"
    and "sorts srt" "\<And>x. 0 \<le> x \<Longrightarrow> 0 \<le> fl x" "\<And>r. r \<in> set (t_rows (db_players (pn_db p))) \<Longrightarrow> 0 \<le> pr_playtime r"
  shows "\<exists>online t1 t2.
      scramble_lines (getlines (CHR 0x0A) (e_reply e (w_sent (pn_world p)) s ''ListPlayers'')) = Some online
    \<and> mset t1 + mset t2 = mset (rate fl (pn_db p) (body_str e ctx ''serverId'') online)
    \<and> length t1 \<le> length t2 + 1 \<and> length t2 \<le> length t1 + 1
    \<and> \<bar>sum_list (map sp_score t1) - sum_list (map sp_score t2)\<bar> \<le> Max (sp_score ` set (t1 @ t2))
    \<and> w_sent (pn_world p') = w_sent (pn_world p) @ [(s, ''ListPlayers'')] @
        map (\<lambda>q. (s, switch_cmd q)) (filter (\<lambda>q. sp_currentTeam q = 2) t1 @ filter (\<lambda>q. sp_currentTeam q = 1) t2)"
proof -
  let ?rate = "rate fl (pn_db p) (body_str e ctx ''serverId'')"
  from scramble_run [OF assms(1-3)] obtain online t1 t2 where o:
    "scramble_lines (getlines (CHR 0x0A) (e_reply e (w_sent (pn_world p)) s ''ListPlayers'')) = Some online" "4 \<le> length online"
    and t: "snakeAssign 0 (srt (?rate online)) ([], []) = (t1, t2)"
    and p': "p' = on_world (fold (\<lambda>q. rcon_do s (switch_cmd q)) (need_switch t1 t2)) (on_world (rcon_do s ''ListPlayers'') p)" .
  have srt: "mset (srt (?rate online)) = mset (?rate online)" "sorted_wrt (\<lambda>a b. sp_score b \<le> sp_score a) (srt (?rate online))"
    using assms(4) by (auto simp: sorts_def)
  have teams: "mset t1 + mset t2 = mset (?rate online)" using snake_mset [OF t] srt(1) by simp
  have rs: "set (srt (?rate online)) = set (?rate online)" using srt(1) by (metis set_mset_mset)
  have "length (?rate online) = length online" by (simp add: rate_def Let_def)
  then have ne: "srt (?rate online) \<noteq> []" using o(2) srt(1) by auto
  have sets: "set (srt (?rate online)) = set (t1 @ t2)"
    using srt(1) teams by (metis mset_append set_mset_mset)
  have "\<bar>draft_diff 0 (map sp_score (srt (?rate online)))\<bar> \<le> hd (map sp_score (srt (?rate online)))"
  proof (rule draft_diff_bound)
    show "sorted_wrt (\<ge>) (map sp_score (srt (?rate online)))" using srt(2) by (simp add: sorted_wrt_map)
    show "0 \<le> x" if "x \<in> set (map sp_score (srt (?rate online)))" for x
      using that rate_nonneg [OF assms(5,6)] rs by fastforce
  qed (use ne in simp)
  also have "hd (map sp_score (srt (?rate online))) \<le> Max (sp_score ` set (t1 @ t2))"
    unfolding sets [symmetric] using ne by (intro Max_ge) (auto simp: hd_map)
  finally have score: "\<bar>sum_list (map sp_score t1) - sum_list (map sp_score t2)\<bar> \<le> Max (sp_score ` set (t1 @ t2))"
    using snake_diff [OF t, of sp_score] by simp
  have sent: "w_sent (fold (\<lambda>q. rcon_do s (switch_cmd q)) qs w) = w_sent w @ map (\<lambda>q. (s, switch_cmd q)) qs" for qs w
    by (induction qs arbitrary: w) simp_all
  have "w_sent (pn_world p') = w_sent (pn_world p) @ [(s, ''ListPlayers'')] @ map (\<lambda>q. (s, switch_cmd q)) (need_switch t1 t2)"
    by (simp add: p' sent)
  then show ?thesis using o(1) teams snake_lengths [OF t] score unfolding need_switch_def by blast
qed

definition scramble_reply :: string where
  "scramble_reply = unlines [''ID: 0 - SteamID: 11 - Name: a - Team: 1'', ''ID: 1 - SteamID: 12 - Name: b - Team: 1'',
     ''ID: 2 - SteamID: 13 - Name: c - Team: 1'', ''ID: 3 - SteamID: 14 - Name: d - Team: 2'']"

definition scramble_env :: env where
  "scramble_env = (demo_env 0)\<lparr>e_reply := \<lambda>_ _ _. scramble_reply\<rparr>"

definition scramble_ctx :: Context where
  "scramble_ctx = \<lparr>cx_req = \<lparr>rq_method = ''POST'', rq_headers = [], rq_params = [], rq_matches = [], rq_body = []\<rparr>,
     cx_body = JObj [(''serverId'', JStr ''1'')], cx_userId = ''1'', cx_username = ''root'', cx_role = ''server_owner'', cx_authenticated = True\<rparr>"

definition scramble_panel :: panel where
  "scramble_panel = route_panel empty_db"

theorem scramble_balanced_witness:
  "\<exists>p' r t1 t2. post_scramble scramble_env (\<lambda>x. x) (sort_key (\<lambda>q. - sp_score q)) scramble_ctx scramble_panel = Some (p', r)
     \<and> length t1 \<le> length t2 + 1 \<and> w_sent (pn_world p') = [(1, ''ListPlayers'')] @
        map (\<lambda>q. (1, switch_cmd q)) (filter (\<lambda>q. sp_currentTeam q = 2) t1 @ filter (\<lambda>q. sp_currentTeam q = 1) t2)"
proof -
  let ?srt = "sort_key (\<lambda>q. - sp_score q)"
  have sid: "body_str scramble_env scramble_ctx ''serverId'' = ''1''" by (simp add: scramble_ctx_def jsonStr_def)
  have one: "stoi ''1'' = Inr 1" by code_simp
  have "map_option length (scramble_lines (getlines (CHR 0x0A) scramble_reply)) = Some 4"
    by code_simp
  then obtain ps where ps: "scramble_lines (getlines (CHR 0x0A) scramble_reply) = Some ps" "length ps = 4" by auto
  have sorts: "sorts ?srt"
    using sorted_sort_key [of "\<lambda>q. - sp_score q"] unfolding sorts_def by (simp add: sorted_map) blast
  have reply: "e_reply scramble_env sent s c = scramble_reply" for sent s c by (simp add: scramble_env_def)
  have "\<exists>p' r. post_scramble scramble_env (\<lambda>x. x) ?srt scramble_ctx scramble_panel = Some (p', r) \<and> re_status r = 200"
    unfolding post_scramble_def sid by (simp add: Let_def one rcon_send_def reply ps split_beta)
  then obtain p' r where k: "post_scramble scramble_env (\<lambda>x. x) ?srt scramble_ctx scramble_panel = Some (p', r)" "re_status r = 200"
    by (elim exE conjE)
  have none: "0 \<le> pr_playtime x" if "x \<in> set (t_rows (db_players (pn_db scramble_panel)))" for x
    using that by (simp add: scramble_panel_def route_panel_def empty_db_def t_empty_def)
  have sent: "w_sent (pn_world scramble_panel) = []" by (simp add: scramble_panel_def route_panel_def)
  from scramble_balanced [OF k _ sorts _ none, of 1] obtain t1 t2 where "length t1 \<le> length t2 + 1"
    "w_sent (pn_world p') = [(1, ''ListPlayers'')] @
        map (\<lambda>q. (1, switch_cmd q)) (filter (\<lambda>q. sp_currentTeam q = 2) t1 @ filter (\<lambda>q. sp_currentTeam q = 1) t2)"
    unfolding sid one sent by auto
  with k(1) show ?thesis by blast
qed

section \<open>The console's format\<close>

lemma starts_with_stop: "c \<notin> set pat \<Longrightarrow> starts_with pat (u @ c # v) \<longleftrightarrow> starts_with pat u"
proof (induction pat arbitrary: u)
  case (Cons q pat)
  then show ?case by (cases u) auto
qed simp

lemma contains_words: "c \<notin> set pat \<Longrightarrow> str_contains pat (u @ c # v) \<longleftrightarrow> str_contains pat u \<or> str_contains pat v"
proof (induction u)
  case Nil
  then show ?case using starts_with_stop [of c pat "[]" v] by (auto simp: str_contains_def starts_with_def)
next
  case (Cons x u)
  then show ?case using starts_with_stop [of c pat "x # u" v] by (auto simp: str_contains_def)
qed

lemma contains_Cons: "str_contains pat (x # s) \<longleftrightarrow> starts_with pat (x # s) \<or> str_contains pat s"
  by (auto simp: str_contains_def)

lemma no_colon: "CHR '':'' \<notin> set w \<Longrightarrow> \<not> str_contains ''SteamID:'' w"
  by (auto simp: str_contains_iff)

lemma over_no_colon: "over Digit w \<Longrightarrow> CHR '':'' \<notin> set w" "over WordC w \<Longrightarrow> CHR '':'' \<notin> set w"
  by (drule over_simps(2); force simp: is_digit_def byte_of_def)+

lemma player_text_no_label:
  assumes "player_ok q" "\<not> str_contains ''SteamID:'' (pi_name q)" "\<not> str_contains ''SteamID:'' (pi_squadId q)" "\<not> str_contains ''SteamID:'' (pi_role q)"
  shows "\<not> str_contains ''SteamID:'' (player_text q)"
proof -
  have n: "\<not> str_contains ''SteamID:'' (to_string (pi_rconId q))" "\<not> str_contains ''SteamID:'' (pi_eosId q)"
    "\<not> str_contains ''SteamID:'' (pi_steamId q)" "\<not> str_contains ''SteamID:'' (pi_teamId q)"
    using assms(1) over_no_colon to_string_over [of "pi_rconId q"] by (auto simp: player_ok_def intro!: no_colon)
  show ?thesis
    unfolding player_text_def using n assms(2-4) by (simp add: contains_Cons contains_words)
qed

text \<open>The scramble never works on the answer of a real server: a player list in the console's format, which the
  log parser reads, has no "SteamID:", so the route finds no player and refuses.\<close>
theorem scramble_refuses_console:
  assumes "e_reply e (w_sent (pn_world p)) s ''ListPlayers'' = player_list_text ps" "list_all player_ok ps"
    and "stoi (body_str e ctx ''serverId'') = Inr s" "body_str e ctx ''serverId'' \<noteq> []"
    and "\<And>q. q \<in> set ps \<Longrightarrow> \<not> str_contains ''SteamID:'' (pi_name q) \<and> \<not> str_contains ''SteamID:'' (pi_squadId q) \<and> \<not> str_contains ''SteamID:'' (pi_role q)"
  shows "\<exists>p'. post_scramble e fl srt ctx p = Some (p', ctx_error ''Need at least 4 players to scramble'' 400)"
proof -
  have nl: "\<forall>l\<in>set (list_header # map player_text ps @ [list_trailer]). CHR 0x0A \<notin> set l"
    using assms(2) player_text_no_newline by (auto simp: list_all_iff list_header_def list_trailer_def)
  have h: "\<not> str_contains ''SteamID:'' list_header" "\<not> str_contains ''SteamID:'' list_trailer" by code_simp+
  have texts: "\<not> str_contains ''SteamID:'' (player_text q)" if "q \<in> set ps" for q
    using that assms(2) assms(5) [OF that] by (intro player_text_no_label) (auto simp: list_all_iff)
  have skip: "scramble_line l = Some None" if "\<not> str_contains ''SteamID:'' l" for l
    using that by (simp add: scramble_line_def str_contains_def)
  have none: "scramble_lines ls = Some []" if "\<forall>l\<in>set ls. scramble_line l = Some None" for ls
    using that by (induction ls) simp_all
  have "scramble_lines (getlines (CHR 0x0A) (player_list_text ps)) = Some []"
    unfolding player_list_text_def getlines_unlines [OF nl]
    using h texts by (intro none) (auto intro!: skip)
  then show ?thesis
    unfolding post_scramble_def Let_def using assms(1,3,4) by (simp add: rcon_send_def)
qed

theorem scramble_refuses_console_witness:
  "\<exists>p'. post_scramble ((demo_env 0)\<lparr>e_reply := \<lambda>_ _ _. player_list_text []\<rparr>) (\<lambda>x. x) (\<lambda>x. x) scramble_ctx scramble_panel
     = Some (p', ctx_error ''Need at least 4 players to scramble'' 400)"
proof -
  let ?e = "(demo_env 0)\<lparr>e_reply := \<lambda>_ _ _. player_list_text []\<rparr>"
  have one: "stoi ''1'' = Inr 1" by code_simp
  have "body_str ?e scramble_ctx ''serverId'' = ''1''" by (simp add: scramble_ctx_def jsonStr_def)
  then show ?thesis using scramble_refuses_console [of ?e scramble_panel 1 "[]" scramble_ctx] one by simp
qed

end
