(* ===== verification/Registry.thy ===== *)
theory Registry
  imports Prelude
begin

text \<open>
  What the two managers of background workers promise, the local log tailers (core/local_log_tailer.cpp) and the
  remote pollers (core/remote_api_poller.cpp): starting a server that has a worker changes nothing, starting another
  one adds at most its worker, stopping removes the first worker of the server. A registry that starts with at most
  one worker per server keeps it so.
\<close>

section \<open>Stopping\<close>

text \<open>The loop over the vector that erases the first worker of the server.\<close>

fun erase_first :: "('w \<Rightarrow> bool) \<Rightarrow> 'w list \<Rightarrow> 'w list" where
  "erase_first P [] = []"
| "erase_first P (w # ws) = (if P w then ws else w # erase_first P ws)"

lemma erase_first_subset: "set (erase_first P ws) \<subseteq> set ws"
  by (induction ws) auto

lemma erase_first_distinct:
  "distinct (map key ws) \<Longrightarrow> distinct (map key (erase_first P ws))"
  by (induction ws) (auto dest: erase_first_subset [THEN subsetD])

lemma erase_first_gone:
  "distinct (map key ws) \<Longrightarrow> k \<notin> key ` set (erase_first (\<lambda>w. key w = k) ws)"
  by (induction ws) auto

lemma erase_first_others:
  "k' \<noteq> k \<Longrightarrow> filter (\<lambda>w. key w = k') (erase_first (\<lambda>w. key w = k) ws) = filter (\<lambda>w. key w = k') ws"
  by (induction ws) auto

section \<open>The interface\<close>

datatype 'a op = Start int 'a | Stop int

locale registry =
  fixes key :: "'w \<Rightarrow> int"
    and start :: "int \<Rightarrow> 'a \<Rightarrow> 'w list \<Rightarrow> 'w list"
    and stop :: "int \<Rightarrow> 'w list \<Rightarrow> 'w list"
  assumes start_again: "k \<in> key ` set ws \<Longrightarrow> start k a ws = ws"
    and start_adds: "k \<notin> key ` set ws \<Longrightarrow> start k a ws = ws \<or> (\<exists>w. key w = k \<and> start k a ws = ws @ [w])"
    and stop_erases: "stop k ws = erase_first (\<lambda>w. key w = k) ws"
begin

fun run :: "'a op \<Rightarrow> 'w list \<Rightarrow> 'w list" where
  "run (Start k a) ws = start k a ws"
| "run (Stop k) ws = stop k ws"

lemma start_distinct: "distinct (map key ws) \<Longrightarrow> distinct (map key (start k a ws))"
  using start_again [of k ws a] start_adds [of k ws a] by (cases "k \<in> key ` set ws") auto

lemma run_distinct: "distinct (map key ws) \<Longrightarrow> distinct (map key (run c ws))"
  by (cases c) (auto simp: start_distinct stop_erases erase_first_distinct)

lemma runs_distinct: "distinct (map key ws) \<Longrightarrow> distinct (map key (fold run cs ws))"
  by (induction cs arbitrary: ws) (auto intro: run_distinct)

lemma stop_gone: "distinct (map key ws) \<Longrightarrow> k \<notin> key ` set (stop k ws)"
  by (simp add: stop_erases erase_first_gone)

lemma start_others: "k' \<noteq> k \<Longrightarrow> filter (\<lambda>w. key w = k') (start k a ws) = filter (\<lambda>w. key w = k') ws"
  using start_again [of k ws a] start_adds [of k ws a] by (cases "k \<in> key ` set ws") auto

lemma run_others:
  assumes "k' \<notin> (case c of Start k a \<Rightarrow> {k} | Stop k \<Rightarrow> {k})"
  shows "filter (\<lambda>w. key w = k') (run c ws) = filter (\<lambda>w. key w = k') ws"
  using assms by (cases c) (auto simp: start_others stop_erases erase_first_others)

end

end
