(* ===== verification/LocalTail.thy ===== *)
theory LocalTail
  imports Registry EventRoutes Sql
begin

text \<open>
  The local log tailers (core/local_log_tailer.cpp): the reading of new lines through an input stream with its two
  error bits, what a round posts to the panel's own POST /api/events/raw, and the manager. A file is its contents,
  \<open>None\<close> one that is missing or cannot be read; a round sees it once.
\<close>

section \<open>Input streams\<close>

text \<open>The \<open>std::ifstream\<close> of a round: contents, position, \<open>eofbit\<close> and \<open>failbit\<close>.\<close>

record istream =
  is_data :: string
  is_pos :: nat
  is_eof :: bool
  is_fail :: bool

definition stream_open :: "string \<Rightarrow> istream" where
  "stream_open s = \<lparr>is_data = s, is_pos = 0, is_eof = False, is_fail = False\<rparr>"

text \<open>\<open>seekg\<close> clears \<open>eofbit\<close> only, and moves only when \<open>failbit\<close> is not set.\<close>

definition seekg :: "nat \<Rightarrow> istream \<Rightarrow> istream" where
  "seekg n st = (let st' = st\<lparr>is_eof := False\<rparr> in if is_fail st then st' else st'\<lparr>is_pos := n\<rparr>)"

definition tellg :: "istream \<Rightarrow> nat option" where
  "tellg st = (if is_fail st \<or> is_eof st then None else Some (is_pos st))"

text \<open>\<open>std::getline\<close>: a stream that is not good, or has nothing left, gets \<open>failbit\<close>; a last line with no newline is
  delivered and sets \<open>eofbit\<close>.\<close>

definition getline :: "istream \<Rightarrow> string option \<times> istream" where
  "getline st =
     (let rest = drop (is_pos st) (is_data st); line = takeWhile (\<lambda>c. c \<noteq> CHR 0x0A) rest
      in if is_eof st \<or> is_fail st then (None, st\<lparr>is_fail := True\<rparr>)
         else if rest = [] then (None, st\<lparr>is_eof := True, is_fail := True\<rparr>)
         else if CHR 0x0A \<in> set rest then (Some line, st\<lparr>is_pos := is_pos st + length line + 1\<rparr>)
         else (Some line, st\<lparr>is_pos := length (is_data st), is_eof := True\<rparr>))"

text \<open>\<open>while (std::getline(file, line))\<close>.\<close>

function read_lines :: "istream \<Rightarrow> string list \<times> istream" where
  "read_lines st =
     (case getline st of
        (None, st') \<Rightarrow> ([], st')
      | (Some l, st') \<Rightarrow> (let (ls, st'') = read_lines st' in (l # ls, st'')))"
  by pat_completeness auto
termination read_lines
  by (relation "measure (\<lambda>st. length (is_data st) - is_pos st)") (auto simp: getline_def Let_def split: if_splits)

declare read_lines.simps [simp del]

section \<open>Reading (readNewLines, tailLoop)\<close>

text \<open>The two uses of \<open>tellg\<close> after the loop; minus one as a \<open>uint64_t\<close>.\<close>

definition end_position :: "istream \<Rightarrow> nat" where
  "end_position st =
     (case tellg st of
        Some n \<Rightarrow> n
      | None \<Rightarrow> (case tellg (seekg (length (is_data st)) st) of Some n \<Rightarrow> n | None \<Rightarrow> 2 ^ 64 - 1))"

definition kept_lines :: "string list \<Rightarrow> string list" where
  "kept_lines ls = filter (\<lambda>l. l \<noteq> []) (map strip_cr ls)"

definition readNewLines :: "string option \<Rightarrow> nat \<Rightarrow> string list \<times> nat" where
  "readNewLines file pos =
     (case file of
        None \<Rightarrow> ([], pos)
      | Some s \<Rightarrow>
          if length s \<le> pos then ([], pos)
          else let (ls, st) = read_lines (seekg pos (stream_open s)) in (kept_lines ls, end_position st))"

definition start_position :: "string option \<Rightarrow> nat" where
  "start_position file = (case file of None \<Rightarrow> 0 | Some s \<Rightarrow> length s)"

text \<open>The batches of the rounds, one for every look at the file.\<close>

fun tail_rounds :: "string option list \<Rightarrow> nat \<Rightarrow> string list list" where
  "tail_rounds [] pos = []"
| "tail_rounds (f # fs) pos = (let (ls, pos') = readNewLines f pos in ls # tail_rounds fs pos')"

section \<open>Posting (postRawLines)\<close>

definition raw_payload :: "int \<Rightarrow> string list \<Rightarrow> json" where
  "raw_payload sid lines = JObj [(''lines'', JArr (map JStr lines)), (''serverId'', JInt sid)]"

definition raw_request :: "env \<Rightarrow> string \<Rightarrow> json \<Rightarrow> request" where
  "raw_request e key body = \<lparr>rq_method = ''POST'', rq_headers = [(''X-API-Key'', key), (''Content-Type'', ''application/json'')],
     rq_params = [], rq_matches = [], rq_body = e_dump e body\<rparr>"

definition postRawLines :: "env \<Rightarrow> int \<Rightarrow> string \<Rightarrow> string list \<Rightarrow> panel \<Rightarrow> panel" where
  "postRawLines e sid key lines p =
     (if lines = [] \<or> key = [] then p
      else case serve e False (post_raw e) (raw_request e key (raw_payload sid lines)) p of None \<Rightarrow> p | Some (p', _) \<Rightarrow> p')"

section \<open>The manager\<close>

record tailer =
  tl_serverId :: int
  tl_logPath :: string
  tl_apiKey :: string

definition start_tailer :: "int \<Rightarrow> string \<times> string \<Rightarrow> tailer list \<Rightarrow> tailer list" where
  "start_tailer sid a ts =
     (if \<exists>t\<in>set ts. tl_serverId t = sid then ts
      else ts @ [\<lparr>tl_serverId = sid, tl_logPath = fst a, tl_apiKey = snd a\<rparr>])"

definition stop_tailer :: "int \<Rightarrow> tailer list \<Rightarrow> tailer list" where
  "stop_tailer sid ts = erase_first (\<lambda>t. tl_serverId t = sid) ts"

definition local_server :: "server_row \<Rightarrow> bool" where
  "local_server s = (sv_connectionMode s = ''local'' \<and> null_text (sv_logPath s) \<noteq> [])"

text \<open>An id that is no \<open>int\<close> throws; the second result tells whether nothing did.\<close>

fun start_tailers :: "server_row list \<Rightarrow> tailer list \<Rightarrow> tailer list \<times> bool" where
  "start_tailers [] ts = (ts, True)"
| "start_tailers (s # ss) ts =
     (if \<not> in_int (sv_id s) then (ts, False)
      else start_tailers ss (start_tailer (sv_id s) (null_text (sv_logPath s), null_text (sv_serverApiKey s)) ts))"

definition start_all_tailers :: "database \<Rightarrow> tailer list \<Rightarrow> tailer list \<times> bool" where
  "start_all_tailers d ts = start_tailers (t_select local_server (db_servers d)) ts"

interpretation tailers: registry tl_serverId start_tailer stop_tailer
  by unfold_locales (auto simp: start_tailer_def stop_tailer_def)

section \<open>What a round reads\<close>

lemma getline_unless_good: "is_eof st \<or> is_fail st \<Longrightarrow> getline st = (None, st\<lparr>is_fail := True\<rparr>)"
  by (simp add: getline_def)

text \<open>The loop reads the lines of what is left, and always leaves the stream failed.\<close>

lemma getlines_none: "CHR 0x0A \<notin> set s \<Longrightarrow> s \<noteq> [] \<Longrightarrow> getlines (CHR 0x0A) s = [s]"
proof (induction s)
  case (Cons c s)
  then show ?case by (cases s) auto
qed simp

lemma getlines_some:
  "CHR 0x0A \<in> set s \<Longrightarrow> getlines (CHR 0x0A) s =
     takeWhile (\<lambda>c. c \<noteq> CHR 0x0A) s # getlines (CHR 0x0A) (drop (length (takeWhile (\<lambda>c. c \<noteq> CHR 0x0A) s) + 1) s)"
  by (induction s) auto

lemma read_lines_eq:
  assumes "\<not> is_eof st" "\<not> is_fail st"
  shows "fst (read_lines st) = getlines (CHR 0x0A) (drop (is_pos st) (is_data st)) \<and>
    is_fail (snd (read_lines st)) \<and> is_data (snd (read_lines st)) = is_data st"
  using assms
proof (induction st rule: read_lines.induct)
  case (1 st)
  let ?rest = "drop (is_pos st) (is_data st)"
  let ?line = "takeWhile (\<lambda>c. c \<noteq> CHR 0x0A) ?rest"
  consider (none) "?rest = []" | (more) "CHR 0x0A \<in> set ?rest" | (last_line) "?rest \<noteq> []" "CHR 0x0A \<notin> set ?rest" by blast
  then show ?case
  proof cases
    case none
    then show ?thesis using 1(2,3) by (simp add: read_lines.simps [of st] getline_def)
  next
    case more
    let ?st = "st\<lparr>is_pos := is_pos st + length ?line + 1\<rparr>"
    have g: "getline st = (Some ?line, ?st)" using more 1(2,3) by (auto simp: getline_def Let_def)
    show ?thesis
      using 1(1) [OF g [symmetric] refl] 1(2,3) getlines_some [OF more]
      by (simp add: read_lines.simps [of st] g case_prod_beta Let_def add.commute add.left_commute)
  next
    case last_line
    let ?st = "st\<lparr>is_pos := length (is_data st), is_eof := True\<rparr>"
    have l: "?line = ?rest" using last_line by (auto simp: takeWhile_eq_all_conv)
    have g: "getline st = (Some ?rest, ?st)" using last_line 1(2,3) l by (simp add: getline_def Let_def)
    show ?thesis
      using 1(2,3) getlines_none [OF last_line(2,1)]
      by (simp add: read_lines.simps [of st] read_lines.simps [of ?st] g getline_unless_good)
  qed
qed

lemma end_position_failed: "is_fail st \<Longrightarrow> end_position st = 2 ^ 64 - 1"
  by (simp add: end_position_def tellg_def seekg_def Let_def)

lemma readNewLines_grown:
  "pos < length s \<Longrightarrow> readNewLines (Some s) pos = (kept_lines (getlines (CHR 0x0A) (drop pos s)), 2 ^ 64 - 1)"
  using read_lines_eq [of "seekg pos (stream_open s)"]
  by (simp add: readNewLines_def seekg_def stream_open_def case_prod_beta end_position_failed Let_def)

definition grown :: "nat \<Rightarrow> string option \<Rightarrow> bool" where
  "grown pos f = (case f of None \<Rightarrow> False | Some s \<Rightarrow> pos < length s)"

lemma readNewLines_same: "\<not> grown pos f \<Longrightarrow> readNewLines f pos = ([], pos)"
  by (auto simp: grown_def readNewLines_def split: option.splits)

lemma tail_rounds_none: "\<forall>f\<in>set fs. \<not> grown pos f \<Longrightarrow> concat (tail_rounds fs pos) = []"
  by (induction fs) (auto simp: readNewLines_same)

end
