(* ===== verification/RemoteApi.thy ===== *)
theory RemoteApi
  imports Registry Tasks EventRoutes Sql
begin

text \<open>
  The polling of remote APIs (core/remote_api_poller.cpp, remote_api_poller.h): the HTTP helper, the three
  adapters, what a poll stores, the poll loop with its failure count, and the manager. The remote servers are
  an argument, from host, port, headers and path to a status and a body. \<open>None\<close> is an exception. Where the
  code collects entries within a \<open>try\<close>, an entry that throws ends the collection but keeps what came before.
\<close>

type_synonym http = "string \<Rightarrow> int \<Rightarrow> (string \<times> string) list \<Rightarrow> string \<Rightarrow> (int \<times> string) option"

section \<open>HTTP helper\<close>

definition httpGetHelper :: "http \<Rightarrow> string \<Rightarrow> string \<Rightarrow> string \<Rightarrow> string \<Rightarrow> string \<Rightarrow> string option" where
  "httpGetHelper http baseUrl token path authHeader authPrefix =
     (let (host0, port0) = (if take 8 baseUrl = ''https://'' then (drop 8 baseUrl, 443)
            else if take 7 baseUrl = ''http://'' then (drop 7 baseUrl, 80) else (baseUrl, 443));
          hp = (case str_find '':'' host0 of
                  None \<Rightarrow> Some (host0, port0)
                | Some i \<Rightarrow> (case stoi (drop (i + 1) host0) of Inr n \<Rightarrow> Some (take i host0, n) | Inl _ \<Rightarrow> None));
          headers = (if token = [] then [] else [(authHeader, authPrefix @ token)])
      in case hp of
           None \<Rightarrow> None
         | Some (host, port) \<Rightarrow>
             (case http host port headers path of
                Some (st, body) \<Rightarrow> Some (if st = 200 then body else [])
              | None \<Rightarrow> Some []))"

definition pop_slash :: "string \<Rightarrow> string" where
  "pop_slash s = (if s \<noteq> [] \<and> last s = CHR ''/'' then butlast s else s)"

section \<open>Entries\<close>

record RPlayer =
  rp_steamId :: string
  rp_name :: string
  rp_points :: int
  rp_teamId :: int
  rp_squadId :: int

record REvent =
  rv_type :: string
  rv_steamId :: string
  rv_playerName :: string
  rv_detail :: string
  rv_timestamp :: string

text \<open>\<open>None\<close> of an entry throws, \<open>Some None\<close> leaves it out.\<close>

fun collect_entries :: "('j \<Rightarrow> 'x option option) \<Rightarrow> 'j list \<Rightarrow> 'x list" where
  "collect_entries f [] = []"
| "collect_entries f (j # js) = (case f j of None \<Rightarrow> [] | Some None \<Rightarrow> collect_entries f js | Some (Some x) \<Rightarrow> x # collect_entries f js)"

definition array_of :: "json \<Rightarrow> json list option" where
  "array_of j = (case j of JArr js \<Rightarrow> Some js | _ \<Rightarrow> None)"

abbreviation bind :: "'a option \<Rightarrow> ('a \<Rightarrow> 'b option) \<Rightarrow> 'b option" where
  "bind \<equiv> Option.bind"

section \<open>Another panel (SelfPanelAdapter)\<close>

definition self_player :: "string \<Rightarrow> string \<Rightarrow> json \<Rightarrow> RPlayer option option" where
  "self_player nameKey pointsKey j =
     bind (value_str j ''steamId'' []) (\<lambda>steam.
     bind (value_str j nameKey []) (\<lambda>name.
     (if pointsKey = [] then
        bind (value_int j ''teamId'' 0) (\<lambda>team.
        bind (value_int j ''squadId'' 0) (\<lambda>squad.
          Some (if steam = [] then None else Some \<lparr>rp_steamId = steam, rp_name = name, rp_points = 0, rp_teamId = team, rp_squadId = squad\<rparr>)))
      else
        bind (value_int j pointsKey 0) (\<lambda>points.
          Some (if steam = [] then None else Some \<lparr>rp_steamId = steam, rp_name = name, rp_points = points, rp_teamId = 0, rp_squadId = 0\<rparr>)))))"

definition self_event :: "json \<Rightarrow> REvent option option" where
  "self_event j =
     bind (value_str j ''type'' []) (\<lambda>ty. bind (value_str j ''steamId'' []) (\<lambda>steam.
     bind (value_str j ''playerName'' []) (\<lambda>name. bind (value_str j ''detail'' []) (\<lambda>detail.
     bind (value_str j ''timestamp'' []) (\<lambda>ts.
       Some (Some \<lparr>rv_type = ty, rv_steamId = steam, rv_playerName = name, rv_detail = detail, rv_timestamp = ts\<rparr>))))))"

text \<open>\<open>j.contains(key) && j[key].is_array()\<close>.\<close>

definition member_array :: "json \<Rightarrow> string \<Rightarrow> json list" where
  "member_array j key = (case j_lookup j key of Some (JArr js) \<Rightarrow> js | _ \<Rightarrow> [])"

definition parsed :: "env \<Rightarrow> string \<Rightarrow> (json \<Rightarrow> 'x) \<Rightarrow> 'x \<Rightarrow> 'x" where
  "parsed e resp f fallback = (if resp = [] then fallback else case e_parse e resp of None \<Rightarrow> fallback | Some j \<Rightarrow> f j)"

definition self_get :: "http \<Rightarrow> string \<Rightarrow> string \<Rightarrow> string \<Rightarrow> string option" where
  "self_get http base token path = httpGetHelper http base token path ''Authorization'' ''Bearer ''"

definition self_players :: "env \<Rightarrow> http \<Rightarrow> string \<Rightarrow> string \<Rightarrow> RPlayer list option" where
  "self_players e http base token = bind (self_get http base token ''/api/players/online'') (\<lambda>resp.
     Some (parsed e resp (\<lambda>j. collect_entries (self_player ''name'' []) (member_array j ''players'')) []))"

definition self_events :: "env \<Rightarrow> http \<Rightarrow> string \<Rightarrow> string \<Rightarrow> string \<Rightarrow> REvent list option" where
  "self_events e http base token since =
     bind (self_get http base token (''/api/events/log?page_size=100'' @ (if since = [] then [] else ''&since='' @ since))) (\<lambda>resp.
       Some (parsed e resp (\<lambda>j. collect_entries self_event (member_array j ''events'')) []))"

definition self_points :: "env \<Rightarrow> http \<Rightarrow> string \<Rightarrow> string \<Rightarrow> string \<Rightarrow> int option" where
  "self_points e http base token steam = bind (self_get http base token (''/api/points?steamId='' @ steam)) (\<lambda>resp.
     Some (parsed e resp (\<lambda>j. case value_int j ''balance'' 0 of None \<Rightarrow> 0 | Some n \<Rightarrow> n) 0))"

definition self_leaderboard :: "env \<Rightarrow> http \<Rightarrow> string \<Rightarrow> string \<Rightarrow> int \<Rightarrow> RPlayer list option" where
  "self_leaderboard e http base token limit =
     bind (self_get http base token (''/api/points/leaderboard?limit='' @ to_string limit)) (\<lambda>resp.
       Some (parsed e resp (\<lambda>j. collect_entries (self_player ''playerName'' ''balance'') (member_array j ''leaderboard'')) []))"

definition self_ping :: "http \<Rightarrow> string \<Rightarrow> string \<Rightarrow> bool option" where
  "self_ping http base token = map_option (\<lambda>r. r \<noteq> []) (self_get http base token ''/api/health'')"

section \<open>Any REST API (GenericApiAdapter)\<close>

text \<open>A path of keys with dots between them; the empty path is the value itself.\<close>

function (sequential) resolveField :: "json \<Rightarrow> string \<Rightarrow> json" where
  "resolveField j [] = j"
| "resolveField j (c # cs) =
     (case str_find ''.'' (c # cs) of
        None \<Rightarrow> (case j_lookup j (c # cs) of None \<Rightarrow> JNull | Some v \<Rightarrow> v)
      | Some i \<Rightarrow> (case j_lookup j (take i (c # cs)) of None \<Rightarrow> JNull | Some v \<Rightarrow> resolveField v (drop (i + 1) (c # cs))))"
  by pat_completeness auto
termination resolveField by (relation "measure (\<lambda>(j, s). length s)") auto

definition resolveString :: "env \<Rightarrow> json \<Rightarrow> string \<Rightarrow> string" where
  "resolveString e j path =
     (case resolveField j path of
        JStr s \<Rightarrow> s
      | JInt n \<Rightarrow> to_string (wrap32 n)
      | JFloat m x \<Rightarrow> to_string (double_to_int m x)
      | JNull \<Rightarrow> []
      | v \<Rightarrow> e_dump e v)"

definition resolveInt :: "json \<Rightarrow> string \<Rightarrow> int" where
  "resolveInt j path =
     (case resolveField j path of
        JInt n \<Rightarrow> wrap32 n
      | JFloat m x \<Rightarrow> double_to_int m x
      | JStr s \<Rightarrow> (case stoi s of Inr n \<Rightarrow> n | Inl _ \<Rightarrow> 0)
      | _ \<Rightarrow> 0)"

record generic =
  ga_base :: string
  ga_token :: string
  ga_config :: json
  ga_authHeader :: string
  ga_authPrefix :: string

text \<open>The constructor reads two members of the configuration and throws when it is no object.\<close>

definition generic_new :: "string \<Rightarrow> string \<Rightarrow> json \<Rightarrow> generic option" where
  "generic_new base token cfg =
     bind (value_str cfg ''authHeader'' ''Authorization'') (\<lambda>h.
     bind (value_str cfg ''authPrefix'' ''Bearer '') (\<lambda>pre.
       Some \<lparr>ga_base = pop_slash base, ga_token = token, ga_config = cfg, ga_authHeader = h, ga_authPrefix = pre\<rparr>))"

definition generic_get :: "http \<Rightarrow> generic \<Rightarrow> string \<Rightarrow> string option" where
  "generic_get http g path = httpGetHelper http (ga_base g) (ga_token g) path (ga_authHeader g) (ga_authPrefix g)"

text \<open>\<open>resolveInt(p, pc[key])\<close> for an optional key whose value must be a text.\<close>

definition optional_int :: "json \<Rightarrow> json \<Rightarrow> string \<Rightarrow> int option" where
  "optional_int pc p key = (case j_lookup pc key of None \<Rightarrow> Some 0 | Some (JStr f) \<Rightarrow> Some (resolveInt p f) | Some _ \<Rightarrow> None)"

definition named_field :: "env \<Rightarrow> json \<Rightarrow> json \<Rightarrow> string \<Rightarrow> string \<Rightarrow> string option" where
  "named_field e pc p key def = map_option (resolveString e p) (value_str pc key def)"

definition generic_player :: "env \<Rightarrow> json \<Rightarrow> json \<Rightarrow> RPlayer option option" where
  "generic_player e pc p =
     bind (named_field e pc p ''steamIdField'' ''steamId'') (\<lambda>steam.
     bind (named_field e pc p ''nameField'' ''name'') (\<lambda>name.
     bind (optional_int pc p ''pointsField'') (\<lambda>points.
     bind (optional_int pc p ''teamIdField'') (\<lambda>team.
     bind (optional_int pc p ''squadIdField'') (\<lambda>squad.
       Some (if steam = [] then None else Some \<lparr>rp_steamId = steam, rp_name = name, rp_points = points, rp_teamId = team, rp_squadId = squad\<rparr>))))))"

definition generic_event :: "env \<Rightarrow> json \<Rightarrow> json \<Rightarrow> REvent option option" where
  "generic_event e ec v =
     bind (named_field e ec v ''typeField'' ''type'') (\<lambda>ty.
     bind (named_field e ec v ''steamIdField'' ''steamId'') (\<lambda>steam.
     bind (named_field e ec v ''playerNameField'' ''playerName'') (\<lambda>name.
     bind (named_field e ec v ''detailField'' ''detail'') (\<lambda>detail.
     bind (named_field e ec v ''timestampField'' ''timestamp'') (\<lambda>ts.
       Some (if ty = [] then None
             else Some \<lparr>rv_type = ty, rv_steamId = steam, rv_playerName = name, rv_detail = detail, rv_timestamp = ts\<rparr>))))))"

definition generic_leader :: "env \<Rightarrow> json \<Rightarrow> json \<Rightarrow> RPlayer option option" where
  "generic_leader e lc p =
     bind (named_field e lc p ''steamIdField'' ''steamId'') (\<lambda>steam.
     bind (named_field e lc p ''playerNameField'' ''playerName'') (\<lambda>name.
     bind (map_option (resolveInt p) (value_str lc ''pointsField'' ''balance'')) (\<lambda>points.
       Some (if steam = [] then None else Some \<lparr>rp_steamId = steam, rp_name = name, rp_points = points, rp_teamId = 0, rp_squadId = 0\<rparr>))))"

definition replace_first :: "string \<Rightarrow> string \<Rightarrow> string \<Rightarrow> string" where
  "replace_first pat new s = (case str_find pat s of None \<Rightarrow> s | Some i \<Rightarrow> str_replace i (length pat) new s)"

text \<open>A section of the configuration that is missing gives nothing; its array is the one at \<open>arrayField\<close>.\<close>

definition generic_fetch ::
  "env \<Rightarrow> http \<Rightarrow> generic \<Rightarrow> string \<Rightarrow> string \<Rightarrow> string \<Rightarrow> (string \<Rightarrow> string) \<Rightarrow> (json \<Rightarrow> json \<Rightarrow> 'x option option) \<Rightarrow> 'x list option" where
  "generic_fetch e http g sect defaultEndpoint defaultArray adapt entry =
     (case j_lookup (ga_config g) sect of
        None \<Rightarrow> Some []
      | Some pc \<Rightarrow>
          bind (value_str pc ''endpoint'' defaultEndpoint) (\<lambda>endpoint.
          bind (value_str pc ''arrayField'' defaultArray) (\<lambda>arrayField.
          bind (generic_get http g (adapt endpoint)) (\<lambda>resp.
            Some (parsed e resp (\<lambda>j. case array_of (resolveField j arrayField) of None \<Rightarrow> [] | Some js \<Rightarrow> collect_entries (entry pc) js) [])))))"

definition generic_players :: "env \<Rightarrow> http \<Rightarrow> generic \<Rightarrow> RPlayer list option" where
  "generic_players e http g = generic_fetch e http g ''players'' ''/api/players'' ''players'' (\<lambda>s. s) (generic_player e)"

definition generic_events :: "env \<Rightarrow> http \<Rightarrow> generic \<Rightarrow> string \<Rightarrow> REvent list option" where
  "generic_events e http g since = generic_fetch e http g ''events'' ''/api/events'' ''events''
     (\<lambda>s. if since = [] then s else s @ (if CHR ''?'' \<in> set s then ''&'' else ''?'') @ ''since='' @ since) (generic_event e)"

definition generic_leaderboard :: "env \<Rightarrow> http \<Rightarrow> generic \<Rightarrow> int \<Rightarrow> RPlayer list option" where
  "generic_leaderboard e http g limit = generic_fetch e http g ''leaderboard'' ''/api/leaderboard?limit={limit}'' ''leaderboard''
     (replace_first ''{limit}'' (to_string limit)) (generic_leader e)"

definition generic_points :: "env \<Rightarrow> http \<Rightarrow> generic \<Rightarrow> string \<Rightarrow> int option" where
  "generic_points e http g steam =
     (case j_lookup (ga_config g) ''points'' of
        None \<Rightarrow> Some 0
      | Some pc \<Rightarrow>
          bind (value_str pc ''endpoint'' ''/api/points?steamId={steamId}'') (\<lambda>endpoint.
          bind (generic_get http g (replace_first ''{steamId}'' steam endpoint)) (\<lambda>resp.
            Some (parsed e resp (\<lambda>j. case value_str pc ''balanceField'' ''balance'' of None \<Rightarrow> 0 | Some f \<Rightarrow> resolveInt j f) 0))))"

definition generic_ping :: "http \<Rightarrow> generic \<Rightarrow> bool option" where
  "generic_ping http g =
     (case j_lookup (ga_config g) ''health'' of
        None \<Rightarrow> Some True
      | Some hc \<Rightarrow> bind (value_str hc ''endpoint'' ''/api/health'') (\<lambda>endpoint. map_option (\<lambda>r. r \<noteq> []) (generic_get http g endpoint)))"

section \<open>The points cloud (PluginSquadAdapter)\<close>

definition wrap64 :: "int \<Rightarrow> int" where
  "wrap64 n = (n + 2 ^ 63) mod 2 ^ 64 - 2 ^ 63"

definition double_to_int64 :: "int \<Rightarrow> int \<Rightarrow> int" where
  "double_to_int64 m x =
     (let a = (if 0 \<le> x then \<bar>m\<bar> * 2 ^ nat x else \<bar>m\<bar> div 2 ^ nat (- x)); v = (if m < 0 then - a else a)
      in if - (2 ^ 63) \<le> v \<and> v < 2 ^ 63 then v else - (2 ^ 63))"

definition value_int64 :: "json \<Rightarrow> string \<Rightarrow> int \<Rightarrow> int option" where
  "value_int64 j key fallback =
     (if \<not> is_object j then None
      else case j_lookup j key of
             None \<Rightarrow> Some fallback
           | Some (JInt n) \<Rightarrow> Some (wrap64 n)
           | Some (JFloat m x) \<Rightarrow> Some (double_to_int64 m x)
           | Some (JBool b) \<Rightarrow> Some (if b then 1 else 0)
           | _ \<Rightarrow> None)"

definition squad_base :: string where
  "squad_base = ''https://plugin.squad.cyou/api.php''"

definition squad_path :: "string \<Rightarrow> string" where
  "squad_path url =
     (case str_find ''://'' url of
        None \<Rightarrow> url
      | Some i \<Rightarrow> (case str_find ''/'' (drop (i + 3) url) of None \<Rightarrow> url | Some k \<Rightarrow> drop (i + 3 + k) url))"

definition squad_get :: "env \<Rightarrow> http \<Rightarrow> string \<Rightarrow> string" where
  "squad_get e http url =
     (case http (config_get (e_cfg e) ''PLUGIN_API_HOST'' ''plugin.squad.cyou'') (config_getInt (e_cfg e) ''PLUGIN_API_PORT'' 443) [] (squad_path url) of
        Some (st, body) \<Rightarrow> if st = 200 then body else []
      | None \<Rightarrow> [])"

definition squad_points :: "env \<Rightarrow> http \<Rightarrow> string \<Rightarrow> string \<Rightarrow> string \<Rightarrow> int" where
  "squad_points e http key sid steam =
     parsed e (squad_get e http (squad_base @ ''?action=dev_get_points&api_key='' @ key @ ''&server_id='' @ sid @ ''&steamid='' @ steam))
       (\<lambda>j. if value_bool j ''success'' False = Some True then (case value_int j ''points'' 0 of None \<Rightarrow> 0 | Some n \<Rightarrow> n) else 0) 0"

definition squad_entry :: "json \<Rightarrow> RPlayer option option" where
  "squad_entry j =
     bind (value_int64 j ''steamid'' 0) (\<lambda>steam. bind (value_str j ''name'' []) (\<lambda>name. bind (value_int j ''points'' 0) (\<lambda>points.
       Some (if steam = 0 then None
             else Some \<lparr>rp_steamId = to_string steam, rp_name = name, rp_points = points, rp_teamId = 0, rp_squadId = 0\<rparr>))))"

definition squad_page :: "env \<Rightarrow> http \<Rightarrow> string \<Rightarrow> string \<Rightarrow> int \<Rightarrow> int \<Rightarrow> json option" where
  "squad_page e http key sid page sz =
     parsed e (squad_get e http (squad_base @ ''?action=dev_get_leaderboard&api_key='' @ key @ ''&server_id='' @ sid @ ''&page='' @ to_string page @
       ''&page_size='' @ to_string sz)) Some None"

text \<open>The entries of a page, and whether and with how many fewer to go on: not after a page that cannot be read, is
  empty or throws, nor after the last one. A page has fewer than 2 to the 31 entries.\<close>

definition squad_step :: "json option \<Rightarrow> int \<Rightarrow> int \<Rightarrow> RPlayer list \<times> int option" where
  "squad_step resp page remaining =
     (case resp of
        None \<Rightarrow> ([], None)
      | Some j \<Rightarrow>
          if value_bool j ''success'' False \<noteq> Some True \<or> member_array j ''leaderboard'' = [] then ([], None)
          else
            let lb = member_array j ''leaderboard''; ps = collect_entries squad_entry lb; rest = remaining - int (length lb)
            in if list_ex (\<lambda>v. squad_entry v = None) lb \<or> value_int j ''total'' 0 = None then (ps, None)
               else (case value_int j ''total_pages'' 1 of
                 None \<Rightarrow> (ps, None)
               | Some pages \<Rightarrow> (ps, if pages \<le> page \<or> rest \<le> 0 then None else Some rest)))"

lemma squad_step_less: "squad_step resp page remaining = (ps, Some rest) \<Longrightarrow> rest < remaining \<and> 0 < rest"
  by (cases "member_array (the resp) ''leaderboard''") (auto simp: squad_step_def Let_def split: option.splits if_splits)

function squad_leaderboard :: "env \<Rightarrow> http \<Rightarrow> string \<Rightarrow> string \<Rightarrow> int \<Rightarrow> int \<Rightarrow> RPlayer list" where
  "squad_leaderboard e http key sid page remaining =
     (if remaining \<le> 0 then []
      else
        (case squad_step (squad_page e http key sid page (min remaining (config_getInt (e_cfg e) ''LEADERBOARD_PAGE_SIZE'' 100))) page remaining of
           (ps, None) \<Rightarrow> ps
         | (ps, Some rest) \<Rightarrow> ps @ squad_leaderboard e http key sid (page + 1) rest))"
  by pat_completeness auto
termination squad_leaderboard
  by (relation "measure (\<lambda>(e, http, key, sid, page, remaining). nat remaining)") (auto dest: squad_step_less [OF sym])

declare squad_leaderboard.simps [simp del]

definition squad_ping :: "env \<Rightarrow> http \<Rightarrow> string \<Rightarrow> bool" where
  "squad_ping e http key = parsed e (squad_get e http (squad_base @ ''?action=dev_get_servers&api_key='' @ key))
     (\<lambda>j. value_bool j ''success'' False = Some True) False"

section \<open>The adapters\<close>

datatype adapter = Self_Panel string string | Generic generic | Plugin_Squad string string

definition fetchPlayers :: "env \<Rightarrow> http \<Rightarrow> adapter \<Rightarrow> RPlayer list option" where
  "fetchPlayers e http a = (case a of Self_Panel base token \<Rightarrow> self_players e http base token | Generic g \<Rightarrow> generic_players e http g
     | Plugin_Squad _ _ \<Rightarrow> Some [])"

definition fetchEvents :: "env \<Rightarrow> http \<Rightarrow> adapter \<Rightarrow> string \<Rightarrow> REvent list option" where
  "fetchEvents e http a since = (case a of Self_Panel base token \<Rightarrow> self_events e http base token since
     | Generic g \<Rightarrow> generic_events e http g since | Plugin_Squad _ _ \<Rightarrow> Some [])"

definition fetchPoints :: "env \<Rightarrow> http \<Rightarrow> adapter \<Rightarrow> string \<Rightarrow> int option" where
  "fetchPoints e http a steam = (case a of Self_Panel base token \<Rightarrow> self_points e http base token steam
     | Generic g \<Rightarrow> generic_points e http g steam | Plugin_Squad key sid \<Rightarrow> Some (squad_points e http key sid steam))"

definition fetchLeaderboard :: "env \<Rightarrow> http \<Rightarrow> adapter \<Rightarrow> int \<Rightarrow> RPlayer list option" where
  "fetchLeaderboard e http a limit = (case a of Self_Panel base token \<Rightarrow> self_leaderboard e http base token limit
     | Generic g \<Rightarrow> generic_leaderboard e http g limit | Plugin_Squad key sid \<Rightarrow> Some (squad_leaderboard e http key sid 1 limit))"

definition adapter_ping :: "env \<Rightarrow> http \<Rightarrow> adapter \<Rightarrow> bool option" where
  "adapter_ping e http a = (case a of Self_Panel base token \<Rightarrow> self_ping http base token | Generic g \<Rightarrow> generic_ping http g
     | Plugin_Squad key _ \<Rightarrow> Some (squad_ping e http key))"

section \<open>What a poll stores\<close>

definition same_account :: "int \<Rightarrow> string \<Rightarrow> points_row \<Rightarrow> bool" where
  "same_account sid steam r = (p_serverId r = Some sid \<and> p_steamId r = steam)"

text \<open>\<open>INSERT OR REPLACE INTO points\<close>: nothing is written to \<open>point_logs\<close>.\<close>

definition points_replace :: "time \<Rightarrow> int \<Rightarrow> string \<Rightarrow> string \<Rightarrow> int \<Rightarrow> database \<Rightarrow> database" where
  "points_replace now sid steam name n d =
     (if \<not> server_exists d sid then d
      else d\<lparr>db_points := t_insert (\<lambda>i. \<lparr>p_id = i, p_serverId = Some sid, p_steamId = steam, p_playerName = Some name,
             p_balance = n, p_lifetimeEarned = n, p_lastUpdated = now\<rparr>) (t_delete (same_account sid steam) (db_points d))\<rparr>)"

definition store_player :: "time \<Rightarrow> int \<Rightarrow> RPlayer \<Rightarrow> database \<Rightarrow> database" where
  "store_player now sid p d =
     (let d1 = upsert_player now sid (rp_steamId p) (rp_name p) d
      in if 0 < rp_points p then points_replace now sid (rp_steamId p) (rp_name p) (rp_points p) d1 else d1)"

definition push_all :: "env \<Rightarrow> string \<Rightarrow> int \<Rightarrow> nat \<Rightarrow> world \<Rightarrow> world" where
  "push_all e ty sid n w = w\<lparr>w_out := w_out w @ [JObj [(''type'', JStr ''remote_sync''),
     (''data'', JStr (e_dump e (JObj [(''count'', JInt (wrap32 (int n))), (''serverId'', JInt sid), (''type'', JStr ty)])))]]\<rparr>"

definition processPlayers :: "env \<Rightarrow> int \<Rightarrow> RPlayer list \<Rightarrow> world \<Rightarrow> world" where
  "processPlayers e sid ps w =
     (let w1 = on_db (fold (store_player (e_now e) sid) ps) w
      in if ps = [] then w1 else push_all e ''remote_players_sync'' sid (length ps) w1)"

text \<open>The time columns take the text the remote sends; \<open>when\<close> gives the time it denotes.\<close>

definition store_event :: "(string \<Rightarrow> time) \<Rightarrow> int \<Rightarrow> REvent \<Rightarrow> database \<Rightarrow> database" where
  "store_event when sid v d =
     (let at = when (rv_timestamp v)
      in if rv_type v = ''kill'' then
           (if \<not> server_exists d sid then d
            else d\<lparr>db_kills := t_insert (\<lambda>i. \<lparr>k_id = i, k_serverId = sid, k_killer = rv_playerName v, k_victim = rv_detail v,
                   k_weapon = [], k_timestamp = at\<rparr>) (db_kills d)\<rparr>)
         else if rv_type v = ''chat'' then
           d\<lparr>db_chat_logs := t_insert (\<lambda>i. \<lparr>c_id = i, c_serverId = sid, c_playerName = rv_playerName v, c_steamId = rv_steamId v,
              c_message = rv_detail v, c_type = ''all'', c_timestamp = at, c_roundId = None, c_channel = None\<rparr>) (db_chat_logs d)\<rparr>
         else if rv_type v = ''join'' \<or> rv_type v = ''leave'' then
           (if \<not> server_exists d sid then d
            else d\<lparr>db_events := t_insert (\<lambda>i. \<lparr>e_id = i, e_serverId = sid, e_steamId = rv_steamId v, e_playerName = rv_playerName v,
                   e_eventType = rv_type v, e_timestamp = at\<rparr>) (db_events d)\<rparr>)
         else d)"

definition last_time :: "REvent list \<Rightarrow> string \<Rightarrow> string" where
  "last_time evs t = fold (\<lambda>v t. if rv_timestamp v = [] then t else rv_timestamp v) evs t"

definition processEvents :: "env \<Rightarrow> (string \<Rightarrow> time) \<Rightarrow> int \<Rightarrow> REvent list \<Rightarrow> world \<Rightarrow> world" where
  "processEvents e when sid evs w =
     (let w1 = on_db (fold (store_event when sid) evs) w
      in if evs = [] then w1 else push_all e ''remote_events_sync'' sid (length evs) w1)"

section \<open>The poll loop\<close>

record poller =
  rm_serverId :: int
  rm_adapter :: adapter
  rm_lastEventTime :: string
  rm_failCount :: nat

text \<open>One round. Each of the three requests has its own \<open>try\<close>; only what throws outside them, the ping, counts as
  a failure.\<close>

definition poll_round :: "env \<Rightarrow> http \<Rightarrow> (string \<Rightarrow> time) \<Rightarrow> poller \<times> world \<Rightarrow> poller \<times> world" where
  "poll_round e http when pw =
     (let (p, w) = pw; a = rm_adapter p; sid = rm_serverId p; due = (0 < rm_failCount p \<and> rm_failCount p mod 5 = 0)
      in if due \<and> adapter_ping e http a = None then (p\<lparr>rm_failCount := rm_failCount p + 1\<rparr>, w)
         else if due \<and> adapter_ping e http a = Some False then (p, w)
         else
           let w1 = (case fetchPlayers e http a of None \<Rightarrow> w | Some ps \<Rightarrow> processPlayers e sid ps w);
               evs = fetchEvents e http a (rm_lastEventTime p);
               w2 = (case evs of None \<Rightarrow> w1 | Some vs \<Rightarrow> processEvents e when sid vs w1);
               t = (case evs of None \<Rightarrow> rm_lastEventTime p | Some vs \<Rightarrow> last_time vs (rm_lastEventTime p));
               w3 = (case fetchLeaderboard e http a (config_getInt (e_cfg e) ''LEADERBOARD_PAGE_SIZE'' 100) of
                       None \<Rightarrow> w2 | Some ps \<Rightarrow> if ps = [] then w2 else processPlayers e sid ps w2)
           in (p\<lparr>rm_lastEventTime := t, rm_failCount := 0\<rparr>, w3))"

section \<open>The manager\<close>

text \<open>The adapter of a server; \<open>None\<close> when the configuration of a generic one is no JSON object.\<close>

definition adapter_for :: "env \<Rightarrow> server_row \<Rightarrow> adapter option" where
  "adapter_for e s =
     (let url = null_text (sv_remoteApiUrl s); token = null_text (sv_remoteApiToken s)
      in if sv_apiType s = ''plugin_squad'' then
           Some (Plugin_Squad token (case e_parse e (sv_apiConfig s) of None \<Rightarrow> []
             | Some j \<Rightarrow> (case value_str j ''server_id'' [] of None \<Rightarrow> [] | Some t \<Rightarrow> t)))
         else if sv_apiType s = ''generic'' then
           map_option Generic (generic_new url token (case e_parse e (sv_apiConfig s) of None \<Rightarrow> JNull | Some j \<Rightarrow> j))
         else Some (Self_Panel (pop_slash url) token))"

definition remote_mode :: "server_row \<Rightarrow> bool" where
  "remote_mode s = (sv_connectionMode s = ''remote_api'' \<or> sv_connectionMode s = ''external_api'')"

definition new_poller :: "int \<Rightarrow> adapter \<Rightarrow> poller" where
  "new_poller sid a = \<lparr>rm_serverId = sid, rm_adapter = a, rm_lastEventTime = [], rm_failCount = 0\<rparr>"

text \<open>The pollers started before something throws stay; the second result tells whether nothing did.\<close>

fun startPollers :: "env \<Rightarrow> server_row list \<Rightarrow> poller list \<Rightarrow> poller list \<times> bool" where
  "startPollers e [] ps = (ps, True)"
| "startPollers e (s # ss) ps =
     (if \<not> in_int (sv_id s) then (ps, False)
      else case adapter_for e s of
             None \<Rightarrow> (ps, False)
           | Some a \<Rightarrow> startPollers e ss (ps @ [new_poller (sv_id s) a]))"

definition startAll :: "env \<Rightarrow> database \<Rightarrow> poller list \<Rightarrow> poller list \<times> bool" where
  "startAll e d ps = startPollers e (t_select (\<lambda>s. remote_mode s \<and> null_text (sv_remoteApiUrl s) \<noteq> []) (db_servers d)) ps"

definition startServer :: "env \<Rightarrow> database \<Rightarrow> int \<Rightarrow> poller list \<Rightarrow> poller list \<times> bool" where
  "startServer e d sid ps =
     (if \<exists>p\<in>set ps. rm_serverId p = sid then (ps, True)
      else case t_first (\<lambda>s. sv_id s = sid \<and> remote_mode s) (db_servers d) of
             None \<Rightarrow> (ps, True)
           | Some s \<Rightarrow> (case adapter_for e s of None \<Rightarrow> (ps, False) | Some a \<Rightarrow> (ps @ [new_poller sid a], True)))"

definition stopServer :: "int \<Rightarrow> poller list \<Rightarrow> poller list" where
  "stopServer sid ps = erase_first (\<lambda>p. rm_serverId p = sid) ps"

lemma startServer_cases:
  "k \<notin> rm_serverId ` set ps \<Longrightarrow> fst (startServer e d k ps) = ps \<or> (\<exists>a. fst (startServer e d k ps) = ps @ [new_poller k a])"
  by (auto simp: startServer_def split: option.splits)

interpretation pollers: registry rm_serverId "\<lambda>sid a ps. fst (startServer (fst a) (snd a) sid ps)" stopServer
proof
  fix k a and ps :: "poller list"
  show "k \<in> rm_serverId ` set ps \<Longrightarrow> fst (startServer (fst a) (snd a) k ps) = ps"
    by (auto simp: startServer_def)
  have "rm_serverId (new_poller k b) = k" for b by (simp add: new_poller_def)
  then show "k \<notin> rm_serverId ` set ps \<Longrightarrow> fst (startServer (fst a) (snd a) k ps) = ps \<or>
      (\<exists>w. rm_serverId w = k \<and> fst (startServer (fst a) (snd a) k ps) = ps @ [w])"
    using startServer_cases [of k ps "fst a" "snd a"] by blast
  show "stopServer k ps = erase_first (\<lambda>w. rm_serverId w = k) ps" by (simp add: stopServer_def)
qed

end
