(* ===== verification/WorkerProps.thy ===== *)
theory WorkerProps
  imports LocalTail RemoteApi EventProps ModerationRoutes SettingsRoutes AuthProps
begin

text \<open>
  Properties of the background workers: what a local log tailer delivers and what the panel does with it, what the
  polls of remote servers store, when they are given up, and the registry both managers keep.
\<close>

section \<open>The local log tailer\<close>

text \<open>C32: A tailer delivers one batch in its life: the non-empty lines, without carriage returns, of what the file
  holds beyond its first size when it is first seen longer than that. Whatever is appended later is never read, since
  the loop leaves the stream failed and the position is then minus one.\<close>
theorem tail_single_batch:
  assumes "list_all (\<lambda>f. \<not> grown (2 ^ 64 - 1) f) files"
  shows "concat (tail_rounds files (start_position file0)) =
    (case find (grown (start_position file0)) files of
       Some (Some s) \<Rightarrow> kept_lines (getlines (CHR 0x0A) (drop (start_position file0) s))
     | _ \<Rightarrow> [])"
  using assms
proof (induction files)
  case (Cons f fs)
  show ?case
  proof (cases "grown (start_position file0) f")
    case False
    then show ?thesis using Cons by (simp add: readNewLines_same)
  next
    case True
    then obtain s where s: "f = Some s" "start_position file0 < length s" by (auto simp: grown_def split: option.splits)
    have "concat (tail_rounds fs (2 ^ 64 - 1)) = []"
      using Cons.prems by (intro tail_rounds_none) (simp add: list_all_iff)
    then show ?thesis using True readNewLines_grown [OF s(2)] by (simp add: s(1))
  qed
qed simp

theorem tail_single_batch_witness:
  "concat (tail_rounds [Some ''a'', Some (''a'' @ [CHR 0x0A] @ ''b''), Some (''a'' @ [CHR 0x0A] @ ''bc'' @ [CHR 0x0A] @ ''d'')]
     (start_position (Some ''a''))) = [''b'']"
  by (subst tail_single_batch) (simp_all add: grown_def start_position_def kept_lines_def strip_cr_def)


definition tail_env :: env where
  "tail_env = (demo_env 0)\<lparr>e_dump := (\<lambda>_. ''body''), e_parse := (\<lambda>_. Some (raw_payload 1 [''line'']))\<rparr>"


section \<open>What a poll stores\<close>

lemma points_delete_ok:
  "points_ok d \<Longrightarrow> points_ok (d\<lparr>db_points := t_delete P (db_points d)\<rparr>)"
  by (auto simp: points_ok_def server_exists_def ids_ok_delete distinct_map_filter)

lemma replace_is_insert:
  "server_exists d sid \<Longrightarrow> points_replace now sid steam name n d =
     points_insert sid steam name n n now (d\<lparr>db_points := t_delete (same_account sid steam) (db_points d)\<rparr>)"
  by (auto simp: points_replace_def points_insert_def server_exists_def same_account_def)

lemma points_replace_ok: "points_ok d \<Longrightarrow> in_int n \<Longrightarrow> points_ok (points_replace now sid steam name n d)"
  by (cases "server_exists d sid")
    (simp_all add: replace_is_insert points_insert_ok points_delete_ok server_exists_def, simp add: points_replace_def server_exists_def)

lemma balance_of_replace:
  assumes "server_exists d sid"
  shows "balance_of (points_replace now sid steam name n d) s st = (if s = sid \<and> st = steam then n else balance_of d s st)"
proof -
  let ?d = "d\<lparr>db_points := t_delete (same_account sid steam) (db_points d)\<rparr>"
  have "balance_of ?d s st = balance_of d s st" if "\<not> (s = sid \<and> st = steam)"
  proof -
    have "find (\<lambda>r. p_serverId r = Some s \<and> p_steamId r = st) (filter (\<lambda>r. \<not> same_account sid steam r) (t_rows (db_points d))) =
        find (\<lambda>r. p_serverId r = Some s \<and> p_steamId r = st) (t_rows (db_points d))"
      using that by (intro find_filter_other) (auto simp: same_account_def)
    then show ?thesis by (simp add: balance_of_def)
  qed
  moreover have "server_exists ?d sid" using assms by (simp add: server_exists_def)
  ultimately show ?thesis
    using assms balance_of_insert [of ?d sid steam name n n now s st]
    by (auto simp: replace_is_insert same_account_def)
qed

lemma store_player_points:
  assumes "server_exists d sid"
  shows "balance_of (store_player now sid p d) s st =
      (if s = sid \<and> st = rp_steamId p \<and> 0 < rp_points p then rp_points p else balance_of d s st)"
    "points_ok d \<Longrightarrow> in_int (rp_points p) \<Longrightarrow> points_ok (store_player now sid p d)"
    "logged (store_player now sid p d) = logged d" "server_exists (store_player now sid p d) = server_exists d"
proof -
  let ?u = "upsert_player now sid (rp_steamId p) (rp_name p) d"
  have u: "db_points ?u = db_points d" "db_point_logs ?u = db_point_logs d" by (simp_all add: upsert_player_def Let_def)
  have b: "balance_of ?u = balance_of d" by (rule balance_of_cong) (rule u)
  show "balance_of (store_player now sid p d) s st =
      (if s = sid \<and> st = rp_steamId p \<and> 0 < rp_points p then rp_points p else balance_of d s st)"
    using assms by (simp add: store_player_def Let_def balance_of_replace b)
  show "points_ok d \<Longrightarrow> in_int (rp_points p) \<Longrightarrow> points_ok (store_player now sid p d)"
    using points_ok_cong [OF u(1)] by (simp add: store_player_def Let_def points_replace_ok)
  show "logged (store_player now sid p d) = logged d"
    by (simp add: store_player_def Let_def logged_def points_replace_def u fun_eq_iff)
  show "server_exists (store_player now sid p d) = server_exists d"
    by (simp add: store_player_def Let_def points_replace_def) (simp add: server_exists_def fun_eq_iff)
qed

text \<open>The points the list gives an account: those of its last entry with any.\<close>

definition remote_points :: "RPlayer list \<Rightarrow> string \<Rightarrow> int option" where
  "remote_points ps steam = map_option rp_points (find (\<lambda>p. rp_steamId p = steam \<and> 0 < rp_points p) (rev ps))"

text \<open>C39: A poll sets the balance of every listed account with points to exactly those points, whatever the panel's
  own points were, writes nothing to the points log, and touches no other account: for these accounts the ledger no
  longer explains the balance.\<close>
theorem remote_points_overwrite:
  assumes "points_ok (w_db w)" "server_exists (w_db w) sid" "list_all (\<lambda>p. in_int (rp_points p)) ps"
  shows "points_ok (w_db (processPlayers e sid ps w)) \<and>
    logged (w_db (processPlayers e sid ps w)) = logged (w_db w) \<and>
    balance_of (w_db (processPlayers e sid ps w)) s st =
      (case remote_points ps st of Some n \<Rightarrow> if s = sid then n else balance_of (w_db w) s st | None \<Rightarrow> balance_of (w_db w) s st)"
proof -
  have "points_ok (fold (store_player now sid) ps d) \<and> logged (fold (store_player now sid) ps d) = logged d \<and>
      balance_of (fold (store_player now sid) ps d) s st =
        (case remote_points ps st of Some n \<Rightarrow> if s = sid then n else balance_of d s st | None \<Rightarrow> balance_of d s st)"
    if "points_ok d" "server_exists d sid" "list_all (\<lambda>p. in_int (rp_points p)) ps" for d now
    using that
    by (induction ps arbitrary: d)
      (auto simp: store_player_points remote_points_def find_append split: option.splits)
  from this [OF assms, of "e_now e"] show ?thesis
    by (cases "ps = []") (simp_all add: processPlayers_def push_all_def Let_def)
qed

definition remote_db :: database where
  "remote_db = snd (addPoints 0 1 ''p'' ''n'' 5 ''r'' ''o'' demo_db)"

theorem remote_points_overwrite_witness:
  "logged (w_db (processPlayers (demo_env 0) 1 [\<lparr>rp_steamId = ''p'', rp_name = ''n'', rp_points = 70, rp_teamId = 0, rp_squadId = 0\<rparr>]
       (demo_world demo_db))) 1 ''p'' = 0 \<and>
   balance_of (w_db (processPlayers (demo_env 0) 1 [\<lparr>rp_steamId = ''p'', rp_name = ''n'', rp_points = 70, rp_teamId = 0, rp_squadId = 0\<rparr>]
       (demo_world demo_db))) 1 ''p'' = 70"
proof -
  have l: "logged demo_db 1 ''p'' = 0" by (simp add: logged_def demo_db_def empty_db_def t_empty_def)
  from remote_points_overwrite [of "demo_world demo_db" 1
      "[\<lparr>rp_steamId = ''p'', rp_name = ''n'', rp_points = 70, rp_teamId = 0, rp_squadId = 0\<rparr>]" "demo_env 0" 1 "''p''"] l
  show ?thesis by (simp add: demo_db_ok remote_points_def in_int_def)
qed

section \<open>The poll loop\<close>

lemma poll_round_fails:
  "rm_failCount (fst pw) = 0 \<Longrightarrow> rm_failCount (fst (poll_round e http when pw)) = 0"
  by (cases pw) (simp add: poll_round_def Let_def)

text \<open>Whatever the remote server does, a poller never counts a failure, so it never pings and never leaves out a
  round: the exceptions of the three requests are all caught inside the \<open>try\<close> that counts them.\<close>
theorem polls_never_fail:
  "rm_failCount (fst (fold (\<lambda>(e, http, when). poll_round e http when) rounds (new_poller sid a, w))) = 0"
proof -
  have "rm_failCount (fst (fold (\<lambda>(e, http, when). poll_round e http when) rounds pw)) = 0" if "rm_failCount (fst pw) = 0" for pw
    using that
  proof (induction rounds arbitrary: pw)
    case (Cons r rounds)
    obtain e h wh where "r = (e, h, wh)" by (cases r)
    then show ?case using Cons.IH [OF poll_round_fails [OF Cons.prems]] by simp
  qed simp
  then show ?thesis by (simp add: new_poller_def)
qed

section \<open>Paths into a response\<close>

fun look_up :: "json \<Rightarrow> string list \<Rightarrow> json" where
  "look_up j [] = j"
| "look_up j (k # ks) = (case j_lookup j k of None \<Rightarrow> JNull | Some v \<Rightarrow> look_up v ks)"

fun path_text :: "string list \<Rightarrow> string" where
  "path_text [] = []"
| "path_text [k] = k"
| "path_text (k # ks) = k @ ''.'' @ path_text ks"

lemma str_find_dot: "CHR ''.'' \<notin> set k \<Longrightarrow> str_find ''.'' (k @ ''.'' @ s) = Some (length k)"
  by (induction k) (auto simp: str_find_char_append)

lemma str_find_no_dot: "CHR ''.'' \<notin> set k \<Longrightarrow> str_find ''.'' k = None"
  by (auto simp: str_find_None_iff)

text \<open>A configured field path is looked up key by key.\<close>
theorem field_path_lookup:
  assumes "\<forall>k\<in>set ks. k \<noteq> [] \<and> CHR ''.'' \<notin> set k"
  shows "resolveField j (path_text ks) = look_up j ks"
  using assms
proof (induction ks arbitrary: j rule: path_text.induct)
  case (2 k)
  then show ?case by (cases k) (auto simp: str_find_no_dot split: option.splits)
next
  case (3 k k' ks)
  from 3 obtain c k0 where k: "k = c # k0" by (cases k) auto
  from 3 have f: "str_find ''.'' (k @ ''.'' @ path_text (k' # ks)) = Some (length k)" by (intro str_find_dot) simp
  show ?case
    using 3 f by (simp add: k split: option.splits)
qed simp

text \<open>Polled from another panel, a panel gets no events and no leaderboard: its answers to the two requests,
  read back, are no objects with the member the adapter looks for.\<close>
theorem self_panel_blind:
  assumes "get_leaderboard ctx p = Some (p', r)" "get_events_log ctx' p = Some (p', r')"
    and "e_parse e (e_dump e (re_body r)) = Some (re_body r)" "e_parse e (e_dump e (re_body r')) = Some (re_body r')"
    and "self_get http base token (''/api/points/leaderboard?limit='' @ to_string limit) = Some (e_dump e (re_body r))"
    and "self_get http base token ''/api/events/log?page_size=100'' = Some (e_dump e (re_body r'))"
  shows "self_leaderboard e http base token limit = Some [] \<and> self_events e http base token [] = Some []"
proof -
  have l: "member_array (re_body r) ''leaderboard'' = []"
    using assms(1) by (auto simp: get_leaderboard_def Let_def member_array_def)
  have v: "member_array (re_body r') ''events'' = []"
    using assms(2) by (auto simp: get_events_log_def Let_def member_array_def)
  show ?thesis using l v assms(3-6) by (simp add: self_leaderboard_def self_events_def parsed_def)
qed

definition blind_env :: "panel \<Rightarrow> env" where
  "blind_env p = (demo_env 0)\<lparr>e_dump := (\<lambda>j. case j of JArr _ \<Rightarrow> ''a'' | _ \<Rightarrow> ''o''),
     e_parse := (\<lambda>s. if s = ''a'' then Some (JArr []) else Some (JObj [(''data'', JArr []), (''page'', JInt 1), (''page_size'', JInt 20),
       (''total'', JInt 0), (''total_pages'', JInt 0)]))\<rparr>"

definition get_context :: Context where
  "get_context = \<lparr>cx_req = \<lparr>rq_method = ''GET'', rq_headers = [], rq_params = [], rq_matches = [], rq_body = []\<rparr>, cx_body = JNull, cx_userId = [],
     cx_username = [], cx_role = [], cx_authenticated = False\<rparr>"

definition blind_http :: http where
  "blind_http host port hs path = (if path = ''/api/events/log?page_size=100'' then Some (200, ''a'') else Some (200, ''o''))"

theorem self_panel_blind_witness:
  "self_leaderboard (blind_env (route_panel empty_db)) blind_http ''h'' [] 5 = Some [] \<and>
   self_events (blind_env (route_panel empty_db)) blind_http ''h'' [] [] = Some []"
proof -
  let ?p = "route_panel empty_db" and ?e = "blind_env (route_panel empty_db)"
  have n: "atoi ''1'' = 1" "atoi ''20'' = 20" "safeStoi ''0'' 0 = 0" "to_string (0::int) = ''0''" "safeStoi ''100'' 100 = 100" "stoi ''100'' = Inr 100" by code_simp+
  have l: "get_leaderboard get_context ?p = Some (?p, ctx_json (JObj [(''data'', JArr []), (''page'', JInt 1), (''page_size'', JInt 20),
      (''total'', JInt 0), (''total_pages'', JInt 0)]) 200)"
    by (simp add: get_leaderboard_def get_context_def ctx_query_def n Let_def route_panel_db empty_db_def t_empty_def order_desc_def sql_limit_def wrap32_def)
  obtain r where v: "get_events_log get_context ?p = Some (?p, ctx_json (JArr []) r)"
    by (simp add: get_events_log_def get_context_def ctx_query_def n Let_def route_panel_db empty_db_def t_empty_def t_select_def order_desc_def sql_limit_def wrap32_def)
  have h: "str_find '':'' ''h'' = None" by code_simp
  have g: "self_get blind_http ''h'' [] path = Some (if path = ''/api/events/log?page_size=100'' then ''a'' else ''o'')" for path
    by (simp add: self_get_def httpGetHelper_def blind_http_def h)
  show ?thesis
    by (rule self_panel_blind [OF l v]) (simp_all add: blind_env_def g)
qed

section \<open>Starting the workers\<close>

definition config_ok :: "env \<Rightarrow> string \<Rightarrow> bool" where
  "config_ok e txt = (case e_parse e txt of None \<Rightarrow> False
     | Some j \<Rightarrow> value_str j ''authHeader'' ''Authorization'' \<noteq> None \<and> value_str j ''authPrefix'' ''Bearer '' \<noteq> None)"

lemma value_str_null [simp]: "value_str JNull k v = None"
  by (simp add: value_str_def)

lemma adapter_for_None: "adapter_for e s = None \<longleftrightarrow> sv_apiType s = ''generic'' \<and> \<not> config_ok e (sv_apiConfig s)"
  by (auto simp: adapter_for_def config_ok_def generic_new_def Let_def bind_eq_None_conv split: option.splits)

text \<open>The panel's start gets past the remote servers only if every one of them has an id that is an \<open>int\<close> and, when
  it is of the generic type, a configuration that is a JSON object with texts for the two header members: any other
  throws out of \<open>startAll\<close>, which nothing catches.\<close>
theorem startup_needs_configs:
  "snd (startAll e d ps) = list_all (\<lambda>s. in_int (sv_id s) \<and> (if sv_apiType s = ''generic'' then config_ok e (sv_apiConfig s) else True))
     (t_select (\<lambda>s. remote_mode s \<and> null_text (sv_remoteApiUrl s) \<noteq> []) (db_servers d))"
proof -
  have "snd (startPollers e ss ps) = list_all (\<lambda>s. in_int (sv_id s) \<and> (if sv_apiType s = ''generic'' then config_ok e (sv_apiConfig s) else True)) ss"
    for ss ps
  proof (induction ss arbitrary: ps)
    case (Cons s ss)
    then show ?case using adapter_for_None [of e s] by (auto split: option.splits)
  qed simp
  then show ?thesis by (simp add: startAll_def)
qed

text \<open>Both managers keep at most one worker per server, and stopping a server leaves none.\<close>
theorem one_worker_per_server:
  "distinct (map tl_serverId (fold tailers.run ops [])) \<and> distinct (map rm_serverId (fold pollers.run ops' [])) \<and>
   k \<notin> tl_serverId ` set (stop_tailer k (fold tailers.run ops [])) \<and> k \<notin> rm_serverId ` set (stopServer k (fold pollers.run ops' []))"
  using tailers.runs_distinct [of "[]" ops] pollers.runs_distinct [of "[]" ops'] tailers.stop_gone pollers.stop_gone by simp

end
