(* ===== verification/RelayConfig.thy ===== *)
theory RelayConfig
  imports Json
begin

text \<open>
  The relay's configuration (relay/main.cpp): the fields with their defaults, their JSON form and the file they are
  kept in. \<open>None\<close> is the exception of a member with a value of another type.
\<close>

section \<open>Fields\<close>

text \<open>\<open>if (j.contains(key)) c.field = j[key]\<close> for the three types of the fields.\<close>

definition field_str :: "json \<Rightarrow> string \<Rightarrow> string \<Rightarrow> string option" where
  "field_str j key old = (case j_lookup j key of None \<Rightarrow> Some old | Some (JStr s) \<Rightarrow> Some s | Some _ \<Rightarrow> None)"

definition field_int :: "json \<Rightarrow> string \<Rightarrow> int \<Rightarrow> int option" where
  "field_int j key old =
     (case j_lookup j key of
        None \<Rightarrow> Some old
      | Some (JInt n) \<Rightarrow> Some (wrap32 n)
      | Some (JFloat m e) \<Rightarrow> Some (double_to_int m e)
      | Some (JBool b) \<Rightarrow> Some (if b then 1 else 0)
      | Some _ \<Rightarrow> None)"

definition field_bool :: "json \<Rightarrow> string \<Rightarrow> bool \<Rightarrow> bool option" where
  "field_bool j key old = (case j_lookup j key of None \<Rightarrow> Some old | Some (JBool b) \<Rightarrow> Some b | Some _ \<Rightarrow> None)"

record relay_config =
  cf_panelUrl :: string
  cf_apiKey :: string
  cf_registerCode :: string
  cf_serverName :: string
  cf_serverHost :: string
  cf_rconPort :: int
  cf_rconPassword :: string
  cf_logDir :: string
  cf_gameExePath :: string
  cf_launchParams :: string
  cf_autoRestart :: bool
  cf_webPort :: int
  cf_unbanPort :: int
  cf_tcpConnectTimeoutMs :: int
  cf_rconAuthTimeoutMs :: int
  cf_rconExecTimeoutMs :: int
  cf_rconRecvTimeoutMs :: int
  cf_logPollIntervalMs :: int
  cf_chatPollIntervalMs :: int
  cf_keepaliveIntervalSec :: int
  cf_rawFlushIntervalMs :: int
  cf_rawBatchSize :: int
  cf_lineDedupMaxSize :: int
  cf_maxRestartAttempts :: int
  cf_restartCooldownSec :: int
  cf_restartBaseDelaySec :: int
  cf_httpRequestBufferSize :: int
  cf_httpServerBacklog :: int
  cf_rconReconnectEnabled :: bool
  cf_rconReconnectIntervalSec :: int
  ci_token :: string
  ci_serverId :: int
  ci_serverName :: string
  ci_rconHost :: string
  ci_rconPort :: int
  ci_rconPassword :: string

definition relay_defaults :: relay_config where
  "relay_defaults = \<lparr>cf_panelUrl = ''http://127.0.0.1:3000'', cf_apiKey = [], cf_registerCode = [], cf_serverName = [],
       cf_serverHost = [], cf_rconPort = 21114, cf_rconPassword = [], cf_logDir = [], cf_gameExePath = [], cf_launchParams = [],
       cf_autoRestart = False, cf_webPort = 18976, cf_unbanPort = 18977, cf_tcpConnectTimeoutMs = 10000, cf_rconAuthTimeoutMs = 5000,
       cf_rconExecTimeoutMs = 10000, cf_rconRecvTimeoutMs = 5000, cf_logPollIntervalMs = 300, cf_chatPollIntervalMs = 100,
       cf_keepaliveIntervalSec = 10, cf_rawFlushIntervalMs = 200, cf_rawBatchSize = 200, cf_lineDedupMaxSize = 1000, cf_maxRestartAttempts
       = 3, cf_restartCooldownSec = 300, cf_restartBaseDelaySec = 5, cf_httpRequestBufferSize = 16384, cf_httpServerBacklog = 5,
       cf_rconReconnectEnabled = True, cf_rconReconnectIntervalSec = 30, ci_token = [], ci_serverId = 0, ci_serverName = [], ci_rconHost =
       [], ci_rconPort = 0, ci_rconPassword = []\<rparr>"

definition toJson :: "relay_config \<Rightarrow> json" where
  "toJson c = JObj [(''_rconHost'', JStr (ci_rconHost c)),
     (''_rconPassword'', JStr (ci_rconPassword c)),
     (''_rconPort'', JInt (ci_rconPort c)),
     (''_serverId'', JInt (ci_serverId c)),
     (''_serverName'', JStr (ci_serverName c)),
     (''_token'', JStr (ci_token c)),
     (''apiKey'', JStr (cf_apiKey c)),
     (''autoRestart'', JBool (cf_autoRestart c)),
     (''chatPollIntervalMs'', JInt (cf_chatPollIntervalMs c)),
     (''gameExePath'', JStr (cf_gameExePath c)),
     (''httpRequestBufferSize'', JInt (cf_httpRequestBufferSize c)),
     (''httpServerBacklog'', JInt (cf_httpServerBacklog c)),
     (''keepaliveIntervalSec'', JInt (cf_keepaliveIntervalSec c)),
     (''launchParams'', JStr (cf_launchParams c)),
     (''lineDedupMaxSize'', JInt (cf_lineDedupMaxSize c)),
     (''logDir'', JStr (cf_logDir c)),
     (''logPollIntervalMs'', JInt (cf_logPollIntervalMs c)),
     (''maxRestartAttempts'', JInt (cf_maxRestartAttempts c)),
     (''panelUrl'', JStr (cf_panelUrl c)),
     (''rawBatchSize'', JInt (cf_rawBatchSize c)),
     (''rawFlushIntervalMs'', JInt (cf_rawFlushIntervalMs c)),
     (''rconAuthTimeoutMs'', JInt (cf_rconAuthTimeoutMs c)),
     (''rconExecTimeoutMs'', JInt (cf_rconExecTimeoutMs c)),
     (''rconPassword'', JStr (cf_rconPassword c)),
     (''rconPort'', JInt (cf_rconPort c)),
     (''rconReconnectEnabled'', JBool (cf_rconReconnectEnabled c)),
     (''rconReconnectIntervalSec'', JInt (cf_rconReconnectIntervalSec c)),
     (''rconRecvTimeoutMs'', JInt (cf_rconRecvTimeoutMs c)),
     (''registerCode'', JStr (cf_registerCode c)),
     (''restartBaseDelaySec'', JInt (cf_restartBaseDelaySec c)),
     (''restartCooldownSec'', JInt (cf_restartCooldownSec c)),
     (''serverHost'', JStr (cf_serverHost c)),
     (''serverName'', JStr (cf_serverName c)),
     (''tcpConnectTimeoutMs'', JInt (cf_tcpConnectTimeoutMs c)),
     (''unbanPort'', JInt (cf_unbanPort c)),
     (''webPort'', JInt (cf_webPort c))]"

definition fromJson :: "json \<Rightarrow> relay_config option" where
  "fromJson j = (let d = relay_defaults in
     Option.bind (field_str j ''panelUrl'' (cf_panelUrl d)) (\<lambda>vpanelUrl.
     Option.bind (field_str j ''apiKey'' (cf_apiKey d)) (\<lambda>vapiKey.
     Option.bind (field_str j ''registerCode'' (cf_registerCode d)) (\<lambda>vregisterCode.
     Option.bind (field_str j ''serverName'' (cf_serverName d)) (\<lambda>vserverName.
     Option.bind (field_str j ''serverHost'' (cf_serverHost d)) (\<lambda>vserverHost.
     Option.bind (field_int j ''rconPort'' (cf_rconPort d)) (\<lambda>vrconPort.
     Option.bind (field_str j ''rconPassword'' (cf_rconPassword d)) (\<lambda>vrconPassword.
     Option.bind (field_str j ''logDir'' (cf_logDir d)) (\<lambda>vlogDir.
     Option.bind (field_str j ''gameExePath'' (cf_gameExePath d)) (\<lambda>vgameExePath.
     Option.bind (field_str j ''launchParams'' (cf_launchParams d)) (\<lambda>vlaunchParams.
     Option.bind (field_bool j ''autoRestart'' (cf_autoRestart d)) (\<lambda>vautoRestart.
     Option.bind (field_int j ''webPort'' (cf_webPort d)) (\<lambda>vwebPort.
     Option.bind (field_int j ''unbanPort'' (cf_unbanPort d)) (\<lambda>vunbanPort.
     Option.bind (field_int j ''tcpConnectTimeoutMs'' (cf_tcpConnectTimeoutMs d)) (\<lambda>vtcpConnectTimeoutMs.
     Option.bind (field_int j ''rconAuthTimeoutMs'' (cf_rconAuthTimeoutMs d)) (\<lambda>vrconAuthTimeoutMs.
     Option.bind (field_int j ''rconExecTimeoutMs'' (cf_rconExecTimeoutMs d)) (\<lambda>vrconExecTimeoutMs.
     Option.bind (field_int j ''rconRecvTimeoutMs'' (cf_rconRecvTimeoutMs d)) (\<lambda>vrconRecvTimeoutMs.
     Option.bind (field_int j ''logPollIntervalMs'' (cf_logPollIntervalMs d)) (\<lambda>vlogPollIntervalMs.
     Option.bind (field_int j ''chatPollIntervalMs'' (cf_chatPollIntervalMs d)) (\<lambda>vchatPollIntervalMs.
     Option.bind (field_int j ''keepaliveIntervalSec'' (cf_keepaliveIntervalSec d)) (\<lambda>vkeepaliveIntervalSec.
     Option.bind (field_int j ''rawFlushIntervalMs'' (cf_rawFlushIntervalMs d)) (\<lambda>vrawFlushIntervalMs.
     Option.bind (field_int j ''rawBatchSize'' (cf_rawBatchSize d)) (\<lambda>vrawBatchSize.
     Option.bind (field_int j ''lineDedupMaxSize'' (cf_lineDedupMaxSize d)) (\<lambda>vlineDedupMaxSize.
     Option.bind (field_int j ''maxRestartAttempts'' (cf_maxRestartAttempts d)) (\<lambda>vmaxRestartAttempts.
     Option.bind (field_int j ''restartCooldownSec'' (cf_restartCooldownSec d)) (\<lambda>vrestartCooldownSec.
     Option.bind (field_int j ''restartBaseDelaySec'' (cf_restartBaseDelaySec d)) (\<lambda>vrestartBaseDelaySec.
     Option.bind (field_int j ''httpRequestBufferSize'' (cf_httpRequestBufferSize d)) (\<lambda>vhttpRequestBufferSize.
     Option.bind (field_int j ''httpServerBacklog'' (cf_httpServerBacklog d)) (\<lambda>vhttpServerBacklog.
     Option.bind (field_bool j ''rconReconnectEnabled'' (cf_rconReconnectEnabled d)) (\<lambda>vrconReconnectEnabled.
     Option.bind (field_int j ''rconReconnectIntervalSec'' (cf_rconReconnectIntervalSec d)) (\<lambda>vrconReconnectIntervalSec.
     Option.bind (field_str j ''_token'' (ci_token d)) (\<lambda>vtokenI.
     Option.bind (field_int j ''_serverId'' (ci_serverId d)) (\<lambda>vserverIdI.
     Option.bind (field_str j ''_serverName'' (ci_serverName d)) (\<lambda>vserverNameI.
     Option.bind (field_str j ''_rconHost'' (ci_rconHost d)) (\<lambda>vrconHostI.
     Option.bind (field_int j ''_rconPort'' (ci_rconPort d)) (\<lambda>vrconPortI.
     Option.bind (field_str j ''_rconPassword'' (ci_rconPassword d)) (\<lambda>vrconPasswordI.
       Some \<lparr>cf_panelUrl = vpanelUrl, cf_apiKey = vapiKey, cf_registerCode = vregisterCode, cf_serverName = vserverName,
       cf_serverHost = vserverHost, cf_rconPort = vrconPort, cf_rconPassword = vrconPassword, cf_logDir = vlogDir, cf_gameExePath =
       vgameExePath, cf_launchParams = vlaunchParams, cf_autoRestart = vautoRestart, cf_webPort = vwebPort, cf_unbanPort = vunbanPort,
       cf_tcpConnectTimeoutMs = vtcpConnectTimeoutMs, cf_rconAuthTimeoutMs = vrconAuthTimeoutMs, cf_rconExecTimeoutMs = vrconExecTimeoutMs,
       cf_rconRecvTimeoutMs = vrconRecvTimeoutMs, cf_logPollIntervalMs = vlogPollIntervalMs, cf_chatPollIntervalMs = vchatPollIntervalMs,
       cf_keepaliveIntervalSec = vkeepaliveIntervalSec, cf_rawFlushIntervalMs = vrawFlushIntervalMs, cf_rawBatchSize = vrawBatchSize,
       cf_lineDedupMaxSize = vlineDedupMaxSize, cf_maxRestartAttempts = vmaxRestartAttempts, cf_restartCooldownSec = vrestartCooldownSec,
       cf_restartBaseDelaySec = vrestartBaseDelaySec, cf_httpRequestBufferSize = vhttpRequestBufferSize, cf_httpServerBacklog =
       vhttpServerBacklog, cf_rconReconnectEnabled = vrconReconnectEnabled, cf_rconReconnectIntervalSec = vrconReconnectIntervalSec,
       ci_token = vtokenI, ci_serverId = vserverIdI, ci_serverName = vserverNameI, ci_rconHost = vrconHostI, ci_rconPort = vrconPortI,
       ci_rconPassword = vrconPasswordI\<rparr>)))))))))))))))))))))))))))))))))))))"

definition config_ranges :: "relay_config \<Rightarrow> bool" where
  "config_ranges c = (in_int (cf_rconPort c) \<and> in_int (cf_webPort c) \<and> in_int (cf_unbanPort c) \<and> in_int
       (cf_tcpConnectTimeoutMs c) \<and> in_int (cf_rconAuthTimeoutMs c) \<and> in_int (cf_rconExecTimeoutMs c) \<and> in_int
       (cf_rconRecvTimeoutMs c) \<and> in_int (cf_logPollIntervalMs c) \<and> in_int (cf_chatPollIntervalMs c) \<and> in_int
       (cf_keepaliveIntervalSec c) \<and> in_int (cf_rawFlushIntervalMs c) \<and> in_int (cf_rawBatchSize c) \<and> in_int
       (cf_lineDedupMaxSize c) \<and> in_int (cf_maxRestartAttempts c) \<and> in_int (cf_restartCooldownSec c) \<and> in_int
       (cf_restartBaseDelaySec c) \<and> in_int (cf_httpRequestBufferSize c) \<and> in_int (cf_httpServerBacklog c) \<and> in_int
       (cf_rconReconnectIntervalSec c) \<and> in_int (ci_serverId c) \<and> in_int (ci_rconPort c))"

section \<open>The file (loadCfg, saveCfg)\<close>

text \<open>The contents of the file, empty when it cannot be read; what fails to parse or convert gives the defaults.\<close>

definition loadCfg :: "(string \<Rightarrow> json option) \<Rightarrow> string \<Rightarrow> relay_config" where
  "loadCfg parse text =
     (if text = [] then relay_defaults
      else case Option.bind (parse text) fromJson of None \<Rightarrow> relay_defaults | Some c \<Rightarrow> c)"

definition saveCfg :: "(json \<Rightarrow> string) \<Rightarrow> relay_config \<Rightarrow> string" where
  "saveCfg dump c = dump (toJson c)"

section \<open>Saving and loading\<close>

lemma field_simps [simp]:
  "field_str (JObj kvs) k d = (case map_of kvs k of None \<Rightarrow> Some d | Some (JStr s) \<Rightarrow> Some s | Some _ \<Rightarrow> None)"
  "field_bool (JObj kvs) k b = (case map_of kvs k of None \<Rightarrow> Some b | Some (JBool x) \<Rightarrow> Some x | Some _ \<Rightarrow> None)"
  by (simp_all add: field_str_def field_bool_def)

lemma fromJson_toJson: "config_ranges c \<Longrightarrow> fromJson (toJson c) = Some c"
  by (cases c) (simp add: fromJson_def toJson_def field_int_def config_ranges_def Let_def)

end
