(* ===== verification/RelayCore.thy ===== *)
theory RelayCore
  imports "HOL-Library.Multiset" LocalTail RelayConfig
begin

text \<open>
  The relay agent on the game host (relay/main.cpp), built for Windows: text and path tools, the files it reads and
  writes, its HTTP client, the removal of repeated lines and the batches of lines it posts to the panel.
\<close>

section \<open>Tools\<close>

definition is_ws :: "char \<Rightarrow> bool" where
  "is_ws c = (c = CHR '' '' \<or> c = CHR 0x09 \<or> c = CHR 0x0D \<or> c = CHR 0x0A)"

definition relay_trim :: "string \<Rightarrow> string" where
  "relay_trim s = rtrim is_ws (ltrim is_ws s)"

definition is_sep :: "char \<Rightarrow> bool" where
  "is_sep c = (c = CHR 0x5C \<or> c = CHR ''/'')"

definition dirOf :: "string \<Rightarrow> string" where
  "dirOf p = (if list_ex is_sep p then rev (drop 1 (dropWhile (\<lambda>c. \<not> is_sep c) (rev p))) else ''.'')"

definition baseName :: "string \<Rightarrow> string" where
  "baseName p = rev (takeWhile (\<lambda>c. \<not> is_sep c) (rev p))"

text \<open>A path of components with backslashes between them.\<close>

fun win_path :: "string list \<Rightarrow> string" where
  "win_path [] = []"
| "win_path [x] = x"
| "win_path (x # xs) = x @ [CHR 0x5C] @ win_path xs"

section \<open>Files\<close>

text \<open>The contents of the files that exist, and the paths that can be opened for writing.\<close>

record files =
  fs_contents :: "string \<rightharpoonup> string"
  fs_writable :: "string \<Rightarrow> bool"

definition readFile :: "files \<Rightarrow> string \<Rightarrow> string" where
  "readFile fs p = (case fs_contents fs p of None \<Rightarrow> [] | Some c \<Rightarrow> c)"

definition writeFile :: "string \<Rightarrow> string \<Rightarrow> files \<Rightarrow> files" where
  "writeFile p c fs = (if fs_writable fs p then fs\<lparr>fs_contents := (fs_contents fs)(p \<mapsto> c)\<rparr> else fs)"

definition fileExists :: "files \<Rightarrow> string \<Rightarrow> bool" where
  "fileExists fs p = (fs_contents fs p \<noteq> None)"

text \<open>\<open>while (std::getline(ss, l))\<close> over an input string stream, with the carriage returns taken off.\<close>

definition splitLines :: "string \<Rightarrow> string list" where
  "splitLines s = map strip_cr (getlines (CHR 0x0A) s)"

section \<open>HTTP client (httpPost)\<close>

record HttpResp =
  hr_status :: int
  hr_body :: string
  hr_ok :: bool

definition crlf :: string where
  "crlf = [CHR 0x0D, CHR 0x0A]"

text \<open>Host, port and path of a URL; the port is read with \<open>stoi\<close>, which may throw.\<close>

definition parse_url :: "string \<Rightarrow> (string \<times> int \<times> string) option" where
  "parse_url url =
     (let (scheme, rest) = (case str_find ''://'' url of Some i \<Rightarrow> (take i url, drop (i + 3) url) | None \<Rightarrow> ([], url));
          (path, hp) = (case str_find ''/'' rest of Some i \<Rightarrow> (drop i rest, take i rest) | None \<Rightarrow> (''/'', rest))
      in case str_find '':'' hp of
           Some i \<Rightarrow> (case stoi (drop (i + 1) hp) of Inl _ \<Rightarrow> None | Inr port \<Rightarrow> Some (take i hp, port, path))
         | None \<Rightarrow> Some (hp, if scheme = ''https'' then 443 else 80, path))"

definition request_text :: "string \<Rightarrow> string \<Rightarrow> (string \<times> string) list \<Rightarrow> string \<Rightarrow> string" where
  "request_text path host hdrs body =
     ''POST '' @ path @ '' HTTP/1.1'' @ crlf @ ''Host:'' @ host @ crlf @ ''Content-Type:application/json'' @ crlf @
     ''Content-Length:'' @ to_string (int (length body)) @ crlf @ ''Connection:close'' @ crlf @
     concat (map (\<lambda>(k, v). k @ '':'' @ v @ crlf) hdrs) @ crlf @ body"

definition parse_response :: "string \<Rightarrow> HttpResp option" where
  "parse_response resp =
     (case str_find (crlf @ crlf) resp of
        None \<Rightarrow> Some \<lparr>hr_status = 0, hr_body = ''bad resp'', hr_ok = False\<rparr>
      | Some bp \<Rightarrow>
          (let body = drop (bp + 4) resp; sl = (case str_find crlf resp of Some i \<Rightarrow> take i resp | None \<Rightarrow> resp)
          in case str_find '' '' sl of
               None \<Rightarrow> Some \<lparr>hr_status = 0, hr_body = body, hr_ok = False\<rparr>
             | Some sp \<Rightarrow>
                 (case stoi (drop (sp + 1) sl) of
                    Inl _ \<Rightarrow> None
                  | Inr st \<Rightarrow> Some \<lparr>hr_status = st, hr_body = body, hr_ok = (200 \<le> st \<and> st < 300)\<rparr>)))"

text \<open>The network: what comes back from a host and port for a request, \<open>None\<close> when no connection is made.\<close>

type_synonym net = "string \<Rightarrow> int \<Rightarrow> string \<Rightarrow> string option"

definition httpPost :: "net \<Rightarrow> string \<Rightarrow> string \<Rightarrow> (string \<times> string) list \<Rightarrow> HttpResp option" where
  "httpPost net url body hdrs =
     Option.bind (parse_url url) (\<lambda>(host, port, path).
       case net host port (request_text path host hdrs body) of
         None \<Rightarrow> Some \<lparr>hr_status = 0, hr_body = ''connect failed'', hr_ok = False\<rparr>
       | Some resp \<Rightarrow> parse_response resp)"

section \<open>Repeated lines (LineDedup)\<close>

definition line_print :: "string \<Rightarrow> string" where
  "line_print l = take 50 l @ ''|'' @ to_string (int (length l))"

text \<open>When there are more than the limit, half the limit stays: the table is emptied from its first bucket on, in an
  order only the library knows.\<close>

definition clean :: "(string list \<Rightarrow> string list) \<Rightarrow> nat \<Rightarrow> string list \<Rightarrow> string list" where
  "clean iter mx seen = (if length seen \<le> mx then seen else drop (length seen - mx div 2) (iter seen))"

definition markAndSend :: "(string list \<Rightarrow> string list) \<Rightarrow> nat \<Rightarrow> string \<Rightarrow> string list \<Rightarrow> bool \<times> string list" where
  "markAndSend iter mx l seen =
     (if length l < 10 then (False, seen)
      else if line_print l \<in> set seen then (False, seen)
      else (True, clean iter mx (seen @ [line_print l])))"

text \<open>The lines that get through, of a sequence of lines.\<close>

fun dedup_lines :: "(string list \<Rightarrow> string list) \<Rightarrow> nat \<Rightarrow> string list \<Rightarrow> string list \<Rightarrow> string list \<times> string list" where
  "dedup_lines iter mx [] seen = ([], seen)"
| "dedup_lines iter mx (l # ls) seen =
     (let (sent, seen1) = markAndSend iter mx l seen; (out, seen2) = dedup_lines iter mx ls seen1
      in (if sent then l # out else out, seen2))"

section \<open>Batches (RawSender)\<close>

record sender =
  sd_buf :: "string list"
  sd_sent :: int

definition sender_add :: "string \<Rightarrow> sender \<Rightarrow> sender" where
  "sender_add l s = (if length l < 10 then s else s\<lparr>sd_buf := sd_buf s @ [l]\<rparr>)"

text \<open>A flush takes a batch out of the buffer and posts it; the post may fail or throw. The batch size is an \<open>int\<close>
  made a \<open>size_t\<close>, so a negative one takes everything.\<close>

definition batch_limit :: "int \<Rightarrow> nat \<Rightarrow> nat" where
  "batch_limit n len = (if n < 0 then len else min len (nat n))"

definition raw_url :: "relay_config \<Rightarrow> string" where
  "raw_url c = cf_panelUrl c @ ''/api/events/raw''"

definition flush :: "(string list \<Rightarrow> bool) \<Rightarrow> int \<Rightarrow> sender \<Rightarrow> string list \<times> sender" where
  "flush post n s =
     (if sd_buf s = [] then ([], s)
      else let k = batch_limit n (length (sd_buf s)); b = take k (sd_buf s)
           in (b, s\<lparr>sd_buf := drop k (sd_buf s), sd_sent := (if post b then sd_sent s + int (length b) else sd_sent s)\<rparr>))"

definition post_batch :: "net \<Rightarrow> (json \<Rightarrow> string) \<Rightarrow> relay_config \<Rightarrow> int \<Rightarrow> string list \<Rightarrow> bool option" where
  "post_batch net dump c sid b =
     map_option hr_ok (httpPost net (raw_url c) (dump (raw_payload sid b)) [(''X-API-Key'', cf_apiKey c)])"

datatype sender_event = Line string | Tick "string list \<Rightarrow> bool"

text \<open>The batches posted, in order.\<close>

fun sender_run :: "int \<Rightarrow> sender_event list \<Rightarrow> sender \<Rightarrow> string list list \<times> sender" where
  "sender_run n [] s = ([], s)"
| "sender_run n (Line l # es) s = sender_run n es (sender_add l s)"
| "sender_run n (Tick post # es) s =
     (let (b, s1) = flush post n s; (bs, s2) = sender_run n es s1 in (if b = [] then bs else b # bs, s2))"

section \<open>Lines read from the game's log (LogTail)\<close>

text \<open>A look at the disk: the log files of the directory with their times, in the order the system lists them, and the
  contents. The system's \<open>sort\<close> by descending time is an argument.\<close>

record disk =
  dk_list :: "(string \<times> int) list"
  dk_files :: "string \<rightharpoonup> string"

definition lower :: "string \<Rightarrow> string" where
  "lower s = map to_lower s"

definition findLog :: "((string \<times> int) list \<Rightarrow> (string \<times> int) list) \<Rightarrow> string \<Rightarrow> disk \<Rightarrow> string" where
  "findLog srt dir d =
     (case filter (\<lambda>(n, _). lower n = ''squadgame.log'') (dk_list d) of
        [] \<Rightarrow> (case srt (dk_list d) of [] \<Rightarrow> [] | (n, _) # _ \<Rightarrow> dir @ [CHR 0x5C] @ n)
      | xs \<Rightarrow> dir @ [CHR 0x5C] @ fst (last xs))"

record tail_state =
  lt_file :: string
  lt_pos :: nat
  lt_cnt :: nat

definition file_end :: "disk \<Rightarrow> string \<Rightarrow> nat \<Rightarrow> nat" where
  "file_end d f fallback = (case dk_files d f of None \<Rightarrow> fallback | Some c \<Rightarrow> length c)"

text \<open>Before the reading: every thirtieth poll the preferred file is looked for.\<close>

definition rotate_log :: "string \<Rightarrow> disk \<Rightarrow> tail_state \<Rightarrow> tail_state" where
  "rotate_log dir d t =
     (let t1 = t\<lparr>lt_cnt := lt_cnt t + 1\<rparr>; c = dir @ [CHR 0x5C] @ ''SquadGame.log''
      in if lt_cnt t1 mod 30 = 0 \<and> lt_file t1 \<noteq> [] \<and> lower (baseName (lt_file t1)) \<noteq> ''squadgame.log'' \<and> dk_files d c \<noteq> None
         then t1\<lparr>lt_file := c, lt_pos := 0\<rparr> else t1)"

definition poll :: "((string \<times> int) list \<Rightarrow> (string \<times> int) list) \<Rightarrow> string \<Rightarrow> disk \<Rightarrow> tail_state \<Rightarrow> string list \<times> tail_state" where
  "poll srt dir d t0 =
     (let t = rotate_log dir d t0
      in if lt_file t = [] then
           (let f = findLog srt dir d in ([], t\<lparr>lt_file := f, lt_pos := (if f = [] then lt_pos t else file_end d f (lt_pos t))\<rparr>))
         else case dk_files d (lt_file t) of
           None \<Rightarrow> (let f = findLog srt dir d in ([], t\<lparr>lt_file := f, lt_pos := (if f = [] then lt_pos t else 0)\<rparr>))
         | Some c \<Rightarrow>
             if length c < lt_pos t then ([], t\<lparr>lt_file := findLog srt dir d, lt_pos := 0\<rparr>)
             else if length c = lt_pos t then ([], t)
             else (kept_lines (getlines (CHR 0x0A) (drop (lt_pos t) c)), t\<lparr>lt_pos := length c\<rparr>))"

text \<open>\<open>start\<close>: from the end of the file found, or not at all.\<close>

definition tail_start :: "((string \<times> int) list \<Rightarrow> (string \<times> int) list) \<Rightarrow> string \<Rightarrow> disk \<Rightarrow> tail_state option" where
  "tail_start srt dir d =
     (let f = findLog srt dir d in if f = [] then None else Some \<lparr>lt_file = f, lt_pos = file_end d f 0, lt_cnt = 0\<rparr>)"

fun polls :: "((string \<times> int) list \<Rightarrow> (string \<times> int) list) \<Rightarrow> string \<Rightarrow> disk list \<Rightarrow> tail_state \<Rightarrow> string list" where
  "polls srt dir [] t = []"
| "polls srt dir (d # ds) t = (let (ls, t') = poll srt dir d t in ls @ polls srt dir ds t')"

section \<open>Removing and keeping\<close>

lemma mset_length: "mset (iter xs) = mset xs \<Longrightarrow> length (iter xs) = length xs"
  by (metis size_mset)

end
