(* ===== verification/RelayProps.thy ===== *)
theory RelayProps
  imports RelayCore LogEvents
begin

text \<open>
  Properties of the relay's log pipeline: the file reader, the removal of repeated lines and the batches.
\<close>

section \<open>Repeated lines\<close>

lemma clean_bound: "mset (iter seen) = mset seen \<Longrightarrow> length (clean iter mx seen) \<le> mx"
  by (auto simp: clean_def dest: mset_length)

lemma clean_distinct: "mset (iter seen) = mset seen \<Longrightarrow> distinct seen \<Longrightarrow> distinct (clean iter mx seen)"
  using mset_eq_imp_distinct_iff [of "iter seen" seen] by (simp add: clean_def)

lemma mark_ok:
  assumes "\<And>xs. mset (iter xs) = mset xs" "length seen \<le> mx" "distinct seen" "markAndSend iter mx l seen = (b, seen')"
  shows "length seen' \<le> mx \<and> distinct seen'"
  using assms(2-4) clean_bound [where iter = iter and seen = "seen @ [line_print l]" and mx = mx]
    clean_distinct [where iter = iter and seen = "seen @ [line_print l]" and mx = mx] assms(1)
  by (auto simp: markAndSend_def split: if_splits)

text \<open>However the table's buckets are ordered, after any lines it holds at most the configured number of entries, and
  every line that gets through is one of the input of at least ten bytes.\<close>
theorem dedup_bounded:
  assumes "\<And>xs. mset (iter xs) = mset xs" "length seen \<le> mx" "distinct seen"
  shows "length (snd (dedup_lines iter mx ls seen)) \<le> mx \<and> distinct (snd (dedup_lines iter mx ls seen))
    \<and> (\<forall>l. 0 < count_list (fst (dedup_lines iter mx ls seen)) l \<longrightarrow> l \<in> set ls \<and> 10 \<le> length l)"
  using assms(2,3)
proof (induction ls arbitrary: seen)
  case (Cons l ls)
  obtain b seen1 where m: "markAndSend iter mx l seen = (b, seen1)" by (cases "markAndSend iter mx l seen")
  have b: "b \<Longrightarrow> 10 \<le> length l" using m by (auto simp: markAndSend_def split: if_splits)
  from mark_ok [OF assms(1) Cons.prems m] have "length seen1 \<le> mx" "distinct seen1" by simp_all
  from Cons.IH [OF this] b show ?case by (auto simp: m case_prod_beta Let_def)
qed simp

lemma stamp_length: "stamp_ok t \<Longrightarrow> length (stamp_text t) = 27 + length (st_thread t)"
  by (simp add: stamp_ok_def stamp_text_def stamp_time_def)

text \<open>Of two death lines of the game with the same time stamp and thread and of equal length, the second is dropped
  as a repetition, whoever died in it: the table compares only fifty bytes and the length.\<close>
theorem dedup_drops_deaths:
  assumes "stamp_ok t" "length (die_text t h1) = length (die_text t h2)" "10 \<le> length (die_text t h2)" "0 < mx"
  shows "fst (dedup_lines iter mx [die_text t h1, die_text t h2] []) = [die_text t h1]"
proof -
  let ?p = "stamp_text t @ ''LogSquadTrace: [DedicatedServer]''"
  have p: "50 \<le> length ?p" using stamp_length [OF assms(1)] by simp
  have "take 50 (die_text t h) = take 50 ?p" for h
  proof -
    have "\<exists>r. die_text t h = ?p @ r" by (simp add: die_text_def hit_line_def)
    then obtain r where "die_text t h = ?p @ r" by (elim exE)
    then show ?thesis using p by (simp only: take_append) simp
  qed
  then have "line_print (die_text t h1) = line_print (die_text t h2)" using assms(2) by (simp add: line_print_def)
  then show ?thesis using assms(2-4) by (simp add: markAndSend_def clean_def Let_def)
qed

section \<open>Batches\<close>

definition lines_of :: "sender_event list \<Rightarrow> string list" where
  "lines_of es = concat (map (\<lambda>ev. case ev of Line l \<Rightarrow> if length l < 10 then [] else [l] | Tick _ \<Rightarrow> []) es)"

text \<open>C36: Whatever happens to the posts, the batches taken out of the buffer and what is left in it are, in order, exactly
  the lines added, no line twice and none lost; no batch is longer than configured. A batch whose post fails is not
  tried again.\<close>
theorem sender_conserves:
  assumes "sender_run n es s = (bs, s')"
  shows "concat bs @ sd_buf s' = sd_buf s @ lines_of es \<and> (\<forall>b\<in>set bs. n < 0 \<or> int (length b) \<le> n)"
  using assms
proof (induction n es s arbitrary: bs s' rule: sender_run.induct)
  case (2 n l es s)
  then show ?case by (auto simp: sender_add_def lines_of_def)
next
  case (3 n post es s)
  obtain b s1 where f: "flush post n s = (b, s1)" by (cases "flush post n s")
  obtain bs2 s2 where r: "sender_run n es s1 = (bs2, s2)" by (cases "sender_run n es s1")
  have fl: "b @ sd_buf s1 = sd_buf s" "n < 0 \<or> int (length b) \<le> n \<or> b = []"
    using f by (auto simp: flush_def batch_limit_def Let_def split: if_splits)
  from 3 f r have e: "bs = (if b = [] then bs2 else b # bs2)" "s' = s2" by auto
  from 3(1) [OF f [symmetric] refl r] fl show ?case
    by (auto simp: e lines_of_def)
qed (simp add: lines_of_def)

section \<open>The log reader\<close>

definition whole_lines :: "string \<Rightarrow> bool" where
  "whole_lines s = (s = [] \<or> last s = CHR 0x0A)"

lemma getlines_append: "whole_lines s \<Longrightarrow> getlines (CHR 0x0A) (s @ u) = getlines (CHR 0x0A) s @ getlines (CHR 0x0A) u"
proof (induction s)
  case (Cons c s)
  show ?case
  proof (cases "s = []")
    case True
    then show ?thesis using Cons.prems by (simp add: whole_lines_def)
  next
    case False
    then have w: "whole_lines s" using Cons.prems by (simp add: whole_lines_def)
    from False have "getlines (CHR 0x0A) s \<noteq> []" by (cases s) (auto split: list.splits)
    then show ?thesis using Cons.IH [OF w] by (auto split: list.splits)
  qed
qed simp

lemma kept_lines_append: "kept_lines (xs @ ys) = kept_lines xs @ kept_lines ys"
  by (simp add: kept_lines_def)

text \<open>The file holds \<open>c\<close> and then, at one look after the other, what was appended.\<close>

fun follows :: "string \<Rightarrow> string \<Rightarrow> disk list \<Rightarrow> string list \<Rightarrow> bool" where
  "follows f c [] us = (us = [])"
| "follows f c (d # ds) us = (case us of [] \<Rightarrow> False | u # us \<Rightarrow> dk_files d f = Some (c @ u) \<and> follows f (c @ u) ds us)"

lemma poll_appended:
  assumes "lower (baseName f) = ''squadgame.log''" "f \<noteq> []" "dk_files d f = Some (c @ u)" "lt_file t = f" "lt_pos t = length c"
  shows "\<exists>t'. poll srt dir d t = (kept_lines (getlines (CHR 0x0A) u), t') \<and> lt_file t' = f \<and> lt_pos t' = length (c @ u)"
  using assms by (cases "u = []") (auto simp: poll_def rotate_log_def Let_def kept_lines_def)


lemma getlines_line: "CHR 0x0A \<notin> set w \<Longrightarrow> getlines (CHR 0x0A) (w @ [CHR 0x0A]) = [w]"
  by (induction w) auto

text \<open>A line that is on the disk only in part when the reader looks is delivered as two lines.\<close>
theorem tail_cuts_lines:
  assumes "dk_files d1 f = Some (c @ u)" "dk_files d2 f = Some ((c @ u) @ v @ [CHR 0x0A])"
    and "CHR 0x0A \<notin> set (u @ v)" "CHR 0x0D \<notin> set (u @ v)" "u \<noteq> []" "v \<noteq> []"
    and "lower (baseName f) = ''squadgame.log''" "f \<noteq> []" "lt_file t = f" "lt_pos t = length c"
  shows "polls srt dir [d1, d2] t = [u, v]"
proof -
  have kept: "kept_lines [w] = [w]" if "CHR 0x0D \<notin> set w" "w \<noteq> []" for w
    using that by (auto simp: kept_lines_def strip_cr_def dest: last_in_set)
  from poll_appended [OF assms(7,8,1,9,10), of srt dir] obtain t' where
    t: "poll srt dir d1 t = (kept_lines (getlines (CHR 0x0A) u), t')" "lt_file t' = f" "lt_pos t' = length (c @ u)" by (elim exE conjE)
  from poll_appended [OF assms(7,8,2) t(2,3), of srt dir] obtain t'' where
    "poll srt dir d2 t' = (kept_lines (getlines (CHR 0x0A) (v @ [CHR 0x0A])), t'')" by (elim exE conjE)
  then show ?thesis using assms(3-6) by (simp add: t(1) getlines_line getlines_none kept)
qed

section \<open>Witnesses\<close>

theorem dedup_bounded_witness:
  "length (snd (dedup_lines (\<lambda>xs. xs) 1 [''0123456789'', ''0123456789'', ''abcdefghij''] [])) \<le> 1"
  using dedup_bounded [of "\<lambda>xs. xs" "[]" 1 "[''0123456789'', ''0123456789'', ''abcdefghij'']"] by simp

theorem dedup_drops_deaths_witness:
  "fst (dedup_lines (\<lambda>xs. xs) 1000 [die_text demo_stamp (demo_hit ''7656''), die_text demo_stamp (demo_hit ''9999'')] [])
     = [die_text demo_stamp (demo_hit ''7656'')]"
  by (rule dedup_drops_deaths [OF demo_stamp_ok]) (simp_all add: die_text_def hit_line_def demo_hit_def)

theorem sender_conserves_witness:
  "concat (fst (sender_run 1 [Line ''0123456789'', Line ''abcdefghij'', Tick (\<lambda>_. False)] \<lparr>sd_buf = [], sd_sent = 0\<rparr>)) = [''0123456789'']"
proof -
  obtain bs s where r: "sender_run 1 [Line ''0123456789'', Line ''abcdefghij'', Tick (\<lambda>_. False)] \<lparr>sd_buf = [], sd_sent = 0\<rparr> = (bs, s)"
    by (cases "sender_run 1 [Line ''0123456789'', Line ''abcdefghij'', Tick (\<lambda>_. False)] \<lparr>sd_buf = [], sd_sent = 0\<rparr>")
  have "sd_buf s = [''abcdefghij'']" using r by (auto simp: sender_add_def flush_def batch_limit_def Let_def)
  with sender_conserves [OF r] r show ?thesis by (simp add: lines_of_def)
qed


end
