(* ===== verification/RelayRcon.thy ===== *)
theory RelayRcon
  imports Rcon RelayCore
begin

text \<open>
  The relay's own RCON client (class Rcon of relay/main.cpp): packets, connecting and reconnecting, commands, and the
  reading of chat messages. The bytes that arrive before a timeout are kept in an inbox; the server is a function from
  the packet sent to the bytes it sends back in time.
\<close>

section \<open>Packets\<close>

definition relay_pack :: "32 word \<Rightarrow> 32 word \<Rightarrow> string \<Rightarrow> string" where
  "relay_pack ty i body =
     (let sz = 4 + 4 + of_nat (length body) + 2 :: 32 word in le32 sz @ le32 i @ le32 ty @ body @ [CHR 0x00, CHR 0x00])"

definition readI32 :: "string \<Rightarrow> int" where
  "readI32 p = sint (of_le32 p)"

section \<open>The client\<close>

record relay_rcon =
  rr_pass :: string
  rr_enabled :: bool
  rr_interval :: int
  rr_last :: int
  rr_ok :: bool
  rr_id :: "32 word"
  rr_inbox :: string

text \<open>The server: whether it accepts a connection, and what arrives after a packet.\<close>

record rcon_server =
  rs_open :: bool
  rs_sends :: bool
  rs_reply :: "string \<Rightarrow> string"

definition recvExact :: "nat \<Rightarrow> relay_rcon \<Rightarrow> string \<times> relay_rcon" where
  "recvExact n r = (take n (rr_inbox r), r\<lparr>rr_inbox := drop n (rr_inbox r)\<rparr>)"

definition relay_send :: "rcon_server \<Rightarrow> 32 word \<Rightarrow> string \<Rightarrow> relay_rcon \<Rightarrow> relay_rcon" where
  "relay_send sv ty body r = r\<lparr>rr_id := rr_id r + 1, rr_inbox := rr_inbox r @ rs_reply sv (relay_pack ty (rr_id r) body)\<rparr>"

text \<open>Of the answer to the password only a header is read.\<close>

definition relay_connect :: "rcon_server \<Rightarrow> relay_rcon \<Rightarrow> bool \<times> relay_rcon" where
  "relay_connect sv r =
     (if \<not> rs_open sv then (False, r\<lparr>rr_inbox := []\<rparr>)
      else
        let (hdr, r1) = recvExact 12 (relay_send sv 3 (rr_pass r) (r\<lparr>rr_inbox := []\<rparr>))
        in if length hdr < 12 then (False, r1\<lparr>rr_inbox := []\<rparr>)
           else if readI32 (drop 4 hdr) = - 1 then (False, r1\<lparr>rr_inbox := []\<rparr>)
           else (True, r1\<lparr>rr_ok := True\<rparr>))"

definition relay_disconnect :: "relay_rcon \<Rightarrow> relay_rcon" where
  "relay_disconnect r = r\<lparr>rr_ok := False, rr_inbox := []\<rparr>"

definition reconnect :: "int \<Rightarrow> rcon_server \<Rightarrow> relay_rcon \<Rightarrow> bool \<times> relay_rcon" where
  "reconnect now sv r = (let (ok, r1) = relay_connect sv (relay_disconnect r) in (ok, r1\<lparr>rr_last := now\<rparr>))"

definition shouldAttemptReconnect :: "int \<Rightarrow> relay_rcon \<Rightarrow> bool" where
  "shouldAttemptReconnect now r = (rr_enabled r \<and> \<not> rr_ok r \<and> rr_interval r \<le> now - rr_last r)"

text \<open>A command: a header of twelve bytes, then as many bytes as the header's size says, of which the first eight are
  dropped as id and type and the last two as terminators. A size of nine makes \<open>substr\<close> take the rest.\<close>

definition relay_exec :: "int \<Rightarrow> rcon_server \<Rightarrow> string \<Rightarrow> relay_rcon \<Rightarrow> string \<times> relay_rcon" where
  "relay_exec now sv cmd r0 =
     (let r = (if \<not> rr_ok r0 \<and> rr_enabled r0 \<and> shouldAttemptReconnect now r0 then snd (reconnect now sv r0) else r0)
      in if \<not> rr_ok r then ([], r)
         else if \<not> rs_sends sv then ([], r\<lparr>rr_id := rr_id r + 1, rr_ok := False\<rparr>)
         else
           let (hdr, r1) = recvExact 12 (relay_send sv 2 cmd r)
           in if length hdr < 12 then ([], r1)
              else let sz = readI32 hdr in if sz < 4 then ([], r1)
              else let (body, r2) = recvExact (nat sz) r1
              in if length body < nat sz then ([], r2)
                 else if length body = 9 then (drop 8 body, r2)
                 else if 8 < length body then (take (length body - 10) (drop 8 body), r2)
                 else ([], r2))"

fun relay_execs :: "rcon_server \<Rightarrow> (int \<times> string) list \<Rightarrow> relay_rcon \<Rightarrow> string list \<times> relay_rcon" where
  "relay_execs sv [] r = ([], r)"
| "relay_execs sv ((now, cmd) # cs) r =
     (let (a, r1) = relay_exec now sv cmd r; (bs, r2) = relay_execs sv cs r1 in (a # bs, r2))"

text \<open>A round of the keep-alive thread: a lost connection is made again, otherwise the player list is asked for and, when
  there is one, posted.\<close>

definition keepalive_round :: "int \<Rightarrow> rcon_server \<Rightarrow> relay_rcon \<Rightarrow> string option \<times> relay_rcon" where
  "keepalive_round now sv r =
     (if \<not> rr_ok r then (None, if shouldAttemptReconnect now r then snd (reconnect now sv r) else r)
      else let (raw, r1) = relay_exec now sv ''ListPlayers'' r in (if raw = [] then None else Some raw, r1))"

fun keepalive_rounds :: "rcon_server \<Rightarrow> int list \<Rightarrow> relay_rcon \<Rightarrow> string list" where
  "keepalive_rounds sv [] r = []"
| "keepalive_rounds sv (now # ts) r =
     (let (raw, r1) = keepalive_round now sv r; rest = keepalive_rounds sv ts r1
      in case raw of None \<Rightarrow> rest | Some l \<Rightarrow> l # rest)"

section \<open>Chat (pollChat)\<close>

text \<open>What one read of the socket gives: nothing, an exception in the polling thread (a body of negative length), or a
  message with type, name, text and Steam id.\<close>

datatype chat_read = Nothing | Crash | Message string string string string

definition after_steam :: "string \<Rightarrow> string" where
  "after_steam body =
     (case str_find ''Steam:'' body of
        None \<Rightarrow> []
      | Some i \<Rightarrow> takeWhile (\<lambda>c. c \<noteq> CHR '' '') (drop (i + 6) body))"

definition parse_chat :: "string \<Rightarrow> chat_read" where
  "parse_chat body =
     (case str_find '']'' body of
        None \<Rightarrow> Nothing
      | Some c1 \<Rightarrow>
          let ct = (if c1 = 0 then drop 1 body else take (c1 - 1) (drop 1 body))
          in (case str_find '']'' (drop (c1 + 1) body) of
                None \<Rightarrow> Nothing
              | Some k \<Rightarrow>
                  let c2 = c1 + 1 + k
                  in (case str_find '' : '' (drop c2 body) of
                        None \<Rightarrow> Nothing
                      | Some j \<Rightarrow>
                          let name = (if j = 1 then drop (c2 + 2) body else take (j - 2) (drop (c2 + 2) body))
                          in Message ct (relay_trim name) (drop (c2 + j + 3) body) (after_steam body))))"

text \<open>One read takes at most 4096 bytes off the stream, whatever packets they are.\<close>

definition pollChat :: "bool \<Rightarrow> relay_rcon \<Rightarrow> chat_read \<times> relay_rcon" where
  "pollChat listening r =
     (if \<not> rr_ok r then (Nothing, r)
      else
        let (buf, r1) = recvExact 4096 r; n = length buf
        in if n < 12 then (Nothing, r1)
           else if readI32 (drop 8 buf) = 1 \<and> listening
           then (if n < 14 then (Crash, r1) else (parse_chat (take (n - 14) (drop 12 buf)), r1))
           else (Nothing, r1))"

end
