(* ===== verification/RelayRconProps.thy ===== *)
theory RelayRconProps
  imports RelayRcon RconProps
begin

text \<open>
  Properties of the relay's RCON client: what its commands answer and how it reads chat messages.
\<close>

section \<open>Headers\<close>

lemma length_pack [simp]: "length (relay_pack ty i b) = length b + 14"
  by (simp add: relay_pack_def Let_def)

lemma sint_small: "n < 2147483648 \<Longrightarrow> sint (of_nat n :: 32 word) = int n"
  by (simp add: signed_of_nat signed_take_bit_int_eq_self)

lemma pack_size: "unat (4 + 4 + of_nat (length b) + 2 :: 32 word) = length b + 10" if "length b \<le> 32000"
proof -
  have "4 + 4 + of_nat (length b) + 2 = (of_nat (length b + 10) :: 32 word)" by simp
  then show ?thesis using that by (simp only: unsigned_of_nat) (simp add: take_bit_nat_eq_self)
qed

lemma readI32_size:
  assumes "length b \<le> 32000"
  shows "readI32 (relay_pack ty i b @ s) = int (length b) + 10"
proof -
  have "of_le32 (relay_pack ty i b @ s) = of_le32 (le32 (4 + 4 + of_nat (length b) + 2))"
    by (simp add: relay_pack_def Let_def of_le32_def nth_append)
  also have "\<dots> = of_nat (length b + 10)" by simp
  finally show ?thesis using assms by (simp only: readI32_def) (subst sint_small, simp_all)
qed

text \<open>Two bytes too early, the size seems to be 65536 times what it is.\<close>

lemma readI32_shifted:
  assumes "length b \<le> 32000"
  shows "readI32 (CHR 0x00 # CHR 0x00 # relay_pack ty i b @ s) = 65536 * (int (length b) + 10)"
proof -
  obtain n where n: "n = length b + 10" "n < 32768" using assms by simp
  have "of_le32 (CHR 0x00 # CHR 0x00 # relay_pack ty i b @ s) = of_nat (65536 * (n mod 256) + 16777216 * (n div 256 mod 256))"
    using pack_size [OF assms] by (simp add: relay_pack_def Let_def of_le32_def le32_def byte_of_def n(1))
  moreover have "n div 256 mod 256 = n div 256" using n(2) by (simp add: less_mult_imp_div_less)
  moreover have "65536 * (n mod 256) + 16777216 * (n div 256) = 65536 * n"
    using div_mult_mod_eq [of n 256] by linarith
  ultimately have "of_le32 (CHR 0x00 # CHR 0x00 # relay_pack ty i b @ s) = of_nat (65536 * n)" by (simp only:)
  then have "readI32 (CHR 0x00 # CHR 0x00 # relay_pack ty i b @ s) = int (65536 * n)"
    using n(2) by (simp only: readI32_def) (rule sint_small, simp)
  then show ?thesis by (simp add: n(1))
qed

section \<open>Commands\<close>

text \<open>A server as the protocol has it: it accepts the password with one packet, or with an empty one in front of it, and
  answers a command with one packet.\<close>

definition answers_auth :: "rcon_server \<Rightarrow> relay_rcon \<Rightarrow> bool" where
  "answers_auth sv r = (rs_open sv \<and> rs_sends sv \<and> sint (rr_id r) \<noteq> - 1 \<and>
     (rs_reply sv (relay_pack 3 (rr_id r) (rr_pass r)) = relay_pack 2 (rr_id r) [] \<or>
      rs_reply sv (relay_pack 3 (rr_id r) (rr_pass r)) = relay_pack 0 (rr_id r) [] @ relay_pack 2 (rr_id r) []))"

definition answers_with :: "rcon_server \<Rightarrow> (string \<Rightarrow> string) \<Rightarrow> bool" where
  "answers_with sv f = (\<forall>i c. rs_reply sv (relay_pack 2 i c) = relay_pack 0 i (f c) \<and> length (f c) \<le> 32000)"

definition left_over :: "32 word \<Rightarrow> string \<Rightarrow> bool" where
  "left_over i x = (x = [] \<or> x = [CHR 0x00, CHR 0x00] \<or> x = [CHR 0x00, CHR 0x00] @ relay_pack 2 i [])"

lemma readI32_take: "readI32 (take 12 s) = readI32 s"
  by (simp add: readI32_def of_le32_def)

text \<open>A size larger than what arrives makes the answer empty and uses up the inbox.\<close>

lemma exec_short:
  assumes "rr_ok r" "rs_sends sv" "rr_inbox r @ rs_reply sv (relay_pack 2 (rr_id r) cmd) = w"
    and "12 \<le> length w" "readI32 w = int k" "4 \<le> k" "length w < k + 12"
  shows "\<exists>r'. relay_exec now sv cmd r = ([], r') \<and> rr_ok r' \<and> rr_inbox r' = []"
  using assms by (auto simp: relay_exec_def recvExact_def relay_send_def readI32_take Let_def)

lemma exec_nothing:
  assumes "rr_ok r" "rs_sends sv" "answers_with sv f" "left_over i (rr_inbox r)"
  shows "\<exists>r'. relay_exec now sv cmd r = ([], r') \<and> rr_ok r' \<and> rr_inbox r' = []"
proof -
  let ?reply = "relay_pack 0 (rr_id r) (f cmd)" and ?n = "length (f cmd)"
  have reply: "rs_reply sv (relay_pack 2 (rr_id r) cmd) = ?reply" and small: "?n \<le> 32000"
    using assms(3) by (auto simp: answers_with_def)
  note go = exec_short [OF assms(1,2) refl]
  consider "rr_inbox r = []" | "rr_inbox r = [CHR 0x00, CHR 0x00]" | "rr_inbox r = [CHR 0x00, CHR 0x00] @ relay_pack 2 i []"
    using assms(4) by (auto simp: left_over_def)
  then show ?thesis
  proof cases
    case 1
    then show ?thesis using readI32_size [OF small, of 0 "rr_id r" "[]"] by (intro go [of cmd "?n + 10"]) (simp_all add: reply)
  next
    case 2
    then show ?thesis using readI32_shifted [OF small, of 0 "rr_id r" "[]"] small
      by (intro go [of cmd "65536 * (?n + 10)"]) (simp_all add: reply)
  next
    case 3
    then show ?thesis using readI32_shifted [of "[]" 2 i ?reply] small by (intro go [of cmd 655360]) (simp_all add: reply)
  qed
qed

lemma connect_left_over:
  assumes "answers_auth sv r"
  shows "\<exists>r'. relay_connect sv r = (True, r') \<and> rr_ok r' \<and> left_over (rr_id r) (rr_inbox r')"
proof -
  have i: "readI32 (drop 4 (take 12 (relay_pack ty (rr_id r) [] @ s))) = sint (rr_id r)" for ty s
    using of_le32_le32 [of "rr_id r"] by (simp add: relay_pack_def Let_def readI32_def of_le32_def nth_append)
  have d: "drop 12 (relay_pack ty (rr_id r) [] @ s) = [CHR 0x00, CHR 0x00] @ s" for ty s
    by (simp add: relay_pack_def Let_def)
  show ?thesis
    using assms i [of 2 "[]"] i [of 0 "relay_pack 2 (rr_id r) []"] d [of 2 "[]"] d [of 0 "relay_pack 2 (rr_id r) []"]
    by (auto simp: answers_auth_def relay_connect_def relay_send_def recvExact_def left_over_def Let_def)
qed


text \<open>So no player list ever reaches the panel through the relay.\<close>

lemma keepalive_silent:
  assumes "answers_auth sv r" "answers_with sv f"
  shows "keepalive_rounds sv ts (snd (relay_connect sv r)) = []"
proof -
  have s: "rs_sends sv" using assms(1) by (simp add: answers_auth_def)
  have "keepalive_rounds sv ts r' = []" if "rr_ok r'" "left_over i (rr_inbox r')" for r' i
    using that
  proof (induction ts arbitrary: r')
    case (Cons now ts)
    from exec_nothing [OF Cons.prems(1) s assms(2) Cons.prems(2), of now "''ListPlayers''"] obtain r2 where
      r: "relay_exec now sv ''ListPlayers'' r' = ([], r2)" "rr_ok r2" "rr_inbox r2 = []" by (elim exE conjE)
    from Cons.IH [OF r(2)] r(3) Cons.prems(1) show ?case by (simp add: left_over_def keepalive_round_def r(1))
  qed simp
  with connect_left_over [OF assms(1)] show ?thesis by auto
qed

definition demo_rcon_server :: rcon_server where
  "demo_rcon_server = \<lparr>rs_open = True, rs_sends = True,
     rs_reply = (\<lambda>p. if of_le32 (drop 8 p) = 3 then relay_pack 2 (of_le32 (drop 4 p)) [] else relay_pack 0 (of_le32 (drop 4 p)) ''players'')\<rparr>"

definition demo_rcon :: relay_rcon where
  "demo_rcon = \<lparr>rr_pass = ''pw'', rr_enabled = True, rr_interval = 30, rr_last = 0, rr_ok = False, rr_id = 1, rr_inbox = []\<rparr>"

lemma pack_fields:
  "of_le32 (drop 4 (relay_pack ty i b)) = i" "of_le32 (drop 8 (relay_pack ty i b)) = ty"
  using of_le32_le32 [of i] of_le32_le32 [of ty] by (simp_all add: relay_pack_def Let_def of_le32_def nth_append)


section \<open>Chat\<close>

lemma str_find_first:
  assumes "\<not> str_contains p (u @ butlast p)" "p \<noteq> []"
  shows "str_find p (u @ p @ v) = Some (length u)"
  using assms(1)
proof (induction u)
  case Nil
  then show ?case using assms(2) by (cases p) auto
next
  case (Cons c u)
  have "\<not> starts_with p (c # u @ p @ v)"
  proof
    assume "starts_with p (c # u @ p @ v)"
    then have "p = take (length p) (c # u @ p @ v)" by (simp add: starts_with_def)
    also have "c # u @ p @ v = (c # u @ butlast p) @ [last p] @ v" using assms(2) by simp
    also have "take (length p) \<dots> = take (length p) (c # u @ butlast p)"
      using assms(2) by (subst take_append) (cases p, simp_all)
    finally have "starts_with p (c # u @ butlast p)" by (simp add: starts_with_def)
    then obtain s where "c # u @ butlast p = p @ s" unfolding starts_with_iff by (elim exE)
    then have "str_contains p (c # u @ butlast p)" unfolding str_contains_iff by (intro exI [of _ "[]"] exI [of _ s]) simp
    then show False using Cons.prems by simp
  qed
  moreover have "\<not> str_contains p (u @ butlast p)"
    using Cons.prems by (auto simp: str_contains_iff) (metis Cons_eq_appendI)
  ultimately show ?case using Cons.IH by simp
qed

lemma drop_at: "n = length a \<Longrightarrow> drop n (a @ b) = b"
  by simp

text \<open>A chat message in the form the source documents is delivered with its type, name and text, and with a Steam id
  that has the closing bracket at its end.\<close>
theorem chat_id_bracket:
  assumes "CHR '']'' \<notin> set ct" "CHR '']'' \<notin> set ids" "CHR '']'' \<notin> set sid" "CHR '' '' \<notin> set sid"
    and "\<not> str_contains ''Steam:'' (''['' @ ct @ ''] [Online Ids:'' @ ids @ ''Steam'')" "\<not> str_contains '' : '' (''] '' @ name @ '' :'')"
  shows "parse_chat (''['' @ ct @ ''] [Online Ids:'' @ ids @ ''Steam:'' @ sid @ ''] '' @ name @ '' : '' @ msg) =
    Message ct (relay_trim name) msg (sid @ '']'')"
proof -
  let ?x = "'' [Online Ids:'' @ ids @ ''Steam:'' @ sid" and ?y = "''] '' @ name @ '' : '' @ msg"
  let ?body = "(''['' @ ct) @ CHR '']'' # ?x @ ?y"
  have 1: "str_find '']'' ?body = Some (length ct + 1)"
    using str_find_char_append [of "CHR '']''" "''['' @ ct" "?x @ ?y"] assms(1) by simp
  have d1: "drop (length ct + 2) ?body = ?x @ ?y" by simp
  have 2: "str_find '']'' (?x @ ?y) = Some (length ?x)"
    using assms(2,3) str_find_char_append [of "CHR '']''" ?x "'' '' @ name @ '' : '' @ msg"] by simp
  have b2: "?body = (''['' @ ct @ '']'' @ ?x) @ ?y" by simp
  have d2: "drop (length ct + 2 + length ?x) ?body = ?y" unfolding b2 by (rule drop_at) simp
  have b3: "?body = (''['' @ ct @ '']'' @ ?x @ ''] '') @ name @ '' : '' @ msg" by simp
  have d3: "drop (length ct + 2 + length ?x + 2) ?body = name @ '' : '' @ msg" unfolding b3 by (rule drop_at) simp
  have b5: "?body = (''['' @ ct @ '']'' @ ?x @ ''] '' @ name @ '' : '') @ msg" by simp
  have d5: "drop (length ct + 2 + length ?x + (length name + 2) + 3) ?body = msg" unfolding b5 by (rule drop_at) simp
  have 3: "str_find '' : '' ?y = Some (length name + 2)"
    using str_find_first [of "'' : ''" "''] '' @ name" msg] assms(6) by simp
  have b4: "?body = (''['' @ ct @ ''] [Online Ids:'' @ ids @ ''Steam:'') @ sid @ ?y" by simp
  have 4: "str_find ''Steam:'' ?body = Some (length ct + length ids + 15)"
  proof -
    let ?u = "''['' @ ct @ ''] [Online Ids:'' @ ids"
    have bl: "butlast ''Steam:'' = ''Steam''" by simp
    have "\<not> str_contains ''Steam:'' (?u @ butlast ''Steam:'')" using assms(5) by (simp only: bl append_assoc not_False_eq_True)
    then have "str_find ''Steam:'' (?u @ ''Steam:'' @ sid @ ?y) = Some (length ?u)" by (rule str_find_first) simp
    moreover have "?u @ ''Steam:'' @ sid @ ?y = ?body" by simp
    moreover have "length ?u = length ct + length ids + 15" by simp
    ultimately show ?thesis by (simp only:)
  qed
  have d4: "drop (length ct + length ids + 15 + 6) ?body = sid @ ?y" unfolding b4 by (rule drop_at) simp
  have "takeWhile (\<lambda>c. c \<noteq> CHR '' '') (sid @ ?y) = sid @ '']''"
    using assms(4) by (subst takeWhile_append2) auto
  then have s: "after_steam ?body = sid @ '']''" by (simp only: after_steam_def 4 option.case d4)
  have a: "length ct + 1 + 1 + length ?x = length ct + 2 + length ?x" "length ct + 1 + 1 = length ct + 2" by simp_all
  have "parse_chat ?body = Message ct (relay_trim name) msg (sid @ '']'')"
    unfolding parse_chat_def 1 option.case Let_def a d1 2 d2 3 d3 d5 s by simp
  then show ?thesis by simp
qed

theorem chat_id_bracket_witness:
  "parse_chat ''[ChatAll] [Online Ids:EOS:0a Steam:765] Al : hi'' = Message ''ChatAll'' ''Al'' ''hi'' ''765]''"
proof -
  have "\<not> str_contains ''Steam:'' (''['' @ ''ChatAll'' @ ''] [Online Ids:'' @ ''EOS:0a '' @ ''Steam'')"
    "\<not> str_contains '' : '' (''] '' @ ''Al'' @ '' :'')" "relay_trim ''Al'' = ''Al''"
    by code_simp+
  with chat_id_bracket [of "''ChatAll''" "''EOS:0a ''" "''765''" "''Al''" "''hi''"] show ?thesis by simp
qed

end
