(* ===== verification/RelayGame.thy ===== *)
theory RelayGame
  imports RelayCore
begin

text \<open>
  The relay's game process (class GameSvr of relay/main.cpp) and the life of the relay itself (main, httpServer,
  shutdownAll and the start-up thread). The threads are their handles: whether a \<open>std::thread\<close> is joinable. Assigning
  to a joinable handle, or destroying one, ends the program with \<open>std::terminate\<close>, here \<open>None\<close>.
\<close>

section \<open>The game process\<close>

record game =
  gs_exe :: string
  gs_params :: string
  gs_autoR :: bool
  gs_max :: int
  gs_cooldown :: int
  gs_base :: int
  gs_run :: bool
  gs_stop :: bool
  gs_st :: string
  gs_rc :: int
  gs_lct :: int
  gs_startT :: int
  gs_outT :: bool
  gs_monT :: bool
  gs_log :: "string list"

definition new_game :: game where
  "new_game = \<lparr>gs_exe = [], gs_params = [], gs_autoR = False, gs_max = 3, gs_cooldown = 300, gs_base = 5, gs_run = False,
     gs_stop = False, gs_st = ''stopped'', gs_rc = 0, gs_lct = 0, gs_startT = 0, gs_outT = False, gs_monT = False, gs_log = []\<rparr>"

definition game_config :: "relay_config \<Rightarrow> game \<Rightarrow> game" where
  "game_config c g = g\<lparr>gs_exe := cf_gameExePath c, gs_params := cf_launchParams c, gs_autoR := cf_autoRestart c,
     gs_max := cf_maxRestartAttempts c, gs_cooldown := cf_restartCooldownSec c, gs_base := cf_restartBaseDelaySec c\<rparr>"

text \<open>Every status is reported to the callback.\<close>

definition setStatus :: "string \<Rightarrow> game \<Rightarrow> game" where
  "setStatus s g = g\<lparr>gs_st := s, gs_log := gs_log g @ [s]\<rparr>"

text \<open>What the system does when asked for a pipe and a process.\<close>

datatype spawn = No_Pipe | No_Process | Spawned

definition game_start :: "(string \<Rightarrow> bool) \<Rightarrow> spawn \<Rightarrow> int \<Rightarrow> game \<Rightarrow> (bool \<times> game) option" where
  "game_start exist sp now g =
     (if gs_run g \<or> gs_st g = ''starting'' then Some (False, g)
      else if gs_exe g = [] \<or> \<not> exist (gs_exe g) then Some (False, g)
      else
        let g1 = setStatus ''starting'' g
        in if sp \<noteq> Spawned then Some (False, setStatus ''crashed'' g1)
           else
             let g2 = setStatus ''running'' (g1\<lparr>gs_run := True, gs_stop := False, gs_startT := now\<rparr>)
             in if gs_outT g2 \<or> gs_monT g2 then None else Some (True, g2\<lparr>gs_outT := True, gs_monT := True\<rparr>))"

definition game_stop :: "game \<Rightarrow> game" where
  "game_stop g = (if gs_run g then g\<lparr>gs_stop := True\<rparr> else g)"

definition tryRestart :: "(string \<Rightarrow> bool) \<Rightarrow> spawn \<Rightarrow> int \<Rightarrow> game \<Rightarrow> game option" where
  "tryRestart exist sp now g =
     (let rc = (if gs_lct g \<noteq> 0 \<and> gs_cooldown g < now - gs_lct g then 0 else gs_rc g);
          g1 = g\<lparr>gs_lct := now, gs_rc := rc + 1\<rparr>
      in if gs_max g < rc + 1 then Some g1
         else map_option snd (game_start exist sp (now + gs_base g * (rc + 1)) (setStatus ''restarting'' g1)))"

text \<open>The monitor thread, once the process has ended: it joins the reader of the output, but nothing joins the monitor.\<close>

definition game_exited :: "(string \<Rightarrow> bool) \<Rightarrow> spawn \<Rightarrow> int \<Rightarrow> game \<Rightarrow> game option" where
  "game_exited exist sp now g =
     (if \<not> gs_run g then Some g
      else
        let g1 = g\<lparr>gs_run := False, gs_outT := False\<rparr>
        in if gs_stop g then Some (setStatus ''stopped'' g1)
           else let g2 = setStatus ''crashed'' g1 in if gs_autoR g then tryRestart exist sp now g2 else Some g2)"

datatype game_event = Start_Game "string \<Rightarrow> bool" spawn int | Stop_Game | Exited "string \<Rightarrow> bool" spawn int | Configured relay_config

fun game_step :: "game_event \<Rightarrow> game \<Rightarrow> game option" where
  "game_step (Start_Game exist sp now) g = map_option snd (game_start exist sp now g)"
| "game_step Stop_Game g = Some (game_stop g)"
| "game_step (Exited exist sp now) g = game_exited exist sp now g"
| "game_step (Configured c) g = Some (game_config c g)"

fun game_run :: "game_event list \<Rightarrow> game \<Rightarrow> game option" where
  "game_run [] g = Some g"
| "game_run (ev # evs) g = Option.bind (game_step ev g) (game_run evs)"

text \<open>The reader of the process's output: every read is cut into lines by itself.\<close>

definition game_output :: "string list \<Rightarrow> string list" where
  "game_output reads = concat (map (\<lambda>b. kept_lines (getlines (CHR 0x0A) b)) reads)"

section \<open>The relay\<close>

text \<open>\<open>main\<close> starts in \<open>Begin\<close>, is about to open its socket in \<open>Serve\<close>, is in the accept loop in \<open>Loop\<close> and after it in
  \<open>Shut\<close>. \<open>Exited\<close> is a normal end, \<open>Aborted\<close> one by \<open>std::terminate\<close>.\<close>

datatype phase = Begin | Serve | Loop | Shut | Ended | Aborted

datatype startup = No_Thread | Sleeping | Finished

record life =
  lf_configured :: bool
  lf_running :: bool
  lf_startup :: startup
  lf_phase :: phase
  lf_accepted :: nat
  lf_relay :: bool

text \<open>\<open>g_running\<close> is false when the program starts.\<close>

definition life_start :: "relay_config \<Rightarrow> life" where
  "life_start c = \<lparr>lf_configured = (ci_token c \<noteq> [] \<and> cf_apiKey c \<noteq> []), lf_running = False, lf_startup = No_Thread,
     lf_phase = Begin, lf_accepted = 0, lf_relay = False\<rparr>"

definition alive :: "life \<Rightarrow> bool" where
  "alive s = (lf_phase s \<noteq> Ended \<and> lf_phase s \<noteq> Aborted)"

inductive life_step :: "life \<Rightarrow> life \<Rightarrow> bool" where
  auto_start: "lf_phase s = Begin \<Longrightarrow> lf_configured s \<Longrightarrow> life_step s (s\<lparr>lf_startup := Sleeping, lf_phase := Serve\<rparr>)"
| no_start: "lf_phase s = Begin \<Longrightarrow> \<not> lf_configured s \<Longrightarrow> life_step s (s\<lparr>lf_phase := Serve\<rparr>)"
| bind_fails: "lf_phase s = Serve \<Longrightarrow> life_step s (s\<lparr>lf_phase := Shut\<rparr>)"
| bind_works: "lf_phase s = Serve \<Longrightarrow> life_step s (s\<lparr>lf_phase := Loop\<rparr>)"
| accept: "lf_phase s = Loop \<Longrightarrow> lf_running s \<Longrightarrow> life_step s (s\<lparr>lf_accepted := lf_accepted s + 1\<rparr>)"
| accept_fails: "lf_phase s = Loop \<Longrightarrow> lf_running s \<Longrightarrow> life_step s (s\<lparr>lf_phase := Shut\<rparr>)"
| loop_ends: "lf_phase s = Loop \<Longrightarrow> \<not> lf_running s \<Longrightarrow> life_step s (s\<lparr>lf_phase := Shut\<rparr>)"
| post_config: "alive s \<Longrightarrow> 0 < lf_accepted s \<Longrightarrow> lf_startup s \<noteq> Sleeping \<Longrightarrow> life_step s (s\<lparr>lf_startup := Sleeping\<rparr>)"
| wakes_stopped: "alive s \<Longrightarrow> lf_startup s = Sleeping \<Longrightarrow> \<not> lf_running s \<Longrightarrow> life_step s (s\<lparr>lf_startup := Finished\<rparr>)"
| relay_starts: "alive s \<Longrightarrow> lf_startup s = Sleeping \<Longrightarrow> lf_running s \<Longrightarrow>
    life_step s (s\<lparr>lf_startup := Finished, lf_running := True, lf_relay := True\<rparr>)"
| relay_refused: "alive s \<Longrightarrow> lf_startup s = Sleeping \<Longrightarrow> lf_running s \<Longrightarrow> life_step s (s\<lparr>lf_startup := Finished\<rparr>)"
| shutdown: "lf_phase s = Shut \<Longrightarrow> lf_running s \<Longrightarrow> life_step s (s\<lparr>lf_running := False, lf_startup := No_Thread, lf_phase := Ended\<rparr>)"
| already_down: "lf_phase s = Shut \<Longrightarrow> \<not> lf_running s \<Longrightarrow>
    life_step s (s\<lparr>lf_phase := (if lf_startup s = No_Thread then Ended else Aborted)\<rparr>)"

code_pred life_step .

inductive_cases life_stepE: "life_step s s'"

end
