(* ===== verification/RelayGameProps.thy ===== *)
theory RelayGameProps
  imports RelayGame
begin

text \<open>
  Properties of the relay's game process and of the life of the relay.
\<close>

section \<open>The game process\<close>

text \<open>What holds of the handles: the monitor's is joinable once the game has run, and stays so.\<close>

definition handles :: "game \<Rightarrow> bool" where
  "handles g = (gs_monT g = (0 < count_list (gs_log g) ''running'') \<and> count_list (gs_log g) ''running'' \<le> 1 \<and> (gs_run g \<longrightarrow> gs_monT g))"

lemma setStatus_simps [simp]:
  "gs_exe (setStatus s g) = gs_exe g" "gs_autoR (setStatus s g) = gs_autoR g" "gs_run (setStatus s g) = gs_run g"
  "gs_monT (setStatus s g) = gs_monT g" "gs_outT (setStatus s g) = gs_outT g" "gs_log (setStatus s g) = gs_log g @ [s]"
  "gs_st (setStatus s g) = s" "gs_lct (setStatus s g) = gs_lct g" "gs_rc (setStatus s g) = gs_rc g"
  "gs_max (setStatus s g) = gs_max g" "gs_cooldown (setStatus s g) = gs_cooldown g"
  by (simp_all add: setStatus_def)

lemma count_snoc [simp]: "count_list (xs @ ys) x = count_list xs x + count_list ys x"
  by (induction xs) auto

lemma handles_status: "s \<noteq> ''running'' \<Longrightarrow> handles (setStatus s g) = handles g"
  by (simp add: handles_def)

lemma start_handles:
  assumes "handles g" "game_start exist sp now g = Some (ok, g')"
  shows "handles g'"
proof -
  have "gs_monT g \<Longrightarrow> \<not> gs_run g \<Longrightarrow> sp = Spawned \<Longrightarrow> gs_st g \<noteq> ''starting'' \<Longrightarrow> gs_exe g \<noteq> [] \<Longrightarrow> exist (gs_exe g) \<Longrightarrow> False"
    using assms(2) by (simp add: game_start_def Let_def)
  then show ?thesis
    using assms by (auto simp: game_start_def handles_def Let_def split: if_splits)
qed

lemma handles_cong: "gs_log g' = gs_log g \<Longrightarrow> gs_monT g' = gs_monT g \<Longrightarrow> gs_run g' \<longrightarrow> gs_run g \<Longrightarrow> handles g \<Longrightarrow> handles g'"
  by (auto simp: handles_def)

lemma restart_handles:
  assumes "handles g" "tryRestart exist sp now g = Some g'"
  shows "handles g'"
proof -
  have "handles (g\<lparr>gs_lct := a, gs_rc := b\<rparr>)" for a b by (rule handles_cong [OF _ _ _ assms(1)]) simp_all
  then have "handles (setStatus ''restarting'' (g\<lparr>gs_lct := a, gs_rc := b\<rparr>))" for a b by (simp add: handles_status)
  with assms show ?thesis
    by (auto simp: tryRestart_def Let_def split: if_splits intro: start_handles handles_cong)
qed

lemma step_handles:
  assumes "handles g" "game_step ev g = Some g'"
  shows "handles g'"
proof (cases ev)
  case (Start_Game exist sp now)
  with assms(2) obtain ok where "game_start exist sp now g = Some (ok, g')" by auto
  then show ?thesis by (rule start_handles [OF assms(1)])
next
  case (Exited exist sp now)
  have h: "handles (g\<lparr>gs_run := False, gs_outT := False\<rparr>)" by (rule handles_cong [OF _ _ _ assms(1)]) simp_all
  then show ?thesis
    using assms Exited restart_handles [of "setStatus ''crashed'' (g\<lparr>gs_run := False, gs_outT := False\<rparr>)" exist sp now g']
    by (auto simp: game_exited_def Let_def handles_status split: if_splits)
next
  case Stop_Game
  then show ?thesis using assms(2) by (intro handles_cong [OF _ _ _ assms(1)]) (auto simp: game_stop_def split: if_splits)
next
  case (Configured c)
  then show ?thesis using assms(2) by (intro handles_cong [OF _ _ _ assms(1)]) (auto simp: game_config_def)
qed

lemma run_handles: "handles g \<Longrightarrow> game_run evs g = Some g' \<Longrightarrow> handles g'"
  by (induction evs arbitrary: g) (auto dest: step_handles simp: bind_eq_Some_conv)

text \<open>C35: The relay survives one run of the game server at most: once the server has been running, any later start that
  gets as far as a process, by hand or by the automatic restart, assigns to a joinable thread and ends the relay.\<close>
theorem second_start_terminates:
  assumes "game_run evs new_game = Some g"
  shows "count_list (gs_log g) ''running'' \<le> 1 \<and>
    (0 < count_list (gs_log g) ''running'' \<and> \<not> gs_run g \<and> gs_st g \<noteq> ''starting'' \<and> gs_exe g \<noteq> [] \<and> exist (gs_exe g)
       \<longrightarrow> game_start exist Spawned now g = None) \<and>
    (gs_run g \<and> \<not> gs_stop g \<and> gs_autoR g \<and> gs_lct g = 0 \<and> gs_rc g < gs_max g \<and> gs_exe g \<noteq> [] \<and> exist (gs_exe g)
       \<longrightarrow> game_exited exist Spawned now g = None)"
proof -
  have "handles new_game" by (simp add: handles_def new_game_def)
  from run_handles [OF this assms] have h: "handles g" .
  then show ?thesis
    by (auto simp: handles_def game_start_def game_exited_def tryRestart_def Let_def)
qed

section \<open>The relay\<close>

definition idle :: "life \<Rightarrow> bool" where
  "idle s = (\<not> lf_running s \<and> lf_accepted s = 0 \<and> \<not> lf_relay s \<and>
     (lf_phase s = Begin \<longrightarrow> lf_startup s = No_Thread) \<and> (lf_phase s \<noteq> Begin \<longrightarrow> (lf_startup s = No_Thread) = (\<not> lf_configured s)) \<and>
     (lf_phase s = Ended \<longrightarrow> \<not> lf_configured s) \<and> (lf_phase s = Aborted \<longrightarrow> lf_configured s))"

lemma idle_step: "life_step s s' \<Longrightarrow> idle s \<Longrightarrow> idle s' \<and> lf_configured s' = lf_configured s"
  by (induction rule: life_step.induct) (auto simp: idle_def alive_def)

lemma idle_reach: "life_step\<^sup>*\<^sup>* s s' \<Longrightarrow> idle s \<Longrightarrow> idle s' \<and> lf_configured s' = lf_configured s"
  by (induction rule: rtranclp_induct) (auto dest: idle_step)

definition steps_left :: "life \<Rightarrow> nat" where
  "steps_left s = (case lf_phase s of Begin \<Rightarrow> 5 | Serve \<Rightarrow> 3 | Loop \<Rightarrow> 2 | Shut \<Rightarrow> 1 | Ended \<Rightarrow> 0 | Aborted \<Rightarrow> 0)
     + (if lf_startup s = Sleeping \<and> alive s then 1 else 0)"

lemma steps_less: "life_step s s' \<Longrightarrow> idle s \<Longrightarrow> steps_left s' < steps_left s"
  by (induction rule: life_step.induct) (auto simp: idle_def alive_def steps_left_def)

lemma steps_bound: "(life_step ^^ n) s s' \<Longrightarrow> idle s \<Longrightarrow> n + steps_left s' \<le> steps_left s"
proof (induction n arbitrary: s')
  case (Suc n)
  from Suc.prems(1) obtain t where t: "(life_step ^^ n) s t" "life_step t s'" by auto
  have "idle t" using idle_reach [OF relpowp_imp_rtranclp [OF t(1)] Suc.prems(2)] by simp
  from steps_less [OF t(2) this] Suc.IH [OF t(1) Suc.prems(2)] show ?case by simp
qed simp

lemma idle_start: "idle (life_start c)"
  by (simp add: idle_def life_start_def)

lemma alive_steps: "idle s \<Longrightarrow> alive s \<Longrightarrow> \<exists>s'. life_step s s'"
  by (cases "lf_phase s"; cases "lf_configured s")
    (auto simp: idle_def alive_def intro: life_step.auto_start life_step.no_start life_step.bind_fails life_step.loop_ends life_step.already_down)

text \<open>C30: The relay never runs: the flag every loop and the start-up thread wait for is set only by the start they guard,
  so no connection is ever accepted, the relay is never started, and the program is over after at most five steps,
  by an abort when its configuration was stored and normally when it was not.\<close>
theorem relay_never_runs:
  assumes "(life_step ^^ n) (life_start c) s"
  shows "\<not> lf_running s \<and> lf_accepted s = 0 \<and> \<not> lf_relay s \<and> n \<le> 5 \<and>
    ((\<exists>s'. life_step s s') \<or> lf_phase s = (if ci_token c \<noteq> [] \<and> cf_apiKey c \<noteq> [] then Aborted else Ended))"
proof -
  have i: "idle s" "lf_configured s = lf_configured (life_start c)"
    using idle_reach [OF relpowp_imp_rtranclp [OF assms] idle_start] by simp_all
  have "n \<le> 5" using steps_bound [OF assms idle_start] by (simp add: steps_left_def life_start_def)
  moreover have "(\<exists>s'. life_step s s') \<or> lf_phase s = (if ci_token c \<noteq> [] \<and> cf_apiKey c \<noteq> [] then Aborted else Ended)"
    using alive_steps [OF i(1)] i by (auto simp: alive_def idle_def life_start_def)
  ultimately show ?thesis using i(1) by (simp add: idle_def)
qed

definition one_game :: "game_event list" where
  "one_game = [Configured (relay_defaults\<lparr>cf_gameExePath := ''e'', cf_autoRestart := True\<rparr>), Start_Game (\<lambda>_. True) Spawned 7]"

theorem second_start_terminates_witness:
  "\<exists>g. game_run one_game new_game = Some g \<and> game_exited (\<lambda>_. True) Spawned 9 g = None"
proof -
  have "\<exists>g. game_run one_game new_game = Some g \<and> gs_run g \<and> \<not> gs_stop g \<and> gs_autoR g \<and> gs_lct g = 0 \<and> gs_rc g < gs_max g \<and> gs_exe g \<noteq> []"
    by (simp add: one_game_def new_game_def game_config_def relay_defaults_def game_start_def setStatus_def Let_def)
  then obtain g where g: "game_run one_game new_game = Some g" "gs_run g" "\<not> gs_stop g" "gs_autoR g" "gs_lct g = 0"
    "gs_rc g < gs_max g" "gs_exe g \<noteq> []" by (elim exE conjE)
  from second_start_terminates [OF g(1), of "\<lambda>_. True" 9] g show ?thesis by (intro exI [of _ g]) simp
qed

theorem relay_never_runs_witness:
  "\<exists>s. (life_step ^^ Suc (Suc (Suc (Suc 0)))) (life_start relay_defaults) s \<and> lf_accepted s = 0 \<and> lf_phase s = Ended"
proof -
  let ?s = "life_start relay_defaults"
  have c: "\<not> lf_configured ?s" "lf_phase ?s = Begin" "\<not> lf_running ?s" "lf_startup ?s = No_Thread" "ci_token relay_defaults = []"
    by (simp_all add: life_start_def relay_defaults_def)
  have "life_step ?s (?s\<lparr>lf_phase := Serve\<rparr>)" using c by (intro life_step.no_start)
  moreover have "life_step (?s\<lparr>lf_phase := Serve\<rparr>) (?s\<lparr>lf_phase := Loop\<rparr>)" using life_step.bind_works [of "?s\<lparr>lf_phase := Serve\<rparr>"] by simp
  moreover have "life_step (?s\<lparr>lf_phase := Loop\<rparr>) (?s\<lparr>lf_phase := Shut\<rparr>)" using life_step.loop_ends [of "?s\<lparr>lf_phase := Loop\<rparr>"] c by simp
  moreover have "life_step (?s\<lparr>lf_phase := Shut\<rparr>) (?s\<lparr>lf_phase := Ended\<rparr>)" using life_step.already_down [of "?s\<lparr>lf_phase := Shut\<rparr>"] c by simp
  ultimately have "(life_step ^^ Suc (Suc (Suc (Suc 0)))) ?s (?s\<lparr>lf_phase := Ended\<rparr>)"
    by (intro relpowp_Suc_I) (simp_all add: eq_OO)
  from this relay_never_runs [OF this] show ?thesis by (intro exI [of _ "?s\<lparr>lf_phase := Ended\<rparr>"]) simp
qed

end
