(* ===== verification/RelayHttp.thy ===== *)
theory RelayHttp
  imports RelayGame
begin

text \<open>
  The relay's two small HTTP servers (relay/main.cpp): the files of the game server they edit (bans, admins, reserved
  slots), the parsing of a request, the web interface's routes and the routes for the panel with their key. A request
  is what one \<open>recv\<close> returned. \<open>None\<close> is an exception, answered by the handlers themselves.
\<close>

section \<open>The game server's files\<close>

definition squad_file :: "string \<Rightarrow> string list \<Rightarrow> string" where
  "squad_file name drive = win_path (drive @ [''SquadGame'', ''ServerConfig'', name])"

definition config_dir :: "relay_config \<Rightarrow> string" where
  "config_dir c = dirOf (dirOf (cf_logDir c))"

definition config_paths :: "relay_config \<Rightarrow> string \<Rightarrow> string list" where
  "config_paths c name =
     [config_dir c @ [CHR 0x5C] @ win_path [''ServerConfig'', name], squad_file name [''C:'', ''Servers'', ''squad''],
      squad_file name [''C:'', ''SquadServer''], squad_file name [''D:'', ''Servers'', ''squad'']]"

definition find_config :: "files \<Rightarrow> relay_config \<Rightarrow> string \<Rightarrow> string" where
  "find_config fs c name = (case find (fileExists fs) (config_paths c name) of None \<Rightarrow> [] | Some p \<Rightarrow> p)"

definition findReservedSlots :: "files \<Rightarrow> relay_config \<Rightarrow> string" where
  "findReservedSlots fs c = find_config fs c ''ReservedSlots.cfg''"

definition findBanList :: "files \<Rightarrow> relay_config \<Rightarrow> string" where
  "findBanList fs c = find_config fs c ''BanList.cfg''"

definition findAdmins :: "files \<Rightarrow> relay_config \<Rightarrow> string" where
  "findAdmins fs c = find_config fs c ''Admins.cfg''"

definition file_text :: "string list \<Rightarrow> string" where
  "file_text ls = concat (map (\<lambda>l. l @ crlf) ls)"

text \<open>Blank lines and comments are kept as they are.\<close>

definition plain_line :: "string \<Rightarrow> bool" where
  "plain_line t = (t = [] \<or> hd t = CHR ''#'')"

definition ban_of :: "string \<Rightarrow> string \<Rightarrow> bool" where
  "ban_of sid l =
     (let t = relay_trim l
      in \<not> plain_line t \<and> (case str_find '':'' t of None \<Rightarrow> False | Some cp \<Rightarrow> take cp t = sid))"

definition unban :: "relay_config \<Rightarrow> string \<Rightarrow> files \<Rightarrow> string + files" where
  "unban c sid fs =
     (let p = findBanList fs c; ls = splitLines (readFile fs p)
      in if p = [] then Inl (([CHR 0xE6, CHR 0x89, CHR 0xBE, CHR 0xE4, CHR 0xB8, CHR 0x8D, CHR 0xE5, CHR 0x88, CHR 0xB0] @ ''BanList.cfg''))
         else if \<not> list_ex (ban_of sid) ls then Inl ([CHR 0xE6, CHR 0x9C, CHR 0xAA, CHR 0xE6, CHR 0x89, CHR 0xBE, CHR 0xE5, CHR 0x88, CHR 0xB0] @ sid)
         else Inr (writeFile p (file_text (filter (\<lambda>l. \<not> ban_of sid l) ls)) fs))"

record SyncResult =
  sr_success :: bool
  sr_already :: bool
  sr_notFound :: bool

definition admin_of :: "string \<Rightarrow> string \<Rightarrow> bool" where
  "admin_of sid l =
     (let t = relay_trim l
      in \<not> plain_line t \<and>
         (case str_find '':'' t of
            None \<Rightarrow> False
          | Some cp \<Rightarrow> takeWhile (\<lambda>ch. ch \<noteq> CHR '':'') (drop (cp + 1) t) = sid))"

definition admin_line :: "string \<Rightarrow> string \<Rightarrow> string" where
  "admin_line sid lv =
     (let owner = (lv = ''server_owner'')
      in ''Admin:'' @ sid @ '':'' @ (if owner then ''Admin'' else ''Moderator'') @ '':'' @
         (if owner then ''cankickcanban'' else ''canbalancecanrestart''))"

definition syncAdmin :: "relay_config \<Rightarrow> string \<Rightarrow> string \<Rightarrow> string \<Rightarrow> files \<Rightarrow> string + SyncResult \<times> files" where
  "syncAdmin c sid act lv fs =
     (let p = findAdmins fs c; ls = splitLines (readFile fs p); found = list_ex (admin_of sid) ls;
          kept = (if act = ''add'' then ls else filter (\<lambda>l. \<not> admin_of sid l) ls);
          new = (if act = ''add'' \<and> \<not> found then kept @ [admin_line sid lv] else kept);
          r = (if act = ''add'' \<and> \<not> found then \<lparr>sr_success = True, sr_already = False, sr_notFound = False\<rparr>
               else if act = ''add'' then \<lparr>sr_success = False, sr_already = True, sr_notFound = False\<rparr>
               else if act = ''remove'' \<and> found then \<lparr>sr_success = True, sr_already = False, sr_notFound = False\<rparr>
               else \<lparr>sr_success = False, sr_already = False, sr_notFound = True\<rparr>)
      in if p = [] then Inl (([CHR 0xE6, CHR 0x89, CHR 0xBE, CHR 0xE4, CHR 0xB8, CHR 0x8D, CHR 0xE5, CHR 0x88, CHR 0xB0] @ ''Admins.cfg'')) else Inr (r, writeFile p (file_text new) fs))"

definition slot_of :: "string \<Rightarrow> string \<Rightarrow> bool" where
  "slot_of sid l = (let t = relay_trim l in \<not> plain_line t \<and> t = sid)"

text \<open>The two routes make different paths for a file that does not exist yet.\<close>

definition sync_slot :: "string \<Rightarrow> relay_config \<Rightarrow> string \<Rightarrow> string \<Rightarrow> files \<Rightarrow> files" where
  "sync_slot dir c action sid fs =
     (let p = (if findReservedSlots fs c = [] then dir @ ''/ReservedSlots.cfg'' else findReservedSlots fs c);
          ls = splitLines (readFile fs p);
          kept = (if action = ''remove'' then filter (\<lambda>l. \<not> slot_of sid l) ls else ls);
          new = (if action = ''add'' \<and> \<not> list_ex (slot_of sid) ls then kept @ [sid] else kept)
      in writeFile p (file_text new) fs)"

definition reserved_slots :: "relay_config \<Rightarrow> files \<Rightarrow> string list" where
  "reserved_slots c fs =
     (let p = findReservedSlots fs c
      in if p = [] then [] else filter (\<lambda>t. \<not> plain_line t) (map relay_trim (splitLines (readFile fs p))))"

section \<open>Detection\<close>

definition log_dirs :: "string list" where
  "log_dirs = map (\<lambda>base. win_path (base @ [''SquadGame'', ''Saved'', ''Logs'']))
     [[''C:'', ''Servers'', ''squad''], [''C:'', ''SquadServer''], [''C:'', ''Squad''], [''D:'', ''Servers'', ''squad''], [''D:'', ''SquadServer''],
      [''D:'', ''Squad''], [''C:'', ''steamcmd'', ''squad_server''], [''D:'', ''steamcmd'', ''squad_server'']]"

definition exe_paths :: "string list" where
  "exe_paths = map (\<lambda>base. win_path (base @ [''Binaries'', ''Win64'', ''SquadServer.exe'']))
     [[''C:'', ''SquadServer''], [''D:'', ''SquadServer''], [''C:'', ''Servers'', ''squad''], [''D:'', ''Servers'', ''squad''],
      [''C:'', ''steamcmd'', ''squad_server''], [''D:'', ''steamcmd'', ''squad_server'']]"

text \<open>Which directories hold a log file is the system's to say.\<close>

definition detectLog :: "(string \<Rightarrow> bool) \<Rightarrow> string" where
  "detectLog has_log = (case find has_log log_dirs of None \<Rightarrow> [] | Some d \<Rightarrow> d)"

definition detectExe :: "files \<Rightarrow> string list" where
  "detectExe fs = filter (fileExists fs) exe_paths"

section \<open>Requests\<close>

record HttpRequest =
  hq_method :: string
  hq_path :: string
  hq_body :: string

definition parseReq :: "string \<Rightarrow> HttpRequest option" where
  "parseReq raw =
     (case str_find (crlf @ crlf) raw of
        None \<Rightarrow> None
      | Some hp \<Rightarrow>
          (let sl = (case str_find crlf raw of Some i \<Rightarrow> take i raw | None \<Rightarrow> raw)
           in case str_find '' '' sl of
                None \<Rightarrow> None
              | Some sp1 \<Rightarrow>
                  (case str_find '' '' (drop (sp1 + 1) sl) of
                     None \<Rightarrow> None
                   | Some k \<Rightarrow> Some \<lparr>hq_method = take sp1 sl, hq_path = take k (drop (sp1 + 1) sl), hq_body = drop (hp + 4) raw\<rparr>)))"

record reply =
  rp_code :: int
  rp_type :: string
  rp_text :: string

text \<open>What is sent: every answer may be read by any web page.\<close>

definition reply_text :: "reply \<Rightarrow> string" where
  "reply_text r =
     ''HTTP/1.1 '' @ to_string (rp_code r) @ (if rp_code r = 200 then '' OK'' else '' Error'') @ crlf @ ''Content-Type:'' @ rp_type r @ crlf @
     ''Content-Length:'' @ to_string (int (length (rp_text r))) @ crlf @ ''Connection:close'' @ crlf @
     ''Access-Control-Allow-Origin:*'' @ crlf @ ''Access-Control-Allow-Methods:GET,POST,OPTIONS'' @ crlf @
     ''Access-Control-Allow-Headers:Content-Type'' @ crlf @ crlf @ rp_text r"

definition json_text :: "int \<Rightarrow> string \<Rightarrow> reply" where
  "json_text code body = \<lparr>rp_code = code, rp_type = ''application/json'', rp_text = body\<rparr>"

section \<open>The relay's state\<close>

text \<open>What the routes use of the system: the network, the JSON library with the text of its exceptions, the page of the
  web interface, which directories hold logs, what happens when a process is started, and the time.\<close>

record host =
  ho_net :: net
  ho_dump :: "json \<Rightarrow> string"
  ho_parse :: "string \<Rightarrow> json option"
  ho_what :: string
  ho_web :: string
  ho_has_log :: "string \<Rightarrow> bool"
  ho_spawn :: spawn
  ho_time :: int

record status =
  su_panelOk :: bool
  su_rconOk :: bool
  su_logDir :: string
  su_sent :: int
  su_lastEvt :: string
  su_errs :: "string list"
  su_startT :: string

record agent =
  ag_cfg :: relay_config
  ag_cfgPath :: string
  ag_files :: files
  ag_game :: game
  ag_status :: status
  ag_startups :: nat
  ag_restarts :: nat

definition addErr :: "string \<Rightarrow> string \<Rightarrow> status \<Rightarrow> status" where
  "addErr now e s = (let es = su_errs s @ [now @ '' '' @ e] in s\<lparr>su_errs := (if 50 < length es then tl es else es)\<rparr>)"

definition error_json :: "host \<Rightarrow> string \<Rightarrow> string" where
  "error_json h msg = ho_dump h (JObj [(''error'', JStr msg)])"

definition failed :: "host \<Rightarrow> int \<Rightarrow> string \<Rightarrow> reply" where
  "failed h code msg = json_text code (error_json h msg)"

section \<open>Configuration over HTTP (POST /api/config)\<close>

definition register_body :: "relay_config \<Rightarrow> string \<Rightarrow> json" where
  "register_body c name = JObj [(''host'', JStr (cf_serverHost c)), (''name'', JStr name), (''rconPassword'', JStr (cf_rconPassword c)),
     (''rconPort'', JInt (cf_rconPort c)), (''registerCode'', JStr (cf_registerCode c))]"

text \<open>\<open>json::parse(body)["apiKey"]\<close> as a text.\<close>

definition text_member :: "host \<Rightarrow> string \<Rightarrow> string \<Rightarrow> string option" where
  "text_member h body key = Option.bind (ho_parse h body) (\<lambda>j. case j_lookup j key of Some (JStr s) \<Rightarrow> Some s | _ \<Rightarrow> None)"

definition register_relay :: "host \<Rightarrow> relay_config \<Rightarrow> string \<Rightarrow> HttpResp option" where
  "register_relay h c name = httpPost (ho_net h) (cf_panelUrl c @ ''/api/relay/register'') (ho_dump h (register_body c name)) []"

definition auth_relay :: "host \<Rightarrow> relay_config \<Rightarrow> (string \<times> string) list \<Rightarrow> HttpResp option" where
  "auth_relay h c hdrs =
     httpPost (ho_net h) (cf_panelUrl c @ ''/api/relay/auth'') (ho_dump h (JObj [(''apiKey'', JStr (cf_apiKey c))])) hdrs"

text \<open>The first registration, when there is a code and no key: the configuration with the key, or the answer.\<close>

definition first_key :: "host \<Rightarrow> relay_config \<Rightarrow> (reply + relay_config) option" where
  "first_key h c =
     (if cf_registerCode c = [] \<or> cf_apiKey c \<noteq> [] then Some (Inr c)
      else Option.bind (register_relay h c (if cf_serverName c = [] then ''Squad Server'' else cf_serverName c)) (\<lambda>r.
        if \<not> hr_ok r then Some (Inl (failed h 400 ([CHR 0xE6, CHR 0xB3, CHR 0xA8, CHR 0xE5, CHR 0x86, CHR 0x8C, CHR 0xE5, CHR 0xA4, CHR 0xB1, CHR 0xE8, CHR 0xB4, CHR 0xA5] @ '':'' @ hr_body r)))
        else map_option (\<lambda>k. Inr (c\<lparr>cf_apiKey := k\<rparr>)) (text_member h (hr_body r) ''apiKey'')))"

text \<open>The authentication, with one more registration when the key is refused and there is a code.\<close>

definition auth_again :: "host \<Rightarrow> relay_config \<Rightarrow> (HttpResp \<times> relay_config) option" where
  "auth_again h c =
     Option.bind (auth_relay h c []) (\<lambda>ar.
       if hr_ok ar \<or> cf_registerCode c = [] then Some (ar, c)
       else Option.bind (register_relay h c (cf_serverName c)) (\<lambda>r2.
         if \<not> hr_ok r2 then Some (ar, c)
         else Option.bind (text_member h (hr_body r2) ''apiKey'') (\<lambda>k.
           let c1 = c\<lparr>cf_apiKey := k\<rparr> in map_option (\<lambda>ar2. (ar2, c1)) (auth_relay h c1 []))))"

definition int_member :: "json \<Rightarrow> string \<Rightarrow> int option" where
  "int_member j key = (case j_lookup j key of None \<Rightarrow> None | Some _ \<Rightarrow> field_int j key 0)"

text \<open>What the panel's answer says is stored with the configuration.\<close>

definition read_auth :: "json \<Rightarrow> relay_config \<Rightarrow> relay_config option" where
  "read_auth j c =
     Option.bind (case j_lookup j ''token'' of Some (JStr t) \<Rightarrow> Some t | _ \<Rightarrow> None) (\<lambda>token.
     Option.bind (int_member j ''serverId'') (\<lambda>sid.
     Option.bind (value_str j ''serverName'' []) (\<lambda>name.
       let c1 = c\<lparr>ci_token := token, ci_serverId := sid, ci_serverName := name\<rparr>
       in case j_lookup j ''rcon'' of
            None \<Rightarrow> Some c1
          | Some r \<Rightarrow>
              Option.bind (value_str r ''host'' []) (\<lambda>rh. Option.bind (value_int r ''port'' 0) (\<lambda>rport.
              Option.bind (value_str r ''password'' []) (\<lambda>pw.
                Some (c1\<lparr>ci_rconHost := rh, ci_rconPort := rport, ci_rconPassword := pw\<rparr>)))))))"

definition save_config :: "host \<Rightarrow> relay_config \<Rightarrow> agent \<Rightarrow> agent" where
  "save_config h c a = a\<lparr>ag_cfg := c, ag_files := writeFile (ag_cfgPath a) (saveCfg (ho_dump h) c) (ag_files a)\<rparr>"

text \<open>\<open>None\<close> is an exception, answered with its text. A configuration that is accepted schedules a start of the relay.\<close>

definition new_config :: "host \<Rightarrow> string \<Rightarrow> agent \<Rightarrow> (reply \<times> agent) option" where
  "new_config h body a =
     Option.bind (ho_parse h body) (\<lambda>j. Option.bind (fromJson j) (\<lambda>c0. Option.bind (first_key h c0) (\<lambda>fk.
       case fk of
         Inl r \<Rightarrow> Some (r, a)
       | Inr c \<Rightarrow>
           if cf_apiKey c = [] then Some (failed h 400 (([CHR 0xE6, CHR 0xB3, CHR 0xA8, CHR 0xE5, CHR 0x86, CHR 0x8C, CHR 0xE7, CHR 0xA0, CHR 0x81, CHR 0xE6, CHR 0x88, CHR 0x96] @ ''API Key'' @ [CHR 0xE5, CHR 0xBF, CHR 0x85, CHR 0xE5, CHR 0xA1, CHR 0xAB])), a)
           else Option.bind (auth_again h c) (\<lambda>(ar, c1).
             if \<not> hr_ok ar then Some (failed h 400 ([CHR 0xE8, CHR 0xAE, CHR 0xA4, CHR 0xE8, CHR 0xAF, CHR 0x81, CHR 0xE5, CHR 0xA4, CHR 0xB1, CHR 0xE8, CHR 0xB4, CHR 0xA5] @ '':'' @ hr_body ar), a)
             else Option.bind (ho_parse h (hr_body ar)) (\<lambda>aj. Option.bind (read_auth aj c1) (\<lambda>c2.
               Some (json_text 200 (ho_dump h (JObj [(''ok'', JBool True), (''serverId'', JInt (ci_serverId c2)), (''serverName'', JStr (ci_serverName c2))])),
                 (save_config h c2 a)\<lparr>ag_startups := ag_startups a + 1\<rparr>)))))))"

section \<open>The web interface (handleReq)\<close>

definition status_json :: "host \<Rightarrow> agent \<Rightarrow> json" where
  "status_json h a =
     (let s = ag_status a; g = ag_game a; exe = cf_gameExePath (ag_cfg a);
          gs = (if exe = [] then JNull
                else JObj [(''pid'', JInt 0), (''status'', JStr (gs_st g)), (''uptime'', JInt (if gs_run g then wrap32 (ho_time h - gs_startT g) else 0))])
      in JArr [JObj [(''gameServer'', gs), (''hasGameServerConfig'', JBool (exe \<noteq> [])),
           (''relay'', JObj [(''errors'', JArr (map JStr (su_errs s))), (''eventsSent'', JInt (su_sent s)), (''lastEvent'', JStr (su_lastEvt s)),
             (''logDir'', JStr (su_logDir s)), (''panelOk'', JBool (su_panelOk s)), (''rconOk'', JBool (su_rconOk s)), (''startTime'', JStr (su_startT s))])]])"

definition sync_json :: "SyncResult \<Rightarrow> json" where
  "sync_json r = JObj [(''already'', JBool (sr_already r)), (''notFound'', JBool (sr_notFound r)), (''success'', JBool (sr_success r))]"

text \<open>POST /api/admin-sync, with the same code in both servers; the texts of the members must be texts.\<close>

definition admin_sync :: "host \<Rightarrow> string \<Rightarrow> agent \<Rightarrow> reply \<times> agent" where
  "admin_sync h body a =
     (case Option.bind (ho_parse h body) (\<lambda>j. Option.bind (value_str j ''steamId'' []) (\<lambda>sid.
             Option.bind (value_str j ''action'' []) (\<lambda>act. map_option (\<lambda>lv. (sid, act, lv)) (value_str j ''level'' [])))) of
        None \<Rightarrow> (failed h 500 (ho_what h), a)
      | Some (sid, act, lv) \<Rightarrow>
          if sid = [] \<or> act = [] then (failed h 400 ''steamId and action required'', a)
          else (case syncAdmin (ag_cfg a) sid act lv (ag_files a) of
                  Inl msg \<Rightarrow> (failed h 500 msg, a)
                | Inr (r, fs) \<Rightarrow> (json_text 200 (ho_dump h (sync_json r)), a\<lparr>ag_files := fs\<rparr>)))"

text \<open>POST /api/reserved-slots/sync, given the directory for a new file.\<close>

definition slot_sync :: "host \<Rightarrow> string \<Rightarrow> string \<Rightarrow> agent \<Rightarrow> reply \<times> agent" where
  "slot_sync h dir body a =
     (case Option.bind (ho_parse h body) (\<lambda>j. Option.bind (value_str j ''action'' []) (\<lambda>act.
             Option.bind (value_str j ''steamId'' []) (\<lambda>sid. map_option (\<lambda>_. (act, sid)) (value_str j ''playerName'' [])))) of
        None \<Rightarrow> (failed h 500 (ho_what h), a)
      | Some (act, sid) \<Rightarrow>
          if act = [] \<or> sid = [] then (json_text 400 ([CHR 0x7B, CHR 0x22] @ ''error'' @ [CHR 0x22] @ '':'' @ [CHR 0x22] @ ''action and steamId required'' @ [CHR 0x22, CHR 0x7D]), a)
          else (json_text 200 ([CHR 0x7B, CHR 0x22] @ ''success'' @ [CHR 0x22] @ '':true}''), a\<lparr>ag_files := sync_slot dir (ag_cfg a) act sid (ag_files a)\<rparr>))"

definition slots_reply :: "host \<Rightarrow> agent \<Rightarrow> reply" where
  "slots_reply h a = json_text 200 (ho_dump h (JObj [(''slots'', JArr (map JStr (reserved_slots (ag_cfg a) (ag_files a))))]))"

definition ok_reply :: "host \<Rightarrow> reply" where
  "ok_reply h = json_text 200 (ho_dump h (JObj [(''ok'', JBool True)]))"

definition web_start :: "host \<Rightarrow> agent \<Rightarrow> (bool \<times> agent) option" where
  "web_start h a = map_option (\<lambda>(ok, g). (ok, a\<lparr>ag_game := g\<rparr>)) (game_start (fileExists (ag_files a)) (ho_spawn h) (ho_time h) (ag_game a))"

text \<open>A restart runs in a thread of its own, which stops the process and two seconds later starts it again.\<close>

definition restart_stop :: "agent \<Rightarrow> agent" where
  "restart_stop a = a\<lparr>ag_game := game_stop (ag_game a)\<rparr>"

definition restart_start :: "host \<Rightarrow> agent \<Rightarrow> agent option" where
  "restart_start h a = map_option (\<lambda>(_, a'). a'\<lparr>ag_restarts := ag_restarts a' - 1\<rparr>) (web_start h a)"

text \<open>\<open>None\<close> is the end of the relay by a start over a joinable thread.\<close>

definition handleReq :: "host \<Rightarrow> HttpRequest \<Rightarrow> agent \<Rightarrow> (reply \<times> agent) option" where
  "handleReq h q a =
     (let get = (\<lambda>p. hq_method q = ''GET'' \<and> hq_path q = p); post = (\<lambda>p. hq_method q = ''POST'' \<and> hq_path q = p)
      in if hq_method q = ''OPTIONS'' then Some (\<lparr>rp_code = 200, rp_type = ''text/plain'', rp_text = []\<rparr>, a)
         else if get ''/'' then Some (\<lparr>rp_code = 200, rp_type = ''text/html; charset=utf-8'', rp_text = ho_web h\<rparr>, a)
         else if get ''/api/config'' then
           Some (json_text 200 (ho_dump h (JObj [(''config'', toJson (ag_cfg a)), (''detectedLogDir'', JStr (detectLog (ho_has_log h)))])), a)
         else if post ''/api/config'' then
           Some (case new_config h (hq_body q) a of None \<Rightarrow> (failed h 400 (ho_what h), a) | Some ra \<Rightarrow> ra)
         else if get ''/api/status'' then Some (json_text 200 (ho_dump h (status_json h a)), a)
         else if get ''/api/detect-log'' then Some (json_text 200 (ho_dump h (JObj [(''detected'', JStr (detectLog (ho_has_log h)))])), a)
         else if get ''/api/detect-exe'' then Some (json_text 200 (ho_dump h (JObj [(''detected'', JArr (map JStr (detectExe (ag_files a))))])), a)
         else if post ''/api/server/start'' then
           map_option (\<lambda>(ok, a'). (if ok then ok_reply h else failed h 500 ''start failed'', a')) (web_start h a)
         else if post ''/api/server/stop'' then Some (ok_reply h, a\<lparr>ag_game := game_stop (ag_game a)\<rparr>)
         else if post ''/api/server/restart'' then
           Some (ok_reply h, a\<lparr>ag_restarts := ag_restarts a + 1\<rparr>)
         else if post ''/api/admin-sync'' then Some (admin_sync h (hq_body q) a)
         else if post ''/api/reserved-slots/sync'' then
           Some (slot_sync h (config_dir (ag_cfg a) @ [CHR 0x5C] @ ''ServerConfig'') (hq_body q) a)
         else if get ''/api/reserved-slots'' then Some (slots_reply h a, a)
         else Some (json_text 404 ([CHR 0x7B, CHR 0x22] @ ''error'' @ [CHR 0x22] @ '':'' @ [CHR 0x22] @ ''not found'' @ [CHR 0x22, CHR 0x7D]), a))"

section \<open>The server for the panel (unbanSvr)\<close>

text \<open>The key is looked for in everything received, the request itself is parsed up to the first zero byte.\<close>

definition panel_key :: "string \<Rightarrow> string" where
  "panel_key raw =
     (case str_find ''X-API-Key:'' raw of
        None \<Rightarrow> []
      | Some i \<Rightarrow>
          (let v = drop (i + 10) raw
           in relay_trim (case str_find crlf v of None \<Rightarrow> v | Some e \<Rightarrow> take e v)))"

definition post_unban :: "host \<Rightarrow> string \<Rightarrow> agent \<Rightarrow> reply \<times> agent" where
  "post_unban h body a =
     (case Option.bind (ho_parse h body) (\<lambda>j. value_str j ''steamId'' []) of
        None \<Rightarrow> (failed h 500 (ho_what h), a)
      | Some sid \<Rightarrow>
          if sid = [] then (json_text 400 ([CHR 0x7B, CHR 0x22] @ ''error'' @ [CHR 0x22] @ '':'' @ [CHR 0x22] @ ''steamId'' @ [CHR 0x22, CHR 0x7D]), a)
          else (case unban (ag_cfg a) sid (ag_files a) of
                  Inl msg \<Rightarrow> (failed h 500 msg, a)
                | Inr fs \<Rightarrow> (json_text 200 ([CHR 0x7B, CHR 0x22] @ ''success'' @ [CHR 0x22] @ '':true}''), a\<lparr>ag_files := fs\<rparr>)))"

definition unbanReq :: "host \<Rightarrow> HttpRequest \<Rightarrow> agent \<Rightarrow> reply \<times> agent" where
  "unbanReq h q a =
     (let get = (\<lambda>p. hq_method q = ''GET'' \<and> hq_path q = p); post = (\<lambda>p. hq_method q = ''POST'' \<and> hq_path q = p)
      in if post ''/api/unban'' then post_unban h (hq_body q) a
         else if post ''/api/admin-sync'' then admin_sync h (hq_body q) a
         else if post ''/api/reserved-slots/sync'' then slot_sync h (config_dir (ag_cfg a) @ ''/ServerConfig'') (hq_body q) a
         else if get ''/api/reserved-slots'' then (slots_reply h a, a)
         else (json_text 404 ''{}'', a))"

text \<open>\<open>None\<close> closes the connection without an answer.\<close>

definition unbanSvr :: "host \<Rightarrow> string \<Rightarrow> agent \<Rightarrow> reply option \<times> agent" where
  "unbanSvr h raw a =
     (case parseReq (takeWhile (\<lambda>ch. ch \<noteq> CHR 0x00) raw) of
        None \<Rightarrow> (None, a)
      | Some q \<Rightarrow>
          if panel_key raw = [] \<or> panel_key raw \<noteq> cf_apiKey (ag_cfg a)
          then (Some (json_text 401 ([CHR 0x7B, CHR 0x22] @ ''error'' @ [CHR 0x22] @ '':'' @ [CHR 0x22] @ ''unauthorized'' @ [CHR 0x22, CHR 0x7D])), a)
          else (let (r, a') = unbanReq h q a in (Some r, a')))"

section \<open>Starting (startRelay)\<close>

text \<open>Before anything is started the relay authenticates, unless it already has a token: the configuration and state then,
  or the state with the error. \<open>None\<close> is an exception of the request, which nothing catches.\<close>

definition relay_login :: "host \<Rightarrow> string \<Rightarrow> agent \<Rightarrow> (relay_config option \<times> agent) option" where
  "relay_login h now a =
     (let c = ag_cfg a
      in if ci_serverId c \<noteq> 0 \<and> ci_token c \<noteq> [] then Some (Some c, a)
         else map_option (\<lambda>r.
           if \<not> hr_ok r then (None, a\<lparr>ag_status := addErr now ([CHR 0xE9, CHR 0x9D, CHR 0xA2, CHR 0xE6, CHR 0x9D, CHR 0xBF, CHR 0xE8, CHR 0xAE, CHR 0xA4, CHR 0xE8, CHR 0xAF, CHR 0x81, CHR 0xE5, CHR 0xA4, CHR 0xB1, CHR 0xE8, CHR 0xB4, CHR 0xA5]) (ag_status a)\<rparr>)
           else (case Option.bind (ho_parse h (hr_body r)) (\<lambda>j. read_auth j c) of
                   None \<Rightarrow> (None, a)
                 | Some c1 \<Rightarrow> (Some c1, save_config h c1 a))) (auth_relay h c [(''X-API-Key'', cf_apiKey c)]))"

text \<open>Where the RCON client connects: host, port and password, or nowhere without a password.\<close>

definition rcon_target :: "relay_config \<Rightarrow> (string \<times> int \<times> string) option" where
  "rcon_target c =
     (let rh = (if cf_rconPassword c = [] then [] else if ci_rconHost c \<noteq> [] \<and> ci_rconHost c \<noteq> ''127.0.0.1'' then ''127.0.0.1'' else ci_rconHost c);
          rport = (if 0 < cf_rconPort c then cf_rconPort c else ci_rconPort c);
          pw = (if cf_rconPassword c = [] then ci_rconPassword c else cf_rconPassword c)
      in if pw = [] then None else Some (if rh = [] then ''127.0.0.1'' else rh, rport, pw))"

definition chat_body :: "string \<Rightarrow> int \<Rightarrow> string \<Rightarrow> string \<Rightarrow> string \<Rightarrow> string \<Rightarrow> json" where
  "chat_body now sid ct name msg steam =
     JObj [(''chatType'', JStr ct), (''message'', JStr msg), (''playerName'', JStr name), (''serverId'', JInt sid), (''steamId'', JStr steam),
       (''timestamp'', JStr now), (''type'', JStr ''chat'')]"

definition keepalive_body :: "int \<Rightarrow> string \<Rightarrow> json option" where
  "keepalive_body sid raw = (if raw = [] then None else Some (JObj [(''raw'', JStr raw), (''serverId'', JInt sid)]))"

text \<open>What a start sets up: the server's id, where the lines go, the RCON server that accepted the connection and the
  directory of the log.\<close>

record parts =
  pt_serverId :: int
  pt_url :: string
  pt_key :: string
  pt_batch :: int
  pt_rcon :: "(string \<times> int \<times> string) option"
  pt_logDir :: "string option"

text \<open>The result of \<open>startRelay\<close>, the flag that it has been started, the state, and the parts; \<open>conn\<close> tells whether the
  RCON server accepts.\<close>

definition startRelay ::
  "host \<Rightarrow> string \<Rightarrow> (string \<times> int \<times> string \<Rightarrow> bool) \<Rightarrow> bool \<Rightarrow> agent \<Rightarrow> (bool \<times> bool \<times> agent \<times> parts option) option" where
  "startRelay h now conn started a =
     (if started then Some (True, True, a, None)
      else map_option (\<lambda>(login, a1). case login of
             None \<Rightarrow> (False, False, a1, None)
           | Some c \<Rightarrow>
               (let s1 = (ag_status a1)\<lparr>su_panelOk := True, su_startT := now\<rparr>;
                    g = (if cf_gameExePath c = [] then ag_game a1 else game_config c (ag_game a1));
                    rc = (case rcon_target c of None \<Rightarrow> None | Some t \<Rightarrow> if conn t then Some t else None);
                    s2 = (if rcon_target c = None then s1 else if rc \<noteq> None then s1\<lparr>su_rconOk := True\<rparr> else addErr now ((''RCON'' @ [CHR 0xE8, CHR 0xBF, CHR 0x9E, CHR 0xE6, CHR 0x8E, CHR 0xA5, CHR 0xE5, CHR 0xA4, CHR 0xB1, CHR 0xE8, CHR 0xB4, CHR 0xA5])) s1);
                    ld = (if cf_logDir c = [] then detectLog (ho_has_log h) else cf_logDir c)
                in (True, True, a1\<lparr>ag_game := g, ag_status := (if ld = [] then s2 else s2\<lparr>su_logDir := ld\<rparr>)\<rparr>,
                    Some \<lparr>pt_serverId = ci_serverId c, pt_url = raw_url c, pt_key = cf_apiKey c, pt_batch = cf_rawBatchSize c, pt_rcon = rc,
                      pt_logDir = (if ld = [] then None else Some ld)\<rparr>))) (relay_login h now a))"

end
