(* ===== verification/RelayHttpProps.thy ===== *)
theory RelayHttpProps
  imports RelayHttp
begin

text \<open>
  Properties of the relay's servers: who may edit the game server's files, and what the edits leave.
\<close>

section \<open>Files\<close>

lemma splitLines_file_text: "\<forall>l\<in>set ls. CHR 0x0A \<notin> set l \<Longrightarrow> splitLines (file_text ls) = ls"
proof (induction ls)
  case (Cons l ls)
  have "takeWhile (\<lambda>c. c \<noteq> CHR 0x0A) (l @ crlf @ file_text ls) = l @ [CHR 0x0D]"
    using Cons.prems by (subst takeWhile_append2) (auto simp: crlf_def)
  then have "getlines (CHR 0x0A) (l @ crlf @ file_text ls) = (l @ [CHR 0x0D]) # getlines (CHR 0x0A) (file_text ls)"
    using getlines_some [of "l @ crlf @ file_text ls"] by (simp add: crlf_def)
  then have "splitLines (l @ crlf @ file_text ls) = l # splitLines (file_text ls)" by (simp add: splitLines_def strip_cr_def)
  then show ?case using Cons by (simp add: file_text_def)
qed (simp add: splitLines_def file_text_def)

lemma splitLines_no_newline: "l \<in> set (splitLines s) \<Longrightarrow> CHR 0x0A \<notin> set l"
  by (auto simp: splitLines_def strip_cr_def dest: getlines_no_delim in_set_butlastD split: if_splits)

lemma filter_no_newline: "\<forall>l\<in>set (filter P (splitLines s)). CHR 0x0A \<notin> set l"
  by (auto dest: splitLines_no_newline)

lemma write_exists: "fileExists fs p \<Longrightarrow> fileExists (writeFile p c fs) q = fileExists fs q"
  by (auto simp: writeFile_def fileExists_def)

lemma find_config_SomeD: "find_config fs c name \<noteq> [] \<Longrightarrow> fileExists fs (find_config fs c name)"
  by (cases "find (fileExists fs) (config_paths c name)") (auto simp: find_config_def dest: find_SomeD)

lemma find_config_write: "fileExists fs p \<Longrightarrow> find_config (writeFile p t fs) c name = find_config fs c name"
proof -
  assume "fileExists fs p"
  then have "fileExists (writeFile p t fs) = fileExists fs" by (intro ext write_exists)
  then show ?thesis by (simp only: find_config_def)
qed

lemma read_write: "fs_writable fs p \<Longrightarrow> readFile (writeFile p t fs) q = (if q = p then t else readFile fs q)"
  by (simp add: readFile_def writeFile_def)

section \<open>Bans\<close>


section \<open>Admins\<close>

lemma trim_id: "s \<noteq> [] \<Longrightarrow> \<not> is_ws (hd s) \<Longrightarrow> \<not> is_ws (last s) \<Longrightarrow> relay_trim s = s"
proof -
  assume a: "s \<noteq> []" "\<not> is_ws (hd s)" "\<not> is_ws (last s)"
  have "dropWhile is_ws s = s" "dropWhile is_ws (rev s) = rev s" using a by (simp_all add: dropWhile_eq_self_iff hd_rev)
  then show ?thesis by (simp add: relay_trim_def ltrim_def rtrim_def)
qed

lemma admin_line_of:
  assumes "CHR '':'' \<notin> set sid"
  shows "admin_of sid (admin_line sid lv)"
proof -
  let ?r = "sid @ '':'' @ (if lv = ''server_owner'' then ''Admin:cankickcanban'' else ''Moderator:canbalancecanrestart'')"
  have l: "admin_line sid lv = ''Admin:'' @ ?r" by (simp add: admin_line_def)
  have t: "relay_trim (admin_line sid lv) = admin_line sid lv"
    unfolding l by (rule trim_id) (simp_all add: is_ws_def)
  have np: "\<not> plain_line (admin_line sid lv)" by (simp add: l plain_line_def)
  have f: "str_find '':'' (admin_line sid lv) = Some 5" by (simp add: l)
  have d: "drop (5 + 1) (admin_line sid lv) = ?r" by (simp add: l)
  have tw: "takeWhile (\<lambda>ch. ch \<noteq> CHR '':'') ?r = sid"
    using assms by (subst takeWhile_append2) auto
  show ?thesis unfolding admin_of_def Let_def t f option.case d tw using np by simp
qed

lemma admin_line_newline: "CHR 0x0A \<notin> set sid \<Longrightarrow> CHR 0x0A \<notin> set (admin_line sid lv)"
  by (simp add: admin_line_def Let_def)

definition admin_lines :: "relay_config \<Rightarrow> files \<Rightarrow> string list" where
  "admin_lines c fs = splitLines (readFile fs (findAdmins fs c))"

lemma syncAdmin_lines:
  assumes "syncAdmin c sid act lv fs = Inr (r, fs')" "fs_writable fs (findAdmins fs c)" "CHR 0x0A \<notin> set sid"
  shows "admin_lines c fs' =
      (if act = ''add'' then (if list_ex (admin_of sid) (admin_lines c fs) then admin_lines c fs else admin_lines c fs @ [admin_line sid lv])
       else filter (\<lambda>l. \<not> admin_of sid l) (admin_lines c fs))"
    "findAdmins fs' c = findAdmins fs c" "fs_writable fs' = fs_writable fs"
proof -
  let ?p = "findAdmins fs c"
  have p: "?p \<noteq> []" using assms(1) by (auto simp: syncAdmin_def Let_def split: if_splits)
  have ex: "fileExists fs ?p" using p find_config_SomeD by (simp add: findAdmins_def)
  let ?t = "if act = ''add'' then (if list_ex (admin_of sid) (admin_lines c fs) then admin_lines c fs else admin_lines c fs @ [admin_line sid lv])
    else filter (\<lambda>l. \<not> admin_of sid l) (admin_lines c fs)"
  have t: "fs' = writeFile ?p (file_text ?t) fs"
    using assms(1) p by (auto simp: syncAdmin_def Let_def admin_lines_def split: if_splits)
  show same: "findAdmins fs' c = ?p" using find_config_write [OF ex] by (simp add: t findAdmins_def)
  show "fs_writable fs' = fs_writable fs" by (simp add: t writeFile_def)
  have "\<forall>l\<in>set ?t. CHR 0x0A \<notin> set l"
    using assms(3) splitLines_no_newline admin_line_newline by (auto simp: admin_lines_def)
  then have "splitLines (readFile fs' ?p) = ?t" using assms(2) by (simp add: t read_write splitLines_file_text)
  then show "admin_lines c fs' =
      (if act = ''add'' then (if list_ex (admin_of sid) (admin_lines c fs) then admin_lines c fs else admin_lines c fs @ [admin_line sid lv])
       else filter (\<lambda>l. \<not> admin_of sid l) (admin_lines c fs))"
    by (simp add: admin_lines_def same)
qed

text \<open>Making a player an admin and taking it back leaves the lines of the admin file as they were, and adding one that
  is listed already changes nothing.\<close>
theorem admin_roundtrip:
  assumes "syncAdmin c sid ''add'' lv fs = Inr (r, fs1)" "syncAdmin c sid ''remove'' lv' fs1 = Inr (r', fs2)"
    and "fs_writable fs (findAdmins fs c)" "CHR '':'' \<notin> set sid" "CHR 0x0A \<notin> set sid"
  shows "sr_success r' \<and> sr_success r = (\<not> list_ex (admin_of sid) (admin_lines c fs)) \<and>
    (if sr_success r then admin_lines c fs2 = admin_lines c fs else admin_lines c fs1 = admin_lines c fs)"
proof -
  note l1 = syncAdmin_lines [OF assms(1,3,5)]
  have w: "fs_writable fs1 (findAdmins fs1 c)" using assms(3) by (simp add: l1)
  note l2 = syncAdmin_lines [OF assms(2) w assms(5)]
  let ?a = "admin_lines c fs"
  have s: "sr_success r = (\<not> list_ex (admin_of sid) ?a)"
    using assms(1) by (auto simp: syncAdmin_def Let_def admin_lines_def split: if_splits)
  have "list_ex (admin_of sid) (admin_lines c fs1)"
    using l1(1) admin_line_of [OF assms(4)] by (auto split: if_splits)
  moreover have "sr_success r' = list_ex (admin_of sid) (admin_lines c fs1)"
    using assms(2) by (auto simp: syncAdmin_def Let_def admin_lines_def split: if_splits)
  moreover have "\<not> list_ex (admin_of sid) ?a \<Longrightarrow> filter (\<lambda>l. \<not> admin_of sid l) ?a = ?a"
    by (simp add: filter_id_conv list_ex_iff)
  ultimately show ?thesis using s l1(1) l2(1) admin_line_of [OF assms(4)] by (auto split: if_splits)
qed

section \<open>The key\<close>

text \<open>The server the panel talks to does nothing, and answers nothing but a refusal, for a request without the
  relay's own key; without a key of its own it refuses everything.\<close>
theorem unban_needs_key:
  assumes "unbanSvr h raw a = (r, a')" "a' \<noteq> a \<or> (r \<noteq> None \<and> rp_code (the r) \<noteq> 401)"
  shows "panel_key raw = cf_apiKey (ag_cfg a) \<and> cf_apiKey (ag_cfg a) \<noteq> []"
  using assms by (auto simp: unbanSvr_def json_text_def split: option.splits if_splits)

section \<open>Configuration\<close>

lemma double_in_int: "in_int (double_to_int m x)"
  by (simp add: double_to_int_def Let_def)

lemma field_int_range: "field_int j k d = Some n \<Longrightarrow> in_int d \<Longrightarrow> in_int n"
  by (auto simp: field_int_def double_in_int split: option.splits json.splits)

lemma defaults_ranges: "config_ranges relay_defaults"
  by (simp add: config_ranges_def relay_defaults_def)

lemma fromJson_ranges: "fromJson j = Some c \<Longrightarrow> config_ranges c"
  using defaults_ranges unfolding config_ranges_def fromJson_def Let_def bind_eq_Some_conv
  apply (elim exE conjE)
  apply (simp only: option.inject)
  apply hypsubst
  apply (unfold relay_config.select_convs)
  apply (intro conjI)
  apply ((rule field_int_range, assumption, assumption)+)
  done

lemma first_key_ranges: "first_key h c = Some (Inr c') \<Longrightarrow> config_ranges c \<Longrightarrow> config_ranges c'"
  by (auto simp: first_key_def bind_eq_Some_conv config_ranges_def split: if_splits)

lemma auth_again_ranges: "auth_again h c = Some (r, c') \<Longrightarrow> config_ranges c \<Longrightarrow> config_ranges c'"
  by (auto simp: auth_again_def bind_eq_Some_conv config_ranges_def Let_def split: if_splits)

lemma value_int_range: "value_int j k d = Some n \<Longrightarrow> in_int d \<Longrightarrow> in_int n"
  by (auto simp: value_int_def double_in_int split: option.splits json.splits if_splits)

lemma read_auth_ranges: "read_auth j c = Some c' \<Longrightarrow> config_ranges c \<Longrightarrow> config_ranges c'"
  by (auto simp: read_auth_def int_member_def bind_eq_Some_conv config_ranges_def Let_def split: option.splits)
    (auto elim: field_int_range value_int_range)

text \<open>A configuration accepted over HTTP is in use, is what the relay reads from its file at the next start, and
  schedules one start of the relay.\<close>
theorem config_stored:
  assumes "new_config h body a = Some (r, a')" "rp_code r = 200" "fs_writable (ag_files a) (ag_cfgPath a)"
    and "ho_parse h (ho_dump h (toJson (ag_cfg a'))) = Some (toJson (ag_cfg a'))" "ho_dump h (toJson (ag_cfg a')) \<noteq> []"
  shows "loadCfg (ho_parse h) (readFile (ag_files a') (ag_cfgPath a')) = ag_cfg a' \<and> config_ranges (ag_cfg a') \<and>
    ag_startups a' = ag_startups a + 1"
proof -
  from assms(1) obtain j c0 fk where p: "fromJson j = Some c0" "first_key h c0 = Some fk" and
    n: "(case fk of Inl r \<Rightarrow> Some (r, a) | Inr c \<Rightarrow>
           if cf_apiKey c = [] then Some (failed h 400 ([CHR 0xE6, CHR 0xB3, CHR 0xA8, CHR 0xE5, CHR 0x86, CHR 0x8C, CHR 0xE7, CHR 0xA0, CHR 0x81, CHR 0xE6, CHR 0x88, CHR 0x96] @ ''API Key'' @ [CHR 0xE5, CHR 0xBF, CHR 0x85, CHR 0xE5, CHR 0xA1, CHR 0xAB]), a)
           else Option.bind (auth_again h c) (\<lambda>(ar, c1).
             if \<not> hr_ok ar then Some (failed h 400 (([CHR 0xE8, CHR 0xAE, CHR 0xA4, CHR 0xE8, CHR 0xAF, CHR 0x81, CHR 0xE5, CHR 0xA4, CHR 0xB1, CHR 0xE8, CHR 0xB4, CHR 0xA5]) @ '':'' @ hr_body ar), a)
             else Option.bind (ho_parse h (hr_body ar)) (\<lambda>aj. Option.bind (read_auth aj c1) (\<lambda>c2.
               Some (json_text 200 (ho_dump h (JObj [(''ok'', JBool True), (''serverId'', JInt (ci_serverId c2)), (''serverName'', JStr (ci_serverName c2))])),
                 (save_config h c2 a)\<lparr>ag_startups := ag_startups a + 1\<rparr>))))) = Some (r, a')"
    unfolding new_config_def bind_eq_Some_conv by (elim exE conjE) blast
  show ?thesis
  proof (cases fk)
    case (Inl r')
    then have False using p(2) n assms(2) by (auto simp: first_key_def bind_eq_Some_conv failed_def json_text_def split: if_splits)
    then show ?thesis ..
  next
    case (Inr c)
    with n assms(2) obtain ar c1 aj c2 where c: "auth_again h c = Some (ar, c1)" "read_auth aj c1 = Some c2"
      and a: "a' = (save_config h c2 a)\<lparr>ag_startups := ag_startups a + 1\<rparr>"
      by (auto simp: bind_eq_Some_conv failed_def json_text_def split: if_splits)
    have "config_ranges c2"
      using p c Inr fromJson_ranges first_key_ranges auth_again_ranges read_auth_ranges by blast
    then show ?thesis
      using assms(3-5) by (simp add: a save_config_def read_write loadCfg_def saveCfg_def fromJson_toJson)
  qed
qed

section \<open>Witnesses\<close>

definition relay_files :: "string \<Rightarrow> string \<Rightarrow> files" where
  "relay_files name c = \<lparr>fs_contents = [squad_file name [''C:'', ''SquadServer''] \<mapsto> c], fs_writable = (\<lambda>_. True)\<rparr>"

lemma relay_files_found:
  "findBanList (relay_files ''BanList.cfg'' c) relay_defaults = squad_file ''BanList.cfg'' [''C:'', ''SquadServer'']"
  "findAdmins (relay_files ''Admins.cfg'' c) relay_defaults = squad_file ''Admins.cfg'' [''C:'', ''SquadServer'']"
  by (simp_all add: findBanList_def findAdmins_def find_config_def config_paths_def fileExists_def relay_files_def squad_file_def
      config_dir_def relay_defaults_def dirOf_def)

definition two_bans :: string where
  "two_bans = file_text [''# bans'', ''765:0'', ''766:0 x'']"

lemma two_bans_lines: "splitLines two_bans = [''# bans'', ''765:0'', ''766:0 x'']"
  unfolding two_bans_def by (rule splitLines_file_text) simp

lemma two_bans_of: "\<not> ban_of ''765'' ''# bans''" "ban_of ''765'' ''765:0''" "\<not> ban_of ''765'' ''766:0 x''"
  by code_simp+


theorem admin_roundtrip_witness:
  "\<exists>r fs1 r' fs2. syncAdmin relay_defaults ''765'' ''add'' [] (relay_files ''Admins.cfg'' []) = Inr (r, fs1) \<and>
     syncAdmin relay_defaults ''765'' ''remove'' [] fs1 = Inr (r', fs2) \<and> sr_success r' \<and> admin_lines relay_defaults fs2 = []"
proof -
  let ?fs = "relay_files ''Admins.cfg'' []" and ?p = "squad_file ''Admins.cfg'' [''C:'', ''SquadServer'']"
  have n: "?p \<noteq> []" by (simp add: squad_file_def)
  have l: "admin_lines relay_defaults ?fs = []"
    by (simp add: admin_lines_def relay_files_found readFile_def splitLines_def) (simp add: relay_files_def)
  have "\<exists>r fs1. syncAdmin relay_defaults ''765'' ''add'' [] ?fs = Inr (r, fs1)" by (simp add: syncAdmin_def Let_def relay_files_found n)
  then obtain r fs1 where a: "syncAdmin relay_defaults ''765'' ''add'' [] ?fs = Inr (r, fs1)" by (elim exE)
  have w: "fs_writable ?fs (findAdmins ?fs relay_defaults)" by (simp add: relay_files_def)
  have "findAdmins fs1 relay_defaults = ?p" using syncAdmin_lines(2) [OF a w] by (simp add: relay_files_found)
  then have "\<exists>r' fs2. syncAdmin relay_defaults ''765'' ''remove'' [] fs1 = Inr (r', fs2)" by (simp add: syncAdmin_def Let_def n)
  then obtain r' fs2 where b: "syncAdmin relay_defaults ''765'' ''remove'' [] fs1 = Inr (r', fs2)" by (elim exE)
  from admin_roundtrip [OF a b w] l a b show ?thesis
    by (intro exI [of _ r] exI [of _ fs1] exI [of _ r'] exI [of _ fs2]) (simp split: if_splits)
qed

definition key_config :: relay_config where
  "key_config = relay_defaults\<lparr>cf_apiKey := ''k''\<rparr>"

definition demo_host :: host where
  "demo_host = \<lparr>ho_net = (\<lambda>_ _ _. Some (''HTTP/1.1 200 OK'' @ crlf @ crlf @ ''auth'')),
     ho_dump = (\<lambda>j. case j_lookup j ''panelUrl'' of None \<Rightarrow> ''x'' | Some _ \<Rightarrow> ''cfg''),
     ho_parse = (\<lambda>s. if s = ''auth'' then Some (JObj [(''serverId'', JInt 3), (''token'', JStr ''t'')])
        else if s = ''cfg'' then Some (toJson (key_config\<lparr>ci_token := ''t'', ci_serverId := 3, ci_serverName := []\<rparr>))
        else Some (JObj [(''apiKey'', JStr ''k'')])),
     ho_what = [], ho_web = [], ho_has_log = (\<lambda>_. False), ho_spawn = Spawned, ho_time = 0\<rparr>"

definition demo_agent :: agent where
  "demo_agent = \<lparr>ag_cfg = key_config, ag_cfgPath = ''c'', ag_files = \<lparr>fs_contents = Map.empty, fs_writable = (\<lambda>_. True)\<rparr>, ag_game = new_game,
     ag_status = \<lparr>su_panelOk = False, su_rconOk = False, su_logDir = [], su_sent = 0, su_lastEvt = [], su_errs = [], su_startT = []\<rparr>,
     ag_startups = 0, ag_restarts = 0\<rparr>"

theorem unban_needs_key_witness:
  "\<exists>r. fst (unbanSvr demo_host (''GET /x HTTP/1.1'' @ crlf @ ''X-API-Key:k'' @ crlf @ crlf) demo_agent) = Some r \<and> rp_code r = 404 \<and>
     panel_key (''GET /x HTTP/1.1'' @ crlf @ ''X-API-Key:k'' @ crlf @ crlf) = ''k''"
proof -
  let ?raw = "''GET /x HTTP/1.1'' @ crlf @ ''X-API-Key:k'' @ crlf @ crlf"
  have p: "parseReq (takeWhile (\<lambda>ch. ch \<noteq> CHR 0x00) ?raw) = Some \<lparr>hq_method = ''GET'', hq_path = ''/x'', hq_body = []\<rparr>" "panel_key ?raw = ''k''"
    by code_simp+
  have "\<exists>r a'. unbanSvr demo_host ?raw demo_agent = (Some r, a') \<and> rp_code r = 404"
    unfolding unbanSvr_def p by (simp add: unbanReq_def Let_def demo_agent_def key_config_def json_text_def)
  then obtain r a' where u: "unbanSvr demo_host ?raw demo_agent = (Some r, a')" "rp_code r = 404" by (elim exE conjE)
  from unban_needs_key [OF u(1)] u show ?thesis by (simp add: demo_agent_def key_config_def)
qed

theorem config_stored_witness:
  "\<exists>r a'. new_config demo_host ''b'' demo_agent = Some (r, a') \<and> ci_serverId (ag_cfg a') = 3 \<and>
     loadCfg (ho_parse demo_host) (readFile (ag_files a') ''c'') = ag_cfg a'"
proof -
  have f: "fromJson (JObj [(''apiKey'', JStr ''k'')]) = Some key_config"
    by (simp add: fromJson_def field_int_def Let_def relay_defaults_def key_config_def)
  have k: "first_key demo_host key_config = Some (Inr key_config)" by (simp add: first_key_def key_config_def relay_defaults_def)
  have u: "parse_url (cf_panelUrl key_config @ ''/api/relay/auth'') = Some (''127.0.0.1'', 3000, ''/api/relay/auth'')" by code_simp
  have q: "parse_response (''HTTP/1.1 200 OK'' @ crlf @ crlf @ ''auth'') = Some \<lparr>hr_status = 200, hr_body = ''auth'', hr_ok = True\<rparr>" by code_simp
  have a: "auth_again demo_host key_config = Some (\<lparr>hr_status = 200, hr_body = ''auth'', hr_ok = True\<rparr>, key_config)"
  proof -
    have n: "ho_net demo_host x y z = Some (''HTTP/1.1 200 OK'' @ crlf @ crlf @ ''auth'')" for x y z by (simp add: demo_host_def)
    show ?thesis unfolding auth_again_def auth_relay_def httpPost_def u Option.bind.bind_lunit prod.case n option.case q by simp
  qed
  let ?c = "key_config\<lparr>ci_token := ''t'', ci_serverId := 3, ci_serverName := []\<rparr>"
  have rd: "read_auth (JObj [(''serverId'', JInt 3), (''token'', JStr ''t'')]) key_config = Some ?c"
    by (simp add: read_auth_def int_member_def field_int_def)
  have "\<exists>r. new_config demo_host ''b'' demo_agent = Some (r, (save_config demo_host ?c demo_agent)\<lparr>ag_startups := 1\<rparr>) \<and> rp_code r = 200"
  proof -
    have h: "ho_parse demo_host ''b'' = Some (JObj [(''apiKey'', JStr ''k'')])"
      "ho_parse demo_host ''auth'' = Some (JObj [(''serverId'', JInt 3), (''token'', JStr ''t'')])" "cf_apiKey key_config \<noteq> []" "ag_startups demo_agent = 0"
      by (simp_all add: demo_host_def key_config_def demo_agent_def)
    show ?thesis by (simp add: new_config_def h f k a rd json_text_def)
  qed
  then obtain r where n: "new_config demo_host ''b'' demo_agent = Some (r, (save_config demo_host ?c demo_agent)\<lparr>ag_startups := 1\<rparr>)"
    "rp_code r = 200" by (elim exE conjE)
  have d: "ho_dump demo_host (toJson c) = ''cfg''" for c by (simp add: demo_host_def toJson_def)
  from config_stored [OF n] n show ?thesis
    by (intro exI) (auto simp: save_config_def demo_agent_def d, simp_all add: demo_host_def)
qed

end
