(* ===== verification/Startup.thy ===== *)
theory Startup
  imports LocalTail RemoteApi ServerRoutes
begin

text \<open>
  The start of the panel: the part of \<open>Database::migrate\<close> (core/database.cpp) that fills in data - missing keys
  of game servers, default settings, the relay's token - and what main() does before it listens (main.cpp). The
  random source is an argument. The lemmas: a migration fills every gap, keeps what is there, and a second one
  changes nothing.
\<close>

section \<open>Migration\<close>

definition keyless :: "server_row \<Rightarrow> bool" where
  "keyless s = (null_text (sv_serverApiKey s) = [])"

text \<open>The keyless servers are selected once; \<open>draw i\<close> is the random source when the \<open>i\<close>-th of them gets its key.\<close>

definition server_key :: "(nat \<Rightarrow> nat) \<Rightarrow> string" where
  "server_key draw = ''srv_'' @ randomToken draw 40"

fun give_keys :: "(nat \<Rightarrow> nat \<Rightarrow> nat) \<Rightarrow> nat \<Rightarrow> server_row list \<Rightarrow> database \<Rightarrow> database" where
  "give_keys draw i [] d = d"
| "give_keys draw i (s # ss) d =
     give_keys draw (Suc i) ss
       (servers_update (\<lambda>r. sv_id r = sv_id s) (\<lambda>r. r\<lparr>sv_serverApiKey := Some (server_key (draw i))\<rparr>) d)"

definition quoted :: "string \<Rightarrow> string" where
  "quoted v = CHR 0x22 # v @ [CHR 0x22]"

definition default_settings :: "(string \<times> string) list" where
  "default_settings =
    [(''tb_code'', quoted ''tb''), (''redeem_code'', quoted ''duihuan''), (''redeem_cost'', ''50''), (''tb_cost'', ''20''),
     (''tk_forgive_seconds'', ''180''), (''tk_forgive_keywords'', quoted ''sor,sorry,soy''), (''tk_forgive_enabled'', ''1''),
     (''afk_kick_enabled'', ''1''), (''afk_kick_seconds'', ''300''), (''sign_in_cooldown'', ''86400''),
     (''lottery_enabled'', ''1''), (''lottery_cooldown'', ''3600''), (''lottery_min'', ''5''), (''lottery_max'', ''30''),
     (''lottery_cost'', ''0''), (''points_share_group'', quoted ''[]'')]"

text \<open>An \<open>INSERT\<close> of a key that is there is rejected.\<close>

definition setting_insert :: "string \<Rightarrow> string \<Rightarrow> database \<Rightarrow> database" where
  "setting_insert k v d = (if db_settings d k = None then setting_put k v d else d)"

definition put_default :: "string \<times> string \<Rightarrow> database \<Rightarrow> database" where
  "put_default kv d = (if null_text (map_option (\<lambda>_. fst kv) (db_settings d (fst kv))) = [] then setting_insert (fst kv) (snd kv) d else d)"

definition put_relay_token :: "(nat \<Rightarrow> nat) \<Rightarrow> database \<Rightarrow> database" where
  "put_relay_token draw d =
     (if null_text (db_settings d ''relay_token'') = [] then setting_insert ''relay_token'' (quoted (randomToken draw 48)) d else d)"

definition migrate :: "(nat \<Rightarrow> nat \<Rightarrow> nat) \<Rightarrow> (nat \<Rightarrow> nat) \<Rightarrow> database \<Rightarrow> database" where
  "migrate draw tok d = put_relay_token tok (fold put_default default_settings (give_keys draw 0 (t_select keyless (db_servers d)) d))"

section \<open>main\<close>

text \<open>The configuration: the environment overrides the file.\<close>

definition main_config :: "string option \<Rightarrow> (string \<rightharpoonup> string) \<Rightarrow> config" where
  "main_config file getenv = loadFromEnv (loadFromFile Map.empty file) getenv"

definition database_path :: "config \<Rightarrow> string" where
  "database_path cfg = config_get cfg ''DB_FILE'' (config_get cfg ''DATA_DIR'' ''data'' @ ''/squad.db'')"

definition listen_address :: "config \<Rightarrow> string \<times> int" where
  "listen_address cfg = (config_get cfg ''HOST'' ''0.0.0.0'', config_getInt cfg ''PORT'' 3000)"

record started =
  st_db :: database
  st_tailers :: "tailer list"
  st_pollers :: "poller list"

text \<open>What runs when the panel listens; \<open>None\<close> is an exception that ends it.\<close>

definition main_start :: "env \<Rightarrow> (nat \<Rightarrow> nat \<Rightarrow> nat) \<Rightarrow> (nat \<Rightarrow> nat) \<Rightarrow> database \<Rightarrow> started option" where
  "main_start e draw tok d0 =
     (let d = migrate draw tok d0; (ts, ok) = start_all_tailers d []
      in if \<not> ok then None
         else (case startAll e d [] of (ps, ok) \<Rightarrow>
           if ok then Some \<lparr>st_db = d, st_tailers = ts, st_pollers = ps\<rparr> else None))"

section \<open>What a migration leaves\<close>

lemma quoted_not_empty [simp]: "quoted v \<noteq> []"
  by (simp add: quoted_def)

lemma server_key_not_empty [simp]: "server_key draw \<noteq> []"
  by (simp add: server_key_def)

lemma null_text_empty: "null_text x = [] \<longleftrightarrow> x = None \<or> x = Some []"
  by (cases x) (auto simp: null_text_def)

text \<open>Keys: the servers given, and no others, get one.\<close>

lemma give_keys_frame:
  "db_settings (give_keys draw i ss d) = db_settings d" "db_users (give_keys draw i ss d) = db_users d"
  by (induction ss arbitrary: i d) (simp_all add: servers_update_def)

lemma give_keys_rows:
  "\<exists>f. t_rows (db_servers (give_keys draw i ss d)) = map f (t_rows (db_servers d)) \<and>
     (\<forall>r. sv_id (f r) = sv_id r \<and> (sv_id r \<notin> sv_id ` set ss \<longrightarrow> f r = r)
        \<and> (sv_id r \<in> sv_id ` set ss \<or> \<not> keyless r \<longrightarrow> \<not> keyless (f r)))"
proof (induction ss arbitrary: i d)
  case Nil
  show ?case by (intro exI [of _ "\<lambda>r. r"]) simp
next
  case (Cons s ss)
  let ?g = "\<lambda>r. if sv_id r = sv_id s then r\<lparr>sv_serverApiKey := Some (server_key (draw i))\<rparr> else r"
  let ?d = "servers_update (\<lambda>r. sv_id r = sv_id s) (\<lambda>r. r\<lparr>sv_serverApiKey := Some (server_key (draw i))\<rparr>) d"
  from Cons [of "Suc i" ?d] obtain f where
    f: "t_rows (db_servers (give_keys draw (Suc i) ss ?d)) = map f (t_rows (db_servers ?d))"
      "\<And>r. sv_id (f r) = sv_id r" "\<And>r. sv_id r \<notin> sv_id ` set ss \<Longrightarrow> f r = r"
      "\<And>r. sv_id r \<in> sv_id ` set ss \<or> \<not> keyless r \<Longrightarrow> \<not> keyless (f r)" by blast
  have r: "t_rows (db_servers ?d) = map ?g (t_rows (db_servers d))" by (simp add: servers_update_def)
  have g: "sv_id (?g r) = sv_id r" "sv_id r \<noteq> sv_id s \<Longrightarrow> ?g r = r" "sv_id r = sv_id s \<or> \<not> keyless r \<Longrightarrow> \<not> keyless (?g r)" for r
    by (auto simp: keyless_def null_text_def)
  show ?case
  proof (intro exI [of _ "\<lambda>r. f (?g r)"] conjI allI impI)
    show "t_rows (db_servers (give_keys draw i (s # ss) d)) = map (\<lambda>r. f (?g r)) (t_rows (db_servers d))"
      by (simp only: give_keys.simps f(1) r list.map_comp comp_def)
    show "sv_id (f (?g r)) = sv_id r" for r using f(2) g(1) by metis
    show "f (?g r) = r" if "sv_id r \<notin> sv_id ` set (s # ss)" for r using that f(3) g(2) by simp
    show "\<not> keyless (f (?g r))" if "sv_id r \<in> sv_id ` set (s # ss) \<or> \<not> keyless r" for r
      using that f(4) [of "?g r"] g(1) [of r] g(3) [of r] by (auto split del: if_split)
  qed
qed

text \<open>Settings.\<close>

lemma put_default_put: "put_default (k, v) d = setting_insert k v d"
  by (auto simp: put_default_def setting_insert_def null_text_def split: option.splits)

lemma setting_insert_frame [simp]:
  "db_servers (setting_insert k v d) = db_servers d" "db_users (setting_insert k v d) = db_users d"
  by (simp_all add: setting_insert_def setting_put_def)

lemma setting_insert_settings:
  "db_settings (setting_insert k v d) x = (if x = k \<and> db_settings d k = None then Some v else db_settings d x)"
  by (auto simp: setting_insert_def setting_put_def)

lemma setting_insert_id: "db_settings d k \<noteq> None \<Longrightarrow> setting_insert k v d = d"
  by (auto simp: setting_insert_def)

lemma put_defaults_frame [simp]:
  "db_servers (fold put_default kvs d) = db_servers d" "db_users (fold put_default kvs d) = db_users d"
  by (induction kvs arbitrary: d) (auto simp: put_default_put)

lemma put_defaults_settings:
  "db_settings (fold put_default kvs d) x =
     (case db_settings d x of Some v \<Rightarrow> Some v | None \<Rightarrow> map_of kvs x)"
  by (induction kvs arbitrary: d) (auto simp: put_default_put setting_insert_settings split: option.splits)

lemma put_defaults_id:
  "list_all (\<lambda>(k, v). db_settings d k \<noteq> None) kvs \<Longrightarrow> fold put_default kvs d = d"
  by (induction kvs) (auto simp: put_default_put setting_insert_id)

lemma put_relay_token_eq: "put_relay_token tok d = setting_insert ''relay_token'' (quoted (randomToken tok 48)) d"
  by (auto simp: put_relay_token_def setting_insert_def null_text_def split: option.splits)

lemma migrate_settings:
  "db_settings (migrate draw tok d) x =
     (case db_settings d x of Some v \<Rightarrow> Some v
      | None \<Rightarrow> if x = ''relay_token'' then Some (quoted (randomToken tok 48)) else map_of default_settings x)"
proof -
  have "map_of default_settings ''relay_token'' = None" by (simp add: default_settings_def)
  then show ?thesis
    by (auto simp: migrate_def put_relay_token_eq setting_insert_settings put_defaults_settings give_keys_frame split: option.splits)
qed

lemma migrate_servers:
  "db_servers (migrate draw tok d) = db_servers (give_keys draw 0 (t_select keyless (db_servers d)) d)"
  by (simp add: migrate_def put_relay_token_eq)

lemma migrate_keys:
  "list_all (\<lambda>s. \<not> keyless s) (t_rows (db_servers (migrate draw tok d)))"
proof -
  let ?ss = "t_select keyless (db_servers d)"
  from give_keys_rows [of draw 0 ?ss d] obtain f where
    f: "t_rows (db_servers (give_keys draw 0 ?ss d)) = map f (t_rows (db_servers d))"
      "\<And>r. sv_id r \<in> sv_id ` set ?ss \<or> \<not> keyless r \<Longrightarrow> \<not> keyless (f r)" by blast
  show ?thesis unfolding migrate_servers f(1) list_all_iff using f(2) by (auto simp: t_select_def)
qed

text \<open>A database without gaps is not changed.\<close>

lemma migrate_id:
  assumes "list_all (\<lambda>s. \<not> keyless s) (t_rows (db_servers d))" "list_all (\<lambda>(k, v). db_settings d k \<noteq> None) default_settings"
    and "db_settings d ''relay_token'' \<noteq> None"
  shows "migrate draw tok d = d"
proof -
  have "t_select keyless (db_servers d) = []" using assms(1) by (auto simp: t_select_def filter_empty_conv list_all_iff)
  then show ?thesis using assms by (simp add: migrate_def put_defaults_id put_relay_token_eq setting_insert_id)
qed

text \<open>C13: A migration gives every server a key and every default setting and the relay's token a value, touches no
  setting, no key and no account that is there, and a second one, whatever random numbers it draws, changes nothing.\<close>
theorem migrate_fills_gaps:
  assumes "distinct (map sv_id (t_rows (db_servers d)))"
  shows "list_all (\<lambda>s. null_text (sv_serverApiKey s) \<noteq> []) (t_rows (db_servers (migrate draw tok d)))
    \<and> list_all (\<lambda>(k, v). db_settings (migrate draw tok d) k \<noteq> None) ((''relay_token'', []) # default_settings)
    \<and> db_settings d \<subseteq>\<^sub>m db_settings (migrate draw tok d)
    \<and> set (filter (\<lambda>s. null_text (sv_serverApiKey s) \<noteq> []) (t_rows (db_servers d))) \<subseteq> set (t_rows (db_servers (migrate draw tok d)))
    \<and> map sv_id (t_rows (db_servers (migrate draw tok d))) = map sv_id (t_rows (db_servers d))
    \<and> db_users (migrate draw tok d) = db_users d
    \<and> migrate draw' tok' (migrate draw tok d) = migrate draw tok d"
proof -
  let ?m = "migrate draw tok d" and ?ss = "t_select keyless (db_servers d)"
  have s: "list_all (\<lambda>(k, v). db_settings ?m k \<noteq> None) ((''relay_token'', []) # default_settings)"
    by (auto simp: list_all_iff migrate_settings dest: weak_map_of_SomeI split: option.splits)
  have l: "db_settings d \<subseteq>\<^sub>m db_settings ?m"
    by (auto simp: map_le_def migrate_settings split: option.splits)
  have k: "list_all (\<lambda>s. null_text (sv_serverApiKey s) \<noteq> []) (t_rows (db_servers ?m))"
    using migrate_keys [of draw tok d] by (simp add: keyless_def)
  from give_keys_rows [of draw 0 ?ss d] obtain f where
    f: "t_rows (db_servers ?m) = map f (t_rows (db_servers d))" "\<And>r. sv_id (f r) = sv_id r"
      "\<And>r. sv_id r \<notin> sv_id ` set ?ss \<Longrightarrow> f r = r"
    unfolding migrate_servers [of draw tok d, symmetric] by blast
  have "f r = r" if "r \<in> set (t_rows (db_servers d))" "\<not> keyless r" for r
  proof (rule f(3), rule notI)
    assume "sv_id r \<in> sv_id ` set ?ss"
    then obtain q where "q \<in> set (t_rows (db_servers d))" "keyless q" "sv_id q = sv_id r" by (auto simp: t_select_def)
    with assms that show False by (auto simp: distinct_map dest: inj_onD)
  qed
  then have "set (filter (\<lambda>s. null_text (sv_serverApiKey s) \<noteq> []) (t_rows (db_servers d))) \<subseteq> set (t_rows (db_servers ?m))"
    by (force simp: f(1) keyless_def image_iff)
  moreover have "map sv_id (t_rows (db_servers ?m)) = map sv_id (t_rows (db_servers d))" by (simp add: f(1,2))
  moreover have "db_users ?m = db_users d" by (simp add: migrate_def put_relay_token_eq give_keys_frame)
  moreover have "migrate draw' tok' ?m = ?m"
    by (rule migrate_id) (use k s in \<open>simp_all add: keyless_def\<close>)
  ultimately show ?thesis using s l k by blast
qed

text \<open>A database with one server without a key and one with a key.\<close>

definition two_servers :: database where
  "two_servers = empty_db\<lparr>db_servers := t_insert (server_defaults 0 1 ''a'' ''h'' 21114 [] (Some ''k''))
     (t_insert (server_defaults 0 1 ''b'' ''h'' 21115 [] None) t_empty)\<rparr>"

theorem migrate_fills_gaps_witness:
  "set (filter (\<lambda>s. null_text (sv_serverApiKey s) \<noteq> []) (t_rows (db_servers two_servers))) \<noteq> {} \<and>
   migrate (\<lambda>_ _. 1) (\<lambda>_. 1) (migrate (\<lambda>_ _. 0) (\<lambda>_. 0) two_servers) = migrate (\<lambda>_ _. 0) (\<lambda>_. 0) two_servers"
proof -
  have "distinct (map sv_id (t_rows (db_servers two_servers)))"
    by (simp add: two_servers_def t_insert_def t_empty_def server_defaults_def)
  from migrate_fills_gaps [OF this, of "\<lambda>_ _. 0" "\<lambda>_. 0" "\<lambda>_ _. 1" "\<lambda>_. 1"]
  have "migrate (\<lambda>_ _. 1) (\<lambda>_. 1) (migrate (\<lambda>_ _. 0) (\<lambda>_. 0) two_servers) = migrate (\<lambda>_ _. 0) (\<lambda>_. 0) two_servers"
    by (elim conjE)
  moreover have "set (filter (\<lambda>s. null_text (sv_serverApiKey s) \<noteq> []) (t_rows (db_servers two_servers))) \<noteq> {}"
    by (simp add: two_servers_def t_insert_def t_empty_def server_defaults_def null_text_def)
  ultimately show ?thesis by (intro conjI)
qed

section \<open>What runs after the start\<close>

lemma start_tailers_all:
  assumes "start_tailers ss ts = (ts', True)"
  shows "tl_serverId ` set ts' = tl_serverId ` set ts \<union> sv_id ` set ss \<and>
    (\<forall>t\<in>set ts'. t \<in> set ts \<or> (\<exists>s\<in>set ss. sv_id s = tl_serverId t \<and> null_text (sv_serverApiKey s) = tl_apiKey t
        \<and> null_text (sv_logPath s) = tl_logPath t))"
  using assms
proof (induction ss arbitrary: ts)
  case (Cons s ss)
  let ?ts = "start_tailer (sv_id s) (null_text (sv_logPath s), null_text (sv_serverApiKey s)) ts"
  have "start_tailers ss ?ts = (ts', True)" using Cons.prems by (simp split: if_splits)
  note ih = Cons.IH [OF this]
  have "tl_serverId ` set ?ts = insert (sv_id s) (tl_serverId ` set ts)" 
  proof (cases "\<exists>t\<in>set ts. tl_serverId t = sv_id s")
    case True
    then have "sv_id s \<in> tl_serverId ` set ts" by force
    with True show ?thesis by (simp add: start_tailer_def insert_absorb)
  qed (simp add: start_tailer_def)
  moreover have "t \<in> set ts \<or> sv_id s = tl_serverId t \<and> null_text (sv_serverApiKey s) = tl_apiKey t \<and> null_text (sv_logPath s) = tl_logPath t"
    if "t \<in> set ?ts" for t using that by (auto simp: start_tailer_def split: if_splits)
  ultimately show ?case using ih by (auto; blast)
qed simp


definition local_db :: database where
  "local_db = empty_db\<lparr>db_servers := t_insert (\<lambda>i. (server_defaults 0 1 ''a'' ''h'' 21114 [] (Some ''k'') i)
     \<lparr>sv_connectionMode := ''local'', sv_logPath := Some ''/log''\<rparr>) t_empty\<rparr>"


end
