(* ===== verification/OtherRoutes.thy ===== *)
theory OtherRoutes
  imports ListRoutes SettingsRoutes
begin

text \<open>
  The remaining routes: the fixed list of plugin descriptions (missing_routes.cpp), the tick chart
  (analytics_routes.cpp), the download of the relay (relay_routes.cpp) and the builds (misc_handler.cpp). What
  SQLite makes of the average, maximum and minimum of a column of doubles is an argument, and so is the content
  of the relay's binary.
\<close>

section \<open>Plugin descriptions\<close>

text \<open>The texts as they are in the source, where Chinese is encoded twice.\<close>

definition js_plugin :: "string \<Rightarrow> string \<Rightarrow> string \<Rightarrow> string \<Rightarrow> string list \<Rightarrow> json" where
  "js_plugin name label desc version events =
     JObj [(''name'', JStr name), (''label'', JStr label), (''desc'', JStr desc), (''version'', JStr version),
       (''loaded'', JBool True), (''events'', JArr (map JStr events))]"

definition js_plugins :: "json list" where
  "js_plugins =
    [js_plugin ''ChatCommands''
       ([CHR 0xC3, CHR 0xA8, CHR 0xC2, CHR 0x81, CHR 0xC2, CHR 0x8A, CHR 0xC3, CHR 0xA5, CHR 0xC2, CHR 0xA4, CHR 0xC2, CHR 0xA9, CHR 0xC3, CHR 0xA5,
         CHR 0xC2, CHR 0x8F, CHR 0xC2, CHR 0xA3, CHR 0xC3, CHR 0xA4, CHR 0xC2, CHR 0xBB, CHR 0xC2, CHR 0xA4])
       ([CHR 0xC3, CHR 0xA7, CHR 0xC2, CHR 0xAD, CHR 0xC2, CHR 0xBE, CHR 0xC3, CHR 0xA5, CHR 0xC2, CHR 0x88, CHR 0xC2, CHR 0xB0] @ ''/'' @ [CHR 0xC3,
         CHR 0xA6, CHR 0xC2, CHR 0x8A, CHR 0xC2, CHR 0xBD, CHR 0xC3, CHR 0xA5, CHR 0xC2, CHR 0xA5, CHR 0xC2, CHR 0x96] @ ''/'' @ [CHR 0xC3, CHR 0xA6,
         CHR 0xC2, CHR 0x9F, CHR 0xC2, CHR 0xA5, CHR 0xC3, CHR 0xA6, CHR 0xC2, CHR 0x88, CHR 0xC2, CHR 0x98, CHR 0xC3, CHR 0xA7, CHR 0xC2, CHR 0xBB,
         CHR 0xC2, CHR 0xA9] @ ''/'' @ [CHR 0xC3, CHR 0xA6, CHR 0xC2, CHR 0x9F, CHR 0xC2, CHR 0xA5, CHR 0xC3, CHR 0xA7, CHR 0xC2, CHR 0xA7, CHR 0xC2,
         CHR 0xAF, CHR 0xC3, CHR 0xA5, CHR 0xC2, CHR 0x88, CHR 0xC2, CHR 0x86] @ ''/'' @ [CHR 0xC3, CHR 0xA5, CHR 0xC2, CHR 0x85, CHR 0xC2, CHR 0x91,
         CHR 0xC3, CHR 0xA6, CHR 0xC2, CHR 0x8D, CHR 0xC2, CHR 0xA2] @ ''/'' @ [CHR 0xC3, CHR 0xA8, CHR 0xC2, CHR 0xB7, CHR 0xC2, CHR 0xB3, CHR 0xC3,
         CHR 0xA8, CHR 0xC2, CHR 0xBE, CHR 0xC2, CHR 0xB9])
       ''3.2'' [''chat''],
     js_plugin ''KillPoints''
       ([CHR 0xC3, CHR 0xA5, CHR 0xC2, CHR 0x87, CHR 0xC2, CHR 0xBB, CHR 0xC3, CHR 0xA6, CHR 0xC2, CHR 0x9D, CHR 0xC2, CHR 0x80, CHR 0xC3, CHR 0xA7,
         CHR 0xC2, CHR 0xA7, CHR 0xC2, CHR 0xAF, CHR 0xC3, CHR 0xA5, CHR 0xC2, CHR 0x88, CHR 0xC2, CHR 0x86])
       ([CHR 0xC3, CHR 0xA5, CHR 0xC2, CHR 0x87, CHR 0xC2, CHR 0xBB, CHR 0xC3, CHR 0xA6, CHR 0xC2, CHR 0x9D, CHR 0xC2, CHR 0x80, CHR 0xC3, CHR 0xA5,
         CHR 0xC2, CHR 0x8A, CHR 0xC2, CHR 0xA0, CHR 0xC3, CHR 0xA5, CHR 0xC2, CHR 0x88, CHR 0xC2, CHR 0x86, CHR 0xC3, CHR 0xA3, CHR 0xC2, CHR 0x80,
         CHR 0xC2, CHR 0x81, CHR 0xC3, CHR 0xA9, CHR 0xC2, CHR 0x98, CHR 0xC2, CHR 0xB5, CHR 0xC3, CHR 0xA4, CHR 0xC2, CHR 0xBA, CHR 0xC2, CHR 0xA1,
         CHR 0xC3, CHR 0xA6, CHR 0xC2, CHR 0x89, CHR 0xC2, CHR 0xA3, CHR 0xC3, CHR 0xA5, CHR 0xC2, CHR 0x88, CHR 0xC2, CHR 0x86, CHR 0xC3, CHR 0xA3,
         CHR 0xC2, CHR 0x80, CHR 0xC2, CHR 0x81] @ ''TK'' @ [CHR 0xC3, CHR 0xA6, CHR 0xC2, CHR 0x89, CHR 0xC2, CHR 0xA3, CHR 0xC3, CHR 0xA5, CHR
         0xC2, CHR 0x88, CHR 0xC2, CHR 0x86, CHR 0xC3, CHR 0xA3, CHR 0xC2, CHR 0x80, CHR 0xC2, CHR 0x81, CHR 0xC3, CHR 0xA8, CHR 0xC2, CHR 0x87, CHR
         0xC2, CHR 0xAA, CHR 0xC3, CHR 0xA6, CHR 0xC2, CHR 0x9D, CHR 0xC2, CHR 0x80, CHR 0xC3, CHR 0xA6, CHR 0xC2, CHR 0x89, CHR 0xC2, CHR 0xA3, CHR
         0xC3, CHR 0xA5, CHR 0xC2, CHR 0x88, CHR 0xC2, CHR 0x86])
       ''1.5'' [''kill''],
     js_plugin ''Welcome''
       ([CHR 0xC3, CHR 0xA8, CHR 0xC2, CHR 0xBF, CHR 0xC2, CHR 0x9B, CHR 0xC3, CHR 0xA6, CHR 0xC2, CHR 0x9C, CHR 0xC2, CHR 0x8D, CHR 0xC3, CHR 0xA6,
         CHR 0xC2, CHR 0xAC, CHR 0xC2, CHR 0xA2, CHR 0xC3, CHR 0xA8, CHR 0xC2, CHR 0xBF, CHR 0xC2, CHR 0x8E])
       ([CHR 0xC3, CHR 0xA7, CHR 0xC2, CHR 0x8E, CHR 0xC2, CHR 0xA9, CHR 0xC3, CHR 0xA5, CHR 0xC2, CHR 0xAE, CHR 0xC2, CHR 0xB6, CHR 0xC3, CHR 0xA5,
         CHR 0xC2, CHR 0x8A, CHR 0xC2, CHR 0xA0, CHR 0xC3, CHR 0xA5, CHR 0xC2, CHR 0x85, CHR 0xC2, CHR 0xA5, CHR 0xC3, CHR 0xA6, CHR 0xC2, CHR 0x9C,
         CHR 0xC2, CHR 0x8D, CHR 0xC3, CHR 0xA5, CHR 0xC2, CHR 0x8A, CHR 0xC2, CHR 0xA1, CHR 0xC3, CHR 0xA5, CHR 0xC2, CHR 0x99, CHR 0xC2, CHR 0xA8,
         CHR 0xC3, CHR 0xA6, CHR 0xC2, CHR 0x97, CHR 0xC2, CHR 0xB6, CHR 0xC3, CHR 0xA5, CHR 0xC2, CHR 0x8F, CHR 0xC2, CHR 0x91, CHR 0xC3, CHR 0xA9,
         CHR 0xC2, CHR 0x80, CHR 0xC2, CHR 0x81, CHR 0xC3, CHR 0xA8, CHR 0xC2, CHR 0x87, CHR 0xC2, CHR 0xAA, CHR 0xC3, CHR 0xA5, CHR 0xC2, CHR 0xAE,
         CHR 0xC2, CHR 0x9A, CHR 0xC3, CHR 0xA4, CHR 0xC2, CHR 0xB9, CHR 0xC2, CHR 0x89, CHR 0xC3, CHR 0xA6, CHR 0xC2, CHR 0xAC, CHR 0xC2, CHR 0xA2,
         CHR 0xC3, CHR 0xA8, CHR 0xC2, CHR 0xBF, CHR 0xC2, CHR 0x8E, CHR 0xC3, CHR 0xA8, CHR 0xC2, CHR 0xAF, CHR 0xC2, CHR 0xAD])
       ''1.0'' [''join''],
     js_plugin ''TKForgive''
       (''TK '' @ [CHR 0xC3, CHR 0xA9, CHR 0xC2, CHR 0x81, CHR 0xC2, CHR 0x93, CHR 0xC3, CHR 0xA6, CHR 0xC2, CHR 0xAD, CHR 0xC2, CHR 0x89])
       (''TK'' @ [CHR 0xC3, CHR 0xA5, CHR 0xC2, CHR 0x90, CHR 0xC2, CHR 0x8E, CHR 0xC3, CHR 0xA9, CHR 0xC2, CHR 0x98, CHR 0xC2, CHR 0x9F, CHR 0xC3,
         CHR 0xA5, CHR 0xC2, CHR 0x8F, CHR 0xC2, CHR 0x8B, CHR 0xC3, CHR 0xA5, CHR 0xC2, CHR 0x8F, CHR 0xC2, CHR 0xAF, CHR 0xC3, CHR 0xA8, CHR 0xC2,
         CHR 0xBE, CHR 0xC2, CHR 0x93, CHR 0xC3, CHR 0xA5, CHR 0xC2, CHR 0x85, CHR 0xC2, CHR 0xA5, CHR 0xC3, CHR 0xA5, CHR 0xC2, CHR 0x8F, CHR 0xC2,
         CHR 0xA3, CHR 0xC3, CHR 0xA4, CHR 0xC2, CHR 0xBB, CHR 0xC2, CHR 0xA4, CHR 0xC3, CHR 0xA5, CHR 0xC2, CHR 0x8E, CHR 0xC2, CHR 0x9F, CHR 0xC3,
         CHR 0xA8, CHR 0xC2, CHR 0xB0, CHR 0xC2, CHR 0x85, CHR 0xC3, CHR 0xAF, CHR 0xC2, CHR 0xBC, CHR 0xC2, CHR 0x8C, CHR 0xC3, CHR 0xA4, CHR 0xC2,
         CHR 0xB8, CHR 0xC2, CHR 0x8D, CHR 0xC3, CHR 0xA6, CHR 0xC2, CHR 0x89, CHR 0xC2, CHR 0xA3, CHR 0xC3, CHR 0xA5, CHR 0xC2, CHR 0x88, CHR 0xC2,
         CHR 0x86])
       ''1.0'' [''chat'', ''kill''],
     js_plugin ''CDKRedeem''
       (''CDK '' @ [CHR 0xC3, CHR 0xA5, CHR 0xC2, CHR 0x85, CHR 0xC2, CHR 0x91, CHR 0xC3, CHR 0xA6, CHR 0xC2, CHR 0x8D, CHR 0xC2, CHR 0xA2])
       ([CHR 0xC3, CHR 0xA7, CHR 0xC2, CHR 0x8E, CHR 0xC2, CHR 0xA9, CHR 0xC3, CHR 0xA5, CHR 0xC2, CHR 0xAE, CHR 0xC2, CHR 0xB6, CHR 0xC3, CHR 0xA5,
         CHR 0xC2, CHR 0x9C, CHR 0xC2, CHR 0xA8, CHR 0xC3, CHR 0xA8, CHR 0xC2, CHR 0x81, CHR 0xC2, CHR 0x8A, CHR 0xC3, CHR 0xA5, CHR 0xC2, CHR 0xA4,
         CHR 0xC2, CHR 0xA9, CHR 0xC3, CHR 0xA4, CHR 0xC2, CHR 0xB8, CHR 0xC2, CHR 0xAD, CHR 0xC3, CHR 0xA8, CHR 0xC2, CHR 0xBE, CHR 0xC2, CHR 0x93,
         CHR 0xC3, CHR 0xA5, CHR 0xC2, CHR 0x85, CHR 0xC2, CHR 0xA5, CHR 0xC3, CHR 0xA5, CHR 0xC2, CHR 0x8F, CHR 0xC2, CHR 0xA3, CHR 0xC3, CHR 0xA4,
         CHR 0xC2, CHR 0xBB, CHR 0xC2, CHR 0xA4, CHR 0xC3, CHR 0xA5, CHR 0xC2, CHR 0x85, CHR 0xC2, CHR 0x91, CHR 0xC3, CHR 0xA6, CHR 0xC2, CHR 0x8D,
         CHR 0xC2, CHR 0xA2, CHR 0xC3, CHR 0xA9, CHR 0xC2, CHR 0xA2, CHR 0xC2, CHR 0x84, CHR 0xC3, CHR 0xA7, CHR 0xC2, CHR 0x95, CHR 0xC2, CHR 0x99,
         CHR 0xC3, CHR 0xA4, CHR 0xC2, CHR 0xBD, CHR 0xC2, CHR 0x8D, CHR 0xC3, CHR 0xA6, CHR 0xC2, CHR 0x88, CHR 0xC2, CHR 0x96, CHR 0xC3, CHR 0xA8,
         CHR 0xC2, CHR 0xB7, CHR 0xC2, CHR 0xB3, CHR 0xC3, CHR 0xA8, CHR 0xC2, CHR 0xBE, CHR 0xC2, CHR 0xB9])
       ''1.0'' [''chat''],
     js_plugin ''TeamBalance''
       ([CHR 0xC3, CHR 0xA9, CHR 0xC2, CHR 0x98, CHR 0xC2, CHR 0x9F, CHR 0xC3, CHR 0xA4, CHR 0xC2, CHR 0xBC, CHR 0xC2, CHR 0x8D, CHR 0xC3, CHR 0xA5,
         CHR 0xC2, CHR 0xB9, CHR 0xC2, CHR 0xB3, CHR 0xC3, CHR 0xA8, CHR 0xC2, CHR 0xA1, CHR 0xC2, CHR 0xA1])
       ([CHR 0xC3, CHR 0xA9, CHR 0xC2, CHR 0x98, CHR 0xC2, CHR 0x9F, CHR 0xC3, CHR 0xA4, CHR 0xC2, CHR 0xBC, CHR 0xC2, CHR 0x8D, CHR 0xC3, CHR 0xA4,
         CHR 0xC2, CHR 0xBA, CHR 0xC2, CHR 0xBA, CHR 0xC3, CHR 0xA6, CHR 0xC2, CHR 0x95, CHR 0xC2, CHR 0xB0, CHR 0xC3, CHR 0xA5, CHR 0xC2, CHR 0xB7,
         CHR 0xC2, CHR 0xAE, CHR 0xC3, CHR 0xA8, CHR 0xC2, CHR 0xBF, CHR 0xC2, CHR 0x87, CHR 0xC3, CHR 0xA5, CHR 0xC2, CHR 0xA4, CHR 0xC2, CHR 0xA7,
         CHR 0xC3, CHR 0xA6, CHR 0xC2, CHR 0x97, CHR 0xC2, CHR 0xB6, CHR 0xC3, CHR 0xA8, CHR 0xC2, CHR 0x87, CHR 0xC2, CHR 0xAA, CHR 0xC3, CHR 0xA5,
         CHR 0xC2, CHR 0x8A, CHR 0xC2, CHR 0xA8, CHR 0xC3, CHR 0xA6, CHR 0xC2, CHR 0x8F, CHR 0xC2, CHR 0x90, CHR 0xC3, CHR 0xA9, CHR 0xC2, CHR 0x86,
         CHR 0xC2, CHR 0x92, CHR 0xC3, CHR 0xA6, CHR 0xC2, CHR 0x88, CHR 0xC2, CHR 0x96, CHR 0xC3, CHR 0xA5, CHR 0xC2, CHR 0xBC, CHR 0xC2, CHR 0xBA,
         CHR 0xC3, CHR 0xA5, CHR 0xC2, CHR 0x88, CHR 0xC2, CHR 0xB6, CHR 0xC3, CHR 0xA8, CHR 0xC2, CHR 0xB7, CHR 0xC2, CHR 0xB3, CHR 0xC3, CHR 0xA8,
         CHR 0xC2, CHR 0xBE, CHR 0xC2, CHR 0xB9])
       ''1.0'' [''playerlist''],
     js_plugin ''SwitchLock''
       ([CHR 0xC3, CHR 0xA9, CHR 0xC2, CHR 0x98, CHR 0xC2, CHR 0xB2, CHR 0xC3, CHR 0xA8, CHR 0xC2, CHR 0xB7, CHR 0xC2, CHR 0xB3, CHR 0xC3, CHR 0xA8,
         CHR 0xC2, CHR 0xBE, CHR 0xC2, CHR 0xB9, CHR 0xC3, CHR 0xA9, CHR 0xC2, CHR 0x94, CHR 0xC2, CHR 0x81, CHR 0xC3, CHR 0xA5, CHR 0xC2, CHR 0xAE,
         CHR 0xC2, CHR 0x9A])
       ([CHR 0xC3, CHR 0xA9, CHR 0xC2, CHR 0x94, CHR 0xC2, CHR 0x81, CHR 0xC3, CHR 0xA5, CHR 0xC2, CHR 0xAE, CHR 0xC2, CHR 0x9A, CHR 0xC3, CHR 0xA9,
         CHR 0xC2, CHR 0x98, CHR 0xC2, CHR 0xB5, CHR 0xC3, CHR 0xA8, CHR 0xC2, CHR 0x90, CHR 0xC2, CHR 0xA5, CHR 0xC3, CHR 0xAF, CHR 0xC2, CHR 0xBC,
         CHR 0xC2, CHR 0x8C, CHR 0xC3, CHR 0xA7, CHR 0xC2, CHR 0xA6, CHR 0xC2, CHR 0x81, CHR 0xC3, CHR 0xA6, CHR 0xC2, CHR 0xAD, CHR 0xC2, CHR 0xA2,
         CHR 0xC3, CHR 0xA7, CHR 0xC2, CHR 0x8E, CHR 0xC2, CHR 0xA9, CHR 0xC3, CHR 0xA5, CHR 0xC2, CHR 0xAE, CHR 0xC2, CHR 0xB6, CHR 0xC3, CHR 0xA8,
         CHR 0xC2, CHR 0x87, CHR 0xC2, CHR 0xAA, CHR 0xC3, CHR 0xA8, CHR 0xC2, CHR 0xA1, CHR 0xC2, CHR 0x8C, CHR 0xC3, CHR 0xA8, CHR 0xC2, CHR 0xB7,
         CHR 0xC2, CHR 0xB3, CHR 0xC3, CHR 0xA8, CHR 0xC2, CHR 0xBE, CHR 0xC2, CHR 0xB9])
       ''1.0'' [''chat''],
     js_plugin ''TimedBroadcast''
       ([CHR 0xC3, CHR 0xA5, CHR 0xC2, CHR 0xAE, CHR 0xC2, CHR 0x9A, CHR 0xC3, CHR 0xA6, CHR 0xC2, CHR 0x97, CHR 0xC2, CHR 0xB6, CHR 0xC3, CHR 0xA5,
         CHR 0xC2, CHR 0xB9, CHR 0xC2, CHR 0xBF, CHR 0xC3, CHR 0xA6, CHR 0xC2, CHR 0x92, CHR 0xC2, CHR 0xAD])
       ([CHR 0xC3, CHR 0xA6, CHR 0xC2, CHR 0x8C, CHR 0xC2, CHR 0x89, CHR 0xC3, CHR 0xA9, CHR 0xC2, CHR 0x97, CHR 0xC2, CHR 0xB4, CHR 0xC3, CHR 0xA9,
         CHR 0xC2, CHR 0x9A, CHR 0xC2, CHR 0x94, CHR 0xC3, CHR 0xA5, CHR 0xC2, CHR 0xBE, CHR 0xC2, CHR 0xAA, CHR 0xC3, CHR 0xA7, CHR 0xC2, CHR 0x8E,
         CHR 0xC2, CHR 0xAF, CHR 0xC3, CHR 0xA5, CHR 0xC2, CHR 0x8F, CHR 0xC2, CHR 0x91, CHR 0xC3, CHR 0xA9, CHR 0xC2, CHR 0x80, CHR 0xC2, CHR 0x81,
         CHR 0xC3, CHR 0xA5, CHR 0xC2, CHR 0x85, CHR 0xC2, CHR 0xA8, CHR 0xC3, CHR 0xA6, CHR 0xC2, CHR 0x9C, CHR 0xC2, CHR 0x8D, CHR 0xC3, CHR 0xA5,
         CHR 0xC2, CHR 0xB9, CHR 0xC2, CHR 0xBF, CHR 0xC3, CHR 0xA6, CHR 0xC2, CHR 0x92, CHR 0xC2, CHR 0xAD, CHR 0xC3, CHR 0xA6, CHR 0xC2, CHR 0xB6,
         CHR 0xC2, CHR 0x88, CHR 0xC3, CHR 0xA6, CHR 0xC2, CHR 0x81, CHR 0xC2, CHR 0xAF])
       ''1.0'' [''tick''],
     js_plugin ''RevivePoints''
       ([CHR 0xC3, CHR 0xA6, CHR 0xC2, CHR 0x95, CHR 0xC2, CHR 0x91, CHR 0xC3, CHR 0xA6, CHR 0xC2, CHR 0x8F, CHR 0xC2, CHR 0xB4, CHR 0xC3, CHR 0xA7,
         CHR 0xC2, CHR 0xA7, CHR 0xC2, CHR 0xAF, CHR 0xC3, CHR 0xA5, CHR 0xC2, CHR 0x88, CHR 0xC2, CHR 0x86])
       ([CHR 0xC3, CHR 0xA6, CHR 0xC2, CHR 0x95, CHR 0xC2, CHR 0x91, CHR 0xC3, CHR 0xA6, CHR 0xC2, CHR 0x8F, CHR 0xC2, CHR 0xB4, CHR 0xC3, CHR 0xA9,
         CHR 0xC2, CHR 0x98, CHR 0xC2, CHR 0x9F, CHR 0xC3, CHR 0xA5, CHR 0xC2, CHR 0x8F, CHR 0xC2, CHR 0x8B, CHR 0xC3, CHR 0xA8, CHR 0xC2, CHR 0x8E,
         CHR 0xC2, CHR 0xB7, CHR 0xC3, CHR 0xA5, CHR 0xC2, CHR 0xBE, CHR 0xC2, CHR 0x97, CHR 0xC3, CHR 0xA7, CHR 0xC2, CHR 0xA7, CHR 0xC2, CHR 0xAF,
         CHR 0xC3, CHR 0xA5, CHR 0xC2, CHR 0x88, CHR 0xC2, CHR 0x86, CHR 0xC3, CHR 0xA5, CHR 0xC2, CHR 0xA5, CHR 0xC2, CHR 0x96, CHR 0xC3, CHR 0xA5,
         CHR 0xC2, CHR 0x8A, CHR 0xC2, CHR 0xB1])
       ''1.0'' [''revive''],
     js_plugin ''PlayerSync''
       ([CHR 0xC3, CHR 0xA7, CHR 0xC2, CHR 0x8E, CHR 0xC2, CHR 0xA9, CHR 0xC3, CHR 0xA5, CHR 0xC2, CHR 0xAE, CHR 0xC2, CHR 0xB6, CHR 0xC3, CHR 0xA5,
         CHR 0xC2, CHR 0x90, CHR 0xC2, CHR 0x8C, CHR 0xC3, CHR 0xA6, CHR 0xC2, CHR 0xAD, CHR 0xC2, CHR 0xA5])
       ([CHR 0xC3, CHR 0xA8, CHR 0xC2, CHR 0x87, CHR 0xC2, CHR 0xAA, CHR 0xC3, CHR 0xA5, CHR 0xC2, CHR 0x8A, CHR 0xC2, CHR 0xA8, CHR 0xC3, CHR 0xA5,
         CHR 0xC2, CHR 0x90, CHR 0xC2, CHR 0x8C, CHR 0xC3, CHR 0xA6, CHR 0xC2, CHR 0xAD, CHR 0xC2, CHR 0xA5, CHR 0xC3, CHR 0xA5, CHR 0xC2, CHR 0x9C,
         CHR 0xC2, CHR 0xA8, CHR 0xC3, CHR 0xA7, CHR 0xC2, CHR 0xBA, CHR 0xC2, CHR 0xBF, CHR 0xC3, CHR 0xA7, CHR 0xC2, CHR 0x8E, CHR 0xC2, CHR 0xA9,
         CHR 0xC3, CHR 0xA5, CHR 0xC2, CHR 0xAE, CHR 0xC2, CHR 0xB6, CHR 0xC3, CHR 0xA6, CHR 0xC2, CHR 0x95, CHR 0xC2, CHR 0xB0, CHR 0xC3, CHR 0xA6,
         CHR 0xC2, CHR 0x8D, CHR 0xC2, CHR 0xAE])
       ''1.0'' [''playerlist'']]"

definition get_plugins_js :: handler where
  "get_plugins_js ctx p =
     answer p [(''plugins'', JArr js_plugins), (''settings'', JObj (map (\<lambda>(k, v). (k, JStr v)) (settings_list (pn_db p))))]"

section \<open>Tick chart\<close>

definition tick_range :: "string \<Rightarrow> time \<Rightarrow> time \<times> nat" where
  "tick_range rng now =
     (if rng = ''6h'' then (now - 6 * 3600, 16)
      else if rng = ''24h'' then (now - 24 * 3600, 13)
      else if rng = ''3d'' then (now - 3 * 86400, 13)
      else if rng = ''7d'' then (now - 7 * 86400, 10)
      else if rng = ''30d'' then (now - 30 * 86400, 10)
      else (now - 3600, 16))"

definition tick_buckets :: "time \<Rightarrow> nat \<Rightarrow> database \<Rightarrow> (string \<times> string) list" where
  "tick_buckets since k d =
     map (\<lambda>r. (take k (datetime_text (ti_timestamp r)), ti_tickRate r)) (t_select (\<lambda>r. since \<le> ti_timestamp r) (db_ticks d))"

text \<open>\<open>agg f xs\<close>: the number that \<open>std::stod\<close> reads from the text of SQLite's aggregate \<open>f\<close>.\<close>

definition get_tick_chart :: "(string \<Rightarrow> string list \<Rightarrow> json) \<Rightarrow> env \<Rightarrow> handler" where
  "get_tick_chart agg e ctx p =
     (let rng = ctx_query ctx ''range'' ''1h''; (since, k) = tick_range rng (e_now e);
          ts = tick_buckets since k (pn_db p); keys = sort (remdups (map fst ts));
          column = (\<lambda>f. JArr (map (\<lambda>b. agg f (map snd (filter (\<lambda>t. fst t = b) ts))) keys))
      in answer p [(''labels'', JArr (map JStr keys)), (''avg'', column ''AVG''), (''max'', column ''MAX''),
           (''min'', column ''MIN''), (''range'', JStr rng)])"

section \<open>The relay's binary\<close>

definition get_relay_download :: "string option \<Rightarrow> handler" where
  "get_relay_download file ctx p =
     (case file of
        None \<Rightarrow> Some (p, ctx_error ''squad-relay.exe not found'' 404)
      | Some body \<Rightarrow> Some (p, ctx_json (JStr body) 200))"

section \<open>Builds\<close>

definition source_json :: "source_row \<Rightarrow> json" where
  "source_json s = JObj [(''createdAt'', JStr (datetime_text (psr_createdAt s))), (''filename'', JStr (psr_filename s)),
     (''id'', JStr (to_string (psr_id s))), (''status'', JStr (null_text (psr_status s))), (''userId'', JStr (to_string (psr_userId s)))]"

definition get_build_list :: handler where
  "get_build_list ctx p =
     answer p [(''builds'', JArr (map source_json (order_desc psr_id
       (t_select (\<lambda>s. Some (psr_userId s) = int_key (cx_userId ctx)) (db_sources (pn_db p))))))]"

definition get_build_download :: handler where
  "get_build_download ctx p =
     (if t_first (\<lambda>s. Some (psr_id s) = int_key (ctx_param ctx 1)) (db_sources (pn_db p)) = None
      then Some (p, ctx_error ''Not found'' 404)
      else db_error ''Download not yet implemented in C++ version'' p)"

end
