(* ===== verification/Routes.thy ===== *)
theory Routes
  imports EventRoutes OtherRoutes Scramble
begin

text \<open>
  The panel as one server: the routes in the order main() registers them (main.cpp and the register functions
  under handlers/), the choice of a route and the wrapper around it (net/server.cpp). The matching of paths is
  that of the vendored cpp-httplib, which tries the routes of a method in order with \<open>std::regex_match\<close>; what the rest of the world
  answers - clocks, random numbers, game servers, files, programs - is the record \<open>outside\<close>.
\<close>

section \<open>State and surroundings\<close>

record site =
  si_panel :: panel
  si_limits :: rate_limits
  si_written :: "(string \<times> string) list"

record outside =
  ou_env :: env
  ou_scrypt :: scrypt
  ou_salt :: draws
  ou_rnd :: draws
  ou_ip :: string
  ou_draw :: "nat \<Rightarrow> nat"
  ou_lastId :: int
  ou_log :: "string option"
  ou_modules :: "(string \<times> bool \<times> bool) list option"
  ou_shell :: "string \<Rightarrow> int"
  ou_round :: "rat \<Rightarrow> rat"
  ou_sort :: "ScoredPlayer list \<Rightarrow> ScoredPlayer list"
  ou_test :: "string \<Rightarrow> int \<Rightarrow> string \<Rightarrow> string option"
  ou_relay :: "string \<Rightarrow> int \<Rightarrow> (int \<times> string) option"
  ou_aggregate :: "string \<Rightarrow> string list \<Rightarrow> json"
  ou_exe :: "string option"
  ou_opens :: "string \<Rightarrow> bool"
  ou_build :: "string \<Rightarrow> string \<Rightarrow> int"
  ou_encode :: "string \<Rightarrow> string"
  ou_fetch :: "string \<Rightarrow> string \<Rightarrow> (int \<times> string) option"
  ou_static :: "string \<Rightarrow> string option"

type_synonym site_handler = "Context \<Rightarrow> site \<Rightarrow> (site \<times> response) option"

definition on_panel :: "handler \<Rightarrow> site_handler" where
  "on_panel h ctx s = map_option (\<lambda>(p, r). (s\<lparr>si_panel := p\<rparr>, r)) (h ctx (si_panel s))"

definition post_login_site :: "outside \<Rightarrow> site_handler" where
  "post_login_site w ctx s =
     map_option (\<lambda>((m, p), r). (s\<lparr>si_limits := m, si_panel := p\<rparr>, r))
       (post_login (ou_env w) (ou_scrypt w) (ou_rnd w) (ou_ip w) ctx (si_limits s, si_panel s))"

definition post_upload_site :: "outside \<Rightarrow> site_handler" where
  "post_upload_site w ctx s =
     (let (p, r, file) = post_upload (ou_opens w) (ou_build w) ctx (si_panel s)
      in Some (s\<lparr>si_panel := p, si_written := si_written s @ (case file of None \<Rightarrow> [] | Some f \<Rightarrow> [f])\<rparr>, r))"

definition get_rcon_ext_site :: "outside \<Rightarrow> site_handler" where
  "get_rcon_ext_site w ctx s =
     Some (s, case get_rcon_ext (ou_env w) (ou_encode w) (ou_fetch w) ctx of Reply r \<Rightarrow> r | Raw_body b \<Rightarrow> ctx_json (JStr b) 200)"

section \<open>The routes\<close>

text \<open>Every pattern is a regular expression over the whole path; \<open>~\<close> stands for the backslash.\<close>

record route =
  rt_method :: string
  rt_pattern :: string
  rt_auth :: bool
  rt_handler :: site_handler

abbreviation route :: "string \<Rightarrow> string \<Rightarrow> bool \<Rightarrow> site_handler \<Rightarrow> route" where
  "route m pat auth h \<equiv> \<lparr>rt_method = m, rt_pattern = pat, rt_auth = auth, rt_handler = h\<rparr>"

definition registerAuthRoutes :: "outside \<Rightarrow> route list" where
  "registerAuthRoutes w =
    [route ''POST'' ''/api/auth/register'' False (on_panel (post_register (ou_env w) (ou_scrypt w) (ou_salt w) (ou_rnd w))),
     route ''POST'' ''/api/auth/login'' False (post_login_site w),
     route ''POST'' ''/api/auth/logout'' True (on_panel post_logout),
     route ''GET'' ''/api/auth/me'' True (on_panel get_me)]"

definition registerServerRoutes :: "outside \<Rightarrow> route list" where
  "registerServerRoutes w =
    [route ''GET'' ''/api/servers'' True (on_panel get_servers),
     route ''POST'' ''/api/servers'' True (on_panel (post_servers (ou_env w) (ou_draw w))),
     route ''PUT'' ''/api/servers/(~d+)'' True (on_panel (put_server (ou_env w))),
     route ''PUT'' ''/api/servers/(~d+)/notes'' True (on_panel (put_notes (ou_env w))),
     route ''DELETE'' ''/api/servers/(~d+)'' True (on_panel del_server),
     route ''POST'' ''/api/servers/(~d+)/test'' True (on_panel (post_test (ou_env w))),
     route ''GET'' ''/api/servers/(~d+)/members'' True (on_panel get_members),
     route ''POST'' ''/api/servers/(~d+)/members'' True (on_panel (post_members (ou_env w))),
     route ''PUT'' ''/api/servers/(~d+)/members/(~d+)'' True (on_panel (put_member (ou_env w))),
     route ''DELETE'' ''/api/servers/(~d+)/members/(~d+)'' True (on_panel del_member)]"

definition registerPlayerRoutes :: "outside \<Rightarrow> route list" where
  "registerPlayerRoutes w =
    [route ''GET'' ''/api/players'' True (on_panel get_players),
     route ''POST'' ''/api/players/kick'' True (on_panel (post_kick (ou_env w))),
     route ''POST'' ''/api/players/switch-team'' True (on_panel (post_switch_team (ou_env w))),
     route ''POST'' ''/api/players/refresh'' True (on_panel (post_refresh (ou_env w))),
     route ''POST'' ''/api/players/afk-kick'' True (on_panel (post_afk_kick (ou_env w)))]"

definition registerEventRoutes :: "outside \<Rightarrow> route list" where
  "registerEventRoutes w =
    [route ''POST'' ''/api/events/playerlist-raw'' False (on_panel (post_playerlist_raw (ou_env w))),
     route ''POST'' ''/api/events/chat'' False (on_panel (post_chat (ou_env w))),
     route ''POST'' ''/api/events/kill'' False (on_panel (post_kill (ou_env w))),
     route ''POST'' ''/api/events/revive'' False (on_panel (post_revive (ou_env w))),
     route ''POST'' ''/api/events/wound'' False (on_panel (post_wound (ou_env w))),
     route ''POST'' ''/api/events/admin-camera'' False (on_panel (post_admin_camera (ou_env w))),
     route ''POST'' ''/api/events/raw'' False (on_panel (post_raw (ou_env w)))]"

definition registerPointsRoutes :: "outside \<Rightarrow> route list" where
  "registerPointsRoutes w =
    [route ''GET'' ''/api/points'' True (on_panel get_points),
     route ''GET'' ''/api/points/leaderboard'' False (on_panel get_leaderboard),
     route ''POST'' ''/api/points/adjust'' True (on_panel (post_adjust (ou_env w))),
     route ''GET'' ''/api/points/logs'' True (on_panel get_point_logs)]"

definition registerBanRoutes :: "outside \<Rightarrow> route list" where
  "registerBanRoutes w =
    [route ''GET'' ''/api/bans'' True (on_panel get_bans),
     route ''POST'' ''/api/bans'' True (on_panel (post_bans (ou_env w) (ou_lastId w))),
     route ''DELETE'' ''/api/bans/(~d+)'' True (on_panel (del_ban (ou_env w)))]"

definition registerChatRoutes :: "outside \<Rightarrow> route list" where
  "registerChatRoutes w =
    [route ''GET'' ''/api/chat'' True (on_panel get_chat)]"

definition registerKillRoutes :: "outside \<Rightarrow> route list" where
  "registerKillRoutes w =
    [route ''GET'' ''/api/kills'' True (on_panel get_kills),
     route ''GET'' ''/api/kills/stats'' True (on_panel get_kill_stats)]"

definition registerAdminRoutes :: "outside \<Rightarrow> route list" where
  "registerAdminRoutes w =
    [route ''GET'' ''/api/admin/users'' True (on_panel get_users),
     route ''POST'' ''/api/admin/users/add'' True (on_panel (post_user_add (ou_env w) (ou_scrypt w) (ou_salt w))),
     route ''POST'' ''/api/admin/users/(~d+)/approve'' True (on_panel post_approve),
     route ''POST'' ''/api/admin/users/(~d+)/reject'' True (on_panel (post_reject (ou_env w))),
     route ''DELETE'' ''/api/admin/users/(~d+)'' True (on_panel (del_user (ou_env w))),
     route ''PUT'' ''/api/admin/users/(~d+)/role'' True (on_panel (put_role (ou_env w))),
     route ''GET'' ''/api/admin/users/(~d+)/permissions'' True (on_panel get_permissions),
     route ''PUT'' ''/api/admin/users/(~d+)/permissions'' True (on_panel put_permissions),
     route ''POST'' ''/api/admin/users/(~d+)/reset-password'' True (on_panel (post_reset_password (ou_env w) (ou_scrypt w) (ou_salt w)))]"

definition registerConfigRoutes :: "outside \<Rightarrow> route list" where
  "registerConfigRoutes w =
    [route ''GET'' ''/api/config'' True (on_panel (get_config (ou_env w))),
     route ''POST'' ''/api/config'' True (on_panel (post_config (ou_env w))),
     route ''GET'' ''/api/config/tb-code'' False (on_panel (get_tb_code (ou_env w))),
     route ''GET'' ''/api/config/plugin-keys'' False (on_panel (get_plugin_keys (ou_env w))),
     route ''GET'' ''/api/logs'' True (on_panel (get_logs (ou_log w))),
     route ''GET'' ''/api/health'' False (on_panel get_health)]"

definition registerRconRoutes :: "outside \<Rightarrow> route list" where
  "registerRconRoutes w =
    [route ''POST'' ''/api/rcon/send'' True (on_panel (post_rcon_send (ou_env w))),
     route ''POST'' ''/api/rcon/test'' True (on_panel (post_rcon_test (ou_env w) (ou_test w)))]"

definition registerPluginRoutes :: "outside \<Rightarrow> route list" where
  "registerPluginRoutes w =
    [route ''GET'' ''/api/plugins'' True (on_panel get_plugins),
     route ''POST'' ''/api/plugins'' True (on_panel (post_plugins (ou_env w) (ou_lastId w))),
     route ''PUT'' ''/api/plugins/(~d+)'' True (on_panel (put_plugin (ou_env w))),
     route ''DELETE'' ''/api/plugins/(~d+)'' True (on_panel del_plugin),
     route ''GET'' ''/api/modules'' True (on_panel (get_modules (ou_modules w)))]"

definition registerTkForgiveRoutes :: "outside \<Rightarrow> route list" where
  "registerTkForgiveRoutes w =
    [route ''GET'' ''/api/tk-forgive'' True (on_panel get_tk),
     route ''POST'' ''/api/tk-forgive'' True (on_panel (post_tk (ou_env w) (ou_lastId w))),
     route ''DELETE'' ''/api/tk-forgive/(~d+)'' True (on_panel del_tk),
     route ''POST'' ''/api/tk-forgive/(~d+)/forgive'' True (on_panel post_tk_forgive),
     route ''POST'' ''/api/tk-forgive/(~d+)/kick'' True (on_panel (post_tk_kick (ou_env w)))]"

definition registerQueryRoutes :: "outside \<Rightarrow> route list" where
  "registerQueryRoutes w =
    [route ''GET'' ''/api/revives'' True (on_panel get_revives),
     route ''GET'' ''/api/player-events'' True (on_panel get_player_events),
     route ''GET'' ''/api/game-rounds'' True (on_panel get_game_rounds),
     route ''GET'' ''/api/squad-events'' True (on_panel get_squad_events),
     route ''POST'' ''/api/events/squad'' True (on_panel (post_event_squad (ou_env w))),
     route ''DELETE'' ''/api/squad-events/(~d+)'' True (on_panel del_squad_event),
     route ''GET'' ''/api/claims'' True (on_panel get_claims),
     route ''POST'' ''/api/claims/clear'' True (on_panel (post_claims_clear (ou_env w))),
     route ''GET'' ''/api/switch-lock/(~d+)'' True (on_panel get_locks),
     route ''POST'' ''/api/switch-lock/unlock/(~d+)'' True (on_panel (post_unlock (ou_env w))),
     route ''GET'' ''/api/presets'' True (on_panel (get_presets (ou_env w))),
     route ''POST'' ''/api/presets'' True (on_panel (post_presets (ou_env w) (ou_lastId w))),
     route ''PUT'' ''/api/presets/(~d+)'' True (on_panel (put_preset (ou_env w))),
     route ''DELETE'' ''/api/presets/(~d+)'' True (on_panel del_preset),
     route ''POST'' ''/api/relay/auth'' False (on_panel (post_relay_auth (ou_env w))),
     route ''GET'' ''/api/relay/version'' False (on_panel get_relay_version),
     route ''GET'' ''/api/relay/register-status'' False (on_panel get_register_status),
     route ''GET'' ''/api/plugin-checks'' True (on_panel get_plugin_checks),
     route ''GET'' ''/api/player-database'' True (on_panel get_player_database)]"

definition registerScrambleRoutes :: "outside \<Rightarrow> route list" where
  "registerScrambleRoutes w =
    [route ''POST'' ''/api/scramble'' True (on_panel (post_scramble (ou_env w) (ou_round w) (ou_sort w)))]"

definition registerBuildRoutes :: "outside \<Rightarrow> route list" where
  "registerBuildRoutes w =
    [route ''POST'' ''/api/build/check'' True (on_panel (post_build_check (ou_shell w) (ou_env w))),
     route ''GET'' ''/api/build/list'' True (on_panel get_build_list),
     route ''GET'' ''/api/build/download/(~d+)'' True (on_panel get_build_download)]"

definition registerMissingRoutes :: "outside \<Rightarrow> route list" where
  "registerMissingRoutes w =
    [route ''GET'' ''/api/plugins/js'' True (on_panel get_plugins_js),
     route ''GET'' ''/api/reserved-slots'' True (on_panel get_slots),
     route ''POST'' ''/api/reserved-slots'' True (on_panel (post_slots (ou_env w) (ou_lastId w))),
     route ''DELETE'' ''/api/reserved-slots/(~d+)'' True (on_panel (del_slot (ou_env w))),
     route ''GET'' ''/api/op/list'' True (on_panel (get_op_list (ou_env w))),
     route ''GET'' ''/api/op/stats'' True (on_panel get_op_stats),
     route ''GET'' ''/api/op/logs'' True (on_panel get_op_logs),
     route ''GET'' ''/api/admin/online'' True (on_panel (get_admin_online (ou_env w))),
     route ''GET'' ''/api/events/log'' True (on_panel get_events_log),
     route ''POST'' ''/api/plugins/reload'' True (on_panel post_plugins_reload),
     route ''POST'' ''/api/plugins/settings'' True (on_panel (post_plugin_setting (ou_env w))),
     route ''GET'' ''/api/chat-commands'' True (on_panel (get_chat_commands (ou_env w))),
     route ''POST'' ''/api/chat-commands'' True (on_panel (post_chat_commands (ou_env w))),
     route ''POST'' ''/api/relay/(~d+)/start'' True (on_panel (post_relay_start (ou_relay w))),
     route ''POST'' ''/api/plugins/upload'' True (post_upload_site w),
     route ''GET'' ''/api/rcon-ext'' True (get_rcon_ext_site w)]"

definition registerRelayRoutes :: "outside \<Rightarrow> route list" where
  "registerRelayRoutes w =
    [route ''POST'' ''/api/relay/register'' False (on_panel (post_relay_register (ou_env w) (ou_draw w))),
     route ''GET'' ''/api/servers/(~d+)/register-code'' True (on_panel get_register_code),
     route ''POST'' ''/api/servers/(~d+)/generate-code'' True (on_panel (post_generate_code (ou_draw w))),
     route ''GET'' ''/api/relay/download'' False (on_panel (get_relay_download (ou_exe w))),
     route ''GET'' ''/api/rcon/status'' True (on_panel get_rcon_status)]"

definition registerAnalyticsRoutes :: "outside \<Rightarrow> route list" where
  "registerAnalyticsRoutes w =
    [route ''GET'' ''/api/players/online-chart'' True (on_panel (get_online_chart (ou_env w))),
     route ''GET'' ''/api/players/tick-chart'' True (on_panel (get_tick_chart (ou_aggregate w) (ou_env w)))]"

definition registerExtrasRoutes :: "outside \<Rightarrow> route list" where
  "registerExtrasRoutes w =
    [route ''GET'' ''/api/cdk'' True (on_panel get_cdk),
     route ''GET'' ''/api/cdk/logs'' True (on_panel get_cdk_logs),
     route ''POST'' ''/api/cdk/batch'' True (on_panel (post_cdk_batch (ou_env w) (ou_draw w) (ou_lastId w))),
     route ''DELETE'' ''/api/cdk/(~d+)'' True (on_panel del_cdk),
     route ''GET'' ''/api/broadcast/messages'' True (on_panel (get_broadcasts (ou_env w))),
     route ''POST'' ''/api/broadcast/messages'' True (on_panel (post_broadcasts (ou_env w))),
     route ''POST'' ''/api/op/logs'' True (on_panel (post_op_logs (ou_env w)))]"

definition all_routes :: "outside \<Rightarrow> route list" where
  "all_routes w = concat
    [registerAuthRoutes w,
     registerServerRoutes w,
     registerPlayerRoutes w,
     registerEventRoutes w,
     registerPointsRoutes w,
     registerBanRoutes w,
     registerChatRoutes w,
     registerKillRoutes w,
     registerAdminRoutes w,
     registerConfigRoutes w,
     registerRconRoutes w,
     registerPluginRoutes w,
     registerTkForgiveRoutes w,
     registerQueryRoutes w,
     registerScrambleRoutes w,
     registerBuildRoutes w,
     registerMissingRoutes w,
     registerRelayRoutes w,
     registerAnalyticsRoutes w,
     registerExtrasRoutes w]"

section \<open>Choosing a route\<close>

text \<open>The groups of a match of the whole path, the path itself as group zero.\<close>

definition path_match :: "string \<Rightarrow> string \<Rightarrow> string list option" where
  "path_match pat path =
     (case rx_compile pat of
        None \<Rightarrow> None
      | Some r \<Rightarrow> map_option (\<lambda>m. path # map (grp m) [1..<Suc (count_list pat (CHR ''(''))])
          (rx_run r path Map.empty (\<lambda>s m. if s = [] then Some m else None)))"

fun find_route :: "route list \<Rightarrow> string \<Rightarrow> string \<Rightarrow> (route \<times> string list) option" where
  "find_route [] m path = None"
| "find_route (r # rs) m path =
     (if rt_method r \<noteq> m then find_route rs m path
      else case path_match (rt_pattern r) path of Some ms \<Rightarrow> Some (r, ms) | None \<Rightarrow> find_route rs m path)"

text \<open>What the wrapper makes of a request: the context for the handler, or the refusal.\<close>

definition admit :: "env \<Rightarrow> bool \<Rightarrow> request \<Rightarrow> panel \<Rightarrow> panel \<times> (response + Context)" where
  "admit e auth req p =
     (let ctx = \<lparr>cx_req = req, cx_body = parse_body e req, cx_userId = [], cx_username = [], cx_role = [], cx_authenticated = False\<rparr>
      in if \<not> auth then (p, Inr ctx)
         else if header req ''Authorization'' = [] then (p, Inl (ctx_error ''Not authenticated'' 401))
         else
           let token = bearer (header req ''Authorization'');
               (session, d) = getSession (e_now e) token (pn_db p);
               p1 = pn_exec (\<lambda>_. d) p
           in if \<not> ses_valid session \<or> ses_token session = [] \<or> token \<noteq> ses_token session
              then (p1, Inl (ctx_error ''Invalid or expired token'' 401))
              else (p1, Inr (ctx\<lparr>cx_userId := ses_userId session, cx_username := ses_username session,
                     cx_role := ses_role session, cx_authenticated := True\<rparr>)))"

lemma wrap_admit:
  "wrap e auth h req p = (case admit e auth req p of (p1, Inl r) \<Rightarrow> Some (p1, r) | (p1, Inr ctx) \<Rightarrow> h ctx p1)"
  by (auto simp: wrap_def admit_def Let_def split: prod.splits)

definition run_route :: "outside \<Rightarrow> route \<Rightarrow> request \<Rightarrow> site \<Rightarrow> (site \<times> response) option" where
  "run_route w rt req s =
     (case admit (ou_env w) (rt_auth rt) req (si_panel s) of
        (p1, Inl r) \<Rightarrow> Some (s\<lparr>si_panel := p1\<rparr>, r)
      | (p1, Inr ctx) \<Rightarrow> rt_handler rt ctx (s\<lparr>si_panel := p1\<rparr>))"

text \<open>Preflight, then files, then the routes, as \<open>Server::routing\<close> of vendor/httplib.h; \<open>HEAD\<close> is served by the routes of \<open>GET\<close>. \<open>None\<close> is a request that
  ends or hangs the panel.\<close>

definition handle_request :: "outside \<Rightarrow> string \<Rightarrow> request \<Rightarrow> site \<Rightarrow> (site \<times> response) option" where
  "handle_request w path req s =
     (let m = (if rq_method req = ''HEAD'' then ''GET'' else rq_method req)
      in if m = ''OPTIONS'' then Some (s, \<lparr>re_status = 204, re_body = JNull\<rparr>)
         else case (if m = ''GET'' then ou_static w path else None) of
           Some body \<Rightarrow> Some (s, ctx_json (JStr body) 200)
         | None \<Rightarrow>
             (case find_route (all_routes w) m path of
                None \<Rightarrow> Some (s, \<lparr>re_status = (if m \<in> set [''GET'', ''POST'', ''PUT'', ''DELETE'', ''PATCH''] then 404 else 400), re_body = JNull\<rparr>)
              | Some (rt, ms) \<Rightarrow> run_route w rt (req\<lparr>rq_matches := ms\<rparr>) s))"

lemma run_route_panel:
  "run_route w (route m pat auth (on_panel h)) req s =
     map_option (\<lambda>(p, r). (s\<lparr>si_panel := p\<rparr>, r)) (wrap (ou_env w) auth h req (si_panel s))"
  by (simp add: run_route_def wrap_admit on_panel_def split: prod.split sum.split)

lemma find_route_in: "find_route rs m path = Some (rt, ms) \<Longrightarrow> rt \<in> set rs \<and> rt_method rt = m \<and> path_match (rt_pattern rt) path = Some ms"
  by (induction rs) (auto split: if_splits option.splits)

end
