(* ===== verification/RouteFrames.thy ===== *)
theory RouteFrames
  imports Routes AuthProps EventProps
begin

text \<open>
  What the handlers leave alone. A handler that only reads does not change the panel; of the others, all but
  those of accounts and of a server's members keep the tables the accounts are made of. The lemmas go route by
  route and end with the lists of routes the theory \<open>RouteProps\<close> puts together.
\<close>

section \<open>Tables and handlers\<close>

type_synonym account_tables = "user_row tbl \<times> session_row list \<times> perm_row tbl \<times> member_row tbl"

definition accounts_of :: "database \<Rightarrow> account_tables" where
  "accounts_of d = (db_users d, db_sessions d, db_perms d, db_members d)"

definition reads_only :: "handler \<Rightarrow> bool" where
  "reads_only h = (\<forall>ctx p p' r. h ctx p = Some (p', r) \<longrightarrow> p' = p)"

definition keeps_accounts :: "handler \<Rightarrow> bool" where
  "keeps_accounts h = (\<forall>ctx p p' r. h ctx p = Some (p', r) \<longrightarrow> accounts_of (pn_db p') = accounts_of (pn_db p))"

lemma reads_onlyI: "(\<And>ctx p p' r. h ctx p = Some (p', r) \<Longrightarrow> p' = p) \<Longrightarrow> reads_only h"
  by (simp add: reads_only_def)

lemma keeps_accountsI:
  "(\<And>ctx p p' r. h ctx p = Some (p', r) \<Longrightarrow> accounts_of (pn_db p') = accounts_of (pn_db p)) \<Longrightarrow> keeps_accounts h"
  by (simp add: keeps_accounts_def)

lemma reads_keeps: "reads_only h \<Longrightarrow> keeps_accounts h"
  unfolding reads_only_def keeps_accounts_def by metis

section \<open>Statements\<close>

lemma accounts_of_update [simp]:
  "accounts_of (d\<lparr>db_servers := x1\<rparr>) = accounts_of d" "accounts_of (d\<lparr>db_players := x2\<rparr>) = accounts_of d"
  "accounts_of (d\<lparr>db_kills := x3\<rparr>) = accounts_of d" "accounts_of (d\<lparr>db_bans := x4\<rparr>) = accounts_of d"
  "accounts_of (d\<lparr>db_points := x5\<rparr>) = accounts_of d" "accounts_of (d\<lparr>db_point_logs := x6\<rparr>) = accounts_of d"
  "accounts_of (d\<lparr>db_settings := x7\<rparr>) = accounts_of d" "accounts_of (d\<lparr>db_reserved := x8\<rparr>) = accounts_of d"
  "accounts_of (d\<lparr>db_chat_logs := x9\<rparr>) = accounts_of d" "accounts_of (d\<lparr>db_revives := y1\<rparr>) = accounts_of d"
  "accounts_of (d\<lparr>db_tk := y2\<rparr>) = accounts_of d" "accounts_of (d\<lparr>db_op_logs := y3\<rparr>) = accounts_of d"
  "accounts_of (d\<lparr>db_claims := y4\<rparr>) = accounts_of d" "accounts_of (d\<lparr>db_locks := y5\<rparr>) = accounts_of d"
  "accounts_of (d\<lparr>db_cdk := y6\<rparr>) = accounts_of d" "accounts_of (d\<lparr>db_cdk_logs := y7\<rparr>) = accounts_of d"
  "accounts_of (d\<lparr>db_plugins := y8\<rparr>) = accounts_of d" "accounts_of (d\<lparr>db_presets := y9\<rparr>) = accounts_of d"
  by (simp_all add: accounts_of_def)

lemma accounts_of_points [simp]:
  "accounts_of (log_points a1 a2 a3 a4 a5 a6 a7 d) = accounts_of d" "accounts_of (points_insert b1 b2 b3 b4 b5 b6 d) = accounts_of d"
  "accounts_of (points_update c1 c2 d) = accounts_of d"
  by (simp_all add: log_points_def points_insert_def points_update_def)

lemma accounts_of_scores [simp]:
  "accounts_of (snd (addPoints now sid steam name amt reason oper d)) = accounts_of d"
  "accounts_of (scoreKill now sid k n tk d) = accounts_of d" "accounts_of (scoreSuicide now sid k n d) = accounts_of d"
  "accounts_of (scoreRevive now sid k n d) = accounts_of d"
proof -
  have a: "accounts_of (snd (addPoints now sid steam name amt reason oper d)) = accounts_of d" for now sid steam name amt reason oper d
    by (simp add: addPoints_def Let_def split: option.split sum.split)
  show "accounts_of (snd (addPoints now sid steam name amt reason oper d)) = accounts_of d"
    "accounts_of (scoreKill now sid k n tk d) = accounts_of d" "accounts_of (scoreSuicide now sid k n d) = accounts_of d"
    "accounts_of (scoreRevive now sid k n d) = accounts_of d"
    by (simp_all add: a scoreKill_def scoreSuicide_def scoreRevive_def)
qed

lemma accounts_of_events [simp]:
  "accounts_of (kill_insert e sid k v wp d) = accounts_of d" "accounts_of (revive_insert e sid a b c f d) = accounts_of d"
  "accounts_of (chat_log e sid a b c f d) = accounts_of d" "accounts_of (player_seen now sid a b d) = accounts_of d"
  "accounts_of (fly_log e sid a b d) = accounts_of d"
  by (simp_all add: kill_insert_def revive_insert_def chat_log_def player_seen_def fly_log_def Let_def)

lemma accounts_of_plugins [simp]:
  "accounts_of (addBalance now sid steam name amt reason d) = accounts_of d"
  "accounts_of (reserved_insert now sid steam name who until d) = accounts_of d"
  "accounts_of (cdk_record now sid steam name cdk val d) = accounts_of d"
  "accounts_of (cdk_reward now sid steam name ty val code d) = accounts_of d"
  "accounts_of (tk_mark_forgiven r d) = accounts_of d" "accounts_of (tk_insert now sid k kn v vn secs d) = accounts_of d"
  by (simp_all add: addBalance_def reserved_insert_def cdk_record_def cdk_reward_def tk_mark_forgiven_def tk_insert_def
      split: option.split)

lemma accounts_of_routes [simp]:
  "accounts_of (servers_update P f d) = accounts_of d" "accounts_of (setting_put k v d) = accounts_of d"
  "accounts_of (ban_insert b1 b2 b3 b4 b5 b6 b7 d) = accounts_of d" "accounts_of (tk_change key g d) = accounts_of d"
  "accounts_of (op_log_insert o1 o2 o3 o4 o5 o6 d) = accounts_of d" "accounts_of (cdk_insert c1 c2 c3 c4 c5 d) = accounts_of d"
  "accounts_of (preset_insert p1 p2 p3 p4 d) = accounts_of d" "accounts_of (plugin_insert q1 q2 q3 q4 q5 q6 d) = accounts_of d"
  "accounts_of (plugins_update Q h d) = accounts_of d"
  by (simp_all add: servers_update_def setting_put_def ban_insert_def tk_change_def op_log_insert_def cdk_insert_def
      preset_insert_def plugin_insert_def plugins_update_def split: option.split)

lemma accounts_of_cdk_batch: "accounts_of (snd (cdk_batch now ty val uses cs i d)) = accounts_of d"
  by (induction cs arbitrary: i d) (simp_all add: Let_def case_prod_beta)

lemma accounts_of_sync [simp]: "w_db (syncReservedSlot e sid steam act name w) = w_db w"
  by (simp add: syncReservedSlot_def Let_def split: option.split)

lemma rcon_text_db: "rcon_text e sid cmd p = Some (reply, p') \<Longrightarrow> pn_db p' = pn_db p"
  by (auto simp: rcon_text_def Let_def rcon_send_def split: sum.splits)

section \<open>Events and plugins\<close>

lemma accounts_if: "accounts_of (w_db a) = x \<Longrightarrow> accounts_of (w_db b) = x \<Longrightarrow> accounts_of (w_db (if c then a else b)) = x"
  by simp

lemma accounts_commands:
  "accounts_of (w_db (doSignIn e sid steam name r w)) = accounts_of (w_db w)"
  "accounts_of (w_db (doLottery e sid steam name w)) = accounts_of (w_db w)"
  "accounts_of (w_db (doQueryKd sid steam w)) = accounts_of (w_db w)"
  "accounts_of (w_db (doQueryPoints sid steam w)) = accounts_of (w_db w)"
  "accounts_of (w_db (doRedeem e sid steam name c w)) = accounts_of (w_db w)"
  "accounts_of (w_db (doSwitchTeam e sid steam name c w)) = accounts_of (w_db w)"
  by (simp_all add: doSignIn_def doLottery_def doQueryKd_def doQueryPoints_def doRedeem_def doSwitchTeam_def
      Let_def case_prod_beta split: option.split)

lemma accounts_execute: "accounts_of (w_db (cc_execute e cmd sid steam name w)) = accounts_of (w_db w)"
  unfolding cc_execute_def by (intro accounts_if accounts_commands refl)

lemma accounts_forgive: "accounts_of (w_db (fold (tk_forgive_row sid steam) rs w)) = accounts_of (w_db w)"
  by (induction rs arbitrary: w) (simp_all add: tk_forgive_row_def)

lemma handle_accounts:
  assumes "handle p e ev w = Ret w'"
  shows "accounts_of (w_db w') = accounts_of (w_db w)"
proof (cases p)
  case CDKRedeem
  then show ?thesis using assms
    by (auto simp: handle_def CDKRedeem_handle_def cdk_redeem_def opt_run_def Let_def split: option.splits if_splits)
next
  case ChatCommands
  then show ?thesis using assms
    by (auto simp: handle_def ChatCommands_handle_def opt_run_def accounts_execute split: option.splits if_splits)
next
  case SwitchLock
  then show ?thesis using assms by (auto simp: handle_def SwitchLock_handle_def Let_def split: if_splits)
next
  case TeamBalance
  then show ?thesis using assms by (simp add: handle_def db_balance)
next
  case TKForgive
  then show ?thesis using assms
    by (auto simp: handle_def TKForgive_handle_def tk_handleKill_def tk_handleChat_def opt_run_def Let_def accounts_forgive
        split: option.splits if_splits)
next
  case Welcome
  then show ?thesis using assms by (simp add: handle_def db_welcome)
qed

interpretation account_plugins: plugin_contract handle "\<lambda>w. accounts_of (w_db w) = a" "\<lambda>ev. True" for a
  by unfold_locales (simp add: handle_accounts)

lemma run_plugins_accounts:
  assumes "run_plugins e ty sid data p = Some p'"
  shows "accounts_of (pn_db p') = accounts_of (pn_db p)"
proof -
  from assms obtain w where "dispatch e \<lparr>ev_type = ty, ev_serverId = sid, ev_data = data\<rparr> (pn_world p) = Some w"
    and p': "p' = p\<lparr>pn_world := w\<rparr>" by (auto simp: run_plugins_def)
  with account_plugins.dispatch_inv [where w = "pn_world p" and ev = "\<lparr>ev_type = ty, ev_serverId = sid, ev_data = data\<rparr>"
      and ps = plugins and e = e and w' = w]
  show ?thesis by (simp add: dispatch_def)
qed

lemma warn_accounts [simp]: "w_db (pn_world (safe_warn sid steam text p)) = pn_db p"
  by (simp add: safe_warn_def)

lemma kill_warnings_accounts [simp]: "w_db (pn_world (kill_warnings sid k kn v vn wp tk self p)) = pn_db p"
  by (simp add: kill_warnings_def Let_def)

lemma fold_seen_accounts [simp]:
  "accounts_of (pn_db (fold (\<lambda>q. pn_exec (player_seen now sid (f q) (g q))) ps p)) = accounts_of (pn_db p)"
  by (induction ps arbitrary: p) simp_all

lemma raw_event_accounts:
  assumes "raw_event e sid ev pc = Some pc'"
  shows "accounts_of (pn_db (fst pc')) = accounts_of (pn_db (fst pc))"
  using assms
  by (auto simp: raw_event_def Let_def case_prod_beta raw_kill_def raw_suicide_def raw_wound_def raw_revive_def raw_chat_def
      split: if_splits dest!: run_plugins_accounts)

lemma raw_events_accounts:
  "raw_events e sid evs pc = Some pc' \<Longrightarrow> accounts_of (pn_db (fst pc')) = accounts_of (pn_db (fst pc))"
proof (induction evs arbitrary: pc)
  case (Cons ev evs)
  then obtain pc1 where "raw_event e sid ev pc = Some pc1" "raw_events e sid evs pc1 = Some pc'" by (auto split: option.splits)
  then show ?case using Cons.IH raw_event_accounts by metis
qed simp

lemma raw_lines_accounts:
  "raw_lines e sid ls pc = Some (pc', ok) \<Longrightarrow> accounts_of (pn_db (fst pc')) = accounts_of (pn_db (fst pc))"
proof (induction ls arbitrary: pc)
  case (Cons l ls)
  show ?case
  proof (cases "length l < 10")
    case False
    show ?thesis
    proof (cases "processLine (e_cfg e) (e_ms e) l (pn_wounds (fst pc))")
      case (Inr ews)
      obtain evs ws where ews: "ews = (evs, ws)" by (cases ews)
      from Cons.prems(1) False Inr ews obtain pc1 where
        1: "raw_events e sid evs ((fst pc)\<lparr>pn_wounds := ws\<rparr>, snd pc) = Some pc1" "raw_lines e sid ls pc1 = Some (pc', ok)"
        by (auto split: option.splits)
      from raw_events_accounts [OF 1(1)] Cons.IH [OF 1(2)] show ?thesis by simp
    qed (use Cons.prems False in auto)
  qed (use Cons in auto)
qed simp

lemma event_accounts: "keeps_accounts (event_handler r e)"
proof (rule keeps_accountsI)
  fix ctx p p' resp
  assume "event_handler r e ctx p = Some (p', resp)"
  then show "accounts_of (pn_db p') = accounts_of (pn_db p)"
    by (cases r) (auto simp: event_handler_def post_playerlist_raw_def post_chat_def post_kill_def post_revive_def
      post_wound_def post_admin_camera_def post_raw_def with_server_def Let_def updateTeamMap_def
      split: if_splits option.splits bool.splits sum.splits prod.splits dest!: raw_lines_accounts)
qed

section \<open>Routes that only read\<close>

lemma reads_moderation: "reads_only get_bans" "reads_only get_tk" "reads_only get_points" "reads_only get_leaderboard"
  "reads_only get_point_logs" "reads_only get_players" "reads_only get_slots" "reads_only get_cdk" "reads_only get_cdk_logs"
  by (auto simp: reads_only_def get_bans_def get_tk_def get_points_def get_leaderboard_def get_point_logs_def get_players_def
      get_slots_def get_cdk_def get_cdk_logs_def Let_def split: option.splits)

lemma reads_accounts: "reads_only get_me" "reads_only get_users" "reads_only get_permissions"
  by (auto simp: reads_only_def get_me_def get_users_def get_permissions_def owner_only_def Let_def split: option.splits if_splits)

lemma reads_servers: "reads_only get_servers" "reads_only get_members" "reads_only get_register_code" "reads_only get_rcon_status"
  "reads_only get_relay_version"
  by (auto simp: reads_only_def get_servers_def get_members_def get_register_code_def get_rcon_status_def get_relay_version_def
      Let_def split: if_splits)

lemma reads_pages: "reads_only get_revives" "reads_only get_player_events" "reads_only get_game_rounds" "reads_only get_squad_events"
  by (auto simp: reads_only_def get_revives_def get_player_events_def get_game_rounds_def get_squad_events_def
      paginatedQuery_def Let_def split: option.splits if_splits prod.splits sum.splits)

lemma reads_lists: "reads_only get_kills" "reads_only get_kill_stats" "reads_only get_claims" "reads_only get_locks"
  "reads_only (get_presets e)" "reads_only get_register_status" "reads_only get_plugin_checks" "reads_only (get_online_chart e)"
  by (auto simp: reads_only_def get_kills_def get_kill_stats_def get_claims_def get_locks_def get_presets_def
      get_register_status_def get_plugin_checks_def get_online_chart_def Let_def split: option.splits if_splits prod.splits sum.splits)

lemma reads_chat: "reads_only get_chat" "reads_only get_player_database"
  by (auto simp: reads_only_def get_chat_def get_player_database_def Let_def split: option.splits if_splits prod.splits sum.splits)

lemma reads_settings: "reads_only (get_config e)" "reads_only (get_tb_code e)" "reads_only (get_plugin_keys e)" "reads_only (get_logs f)"
  "reads_only get_health" "reads_only get_plugins" "reads_only (get_modules m)" "reads_only (get_broadcasts e)"
  "reads_only (get_chat_commands e)" "reads_only (get_op_list e)" "reads_only get_op_stats" "reads_only get_op_logs"
  "reads_only (get_admin_online e)" "reads_only get_events_log" "reads_only post_plugins_reload" "reads_only (post_relay_start st)"
  by (auto simp: reads_only_def get_config_def get_tb_code_def get_plugin_keys_def key_required_def get_logs_def get_health_def
      get_plugins_def get_modules_def get_broadcasts_def get_chat_commands_def get_op_list_def get_op_stats_def get_op_logs_def
      get_admin_online_def get_events_log_def post_plugins_reload_def post_relay_start_def Let_def
      split: option.splits if_splits prod.splits)

lemma reads_others: "reads_only get_plugins_js" "reads_only (get_tick_chart agg e)" "reads_only (get_relay_download f)"
  "reads_only get_build_list" "reads_only get_build_download" "reads_only (post_build_check sh e)"
  by (auto simp: reads_only_def get_plugins_js_def get_tick_chart_def get_relay_download_def get_build_list_def
      get_build_download_def post_build_check_def Let_def split: option.splits if_splits prod.splits)

lemmas readers = reads_moderation reads_accounts reads_servers reads_pages reads_lists reads_chat reads_settings reads_others

section \<open>Routes that write, but not accounts\<close>

lemma keeps_bans: "keeps_accounts (post_bans e i)" "keeps_accounts (del_ban e)"
  by (auto simp: keeps_accounts_def post_bans_def del_ban_def http_post_def Let_def split: option.splits if_splits prod.splits dest!: rcon_text_db)

lemma keeps_tk: "keeps_accounts (post_tk e i)" "keeps_accounts del_tk" "keeps_accounts post_tk_forgive" "keeps_accounts (post_tk_kick e)"
  by (auto simp: keeps_accounts_def post_tk_def del_tk_def post_tk_forgive_def post_tk_kick_def Let_def
      split: option.splits if_splits prod.splits dest!: rcon_text_db)

lemma keeps_points: "keeps_accounts (post_adjust e)"
  by (auto simp: keeps_accounts_def post_adjust_def Let_def split: option.splits if_splits)

lemma fold_rcon_db: "w_db (fold (\<lambda>x. rcon_do s (f x)) xs w) = w_db w"
  by (induction xs arbitrary: w) simp_all

lemma keeps_players: "keeps_accounts (post_kick e)" "keeps_accounts (post_switch_team e)" "keeps_accounts (post_refresh e)"
  "keeps_accounts (post_afk_kick e)"
  by (auto simp: keeps_accounts_def post_kick_def post_switch_team_def player_command_def post_refresh_def post_afk_kick_def
      rcon_error_def Let_def fold_rcon_db split: option.splits if_splits sum.splits prod.splits dest!: rcon_text_db)

lemma keeps_rcon: "keeps_accounts (post_rcon_send e)" "keeps_accounts (post_rcon_test e probe)"
  by (auto simp: keeps_accounts_def post_rcon_send_def post_rcon_test_def rcon_send_def Let_def split: option.splits if_splits prod.splits)

lemma keeps_slots: "keeps_accounts (post_slots e i)" "keeps_accounts (del_slot e)" "keeps_accounts (post_cdk_batch e dr i)" "keeps_accounts del_cdk"
  using accounts_of_cdk_batch
  by (auto simp: keeps_accounts_def post_slots_def del_slot_def post_cdk_batch_def del_cdk_def Let_def
      split: option.splits if_splits prod.splits) (metis snd_conv)

lemma keeps_servers: "keeps_accounts (put_server e)" "keeps_accounts (put_notes e)" "keeps_accounts (post_test e)"
  "keeps_accounts (post_relay_register e dr)" "keeps_accounts (post_generate_code dr)" "keeps_accounts (post_relay_auth e)"
  by (auto simp: keeps_accounts_def put_server_def put_notes_def post_test_def post_relay_register_def post_generate_code_def
      post_relay_auth_def rcon_send_def Let_def split: option.splits if_splits prod.splits)

lemma keeps_lists: "keeps_accounts (post_event_squad e)" "keeps_accounts del_squad_event" "keeps_accounts (post_claims_clear e)"
  "keeps_accounts (post_unlock e)" "keeps_accounts (post_presets e i)" "keeps_accounts (put_preset e)" "keeps_accounts del_preset"
  by (auto simp: keeps_accounts_def post_event_squad_def del_squad_event_def post_claims_clear_def post_unlock_def success_def
      post_presets_def put_preset_def del_preset_def Let_def split: option.splits if_splits)

lemma accounts_of_put_all: "accounts_of (fold (\<lambda>(k, v). setting_put k (f v)) kvs d) = accounts_of d"
  by (induction kvs arbitrary: d) auto

lemma keeps_settings: "keeps_accounts (post_config e)" "keeps_accounts (post_plugins e i)" "keeps_accounts (put_plugin e)"
  "keeps_accounts del_plugin" "keeps_accounts (post_broadcasts e)" "keeps_accounts (post_op_logs e)"
  "keeps_accounts (post_plugin_setting e)" "keeps_accounts (post_chat_commands e)"
  by (auto simp: keeps_accounts_def post_config_def accounts_of_put_all post_plugins_def put_plugin_def del_plugin_def
      post_broadcasts_def post_op_logs_def post_plugin_setting_def post_chat_commands_def Let_def
      split: option.splits if_splits json.splits)

lemma keeps_scramble: "keeps_accounts (post_scramble e fl srt)"
  by (auto simp: keeps_accounts_def post_scramble_def rcon_send_def fold_rcon_db Let_def
      split: option.splits if_splits prod.splits sum.splits)

lemmas keepers = keeps_bans keeps_tk keeps_points keeps_players keeps_rcon keeps_slots keeps_servers keeps_lists keeps_settings
  keeps_scramble

end
