(* ===== verification/RouteProps.thy ===== *)
theory RouteProps
  imports RouteFrames
begin

text \<open>
  Properties of the panel as one server: what a request can change, whichever of the routes it reaches. Accounts
  stay consistent over any sequence of requests, a request without credentials changes nothing outside the four
  routes that hand credentials out, and nobody but an owner changes an account.
\<close>

section \<open>From handlers to routes\<close>

abbreviation si_db :: "site \<Rightarrow> database" where
  "si_db s \<equiv> pn_db (si_panel s)"

definition route_keeps :: "route \<Rightarrow> bool" where
  "route_keeps rt = (\<forall>ctx s s' r. rt_handler rt ctx s = Some (s', r) \<longrightarrow> accounts_of (si_db s') = accounts_of (si_db s))"

lemma on_panel_Some: "on_panel h ctx s = Some (s', r) \<longleftrightarrow> (\<exists>p'. h ctx (si_panel s) = Some (p', r) \<and> s' = s\<lparr>si_panel := p'\<rparr>)"
  by (auto simp: on_panel_def)

lemma route_keeps_panel [simp]: "keeps_accounts h \<Longrightarrow> route_keeps (route m pat auth (on_panel h))"
  by (fastforce simp: route_keeps_def on_panel_Some keeps_accounts_def)

lemma route_keeps_reader [simp]: "reads_only h \<Longrightarrow> route_keeps (route m pat auth (on_panel h))"
  by (simp add: reads_keeps)

lemma route_keeps_event [simp]: "keeps_accounts (post_raw e)" "keeps_accounts (post_chat e)" "keeps_accounts (post_kill e)"
  "keeps_accounts (post_revive e)" "keeps_accounts (post_wound e)" "keeps_accounts (post_playerlist_raw e)" "keeps_accounts (post_admin_camera e)"
  using event_accounts [of Raw e] event_accounts [of Chat e] event_accounts [of Kill e] event_accounts [of Revive e]
    event_accounts [of Wound e] event_accounts [of Playerlist_Raw e] event_accounts [of Admin_Camera e]
  by (simp_all add: event_handler_def)

lemma route_keeps_site [simp]: "route_keeps (route m pat auth (post_upload_site w))" "route_keeps (route m pat auth (get_rcon_ext_site w))"
  by (auto simp: route_keeps_def post_upload_site_def get_rcon_ext_site_def post_upload_def Let_def split: if_splits)

text \<open>The routes of accounts and members.\<close>

definition account_patterns :: "(string \<times> string) list" where
  "account_patterns =
    [(''POST'', ''/api/auth/register''), (''POST'', ''/api/auth/login''), (''POST'', ''/api/auth/logout''),
     (''POST'', ''/api/servers''), (''DELETE'', ''/api/servers/(~d+)''), (''POST'', ''/api/servers/(~d+)/members''),
     (''PUT'', ''/api/servers/(~d+)/members/(~d+)''), (''DELETE'', ''/api/servers/(~d+)/members/(~d+)''),
     (''POST'', ''/api/admin/users/add''), (''POST'', ''/api/admin/users/(~d+)/approve''), (''POST'', ''/api/admin/users/(~d+)/reject''),
     (''DELETE'', ''/api/admin/users/(~d+)''), (''PUT'', ''/api/admin/users/(~d+)/role''),
     (''PUT'', ''/api/admin/users/(~d+)/permissions''), (''POST'', ''/api/admin/users/(~d+)/reset-password'')]"

definition account_route :: "route \<Rightarrow> bool" where
  "account_route rt = ((rt_method rt, rt_pattern rt) \<in> set account_patterns)"

lemma account_route_iff: "account_route (route m pat auth h) \<longleftrightarrow> (m, pat) \<in> set account_patterns"
  by (simp add: account_route_def)

lemmas route_lists = registerAuthRoutes_def registerServerRoutes_def registerPlayerRoutes_def registerEventRoutes_def registerPointsRoutes_def registerBanRoutes_def registerChatRoutes_def
  registerKillRoutes_def registerAdminRoutes_def registerConfigRoutes_def registerRconRoutes_def registerPluginRoutes_def registerTkForgiveRoutes_def registerQueryRoutes_def
  registerScrambleRoutes_def registerBuildRoutes_def registerMissingRoutes_def registerRelayRoutes_def registerAnalyticsRoutes_def registerExtrasRoutes_def

lemma all_routes_all: "list_all P (all_routes w) \<longleftrightarrow>
    list_all P (registerAuthRoutes w) \<and>
    list_all P (registerServerRoutes w) \<and>
    list_all P (registerPlayerRoutes w) \<and>
    list_all P (registerEventRoutes w) \<and>
    list_all P (registerPointsRoutes w) \<and>
    list_all P (registerBanRoutes w) \<and>
    list_all P (registerChatRoutes w) \<and>
    list_all P (registerKillRoutes w) \<and>
    list_all P (registerAdminRoutes w) \<and>
    list_all P (registerConfigRoutes w) \<and>
    list_all P (registerRconRoutes w) \<and>
    list_all P (registerPluginRoutes w) \<and>
    list_all P (registerTkForgiveRoutes w) \<and>
    list_all P (registerQueryRoutes w) \<and>
    list_all P (registerScrambleRoutes w) \<and>
    list_all P (registerBuildRoutes w) \<and>
    list_all P (registerMissingRoutes w) \<and>
    list_all P (registerRelayRoutes w) \<and>
    list_all P (registerAnalyticsRoutes w) \<and>
    list_all P (registerExtrasRoutes w)"
  by (simp add: all_routes_def)

lemma other_routes_keep: "list_all (\<lambda>rt. account_route rt \<or> route_keeps rt) (all_routes w)"
  unfolding all_routes_all route_lists list.pred_inject account_route_iff
  by (simp add: readers keepers account_patterns_def)

section \<open>Accounts stay consistent\<close>

lemma users_ok_accounts: "accounts_of d = accounts_of d' \<Longrightarrow> users_ok d = users_ok d'"
  by (simp add: accounts_of_def users_ok_def user_exists_def)

lemma users_ok_server_insert [simp]: "users_ok (server_insert now uid key f d) = users_ok d"
  by (rule users_ok_accounts) (simp add: server_insert_def)

lemma users_ok_member_insert: "users_ok d \<Longrightarrow> users_ok (member_insert now sid uid role d)"
  by (auto simp: member_insert_def users_ok_def user_exists_def split: option.split)

lemma users_ok_members:
  assumes "users_ok d"
  shows "users_ok (d\<lparr>db_members := t_delete P (db_members d)\<rparr>)"
    "(\<And>m. m_userId (f m) = m_userId m) \<Longrightarrow> users_ok (d\<lparr>db_members := t_update P f (db_members d)\<rparr>)"
  using assms by (auto simp: users_ok_def list_all_iff)

lemma users_ok_server_gone: "users_ok d \<Longrightarrow> users_ok (server_delete sid (server_cleared sid d))"
proof -
  assume d: "users_ok d"
  have "accounts_of (server_delete sid (server_cleared sid d)) = accounts_of (d\<lparr>db_members := t_delete (\<lambda>r. m_serverId r = sid) (db_members d)\<rparr>)"
    by (simp add: accounts_of_def server_delete_def server_cleared_def)
  from users_ok_accounts [OF this] users_ok_members(1) [OF d] show ?thesis by simp
qed

definition keeps_ok :: "handler \<Rightarrow> bool" where
  "keeps_ok h = (\<forall>ctx p p' r. h ctx p = Some (p', r) \<longrightarrow> users_ok (pn_db p) \<longrightarrow> users_ok (pn_db p'))"

lemma ok_accounts: "keeps_ok (post_register e scrypt salt rnd)" "keeps_ok post_logout" "keeps_ok (post_user_add e scrypt salt)"
  "keeps_ok post_approve" "keeps_ok (post_reject e)" "keeps_ok (del_user e)" "keeps_ok (put_role e)" "keeps_ok put_permissions"
  "keeps_ok (post_reset_password e scrypt salt)"
  using admin_route_ok [of Users_add e scrypt salt] admin_route_ok [of Approve e scrypt salt] admin_route_ok [of Reject e scrypt salt]
    admin_route_ok [of Delete_user e scrypt salt] admin_route_ok [of Set_role e scrypt salt]
    admin_route_ok [of Set_permissions e scrypt salt] admin_route_ok [of Reset_password e scrypt salt]
  by (auto simp: keeps_ok_def admin_route_handler_def post_logout_def Let_def users_ok_sessions dest: register_ok)

lemma ok_servers: "keeps_ok (post_servers e draw)" "keeps_ok del_server" "keeps_ok (post_members e)" "keeps_ok (put_member e)" "keeps_ok del_member"
  by (auto simp: keeps_ok_def post_servers_def del_server_def post_members_def put_member_def del_member_def members_delete_def Let_def
      users_ok_server_gone intro!: users_ok_member_insert users_ok_members split: option.splits if_splits)

definition route_ok :: "route \<Rightarrow> bool" where
  "route_ok rt = (\<forall>ctx s s' r. rt_handler rt ctx s = Some (s', r) \<longrightarrow> users_ok (si_db s) \<longrightarrow> users_ok (si_db s'))"

lemma route_ok_panel [simp]: "keeps_ok h \<Longrightarrow> route_ok (route m pat auth (on_panel h))"
  by (fastforce simp: route_ok_def on_panel_Some keeps_ok_def)

lemma route_ok_login [simp]: "route_ok (route m pat auth (post_login_site w))"
  by (auto simp: route_ok_def post_login_site_def dest: login_ok)

lemma keeps_route_ok: "route_keeps rt \<Longrightarrow> route_ok rt"
  unfolding route_keeps_def route_ok_def using users_ok_accounts by metis

lemma account_routes_ok: "list_all (\<lambda>rt. account_route rt \<longrightarrow> route_ok rt) (all_routes w)"
  unfolding all_routes_all route_lists list.pred_inject account_route_iff
  by (simp add: ok_accounts ok_servers account_patterns_def)

lemma all_routes_ok: "rt \<in> set (all_routes w) \<Longrightarrow> route_ok rt"
  using other_routes_keep [of w] account_routes_ok [of w] keeps_route_ok by (auto simp: list_all_iff)

text \<open>What the wrapper itself changes: the time a session was last used.\<close>

lemma getSession_touch: "\<exists>f. (\<forall>s. s_token (f s) = s_token s \<and> s_userId (f s) = s_userId s) \<and>
    snd (getSession now tok d) = d\<lparr>db_sessions := map f (db_sessions d)\<rparr>"
proof -
  have id: "\<exists>f. (\<forall>s. s_token (f s) = s_token s \<and> s_userId (f s) = s_userId s) \<and> d = d\<lparr>db_sessions := map f (db_sessions d)\<rparr>"
    by (intro exI [of _ "\<lambda>s. s"]) simp
  moreover have "\<exists>f. (\<forall>s. s_token (f s) = s_token s \<and> s_userId (f s) = s_userId s) \<and>
      d\<lparr>db_sessions := map (\<lambda>r. if s_token r = tok then r\<lparr>s_lastActivity := now\<rparr> else r) (db_sessions d)\<rparr> = d\<lparr>db_sessions := map f (db_sessions d)\<rparr>"
    by (intro exI [of _ "\<lambda>r. if s_token r = tok then r\<lparr>s_lastActivity := now\<rparr> else r"]) simp
  ultimately show ?thesis by (simp add: getSession_def Let_def split: option.split)
qed

lemma users_ok_touch:
  assumes "users_ok d" "\<And>s. s_token (f s) = s_token s \<and> s_userId (f s) = s_userId s"
  shows "users_ok (d\<lparr>db_sessions := map f (db_sessions d)\<rparr>)"
proof -
  have "s_token \<circ> f = s_token" using assms(2) by auto
  then show ?thesis using assms by (simp add: users_ok_def list_all_iff)
qed

lemma admit_db:
  assumes "admit e auth req p = (p1, x)"
  shows "\<exists>f. (\<forall>s. s_token (f s) = s_token s \<and> s_userId (f s) = s_userId s) \<and>
    p1 = pn_exec (\<lambda>d. d\<lparr>db_sessions := map f (db_sessions d)\<rparr>) p"
proof -
  have "\<exists>f. (\<forall>s. s_token (f s) = s_token s \<and> s_userId (f s) = s_userId s) \<and> p = pn_exec (\<lambda>d. d\<lparr>db_sessions := map f (db_sessions d)\<rparr>) p"
    by (intro exI [of _ "\<lambda>s. s"]) (simp add: pn_exec_def on_world_def on_db_def)
  moreover have "\<exists>f. (\<forall>s. s_token (f s) = s_token s \<and> s_userId (f s) = s_userId s) \<and>
      pn_exec (\<lambda>_. snd (getSession n tok (pn_db p))) p = pn_exec (\<lambda>d. d\<lparr>db_sessions := map f (db_sessions d)\<rparr>) p" for n tok
    using getSession_touch [of n tok "pn_db p"] by (auto simp: pn_exec_def on_world_def on_db_def)
  ultimately show ?thesis using assms by (auto simp: admit_def Let_def case_prod_beta split: if_splits)
qed

lemma run_route_ok:
  assumes "route_ok rt" "run_route w rt req s = Some (s', r)" "users_ok (si_db s)"
  shows "users_ok (si_db s')"
proof -
  obtain p1 x where a: "admit (ou_env w) (rt_auth rt) req (si_panel s) = (p1, x)" by (cases "admit (ou_env w) (rt_auth rt) req (si_panel s)")
  from admit_db [OF a] obtain f where "\<And>s. s_token (f s) = s_token s \<and> s_userId (f s) = s_userId s"
    "p1 = pn_exec (\<lambda>d. d\<lparr>db_sessions := map f (db_sessions d)\<rparr>) (si_panel s)" by blast
  with users_ok_touch [OF assms(3)] have "users_ok (pn_db p1)" by simp
  then show ?thesis using assms(1,2) by (cases x) (fastforce simp: run_route_def a route_ok_def)+
qed

lemma handle_request_cases:
  assumes "handle_request w path req s = Some (s', r)"
  obtains "s' = s" | rt ms where "rt \<in> set (all_routes w)" "path_match (rt_pattern rt) path = Some ms"
    "run_route w rt (req\<lparr>rq_matches := ms\<rparr>) s = Some (s', r)"
proof -
  let ?m = "if rq_method req = ''HEAD'' then ''GET'' else rq_method req"
  from assms have "s' = s \<or> (\<exists>rt ms. find_route (all_routes w) ?m path = Some (rt, ms) \<and> run_route w rt (req\<lparr>rq_matches := ms\<rparr>) s = Some (s', r))"
    unfolding handle_request_def Let_def by (auto split: if_splits option.splits)
  with that find_route_in show thesis by blast
qed

text \<open>A request, whatever becomes of it; one the panel does not survive leaves the database as it was.\<close>

definition site_step :: "outside \<times> string \<times> request \<Rightarrow> site \<Rightarrow> site" where
  "site_step c s = (case c of (w, path, req) \<Rightarrow> (case handle_request w path req s of None \<Rightarrow> s | Some (s', _) \<Rightarrow> s'))"

interpretation site_accounts: preserves site_step "\<lambda>s. users_ok (si_db s)"
proof
  fix s and c :: "outside \<times> string \<times> request"
  obtain w path req where c: "c = (w, path, req)" by (cases c)
  assume ok: "users_ok (si_db s)"
  show "users_ok (si_db (site_step c s))"
  proof (cases "handle_request w path req s")
    case (Some q)
    then obtain s' r where "handle_request w path req s = Some (s', r)" by (cases q) auto
    moreover from this have "users_ok (si_db s')"
      by (cases rule: handle_request_cases) (use ok in \<open>auto dest: run_route_ok [OF all_routes_ok]\<close>)
    ultimately show ?thesis by (simp add: site_step_def c)
  qed (simp add: site_step_def c ok)
qed

text \<open>C2: Over any sequence of requests to any of the panel's routes, with any credentials, bodies and answers of
  the outside world, ids, user names and session tokens stay unique, every session, permission and membership
  belongs to an account that exists, and every account has a known role and status.\<close>
theorem site_accounts_typed:
  assumes "users_ok (si_db s)"
  shows "users_ok (si_db (fold site_step calls s))"
  by (rule site_accounts.fold_inv [OF assms])

section \<open>Requests without credentials\<close>

definition open_paths :: "string list" where
  "open_paths = [''/api/auth/register'', ''/api/auth/login'', ''/api/relay/register'', ''/api/relay/auth'']"

lemma header_matches [simp]: "header (req\<lparr>rq_matches := ms\<rparr>) k = header req k"
  by (simp add: header_def)

lemma parse_matches [simp]: "parse_body e (req\<lparr>rq_matches := ms\<rparr>) = parse_body e req"
  by (simp add: parse_body_def)

lemma relay_key_matches [simp]: "relay_key (req\<lparr>rq_matches := ms\<rparr>) body = relay_key req body"
  by (simp add: relay_key_def)

text \<open>A public route that changes nothing unless it is one of the four, or the request carries a game server's key.\<close>

definition route_quiet :: "route \<Rightarrow> bool" where
  "route_quiet rt = (\<forall>ctx s s' r. rt_handler rt ctx s = Some (s', r) \<longrightarrow> relay_key (cx_req ctx) (cx_body ctx) = [] \<longrightarrow> s' = s)"

lemma site_same [simp]: "s\<lparr>si_panel := si_panel s\<rparr> = s"
  by (cases s) simp

lemma quiet_reader [simp]: "reads_only h \<Longrightarrow> route_quiet (route m pat auth (on_panel h))"
  by (fastforce simp: route_quiet_def on_panel_Some reads_only_def)

lemma quiet_event: "event_handler r e ctx p = Some (p', resp) \<Longrightarrow> relay_key (cx_req ctx) (cx_body ctx) = [] \<Longrightarrow> p' = p"
  using event_handler_key access_row by blast

lemma quiet_events [simp]: "route_quiet (route m pat auth (on_panel (post_raw e)))" "route_quiet (route m pat auth (on_panel (post_chat e)))"
  "route_quiet (route m pat auth (on_panel (post_kill e)))" "route_quiet (route m pat auth (on_panel (post_revive e)))"
  "route_quiet (route m pat auth (on_panel (post_wound e)))" "route_quiet (route m pat auth (on_panel (post_playerlist_raw e)))"
  "route_quiet (route m pat auth (on_panel (post_admin_camera e)))"
  using quiet_event [of Raw e] quiet_event [of Chat e] quiet_event [of Kill e] quiet_event [of Revive e] quiet_event [of Wound e]
    quiet_event [of Playerlist_Raw e] quiet_event [of Admin_Camera e]
  by (fastforce simp: route_quiet_def on_panel_Some event_handler_def)+

lemma public_routes_quiet: "list_all (\<lambda>rt. rt_auth rt \<or> rt_pattern rt \<in> set open_paths \<or> route_quiet rt) (all_routes w)"
  unfolding all_routes_all route_lists list.pred_inject
  by (simp add: readers open_paths_def)

text \<open>A pattern without operators matches itself only.\<close>

lemma open_path_match:
  assumes "pat \<in> set open_paths" "path_match pat path = Some ms"
  shows "path = pat"
proof -
  have c: "list_all (\<lambda>p. rx_compile p = Some (lits p Eps)) open_paths" by code_simp
  with assms(1) have "rx_compile pat = Some (lits pat Eps)" by (simp add: list_all_iff)
  with assms(2) have "starts_with pat path \<and> drop (length pat) path = []"
    by (auto simp: path_match_def run_lits split: if_splits)
  then show ?thesis by (auto simp: starts_with_def)
qed

text \<open>C3: A request without a session token and without a game server's key changes nothing in the panel, whichever
  method, path and body it has, except on the four routes that hand out credentials: registration and login of users,
  registration and authentication of relays.\<close>
theorem anonymous_powerless:
  assumes "handle_request w path req s = Some (s', r)" "path \<notin> set open_paths"
    and "header req ''Authorization'' = []" "relay_key req (parse_body (ou_env w) req) = []"
  shows "s' = s"
  using assms(1)
proof (cases rule: handle_request_cases)
  case (2 rt ms)
  from open_path_match 2(2) assms(2) have n: "rt_pattern rt \<notin> set open_paths" by metis
  show ?thesis
  proof (cases "rt_auth rt")
    case True
    then show ?thesis using 2(3) assms(3) by (simp add: run_route_def admit_def)
  next
    case False
    with n public_routes_quiet [of w] 2(1) have q: "route_quiet rt" by (auto simp: list_all_iff)
    show ?thesis using 2(3) False q assms(4)
      by (fastforce simp: run_route_def admit_def route_quiet_def)
  qed
qed simp

section \<open>Who changes accounts\<close>

text \<open>An account without the time of its last login.\<close>

definition account :: "user_row \<Rightarrow> user_row" where
  "account u = u\<lparr>u_lastLogin := None\<rparr>"

text \<open>The accounts after a request are those before it, and at most a new one that waits for approval.\<close>

definition adds_pending :: "database \<Rightarrow> database \<Rightarrow> bool" where
  "adds_pending d d' = (\<exists>new. map account (t_rows (db_users d')) = map account (t_rows (db_users d)) @ new \<and> length new \<le> 1 \<and>
     list_all (\<lambda>u. u_status u = ''pending'') new)"

lemma adds_none: "t_rows (db_users d') = t_rows (db_users d) \<Longrightarrow> adds_pending d d'"
  by (simp add: adds_pending_def)

definition modest :: "handler \<Rightarrow> bool" where
  "modest h = (\<forall>ctx p p' r. h ctx p = Some (p', r) \<longrightarrow> cx_role ctx \<noteq> ''server_owner'' \<longrightarrow> t_rows (db_users (pn_db p)) \<noteq> [] \<longrightarrow>
     length (t_rows (db_users (pn_db p))) < 2147483648 \<longrightarrow> adds_pending (pn_db p) (pn_db p'))"

lemma modest_same:
  "(\<And>ctx p p' r. h ctx p = Some (p', r) \<Longrightarrow> cx_role ctx \<noteq> ''server_owner'' \<Longrightarrow> db_users (pn_db p') = db_users (pn_db p)) \<Longrightarrow> modest h"
  unfolding modest_def by (auto intro!: adds_none)

lemma account_new: "u_status (account u) = u_status u" "account (account u) = account u"
  by (simp_all add: account_def)

lemma modest_register: "modest (post_register e scrypt salt rnd)"
proof -
  have c: "safeStoi (to_string (int n)) 0 = int n" if "n < 2147483648" for n
    using that by (simp add: safeStoi_def in_int_def)
  show ?thesis
    unfolding modest_def post_register_def Let_def
    by (auto simp: c user_insert_def session_insert_def adds_pending_def account_new split: if_splits)
qed

lemma modest_admin: "modest (post_user_add e scrypt salt)" "modest post_approve" "modest (post_reject e)" "modest (del_user e)"
  "modest (put_role e)" "modest put_permissions" "modest (post_reset_password e scrypt salt)"
  by (auto simp: isOwner_def owner_only_def post_user_add_def post_approve_def post_reject_def del_user_def put_role_def
      put_permissions_def post_reset_password_def intro!: modest_same)

lemma member_users [simp]: "db_users (member_insert now sid uid role d) = db_users d" "db_users (server_insert now k key f d) = db_users d"
  "db_users (server_delete i d) = db_users d" "db_users (server_cleared i d) = db_users d"
  "db_users (members_delete a b d) = db_users d"
  by (simp_all add: member_insert_def server_insert_def server_delete_def server_cleared_def members_delete_def split: option.split)

lemma modest_servers: "modest (post_servers e draw)" "modest del_server" "modest (post_members e)" "modest (put_member e)"
  "modest del_member" "modest post_logout"
  by (auto simp: post_servers_def del_server_def post_members_def put_member_def del_member_def post_logout_def Let_def
      intro!: modest_same split: option.splits if_splits)

definition route_modest :: "route \<Rightarrow> bool" where
  "route_modest rt = (\<forall>ctx s s' r. rt_handler rt ctx s = Some (s', r) \<longrightarrow> cx_role ctx \<noteq> ''server_owner'' \<longrightarrow>
     t_rows (db_users (si_db s)) \<noteq> [] \<longrightarrow> length (t_rows (db_users (si_db s))) < 2147483648 \<longrightarrow> adds_pending (si_db s) (si_db s'))"

lemma route_modest_panel [simp]: "modest h \<Longrightarrow> route_modest (route m pat auth (on_panel h))"
  by (fastforce simp: route_modest_def on_panel_Some modest_def)

lemma last_login: "map account (t_rows (db_users (users_update P (\<lambda>r. r\<lparr>u_lastLogin := x\<rparr>) d))) = map account (t_rows (db_users d))"
  by (simp add: users_update_def account_def)

lemma session_users: "db_users (session_insert now tok uid d) = db_users d"
  by (simp add: session_insert_def)

lemma adds_same: "map account (t_rows (db_users d')) = map account (t_rows (db_users d)) \<Longrightarrow> adds_pending d d'"
  by (simp add: adds_pending_def)

lemma login_adds_none:
  assumes "post_login e scrypt rnd ip ctx (m, p) = Some ((m', p'), r)"
  shows "adds_pending (pn_db p) (pn_db p')"
  using assms
  by (auto simp: post_login_def Let_def split_beta last_login session_users intro!: adds_same split: if_splits option.splits)

lemma route_modest_login [simp]: "route_modest (route m pat auth (post_login_site w))"
  by (auto simp: route_modest_def post_login_site_def dest: login_adds_none)

lemma keeps_route_modest: "route_keeps rt \<Longrightarrow> route_modest rt"
  unfolding route_keeps_def route_modest_def accounts_of_def by (intro allI impI adds_none) (metis prod.inject)

lemma account_routes_modest: "list_all (\<lambda>rt. account_route rt \<longrightarrow> route_modest rt) (all_routes w)"
  unfolding all_routes_all route_lists list.pred_inject account_route_iff
  by (simp add: modest_register modest_admin modest_servers account_patterns_def)

lemma all_routes_modest: "rt \<in> set (all_routes w) \<Longrightarrow> route_modest rt"
  using other_routes_keep [of w] account_routes_modest [of w] keeps_route_modest by (auto simp: list_all_iff)

lemma admit_role:
  assumes "admit e auth req p = (p1, Inr ctx)" "cx_role ctx \<noteq> []"
  shows "\<exists>s u. session_join (pn_db p) (bearer (header req ''Authorization'')) = Some (s, u) \<and> cx_role ctx = u_role u"
proof -
  let ?g = "getSession (e_now e) (bearer (header req ''Authorization'')) (pn_db p)"
  have v: "ses_valid (fst ?g)" and r: "cx_role ctx = ses_role (fst ?g)"
    using assms by (auto simp: admit_def Let_def case_prod_beta split: if_splits)
  from v obtain s u where j: "session_join (pn_db p) (bearer (header req ''Authorization'')) = Some (s, u)"
    by (auto simp: getSession_valid_iff)
  from getSession_role [OF j v] r j show ?thesis by auto
qed

lemma run_route_modest:
  assumes "route_modest rt" "run_route w rt req s = Some (s', r)"
    and "case session_join (si_db s) (bearer (header req ''Authorization'')) of None \<Rightarrow> True | Some (x, u) \<Rightarrow> u_role u \<noteq> ''server_owner''"
    and "t_rows (db_users (si_db s)) \<noteq> []" "length (t_rows (db_users (si_db s))) < 2147483648"
  shows "adds_pending (si_db s) (si_db s')"
proof -
  obtain p1 x where a: "admit (ou_env w) (rt_auth rt) req (si_panel s) = (p1, x)" by (cases "admit (ou_env w) (rt_auth rt) req (si_panel s)")
  from admit_db [OF a] have u: "db_users (pn_db p1) = db_users (si_db s)" by auto
  show ?thesis
  proof (cases x)
    case (Inl resp)
    then show ?thesis using assms(2) u by (auto simp: run_route_def a intro: adds_none)
  next
    case (Inr ctx)
    have "cx_role ctx \<noteq> ''server_owner''" using admit_role [of "ou_env w" "rt_auth rt" req "si_panel s" p1 ctx] a Inr assms(3) by auto
    then have "adds_pending (pn_db p1) (si_db s')"
      using assms(1,2,4,5) u Inr unfolding run_route_def a route_modest_def by fastforce
    then show ?thesis by (simp add: adds_pending_def u)
  qed
qed

text \<open>C4: Nobody but an owner changes an account, by whatever route: after a request whose session does not belong to an
  owner, the accounts are those before it with their names, passwords, roles and states, and at most a new one that
  waits for approval. (The very first account, and the one that finds the count of accounts beyond 32 bits, is made an
  owner.)\<close>
theorem only_owners_change_accounts:
  assumes "handle_request w path req s = Some (s', r)"
    and "case session_join (si_db s) (bearer (header req ''Authorization'')) of None \<Rightarrow> True | Some (x, u) \<Rightarrow> u_role u \<noteq> ''server_owner''"
    and "t_rows (db_users (si_db s)) \<noteq> []" "length (t_rows (db_users (si_db s))) < 2147483648"
  shows "\<exists>new. map account (t_rows (db_users (si_db s'))) = map account (t_rows (db_users (si_db s))) @ new \<and> length new \<le> 1 \<and>
    list_all (\<lambda>u. u_status u = ''pending'') new"
proof -
  have "adds_pending (si_db s) (si_db s')"
    using assms(1)
  proof (cases rule: handle_request_cases)
    case (2 rt ms)
    from run_route_modest [OF all_routes_modest [OF 2(1)] 2(3)] assms(2-4) show ?thesis by simp
  qed (simp add: adds_none)
  then show ?thesis by (simp add: adds_pending_def)
qed

section \<open>A sample request\<close>

definition demo_outside :: outside where
  "demo_outside = \<lparr>ou_env = demo_env 0, ou_scrypt = (\<lambda>_ _. None), ou_salt = (\<lambda>_. []), ou_rnd = (\<lambda>_. []), ou_ip = [],
     ou_draw = (\<lambda>_. 0), ou_lastId = 0, ou_log = None, ou_modules = None, ou_shell = (\<lambda>_. 1), ou_round = (\<lambda>x. x), ou_sort = (\<lambda>xs. xs),
     ou_test = (\<lambda>_ _ _. None), ou_relay = (\<lambda>_ _. None), ou_aggregate = (\<lambda>_ _. JNull), ou_exe = None, ou_opens = (\<lambda>_. False),
     ou_build = (\<lambda>_ _. 1), ou_encode = (\<lambda>s. s), ou_fetch = (\<lambda>_ _. None), ou_static = (\<lambda>_. None)\<rparr>"

definition demo_site :: site where
  "demo_site = \<lparr>si_panel = route_panel (owner_db ''h''), si_limits = Map.empty, si_written = []\<rparr>"

definition bare_request :: "string \<Rightarrow> request" where
  "bare_request m = \<lparr>rq_method = m, rq_headers = [], rq_params = [], rq_matches = [], rq_body = []\<rparr>"

lemma bare_header [simp]: "header (bare_request m) k = []" "rq_method (bare_request m) = m" "parse_body e (bare_request m) = JNull"
  by (simp_all add: header_def bare_request_def parse_body_def)

lemma me_found: "\<exists>rt ms. find_route (all_routes w) ''GET'' ''/api/auth/me'' = Some (rt, ms) \<and> rt_auth rt"
proof -
  have m: "path_match ''/api/auth/me'' ''/api/auth/me'' = Some [''/api/auth/me'']" by code_simp
  show ?thesis by (simp add: all_routes_def registerAuthRoutes_def m)
qed

lemma me_refused: "\<exists>s' r. handle_request demo_outside ''/api/auth/me'' (bare_request ''GET'') demo_site = Some (s', r)"
proof -
  from me_found [of demo_outside] obtain rt ms where
    f: "find_route (all_routes demo_outside) ''GET'' ''/api/auth/me'' = Some (rt, ms)" "rt_auth rt" by (elim exE conjE)
  have s: "ou_static demo_outside ''/api/auth/me'' = None" by (simp add: demo_outside_def)
  show ?thesis unfolding handle_request_def bare_header Let_def using f
    by (simp add: s run_route_def admit_def)
qed

theorem anonymous_powerless_witness:
  "\<exists>r. handle_request demo_outside ''/api/auth/me'' (bare_request ''GET'') demo_site = Some (demo_site, r)"
proof -
  from me_refused obtain s' r where h: "handle_request demo_outside ''/api/auth/me'' (bare_request ''GET'') demo_site = Some (s', r)"
    by (elim exE)
  have "relay_key (bare_request ''GET'') (parse_body (ou_env demo_outside) (bare_request ''GET'')) = []"
    unfolding relay_key_def bare_header by simp
  from anonymous_powerless [OF h _ _ this] h show ?thesis by (simp add: open_paths_def)
qed

theorem only_owners_change_accounts_witness:
  "\<exists>s' r new. handle_request demo_outside ''/api/auth/me'' (bare_request ''GET'') demo_site = Some (s', r) \<and>
     map account (t_rows (db_users (si_db s'))) = map account (t_rows (db_users (si_db demo_site))) @ new"
proof -
  from me_refused obtain s' r where h: "handle_request demo_outside ''/api/auth/me'' (bare_request ''GET'') demo_site = Some (s', r)"
    by (elim exE)
  have "session_join (si_db demo_site) [] = None" by (simp add: demo_site_def session_join_def)
  then have "case session_join (si_db demo_site) (bearer (header (bare_request ''GET'') ''Authorization'')) of None \<Rightarrow> True
      | Some (x, u) \<Rightarrow> u_role u \<noteq> ''server_owner''" unfolding bare_header by (simp add: bearer_def)
  moreover have "t_rows (db_users (si_db demo_site)) \<noteq> []" "length (t_rows (db_users (si_db demo_site))) < 2147483648"
    by (simp_all add: demo_site_def)
  ultimately show ?thesis using only_owners_change_accounts [OF h] h by blast
qed

theorem site_accounts_typed_witness:
  "users_ok (si_db (fold site_step [(demo_outside, ''/api/admin/users/2'', route_request ''tok''),
     (demo_outside, ''/api/auth/register'', bare_request ''POST'')] demo_site))"
  by (rule site_accounts_typed) (simp add: demo_site_def owner_db_ok)

end
