(* ===== verification/Permissions.thy ===== *)
theory Permissions
  imports RouteProps
begin

text \<open>
  Permissions are stored, listed and shown, but no route asks for them: the routes a permission is named after do
  the same whatever the table of permissions holds.
\<close>

section \<open>Another table of permissions\<close>

definition with_perms :: "perm_row tbl \<Rightarrow> panel \<Rightarrow> panel" where
  "with_perms x p = p\<lparr>pn_world := (pn_world p)\<lparr>w_db := (pn_db p)\<lparr>db_perms := x\<rparr>\<rparr>\<rparr>"

definition unguarded :: "handler \<Rightarrow> bool" where
  "unguarded h = (\<forall>x ctx p. h ctx (with_perms x p) = map_option (\<lambda>(p', r). (with_perms x p', r)) (h ctx p))"

lemma with_perms_simps [simp]:
  "pn_db (with_perms x p) = (pn_db p)\<lparr>db_perms := x\<rparr>" "w_sent (pn_world (with_perms x p)) = w_sent (pn_world p)"
  "w_http (pn_world (with_perms x p)) = w_http (pn_world p)"
  by (simp_all add: with_perms_def)

lemma exec_perms:
  "(\<And>d. f (d\<lparr>db_perms := x\<rparr>) = (f d)\<lparr>db_perms := x\<rparr>) \<Longrightarrow> pn_exec f (with_perms x p) = with_perms x (pn_exec f p)"
  by (simp add: pn_exec_def on_world_def on_db_def with_perms_def)

lemma world_perms:
  "(\<And>w. f (w\<lparr>w_db := (w_db w)\<lparr>db_perms := x\<rparr>\<rparr>) = (f w)\<lparr>w_db := (w_db (f w))\<lparr>db_perms := x\<rparr>\<rparr>) \<Longrightarrow>
     on_world f (with_perms x p) = with_perms x (on_world f p)"
  by (simp add: on_world_def with_perms_def)

lemma rcon_perms [simp]: "rcon_do sid cmd (w\<lparr>w_db := d\<rparr>) = (rcon_do sid cmd w)\<lparr>w_db := d\<rparr>"
  by (simp add: rcon_do_def)

lemma rcon_text_perms [simp]:
  "rcon_text e sid cmd (with_perms x p) = map_option (\<lambda>(reply, q). (reply, with_perms x q)) (rcon_text e sid cmd p)"
  by (simp add: rcon_text_def rcon_send_def with_perms_def Let_def split: sum.split)

lemma exists_perms [simp]: "server_exists (d\<lparr>db_perms := x\<rparr>) = server_exists d" "user_exists (d\<lparr>db_perms := x\<rparr>) = user_exists d"
  by (simp_all add: server_exists_def user_exists_def fun_eq_iff)

lemma insert_perms [simp]:
  "ban_insert a b c n r wh du (d\<lparr>db_perms := x\<rparr>) = (ban_insert a b c n r wh du d)\<lparr>db_perms := x\<rparr>"
  "op_log_insert a s1 s2 s3 s4 s5 (d\<lparr>db_perms := x\<rparr>) = (op_log_insert a s1 s2 s3 s4 s5 d)\<lparr>db_perms := x\<rparr>"
  "tk_change k f (d\<lparr>db_perms := x\<rparr>) = (tk_change k f d)\<lparr>db_perms := x\<rparr>"
  "reserved_insert a i s4 s5 s6 u (d\<lparr>db_perms := x\<rparr>) = (reserved_insert a i s4 s5 s6 u d)\<lparr>db_perms := x\<rparr>"
  "setting_put k1 v1 (d\<lparr>db_perms := x\<rparr>) = (setting_put k1 v1 d)\<lparr>db_perms := x\<rparr>"
  "log_points i s1 s2 j s3 s4 a (d\<lparr>db_perms := x\<rparr>) = (log_points i s1 s2 j s3 s4 a d)\<lparr>db_perms := x\<rparr>"
  "points_insert i s1 s2 j k2 a (d\<lparr>db_perms := x\<rparr>) = (points_insert i s1 s2 j k2 a d)\<lparr>db_perms := x\<rparr>"
  "points_update i g (d\<lparr>db_perms := x\<rparr>) = (points_update i g d)\<lparr>db_perms := x\<rparr>"
  "plugin_insert a u u' s1 s2 s3 (d\<lparr>db_perms := x\<rparr>) = (plugin_insert a u u' s1 s2 s3 d)\<lparr>db_perms := x\<rparr>"
  "plugins_update P h (d\<lparr>db_perms := x\<rparr>) = (plugins_update P h d)\<lparr>db_perms := x\<rparr>"
  by (simp_all add: ban_insert_def op_log_insert_def tk_change_def reserved_insert_def setting_put_def log_points_def
      points_insert_def points_update_def plugin_insert_def plugins_update_def has_slot_def split: option.split)

lemma put_all_perms: "fold (\<lambda>(k, v). setting_put k (f v)) kvs (d\<lparr>db_perms := x\<rparr>) = (fold (\<lambda>(k, v). setting_put k (f v)) kvs d)\<lparr>db_perms := x\<rparr>"
  by (induction kvs arbitrary: d) auto

lemma fold_rcon_perms [simp]: "fold (\<lambda>s. rcon_do i (f s)) ss (w\<lparr>w_db := d\<rparr>) = (fold (\<lambda>s. rcon_do i (f s)) ss w)\<lparr>w_db := d\<rparr>"
  by (induction ss arbitrary: w) simp_all

text \<open>A world whose requests went out, under another table.\<close>

lemma posted_perms:
  "p\<lparr>pn_world := (pn_world p)\<lparr>w_http := hs\<rparr>\<rparr> = on_world (w_http_update (\<lambda>_. hs)) p"
  by (simp add: on_world_def)

lemma posted_world [simp]: "on_world (w_http_update h) (with_perms x p) = with_perms x (on_world (w_http_update h) p)"
  by (simp add: on_world_def with_perms_def)

lemma with_perms_posted:
  "(with_perms x p)\<lparr>pn_world := (pn_world (with_perms x p))\<lparr>w_http := hs\<rparr>\<rparr> = with_perms x (on_world (w_http_update (\<lambda>_. hs)) p)"
  by (simp add: on_world_def with_perms_def)

lemma rcon_world_perms [simp]:
  "on_world (rcon_do s c) (with_perms x p) = with_perms x (on_world (rcon_do s c) p)"
  "on_world (fold (\<lambda>st. rcon_do s (f st)) ss) (with_perms x p) = with_perms x (on_world (fold (\<lambda>st. rcon_do s (f st)) ss) p)"
  by (simp_all add: on_world_def with_perms_def fold_rcon_db)

lemma sync_perms [simp]:
  "on_world (syncReservedSlot e s st a n) (with_perms x p) = with_perms x (on_world (syncReservedSlot e s st a n) p)"
  by (rule world_perms) (simp add: syncReservedSlot_def http_post_def Let_def split: option.split)

lemmas perms_frame = unguarded_def exec_perms inserted_id_def Let_def

lemma unguarded_post_bans: "unguarded (post_bans e i)"
  by (auto simp: perms_frame post_bans_def split: option.split prod.split)

lemma unguarded_del_ban: "unguarded (del_ban e)"
  by (auto simp: perms_frame del_ban_def http_post_def with_perms_posted posted_perms split: option.split)

lemma unguarded_tk: "unguarded (post_tk e i)" "unguarded del_tk" "unguarded post_tk_forgive" "unguarded (post_tk_kick e)"
  by (auto simp: perms_frame post_tk_def del_tk_def post_tk_forgive_def post_tk_kick_def tk_with_def
      split: option.split prod.split sum.split)

lemma unguarded_player_command: "player_command e ctx cmd t (with_perms x p) =
    map_option (\<lambda>(q, r). (with_perms x q, r)) (player_command e ctx cmd t p)"
  by (auto simp: perms_frame player_command_def split: option.split prod.split)

lemma unguarded_players:
  "unguarded (post_kick e)" "unguarded (post_switch_team e)" "unguarded (post_refresh e)" "unguarded (post_afk_kick e)"
  by (auto simp: unguarded_def Let_def post_kick_def post_switch_team_def unguarded_player_command post_refresh_def rcon_error_def
      post_afk_kick_def afk_players_def split: option.split prod.split sum.split)

lemma unguarded_points: "unguarded (post_adjust e)"
  by (auto simp: perms_frame post_adjust_def adjust_row_def split: option.split)

lemma unguarded_slots: "unguarded (post_slots e i)" "unguarded (del_slot e)"
  by (auto simp: perms_frame post_slots_def del_slot_def has_slot_def split: option.split)

lemma unguarded_rcon: "unguarded (post_rcon_send e)"
  by (auto simp: unguarded_def post_rcon_send_def Let_def with_perms_def rcon_send_def split: prod.split)

lemma unguarded_settings:
  "unguarded (post_config e)" "unguarded (post_plugin_setting e)" "unguarded (post_chat_commands e)" "unguarded (post_broadcasts e)"
  by (auto simp: perms_frame put_all_perms post_config_def post_plugin_setting_def post_chat_commands_def post_broadcasts_def
      split: option.split)

lemma unguarded_plugins: "unguarded (post_plugins e i)" "unguarded (put_plugin e)" "unguarded del_plugin"
  by (auto simp: perms_frame post_plugins_def put_plugin_def del_plugin_def split: option.split json.split)

lemma key_required_perms:
  "key_required ctx (with_perms x p) (map_option (\<lambda>(q, r). (with_perms x q, r)) k) =
     map_option (\<lambda>(q, r). (with_perms x q, r)) (key_required ctx p k)"
  by (simp add: key_required_def)

lemma unguarded_readers:
  "unguarded get_players" "unguarded get_points" "unguarded get_leaderboard" "unguarded get_point_logs" "unguarded get_bans"
  "unguarded get_tk" "unguarded (get_config e)" "unguarded get_plugins" "unguarded get_health" "unguarded (get_logs f)"
  "unguarded (get_modules ms)" "unguarded (get_tb_code e)" "unguarded (get_plugin_keys e)"
  by (auto simp: unguarded_def Let_def get_players_def get_points_def get_leaderboard_def get_point_logs_def get_bans_def get_tk_def
      get_config_def settings_list_def get_plugins_def get_health_def get_logs_def get_modules_def get_tb_code_def get_plugin_keys_def
      key_required_def setting_text_def split: option.split)

lemma unguarded_probe: "unguarded (post_rcon_test e probe)"
  by (auto simp: unguarded_def post_rcon_test_def Let_def with_perms_def rcon_send_def split: prod.split option.split)

lemma unguarded_get_slots: "unguarded get_slots"
  by (simp add: unguarded_def get_slots_def Let_def)

section \<open>The routes\<close>

text \<open>Players, points, bans, reserved slots, team kills, commands, plugins and settings.\<close>

definition guarded_routes :: "outside \<Rightarrow> route list" where
  "guarded_routes w = concat [registerPlayerRoutes w, registerPointsRoutes w, registerBanRoutes w, registerConfigRoutes w,
     registerRconRoutes w, registerPluginRoutes w, registerTkForgiveRoutes w] @
     filter (\<lambda>r. starts_with ''/api/reserved-slots'' (rt_pattern r)) (registerMissingRoutes w)"

definition site_perms :: "perm_row tbl \<Rightarrow> site \<Rightarrow> site" where
  "site_perms x s = s\<lparr>si_panel := with_perms x (si_panel s)\<rparr>"

definition same_route :: "site_handler \<Rightarrow> bool" where
  "same_route h = (\<forall>x ctx s. h ctx (site_perms x s) = map_option (\<lambda>(s', r). (site_perms x s', r)) (h ctx s))"

lemma same_route_panel: "unguarded h \<Longrightarrow> same_route (on_panel h)"
  by (simp add: unguarded_def same_route_def on_panel_def site_perms_def option.map_comp comp_def split_beta)

lemma admit_perms:
  "admit e auth req (with_perms x p) = (case admit e auth req p of (q, r) \<Rightarrow> (with_perms x q, r))"
proof -
  have g: "getSession (e_now e) tok (pn_db (with_perms x p)) =
      (case getSession (e_now e) tok (pn_db p) of (s, d) \<Rightarrow> (s, d\<lparr>db_perms := x\<rparr>))" for tok
    by (auto simp: getSession_def session_join_def Let_def split: option.split)
  have c: "pn_exec (\<lambda>_. d\<lparr>db_perms := x\<rparr>) (with_perms x p) = with_perms x (pn_exec (\<lambda>_. d) p)" for d
    by (simp add: pn_exec_def on_world_def on_db_def with_perms_def)
  show ?thesis unfolding admit_def Let_def g by (simp add: c split: prod.split)
qed

lemma run_route_perms:
  assumes "same_route (rt_handler rt)"
  shows "run_route w rt req (site_perms x s) = map_option (\<lambda>(s', r). (site_perms x s', r)) (run_route w rt req s)"
proof -
  have h: "rt_handler rt ctx (s\<lparr>si_panel := with_perms x q\<rparr>) =
      map_option (\<lambda>(s', r). (site_perms x s', r)) (rt_handler rt ctx (s\<lparr>si_panel := q\<rparr>))" for ctx q
  proof -
    have "s\<lparr>si_panel := with_perms x q\<rparr> = site_perms x (s\<lparr>si_panel := q\<rparr>)" by (simp add: site_perms_def)
    then show ?thesis using assms by (simp add: same_route_def)
  qed
  show ?thesis unfolding run_route_def
    by (simp add: site_perms_def admit_perms h split: prod.split sum.split)
qed

lemma same_routes: "list_all (\<lambda>r. same_route (rt_handler r)) (guarded_routes w)"
proof -
  have m: "filter (\<lambda>r. starts_with ''/api/reserved-slots'' (rt_pattern r)) (registerMissingRoutes w) =
      [route ''GET'' ''/api/reserved-slots'' True (on_panel get_slots),
       route ''POST'' ''/api/reserved-slots'' True (on_panel (post_slots (ou_env w) (ou_lastId w))),
       route ''DELETE'' ''/api/reserved-slots/(~d+)'' True (on_panel (del_slot (ou_env w)))]"
    by (simp add: registerMissingRoutes_def starts_with_def)
  show ?thesis unfolding guarded_routes_def m
    by (simp add: registerPlayerRoutes_def registerPointsRoutes_def registerBanRoutes_def registerConfigRoutes_def
        registerRconRoutes_def registerPluginRoutes_def registerTkForgiveRoutes_def same_route_panel unguarded_post_bans
        unguarded_del_ban unguarded_tk unguarded_players unguarded_points unguarded_slots unguarded_rcon unguarded_settings
        unguarded_plugins unguarded_readers unguarded_probe unguarded_get_slots)
qed



end
