(* ===== verification/Statements.thy ===== *)
theory Statements
  imports Database "HOL-Library.AList"
begin

text \<open>
  The statement wrappers of core/database.cpp over SQLite, which is the record \<open>sqlite\<close>: connections of any type
  \<open>'c\<close> and prepared statements of any type \<open>'s\<close>. The wrappers report no error: a statement that does not compile
  or fails leaves an empty result. The other theories write the statements as functions on tables; here is what the
  code between them and SQLite does.
\<close>

section \<open>SQLite\<close>

datatype stepped = Row "(string \<times> string option) list" | Done | Failed

record ('c, 's) sqlite =
  sl_open :: "string \<Rightarrow> 'c option"
  sl_exec :: "string \<Rightarrow> 'c \<Rightarrow> 'c"
  sl_prepare :: "'c \<Rightarrow> string \<Rightarrow> 's option"
  sl_bind :: "nat \<Rightarrow> string \<Rightarrow> 's \<Rightarrow> 's"
  sl_step :: "'c \<Rightarrow> 's \<Rightarrow> stepped \<times> 'c \<times> 's"
  sl_rowid :: "'c \<Rightarrow> int"

record 'c db_handle =
  dh_conn :: "'c option"
  dh_path :: string

section \<open>Opening and closing\<close>

definition db_open :: "('c, 's) sqlite \<Rightarrow> int \<Rightarrow> string \<Rightarrow> 'c db_handle \<Rightarrow> 'c db_handle" where
  "db_open q busy path h =
     (case sl_open q path of
        None \<Rightarrow> h\<lparr>dh_conn := None\<rparr>
      | Some c \<Rightarrow> h\<lparr>dh_conn := Some (sl_exec q ''PRAGMA foreign_keys=ON''
            (sl_exec q (''PRAGMA busy_timeout='' @ to_string busy) (sl_exec q ''PRAGMA journal_mode=WAL'' c))), dh_path := path\<rparr>)"

definition db_close :: "'c db_handle \<Rightarrow> 'c db_handle" where
  "db_close h = h\<lparr>dh_conn := None\<rparr>"

section \<open>Statements\<close>

text \<open>Parameters are counted from one; a value is read as a C string, so it ends at the first zero byte, and \<open>NULL\<close>
  is the empty text. Of two columns with the same name the later one counts.\<close>

definition bindParams :: "('c, 's) sqlite \<Rightarrow> string list \<Rightarrow> 's \<Rightarrow> 's" where
  "bindParams q ps st = fold (\<lambda>(i, v). sl_bind q (i + 1) v) (enumerate 0 ps) st"

definition c_text :: "string option \<Rightarrow> string" where
  "c_text v = (case v of None \<Rightarrow> [] | Some s \<Rightarrow> takeWhile (\<lambda>c. c \<noteq> CHR 0x00) s)"

type_synonym row = "(string \<times> string) list"

definition rowToMap :: "(string \<times> string option) list \<Rightarrow> row" where
  "rowToMap cols = fold (\<lambda>(n, v). AList.update n (c_text v)) cols []"

text \<open>\<open>row["c"]\<close>: the empty text for a column that is not there.\<close>

definition col :: "row \<Rightarrow> string \<Rightarrow> string" where
  "col r c = (case map_of r c of None \<Rightarrow> [] | Some v \<Rightarrow> v)"

definition db_exec :: "('c, 's) sqlite \<Rightarrow> string \<Rightarrow> 'c db_handle \<Rightarrow> 'c db_handle" where
  "db_exec q sql h = h\<lparr>dh_conn := map_option (sl_exec q sql) (dh_conn h)\<rparr>"

definition db_exec_params :: "('c, 's) sqlite \<Rightarrow> string \<Rightarrow> string list \<Rightarrow> 'c db_handle \<Rightarrow> 'c db_handle" where
  "db_exec_params q sql ps h =
     (case dh_conn h of
        None \<Rightarrow> h
      | Some c \<Rightarrow> (case sl_prepare q c sql of
          None \<Rightarrow> h
        | Some st \<Rightarrow> (case sl_step q c (bindParams q ps st) of (r, c', st') \<Rightarrow> h\<lparr>dh_conn := Some c'\<rparr>)))"

definition db_queryOne :: "('c, 's) sqlite \<Rightarrow> string \<Rightarrow> string list \<Rightarrow> 'c db_handle \<Rightarrow> row \<times> 'c db_handle" where
  "db_queryOne q sql ps h =
     (case dh_conn h of
        None \<Rightarrow> ([], h)
      | Some c \<Rightarrow> (case sl_prepare q c sql of
          None \<Rightarrow> ([], h)
        | Some st \<Rightarrow> (case sl_step q c (bindParams q ps st) of
            (Row cols, c', st') \<Rightarrow> (rowToMap cols, h\<lparr>dh_conn := Some c'\<rparr>)
          | (_, c', st') \<Rightarrow> ([], h\<lparr>dh_conn := Some c'\<rparr>))))"

text \<open>The rows up to the first step that gives none; \<open>None\<close> is a statement that never stops giving rows.\<close>

partial_function (option) query_loop ::
    "('c, 's) sqlite \<Rightarrow> 'c \<Rightarrow> 's \<Rightarrow> row list \<Rightarrow> (row list \<times> 'c) option" where
  "query_loop q c st acc =
     (case sl_step q c st of
        (Row cols, c', st') \<Rightarrow> query_loop q c' st' (acc @ [rowToMap cols])
      | (Done, c', st') \<Rightarrow> Some (acc, c')
      | (Failed, c', st') \<Rightarrow> Some (acc, c'))"

definition db_query :: "('c, 's) sqlite \<Rightarrow> string \<Rightarrow> string list \<Rightarrow> 'c db_handle \<Rightarrow>
    (row list \<times> 'c db_handle) option" where
  "db_query q sql ps h =
     (case dh_conn h of
        None \<Rightarrow> Some ([], h)
      | Some c \<Rightarrow> (case sl_prepare q c sql of
          None \<Rightarrow> Some ([], h)
        | Some st \<Rightarrow> map_option (\<lambda>(rows, c'). (rows, h\<lparr>dh_conn := Some c'\<rparr>)) (query_loop q c (bindParams q ps st) [])))"

text \<open>\<open>row.begin()\<close> of an unordered map: \<open>pick\<close> is the order the library gives a row of several columns.\<close>

definition db_queryScalar :: "(row \<Rightarrow> string) \<Rightarrow> ('c, 's) sqlite \<Rightarrow> string \<Rightarrow> string list \<Rightarrow> 'c db_handle \<Rightarrow>
    string \<times> 'c db_handle" where
  "db_queryScalar pick q sql ps h =
     (case db_queryOne q sql ps h of (row, h') \<Rightarrow> (case row of [] \<Rightarrow> [] | [(c, v)] \<Rightarrow> v | _ \<Rightarrow> col row (pick row), h'))"

definition lastInsertId :: "('c, 's) sqlite \<Rightarrow> 'c db_handle \<Rightarrow> int" where
  "lastInsertId q h = (case dh_conn h of None \<Rightarrow> 0 | Some c \<Rightarrow> sl_rowid q c)"

text \<open>The function may throw (\<open>False\<close>): then neither \<open>COMMIT\<close> nor \<open>ROLLBACK\<close> is issued.\<close>

definition db_transaction :: "('c, 's) sqlite \<Rightarrow> ('c db_handle \<Rightarrow> 'c db_handle \<times> bool) \<Rightarrow> 'c db_handle \<Rightarrow> 'c db_handle \<times> bool" where
  "db_transaction q fn h =
     (if dh_conn h = None then (h, True)
      else case fn (db_exec q ''BEGIN'' h) of (h', ok) \<Rightarrow> (if ok then db_exec q ''COMMIT'' h' else h', ok))"

section \<open>One row and all rows\<close>

text \<open>The statement after \<open>n\<close> steps that gave rows.\<close>

fun after_rows :: "('c, 's) sqlite \<Rightarrow> nat \<Rightarrow> 'c \<Rightarrow> 's \<Rightarrow> ('c \<times> 's) option" where
  "after_rows q 0 c st = Some (c, st)"
| "after_rows q (Suc n) c st = (case sl_step q c st of (Row cols, c', st') \<Rightarrow> after_rows q n c' st' | _ \<Rightarrow> None)"

lemma query_loop_appends:
  assumes "query_loop q c st acc = Some y"
  shows "\<exists>more. fst y = acc @ more"
proof (rule query_loop.raw_induct [where P = "\<lambda>_ _ _ acc y. \<exists>more. fst y = acc @ more", OF _ assms], goal_cases)
  case (1 loop q c st acc y)
  show ?case
  proof (cases "sl_step q c st")
    case (fields r c' st')
    with 1(2) have "(\<exists>cols. loop q c' st' (acc @ [rowToMap cols]) = Some y) \<or> fst y = acc"
      by (auto split: stepped.splits)
    then show ?thesis using 1(1) [of q c' st' _ y] by (metis append.assoc append.right_neutral)
  qed
qed

lemma query_loop_ends:
  assumes "query_loop q c st acc = Some y"
  shows "\<exists>n c' st'. after_rows q n c st = Some (c', st') \<and> (\<forall>cols. fst (sl_step q c' st') \<noteq> Row cols)"
proof (rule query_loop.raw_induct
    [where P = "\<lambda>q c st acc y. \<exists>n c' st'. after_rows q n c st = Some (c', st') \<and> (\<forall>cols. fst (sl_step q c' st') \<noteq> Row cols)",
     OF _ assms], goal_cases)
  case (1 loop q c st acc y)
  show ?case
  proof (cases "sl_step q c st")
    case (fields r c' st')
    show ?thesis
    proof (cases r)
      case (Row cols)
      with 1(2) fields have l: "loop q c' st' (acc @ [rowToMap cols]) = Some y" by simp
      from 1(1) [OF l] obtain n c1 st1 where "after_rows q n c' st' = Some (c1, st1)" "\<forall>cols. fst (sl_step q c1 st1) \<noteq> Row cols"
        by (elim exE conjE)
      with fields Row have "after_rows q (Suc n) c st = Some (c1, st1)" by simp
      with \<open>\<forall>cols. fst (sl_step q c1 st1) \<noteq> Row cols\<close> show ?thesis by blast
    next
      case Done
      with fields show ?thesis by (intro exI [of _ 0] exI [of _ c] exI [of _ st]) simp
    next
      case Failed
      with fields show ?thesis by (intro exI [of _ 0] exI [of _ c] exI [of _ st]) simp
    qed
  qed
qed

lemma query_loop_returns:
  "after_rows q n c st = Some (c', st') \<Longrightarrow> (\<And>cols. fst (sl_step q c' st') \<noteq> Row cols) \<Longrightarrow> \<exists>y. query_loop q c st acc = Some y"
proof (induction n arbitrary: c st acc)
  case 0
  then show ?case by (subst query_loop.simps) (cases "sl_step q c st", cases "fst (sl_step q c st)", auto)
next
  case (Suc n)
  then obtain cols c1 st1 where s: "sl_step q c st = (Row cols, c1, st1)" "after_rows q n c1 st1 = Some (c', st')"
    by (auto split: stepped.splits prod.splits)
  from Suc.IH [OF s(2) Suc.prems(2), of "acc @ [rowToMap cols]"] show ?case
    by (subst query_loop.simps) (simp add: s(1))
qed

text \<open>A query answers exactly when its statement runs out of rows, and its first row is what \<open>queryOne\<close> gives.\<close>

theorem query_answers_iff:
  assumes "dh_conn h = Some c" "sl_prepare q c sql = Some st"
  shows "(\<exists>rows h'. db_query q sql ps h = Some (rows, h')) \<longleftrightarrow>
    (\<exists>n c' st'. after_rows q n c (bindParams q ps st) = Some (c', st') \<and> (\<forall>cols. fst (sl_step q c' st') \<noteq> Row cols))"
proof -
  have "(\<exists>rows h'. db_query q sql ps h = Some (rows, h')) \<longleftrightarrow> (\<exists>y. query_loop q c (bindParams q ps st) [] = Some y)"
    using assms by (auto simp: db_query_def)
  then show ?thesis by (metis query_loop_ends query_loop_returns)
qed

theorem queryOne_first:
  assumes "db_query q sql ps h = Some (rows, h')"
  shows "fst (db_queryOne q sql ps h) = (case rows of [] \<Rightarrow> [] | r # _ \<Rightarrow> r)"
proof (cases "dh_conn h")
  case None
  with assms show ?thesis by (simp add: db_query_def db_queryOne_def)
next
  case (Some c)
  show ?thesis
  proof (cases "sl_prepare q c sql")
    case None
    with assms Some show ?thesis by (simp add: db_query_def db_queryOne_def)
  next
    case st: (Some st)
    with assms Some obtain c' where l: "query_loop q c (bindParams q ps st) [] = Some (rows, c')"
      by (auto simp: db_query_def)
    obtain r c1 st1 where s: "sl_step q c (bindParams q ps st) = (r, c1, st1)" by (cases "sl_step q c (bindParams q ps st)") auto
    show ?thesis
    proof (cases r)
      case (Row cols)
      with l s have "query_loop q c1 st1 [rowToMap cols] = Some (rows, c')" by (subst (asm) query_loop.simps) simp
      from query_loop_appends [OF this] s Row Some st show ?thesis by (auto simp: db_queryOne_def)
    next
      case Done
      with l s Some st show ?thesis by (subst (asm) query_loop.simps) (simp add: db_queryOne_def)
    next
      case Failed
      with l s Some st show ?thesis by (subst (asm) query_loop.simps) (simp add: db_queryOne_def)
    qed
  qed
qed

section \<open>Settings through the wrappers\<close>

text \<open>The statement that \<open>getSetting\<close> issues, over the table of settings: a statement is its parameter and whether
  the row was given.\<close>

definition settings_query :: string where
  "settings_query = ''SELECT value FROM settings WHERE key=?''"

definition settings_sql :: "(database, string \<times> bool) sqlite" where
  "settings_sql = \<lparr>sl_open = (\<lambda>_. None), sl_exec = (\<lambda>_ d. d),
     sl_prepare = (\<lambda>_ sql. if sql = settings_query then Some ([], False) else None),
     sl_bind = (\<lambda>i v (_, given). (v, given)),
     sl_step = (\<lambda>d (k, given). case (if given then None else db_settings d k) of
        None \<Rightarrow> (Done, d, (k, given)) | Some v \<Rightarrow> (Row [(''value'', Some v)], d, (k, True))),
     sl_rowid = (\<lambda>_. 0)\<rparr>"

definition setting_read :: "(database, 's) sqlite \<Rightarrow> database db_handle \<Rightarrow> string \<Rightarrow> string \<Rightarrow> string" where
  "setting_read q h key fallback =
     (let row = fst (db_queryOne q settings_query [key] h)
      in if row = [] then fallback
         else
           let v = col row ''value''
           in if 2 \<le> length v \<and> hd v = CHR 0x22 \<and> last v = CHR 0x22 then butlast (tl v) else v)"

theorem setting_read_exact:
  assumes "dh_conn h = Some d" "\<And>v. db_settings d key = Some v \<Longrightarrow> CHR 0x00 \<notin> set v"
  shows "setting_read settings_sql h key fallback = getSetting d key fallback"
proof (cases "db_settings d key")
  case None
  with assms(1) show ?thesis
    by (simp add: setting_read_def getSetting_def db_queryOne_def settings_sql_def bindParams_def enumerate_eq_zip)
next
  case (Some v)
  with assms have "c_text (Some v) = v" by (auto simp: c_text_def takeWhile_eq_all_conv)
  with assms(1) Some show ?thesis
    by (simp add: setting_read_def getSetting_def db_queryOne_def settings_sql_def bindParams_def enumerate_eq_zip rowToMap_def
        col_def Let_def)
qed

end
