(* ===== verification/TeamRoutes.thy ===== *)
theory TeamRoutes
  imports Statements Http
begin

text \<open>
  handlers/team_handler.cpp over the statement wrappers: teams, their invite codes and join requests. The statements
  are texts handed to SQLite, as in the source, since no migration creates the tables and the column they name; what
  that does to the routes is the theorem below. main() does not register these routes.
\<close>

section \<open>Codes, guards\<close>

definition team_chars :: string where
  "team_chars = ''ABCDEFGHJKLMNPQRSTUVWXYZ23456789''"

definition randomCode :: "(nat \<Rightarrow> nat) \<Rightarrow> nat \<Rightarrow> string" where
  "randomCode buf len = map (\<lambda>i. team_chars ! (buf i mod length team_chars)) [0..<len]"

type_synonym 'c team_route = "Context \<Rightarrow> 'c db_handle \<Rightarrow> ('c db_handle \<times> response) option"

abbreviation refuse :: "string \<Rightarrow> int \<Rightarrow> 'c db_handle \<Rightarrow> ('c db_handle \<times> response) option" where
  "refuse msg st h \<equiv> Some (h, ctx_error msg st)"

abbreviation fine :: "(string \<times> json) list \<Rightarrow> 'c db_handle \<Rightarrow> ('c db_handle \<times> response) option" where
  "fine kvs h \<equiv> Some (h, ctx_json (JObj kvs) 200)"

definition in_team :: "row \<Rightarrow> bool" where
  "in_team r = (col r ''teamId'' \<noteq> [] \<and> col r ''teamId'' \<noteq> ''NULL'')"

definition team_of :: "('c, 's) sqlite \<Rightarrow> string \<Rightarrow> 'c db_handle \<Rightarrow> row \<times> 'c db_handle" where
  "team_of q userId h = db_queryOne q ''SELECT teamId FROM users WHERE id=?'' [userId] h"

text \<open>The routes for members go on with the user's row, those for the owner after a look at the team.\<close>

definition with_team :: "('c, 's) sqlite \<Rightarrow> Context \<Rightarrow> string \<Rightarrow> 'c db_handle \<Rightarrow>
    (row \<Rightarrow> 'c db_handle \<Rightarrow> ('c db_handle \<times> response) option) \<Rightarrow> ('c db_handle \<times> response) option" where
  "with_team q ctx msg h k =
     (case team_of q (cx_userId ctx) h of (user, h1) \<Rightarrow> if in_team user then k user h1 else refuse msg 400 h1)"

definition team_owner :: "('c, 's) sqlite \<Rightarrow> row \<Rightarrow> 'c db_handle \<Rightarrow> row \<times> 'c db_handle" where
  "team_owner q user h = db_queryOne q ''SELECT ownerId FROM teams WHERE id=?'' [col user ''teamId''] h"

definition as_team_owner :: "('c, 's) sqlite \<Rightarrow> Context \<Rightarrow> string \<Rightarrow> string \<Rightarrow> int \<Rightarrow> 'c db_handle \<Rightarrow>
    (row \<Rightarrow> 'c db_handle \<Rightarrow> ('c db_handle \<times> response) option) \<Rightarrow> ('c db_handle \<times> response) option" where
  "as_team_owner q ctx msg denied st h k =
     with_team q ctx msg h (\<lambda>user h1. case team_owner q user h1 of (team, h2) \<Rightarrow>
       if team = [] \<or> col team ''ownerId'' \<noteq> cx_userId ctx then refuse denied st h2 else k user h2)"

section \<open>The routes\<close>

definition post_team :: "('c, 's) sqlite \<Rightarrow> env \<Rightarrow> 'c team_route" where
  "post_team q e ctx h =
     (let name = body_str e ctx ''name''
      in if name = [] \<or> 50 < length name then refuse ''Team name required (max 50 chars)'' 400 h
         else (case team_of q (cx_userId ctx) h of (user, h1) \<Rightarrow>
           if in_team user then refuse ''You already belong to a team'' 400 h1
           else
             let h2 = db_exec_params q ''INSERT INTO teams (name, ownerId) VALUES (?, ?)'' [name, cx_userId ctx] h1;
                 i = lastInsertId q h2;
                 h3 = db_exec_params q ''UPDATE users SET teamId=? WHERE id=?'' [to_string i, cx_userId ctx] h2
             in fine [(''message'', JStr ''Team created''), (''teamId'', JInt i), (''name'', JStr name)] h3))"

text \<open>\<open>std::stoll(row["c"])\<close>; \<open>None\<close> is the exception, which becomes a status of 500.\<close>

definition col_int :: "row \<Rightarrow> string \<Rightarrow> json option" where
  "col_int r c = (case stoll (col r c) of Inr n \<Rightarrow> Some (JInt n) | Inl _ \<Rightarrow> None)"

definition team_member_json :: "row \<Rightarrow> json option" where
  "team_member_json m = map_option (\<lambda>i. JObj [(''id'', i), (''username'', JStr (col m ''username'')), (''role'', JStr (col m ''role'')),
     (''steamId'', JStr (col m ''steamId''))]) (col_int m ''id'')"

definition invite_json :: "row \<Rightarrow> json option" where
  "invite_json c = map_option (\<lambda>i. JObj [(''id'', i), (''code'', JStr (col c ''code'')), (''expiresAt'', JStr (col c ''expiresAt''))])
     (col_int c ''id'')"

definition request_json :: "row \<Rightarrow> json option" where
  "request_json r = (case (col_int r ''id'', col_int r ''userId'') of
     (Some i, Some u) \<Rightarrow> Some (JObj [(''id'', i), (''userId'', u), (''username'', JStr (col r ''username'')),
        (''createdAt'', JStr (col r ''createdAt''))])
   | _ \<Rightarrow> None)"

text \<open>A query whose rows are turned into an array before the next statement.\<close>

definition rows_json :: "('c, 's) sqlite \<Rightarrow> string \<Rightarrow> string list \<Rightarrow> (row \<Rightarrow> json option) \<Rightarrow> 'c db_handle \<Rightarrow>
    (json list \<Rightarrow> 'c db_handle \<Rightarrow> ('c db_handle \<times> response) option) \<Rightarrow> ('c db_handle \<times> response) option" where
  "rows_json q sql ps f h k =
     (case db_query q sql ps h of
        None \<Rightarrow> None
      | Some (rows, h1) \<Rightarrow> (case those (map f rows) of None \<Rightarrow> Some (h1, server_error) | Some js \<Rightarrow> k js h1))"

definition team_json :: "Context \<Rightarrow> row \<Rightarrow> json list \<Rightarrow> json list \<Rightarrow> json list \<Rightarrow> json option" where
  "team_json ctx team members codes reqs =
     (case (col_int team ''id'', col_int team ''ownerId'') of
        (Some i, Some owner) \<Rightarrow> Some (JObj [(''id'', i), (''name'', JStr (col team ''name'')), (''ownerId'', owner),
          (''isOwner'', JBool (col team ''ownerId'' = cx_userId ctx)), (''members'', JArr members), (''inviteCodes'', JArr codes),
          (''joinRequests'', JArr reqs)])
      | _ \<Rightarrow> None)"

definition get_team :: "('c, 's) sqlite \<Rightarrow> 'c team_route" where
  "get_team q ctx h =
     (case team_of q (cx_userId ctx) h of (user, h1) \<Rightarrow>
        if \<not> in_team user then fine [(''team'', JNull)] h1
        else
          let tid = col user ''teamId''
          in (case db_queryOne q ''SELECT * FROM teams WHERE id=?'' [tid] h1 of (team, h2) \<Rightarrow>
            if team = [] then fine [(''team'', JNull)] h2
            else
              rows_json q ''SELECT id,username,role,steamId,createdAt FROM users WHERE teamId=?'' [tid] team_member_json h2
                (\<lambda>members h3. rows_json q (''SELECT id,code,createdAt,expiresAt FROM team_invite_codes '' @
                     ''WHERE teamId=? AND usedBy IS NULL AND expiresAt > datetime('now') ORDER BY id DESC'') [tid] invite_json h3
                (\<lambda>codes h4. rows_json q (''SELECT r.id,r.userId,r.createdAt,u.username FROM team_join_requests r '' @
                     ''JOIN users u ON r.userId=u.id WHERE r.teamId=? AND r.status='pending' ORDER BY r.id DESC'') [tid] request_json h4
                (\<lambda>reqs h5. case team_json ctx team members codes reqs of
                    None \<Rightarrow> Some (h5, server_error) | Some j \<Rightarrow> fine [(''team'', j)] h5)))))"

definition invite_hours :: "json \<Rightarrow> int" where
  "invite_hours body =
     (let hours = (case j_lookup body ''hours'' of Some (JInt n) \<Rightarrow> wrap32 n | Some (JFloat m x) \<Rightarrow> double_to_int m x | _ \<Rightarrow> 24)
      in if hours < 1 \<or> 168 < hours then 24 else hours)"

definition post_invite :: "('c, 's) sqlite \<Rightarrow> (nat \<Rightarrow> nat) \<Rightarrow> 'c team_route" where
  "post_invite q buf ctx h =
     as_team_owner q ctx ''You don't belong to any team'' ''Only team owner can generate invite codes'' 400 h (\<lambda>user h1.
       let hours = invite_hours (cx_body ctx); code = randomCode buf 8
       in fine [(''code'', JStr code), (''expiresIn'', JStr (to_string hours @ ''h''))]
            (db_exec_params q (''INSERT INTO team_invite_codes (teamId, code, createdBy, expiresAt) '' @
               ''VALUES (?, ?, ?, datetime('now', '+' || ? || ' hours'))'') [col user ''teamId'', code, cx_userId ctx, to_string hours] h1))"

definition post_join_code :: "('c, 's) sqlite \<Rightarrow> env \<Rightarrow> 'c team_route" where
  "post_join_code q e ctx h =
     (let code = body_str e ctx ''code''
      in if code = [] then refuse ''Invite code required'' 400 h
         else (case team_of q (cx_userId ctx) h of (user, h1) \<Rightarrow>
           if in_team user then refuse ''You already belong to a team. Leave first.'' 400 h1
           else (case db_queryOne q (''SELECT id,teamId FROM team_invite_codes WHERE code=? AND usedBy IS NULL '' @
                   ''AND expiresAt > datetime('now')'') [code] h1 of (invite, h2) \<Rightarrow>
             if invite = [] then refuse ''Invalid or expired invite code'' 400 h2
             else
               let h3 = db_exec_params q ''UPDATE team_invite_codes SET usedBy=?, usedAt=datetime('now') WHERE id=?''
                          [cx_userId ctx, col invite ''id''] h2;
                   h4 = db_exec_params q ''UPDATE users SET teamId=? WHERE id=?'' [col invite ''teamId'', cx_userId ctx] h3
               in (case db_queryOne q ''SELECT name FROM teams WHERE id=?'' [col invite ''teamId''] h4 of (tname, h5) \<Rightarrow>
                    fine [(''message'', JStr ''Joined team''), (''teamName'', JStr (col tname ''name''))] h5))))"

definition post_join_request :: "('c, 's) sqlite \<Rightarrow> 'c team_route" where
  "post_join_request q ctx h =
     (case team_of q (cx_userId ctx) h of (user, h1) \<Rightarrow>
        if in_team user then refuse ''You already belong to a team'' 400 h1
        else (case db_queryOne q ''SELECT id FROM teams WHERE id=?'' [ctx_param ctx 1] h1 of (team, h2) \<Rightarrow>
          if team = [] then refuse ''Team not found'' 400 h2
          else fine [(''message'', JStr ''Join request submitted'')]
            (db_exec_params q ''INSERT OR REPLACE INTO team_join_requests (teamId, userId, status) VALUES (?, ?, 'pending')''
               [ctx_param ctx 1, cx_userId ctx] h2)))"

definition available_json :: "row \<Rightarrow> json option" where
  "available_json r = (case (col_int r ''id'', stoi (col r ''memberCount'')) of
     (Some i, Inr n) \<Rightarrow> Some (JObj [(''id'', i), (''name'', JStr (col r ''name'')), (''ownerName'', JStr (col r ''ownerName'')),
        (''memberCount'', JInt n)])
   | _ \<Rightarrow> None)"

definition get_available :: "('c, 's) sqlite \<Rightarrow> 'c team_route" where
  "get_available q ctx h =
     rows_json q (''SELECT t.id,t.name,u.username as ownerName,COUNT(m.id) as memberCount FROM teams t '' @
         ''JOIN users u ON t.ownerId=u.id LEFT JOIN users m ON m.teamId=t.id GROUP BY t.id ORDER BY t.id DESC'') [] available_json h
       (\<lambda>arr h1. fine [(''teams'', JArr arr)] h1)"

definition post_approve_request :: "('c, 's) sqlite \<Rightarrow> 'c team_route" where
  "post_approve_request q ctx h =
     as_team_owner q ctx ''No team'' ''Only team owner'' 403 h (\<lambda>user h1.
       case db_queryOne q ''SELECT userId,status FROM team_join_requests WHERE id=? AND teamId=?''
              [ctx_param ctx 1, col user ''teamId''] h1 of (req, h2) \<Rightarrow>
         if req = [] \<or> col req ''status'' \<noteq> ''pending'' then refuse ''Request not found or already resolved'' 400 h2
         else (case team_of q (col req ''userId'') h2 of (target, h3) \<Rightarrow>
           if in_team target then refuse ''User already joined another team'' 400
             (db_exec_params q ''UPDATE team_join_requests SET status='rejected', resolvedAt=datetime('now') WHERE id=?'' [ctx_param ctx 1] h3)
           else fine [(''message'', JStr ''Approved'')]
             (db_exec_params q ''UPDATE users SET teamId=? WHERE id=?'' [col user ''teamId'', col req ''userId'']
               (db_exec_params q ''UPDATE team_join_requests SET status='approved', resolvedAt=datetime('now') WHERE id=?'' [ctx_param ctx 1] h3))))"

definition post_reject_request :: "('c, 's) sqlite \<Rightarrow> 'c team_route" where
  "post_reject_request q ctx h =
     as_team_owner q ctx ''No team'' ''Only team owner'' 403 h (\<lambda>user h1.
       fine [(''message'', JStr ''Rejected'')]
         (db_exec_params q ''UPDATE team_join_requests SET status='rejected', resolvedAt=datetime('now') WHERE id=? AND teamId=?''
            [ctx_param ctx 1, col user ''teamId''] h1))"

definition del_team_member :: "('c, 's) sqlite \<Rightarrow> 'c team_route" where
  "del_team_member q ctx h =
     with_team q ctx ''No team'' h (\<lambda>user h1. case team_owner q user h1 of (team, h2) \<Rightarrow>
       let owner = (col team ''ownerId'' = cx_userId ctx); self = (ctx_param ctx 1 = cx_userId ctx)
       in if team = [] then refuse ''Team not found'' 400 h2
          else if \<not> owner \<and> \<not> self then refuse ''Only team owner can remove members'' 403 h2
          else if owner \<and> self then refuse ''Team owner cannot leave'' 400 h2
          else fine [(''message'', JStr (if self then ''Left team'' else ''Member removed''))]
            (db_exec_params q ''UPDATE users SET teamId=NULL WHERE id=? AND teamId=?'' [ctx_param ctx 1, col user ''teamId''] h2))"

definition del_invite :: "('c, 's) sqlite \<Rightarrow> 'c team_route" where
  "del_invite q ctx h =
     as_team_owner q ctx ''No team'' ''Only team owner'' 403 h (\<lambda>user h1.
       fine [(''message'', JStr ''Revoked'')]
         (db_exec_params q ''DELETE FROM team_invite_codes WHERE id=? AND teamId=?'' [ctx_param ctx 1, col user ''teamId''] h1))"

definition registerTeamRoutes :: "('c, 's) sqlite \<Rightarrow> env \<Rightarrow> (nat \<Rightarrow> nat) \<Rightarrow> (string \<times> string \<times> 'c team_route) list" where
  "registerTeamRoutes q e buf =
    [(''POST'', ''/api/teams'', post_team q e),
     (''GET'', ''/api/teams'', get_team q),
     (''POST'', ''/api/teams/invite-code'', post_invite q buf),
     (''POST'', ''/api/teams/join-by-code'', post_join_code q e),
     (''POST'', ''/api/teams/(~d+)/join-request'', post_join_request q),
     (''GET'', ''/api/teams/available'', get_available q),
     (''POST'', ''/api/teams/requests/(~d+)/approve'', post_approve_request q),
     (''POST'', ''/api/teams/requests/(~d+)/reject'', post_reject_request q),
     (''DELETE'', ''/api/teams/members/(~d+)'', del_team_member q),
     (''DELETE'', ''/api/teams/invite-code/(~d+)'', del_invite q)]"

section \<open>Without the tables\<close>

text \<open>The statements that name a table or a column of the teams and that a route reaches when those before it gave
  nothing; SQLite compiles no statement that names a table or a column that does not exist.\<close>

definition team_sql :: "string list" where
  "team_sql = [''SELECT teamId FROM users WHERE id=?'', ''INSERT INTO teams (name, ownerId) VALUES (?, ?)'',
     ''UPDATE users SET teamId=? WHERE id=?'',
     ''SELECT id,teamId FROM team_invite_codes WHERE code=? AND usedBy IS NULL '' @ ''AND expiresAt > datetime('now')'',
     ''SELECT id FROM teams WHERE id=?'',
     ''SELECT t.id,t.name,u.username as ownerName,COUNT(m.id) as memberCount FROM teams t '' @
       ''JOIN users u ON t.ownerId=u.id LEFT JOIN users m ON m.teamId=t.id GROUP BY t.id ORDER BY t.id DESC'']"

definition no_teams :: "('c, 's) sqlite \<Rightarrow> bool" where
  "no_teams q = (\<forall>c. \<forall>sql \<in> set team_sql. sl_prepare q c sql = None)"

lemma unprepared:
  assumes "\<And>c. sl_prepare q c sql = None"
  shows "db_queryOne q sql ps h = ([], h)" "db_query q sql ps h = Some ([], h)" "db_exec_params q sql ps h = h"
  using assms by (simp_all add: db_queryOne_def db_query_def db_exec_params_def split: option.split)

lemma no_teams_unprepared:
  assumes "no_teams q" "sql \<in> set team_sql"
  shows "db_queryOne q sql ps h = ([], h)" "db_query q sql ps h = Some ([], h)" "db_exec_params q sql ps h = h"
proof -
  have "sl_prepare q c sql = None" for c using assms by (simp add: no_teams_def)
  from unprepared [of q sql, OF this] show
    "db_queryOne q sql ps h = ([], h)" "db_query q sql ps h = Some ([], h)" "db_exec_params q sql ps h = h" .
qed

lemma not_in_team [simp]: "\<not> in_team []"
  by (simp add: in_team_def col_def)

text \<open>No team route changes anything in a database without the tables. A team is reported as made all the same, with
  the id of whatever the connection inserted last; there is no team to be seen, left or joined afterwards.\<close>

theorem team_routes_dead:
  assumes "no_teams q" "(m, pat, r) \<in> set (registerTeamRoutes q e buf)"
  shows "\<exists>reply. r ctx h = Some (h, reply)"
proof -
  note n = no_teams_unprepared [OF assms(1)]
  have u: "team_of q i h = ([], h)" for i by (simp add: team_of_def n team_sql_def)
  note defs = post_team_def get_team_def post_invite_def post_join_code_def post_join_request_def get_available_def
    post_approve_request_def post_reject_request_def del_team_member_def del_invite_def as_team_owner_def with_team_def rows_json_def
  from assms(2) show ?thesis unfolding registerTeamRoutes_def
    by (auto simp: defs u n team_sql_def Let_def)
qed

theorem team_creation_pretends:
  assumes "no_teams q" "body_str e ctx ''name'' \<noteq> []" "length (body_str e ctx ''name'') \<le> 50"
  shows "post_team q e ctx h = fine [(''message'', JStr ''Team created''), (''teamId'', JInt (lastInsertId q h)),
      (''name'', JStr (body_str e ctx ''name''))] h"
proof -
  note n = no_teams_unprepared [OF assms(1)]
  have u: "team_of q i h = ([], h)" for i by (simp add: team_of_def n team_sql_def)
  show ?thesis using assms(2, 3) by (simp add: post_team_def u n team_sql_def Let_def)
qed

end
