(* ===== verification/Workers.thy ===== *)
theory Workers
  imports Prelude
begin

text \<open>
  The threads of the panel and how main() ends them: the tailers (core/local_log_tailer.cpp), the pollers
  (core/remote_api_poller.cpp), the flush thread of the WebSocket handler (net/ws_handler.cpp) and the four background
  tasks (tasks/tasks.cpp). A loop looks at its running flag between two rounds, so a thread ends once its flag is
  down, unless the round it is in blocks for ever - a command on a silent game server, the placeholder loop of the
  welcome plugin. What a round does is in the theories of these components.
\<close>

section \<open>One worker\<close>

text \<open>A thread is joinable from its start until it is joined; \<open>Some True\<close> is one whose round never ends.\<close>

record worker =
  wk_running :: bool
  wk_thread :: "bool option"

definition fresh_worker :: worker where
  "fresh_worker = \<lparr>wk_running = False, wk_thread = None\<rparr>"

text \<open>\<open>None\<close>: assigning to a thread that is joinable ends the process.\<close>

definition worker_start :: "worker \<Rightarrow> worker option" where
  "worker_start w =
     (if wk_running w then Some w
      else if wk_thread w \<noteq> None then None
      else Some \<lparr>wk_running = True, wk_thread = Some False\<rparr>)"

text \<open>\<open>None\<close>: the join never returns.\<close>

definition worker_stop :: "worker \<Rightarrow> worker option" where
  "worker_stop w =
     (case wk_thread w of
        None \<Rightarrow> Some (w\<lparr>wk_running := False\<rparr>)
      | Some stuck \<Rightarrow> if stuck then None else Some \<lparr>wk_running = False, wk_thread = None\<rparr>)"

definition poller_start :: "worker \<Rightarrow> worker option" where
  "poller_start = worker_start"

definition poller_stop :: "worker \<Rightarrow> worker option" where
  "poller_stop = worker_stop"

text \<open>The constructor and the destructor of the WebSocket handler.\<close>

definition flush_start :: worker where
  "flush_start = \<lparr>wk_running = True, wk_thread = Some False\<rparr>"

definition flush_stop :: "worker \<Rightarrow> worker option" where
  "flush_stop = worker_stop"

text \<open>Starts and stops in any order, and rounds that block.\<close>

inductive worker_step :: "worker \<Rightarrow> worker \<Rightarrow> bool" where
  started: "worker_start w = Some w' \<Longrightarrow> worker_step w w'"
| stopped: "worker_stop w = Some w' \<Longrightarrow> worker_step w w'"
| blocks: "wk_thread w = Some False \<Longrightarrow> worker_step w (w\<lparr>wk_thread := Some True\<rparr>)"

inductive worker_reach :: "worker \<Rightarrow> bool" where
  fresh: "worker_reach fresh_worker"
| next_state: "worker_reach w \<Longrightarrow> worker_step w w' \<Longrightarrow> worker_reach w'"

definition worker_ok :: "worker \<Rightarrow> bool" where
  "worker_ok w = (wk_running w = (wk_thread w \<noteq> None))"

lemma worker_step_ok: "worker_step w w' \<Longrightarrow> worker_ok w \<Longrightarrow> worker_ok w'"
  by (induction rule: worker_step.induct) (auto simp: worker_ok_def worker_start_def worker_stop_def split: if_splits option.splits)

lemma worker_reach_ok: "worker_reach w \<Longrightarrow> worker_ok w"
  by (induction rule: worker_reach.induct) (simp_all add: worker_step_ok, simp add: worker_ok_def fresh_worker_def)

theorem worker_never_terminates: "worker_reach w \<Longrightarrow> worker_start w \<noteq> None"
  by (auto simp: worker_start_def worker_ok_def dest: worker_reach_ok)

section \<open>Managers, tasks and the end of main\<close>

fun stop_each :: "worker list \<Rightarrow> bool" where
  "stop_each [] = True"
| "stop_each (w # ws) = (worker_stop w \<noteq> None \<and> stop_each ws)"

definition stop_all_tailers :: "worker list \<Rightarrow> worker list option" where
  "stop_all_tailers ws = (if stop_each ws then Some [] else None)"

definition stop_all_pollers :: "worker list \<Rightarrow> worker list option" where
  "stop_all_pollers ws = (if stop_each ws then Some [] else None)"

record TimedTasks =
  tt_running :: bool
  tt_threads :: "bool list"

definition tasks_start :: "TimedTasks \<Rightarrow> TimedTasks" where
  "tasks_start t = t\<lparr>tt_running := True, tt_threads := tt_threads t @ [False, False, False, False]\<rparr>"

definition tasks_stop :: "TimedTasks \<Rightarrow> TimedTasks option" where
  "tasks_stop t = (if list_ex id (tt_threads t) then None else Some \<lparr>tt_running = False, tt_threads = []\<rparr>)"

record workers =
  wr_tailers :: "worker list"
  wr_pollers :: "worker list"
  wr_tasks :: TimedTasks

definition main_stop :: "workers \<Rightarrow> workers option" where
  "main_stop r =
     (case stop_all_tailers (wr_tailers r) of
        None \<Rightarrow> None
      | Some ts \<Rightarrow> (case stop_all_pollers (wr_pollers r) of
          None \<Rightarrow> None
        | Some ps \<Rightarrow> map_option (\<lambda>tt. \<lparr>wr_tailers = ts, wr_pollers = ps, wr_tasks = tt\<rparr>) (tasks_stop (wr_tasks r))))"

definition stuck_thread :: "workers \<Rightarrow> bool" where
  "stuck_thread r = (list_ex (\<lambda>w. wk_thread w = Some True) (wr_tailers r @ wr_pollers r) \<or> list_ex id (tt_threads (wr_tasks r)))"

lemma stop_each_iff: "stop_each ws \<longleftrightarrow> \<not> list_ex (\<lambda>w. wk_thread w = Some True) ws"
  by (induction ws) (auto simp: worker_stop_def split: option.splits)

text \<open>The panel ends exactly when no round in progress blocks, and then no thread is left.\<close>

theorem shutdown_completes:
  "main_stop r = (if stuck_thread r then None
     else Some \<lparr>wr_tailers = [], wr_pollers = [], wr_tasks = \<lparr>tt_running = False, tt_threads = []\<rparr>\<rparr>)"
  by (auto simp: main_stop_def stuck_thread_def stop_all_tailers_def stop_all_pollers_def tasks_stop_def stop_each_iff)

end
