(* ===== verification/Spec2Isabelle.thy ===== *)
theory Spec2Isabelle
  imports Core Encoding Json Database Points Auth Regex LogParser LogEvents PlayerList
    World TKForgive ChatCommands CdkRedeem Plugins Rcon RconProps Tasks
    Http EventRoutes EventProps WsHandler Sql AuthRoutes AuthProps ServerRoutes ServerProps
    ModerationRoutes ModerationProps ListRoutes ListProps
    SettingsRoutes SettingsProps Scramble WorkerProps RelayProps RelayRconProps RelayGameProps RelayHttpProps
    Startup OtherRoutes Routes RouteFrames RouteProps Permissions Statements TeamRoutes Workers
begin

text \<open>
  A verification development for mbsquad, the C++ control panel of Squad game servers under src/src/ and the
  relay that runs beside a game server, src/relay/main.cpp.
  The panel keeps its state in one SQLite database (core/database.cpp), reads the game servers' log lines
  (core/log_parser.cpp), talks to them over RCON (net/rcon.cpp), hands every event to a fixed list of
  plugins (plugins/), runs four background loops (tasks/tasks.cpp) and serves an HTTP and WebSocket
  interface (handlers/, net/).

  \<^item> \<open>Prelude\<close>: bytes, trimming, decimal numerals, \<open>stoi\<close>/\<open>stoll\<close> with their errors, tables with row ids
    and \<open>AUTOINCREMENT\<close>, generic list lemmas, and the locales shared by several components.
  \<^item> \<open>Core\<close>: core/core.cpp and core/shared_utils.h - the configuration file and environment, ids and tokens,
    URL decoding, HTML and RCON escaping, relay URLs, page parameters. \<open>Encoding\<close>: the hex and base64
    routines of core/auth.cpp over words. \<open>Json\<close>: the values of the JSON library and its accessors.
  \<^item> \<open>Database\<close>: one record per table of \<open>Database::migrate\<close> and the settings accessors. SQL statements are
    functions on these tables; foreign keys and unique indexes reject a row as SQLite does. \<open>Statements\<close>: the
    connection and the statement wrappers of core/database.cpp, over SQLite as a parameter.
  \<^item> \<open>Points\<close>: core/points_service.cpp and \<open>adjustPoints\<close>. \<open>Auth\<close>: core/auth.cpp, with scrypt and the
    random source as parameters.
  \<^item> \<open>Regex\<close>: \<open>std::regex\<close> (the ECMAScript constructs the patterns use): a pattern compiler and a
    backtracking matcher, equivalent to the language of the pattern. \<open>LogParser\<close>: every pattern and every
    method of \<open>LogParser\<close>; \<open>LogEvents\<close> and \<open>PlayerList\<close> hold its properties.
  \<^item> \<open>World\<close>: the database with the commands sent so far, and the environment (clocks, answers of game
    servers, random draws, the JSON library). \<open>TKForgive\<close>, \<open>ChatCommands\<close>, \<open>CdkRedeem\<close>, \<open>Plugins\<close>: the
    plugins, the checker task, and \<open>PluginManager::dispatch\<close>.

  \<^item> \<open>Rcon\<close>, \<open>RconProps\<close>: net/rcon.cpp - frames on the wire, the client and the pool over streams of
    arrivals (bytes, gaps in which a poll times out, the end of the connection, silence).
  \<^item> \<open>Tasks\<close>: one round of each loop of tasks/tasks.cpp; the team-kill checker is in \<open>TKForgive\<close>.
  \<^item> \<open>Http\<close>: net/server.cpp - contexts, responses and the wrapper that checks the session of a route.
    \<open>EventRoutes\<close>, \<open>EventProps\<close>: handlers/event_handler.cpp, which the relays post game events to and which
    drives the log parser, the points and the plugins. \<open>WsHandler\<close>: net/ws_handler.cpp.
  \<^item> \<open>Sql\<close>: what the routes use of SQLite - column affinity (a text compared with an integer column), \<open>LIKE\<close>,
    ordering, limits and pages. \<open>AuthRoutes\<close>, \<open>AuthProps\<close>: handlers/auth_handler.cpp and admin_handler.cpp,
    accounts and their administration. \<open>ServerRoutes\<close>, \<open>ServerProps\<close>: server_handler.cpp, relay_routes.cpp and
    the relay's part of query_handler.cpp. \<open>ModerationRoutes\<close>, \<open>ModerationProps\<close>: bans, team-kill records,
    points, players, RCON commands, reserved slots and redeem codes (the handlers of these names).
    A handler maps the request's context and the panel's state to the new state and a response; \<open>None\<close> is a
    crash or an endless loop of the process. A route that inserts a row takes the id that the connection
    inserted last as an argument, which it answers when a constraint rejects the row.

  \<^item> \<open>ListRoutes\<close>, \<open>ListProps\<close>: the routes that list what the panel recorded (chat, kills, revives, events, rounds,
    squads, switch locks, presets, plugin checks, players), over the general page query. \<open>SettingsRoutes\<close>,
    \<open>SettingsProps\<close>: configuration, plugins, broadcasts, operator log and upload. \<open>Scramble\<close>: the balanced
    mixing of teams of misc_handler.cpp; the rounding of floating-point numbers and the order in which
    \<open>std::sort\<close> leaves equal elements are parameters.
  \<^item> \<open>Registry\<close>: the locale of the two managers that keep one worker per server. \<open>LocalTail\<close>:
    core/local_log_tailer.cpp, with the error bits of the input stream. \<open>RemoteApi\<close>: core/remote_api_poller.cpp,
    the three adapters, what a poll stores, and the manager. \<open>WorkerProps\<close> holds the properties of both.
  \<^item> \<open>OtherRoutes\<close>: the fixed plugin descriptions, the tick chart, the download of the relay and the builds.
    \<open>Startup\<close>: main.cpp and the data that \<open>Database::migrate\<close> writes - keys of the servers, default settings, the
    relay's token - and what runs when the panel listens.
  \<^item> \<open>Routes\<close>: the panel as one server - every register function in the order of main.cpp, the choice of a route
    by method and path, and the wrapper of net/server.cpp around its handler; the record \<open>outside\<close> holds what the
    rest of the world answers. \<open>RouteFrames\<close>: which handlers leave the panel, and which the accounts, as they are.
    \<open>RouteProps\<close>: what holds over any sequence of requests. \<open>Permissions\<close>: that no route looks at them.
    \<open>TeamRoutes\<close>: handlers/team_handler.cpp, whose routes main() does not register and whose tables no migration
    creates, over the statement wrappers. \<open>Workers\<close>: the threads of the panel, how they are started and stopped, and the end of main().
  \<^item> The relay agent, relay/main.cpp. \<open>RelayConfig\<close>: the configuration and its file. \<open>RelayCore\<close>: text and path
    tools, the HTTP client, the removal of repeated lines, the batches, the reader of the game's log (the
    Windows branch). \<open>RelayRcon\<close>: its own RCON client over an inbox that a server fills. \<open>RelayGame\<close>: the game's
    process with its thread handles, where \<open>None\<close> is \<open>std::terminate\<close>, and the program's start and end as a step
    relation. \<open>RelayHttp\<close>: the game server's files and both HTTP servers of the relay. \<open>RelayProps\<close>,
    \<open>RelayRconProps\<close>, \<open>RelayGameProps\<close>, \<open>RelayHttpProps\<close>: their properties.

  The lemma groups: the ledger invariant of points against their log; the session, permission and rate-limit
  rules and what a protected route demands; what a log line yields, the pairing of wounds and deaths, the
  player list as an inverse of its printed form; who is kicked and who forgiven, also under every interleaving
  of the two threads; what a chat command may change; the limits of redeem codes; what a dispatch and an event
  route preserve; frames as an inverse of their encoding, what a command's answer is, what the pool
  guarantees; what a refresh records and a clean-up keeps; that differences of player lists are complete; that
  accounts stay well-typed, who may change accounts, servers and members and how the guards can be passed by
  another spelling of the same id; what a deletion removes; that the pages of a list are the list;
  that a configuration saved is the one read; that the mixed teams are balanced; what a tailer delivers, what the
  panel does with it, and what the polls of a remote panel store; that the relay loses and repeats no appended
  line, what its RCON client answers, how often it can start the game, that it never starts itself, and what its
  file edits leave; that a migration fills gaps and a second one changes nothing, which servers are tailed; and, for
  the panel as a whole, that accounts stay well-typed over any sequence of requests to any route, that a request
  without credentials changes nothing, that only owners change accounts, and that permissions play no part.

  Bounds and fuel. C++ \<open>int\<close> is written out with \<open>wrap32\<close> where it can overflow; SQLite integers are \<open>int\<close>.
  The matcher needs no fuel (it recurses on the pattern and the text); the receive loops of the RCON client
  count their own rounds as the code does (64 packets, 4 of a ping), and a read from a silent peer is the
  outcome \<open>Loop\<close>; the loops that may not end, the placeholder loop of the welcome plugin and the loop over the
  rows of a statement, are \<open>partial_function\<close>s whose \<open>None\<close> is divergence, which the handlers hand on.

  Not modelled: threads other than their start and end and the interleaving of the checker with the chat handler, logging, the
  transports below a request, OpenSSL, SQLite and the JSON library themselves (texts handed to its printer are
  taken to be valid UTF-8); sockets and threads of the relay, the Linux branch of its log search, and a helper of
  the poller that nothing calls; the matching of paths and the static files of cpp-httplib beyond what \<open>Routes\<close>
  states; signals; the socket server of net/ws_server.h, which is declared and implemented nowhere.
\<close>

end
